(* ===== verification/Prelude.thy ===== *)
theory Prelude
  imports Complex_Main "HOL-Library.Char_ord" "HOL-Library.List_Lexorder"
    "HOL-Library.Code_Target_Nat" "HOL-Library.Code_Target_Int" "HOL-Library.AList"
begin

text \<open>
  The shared ground of the development: results of fallible Go functions, the collections of
  simplification rules the components fill, generic facts on lists, association lists and
  filtered updates, Go's \<^verbatim>\<open>float64\<close> comparisons, and the first-error and
  keep-first loops that many functions of the program share.

  A Go \<^verbatim>\<open>error\<close> result is an option (\<open>None\<close> is \<^verbatim>\<open>nil\<close>); a Go
  pair \<^verbatim>\<open>(value, error)\<close> is a sum whose left side is the error. A Go
  \<^verbatim>\<open>string\<close> is a list of bytes, as in Go: \<open>length\<close> is Go's \<^verbatim>\<open>len\<close>.
\<close>

named_theorems go_simps \<open>evaluation rules for the model of Go's string functions\<close>
named_theorems db_simps \<open>selectors of the database after an operation\<close>
named_theorems guard_splits \<open>inversion rules for chains of guards\<close>

type_synonym ('e, 'a) result = "'e + 'a"
type_synonym 'e check = "'e option"

subsection \<open>Results\<close>

definition is_ok :: "('e, 'a) result \<Rightarrow> bool" where
  "is_ok r = (case r of Inl _ \<Rightarrow> False | Inr _ \<Rightarrow> True)"

lemma is_ok_simps [simp]: "is_ok (Inr x)" "\<not> is_ok (Inl e)"
  by (simp_all add: is_ok_def)

lemma is_okE: "is_ok r \<Longrightarrow> (\<And>x. r = Inr x \<Longrightarrow> P) \<Longrightarrow> P"
  by (cases r) auto

subsection \<open>Loops that stop at the first error\<close>

primrec check_all :: "('a \<Rightarrow> 'e check) \<Rightarrow> 'a list \<Rightarrow> 'e check" where
  "check_all f [] = None"
| "check_all f (x # xs) = (case f x of Some e \<Rightarrow> Some e | None \<Rightarrow> check_all f xs)"

lemma check_all_None [simp]: "check_all f xs = None \<longleftrightarrow> (\<forall>x \<in> set xs. f x = None)"
  by (induction xs) (auto split: option.splits)

lemma check_all_Some: "check_all f xs = Some e \<Longrightarrow> \<exists>x \<in> set xs. f x = Some e"
  by (induction xs) (auto split: option.splits)

text \<open>
  \<^verbatim>\<open>if err := check; err != nil { return err }\<close> before the rest of a function, for a
  function that returns a value and for one that returns only an error.
\<close>

definition guard :: "'e check \<Rightarrow> ('e, 'a) result \<Rightarrow> ('e, 'a) result" where
  "guard c r = (case c of Some e \<Rightarrow> Inl e | None \<Rightarrow> r)"

definition and_then :: "'e check \<Rightarrow> 'e check \<Rightarrow> 'e check" where
  "and_then c r = (case c of Some e \<Rightarrow> Some e | None \<Rightarrow> r)"

lemma guard_simps [simp]: "guard None r = r" "guard (Some e) r = Inl e"
  by (simp_all add: guard_def)

lemma guard_Inr [guard_splits]: "guard c r = Inr x \<longleftrightarrow> c = None \<and> r = Inr x"
  by (cases c) simp_all

lemma and_then_simps [simp]: "and_then None r = r" "and_then (Some e) r = Some e"
  by (simp_all add: and_then_def)

lemma and_then_None [guard_splits]: "and_then c r = None \<longleftrightarrow> c = None \<and> r = None"
  by (cases c) simp_all

lemma if_Some_None [guard_splits]:
  "(if c then Some e else r) = None \<longleftrightarrow> \<not> c \<and> r = None"
  by simp

lemma if_Inl_Inr [guard_splits]:
  "(if c then Inl e else r) = Inr x \<longleftrightarrow> \<not> c \<and> r = Inr x"
  by simp

lemma case_option_None [guard_splits]:
  "(case c of Some e \<Rightarrow> Some e | None \<Rightarrow> r) = None \<longleftrightarrow> c = None \<and> r = None"
  by (cases c) auto

lemma case_check_Inr [guard_splits]:
  "(case c of Some e \<Rightarrow> Inl (g e) | None \<Rightarrow> r) = Inr x \<longleftrightarrow> c = None \<and> r = Inr x"
  by (cases c) auto

subsection \<open>Keeping the first occurrence of every value\<close>

text \<open>
  The idiom \<^verbatim>\<open>if !seen[v] { seen[v] = true; result = append(result, v) }\<close>. The
  accumulator holds what was already appended.
\<close>

primrec keep_first_acc :: "'a list \<Rightarrow> 'a list \<Rightarrow> 'a list" where
  "keep_first_acc acc [] = acc"
| "keep_first_acc acc (x # xs) =
     (if x \<in> set acc then keep_first_acc acc xs else keep_first_acc (acc @ [x]) xs)"

definition keep_first :: "'a list \<Rightarrow> 'a list" where
  "keep_first xs = keep_first_acc [] xs"

lemma set_keep_first_acc [simp]: "set (keep_first_acc acc xs) = set acc \<union> set xs"
  by (induction xs arbitrary: acc) auto

lemma distinct_keep_first_acc: "distinct acc \<Longrightarrow> distinct (keep_first_acc acc xs)"
  by (induction xs arbitrary: acc) auto

lemma keep_first_acc_id: "distinct (acc @ xs) \<Longrightarrow> keep_first_acc acc xs = acc @ xs"
  by (induction xs arbitrary: acc) auto

lemma set_keep_first [simp]: "set (keep_first xs) = set xs"
  by (simp add: keep_first_def)

lemma distinct_keep_first [simp]: "distinct (keep_first xs)"
  by (simp add: keep_first_def distinct_keep_first_acc)

lemma keep_first_id: "distinct xs \<Longrightarrow> keep_first xs = xs"
  by (simp add: keep_first_def keep_first_acc_id)

lemma keep_first_idem [simp]: "keep_first (keep_first xs) = keep_first xs"
  by (rule keep_first_id) simp

lemma keep_first_Nil_iff [simp]: "keep_first xs = [] \<longleftrightarrow> xs = []"
  by (metis set_empty set_keep_first)

lemma keep_first_acc_filter:
  "keep_first_acc (filter P acc) (filter P xs) = filter P (keep_first_acc acc xs)"
proof (induction xs arbitrary: acc)
  case (Cons x xs)
  from Cons.IH [of acc] Cons.IH [of "acc @ [x]"] show ?case by auto
qed simp

lemma keep_first_filter: "keep_first (filter P xs) = filter P (keep_first xs)"
  using keep_first_acc_filter [of P "[]"] by (simp add: keep_first_def)

subsection \<open>Tables as lists of rows\<close>

text \<open>
  \<open>update_where\<close> is SQL's \<^verbatim>\<open>UPDATE ... SET ... WHERE\<close>, \<open>rows_affected\<close> what the
  driver reports for it, \<open>find\<close> the first row a query yields.
\<close>

definition update_where :: "('r \<Rightarrow> bool) \<Rightarrow> ('r \<Rightarrow> 'r) \<Rightarrow> 'r list \<Rightarrow> 'r list" where
  "update_where P f rows = map (\<lambda>r. if P r then f r else r) rows"

definition rows_affected :: "('r \<Rightarrow> bool) \<Rightarrow> 'r list \<Rightarrow> nat" where
  "rows_affected P rows = length (filter P rows)"

lemma length_update_where [simp]: "length (update_where P f rows) = length rows"
  by (simp add: update_where_def)

lemma map_update_where [simp]:
  "(\<And>r. g (f r) = g r) \<Longrightarrow> map g (update_where P f rows) = map g rows"
  by (simp add: update_where_def)

lemma image_update_where [simp]:
  "(\<And>r. g (f r) = g r) \<Longrightarrow> g ` set (update_where P f rows) = g ` set rows"
  by (metis map_update_where set_map)

lemma list_all_update_where:
  "list_all Q rows \<Longrightarrow> (\<And>r. Q r \<Longrightarrow> P r \<Longrightarrow> Q (f r)) \<Longrightarrow> list_all Q (update_where P f rows)"
  by (auto simp: update_where_def list_all_iff)

lemma update_where_append [simp]:
  "update_where P f (xs @ ys) = update_where P f xs @ update_where P f ys"
  by (simp add: update_where_def)

lemma update_where_none: "rows_affected P rows = 0 \<Longrightarrow> update_where P f rows = rows"
  by (induction rows) (auto simp: update_where_def rows_affected_def split: if_splits)

lemma in_update_where:
  "r \<in> set (update_where P f rows) \<Longrightarrow>
   \<exists>q \<in> set rows. r = (if P q then f q else q)"
  by (auto simp: update_where_def)

lemma rows_affected_unique:
  assumes "distinct (map k rows)" and "\<And>r. P r \<Longrightarrow> k r = c"
  shows "rows_affected P rows \<le> 1"
proof -
  have "set (map k (filter P rows)) \<subseteq> {c}" using assms(2) by auto
  moreover have "distinct (map k (filter P rows))"
    using assms(1) by (simp add: distinct_map_filter)
  ultimately have "length (map k (filter P rows)) \<le> card {c}"
    by (metis card_mono distinct_card finite.emptyI finite.insertI)
  then show ?thesis by (simp add: rows_affected_def)
qed

lemma rows_affected_pos: "0 < rows_affected P rows \<longleftrightarrow> (\<exists>r \<in> set rows. P r)"
  by (auto simp: rows_affected_def filter_empty_conv)

lemma find_SomeD: "find P xs = Some x \<Longrightarrow> x \<in> set xs \<and> P x"
  by (induction xs) (auto split: if_splits)

lemma find_Some_ex: "x \<in> set xs \<Longrightarrow> P x \<Longrightarrow> \<exists>y. find P xs = Some y"
  by (induction xs) auto

lemma find_unique:
  assumes "distinct (map k rows)" and "r \<in> set rows" and "P r"
    and "\<And>q. P q \<Longrightarrow> k q = k r"
  shows "find P rows = Some r"
proof -
  from assms(2,3) obtain q where q: "find P rows = Some q" using find_Some_ex by metis
  then have "q \<in> set rows" and "P q" using find_SomeD by metis+
  with assms have "q = r" by (metis distinct_map inj_on_def)
  with q show ?thesis by simp
qed

lemma distinct_mapD:
  "distinct (map key rows) \<Longrightarrow> q \<in> set rows \<Longrightarrow> r \<in> set rows \<Longrightarrow> key q = key r \<Longrightarrow> q = r"
  by (metis distinct_map inj_onD)

lemma find_update_where:
  "(\<And>r. key (f r) = key r) \<Longrightarrow>
   find (\<lambda>r. key r = c) (update_where P f rows) =
   map_option (\<lambda>r. if P r then f r else r) (find (\<lambda>r. key r = c) rows)"
  by (induction rows) (auto simp: update_where_def)

lemma find_append [simp]:
  "find P (xs @ ys) = (case find P xs of None \<Rightarrow> find P ys | Some x \<Rightarrow> Some x)"
  by (induction xs) auto

text \<open>A table with an \<^verbatim>\<open>AUTOINCREMENT\<close> key whose next value is \<open>n\<close>.\<close>

definition serial :: "('r \<Rightarrow> int) \<Rightarrow> int \<Rightarrow> 'r list \<Rightarrow> bool" where
  "serial key n rows =
     (0 < n \<and> distinct (map key rows) \<and> list_all (\<lambda>k. 0 < k \<and> k < n) (map key rows))"

lemma serial_Nil [simp]: "serial key 1 []"
  by (simp add: serial_def)

lemma serial_insert: "serial key n rows \<Longrightarrow> key r = n \<Longrightarrow> serial key (n + 1) (rows @ [r])"
  by (force simp: serial_def list_all_iff)

lemma serial_update [simp]:
  "(\<And>r. key (f r) = key r) \<Longrightarrow> serial key n (update_where P f rows) = serial key n rows"
  by (simp add: serial_def)

lemma serial_find_new:
  "serial key n rows \<Longrightarrow> key r = n \<Longrightarrow> find (\<lambda>q. key q = n) (rows @ [r]) = Some r"
  by (rule find_unique [where k = key]) (force simp: serial_def list_all_iff)+

subsection \<open>Comparisons of Go's \<^verbatim>\<open>float64\<close>\<close>

text \<open>
  A finite \<^verbatim>\<open>float64\<close> is a rational number, and Go compares finite values exactly; every
  comparison with a not-a-number is false. Only comparisons are modelled.
\<close>

datatype float64 = Fin rat | PosInf | NegInf | NaN

fun float_le :: "float64 \<Rightarrow> float64 \<Rightarrow> bool" where
  "float_le NaN _ = False"
| "float_le _ NaN = False"
| "float_le NegInf _ = True"
| "float_le _ PosInf = True"
| "float_le (Fin a) (Fin b) = (a \<le> b)"
| "float_le _ _ = False"

fun float_lt :: "float64 \<Rightarrow> float64 \<Rightarrow> bool" where
  "float_lt NaN _ = False"
| "float_lt _ NaN = False"
| "float_lt (Fin a) (Fin b) = (a < b)"
| "float_lt NegInf NegInf = False"
| "float_lt NegInf _ = True"
| "float_lt PosInf _ = False"
| "float_lt (Fin _) PosInf = True"
| "float_lt (Fin _) NegInf = False"

abbreviation float0 :: float64 where
  "float0 \<equiv> Fin 0"

lemma float_lt_le: "a \<noteq> NaN \<Longrightarrow> b \<noteq> NaN \<Longrightarrow> float_lt a b \<longleftrightarrow> \<not> float_le b a"
  by (cases a; cases b) auto

lemma float_lt_trans_le: "float_le a b \<Longrightarrow> float_le b c \<Longrightarrow> float_le a c"
  by (cases a; cases b; cases c) auto

end
