(* ===== verification/Go_Strings.thy ===== *)
theory Go_Strings
  imports Prelude
begin

text \<open>
  The functions of Go's packages \<^verbatim>\<open>strings\<close>, \<^verbatim>\<open>strconv\<close> and
  \<^verbatim>\<open>bufio\<close> that the program calls, on strings as lists of bytes, with the laws the
  components rest on: splitting undoes joining, \<^verbatim>\<open>Atoi\<close> undoes \<^verbatim>\<open>Itoa\<close>,
  trimming is idempotent and leaves trimmed text alone.
\<close>

subsection \<open>Prefixes, suffixes and substrings\<close>

definition HasPrefix :: "string \<Rightarrow> string \<Rightarrow> bool" where
  "HasPrefix s p = (take (length p) s = p)"

definition HasSuffix :: "string \<Rightarrow> string \<Rightarrow> bool" where
  "HasSuffix s p = (length p \<le> length s \<and> drop (length s - length p) s = p)"

definition TrimPrefix :: "string \<Rightarrow> string \<Rightarrow> string" where
  "TrimPrefix s p = (if HasPrefix s p then drop (length p) s else s)"

definition TrimSuffix :: "string \<Rightarrow> string \<Rightarrow> string" where
  "TrimSuffix s p = (if HasSuffix s p then take (length s - length p) s else s)"

fun Contains :: "string \<Rightarrow> string \<Rightarrow> bool" where
  "Contains [] p = (p = [])"
| "Contains (c # s) p = (HasPrefix (c # s) p \<or> Contains s p)"

definition ContainsAny :: "string \<Rightarrow> string \<Rightarrow> bool" where
  "ContainsAny s cs = list_ex (\<lambda>c. c \<in> set cs) s"

text \<open>\<^verbatim>\<open>strings.LastIndex\<close>, with \<open>None\<close> for Go's -1.\<close>

fun LastIndex :: "string \<Rightarrow> string \<Rightarrow> nat option" where
  "LastIndex [] p = (if p = [] then Some 0 else None)"
| "LastIndex (c # s) p =
     (case LastIndex s p of
        Some i \<Rightarrow> Some (Suc i)
      | None \<Rightarrow> if HasPrefix (c # s) p then Some 0 else None)"

lemma HasPrefix_iff: "HasPrefix s p \<longleftrightarrow> (\<exists>t. s = p @ t)"
  by (metis HasPrefix_def append_eq_conv_conj append_take_drop_id)

lemma HasSuffix_iff: "HasSuffix s p \<longleftrightarrow> (\<exists>t. s = t @ p)"
proof
  assume "HasSuffix s p"
  then have "s = take (length s - length p) s @ p"
    by (metis HasSuffix_def append_take_drop_id)
  then show "\<exists>t. s = t @ p" ..
qed (auto simp: HasSuffix_def)

lemma HasPrefix_append [simp]: "HasPrefix (p @ t) p"
  by (simp add: HasPrefix_iff)

lemma HasSuffix_append [simp]: "HasSuffix (t @ p) p"
  by (simp add: HasSuffix_iff)

lemma TrimPrefix_append [simp]: "TrimPrefix (p @ t) p = t"
  by (simp add: TrimPrefix_def)

lemma TrimSuffix_append [simp]: "TrimSuffix (t @ p) p = t"
  by (simp add: TrimSuffix_def)

lemma HasPrefix_Cons [simp]: "HasPrefix (c # s) (d # p) \<longleftrightarrow> c = d \<and> HasPrefix s p"
  by (auto simp: HasPrefix_def)

lemma HasPrefix_Nil [simp]: "HasPrefix s []" "HasPrefix [] (c # p) = False"
  by (simp_all add: HasPrefix_def)

lemma HasSuffix_rev: "HasSuffix s p \<longleftrightarrow> HasPrefix (rev s) (rev p)"
  unfolding HasSuffix_iff HasPrefix_iff by (metis rev_append rev_rev_ident)

lemma HasPrefix_length: "HasPrefix s p \<Longrightarrow> length p \<le> length s"
  by (auto simp: HasPrefix_iff)

lemma Contains_iff: "Contains s p \<longleftrightarrow> (\<exists>a b. s = a @ p @ b)"
proof (induction s)
  case (Cons c s)
  show ?case
  proof
    assume "Contains (c # s) p"
    then consider "HasPrefix (c # s) p" | "Contains s p" by auto
    then show "\<exists>a b. c # s = a @ p @ b"
    proof cases
      case 1
      then show ?thesis unfolding HasPrefix_iff by (metis append_Nil)
    next
      case 2
      with Cons.IH show ?thesis by (metis append_Cons)
    qed
  next
    assume "\<exists>a b. c # s = a @ p @ b"
    then obtain a b where ab: "c # s = a @ p @ b" by blast
    show "Contains (c # s) p"
    proof (cases a)
      case Nil
      with ab have "HasPrefix (c # s) p" by (simp add: HasPrefix_iff)
      then show ?thesis by simp
    next
      case (Cons d a')
      with ab have "s = a' @ p @ b" by simp
      with Cons.IH have "Contains s p" by blast
      then show ?thesis by simp
    qed
  qed
qed simp

lemma Contains_single: "Contains s [c] \<longleftrightarrow> c \<in> set s"
  by (induction s) auto

lemma LastIndex_SomeD: "LastIndex s p = Some i \<Longrightarrow> HasPrefix (drop i s) p \<and> i \<le> length s"
  by (induction s arbitrary: i) (auto split: option.splits if_splits)

lemma ContainsAny_iff: "ContainsAny s cs \<longleftrightarrow> (\<exists>c \<in> set s. c \<in> set cs)"
  by (auto simp: ContainsAny_def list_ex_iff)

subsection \<open>Splitting and joining at a separator byte\<close>

fun Split :: "string \<Rightarrow> char \<Rightarrow> string list" where
  "Split [] c = [[]]"
| "Split (d # s) c =
     (if d = c then [] # Split s c
      else (case Split s c of [] \<Rightarrow> [[d]] | w # ws \<Rightarrow> (d # w) # ws))"

fun Join :: "string list \<Rightarrow> char \<Rightarrow> string" where
  "Join [] c = []"
| "Join [w] c = w"
| "Join (w # ws) c = w @ c # Join ws c"

text \<open>\<^verbatim>\<open>strings.Cut\<close> at one byte: what is before, what is after, and whether it was found.\<close>

fun Cut :: "string \<Rightarrow> char \<Rightarrow> string \<times> string \<times> bool" where
  "Cut [] c = ([], [], False)"
| "Cut (d # s) c =
     (if d = c then ([], s, True)
      else (case Cut s c of (k, v, ok) \<Rightarrow> (d # k, v, ok)))"

lemma Split_ne [simp]: "Split s c \<noteq> []"
  by (induction s) (auto split: list.splits)

lemma Split_no_sep: "w \<in> set (Split s c) \<Longrightarrow> c \<notin> set w"
  by (induction s arbitrary: w) (auto split: if_splits list.splits)

lemma Split_parts: "w \<in> set (Split s c) \<Longrightarrow> set w \<subseteq> set s"
  by (induction s arbitrary: w) (fastforce split: if_splits list.splits)+

lemma Split_single: "c \<notin> set w \<Longrightarrow> Split w c = [w]"
  by (induction w) auto

lemma Split_append_sep: "c \<notin> set w \<Longrightarrow> Split (w @ c # s) c = w # Split s c"
  by (induction w) auto

lemma Split_Join: "ws \<noteq> [] \<Longrightarrow> (\<forall>w \<in> set ws. c \<notin> set w) \<Longrightarrow> Split (Join ws c) c = ws"
proof (induction ws c rule: Join.induct)
  case (3 w v ws c)
  then show ?case by (simp add: Split_append_sep)
qed (auto simp: Split_single)

lemma Join_Split: "Join (Split s c) c = s"
proof (induction s)
  case (Cons d s)
  obtain w ws where ws: "Split s c = w # ws" by (cases "Split s c") auto
  with Cons show ?case by (cases ws) auto
qed simp

lemma Cut_append [simp]: "c \<notin> set k \<Longrightarrow> Cut (k @ c # v) c = (k, v, True)"
  by (induction k) auto

lemma Cut_True: "Cut s c = (k, v, True) \<Longrightarrow> s = k @ c # v \<and> c \<notin> set k"
  by (induction s arbitrary: k) (auto split: if_splits prod.splits)

lemma Cut_False: "Cut s c = (k, v, False) \<Longrightarrow> k = s \<and> v = [] \<and> c \<notin> set s"
  by (induction s arbitrary: k) (auto split: if_splits prod.splits)

text \<open>
  The lines of \<^verbatim>\<open>bufio.ScanLines\<close>: ended by a newline, one carriage return before it
  dropped, no final empty line.
\<close>

definition drop_cr :: "string \<Rightarrow> string" where
  "drop_cr w = TrimSuffix w [CHR 0x0D]"

definition ScanLines :: "string \<Rightarrow> string list" where
  "ScanLines s =
     map drop_cr (let ws = Split s (CHR 0x0A) in if last ws = [] then butlast ws else ws)"

subsection \<open>White space and letter case\<close>

text \<open>The UTF-8 encodings of the runes for which \<^verbatim>\<open>unicode.IsSpace\<close> holds.\<close>

definition space_runes :: "string list" where
  "space_runes =
     [[CHR 0x20], [CHR 0x09], [CHR 0x0A], [CHR 0x0B], [CHR 0x0C], [CHR 0x0D],
      [CHR 0xC2, CHR 0x85], [CHR 0xC2, CHR 0xA0], [CHR 0xE1, CHR 0x9A, CHR 0x80],
      [CHR 0xE2, CHR 0x80, CHR 0x80], [CHR 0xE2, CHR 0x80, CHR 0x81],
      [CHR 0xE2, CHR 0x80, CHR 0x82], [CHR 0xE2, CHR 0x80, CHR 0x83],
      [CHR 0xE2, CHR 0x80, CHR 0x84], [CHR 0xE2, CHR 0x80, CHR 0x85],
      [CHR 0xE2, CHR 0x80, CHR 0x86], [CHR 0xE2, CHR 0x80, CHR 0x87],
      [CHR 0xE2, CHR 0x80, CHR 0x88], [CHR 0xE2, CHR 0x80, CHR 0x89],
      [CHR 0xE2, CHR 0x80, CHR 0x8A], [CHR 0xE2, CHR 0x80, CHR 0xA8],
      [CHR 0xE2, CHR 0x80, CHR 0xA9], [CHR 0xE2, CHR 0x80, CHR 0xAF],
      [CHR 0xE2, CHR 0x81, CHR 0x9F], [CHR 0xE3, CHR 0x80, CHR 0x80]]"

function strip_runes :: "string list \<Rightarrow> string \<Rightarrow> string" where
  "strip_runes rs s =
     (case find (\<lambda>p. p \<noteq> [] \<and> HasPrefix s p) rs of
        None \<Rightarrow> s
      | Some p \<Rightarrow> strip_runes rs (drop (length p) s))"
  by pat_completeness auto
termination
proof (relation "measure (\<lambda>(rs, s). length s)")
  fix rs s p
  assume "find (\<lambda>p. p \<noteq> [] \<and> HasPrefix s p) rs = Some p"
  from find_SomeD [OF this] have "p \<noteq> []" and "HasPrefix s p" by simp_all
  then show "((rs, drop (length p) s), rs, s) \<in> measure (\<lambda>(rs, s). length s)"
    by (cases s; cases p) auto
qed simp

declare strip_runes.simps [simp del]

definition TrimLeft :: "string \<Rightarrow> string" where
  "TrimLeft s = strip_runes space_runes s"

definition TrimRight :: "string \<Rightarrow> string" where
  "TrimRight s = rev (strip_runes (map rev space_runes) (rev s))"

definition TrimSpace :: "string \<Rightarrow> string" where
  "TrimSpace s = TrimRight (TrimLeft s)"

definition trimmed :: "string \<Rightarrow> bool" where
  "trimmed s = (\<forall>p \<in> set space_runes. \<not> HasPrefix s p \<and> \<not> HasSuffix s p)"

lemma space_runes_ne: "p \<in> set space_runes \<Longrightarrow> p \<noteq> []"
  by (auto simp: space_runes_def)

lemma strip_runes_none:
  "(\<forall>p \<in> set rs. p \<noteq> [] \<longrightarrow> \<not> HasPrefix s p) \<Longrightarrow> strip_runes rs s = s"
  by (subst strip_runes.simps) (auto simp: find_None_iff split: option.splits dest!: find_SomeD)

lemma strip_runes_clean:
  "p \<in> set rs \<Longrightarrow> p \<noteq> [] \<Longrightarrow> \<not> HasPrefix (strip_runes rs s) p"
proof (induction rs s rule: strip_runes.induct)
  case (1 rs s)
  show ?case
  proof (cases "find (\<lambda>p. p \<noteq> [] \<and> HasPrefix s p) rs")
    case None
    then have "strip_runes rs s = s" by (subst strip_runes.simps) simp
    with None 1 show ?thesis by (auto simp: find_None_iff)
  next
    case (Some q)
    with 1 show ?thesis by (subst strip_runes.simps) simp
  qed
qed

lemma strip_runes_suffix: "\<exists>t. s = t @ strip_runes rs s"
proof (induction rs s rule: strip_runes.induct)
  case (1 rs s)
  show ?case
  proof (cases "find (\<lambda>p. p \<noteq> [] \<and> HasPrefix s p) rs")
    case None
    then show ?thesis by (subst strip_runes.simps) simp
  next
    case (Some q)
    with 1 obtain t where "drop (length q) s = t @ strip_runes rs (drop (length q) s)" by blast
    then have "s = (take (length q) s @ t) @ strip_runes rs (drop (length q) s)"
      by (metis append.assoc append_take_drop_id)
    moreover have "strip_runes rs s = strip_runes rs (drop (length q) s)"
      using Some by (subst strip_runes.simps) simp
    ultimately show ?thesis by metis
  qed
qed

lemma TrimLeft_id: "(\<forall>p \<in> set space_runes. \<not> HasPrefix s p) \<Longrightarrow> TrimLeft s = s"
  by (simp add: TrimLeft_def strip_runes_none)

lemma TrimRight_id: "(\<forall>p \<in> set space_runes. \<not> HasSuffix s p) \<Longrightarrow> TrimRight s = s"
  by (simp add: TrimRight_def strip_runes_none HasSuffix_rev)

lemma TrimSpace_id: "trimmed s \<Longrightarrow> TrimSpace s = s"
  by (simp add: trimmed_def TrimSpace_def TrimLeft_id TrimRight_id)

lemma TrimLeft_clean: "p \<in> set space_runes \<Longrightarrow> \<not> HasPrefix (TrimLeft s) p"
  by (simp add: TrimLeft_def strip_runes_clean space_runes_ne)

lemma TrimRight_clean: "p \<in> set space_runes \<Longrightarrow> \<not> HasSuffix (TrimRight s) p"
  using strip_runes_clean [of "rev p" "map rev space_runes" "rev s"]
  by (simp add: TrimRight_def HasSuffix_rev space_runes_ne)

lemma TrimRight_prefix: "\<exists>t. s = TrimRight s @ t"
proof -
  obtain t where "rev s = t @ strip_runes (map rev space_runes) (rev s)"
    using strip_runes_suffix by blast
  then have "s = rev (strip_runes (map rev space_runes) (rev s)) @ rev t"
    by (metis rev_append rev_rev_ident)
  then show ?thesis unfolding TrimRight_def by blast
qed

lemma TrimLeft_suffix: "\<exists>t. s = t @ TrimLeft s"
  unfolding TrimLeft_def by (rule strip_runes_suffix)

lemma trimmed_TrimSpace: "trimmed (TrimSpace s)"
  unfolding trimmed_def
proof (intro ballI conjI)
  fix p assume p: "p \<in> set space_runes"
  obtain t where t: "TrimLeft s = TrimSpace s @ t"
    unfolding TrimSpace_def using TrimRight_prefix by blast
  show "\<not> HasPrefix (TrimSpace s) p"
  proof
    assume "HasPrefix (TrimSpace s) p"
    with t have "HasPrefix (TrimLeft s) p" by (auto simp: HasPrefix_iff)
    with p TrimLeft_clean show False by blast
  qed
  from p show "\<not> HasSuffix (TrimSpace s) p"
    unfolding TrimSpace_def by (rule TrimRight_clean)
qed

lemma TrimSpace_idem [simp]: "TrimSpace (TrimSpace s) = TrimSpace s"
  by (rule TrimSpace_id [OF trimmed_TrimSpace])

lemma set_TrimSpace: "set (TrimSpace s) \<subseteq> set s"
proof -
  obtain t u where "s = t @ TrimLeft s" and "TrimLeft s = TrimSpace s @ u"
    unfolding TrimSpace_def using TrimLeft_suffix TrimRight_prefix by metis
  then show ?thesis by (metis Un_iff set_append subsetI)
qed

lemma length_TrimSpace: "length (TrimSpace s) \<le> length s"
proof -
  obtain t u where "s = t @ TrimLeft s" and "TrimLeft s = TrimSpace s @ u"
    unfolding TrimSpace_def using TrimLeft_suffix TrimRight_prefix by metis
  then show ?thesis by (metis le_add1 le_add2 le_trans length_append)
qed

text \<open>Text whose first and last byte are visible ASCII is trimmed.\<close>

definition visible :: "char \<Rightarrow> bool" where
  "visible c = ((0x20 :: nat) < of_char c \<and> of_char c < (0x7F :: nat))"

lemma space_runes_hd: "p \<in> set space_runes \<Longrightarrow> \<not> visible (hd p)"
  by (auto simp: space_runes_def visible_def)

lemma space_runes_last: "p \<in> set space_runes \<Longrightarrow> \<not> visible (last p)"
  by (auto simp: space_runes_def visible_def)

lemma trimmed_visible: "s \<noteq> [] \<Longrightarrow> visible (hd s) \<Longrightarrow> visible (last s) \<Longrightarrow> trimmed s"
  unfolding trimmed_def HasPrefix_iff HasSuffix_iff
  by (metis hd_append last_append space_runes_hd space_runes_last space_runes_ne)

lemma space_runes_long:
  "p \<in> set space_runes \<Longrightarrow> 2 \<le> length p \<Longrightarrow> c \<in> set p \<Longrightarrow> (0x80 :: nat) \<le> of_char c"
  by (auto simp: space_runes_def)

lemma trimmed_append:
  assumes "trimmed v" and "v \<noteq> []" and "a \<noteq> []" and "visible (hd a)"
    and "of_char (last a) < (0x80 :: nat)"
  shows "trimmed (a @ v)"
  unfolding trimmed_def
proof (intro ballI conjI notI)
  fix p assume p: "p \<in> set space_runes"
  show False if "HasPrefix (a @ v) p"
  proof -
    from that obtain t where t: "a @ v = p @ t" by (auto simp: HasPrefix_iff)
    with p assms(3) space_runes_ne have "hd p = hd a" by (metis hd_append2)
    with p assms(4) space_runes_hd show False by metis
  qed
  show False if "HasSuffix (a @ v) p"
  proof -
    from that obtain t where t: "a @ v = t @ p" by (auto simp: HasSuffix_iff)
    from this [unfolded append_eq_append_conv2] obtain u
      where "a = t @ u \<and> u @ v = p \<or> a @ u = t \<and> v = u @ p" by blast
    then show False
    proof
      assume u: "a = t @ u \<and> u @ v = p"
      show False
      proof (cases "u = []")
        case True
        with u p assms(1) show False by (auto simp: trimmed_def HasSuffix_iff)
      next
        case False
        with u have "last a \<in> set p" by auto
        moreover from False u assms(2) have "2 \<le> length p" by (cases u; cases v) auto
        ultimately show False using space_runes_long [OF p] assms(5) by fastforce
      qed
    next
      assume "a @ u = t \<and> v = u @ p"
      with p assms(1) show False by (auto simp: trimmed_def HasSuffix_iff)
    qed
  qed
qed

lemma drop_cr_trimmed: "trimmed w \<Longrightarrow> drop_cr w = w"
  by (auto simp: drop_cr_def TrimSuffix_def trimmed_def space_runes_def)

lemma trimmed_Nil [simp]: "trimmed []"
  by (auto simp: trimmed_def HasPrefix_iff HasSuffix_iff dest: space_runes_ne)

lemma TrimSpace_Nil [simp]: "TrimSpace [] = []"
  by (rule TrimSpace_id) simp

lemma TrimLeft_space: "TrimLeft (CHR 0x20 # s) = TrimLeft s"
  unfolding TrimLeft_def
  by (subst strip_runes.simps) (simp add: space_runes_def)

lemma TrimSpace_space: "TrimSpace (CHR 0x20 # s) = TrimSpace s"
  by (simp add: TrimSpace_def TrimLeft_space)

text \<open>
  \<^verbatim>\<open>strings.ToLower\<close>. Text that is not ASCII is lowered rune by rune with Go's Unicode
  tables; that case is the argument \<open>uni\<close>.
\<close>

definition lower_byte :: "char \<Rightarrow> char" where
  "lower_byte c =
     (let n = of_char c :: nat in if 0x41 \<le> n \<and> n \<le> 0x5A then char_of (n + 0x20) else c)"

definition ascii :: "string \<Rightarrow> bool" where
  "ascii s = list_all (\<lambda>c. of_char c < (0x80 :: nat)) s"

definition ToLower :: "(string \<Rightarrow> string) \<Rightarrow> string \<Rightarrow> string" where
  "ToLower uni s = (if ascii s then map lower_byte s else uni s)"

lemma lower_byte_idem [simp]: "lower_byte (lower_byte c) = lower_byte c"
  by (auto simp: lower_byte_def Let_def)

lemma ascii_Cons [simp]: "ascii (c # s) \<longleftrightarrow> of_char c < (0x80 :: nat) \<and> ascii s"
  by (simp add: ascii_def)

lemma ascii_Nil [simp]: "ascii []"
  by (simp add: ascii_def)

lemma ascii_append [simp]: "ascii (s @ t) \<longleftrightarrow> ascii s \<and> ascii t"
  by (simp add: ascii_def)

end
