(* ===== verification/Go_Std.thy ===== *)
theory Go_Std
  imports Go_Strings
begin

text \<open>
  More of Go's standard library as the program uses it: decimal numbers of
  \<^verbatim>\<open>strconv\<close>, lower-case hexadecimal of \<^verbatim>\<open>encoding/hex\<close>, the lexical
  \<^verbatim>\<open>path.Clean\<close> (also \<^verbatim>\<open>filepath.Clean\<close> on Unix), and the byte classes the
  program's regular expressions are made of.
\<close>

subsection \<open>Byte classes\<close>

definition is_lower :: "char \<Rightarrow> bool" where
  "is_lower c = ((0x61 :: nat) \<le> of_char c \<and> of_char c \<le> (0x7A :: nat))"

definition is_upper :: "char \<Rightarrow> bool" where
  "is_upper c = ((0x41 :: nat) \<le> of_char c \<and> of_char c \<le> (0x5A :: nat))"

definition is_digit :: "char \<Rightarrow> bool" where
  "is_digit c = ((0x30 :: nat) \<le> of_char c \<and> of_char c \<le> (0x39 :: nat))"

text \<open>The byte class of the regular expression \<^verbatim>\<open>[a-f0-9]\<close>.\<close>

definition is_lower_hex :: "char \<Rightarrow> bool" where
  "is_lower_hex c =
     (is_digit c \<or> (0x61 :: nat) \<le> of_char c \<and> of_char c \<le> (0x66 :: nat))"

subsection \<open>Decimal numbers\<close>

definition digit_char :: "nat \<Rightarrow> char" where
  "digit_char d = char_of (0x30 + d)"

definition digit_val :: "char \<Rightarrow> nat" where
  "digit_val c = of_char c - 0x30"

fun nat_digits :: "nat \<Rightarrow> string" where
  "nat_digits n =
     (if n < 10 then [digit_char n] else nat_digits (n div 10) @ [digit_char (n mod 10)])"

declare nat_digits.simps [simp del]

definition Itoa :: "int \<Rightarrow> string" where
  "Itoa i = (if i < 0 then CHR ''-'' # nat_digits (nat (- i)) else nat_digits (nat i))"

definition digits_value :: "string \<Rightarrow> nat option" where
  "digits_value s =
     (if s \<noteq> [] \<and> list_all is_digit s then Some (foldl (\<lambda>a c. 10 * a + digit_val c) 0 s) else None)"

text \<open>
  \<^verbatim>\<open>strconv.ParseInt(s, 10, 64)\<close> and \<^verbatim>\<open>strconv.Atoi\<close> on a 64-bit platform: an
  optional sign, decimal digits, the value within 64 bits; \<open>None\<close> is any error.
\<close>

definition ParseInt64 :: "string \<Rightarrow> int option" where
  "ParseInt64 s =
     (let (neg, ds) = (case s of
          [] \<Rightarrow> (False, [])
        | c # t \<Rightarrow> if c = CHR ''-'' then (True, t) else if c = CHR ''+'' then (False, t)
            else (False, s))
      in case digits_value ds of
           None \<Rightarrow> None
         | Some n \<Rightarrow>
             if neg then (if n \<le> 2 ^ 63 then Some (- int n) else None)
             else (if n < 2 ^ 63 then Some (int n) else None))"

abbreviation Atoi :: "string \<Rightarrow> int option" where
  "Atoi \<equiv> ParseInt64"

definition ParseUint64 :: "string \<Rightarrow> nat option" where
  "ParseUint64 s =
     (case digits_value s of Some n \<Rightarrow> if n < 2 ^ 64 then Some n else None | None \<Rightarrow> None)"

lemma of_char_digit: "d < 10 \<Longrightarrow> of_char (digit_char d) = 0x30 + d"
  by (simp add: digit_char_def)

lemma is_digit_digit_char: "d < 10 \<Longrightarrow> is_digit (digit_char d)"
  by (simp add: is_digit_def of_char_digit)

lemma digit_val_digit_char: "d < 10 \<Longrightarrow> digit_val (digit_char d) = d"
  by (simp add: digit_val_def of_char_digit)

lemma nat_digits_ne [simp]: "nat_digits n \<noteq> []"
  by (subst nat_digits.simps) simp

lemma nat_digits_all: "c \<in> set (nat_digits n) \<Longrightarrow> is_digit c"
proof (induction n rule: nat_digits.induct)
  case (1 n)
  then show ?case
    by (auto simp: nat_digits.simps [of n] is_digit_digit_char split: if_splits)
qed

lemma nat_digits_value: "foldl (\<lambda>a c. 10 * a + digit_val c) 0 (nat_digits n) = n"
proof (induction n rule: nat_digits.induct)
  case (1 n)
  then show ?case
    by (simp add: nat_digits.simps [of n] digit_val_digit_char)
qed

lemma digits_value_nat_digits [simp]: "digits_value (nat_digits n) = Some n"
  by (simp add: digits_value_def nat_digits_value list_all_iff nat_digits_all)

lemma nat_digits_hd: "is_digit (hd (nat_digits n))"
  using nat_digits_all [of "hd (nat_digits n)" n] by simp

lemma nat_digits_not_sign: "hd (nat_digits n) \<noteq> CHR ''-'' \<and> hd (nat_digits n) \<noteq> CHR ''+''"
  using nat_digits_hd [of n] by (auto simp: is_digit_def)

theorem Atoi_Itoa: "- (2 ^ 63) \<le> i \<Longrightarrow> i < 2 ^ 63 \<Longrightarrow> Atoi (Itoa i) = Some i"
proof (cases "i < 0")
  case True
  assume "- (2 ^ 63) \<le> i"
  with True show ?thesis by (simp add: Itoa_def ParseInt64_def)
next
  case False
  assume "i < 2 ^ 63"
  moreover obtain c t where ct: "nat_digits (nat i) = c # t"
    by (cases "nat_digits (nat i)") auto
  moreover have "digits_value (c # t) = Some (nat i)" by (simp flip: ct)
  ultimately show ?thesis
    using False nat_digits_not_sign [of "nat i"] by (simp add: Itoa_def ParseInt64_def)
qed

lemma Itoa_digits: "0 \<le> i \<Longrightarrow> c \<in> set (Itoa i) \<Longrightarrow> is_digit c"
  by (simp add: Itoa_def nat_digits_all)

lemma Itoa_ne [simp]: "Itoa i \<noteq> []"
  by (simp add: Itoa_def)

lemma visible_digit: "is_digit c \<Longrightarrow> visible c"
  by (simp add: is_digit_def visible_def)

lemma visible_lower: "is_lower c \<Longrightarrow> visible c"
  by (simp add: is_lower_def visible_def)

lemma ParseInt64_range: "ParseInt64 s = Some i \<Longrightarrow> - (2 ^ 63) \<le> i \<and> i < 2 ^ 63"
  by (auto simp: ParseInt64_def Let_def split: list.splits if_splits option.splits)

subsection \<open>Hexadecimal\<close>

definition hex_char :: "nat \<Rightarrow> char" where
  "hex_char d = (if d < 10 then char_of (0x30 + d) else char_of (0x57 + d))"

definition hex_val :: "char \<Rightarrow> nat option" where
  "hex_val c =
     (let n = of_char c :: nat in
      if 0x30 \<le> n \<and> n \<le> 0x39 then Some (n - 0x30)
      else if 0x61 \<le> n \<and> n \<le> 0x66 then Some (n - 0x57)
      else if 0x41 \<le> n \<and> n \<le> 0x46 then Some (n - 0x37)
      else None)"

definition hex_encode :: "string \<Rightarrow> string" where
  "hex_encode s = concat (map (\<lambda>c. [hex_char (of_char c div 16), hex_char (of_char c mod 16)]) s)"

fun hex_decode :: "string \<Rightarrow> string option" where
  "hex_decode [] = Some []"
| "hex_decode [c] = None"
| "hex_decode (a # b # s) =
     (case (hex_val a, hex_val b, hex_decode s) of
        (Some x, Some y, Some t) \<Rightarrow> Some (char_of (16 * x + y) # t)
      | _ \<Rightarrow> None)"

lemma hex_val_char: "d < 16 \<Longrightarrow> hex_val (hex_char d) = Some d"
  by (auto simp: hex_val_def hex_char_def Let_def)

lemma of_char_lt_256: "of_char c < (256 :: nat)"
  by (rule nat_of_char_less_256)

lemma high_nibble [simp]: "of_char c div 16 < (16 :: nat)"
  by (rule less_mult_imp_div_less) (use of_char_lt_256 [of c] in simp)

theorem hex_decode_encode: "hex_decode (hex_encode s) = Some s"
proof (induction s)
  case (Cons c s)
  then show ?case by (simp add: hex_encode_def hex_val_char)
qed (simp add: hex_encode_def)

lemma length_hex_encode [simp]: "length (hex_encode s) = 2 * length s"
  by (induction s) (auto simp: hex_encode_def)

lemma length_hex_decode: "hex_decode s = Some t \<Longrightarrow> length s = 2 * length t"
  by (induction s arbitrary: t rule: hex_decode.induct) (auto split: option.splits)

lemma hex_char_lower_hex: "d < 16 \<Longrightarrow> is_lower_hex (hex_char d)"
  by (auto simp: is_lower_hex_def hex_char_def is_digit_def)

lemma set_hex_encode: "c \<in> set (hex_encode s) \<Longrightarrow> is_lower_hex c"
proof (induction s)
  case (Cons d s)
  then show ?case by (auto simp: hex_encode_def hex_char_lower_hex)
qed (simp add: hex_encode_def)

subsection \<open>Lexical path cleaning\<close>

text \<open>
  \<^verbatim>\<open>path.Clean\<close>: empty components and dots vanish, a dot-dot removes the component before
  it, or is dropped at the root, or stays at the front of a relative path.
\<close>

definition clean_step :: "bool \<Rightarrow> string list \<Rightarrow> string \<Rightarrow> string list" where
  "clean_step rooted out c =
     (if c = [] \<or> c = ''.'' then out
      else if c = ''..'' then
        (if out \<noteq> [] \<and> last out \<noteq> ''..'' then butlast out
         else if rooted then out else out @ [''..''])
      else out @ [c])"

definition IsAbs :: "string \<Rightarrow> bool" where
  "IsAbs p = HasPrefix p ''/''"

definition clean_parts :: "string \<Rightarrow> string list" where
  "clean_parts p = foldl (clean_step (IsAbs p)) [] (Split p (CHR ''/''))"

definition Clean :: "string \<Rightarrow> string" where
  "Clean p =
     (let body = Join (clean_parts p) (CHR ''/'')
      in if IsAbs p then CHR ''/'' # body else if body = [] then ''.'' else body)"

definition normal_part :: "string \<Rightarrow> bool" where
  "normal_part c = (c \<noteq> [] \<and> c \<noteq> ''.'' \<and> c \<noteq> ''..'' \<and> CHR ''/'' \<notin> set c)"

lemma clean_step_rooted:
  "list_all normal_part out \<Longrightarrow> CHR ''/'' \<notin> set c \<Longrightarrow>
   list_all normal_part (clean_step True out c)"
  by (auto simp: clean_step_def normal_part_def list_all_iff dest: in_set_butlastD)

lemma foldl_clean_rooted:
  "list_all normal_part out \<Longrightarrow> \<forall>c \<in> set cs. CHR ''/'' \<notin> set c \<Longrightarrow>
   list_all normal_part (foldl (clean_step True) out cs)"
  by (induction cs arbitrary: out) (auto simp: clean_step_rooted)

lemma clean_parts_rooted: "IsAbs p \<Longrightarrow> list_all normal_part (clean_parts p)"
  unfolding clean_parts_def
  by (simp add: foldl_clean_rooted Split_no_sep)

lemma clean_step_slash_free:
  "\<forall>w \<in> set out. CHR ''/'' \<notin> set w \<Longrightarrow> CHR ''/'' \<notin> set c \<Longrightarrow>
   \<forall>w \<in> set (clean_step r out c). CHR ''/'' \<notin> set w"
  by (auto simp: clean_step_def dest: in_set_butlastD)

subsection \<open>Arithmetic of Go's \<^verbatim>\<open>float64\<close>\<close>

text \<open>
  The result of an operation on finite values is the exact result rounded to 53 binary digits,
  to nearest, ties to even. Overflow and subnormal results, which need exponents that the program's
  quantities do not reach, are not modelled.
\<close>

fun bit_count :: "nat \<Rightarrow> nat" where
  "bit_count n = (if n = 0 then 0 else Suc (bit_count (n div 2)))"

declare bit_count.simps [simp del]

definition half_even :: "rat \<Rightarrow> int" where
  "half_even y =
     (let f = \<lfloor>y\<rfloor>; d = y - of_int f in
      if d < 1 / 2 then f else if 1 / 2 < d then f + 1 else if even f then f else f + 1)"

definition scale2 :: "rat \<Rightarrow> int \<Rightarrow> rat" where
  "scale2 x s = (if 0 \<le> s then x * 2 ^ nat s else x / 2 ^ nat (- s))"

definition round_pos :: "rat \<Rightarrow> rat" where
  "round_pos x =
     (let (p, q) = quotient_of x;
          s0 = int (bit_count (nat p)) - int (bit_count (nat q)) - 53;
          y = scale2 x (- s0);
          s = (if y < 2 ^ 52 then s0 - 1 else if 2 ^ 53 \<le> y then s0 + 1 else s0)
      in scale2 (of_int (half_even (scale2 x (- s)))) s)"

definition round_float :: "rat \<Rightarrow> rat" where
  "round_float x = (if x = 0 then 0 else if x < 0 then - round_pos (- x) else round_pos x)"

text \<open>
  \<^verbatim>\<open>int64(x)\<close> truncates toward zero; a value outside the range gives the value the amd64
  instruction gives.
\<close>

definition int64_of_float :: "float64 \<Rightarrow> int" where
  "int64_of_float x =
     (case x of
        Fin r \<Rightarrow>
          (let t = (if r < 0 then \<lceil>r\<rceil> else \<lfloor>r\<rfloor>) in
           if - (2 ^ 63) \<le> t \<and> t < 2 ^ 63 then t else - (2 ^ 63))
      | _ \<Rightarrow> - (2 ^ 63))"

definition float_times :: "float64 \<Rightarrow> rat \<Rightarrow> float64" where
  "float_times x c =
     (case x of
        Fin r \<Rightarrow> Fin (round_float (r * c))
      | PosInf \<Rightarrow> if 0 < c then PosInf else if c < 0 then NegInf else NaN
      | NegInf \<Rightarrow> if 0 < c then NegInf else if c < 0 then PosInf else NaN
      | NaN \<Rightarrow> NaN)"

end
