(* ===== verification/Manifests.thy ===== *)
theory Manifests
  imports Go_Std
begin

text \<open>
  App packages, \<^verbatim>\<open>internal/manifests/manifests.go\<close>: the manifest, its validation, the scan of
  one directory and of several, and the registry. The YAML decoder and SHA-256 are arguments; the
  decoder returns what it filled in together with its error. A directory is the list of its
  entries in the order \<^verbatim>\<open>os.ReadDir\<close> gives. A registry is an association list. The
  environment of a manifest is a list of pairs; Go visits it in an unspecified order, which
  decides only which of several errors is reported.
\<close>

record Runtime =
  rt_Type :: string
  rt_Image :: string
  rt_Command :: "string list"
  rt_Environment :: "(string \<times> string) list"
  rt_InternalPort :: int

record Routing =
  ro_BasePath :: string
  ro_StripPrefix :: bool
  ro_WebSocket :: bool

record Storage =
  st_Type :: string
  st_Target :: string
  st_OwnerUID :: int
  st_OwnerGID :: int

record Resources =
  rs_DefaultMemoryMB :: int
  rs_DefaultCPU :: float64
  rs_ShmSizeMB :: int

record Health =
  h_Type :: string
  h_Path :: string
  h_TimeoutSeconds :: int

record Desktop =
  d_Visible :: bool
  d_Icon :: string
  d_Role :: string
  d_DefaultWidth :: int
  d_DefaultHeight :: int
  d_Singleton :: bool

record Manifest =
  m_SchemaVersion :: int
  m_ID :: string
  m_Name :: string
  m_Version :: string
  m_Description :: string
  m_Runtime :: Runtime
  m_Routing :: Routing
  m_NetworkMode :: string
  m_Storage :: "Storage list"
  m_Resources :: Resources
  m_Health :: Health
  m_Capabilities :: "string list"
  m_Desktop :: Desktop

definition zero_manifest :: Manifest where
  "zero_manifest =
     \<lparr>m_SchemaVersion = 0, m_ID = [], m_Name = [], m_Version = [], m_Description = [],
      m_Runtime = \<lparr>rt_Type = [], rt_Image = [], rt_Command = [], rt_Environment = [], rt_InternalPort = 0\<rparr>,
      m_Routing = \<lparr>ro_BasePath = [], ro_StripPrefix = False, ro_WebSocket = False\<rparr>,
      m_NetworkMode = [], m_Storage = [],
      m_Resources = \<lparr>rs_DefaultMemoryMB = 0, rs_DefaultCPU = float0, rs_ShmSizeMB = 0\<rparr>,
      m_Health = \<lparr>h_Type = [], h_Path = [], h_TimeoutSeconds = 0\<rparr>, m_Capabilities = [],
      m_Desktop = \<lparr>d_Visible = False, d_Icon = [], d_Role = [], d_DefaultWidth = 0,
        d_DefaultHeight = 0, d_Singleton = False\<rparr>\<rparr>"

abbreviation RoleLauncher :: string where
  "RoleLauncher \<equiv> ''launcher''"
abbreviation RoleDesktop :: string where
  "RoleDesktop \<equiv> ''desktop''"

datatype manifest_error =
    BadSchemaVersion
  | BadID
  | NameVersionRequired
  | ControllerUIRuntime
  | ImageNotPinned
  | BadInternalPort
  | WorkspaceImageNotPinned
  | BadRuntimeType
  | BadBasePath
  | BadNetworkMode
  | EnvironmentKey string
  | EnvironmentValue string
  | StorageType string
  | StorageTarget string
  | DuplicateTarget string
  | StorageOwnerRange string
  | StorageOwnerPair string
  | CapabilityNotAllowed string
  | BadHealthType
  | HealthPathPrefix string string
  | LauncherRuntime
  | DesktopRuntime
  | BadRole string
  | IconOutside
  | IconMissing
  | NegativeResources
  | Unreadable string
  | Undecodable string
  | DuplicateAppID

text \<open>The regular expression \<^verbatim>\<open>^[a-z][a-z0-9-]{1,31}$\<close>.\<close>

definition identifier_re :: "string \<Rightarrow> bool" where
  "identifier_re s =
     (case s of
        [] \<Rightarrow> False
      | c # t \<Rightarrow> is_lower c \<and> 1 \<le> length t \<and> length t \<le> 31 \<and>
          list_all (\<lambda>c. is_lower c \<or> is_digit c \<or> c = CHR ''-'') t)"

definition hash64 :: "string \<Rightarrow> bool" where
  "hash64 h = (length h = 64 \<and> list_all is_lower_hex h)"

text \<open>
  \<^verbatim>\<open>strings.LastIndex\<close> returns -1 for what is missing; \<open>after\<close> is the comparison
  \<^verbatim>\<open>i > j\<close> of two such results.
\<close>

definition after :: "nat option \<Rightarrow> nat option \<Rightarrow> bool" where
  "after i j = (case (i, j) of
      (None, _) \<Rightarrow> False | (Some _, None) \<Rightarrow> True | (Some a, Some b) \<Rightarrow> b < a)"

definition pinnedImage :: "string \<Rightarrow> bool" where
  "pinnedImage v =
     (if v = [] \<or> ContainsAny v [CHR '' '', CHR 0x09, CHR 0x0D, CHR 0x0A, CHR 0x00] then False
      else case LastIndex v ''@sha256:'' of
        Some marker \<Rightarrow> marker > 0 \<and> hash64 (drop (marker + length ''@sha256:'') v)
      | None \<Rightarrow>
          (let lastSlash = LastIndex v ''/''; lastColon = LastIndex v '':'' in
           case lastColon of
             None \<Rightarrow> False
           | Some i \<Rightarrow>
               if \<not> after lastColon lastSlash \<or> i = length v - 1 then False
               else drop (i + 1) v \<noteq> ''latest''))"

definition allowedEnvironment :: "string list" where
  "allowedEnvironment =
     [''PUID'', ''PGID'', ''TZ'', ''HARDEN_DESKTOP'', ''DISABLE_OPEN_TOOLS'', ''DISABLE_SUDO'',
      ''DISABLE_TERMINALS'', ''CHROME_CLI'']"

definition check_runtime :: "Manifest \<Rightarrow> manifest_error check" where
  "check_runtime m =
     (let rt = m_Runtime m in
      if rt_Type rt = ''controller-ui'' then
        (if rt_Image rt \<noteq> [] \<or> length (rt_Command rt) \<noteq> 0 \<or> rt_InternalPort rt \<noteq> 0
         then Some ControllerUIRuntime else None)
      else if rt_Type rt = ''container-service'' then
        (if \<not> pinnedImage (rt_Image rt) then Some ImageNotPinned
         else if rt_InternalPort rt < 1024 \<or> rt_InternalPort rt > 65535 then Some BadInternalPort
         else None)
      else if rt_Type rt = ''workspace-image'' then
        (if \<not> pinnedImage (rt_Image rt) then Some WorkspaceImageNotPinned else None)
      else Some BadRuntimeType)"

definition check_env :: "string \<times> string \<Rightarrow> manifest_error check" where
  "check_env kv =
     (case kv of (key, v) \<Rightarrow>
        if key \<notin> set allowedEnvironment then Some (EnvironmentKey key)
        else if length v > 512 \<or> ContainsAny v [CHR 0x0D, CHR 0x0A, CHR 0x00]
        then Some (EnvironmentValue key) else None)"

definition check_service :: "Manifest \<Rightarrow> manifest_error check" where
  "check_service m =
     (if rt_Type (m_Runtime m) = ''container-service'' then
        (let base = ro_BasePath (m_Routing m) in
         if \<not> HasPrefix base (''/apps/'' @ m_ID m) \<or> Contains base ''..'' then Some BadBasePath
         else if m_NetworkMode m \<noteq> ''workstation-vpn'' \<and> m_NetworkMode m \<noteq> ''management-only''
         then Some BadNetworkMode
         else check_all check_env (rt_Environment (m_Runtime m)))
      else None)"

primrec check_storage :: "string list \<Rightarrow> Storage list \<Rightarrow> manifest_error check" where
  "check_storage targets [] = None"
| "check_storage targets (s # ss) =
     (if st_Type s \<notin> {''workspace'', ''app-data'', ''shell-home'', ''temporary''}
      then Some (StorageType (st_Type s))
      else if \<not> IsAbs (st_Target s) \<or> Contains (Clean (st_Target s)) ''..''
      then Some (StorageTarget (st_Target s))
      else if st_Target s \<in> set targets then Some (DuplicateTarget (st_Target s))
      else if st_OwnerUID s < 0 \<or> st_OwnerUID s > 65535 \<or> st_OwnerGID s < 0 \<or> st_OwnerGID s > 65535
      then Some (StorageOwnerRange (st_Target s))
      else if (st_OwnerUID s = 0) \<noteq> (st_OwnerGID s = 0) then Some (StorageOwnerPair (st_Target s))
      else check_storage (st_Target s # targets) ss)"

definition check_capabilities :: "string list \<Rightarrow> manifest_error check" where
  "check_capabilities caps =
     check_all (\<lambda>c. if c \<noteq> ''NET_RAW'' then Some (CapabilityNotAllowed c) else None) caps"

definition check_health :: "Manifest \<Rightarrow> manifest_error check" where
  "check_health m =
     (let h = m_Health m in
      if h_Type h \<noteq> [] \<and> h_Type h \<noteq> ''http'' \<and> h_Type h \<noteq> ''tcp'' then Some BadHealthType
      else if rt_Type (m_Runtime m) = ''container-service'' \<and> h_Path h \<noteq> [] \<and> \<not> ro_StripPrefix (m_Routing m)
      then
        (let base = TrimSuffix (ro_BasePath (m_Routing m)) ''/'' in
         if base \<noteq> [] \<and> \<not> HasPrefix (h_Path h) base
         then Some (HealthPathPrefix (h_Path h) (base @ ''/'')) else None)
      else None)"

definition check_role :: "Manifest \<Rightarrow> manifest_error check" where
  "check_role m =
     (let role = d_Role (m_Desktop m) in
      if role = [] then None
      else if role = RoleLauncher then
        (if rt_Type (m_Runtime m) \<noteq> ''controller-ui'' then Some LauncherRuntime else None)
      else if role = RoleDesktop then
        (if rt_Type (m_Runtime m) \<noteq> ''container-service'' then Some DesktopRuntime else None)
      else Some (BadRole role))"

text \<open>\<^verbatim>\<open>filepath.Join\<close> of two non-empty elements; \<open>stat\<close> tells which files exist.\<close>

definition path_join :: "string \<Rightarrow> string \<Rightarrow> string" where
  "path_join a b = Clean (a @ CHR ''/'' # b)"

definition check_icon :: "(string \<Rightarrow> bool) \<Rightarrow> Manifest \<Rightarrow> string \<Rightarrow> manifest_error check" where
  "check_icon stat m packageDirectory =
     (if d_Icon (m_Desktop m) \<noteq> [] then
        (let icon = Clean (d_Icon (m_Desktop m)) in
         if IsAbs icon \<or> Contains icon ''..'' then Some IconOutside
         else if packageDirectory \<noteq> [] \<and> \<not> stat (path_join packageDirectory icon) then Some IconMissing
         else None)
      else None)"

definition check_resources :: "Manifest \<Rightarrow> manifest_error check" where
  "check_resources m =
     (let r = m_Resources m in
      if float_lt (rs_DefaultCPU r) float0 \<or> rs_DefaultMemoryMB r < 0 \<or> rs_ShmSizeMB r < 0 \<or>
         rs_ShmSizeMB r > 2048 then Some NegativeResources else None)"

definition Validate :: "(string \<Rightarrow> bool) \<Rightarrow> Manifest \<Rightarrow> string \<Rightarrow> manifest_error check" where
  "Validate stat m packageDirectory =
     (if m_SchemaVersion m \<noteq> 1 then Some BadSchemaVersion
      else if \<not> identifier_re (m_ID m) then Some BadID
      else if TrimSpace (m_Name m) = [] \<or> TrimSpace (m_Version m) = [] then Some NameVersionRequired
      else
        and_then (check_runtime m)
       (and_then (check_service m)
       (and_then (check_storage [] (m_Storage m))
       (and_then (check_capabilities (m_Capabilities m))
       (and_then (check_health m)
       (and_then (check_role m)
       (and_then (check_icon stat m packageDirectory) (check_resources m))))))))"

subsection \<open>Scanning\<close>

record Entry =
  e_Manifest :: Manifest
  e_Path :: string
  e_SHA256 :: string
  e_Error :: "manifest_error option"

type_synonym Registry = "(string \<times> Entry) list"

datatype read_outcome = NotExist | ReadError string | Data string

record dir_item =
  di_Name :: string
  di_IsDir :: bool
  di_AppYAML :: read_outcome

record environment =
  yaml_decode :: "string \<Rightarrow> string option \<times> Manifest"
  digest :: "string \<Rightarrow> string"
  file_exists :: "string \<Rightarrow> bool"

definition scan_item :: "environment \<Rightarrow> string \<Rightarrow> dir_item \<Rightarrow> Registry \<Rightarrow> Registry" where
  "scan_item env directory item registry =
     (if \<not> di_IsDir item then registry
      else
        (let dir = path_join directory (di_Name item); path = path_join dir ''app.yaml'' in
         case di_AppYAML item of
           NotExist \<Rightarrow> registry
         | ReadError e \<Rightarrow>
             AList.update (di_Name item)
               \<lparr>e_Manifest = zero_manifest, e_Path = path, e_SHA256 = [], e_Error = Some (Unreadable e)\<rparr> registry
         | Data data \<Rightarrow>
             (case yaml_decode env data of
                (Some e, m) \<Rightarrow>
                  AList.update (di_Name item)
                    \<lparr>e_Manifest = m, e_Path = path, e_SHA256 = [], e_Error = Some (Undecodable e)\<rparr> registry
              | (None, m) \<Rightarrow>
                  (let key = (if m_ID m = [] then di_Name item else m_ID m);
                       err = (if map_of registry key \<noteq> None then Some DuplicateAppID
                              else Validate (file_exists env) m dir)
                   in AList.update key
                        \<lparr>e_Manifest = m, e_Path = path, e_SHA256 = hex_encode (digest env data),
                         e_Error = err\<rparr> registry))))"

definition Scan :: "environment \<Rightarrow> string \<Rightarrow> dir_item list \<Rightarrow> Registry" where
  "Scan env directory items = fold (scan_item env directory) items []"

definition Load :: "environment \<Rightarrow> string \<Rightarrow> string \<Rightarrow> read_outcome \<Rightarrow> (manifest_error, Entry) result" where
  "Load env dir path content =
     (case content of
        NotExist \<Rightarrow> Inl (Unreadable ''not found'')
      | ReadError e \<Rightarrow> Inl (Unreadable e)
      | Data data \<Rightarrow>
          (case yaml_decode env data of
             (Some e, _) \<Rightarrow> Inl (Undecodable e)
           | (None, m) \<Rightarrow>
               guard (Validate (file_exists env) m dir)
                 (Inr \<lparr>e_Manifest = m, e_Path = path, e_SHA256 = hex_encode (digest env data),
                       e_Error = None\<rparr>)))"

text \<open>
  \<^verbatim>\<open>ScanDirectories\<close>: the directories are given with their items, \<open>None\<close> for one that
  cannot be read.
\<close>

primrec merge :: "Registry \<Rightarrow> Registry \<Rightarrow> (string, Registry) result" where
  "merge combined [] = Inr combined"
| "merge combined (ke # rest) =
     (case ke of (key, entry) \<Rightarrow>
        if map_of combined key \<noteq> None then Inl key else merge (AList.update key entry combined) rest)"

datatype scan_error = ReadAppsDirectory string | DuplicateAcross string

primrec ScanDirectories_loop ::
  "environment \<Rightarrow> Registry \<Rightarrow> (string \<times> dir_item list option) list \<Rightarrow> (scan_error, Registry) result" where
  "ScanDirectories_loop env combined [] = Inr combined"
| "ScanDirectories_loop env combined (d # ds) =
     (case d of (directory, items) \<Rightarrow>
        (case items of
           None \<Rightarrow> Inl (ReadAppsDirectory directory)
         | Some items \<Rightarrow>
             (case merge combined (Scan env directory items) of
                Inl key \<Rightarrow> Inl (DuplicateAcross key)
              | Inr combined' \<Rightarrow> ScanDirectories_loop env combined' ds)))"

definition ScanDirectories ::
  "environment \<Rightarrow> (string \<times> dir_item list option) list \<Rightarrow> (scan_error, Registry) result" where
  "ScanDirectories env directories = ScanDirectories_loop env [] directories"

text \<open>\<^verbatim>\<open>Get\<close> and \<^verbatim>\<open>Entry\<close>: \<open>None\<close> is a false second result.\<close>

definition Registry_Entry :: "Registry \<Rightarrow> string \<Rightarrow> Entry option" where
  "Registry_Entry r i =
     (case map_of r i of None \<Rightarrow> None | Some entry \<Rightarrow> if e_Error entry = None then Some entry else None)"

definition Get :: "Registry \<Rightarrow> string \<Rightarrow> Manifest option" where
  "Get r i = map_option e_Manifest (Registry_Entry r i)"

definition Entries :: "Registry \<Rightarrow> Entry list" where
  "Entries r = sort_key (\<lambda>e. m_ID (e_Manifest e)) (map snd r)"

subsection \<open>What validation establishes\<close>

definition storage_ok :: "Storage \<Rightarrow> bool" where
  "storage_ok s =
     (st_Type s \<in> {''workspace'', ''app-data'', ''shell-home'', ''temporary''} \<and>
      IsAbs (st_Target s) \<and> \<not> Contains (Clean (st_Target s)) ''..'' \<and>
      0 \<le> st_OwnerUID s \<and> st_OwnerUID s \<le> 65535 \<and> 0 \<le> st_OwnerGID s \<and> st_OwnerGID s \<le> 65535 \<and>
      (st_OwnerUID s = 0 \<longleftrightarrow> st_OwnerGID s = 0))"

lemma check_storage_None:
  "check_storage targets ss = None \<longleftrightarrow>
   list_all storage_ok ss \<and> distinct (map st_Target ss) \<and> set targets \<inter> st_Target ` set ss = {}"
  by (induction ss arbitrary: targets) (auto simp: storage_ok_def)

lemma check_capabilities_None: "check_capabilities caps = None \<longleftrightarrow> set caps \<subseteq> {''NET_RAW''}"
  by (auto simp: check_capabilities_def)

lemma Validate_None:
  "Validate stat m dir = None \<longleftrightarrow>
   m_SchemaVersion m = 1 \<and> identifier_re (m_ID m) \<and> TrimSpace (m_Name m) \<noteq> [] \<and>
   TrimSpace (m_Version m) \<noteq> [] \<and> check_runtime m = None \<and> check_service m = None \<and>
   check_storage [] (m_Storage m) = None \<and> check_capabilities (m_Capabilities m) = None \<and>
   check_health m = None \<and> check_role m = None \<and> check_icon stat m dir = None \<and>
   check_resources m = None"
  by (auto simp: Validate_def guard_splits)

lemma identifier_ne: "identifier_re s \<Longrightarrow> s \<noteq> []"
  by (auto simp: identifier_re_def)

lemma pinnedImage_not_latest:
  assumes "pinnedImage v"
  shows "v \<noteq> [] \<and> \<not> HasSuffix v '':latest'' \<and> CHR '' '' \<notin> set v"
proof -
  have "\<not> HasSuffix v '':latest''"
  proof
    assume "HasSuffix v '':latest''"
    then obtain a where v: "v = a @ '':latest''" by (auto simp: HasSuffix_iff)
    have colon: "LastIndex (a @ '':latest'') '':'' = Some (length a)"
      by (induction a) (auto simp: HasPrefix_Cons)
    show False
    proof (cases "LastIndex v ''@sha256:''")
      case None
      with assms v colon show False
        by (auto simp: pinnedImage_def Let_def split: if_splits)
    next
      case (Some i)
      then have h: "hash64 (drop (i + 8) v)" using assms by (auto simp: pinnedImage_def eval_nat_numeral split: if_splits)
      then have "length v = i + 72" by (auto simp: hash64_def)
      then have "CHR ''t'' \<in> set (drop (i + 8) v)" using v by auto
      with h show False by (auto simp: hash64_def list_all_iff is_lower_hex_def is_digit_def)
    qed
  qed
  with assms show ?thesis by (auto simp: pinnedImage_def ContainsAny_iff split: if_splits)
qed

subsection \<open>What the scan establishes\<close>

definition claims :: "environment \<Rightarrow> string \<Rightarrow> dir_item \<Rightarrow> bool" where
  "claims env i item =
     (di_IsDir item \<and>
      (case di_AppYAML item of
         Data data \<Rightarrow> (case yaml_decode env data of (err, m) \<Rightarrow> err = None \<and> m_ID m = i)
       | _ \<Rightarrow> False))"

definition good_entry :: "environment \<Rightarrow> string \<Rightarrow> Entry \<Rightarrow> bool" where
  "good_entry env i entry =
     (m_ID (e_Manifest entry) = i \<and> i \<noteq> [] \<and>
      (\<exists>dir. Validate (file_exists env) (e_Manifest entry) dir = None))"

text \<open>
  The registry after some items: a good entry belongs to exactly one of the items that claim its
  id, and an id no key stands for is claimed by none.
\<close>

definition scan_inv :: "environment \<Rightarrow> dir_item list \<Rightarrow> Registry \<Rightarrow> bool" where
  "scan_inv env items r =
     (\<forall>i. i \<noteq> [] \<longrightarrow>
        (case map_of r i of
           None \<Rightarrow> filter (claims env i) items = []
         | Some entry \<Rightarrow> e_Error entry = None \<longrightarrow>
             good_entry env i entry \<and> length (filter (claims env i) items) = 1))"

lemma scan_inv_keep:
  assumes "scan_inv env items r" and "\<And>i. \<not> claims env i item"
    and "r' = r \<or> (\<exists>key e. r' = AList.update key e r \<and> e_Error e \<noteq> None)"
  shows "scan_inv env (items @ [item]) r'"
proof -
  have same: "filter (claims env i) (items @ [item]) = filter (claims env i) items" for i
    by (simp add: assms(2))
  show ?thesis using assms(1,3) unfolding scan_inv_def same by (auto simp: update_conv')
qed

lemma scan_inv_add:
  assumes "scan_inv env items r" and claim: "\<And>i. claims env i item \<longleftrightarrow> i = c"
    and key: "key = (if c = [] then n else c)"
    and ok: "e_Error e = None \<Longrightarrow> key \<noteq> [] \<Longrightarrow> map_of r key = None \<and> key = c \<and> good_entry env key e"
  shows "scan_inv env (items @ [item]) (AList.update key e r)"
  unfolding scan_inv_def
proof (intro allI impI)
  fix i :: string assume i: "i \<noteq> []"
  with assms(1) have inv: "case map_of r i of None \<Rightarrow> filter (claims env i) items = []
      | Some entry \<Rightarrow> e_Error entry = None \<longrightarrow>
          good_entry env i entry \<and> length (filter (claims env i) items) = 1"
    by (simp add: scan_inv_def)
  show "case map_of (AList.update key e r) i of
        None \<Rightarrow> filter (claims env i) (items @ [item]) = []
      | Some entry \<Rightarrow> e_Error entry = None \<longrightarrow>
          good_entry env i entry \<and> length (filter (claims env i) (items @ [item])) = 1"
  proof (cases "i = key")
    case True
    have "good_entry env i e \<and> length (filter (claims env i) (items @ [item])) = 1" if "e_Error e = None"
    proof -
      from ok [OF that] True i have "map_of r i = None" "i = c" "good_entry env i e" by auto
      with inv claim show ?thesis by simp
    qed
    with True show ?thesis by (simp add: update_conv' del: filter_append)
  next
    case False
    then have "i \<noteq> c" using i key by auto
    then have same: "filter (claims env i) (items @ [item]) = filter (claims env i) items"
      by (simp add: claim)
    show ?thesis unfolding same using inv False by (simp add: update_conv')
  qed
qed

lemma scan_inv_step:
  assumes "scan_inv env items r"
  shows "scan_inv env (items @ [item]) (scan_item env dir item r)"
proof (cases "\<exists>data m. di_IsDir item \<and> di_AppYAML item = Data data \<and> yaml_decode env data = (None, m)")
  case False
  have "\<not> claims env i item" for i
    using False by (auto simp: claims_def split: read_outcome.splits prod.splits)
  moreover have "scan_item env dir item r = r \<or>
      (\<exists>key e. scan_item env dir item r = AList.update key e r \<and> e_Error e \<noteq> None)"
  proof (cases "di_AppYAML item")
    case (Data data)
    show ?thesis
    proof (cases "di_IsDir item")
      case True
      with Data False obtain err m where "yaml_decode env data = (Some err, m)"
        by (cases "yaml_decode env data") auto
      with Data True have "scan_item env dir item r = AList.update (di_Name item)
          \<lparr>e_Manifest = m, e_Path = path_join (path_join dir (di_Name item)) ''app.yaml'', e_SHA256 = [],
           e_Error = Some (Undecodable err)\<rparr> r" by (simp add: scan_item_def Let_def)
      then show ?thesis by force
    qed (simp add: scan_item_def)
  qed (force simp: scan_item_def Let_def)+
  ultimately show ?thesis by (rule scan_inv_keep [OF assms])
next
  case True
  then obtain data m where m: "di_IsDir item" "di_AppYAML item = Data data" "yaml_decode env data = (None, m)"
    by blast
  have claim: "claims env i item \<longleftrightarrow> i = m_ID m" for i using m by (auto simp: claims_def)
  show ?thesis
    unfolding scan_item_def using m
    by (auto simp: Let_def good_entry_def Validate_None dest: identifier_ne
        intro!: scan_inv_add [OF assms claim, where n = "di_Name item"])
qed

lemma scan_inv_Scan: "scan_inv env items (Scan env dir items)"
  by (induction items rule: rev_induct) (simp_all add: Scan_def scan_inv_step, simp add: scan_inv_def)

lemma merge_Inr:
  "merge combined rest = Inr r \<Longrightarrow>
   map_of r = map_of combined ++ map_of rest \<and> dom (map_of combined) \<inter> dom (map_of rest) = {}"
proof (induction rest arbitrary: combined)
  case (Cons ke rest)
  obtain key entry where ke: "ke = (key, entry)" by (cases ke)
  with Cons.prems have new: "map_of combined key = None"
    and "merge (AList.update key entry combined) rest = Inr r" by (auto split: if_splits)
  from Cons.IH [OF this(2)] have
    IH: "map_of r = (map_of combined)(key \<mapsto> entry) ++ map_of rest"
      "(insert key (dom (map_of combined))) \<inter> dom (map_of rest) = {}"
    by (simp_all only: update_conv' dom_fun_upd option.simps if_False)
  moreover have "map_of rest key = None" using IH(2) by auto
  ultimately show ?case using new
    by (auto simp: ke fun_eq_iff map_add_def split: option.splits if_splits)
qed simp

lemma scan_inv_merge:
  assumes "scan_inv env items a" and "scan_inv env items' b" and "merge a b = Inr r"
  shows "scan_inv env (items @ items') r"
proof -
  from merge_Inr [OF assms(3)] have r: "map_of r = map_of a ++ map_of b"
    and disj: "dom (map_of a) \<inter> dom (map_of b) = {}" by auto
  show ?thesis unfolding scan_inv_def
  proof (intro allI impI)
    fix i :: string assume i: "i \<noteq> []"
    have "map_of a i = None \<or> map_of b i = None" using disj by auto
    with assms(1,2) i show "case map_of r i of None \<Rightarrow> filter (claims env i) (items @ items') = []
        | Some entry \<Rightarrow> e_Error entry = None \<longrightarrow>
            good_entry env i entry \<and> length (filter (claims env i) (items @ items')) = 1"
      unfolding scan_inv_def r map_add_def
      by (cases "map_of a i"; cases "map_of b i") (fastforce split: option.splits)+
  qed
qed

lemma scan_inv_directories:
  "scan_inv env items combined \<Longrightarrow> ScanDirectories_loop env combined ds = Inr r \<Longrightarrow>
   scan_inv env (items @ concat (map (\<lambda>d. the (snd d)) ds)) r"
proof (induction ds arbitrary: items combined)
  case (Cons d ds)
  from Cons.prems(2) obtain dir its c where d: "d = (dir, Some its)"
    "merge combined (Scan env dir its) = Inr c" "ScanDirectories_loop env c ds = Inr r"
    by (auto split: prod.splits option.splits sum.splits)
  from Cons.IH [OF scan_inv_merge [OF Cons.prems(1) scan_inv_Scan d(2)] d(3)] show ?case
    by (simp add: d(1))
qed simp

subsection \<open>Properties\<close>

text \<open>
  C25: an app the registry offers is genuine. If scanning the core and the installed directories
  gives a registry that returns a manifest for an id, that manifest carries this id and is valid,
  and among all packages of all directories exactly one declares the id: no package can stand in
  for another by its place in the scan.
\<close>

theorem registry_unambiguous:
  assumes "ScanDirectories env ds = Inr r" and "Get r i = Some m" and "i \<noteq> []"
  shows "m_ID m = i \<and> (\<exists>dir. Validate (file_exists env) m dir = None) \<and>
    length (filter (claims env i) (concat (map (\<lambda>d. the (snd d)) ds))) = 1"
proof -
  have "scan_inv env (concat (map (\<lambda>d. the (snd d)) ds)) r"
    using scan_inv_directories [of env "[]" "[]" ds r] assms(1)
    by (simp add: ScanDirectories_def scan_inv_def)
  moreover from assms(2) obtain entry where "map_of r i = Some entry" "e_Error entry = None"
    "m = e_Manifest entry"
    by (auto simp: Get_def Registry_Entry_def split: option.splits if_splits)
  ultimately show ?thesis using assms(3) by (fastforce simp: scan_inv_def good_entry_def)
qed


definition sample_manifest :: Manifest where
  "sample_manifest = zero_manifest\<lparr>m_SchemaVersion := 1, m_ID := ''browser'', m_Name := ''Browser'',
     m_Version := ''1'',
     m_Runtime := \<lparr>rt_Type = ''container-service'', rt_Image = ''reg:5000/app:1.2'', rt_Command = [],
       rt_Environment = [(''TZ'', ''UTC'')], rt_InternalPort = 3000\<rparr>,
     m_Routing := \<lparr>ro_BasePath = ''/apps/browser'', ro_StripPrefix = True, ro_WebSocket = True\<rparr>,
     m_NetworkMode := ''workstation-vpn'',
     m_Storage := [\<lparr>st_Type = ''app-data'', st_Target = ''/config'', st_OwnerUID = 0, st_OwnerGID = 0\<rparr>]\<rparr>"

definition sample_env :: environment where
  "sample_env = \<lparr>yaml_decode = (\<lambda>_. (None, sample_manifest)), digest = (\<lambda>_. []), file_exists = (\<lambda>_. True)\<rparr>"

definition sample_dirs :: "(string \<times> dir_item list option) list" where
  "sample_dirs = [(''core'', Some [\<lparr>di_Name = ''browser'', di_IsDir = True, di_AppYAML = Data ''x''\<rparr>]),
     (''installed'', Some [])]"

lemma sample_scan: "is_ok (ScanDirectories sample_env sample_dirs)"
  "Get (projr (ScanDirectories sample_env sample_dirs)) ''browser'' = Some sample_manifest"
  by code_simp+

theorem registry_unambiguous_witness:
  "length (filter (claims sample_env ''browser'') (concat (map (\<lambda>d. the (snd d)) sample_dirs))) = 1"
proof -
  from sample_scan(1) obtain r where r: "ScanDirectories sample_env sample_dirs = Inr r" by (rule is_okE)
  with sample_scan(2) have "Get r ''browser'' = Some sample_manifest" by simp
  from registry_unambiguous [OF r this] show ?thesis by simp
qed


end
