(* ===== verification/Worker_API.thy ===== *)
theory Worker_API
  imports Manifests
begin

text \<open>
  The messages between the controller and the Docker worker, \<^verbatim>\<open>pkg/workerapi/types.go\<close>.
\<close>

abbreviation LabelManagedBy :: string where
  "LabelManagedBy \<equiv> ''managed-by''"
abbreviation LabelWorkstationID :: string where
  "LabelWorkstationID \<equiv> ''workstation-id''"
abbreviation LabelResourceType :: string where
  "LabelResourceType \<equiv> ''resource-type''"
abbreviation LabelAppID :: string where
  "LabelAppID \<equiv> ''app-id''"
abbreviation ManagedByValue :: string where
  "ManagedByValue \<equiv> ''workstation-manager''"

record StorageSpec =
  ss_Type :: string
  ss_Target :: string
  ss_OwnerUID :: int
  ss_OwnerGID :: int

record AppSpec =
  as_ID :: string
  as_Version :: string
  as_ManifestSHA256 :: string
  as_Image :: string
  as_Command :: "string list"
  as_Environment :: "(string \<times> string) list"
  as_InternalPort :: int
  as_MemoryMB :: int
  as_CPU :: float64
  as_ShmSizeMB :: int
  as_Capabilities :: "string list"
  as_Storage :: "StorageSpec list"
  as_HealthPath :: string
  as_HealthTimeoutSeconds :: int

record ProvisionRequest =
  pr_WorkstationID :: string
  pr_Persistent :: bool
  pr_VPNRequired :: bool
  pr_VPNProfile :: "string option"
  pr_MemoryMB :: int
  pr_CPU :: float64
  pr_PIDLimit :: int
  pr_WorkspaceImage :: string
  pr_EgressMode :: string
  pr_Apps :: "AppSpec list"

record Resource =
  re_ID :: string
  re_Name :: string
  re_Kind :: string
  re_WorkstationID :: string
  re_AppID :: string
  re_State :: string
  re_Health :: string
  re_Labels :: "(string \<times> string) list"

record TunnelStatus =
  ts_Up :: bool
  ts_Endpoint :: string
  ts_HandshakeAgeSeconds :: int
  ts_ReceivedBytes :: nat
  ts_SentBytes :: nat

record EgressStatus =
  es_WorkstationID :: string
  es_Mode :: string
  es_Healthy :: bool
  es_FailsClosed :: bool
  es_Tunnel :: "TunnelStatus option"
  es_Error :: string

end
