(* ===== verification/Worker_Config.thy ===== *)
theory Worker_Config
  imports Worker_API
begin

text \<open>
  The worker's settings, \<^verbatim>\<open>internal/config/config.go\<close>, and the names it derives from
  a workstation id: resource ids, resource names, base labels and log file names. The environment
  of the process is a function that is empty where a variable is not set.
\<close>

type_synonym environ = "string \<Rightarrow> string"

definition env :: "environ \<Rightarrow> string \<Rightarrow> string \<Rightarrow> string" where
  "env getenv key fallback = (let v = TrimSpace (getenv key) in if v \<noteq> [] then v else fallback)"

definition ParseBool :: "string \<Rightarrow> bool option" where
  "ParseBool s =
     (if s \<in> {''1'', ''t'', ''T'', ''true'', ''TRUE'', ''True''} then Some True
      else if s \<in> {''0'', ''f'', ''F'', ''false'', ''FALSE'', ''False''} then Some False
      else None)"

definition envBool :: "environ \<Rightarrow> string \<Rightarrow> bool \<Rightarrow> bool" where
  "envBool getenv key fallback =
     (let v = TrimSpace (getenv key) in
      if v = [] then fallback
      else case ParseBool v of None \<Rightarrow> fallback | Some b \<Rightarrow> b)"

definition envInt :: "environ \<Rightarrow> string \<Rightarrow> int \<Rightarrow> int" where
  "envInt getenv key fallback =
     (case Atoi (TrimSpace (getenv key)) of None \<Rightarrow> fallback | Some i \<Rightarrow> i)"

record Worker =
  wk_Listen :: string
  wk_Token :: string
  wk_DockerSocket :: string
  wk_ManagementNetwork :: string
  wk_AllowedImages :: "string list"
  wk_WSLANImage :: string
  wk_ApprovalsPath :: string
  wk_LogsDirectory :: string
  wk_LogsUID :: int
  wk_LogsGID :: int

datatype config_error = ShortToken | LogOwnerPair

definition allowed_images :: "string \<Rightarrow> string list" where
  "allowed_images raw = filter (\<lambda>i. i \<noteq> []) (map TrimSpace (Split raw (CHR '','')))"

definition LoadWorker :: "environ \<Rightarrow> (config_error, Worker) result" where
  "LoadWorker getenv =
     (let w = \<lparr>wk_Listen = env getenv ''WORKER_LISTEN'' ''0.0.0.0:8090'',
        wk_Token = getenv ''WORKER_TOKEN'',
        wk_DockerSocket = env getenv ''DOCKER_SOCKET'' ''/var/run/docker.sock'',
        wk_ManagementNetwork = env getenv ''MANAGEMENT_NETWORK'' ''workstation-manager'',
        wk_AllowedImages = [],
        wk_WSLANImage = env getenv ''WSLAN_IMAGE'' ''contain-yourself-wslan:dev'',
        wk_ApprovalsPath = env getenv ''APP_APPROVALS_PATH'' ''/data/app-approvals.json'',
        wk_LogsDirectory = env getenv ''WORKSTATION_LOGS_DIRECTORY'' ''/logs'',
        wk_LogsUID = envInt getenv ''WORKSTATION_LOG_UID'' (- 1),
        wk_LogsGID = envInt getenv ''WORKSTATION_LOG_GID'' (- 1)\<rparr>
      in if length (wk_Token w) < 24 then Inl ShortToken
         else if (wk_LogsUID w < 0) \<noteq> (wk_LogsGID w < 0) then Inl LogOwnerPair
         else Inr (w\<lparr>wk_AllowedImages :=
           allowed_images (getenv ''WORKER_ALLOWED_IMAGES'') @ [wk_WSLANImage w]\<rparr>))"

subsection \<open>Identifiers and names\<close>

text \<open>The regular expressions \<^verbatim>\<open>^ws-[a-z0-9]{6,20}$\<close> and \<^verbatim>\<open>^[a-z][a-z0-9-]{1,63}$\<close>.\<close>

definition resourceID :: "string \<Rightarrow> bool" where
  "resourceID s =
     (HasPrefix s ''ws-'' \<and>
      (let t = drop 3 s in 6 \<le> length t \<and> length t \<le> 20 \<and> list_all (\<lambda>c. is_lower c \<or> is_digit c) t))"

definition logFileID :: "string \<Rightarrow> bool" where
  "logFileID s =
     (case s of
        [] \<Rightarrow> False
      | c # t \<Rightarrow> is_lower c \<and> 1 \<le> length t \<and> length t \<le> 63 \<and>
          list_all (\<lambda>c. is_lower c \<or> is_digit c \<or> c = CHR ''-'') t)"

definition baseLabels :: "string \<Rightarrow> string \<Rightarrow> (string \<times> string) list" where
  "baseLabels workstationID resourceType =
     [(LabelManagedBy, ManagedByValue), (LabelWorkstationID, workstationID),
      (LabelResourceType, resourceType)]"

definition name :: "string \<Rightarrow> string \<Rightarrow> string" where
  "name workstationID suffix = ''wm-'' @ workstationID @ ''-'' @ suffix"

definition id_char :: "char \<Rightarrow> bool" where
  "id_char c = (is_lower c \<or> is_digit c \<or> c = CHR ''-'')"

lemma resourceID_chars: "resourceID s \<Longrightarrow> c \<in> set s \<Longrightarrow> id_char c"
proof -
  assume r: "resourceID s" and c: "c \<in> set s"
  then have s: "s = ''ws-'' @ drop 3 s" by (auto simp: resourceID_def HasPrefix_iff)
  have "set s = set ''ws-'' \<union> set (drop 3 s)" by (subst s) (simp only: set_append)
  with c consider "c \<in> set ''ws-''" | "c \<in> set (drop 3 s)" by blast
  then show "id_char c"
    using r by cases (auto simp: resourceID_def Let_def list_all_iff id_char_def is_lower_def)
qed

lemma logFileID_chars: "logFileID s \<Longrightarrow> c \<in> set s \<Longrightarrow> id_char c"
  by (auto simp: logFileID_def id_char_def list_all_iff split: list.splits)

lemma identifier_chars: "identifier_re s \<Longrightarrow> c \<in> set s \<Longrightarrow> id_char c"
  by (auto simp: identifier_re_def id_char_def list_all_iff split: list.splits)

lemma identifier_logFileID: "identifier_re s \<Longrightarrow> logFileID s"
  by (auto simp: identifier_re_def logFileID_def split: list.splits)

lemma resourceID_ne: "resourceID s \<Longrightarrow> s \<noteq> []"
  by (auto simp: resourceID_def)

lemma resourceID_length: "resourceID s \<Longrightarrow> 9 \<le> length s \<and> length s \<le> 23"
  by (auto simp: resourceID_def Let_def HasPrefix_iff)

text \<open>
  Resource names determine the workstation: an id has no dash after its first three bytes, so the
  name of a resource of one workstation is never the name of a resource of another.
\<close>

lemma name_inj_suffix: "name w a = name w b \<longleftrightarrow> a = b"
  by (simp add: name_def)

lemma append_sep_unique:
  assumes eq: "a @ c # x = b @ c # y" and "(c :: char) \<notin> set a" and "c \<notin> set b"
  shows "a = b"
proof -
  have "fst (Cut (a @ c # x) c) = a" using assms(2) by simp
  moreover have "fst (Cut (b @ c # y) c) = b" using assms(3) by simp
  ultimately show ?thesis unfolding eq by simp
qed

lemma name_inj_id:
  assumes "resourceID v" and "resourceID w" and "name v a = name w b"
  shows "v = w"
proof -
  obtain v' w' where vw: "v = ''ws-'' @ v'" "w = ''ws-'' @ w'"
    using assms(1,2) by (auto simp: resourceID_def HasPrefix_iff)
  have no_dash: "CHR ''-'' \<notin> set t" if "resourceID (''ws-'' @ t)" for t
    using that by (auto simp: resourceID_def Let_def list_all_iff is_lower_def is_digit_def)
  from no_dash assms(1,2) vw have "CHR ''-'' \<notin> set v'" "CHR ''-'' \<notin> set w'" by metis+
  moreover have "v' @ CHR ''-'' # a = w' @ CHR ''-'' # b"
    using assms(3) vw by (simp add: name_def)
  ultimately have "v' = w'" by (metis append_sep_unique)
  with vw show ?thesis by simp
qed

end
