(* ===== verification/Go_Net.thy ===== *)
theory Go_Net
  imports Go_Std
begin

text \<open>
  Go's \<^verbatim>\<open>encoding/base64\<close> (standard and URL alphabets, with and without padding) and
  the address syntax of \<^verbatim>\<open>net\<close>: \<^verbatim>\<open>ParseIP\<close>, \<^verbatim>\<open>ParseCIDR\<close>
  and \<^verbatim>\<open>SplitHostPort\<close>. Decoding undoes encoding.
\<close>

subsection \<open>Base64\<close>

definition b64_char :: "bool \<Rightarrow> nat \<Rightarrow> char" where
  "b64_char url n =
     (if n < 26 then char_of (0x41 + n)
      else if n < 52 then char_of (0x61 + (n - 26))
      else if n < 62 then char_of (0x30 + (n - 52))
      else if n = 62 then (if url then CHR ''-'' else CHR ''+'')
      else (if url then CHR ''_'' else CHR ''/''))"

definition b64_val :: "bool \<Rightarrow> char \<Rightarrow> nat option" where
  "b64_val url c =
     (let n = of_char c :: nat in
      if 0x41 \<le> n \<and> n \<le> 0x5A then Some (n - 0x41)
      else if 0x61 \<le> n \<and> n \<le> 0x7A then Some (n - 0x61 + 26)
      else if 0x30 \<le> n \<and> n \<le> 0x39 then Some (n - 0x30 + 52)
      else if c = (if url then CHR ''-'' else CHR ''+'') then Some 62
      else if c = (if url then CHR ''_'' else CHR ''/'') then Some 63
      else None)"

fun b64_encode :: "bool \<Rightarrow> bool \<Rightarrow> string \<Rightarrow> string" where
  "b64_encode url pad [] = []"
| "b64_encode url pad [x] =
     (let a = of_char x in
      [b64_char url (a div 4), b64_char url (a mod 4 * 16)]
      @ (if pad then [CHR ''='', CHR ''=''] else []))"
| "b64_encode url pad [x, y] =
     (let a = of_char x; b = of_char y in
      [b64_char url (a div 4), b64_char url (a mod 4 * 16 + b div 16),
       b64_char url (b mod 16 * 4)]
      @ (if pad then [CHR ''=''] else []))"
| "b64_encode url pad (x # y # z # s) =
     (let a = of_char x; b = of_char y; c = of_char z in
      [b64_char url (a div 4), b64_char url (a mod 4 * 16 + b div 16),
       b64_char url (b mod 16 * 4 + c div 64), b64_char url (c mod 64)]
      @ b64_encode url pad s)"

definition b64_one :: "nat \<Rightarrow> nat \<Rightarrow> char" where
  "b64_one a b = char_of (4 * a + b div 16)"

definition b64_two :: "nat \<Rightarrow> nat \<Rightarrow> char" where
  "b64_two b c = char_of (b mod 16 * 16 + c div 4)"

definition b64_three :: "nat \<Rightarrow> nat \<Rightarrow> char" where
  "b64_three c d = char_of (c mod 4 * 64 + d)"

fun b64_decode_quads :: "bool \<Rightarrow> bool \<Rightarrow> string \<Rightarrow> string option" where
  "b64_decode_quads url pad [] = Some []"
| "b64_decode_quads url pad [p] = None"
| "b64_decode_quads url pad [p, q] =
     (case (b64_val url p, b64_val url q) of
        (Some a, Some b) \<Rightarrow> if pad then None else Some [b64_one a b]
      | _ \<Rightarrow> None)"
| "b64_decode_quads url pad [p, q, r] =
     (case (b64_val url p, b64_val url q, b64_val url r) of
        (Some a, Some b, Some c) \<Rightarrow> if pad then None else Some [b64_one a b, b64_two b c]
      | _ \<Rightarrow> None)"
| "b64_decode_quads url pad (p # q # r # s # t) =
     (case (b64_val url p, b64_val url q) of
        (Some a, Some b) \<Rightarrow>
          if pad \<and> r = CHR ''='' \<and> s = CHR ''='' then (if t = [] then Some [b64_one a b] else None)
          else (case b64_val url r of
              None \<Rightarrow> None
            | Some c \<Rightarrow>
                if pad \<and> s = CHR ''='' then
                  (if t = [] then Some [b64_one a b, b64_two b c] else None)
                else (case (b64_val url s, b64_decode_quads url pad t) of
                    (Some d, Some u) \<Rightarrow> Some (b64_one a b # b64_two b c # b64_three c d # u)
                  | _ \<Rightarrow> None))
      | _ \<Rightarrow> None)"

text \<open>\<^verbatim>\<open>DecodeString\<close> skips carriage returns and newlines wherever they stand.\<close>

definition b64_decode :: "bool \<Rightarrow> bool \<Rightarrow> string \<Rightarrow> string option" where
  "b64_decode url pad s =
     b64_decode_quads url pad (filter (\<lambda>c. c \<noteq> CHR 0x0A \<and> c \<noteq> CHR 0x0D) s)"

lemma b64_val_char: "n < 64 \<Longrightarrow> b64_val url (b64_char url n) = Some n"
  by (auto simp: b64_val_def b64_char_def Let_def)

lemma b64_char_not_special:
  "n < 64 \<Longrightarrow> b64_char url n \<noteq> CHR ''='' \<and> b64_char url n \<noteq> CHR 0x0A
   \<and> b64_char url n \<noteq> CHR 0x0D \<and> b64_char url n \<noteq> CHR ''$''"
proof -
  assume "n < 64"
  then have "b64_val url (b64_char url n) = Some n" by (rule b64_val_char)
  moreover have "b64_val url (CHR ''='') = None" "b64_val url (CHR 0x0A) = None"
    "b64_val url (CHR 0x0D) = None" "b64_val url (CHR ''$'') = None"
    by (auto simp: b64_val_def)
  ultimately show ?thesis by (metis option.distinct(1))
qed

lemma byte_div:
  "of_char x div 4 < (64 :: nat)" "of_char x div 16 < (16 :: nat)" "of_char x div 64 < (4 :: nat)"
  by (rule less_mult_imp_div_less, use of_char_lt_256 [of x] in simp)+

lemma radix_lt: "p < k \<Longrightarrow> q < (m :: nat) \<Longrightarrow> p * m + q < k * m"
proof -
  assume "p < k" and "q < m"
  then have "p * m + q < Suc p * m" by simp
  also have "\<dots> \<le> k * m" using \<open>p < k\<close> by (intro mult_right_mono) simp_all
  finally show ?thesis .
qed

lemma radix_div: "q < m \<Longrightarrow> (p * m + q) div m = (p :: nat)"
  by simp

lemma radix_mod: "q < m \<Longrightarrow> (p * m + q) mod m = (q :: nat)"
  by simp

lemma sextets:
  "of_char x mod 4 * 16 < (64 :: nat)"
  "of_char x mod 4 * 16 + of_char y div 16 < (64 :: nat)"
  "of_char x mod 16 * 4 < (64 :: nat)"
  "of_char x mod 16 * 4 + of_char y div 64 < (64 :: nat)"
  "of_char x mod 64 < (64 :: nat)"
  using radix_lt [of "of_char x mod 4" 4 "of_char y div 16" 16] radix_lt [of "of_char x mod 4" 4 0 16]
    radix_lt [of "of_char x mod 16" 16 "of_char y div 64" 4] radix_lt [of "of_char x mod 16" 16 0 4]
  by (simp_all add: byte_div)

lemma b64_bytes:
  "b64_one (of_char x div 4) (of_char x mod 4 * 16 + of_char y div 16) = x"
  "b64_one (of_char x div 4) (of_char x mod 4 * 16) = x"
  "b64_two (of_char x mod 4 * 16 + of_char y div 16) (of_char y mod 16 * 4 + of_char z div 64) = y"
  "b64_two (of_char x mod 4 * 16 + of_char y div 16) (of_char y mod 16 * 4) = y"
  "b64_three (of_char y mod 16 * 4 + of_char z div 64) (of_char z mod 64) = z"
  unfolding b64_one_def b64_two_def b64_three_def
  by (simp_all only: radix_div [OF byte_div(2)] radix_mod [OF byte_div(2)]
      radix_div [OF byte_div(3)] radix_mod [OF byte_div(3)]) simp_all

lemma b64_decode_quads_encode: "b64_decode_quads url pad (b64_encode url pad s) = Some s"
proof (induction url pad s rule: b64_encode.induct)
  case (4 url pad x y z s)
  then show ?case
    by (simp add: Let_def b64_val_char byte_div sextets b64_char_not_special b64_bytes)
qed (simp_all add: Let_def b64_val_char byte_div sextets b64_char_not_special b64_bytes)

lemma b64_encode_chars:
  "c \<in> set (b64_encode url pad s) \<Longrightarrow> c \<noteq> CHR 0x0A \<and> c \<noteq> CHR 0x0D \<and> c \<noteq> CHR ''$''"
  by (induction url pad s rule: b64_encode.induct)
    (auto simp: Let_def byte_div sextets b64_char_not_special split: if_splits)

theorem b64_decode_encode: "b64_decode url pad (b64_encode url pad s) = Some s"
proof -
  have "filter (\<lambda>c. c \<noteq> CHR 0x0A \<and> c \<noteq> CHR 0x0D) (b64_encode url pad s) = b64_encode url pad s"
    using b64_encode_chars [of _ url pad s] by (simp add: filter_id_conv)
  then show ?thesis by (simp add: b64_decode_def b64_decode_quads_encode)
qed

subsection \<open>Addresses\<close>

definition octet_ok :: "string \<Rightarrow> bool" where
  "octet_ok w =
     (case digits_value w of
        None \<Rightarrow> False
      | Some n \<Rightarrow> n \<le> 255 \<and> (1 < length w \<longrightarrow> hd w \<noteq> CHR ''0''))"

definition ipv4_ok :: "string \<Rightarrow> bool" where
  "ipv4_ok s =
     (let ws = Split s (CHR ''.'') in length ws = 4 \<and> list_all octet_ok ws)"

definition is_hex :: "char \<Rightarrow> bool" where
  "is_hex c = (hex_val c \<noteq> None)"

text \<open>
  The field loop of \<^verbatim>\<open>netip.parseIPv6\<close>. The first argument counts the 16-bit fields
  still free, the flag records an ellipsis; the result is the unread text, the fields left and
  the flag, or \<open>None\<close> for a syntax error.
\<close>

fun ipv6_fields :: "nat \<Rightarrow> string \<Rightarrow> bool \<Rightarrow> (string \<times> nat \<times> bool) option" where
  "ipv6_fields 0 s ell = Some (s, 0, ell)"
| "ipv6_fields (Suc r) s ell =
     (let off = length (takeWhile is_hex s) in
      if off = 0 \<or> 4 < off then None
      else (case drop off s of
          [] \<Rightarrow> Some ([], r, ell)
        | c # t \<Rightarrow>
            if c = CHR ''.'' then
              (if \<not> ell \<and> r \<noteq> 1 \<or> r < 1 then None
               else if ipv4_ok s then Some ([], r - 1, ell) else None)
            else if c \<noteq> CHR '':'' then None
            else (case t of
                [] \<Rightarrow> None
              | d # u \<Rightarrow>
                  if d = CHR '':'' then
                    (if ell then None
                     else if u = [] then Some ([], r, True) else ipv6_fields r u True)
                  else ipv6_fields r t ell)))"

definition ipv6_ok :: "string \<Rightarrow> bool" where
  "ipv6_ok s =
     (let start = (if HasPrefix s ''::'' then (drop 2 s, True) else (s, False))
      in if start = ([], True) then True
         else (case ipv6_fields 8 (fst start) (snd start) of
             None \<Rightarrow> False
           | Some (rest, left, ell) \<Rightarrow> rest = [] \<and> (if 0 < left then ell else \<not> ell)))"

text \<open>
  \<^verbatim>\<open>netip.ParseAddr\<close> without zones: the first dot or colon decides the family, and the
  result is the address length in bits. A percent sign starts a zone, which the callers refuse.
\<close>

definition ParseAddr :: "string \<Rightarrow> nat option" where
  "ParseAddr s =
     (case dropWhile (\<lambda>c. c \<noteq> CHR ''.'' \<and> c \<noteq> CHR '':'' \<and> c \<noteq> CHR ''%'') s of
        [] \<Rightarrow> None
      | c # _ \<Rightarrow>
          if c = CHR ''.'' then (if ipv4_ok s then Some 32 else None)
          else if c = CHR '':'' then (if ipv6_ok s then Some 128 else None)
          else None)"

definition ParseIP :: "string \<Rightarrow> bool" where
  "ParseIP s = (ParseAddr s \<noteq> None)"

definition ParseCIDR :: "string \<Rightarrow> bool" where
  "ParseCIDR s =
     (case Cut s (CHR ''/'') of (addr, plen, found) \<Rightarrow>
        found \<and>
        (case (ParseAddr addr, digits_value plen) of
           (Some bits, Some n) \<Rightarrow> n \<le> bits
         | _ \<Rightarrow> False))"

text \<open>
  \<^verbatim>\<open>net.SplitHostPort\<close>: the last colon separates the port; a host with colons stands
  in brackets. \<open>None\<close> is any of its errors.
\<close>

definition SplitHostPort :: "string \<Rightarrow> (string \<times> string) option" where
  "SplitHostPort hostport =
     (case LastIndex hostport '':'' of
        None \<Rightarrow> None
      | Some i \<Rightarrow>
          if HasPrefix hostport ''['' then
            (let upto = takeWhile (\<lambda>c. c \<noteq> CHR '']'') hostport; e = length upto in
             if e = length hostport \<or> e + 1 \<noteq> i then None
             else if CHR ''['' \<in> set (drop 1 hostport) \<or> CHR '']'' \<in> set (drop (e + 1) hostport)
             then None
             else Some (drop 1 upto, drop (i + 1) hostport))
          else
            (let host = take i hostport in
             if CHR '':'' \<in> set host then None
             else if CHR ''['' \<in> set hostport \<or> CHR '']'' \<in> set hostport then None
             else Some (host, drop (i + 1) hostport)))"

end
