(* ===== verification/WireGuard_Profile.thy ===== *)
theory WireGuard_Profile
  imports Go_Net
begin

text \<open>
  Validation of user-supplied WireGuard configurations,
  \<^verbatim>\<open>internal/vpnprofiles/wireguard.go\<close>: the line parser with its section and directive
  allowlists, the checks of keys, networks, resolvers, endpoint and numbers, and the canonical
  text that is stored. The theorems show that the canonical text parses to itself and that it
  can carry no directive outside the allowlist.

  The argument \<open>uni\<close> is the part of \<^verbatim>\<open>strings.ToLower\<close> for text that is not ASCII.
\<close>

definition MaxConfigBytes :: nat where
  "MaxConfigBytes = 64 * 1024"

record Parsed =
  Canonical :: string
  Endpoint :: string

datatype wg_error =
    BadSize
  | BadSections
  | ValueBeforeSection
  | DirectiveNotAllowed string
  | DuplicateDirective string
  | LineTooLong
  | BadKey string
  | Required string
  | NotCIDR string string
  | NoDefaultRoute
  | BadDNS string
  | BadEndpoint
  | BadPort
  | OutOfRange string

type_synonym sections = "string \<Rightarrow> string \<rightharpoonup> string"

text \<open>Reading a missing key of a Go map of strings gives the empty string.\<close>

definition field :: "sections \<Rightarrow> string \<Rightarrow> string \<Rightarrow> string" where
  "field S section key = (case S section key of None \<Rightarrow> [] | Some v \<Rightarrow> v)"

definition interface_keys :: "string list" where
  "interface_keys = [''privatekey'', ''address'', ''dns'', ''mtu'']"

definition peer_keys :: "string list" where
  "peer_keys =
     [''publickey'', ''presharedkey'', ''endpoint'', ''allowedips'', ''persistentkeepalive'']"

definition allowed_directive :: "string \<Rightarrow> string \<Rightarrow> bool" where
  "allowed_directive section key =
     (section = ''interface'' \<and> key \<in> set interface_keys \<or>
      section = ''peer'' \<and> key \<in> set peer_keys)"

record parse_state =
  section_now :: string
  seenSections :: "string list"
  sections_of :: sections

definition parse_start :: parse_state where
  "parse_start = \<lparr>section_now = [], seenSections = [], sections_of = (\<lambda>_ _. None)\<rparr>"

text \<open>The body of the scanner loop, for one line.\<close>

definition parse_line ::
  "(string \<Rightarrow> string) \<Rightarrow> parse_state \<Rightarrow> string \<Rightarrow> (wg_error, parse_state) result" where
  "parse_line uni st text =
     (let line = TrimSpace text in
      if line = [] \<or> HasPrefix line ''#'' \<or> HasPrefix line '';'' then Inr st
      else if HasPrefix line ''['' \<and> HasSuffix line '']'' then
        (let section = ToLower uni (TrimSpace (butlast (tl line))) in
         if section \<noteq> ''interface'' \<and> section \<noteq> ''peer'' \<or> section \<in> set (seenSections st)
         then Inl BadSections
         else Inr (st\<lparr>section_now := section, seenSections := section # seenSections st\<rparr>))
      else if section_now st = [] then Inl ValueBeforeSection
      else
        (case Cut line (CHR ''='') of (rawkey, rawvalue, ok) \<Rightarrow>
           let key = ToLower uni (TrimSpace rawkey); value = TrimSpace rawvalue in
           if \<not> ok \<or> value = [] \<or> \<not> allowed_directive (section_now st) key
           then Inl (DirectiveNotAllowed key)
           else if sections_of st (section_now st) key \<noteq> None then Inl (DuplicateDirective key)
           else Inr (st\<lparr>sections_of := (sections_of st)
                  (section_now st := (sections_of st (section_now st))(key \<mapsto> value))\<rparr>)))"

primrec parse_lines ::
  "(string \<Rightarrow> string) \<Rightarrow> parse_state \<Rightarrow> string list \<Rightarrow> (wg_error, parse_state) result" where
  "parse_lines uni st [] = Inr st"
| "parse_lines uni st (l # ls) =
     (case parse_line uni st l of Inl e \<Rightarrow> Inl e | Inr st' \<Rightarrow> parse_lines uni st' ls)"

definition validateKey :: "string \<Rightarrow> string \<Rightarrow> bool \<Rightarrow> wg_error check" where
  "validateKey name value optional =
     (if value = [] \<and> optional then None
      else (case b64_decode False True value of
          Some decoded \<Rightarrow> if length decoded \<noteq> 32 then Some (BadKey name) else None
        | None \<Rightarrow> Some (BadKey name)))"

definition splitCSV :: "string \<Rightarrow> string list" where
  "splitCSV raw = filter (\<lambda>item. item \<noteq> []) (map TrimSpace (Split raw (CHR 0x2C)))"

definition validateCIDRs :: "string \<Rightarrow> string \<Rightarrow> bool \<Rightarrow> wg_error check" where
  "validateCIDRs name raw required =
     (if raw = [] \<and> required then Some (Required name)
      else check_all (\<lambda>value. if \<not> ParseCIDR value then Some (NotCIDR name value) else None)
             (splitCSV raw))"

definition validateNumber :: "string \<Rightarrow> string \<Rightarrow> int \<Rightarrow> int \<Rightarrow> wg_error check" where
  "validateNumber name raw minimum maximum =
     (if raw = [] then None
      else (case Atoi raw of
          None \<Rightarrow> Some (OutOfRange name)
        | Some value \<Rightarrow> if value < minimum \<or> value > maximum then Some (OutOfRange name) else None))"

definition containsDefaultRoute :: "string \<Rightarrow> bool" where
  "containsDefaultRoute raw = list_ex (\<lambda>value. value = ''0.0.0.0/0'') (splitCSV raw)"

definition directive_name :: "string \<Rightarrow> string" where
  "directive_name key =
     (if key = ''privatekey'' then ''PrivateKey''
      else if key = ''address'' then ''Address''
      else if key = ''dns'' then ''DNS''
      else if key = ''mtu'' then ''MTU''
      else if key = ''publickey'' then ''PublicKey''
      else if key = ''presharedkey'' then ''PresharedKey''
      else if key = ''endpoint'' then ''Endpoint''
      else if key = ''allowedips'' then ''AllowedIPs''
      else if key = ''persistentkeepalive'' then ''PersistentKeepalive''
      else [])"

definition directive_line :: "string \<Rightarrow> string \<Rightarrow> string" where
  "directive_line key value = directive_name key @ '' = '' @ value"

definition writeKeys :: "(string \<rightharpoonup> string) \<Rightarrow> string list \<Rightarrow> string" where
  "writeKeys vals keys =
     concat (map (\<lambda>key. case vals key of
         None \<Rightarrow> []
       | Some value \<Rightarrow> if value \<noteq> [] then directive_line key value @ [CHR 0x0A] else []) keys)"

definition canonical :: "sections \<Rightarrow> string" where
  "canonical S =
     ''[Interface]'' @ [CHR 0x0A] @ writeKeys (S ''interface'') interface_keys
     @ [CHR 0x0A] @ ''[Peer]'' @ [CHR 0x0A] @ writeKeys (S ''peer'') peer_keys"

text \<open>\<^verbatim>\<open>strings.Trim(host, "[]")\<close>.\<close>

definition trim_brackets :: "string \<Rightarrow> string" where
  "trim_brackets host =
     (let b = (\<lambda>c. c = CHR ''['' \<or> c = CHR '']'')
      in rev (dropWhile b (rev (dropWhile b host))))"

text \<open>The checks of \<^verbatim>\<open>Parse\<close> after the scanner loop, in their order.\<close>

definition check_dns :: "string \<Rightarrow> wg_error check" where
  "check_dns dns =
     (if dns \<noteq> []
      then check_all (\<lambda>value. if \<not> ParseIP value then Some (BadDNS value) else None) (splitCSV dns)
      else None)"

definition check_endpoint :: "string \<Rightarrow> wg_error check" where
  "check_endpoint endpoint =
     (case SplitHostPort endpoint of
        None \<Rightarrow> Some BadEndpoint
      | Some (host, portRaw) \<Rightarrow>
          if \<not> ParseIP (trim_brackets host) then Some BadEndpoint
          else (case Atoi portRaw of
              None \<Rightarrow> Some BadPort
            | Some port \<Rightarrow> if port < 1 \<or> port > 65535 then Some BadPort else None))"

definition validate_sections :: "string list \<Rightarrow> sections \<Rightarrow> (wg_error, Parsed) result" where
  "validate_sections seen S =
     (if ''interface'' \<notin> set seen \<or> ''peer'' \<notin> set seen then Inl BadSections
      else
        guard (validateKey ''PrivateKey'' (field S ''interface'' ''privatekey'') False)
        (guard (validateKey ''PublicKey'' (field S ''peer'' ''publickey'') False)
        (guard (validateKey ''PresharedKey'' (field S ''peer'' ''presharedkey'') True)
        (guard (validateCIDRs ''Address'' (field S ''interface'' ''address'') True)
        (guard (validateCIDRs ''AllowedIPs'' (field S ''peer'' ''allowedips'') True)
        (if \<not> containsDefaultRoute (field S ''peer'' ''allowedips'') then Inl NoDefaultRoute
         else
           guard (check_dns (field S ''interface'' ''dns''))
           (guard (check_endpoint (field S ''peer'' ''endpoint''))
           (guard (validateNumber ''MTU'' (field S ''interface'' ''mtu'') 576 1500)
           (guard (validateNumber ''PersistentKeepalive''
                     (field S ''peer'' ''persistentkeepalive'') 0 65535)
             (Inr \<lparr>Canonical = canonical S, Endpoint = field S ''peer'' ''endpoint''\<rparr>))))))))))"

text \<open>
  \<^verbatim>\<open>bufio.Scanner\<close> gives up on a line that fills its 64 KiB buffer; within the size limit
  that is a text of exactly that size without a newline, of which no line is scanned.
\<close>

definition scan_too_long :: "string \<Rightarrow> bool" where
  "scan_too_long raw = (length raw = 64 * 1024 \<and> CHR 0x0A \<notin> set raw)"

definition Parse :: "(string \<Rightarrow> string) \<Rightarrow> string \<Rightarrow> (wg_error, Parsed) result" where
  "Parse uni raw =
     (if length raw = 0 \<or> length raw > MaxConfigBytes then Inl BadSize
      else if scan_too_long raw then Inl LineTooLong
      else (case parse_lines uni parse_start (ScanLines raw) of
          Inl e \<Rightarrow> Inl e
        | Inr st \<Rightarrow> validate_sections (seenSections st) (sections_of st)))"

subsection \<open>What the parser keeps\<close>

text \<open>
  Every directive the parser holds is on the allowlist, with a trimmed, non-empty, one-line
  value; the current section is none or one of the two.
\<close>

definition directives_ok :: "sections \<Rightarrow> bool" where
  "directives_ok S =
     (\<forall>section key value. S section key = Some value \<longrightarrow>
        allowed_directive section key \<and> value \<noteq> [] \<and> trimmed value \<and> CHR 0x0A \<notin> set value)"

lemma directives_okD:
  assumes "directives_ok S" and "S section key = Some value"
  shows "allowed_directive section key" "value \<noteq> []" "trimmed value" "CHR 0x0A \<notin> set value"
  using assms unfolding directives_ok_def by blast+

lemma parse_line_directives_ok:
  assumes "directives_ok (sections_of st)" and "CHR 0x0A \<notin> set text"
    and "parse_line uni st text = Inr st'"
  shows "directives_ok (sections_of st')"
proof (cases "sections_of st' = sections_of st")
  case False
  obtain k v ok where cut: "Cut (TrimSpace text) (CHR ''='') = (k, v, ok)" by (metis prod_cases3)
  from False assms(3) cut have ok: "ok" and ne: "TrimSpace v \<noteq> []"
    and al: "allowed_directive (section_now st) (ToLower uni (TrimSpace k))"
    and st': "sections_of st' = (sections_of st)(section_now st :=
      (sections_of st (section_now st))(ToLower uni (TrimSpace k) \<mapsto> TrimSpace v))"
    by (auto simp: parse_line_def Let_def split: if_splits)
  from cut ok have "set v \<subseteq> set (TrimSpace text)" by (auto dest: Cut_True)
  with set_TrimSpace assms(2) have "CHR 0x0A \<notin> set (TrimSpace v)" by blast
  with assms(1) al ne st' trimmed_TrimSpace show ?thesis
    unfolding directives_ok_def by auto
qed (use assms(1) in simp)

lemma parse_lines_directives_ok:
  "directives_ok (sections_of st) \<Longrightarrow> \<forall>l \<in> set ls. CHR 0x0A \<notin> set l \<Longrightarrow>
   parse_lines uni st ls = Inr st' \<Longrightarrow> directives_ok (sections_of st')"
  by (induction ls arbitrary: st) (auto split: sum.splits dest: parse_line_directives_ok)

lemma ScanLines_no_newline: "l \<in> set (ScanLines s) \<Longrightarrow> CHR 0x0A \<notin> set l"
proof -
  assume "l \<in> set (ScanLines s)"
  then obtain w where w: "w \<in> set (Split s (CHR 0x0A))" and l: "l = drop_cr w"
    by (auto simp: ScanLines_def Let_def split: if_splits dest: in_set_butlastD)
  have "set (drop_cr w) \<subseteq> set w"
    by (auto simp: drop_cr_def TrimSuffix_def dest: in_set_takeD)
  with Split_no_sep [OF w] l show ?thesis by blast
qed

lemma Parse_Inr:
  assumes "Parse uni raw = Inr p"
  obtains S seen where "directives_ok S" and "validate_sections seen S = Inr p"
    and "set seen \<supseteq> {''interface'', ''peer''}" and "Canonical p = canonical S"
proof -
  from assms obtain st where st: "parse_lines uni parse_start (ScanLines raw) = Inr st"
    and v: "validate_sections (seenSections st) (sections_of st) = Inr p"
    by (auto simp: Parse_def split: if_splits sum.splits)
  have "directives_ok (sections_of st)"
    using parse_lines_directives_ok [OF _ _ st] ScanLines_no_newline
    by (simp add: parse_start_def directives_ok_def)
  moreover from v have "set (seenSections st) \<supseteq> {''interface'', ''peer''}"
    and "Canonical p = canonical (sections_of st)"
    by (auto simp: validate_sections_def guard_splits split: if_splits)
  ultimately show thesis using that v by blast
qed

subsection \<open>The canonical text\<close>

definition key_lines :: "(string \<rightharpoonup> string) \<Rightarrow> string list \<Rightarrow> string list" where
  "key_lines vals keys =
     concat (map (\<lambda>key. case vals key of None \<Rightarrow> [] | Some value \<Rightarrow> [directive_line key value]) keys)"

definition canonical_lines :: "sections \<Rightarrow> string list" where
  "canonical_lines S =
     ''[Interface]'' # key_lines (S ''interface'') interface_keys
     @ [] # ''[Peer]'' # key_lines (S ''peer'') peer_keys"

definition unlines :: "string list \<Rightarrow> string" where
  "unlines ls = concat (map (\<lambda>l. l @ [CHR 0x0A]) ls)"

lemma unlines_simps [simp]:
  "unlines [] = []" "unlines (l # ls) = l @ CHR 0x0A # unlines ls"
  "unlines (ls @ ms) = unlines ls @ unlines ms"
  by (simp_all add: unlines_def)

lemma Split_unlines:
  "\<forall>l \<in> set ls. CHR 0x0A \<notin> set l \<Longrightarrow> Split (unlines ls) (CHR 0x0A) = ls @ [[]]"
  by (induction ls) (auto simp: Split_append_sep)

lemma ScanLines_unlines:
  assumes "\<forall>l \<in> set ls. CHR 0x0A \<notin> set l \<and> trimmed l"
  shows "ScanLines (unlines ls) = ls"
proof -
  have "map drop_cr ls = ls" using assms by (intro map_idI) (simp add: drop_cr_trimmed)
  then show ?thesis using assms by (simp add: ScanLines_def Split_unlines)
qed

lemma writeKeys_lines:
  "(\<forall>key value. vals key = Some value \<longrightarrow> value \<noteq> []) \<Longrightarrow>
   writeKeys vals keys = unlines (key_lines vals keys)"
  by (induction keys) (auto simp: writeKeys_def key_lines_def split: option.splits)

lemma canonical_unlines: "directives_ok S \<Longrightarrow> canonical S = unlines (canonical_lines S)"
  by (simp add: canonical_def canonical_lines_def writeKeys_lines directives_ok_def)

text \<open>The nine directive names: visible ASCII without an equals sign, lowered to their keys.\<close>

lemma allowed_key_cases:
  assumes "allowed_directive section key"
  shows "key \<in> set (interface_keys @ peer_keys)"
  using assms by (auto simp: allowed_directive_def)

definition name_ok :: "string \<Rightarrow> bool" where
  "name_ok key =
     (let n = directive_name key in
      n \<noteq> [] \<and> visible (hd n) \<and> visible (last n) \<and> CHR ''='' \<notin> set n \<and> CHR 0x0A \<notin> set n
      \<and> ascii n \<and> map lower_byte n = key \<and> hd n \<notin> set ''#;['')"

lemma name_ok_all: "list_all name_ok (interface_keys @ peer_keys)"
  by code_simp

lemma directive_name_facts:
  assumes "allowed_directive section key"
  shows "directive_name key \<noteq> []" "visible (hd (directive_name key))"
    "visible (last (directive_name key))" "CHR ''='' \<notin> set (directive_name key)"
    "CHR 0x0A \<notin> set (directive_name key)" "ToLower uni (directive_name key) = key"
    "hd (directive_name key) \<notin> set ''#;[''"
proof -
  have "name_ok key"
    using name_ok_all allowed_key_cases [OF assms] unfolding list_all_iff by blast
  then show "directive_name key \<noteq> []" "visible (hd (directive_name key))"
    "visible (last (directive_name key))" "CHR ''='' \<notin> set (directive_name key)"
    "CHR 0x0A \<notin> set (directive_name key)" "ToLower uni (directive_name key) = key"
    "hd (directive_name key) \<notin> set ''#;[''"
    unfolding name_ok_def Let_def ToLower_def by presburger+
qed

lemma directive_line_trimmed:
  assumes "allowed_directive section key" and "trimmed value" and "value \<noteq> []"
  shows "trimmed (directive_line key value)"
  using trimmed_append [OF assms(2,3), of "directive_name key @ '' = ''"]
    directive_name_facts [OF assms(1)]
  by (simp add: directive_line_def)

lemma TrimSpace_name_space:
  assumes "n \<noteq> []" and "visible (hd n)" and "visible (last n)"
  shows "TrimSpace (n @ '' '') = n"
proof -
  have "TrimLeft (n @ '' '') = n @ '' ''"
  proof (rule TrimLeft_id, intro ballI notI)
    fix p assume p: "p \<in> set space_runes" and "HasPrefix (n @ '' '') p"
    then have "hd p = hd n"
      unfolding HasPrefix_iff using assms(1) space_runes_ne [OF p] by (metis hd_append2)
    with space_runes_hd [OF p] assms(2) show False by simp
  qed
  moreover have "TrimRight (n @ '' '') = TrimRight n"
    unfolding TrimRight_def by (subst strip_runes.simps) (simp add: space_runes_def)
  moreover have "TrimRight n = n"
  proof (rule TrimRight_id, intro ballI notI)
    fix p assume p: "p \<in> set space_runes" and "HasSuffix n p"
    then have "last p = last n"
      unfolding HasSuffix_iff using space_runes_ne [OF p] by auto
    with space_runes_last [OF p] assms(3) show False by simp
  qed
  ultimately show ?thesis by (simp add: TrimSpace_def)
qed

lemma parse_line_directive:
  assumes al: "allowed_directive (section_now st) key" and v: "trimmed value" "value \<noteq> []"
    and fresh: "sections_of st (section_now st) key = None"
  shows "parse_line uni st (directive_line key value) =
    Inr (st\<lparr>sections_of := (sections_of st)
      (section_now st := (sections_of st (section_now st))(key \<mapsto> value))\<rparr>)"
proof -
  note n = directive_name_facts [OF al]
  have line: "TrimSpace (directive_line key value) = directive_line key value"
    by (rule TrimSpace_id [OF directive_line_trimmed [OF al v]])
  have "directive_line key value = (directive_name key @ '' '') @ CHR ''='' # CHR 0x20 # value"
    by (simp add: directive_line_def)
  then have cut: "Cut (directive_line key value) (CHR ''='') =
      (directive_name key @ '' '', CHR 0x20 # value, True)"
    using n(4) by (simp only:) (rule Cut_append, simp)
  have "directive_line key value \<noteq> []"
    and "\<And>c. c \<in> set ''#;['' \<Longrightarrow> \<not> HasPrefix (directive_line key value) [c]"
    using n(1,7) by (cases "directive_name key", auto simp: directive_line_def)+
  moreover from al have "section_now st \<noteq> []" by (auto simp: allowed_directive_def)
  ultimately show ?thesis
    using al v fresh n(6) cut
    by (simp add: parse_line_def line Let_def TrimSpace_name_space n TrimSpace_space TrimSpace_id)
qed

lemma parse_lines_append:
  "parse_lines uni st (ls @ ms) =
   (case parse_lines uni st ls of Inl e \<Rightarrow> Inl e | Inr st' \<Rightarrow> parse_lines uni st' ms)"
  by (induction ls arbitrary: st) (auto split: sum.splits)

lemma parse_key_lines:
  assumes "directives_ok S" and "distinct keys" and "\<forall>key \<in> set keys. allowed_directive (section_now st) key"
    and "\<forall>key \<in> set keys. sections_of st (section_now st) key = None"
  shows "parse_lines uni st (key_lines (S (section_now st)) keys) =
    Inr (st\<lparr>sections_of := (sections_of st)(section_now st := \<lambda>key.
      if key \<in> set keys then S (section_now st) key
      else sections_of st (section_now st) key)\<rparr>)"
  using assms(2-4)
proof (induction keys arbitrary: st)
  case (Cons key keys)
  show ?case
  proof (cases "S (section_now st) key")
    case None
    have "(\<lambda>k. if k \<in> set (key # keys) then S (section_now st) k
        else sections_of st (section_now st) k) =
      (\<lambda>k. if k \<in> set keys then S (section_now st) k else sections_of st (section_now st) k)"
      using None Cons.prems by (auto simp: fun_eq_iff)
    moreover have "key_lines (S (section_now st)) (key # keys) = key_lines (S (section_now st)) keys"
      using None by (simp add: key_lines_def)
    ultimately show ?thesis using Cons by simp
  next
    case (Some v)
    define st' where "st' = st\<lparr>sections_of := (sections_of st)
      (section_now st := (sections_of st (section_now st))(key \<mapsto> v))\<rparr>"
    have now: "section_now st' = section_now st" by (simp add: st'_def)
    have "parse_line uni st (directive_line key v) = Inr st'"
      unfolding st'_def using Cons.prems Some directives_okD [OF assms(1) Some]
      by (intro parse_line_directive) auto
    moreover have "parse_lines uni st' (key_lines (S (section_now st')) keys) =
      Inr (st'\<lparr>sections_of := (sections_of st')(section_now st' := \<lambda>k.
        if k \<in> set keys then S (section_now st') k else sections_of st' (section_now st') k)\<rparr>)"
      using Cons.prems by (intro Cons.IH) (auto simp: st'_def)
    moreover have "st'\<lparr>sections_of := (sections_of st')(section_now st' := \<lambda>k.
        if k \<in> set keys then S (section_now st') k else sections_of st' (section_now st') k)\<rparr> =
      st\<lparr>sections_of := (sections_of st)(section_now st := \<lambda>k.
        if k \<in> set (key # keys) then S (section_now st) k
        else sections_of st (section_now st) k)\<rparr>"
      using Some Cons.prems(1) by (auto simp: st'_def fun_eq_iff)
    ultimately show ?thesis using Some now by (simp add: key_lines_def fun_upd_def)
  qed
qed (simp add: key_lines_def)

lemma parse_section_lines:
  assumes "directives_ok S" and "distinct keys" and "section_now st = sec"
    and "\<And>key. key \<in> set keys \<longleftrightarrow> allowed_directive sec key" and "sections_of st sec = Map.empty"
  shows "parse_lines uni st (key_lines (S sec) keys) =
    Inr (st\<lparr>sections_of := (sections_of st)(sec := S sec)\<rparr>)"
proof -
  have "S sec key = None" if "key \<notin> set keys" for key
    using directives_okD(1) [OF assms(1)] that assms(4) by (cases "S sec key") blast+
  then have "(\<lambda>key. if key \<in> set keys then S sec key else sections_of st sec key) = S sec"
    using assms(5) by (auto simp: fun_eq_iff)
  moreover have "parse_lines uni st (key_lines (S sec) keys) =
    Inr (st\<lparr>sections_of := (sections_of st)(sec := \<lambda>key.
      if key \<in> set keys then S sec key else sections_of st sec key)\<rparr>)"
    using parse_key_lines [OF assms(1,2), of st uni, unfolded assms(3)] assms(4,5) by simp
  ultimately show ?thesis by simp
qed

lemma lower_headers:
  "map lower_byte ''Interface'' = ''interface''" "map lower_byte ''Peer'' = ''peer''"
  by code_simp+

lemma parse_header:
  "''interface'' \<notin> set (seenSections st) \<Longrightarrow> parse_line uni st ''[Interface]'' =
    Inr (st\<lparr>section_now := ''interface'', seenSections := ''interface'' # seenSections st\<rparr>)"
  "''peer'' \<notin> set (seenSections st) \<Longrightarrow> parse_line uni st ''[Peer]'' =
    Inr (st\<lparr>section_now := ''peer'', seenSections := ''peer'' # seenSections st\<rparr>)"
proof -
  have "ToLower uni ''Interface'' = ''interface''" "ToLower uni ''Peer'' = ''peer''"
    unfolding ToLower_def lower_headers by simp_all
  then show "''interface'' \<notin> set (seenSections st) \<Longrightarrow> parse_line uni st ''[Interface]'' =
      Inr (st\<lparr>section_now := ''interface'', seenSections := ''interface'' # seenSections st\<rparr>)"
    and "''peer'' \<notin> set (seenSections st) \<Longrightarrow> parse_line uni st ''[Peer]'' =
      Inr (st\<lparr>section_now := ''peer'', seenSections := ''peer'' # seenSections st\<rparr>)"
    by (simp_all add: parse_line_def TrimSpace_id trimmed_visible visible_def HasSuffix_def Let_def)
qed

lemma parse_blank: "parse_line uni st [] = Inr st"
  by (simp add: parse_line_def)

lemma parse_canonical_lines:
  assumes "directives_ok S"
  shows "parse_lines uni parse_start (canonical_lines S) =
    Inr \<lparr>section_now = ''peer'', seenSections = [''peer'', ''interface''], sections_of = S\<rparr>"
proof -
  let ?SI = "(\<lambda>_ _. None)(''interface'' := S ''interface'') :: sections"
  have i: "parse_lines uni
      \<lparr>section_now = ''interface'', seenSections = [''interface''], sections_of = \<lambda>_ _. None\<rparr>
      (key_lines (S ''interface'') interface_keys) =
      Inr \<lparr>section_now = ''interface'', seenSections = [''interface''], sections_of = ?SI\<rparr>"
    by (subst parse_section_lines [OF assms, of _ _ "''interface''"])
      (auto simp: allowed_directive_def interface_keys_def)
  have p: "parse_lines uni
      \<lparr>section_now = ''peer'', seenSections = [''peer'', ''interface''], sections_of = ?SI\<rparr>
      (key_lines (S ''peer'') peer_keys) =
      Inr \<lparr>section_now = ''peer'', seenSections = [''peer'', ''interface''],
           sections_of = ?SI(''peer'' := S ''peer'')\<rparr>"
    by (subst parse_section_lines [OF assms, of _ _ "''peer''"])
      (auto simp: allowed_directive_def peer_keys_def)
  have "S sec key = None" if "sec \<noteq> ''interface''" and "sec \<noteq> ''peer''" for sec key
    using directives_okD(1) [OF assms] that by (cases "S sec key") (auto simp: allowed_directive_def)
  then have "?SI(''peer'' := S ''peer'') = S" by (auto simp: fun_eq_iff)
  with i p show ?thesis
    by (simp add: canonical_lines_def parse_start_def parse_header parse_blank parse_lines_append)
qed

lemma set_key_lines:
  "l \<in> set (key_lines vals keys) \<longleftrightarrow>
   (\<exists>key v. key \<in> set keys \<and> vals key = Some v \<and> l = directive_line key v)"
  by (force simp: key_lines_def split: option.splits)

lemma canonical_lines_shape:
  assumes "directives_ok S" and "l \<in> set (canonical_lines S)"
  shows "l = ''[Interface]'' \<or> l = [] \<or> l = ''[Peer]'' \<or>
    (\<exists>sec key v. allowed_directive sec key \<and> S sec key = Some v \<and> l = directive_line key v)"
  using assms(2) directives_okD(1) [OF assms(1)]
  unfolding canonical_lines_def by (simp add: set_key_lines) blast

lemma canonical_lines_ok:
  assumes "directives_ok S" and "l \<in> set (canonical_lines S)"
  shows "CHR 0x0A \<notin> set l \<and> trimmed l"
  using canonical_lines_shape [OF assms]
proof (elim disjE exE conjE)
  fix sec key v
  assume al: "allowed_directive sec key" and v: "S sec key = Some v"
    and l: "l = directive_line key v"
  from directives_okD [OF assms(1) v] show ?thesis
    using directive_line_trimmed [OF al] directive_name_facts(5) [OF al] l
    by (simp add: directive_line_def)
qed (simp_all add: trimmed_visible visible_def)

lemma ScanLines_canonical: "directives_ok S \<Longrightarrow> ScanLines (canonical S) = canonical_lines S"
  using canonical_lines_ok by (simp add: canonical_unlines ScanLines_unlines)

lemma validate_sections_seen:
  "set seen \<supseteq> {''interface'', ''peer''} \<Longrightarrow>
   validate_sections seen S = validate_sections [''peer'', ''interface''] S"
  by (simp add: validate_sections_def)

subsection \<open>Properties\<close>

lemma Parse_canonical:
  assumes "directives_ok S" and "validate_sections seen S = Inr p"
    and "set seen \<supseteq> {''interface'', ''peer''}" and "Canonical p = canonical S"
    and "length (Canonical p) \<le> MaxConfigBytes"
  shows "Parse uni (Canonical p) = Inr p"
proof -
  have "canonical S \<noteq> []" and "\<not> scan_too_long (canonical S)"
    by (simp_all add: canonical_def scan_too_long_def)
  with assms show ?thesis
    by (simp add: Parse_def ScanLines_canonical parse_canonical_lines
        validate_sections_seen [OF assms(3)] not_less [symmetric])
qed

text \<open>A configuration as a provider writes it, and its canonical form.\<close>

definition sample_config :: string where
  "sample_config =
     ''# exported'' @ [CHR 0x0A] @ ''[interface]'' @ [CHR 0x0D, CHR 0x0A]
     @ ''address=10.64.0.2/32'' @ [CHR 0x0A]
     @ ''PRIVATEKEY = AAAAAAAAAAAAAAAAAAAAAAAAAAAAAAAAAAAAAAAAAAA='' @ [CHR 0x0A]
     @ ''[Peer]'' @ [CHR 0x0A]
     @ ''AllowedIPs = 0.0.0.0/0, ::/0 '' @ [CHR 0x0A]
     @ ''Endpoint = 203.0.113.7:51820'' @ [CHR 0x0A]
     @ ''PublicKey=BBBBBBBBBBBBBBBBBBBBBBBBBBBBBBBBBBBBBBBBBBA='' @ [CHR 0x0A]"

definition sample_canonical :: string where
  "sample_canonical =
     ''[Interface]'' @ [CHR 0x0A]
     @ ''PrivateKey = AAAAAAAAAAAAAAAAAAAAAAAAAAAAAAAAAAAAAAAAAAA='' @ [CHR 0x0A]
     @ ''Address = 10.64.0.2/32'' @ [CHR 0x0A] @ [CHR 0x0A]
     @ ''[Peer]'' @ [CHR 0x0A]
     @ ''PublicKey = BBBBBBBBBBBBBBBBBBBBBBBBBBBBBBBBBBBBBBBBBBA='' @ [CHR 0x0A]
     @ ''Endpoint = 203.0.113.7:51820'' @ [CHR 0x0A]
     @ ''AllowedIPs = 0.0.0.0/0, ::/0'' @ [CHR 0x0A]"

lemma Parse_sample:
  "Parse (\<lambda>s. s) sample_config =
   Inr \<lparr>Canonical = sample_canonical, Endpoint = ''203.0.113.7:51820''\<rparr>"
  by code_simp

text \<open>
  C27: the stored form of a WireGuard profile is a fixed point of the parser: whatever
  configuration \<^verbatim>\<open>Parse\<close> accepts, its canonical text is accepted again with the same
  canonical text and the same endpoint, unless rewriting made it longer than the size limit.
  \<^verbatim>\<open>Store.Load\<close> relies on it, since it parses what \<^verbatim>\<open>Store.Save\<close> wrote.
\<close>

theorem canonical_profile_roundtrip:
  assumes "Parse uni raw = Inr p" and "length (Canonical p) \<le> MaxConfigBytes"
  shows "Parse uni (Canonical p) = Inr p"
proof -
  from assms(1) obtain S seen where S: "directives_ok S" "validate_sections seen S = Inr p"
    "set seen \<supseteq> {''interface'', ''peer''}" "Canonical p = canonical S"
    by (rule Parse_Inr)
  then show ?thesis using assms(2) by (rule Parse_canonical)
qed

theorem canonical_profile_roundtrip_witness:
  "Parse (\<lambda>s. s) sample_canonical =
   Inr \<lparr>Canonical = sample_canonical, Endpoint = ''203.0.113.7:51820''\<rparr>"
  using canonical_profile_roundtrip [OF Parse_sample]
  by (simp add: sample_canonical_def MaxConfigBytes_def)

text \<open>
  C28: no directive can be smuggled into a stored profile. Every line of the canonical text is
  blank, one of the two section headers, or one of the nine allowed directives with a
  non-empty value; in particular no line is a \<^verbatim>\<open>PostUp\<close> or \<^verbatim>\<open>PreDown\<close>
  command, whatever the submitted text was.
\<close>

theorem canonical_profile_directives:
  assumes "Parse uni raw = Inr p" and "l \<in> set (ScanLines (Canonical p))"
  shows "l = [] \<or> l = ''[Interface]'' \<or> l = ''[Peer]'' \<or>
    (\<exists>key v. key \<in> set (interface_keys @ peer_keys) \<and> v \<noteq> [] \<and> l = directive_line key v)"
proof -
  from assms(1) obtain S seen where S: "directives_ok S" "Canonical p = canonical S"
    by (rule Parse_Inr)
  with assms(2) have "l \<in> set (canonical_lines S)" by (simp add: ScanLines_canonical)
  from canonical_lines_shape [OF S(1) this] show ?thesis
    using directives_okD(2) [OF S(1)] allowed_key_cases by blast
qed

theorem canonical_profile_directives_witness:
  "\<exists>key v. key \<in> set (interface_keys @ peer_keys) \<and> v \<noteq> [] \<and>
     ''Address = 10.64.0.2/32'' = directive_line key v"
proof -
  have "''Address = 10.64.0.2/32'' \<in> set (ScanLines sample_canonical)" by code_simp
  then show ?thesis
    using canonical_profile_directives [OF Parse_sample, of "''Address = 10.64.0.2/32''"] by simp
qed

text \<open>
  An accepted profile carries a default route, a private and a public key of 32 bytes, and
  an endpoint that is an IP address with a port from 1 to 65535: the tunnel needs no name
  resolution to come up and takes all IPv4 traffic.
\<close>

theorem accepted_profile_routes_everything:
  assumes "Parse uni raw = Inr p"
  shows "\<exists>S. Canonical p = canonical S
    \<and> ''0.0.0.0/0'' \<in> set (splitCSV (field S ''peer'' ''allowedips''))
    \<and> (\<exists>k. b64_decode False True (field S ''interface'' ''privatekey'') = Some k \<and> length k = 32)
    \<and> (\<exists>k. b64_decode False True (field S ''peer'' ''publickey'') = Some k \<and> length k = 32)
    \<and> (\<exists>host port n. SplitHostPort (Endpoint p) = Some (host, port) \<and> ParseIP (trim_brackets host)
         \<and> Atoi port = Some n \<and> 1 \<le> n \<and> n \<le> 65535)"
proof -
  from assms obtain S seen where S: "validate_sections seen S = Inr p" "Canonical p = canonical S"
    by (rule Parse_Inr)
  then have "validateKey ''PrivateKey'' (field S ''interface'' ''privatekey'') False = None"
    "validateKey ''PublicKey'' (field S ''peer'' ''publickey'') False = None"
    "containsDefaultRoute (field S ''peer'' ''allowedips'')"
    "check_endpoint (Endpoint p) = None"
    by (auto simp: validate_sections_def guard_splits split: if_splits)
  with S(2) show ?thesis
    by (intro exI [of _ S])
      (auto simp: validateKey_def containsDefaultRoute_def check_endpoint_def list_ex_iff
        split: option.splits if_splits)
qed

theorem accepted_profile_routes_everything_witness:
  "\<exists>host port n. SplitHostPort ''203.0.113.7:51820'' = Some (host, port) \<and>
     Atoi port = Some n \<and> 1 \<le> n \<and> n \<le> (65535 :: int)"
  using accepted_profile_routes_everything [OF Parse_sample] by auto

end
