(* ===== verification/VPN_Store.thy ===== *)
theory VPN_Store
  imports WireGuard_Profile
begin

text \<open>
  The encrypted profile store, \<^verbatim>\<open>internal/vpnprofiles/store.go\<close>: key resolution, sealing
  and opening with the two stored layouts, saving, loading, removing, and the rotation of all
  profiles to a new key.

  AES-GCM and SHA-256 are the record argument \<open>crypto\<close>, with the laws the program relies on
  in \<open>crypto_law\<close>; random bytes are arguments. The profile directory is an association list
  from file names to contents. Reading, writing and renaming can fail as the record
  \<open>faults\<close> says; a failing write leaves the partial contents it names.
\<close>

record crypto =
  aead_seal :: "string \<Rightarrow> string \<Rightarrow> string \<Rightarrow> string"
  aead_open :: "string \<Rightarrow> string \<Rightarrow> string \<Rightarrow> string option"
  sha256 :: "string \<Rightarrow> string"

definition KeyBytes :: nat where
  "KeyBytes = 32"

definition NonceSize :: nat where
  "NonceSize = 12"

definition crypto_law :: "crypto \<Rightarrow> bool" where
  "crypto_law C =
     ((\<forall>key nonce plain. length key = KeyBytes \<longrightarrow> length nonce = NonceSize \<longrightarrow>
         aead_open C key nonce (aead_seal C key nonce plain) = Some plain) \<and>
      (\<forall>data. length (sha256 C data) = 32))"

abbreviation formatV1 :: char where
  "formatV1 \<equiv> CHR 0x01"
abbreviation formatV2 :: char where
  "formatV2 \<equiv> CHR 0x02"

definition keyFingerprintLen :: nat where
  "keyFingerprintLen = 4"

datatype vpn_error =
    KeyNotHex
  | KeyWrongSize nat
  | KeyFileWrongSize
  | NoKeyConfigured
  | KeyFileUnreadable
  | InvalidRef
  | ProfileInvalid wg_error
  | StoredInvalid wg_error
  | Malformed
  | UnknownVersion
  | DifferentKey string string
  | DecryptFailed
  | ReadFailed string
  | WriteFailed string
  | RenameFailed string
  | DecryptProfile string vpn_error

definition ParseKey :: "string \<Rightarrow> (vpn_error, string) result" where
  "ParseKey text =
     (case hex_decode (TrimSpace text) of
        None \<Rightarrow> Inl KeyNotHex
      | Some decoded \<Rightarrow>
          if length decoded \<noteq> KeyBytes then Inl (KeyWrongSize (length decoded)) else Inr decoded)"

definition Fingerprint :: "crypto \<Rightarrow> string \<Rightarrow> string" where
  "Fingerprint C key = hex_encode (take keyFingerprintLen (sha256 C key))"

text \<open>
  Sealing and opening. \<^verbatim>\<open>aes.NewCipher\<close> accepts a key of 16, 24 or 32 bytes; the callers
  pass one of \<^verbatim>\<open>KeyBytes\<close>, which \<open>key_of\<close> below enforces.
\<close>

definition seal :: "crypto \<Rightarrow> string \<Rightarrow> string \<Rightarrow> string \<Rightarrow> string" where
  "seal C nonce key plain =
     formatV2 # the (hex_decode (Fingerprint C key)) @ nonce @ aead_seal C key nonce plain"

definition open_sealed :: "crypto \<Rightarrow> string \<Rightarrow> string \<Rightarrow> nat \<Rightarrow> (vpn_error, string) result" where
  "open_sealed C key data offset =
     (if length data < offset + NonceSize then Inl Malformed
      else
        (let nonce = take NonceSize (drop offset data) in
         case aead_open C key nonce (drop (offset + NonceSize) data) of
           None \<Rightarrow> Inl DecryptFailed
         | Some plain \<Rightarrow> Inr plain))"

definition open_profile :: "crypto \<Rightarrow> string \<Rightarrow> string \<Rightarrow> (vpn_error, string) result" where
  "open_profile C key data =
     (case data of
        [] \<Rightarrow> Inl Malformed
      | version # rest \<Rightarrow>
          if version = formatV1 then open_sealed C key data 1
          else if version = formatV2 then
            (let offset = 1 + keyFingerprintLen in
             if length data < offset then Inl Malformed
             else
               (let expected = the (hex_decode (Fingerprint C key));
                    stored = take keyFingerprintLen rest in
                if stored \<noteq> expected
                then Inl (DifferentKey (hex_encode stored) (Fingerprint C key))
                else open_sealed C key data offset))
          else Inl UnknownVersion)"

definition validRef :: "string \<Rightarrow> bool" where
  "validRef ref =
     (HasSuffix ref ''.wg.enc'' \<and> length ref = 32 + length ''.wg.enc'' \<and>
      \<not> ContainsAny ref [CHR 0x2F, CHR 0x5C])"

subsection \<open>The store and its files\<close>

type_synonym directory = "(string \<times> string) list"

record store =
  Key :: string
  KeyFile :: string

record files =
  key_file :: "string option"
  profiles :: directory

record faults =
  read_fails :: "string \<Rightarrow> bool"
  write_fails :: "string \<Rightarrow> string option"
  rename_fails :: "string \<Rightarrow> bool"

definition read_file :: "directory \<Rightarrow> string \<Rightarrow> string option" where
  "read_file dir name = map_of dir name"

definition write_file :: "string \<Rightarrow> string \<Rightarrow> directory \<Rightarrow> directory" where
  "write_file name data dir = AList.update name data dir"

definition remove_file :: "string \<Rightarrow> directory \<Rightarrow> directory" where
  "remove_file name dir = AList.delete name dir"

definition rename_file :: "string \<Rightarrow> string \<Rightarrow> directory \<Rightarrow> directory" where
  "rename_file from to dir =
     (case read_file dir from of
        None \<Rightarrow> dir
      | Some data \<Rightarrow> write_file to data (remove_file from dir))"

lemma read_write [simp]: "read_file (write_file n d dir) m = (if m = n then Some d else read_file dir m)"
  by (simp add: read_file_def write_file_def update_conv')

lemma read_remove [simp]: "read_file (remove_file n dir) m = (if m = n then None else read_file dir m)"
  by (simp add: read_file_def remove_file_def delete_conv')

text \<open>
  \<^verbatim>\<open>Store.key\<close>: the operator's key, else the key file, else a fresh key that is written to
  the key file. \<open>fresh\<close> is what \<^verbatim>\<open>NewKey\<close> draws.
\<close>

definition key_of :: "store \<Rightarrow> faults \<Rightarrow> string \<Rightarrow> files \<Rightarrow> (vpn_error, string) result \<times> files" where
  "key_of s F fresh fs =
     (if Key s \<noteq> [] then
        (if length (Key s) \<noteq> KeyBytes then Inl (KeyWrongSize (length (Key s))) else Inr (Key s), fs)
      else if KeyFile s = [] then (Inl NoKeyConfigured, fs)
      else if read_fails F (KeyFile s) then (Inl KeyFileUnreadable, fs)
      else (case key_file fs of
          Some data \<Rightarrow> (if length data \<noteq> KeyBytes then Inl KeyFileWrongSize else Inr data, fs)
        | None \<Rightarrow>
            (case write_fails F (KeyFile s) of
               Some partial \<Rightarrow> (Inl (WriteFailed (KeyFile s)), fs\<lparr>key_file := Some partial\<rparr>)
             | None \<Rightarrow> (Inr fresh, fs\<lparr>key_file := Some fresh\<rparr>))))"

record randomness =
  fresh_key :: string
  nonce_for :: "string \<Rightarrow> string"
  ref_bytes :: string

definition randomness_ok :: "randomness \<Rightarrow> bool" where
  "randomness_ok R =
     (length (fresh_key R) = KeyBytes \<and> (\<forall>f. length (nonce_for R f) = NonceSize)
      \<and> length (ref_bytes R) = 16)"

definition KeyFingerprint ::
  "crypto \<Rightarrow> store \<Rightarrow> faults \<Rightarrow> randomness \<Rightarrow> files \<Rightarrow> (vpn_error, string) result \<times> files" where
  "KeyFingerprint C s F R fs =
     (case key_of s F (fresh_key R) fs of
        (Inl e, fs') \<Rightarrow> (Inl e, fs')
      | (Inr key, fs') \<Rightarrow> (Inr (Fingerprint C key), fs'))"

definition Save ::
  "(string \<Rightarrow> string) \<Rightarrow> crypto \<Rightarrow> store \<Rightarrow> faults \<Rightarrow> randomness \<Rightarrow> string \<Rightarrow> files
   \<Rightarrow> (vpn_error, string) result \<times> files" where
  "Save uni C s F R config fs =
     (case Parse uni config of
        Inl e \<Rightarrow> (Inl (ProfileInvalid e), fs)
      | Inr parsed \<Rightarrow>
          (case key_of s F (fresh_key R) fs of
             (Inl e, fs') \<Rightarrow> (Inl e, fs')
           | (Inr key, fs') \<Rightarrow>
               (let ref = hex_encode (ref_bytes R) @ ''.wg.enc'';
                    data = seal C (nonce_for R ref) key (Canonical parsed) in
                case write_fails F ref of
                  Some partial \<Rightarrow>
                    (Inl (WriteFailed ref), fs'\<lparr>profiles := write_file ref partial (profiles fs')\<rparr>)
                | None \<Rightarrow> (Inr ref, fs'\<lparr>profiles := write_file ref data (profiles fs')\<rparr>))))"

definition Load ::
  "(string \<Rightarrow> string) \<Rightarrow> crypto \<Rightarrow> store \<Rightarrow> faults \<Rightarrow> randomness \<Rightarrow> string \<Rightarrow> files
   \<Rightarrow> (vpn_error, string) result \<times> files" where
  "Load uni C s F R ref fs =
     (if \<not> validRef ref then (Inl InvalidRef, fs)
      else (case key_of s F (fresh_key R) fs of
          (Inl e, fs') \<Rightarrow> (Inl e, fs')
        | (Inr key, fs') \<Rightarrow>
            (case (if read_fails F ref then None else read_file (profiles fs') ref) of
               None \<Rightarrow> (Inl (ReadFailed ref), fs')
             | Some data \<Rightarrow>
                 (case open_profile C key data of
                    Inl e \<Rightarrow> (Inl e, fs')
                  | Inr plain \<Rightarrow>
                      (case Parse uni plain of
                         Inl e \<Rightarrow> (Inl (StoredInvalid e), fs')
                       | Inr _ \<Rightarrow> (Inr plain, fs'))))))"

definition Remove :: "string \<Rightarrow> files \<Rightarrow> files" where
  "Remove ref fs =
     (if validRef ref then fs\<lparr>profiles := remove_file ref (profiles fs)\<rparr> else fs)"

subsection \<open>Rotation\<close>

record RotationResult =
  Rotated :: nat
  AlreadyNew :: nat
  Total :: nat
  OldKeyPrint :: string
  NewKeyPrint :: string

definition temporary_of :: "string \<Rightarrow> string" where
  "temporary_of name = name @ ''.rotating''"

text \<open>\<^verbatim>\<open>cleanup\<close>: remove what was staged, given by the names of the profiles.\<close>

definition cleanup :: "string list \<Rightarrow> directory \<Rightarrow> directory" where
  "cleanup pending dir = fold (\<lambda>name. remove_file (temporary_of name)) pending dir"

primrec stage ::
  "crypto \<Rightarrow> faults \<Rightarrow> randomness \<Rightarrow> string \<Rightarrow> string \<Rightarrow> string list \<Rightarrow> string list
   \<Rightarrow> RotationResult \<Rightarrow> directory \<Rightarrow> vpn_error option \<times> string list \<times> RotationResult \<times> directory" where
  "stage C F R oldKey newKey [] pending result dir = (None, pending, result, dir)"
| "stage C F R oldKey newKey (entry # entries) pending result dir =
     (if \<not> validRef entry then stage C F R oldKey newKey entries pending result dir
      else
        (let result = result\<lparr>Total := Total result + 1\<rparr> in
         case (if read_fails F entry then None else read_file dir entry) of
           None \<Rightarrow> (Some (ReadFailed entry), pending, result, cleanup pending dir)
         | Some data \<Rightarrow>
             (case open_profile C oldKey data of
                Inl e \<Rightarrow>
                  if is_ok (open_profile C newKey data)
                  then stage C F R oldKey newKey entries pending
                         (result\<lparr>AlreadyNew := AlreadyNew result + 1\<rparr>) dir
                  else (Some (DecryptProfile entry e), pending, result, cleanup pending dir)
              | Inr plain \<Rightarrow>
                  (let sealed = seal C (nonce_for R entry) newKey plain;
                       temporary = temporary_of entry in
                   case write_fails F temporary of
                     Some partial \<Rightarrow>
                       (Some (WriteFailed entry), pending, result,
                        cleanup pending (write_file temporary partial dir))
                   | None \<Rightarrow>
                       stage C F R oldKey newKey entries (pending @ [entry]) result
                         (write_file temporary sealed dir)))))"

primrec replace ::
  "faults \<Rightarrow> string list \<Rightarrow> RotationResult \<Rightarrow> directory
   \<Rightarrow> vpn_error option \<times> RotationResult \<times> directory" where
  "replace F [] result dir = (None, result, dir)"
| "replace F (item # items) result dir =
     (if rename_fails F item then (Some (RenameFailed item), result, dir)
      else replace F items (result\<lparr>Rotated := Rotated result + 1\<rparr>)
             (rename_file (temporary_of item) item dir))"

text \<open>\<^verbatim>\<open>os.ReadDir\<close> lists the entries in the order of their names.\<close>

definition Rotate ::
  "crypto \<Rightarrow> store \<Rightarrow> faults \<Rightarrow> randomness \<Rightarrow> string \<Rightarrow> files
   \<Rightarrow> vpn_error option \<times> RotationResult \<times> files" where
  "Rotate C s F R newKey fs =
     (let result = \<lparr>Rotated = 0, AlreadyNew = 0, Total = 0, OldKeyPrint = [], NewKeyPrint = []\<rparr> in
      if length newKey \<noteq> KeyBytes then (Some (KeyWrongSize (length newKey)), result, fs)
      else (case key_of s F (fresh_key R) fs of
          (Inl e, fs') \<Rightarrow> (Some e, result, fs')
        | (Inr oldKey, fs') \<Rightarrow>
            (let result = result\<lparr>OldKeyPrint := Fingerprint C oldKey,
                                  NewKeyPrint := Fingerprint C newKey\<rparr> in
             case stage C F R oldKey newKey (sort (map fst (profiles fs'))) [] result (profiles fs') of
               (Some e, _, result, dir) \<Rightarrow> (Some e, result, fs'\<lparr>profiles := dir\<rparr>)
             | (None, pending, result, dir) \<Rightarrow>
                 (case replace F pending result dir of
                    (err, result, dir) \<Rightarrow> (err, result, fs'\<lparr>profiles := dir\<rparr>)))))"

subsection \<open>Sealing and opening\<close>

lemma fingerprint_bytes: "the (hex_decode (Fingerprint C key)) = take keyFingerprintLen (sha256 C key)"
  by (simp add: Fingerprint_def hex_decode_encode)

lemma crypto_lawD:
  assumes "crypto_law C"
  shows "length key = KeyBytes \<Longrightarrow> length nonce = NonceSize \<Longrightarrow>
      aead_open C key nonce (aead_seal C key nonce plain) = Some plain"
    and "length (sha256 C data) = 32"
  using assms by (simp_all add: crypto_law_def)

lemma open_seal:
  assumes "crypto_law C" and "length key = KeyBytes" and "length nonce = NonceSize"
  shows "open_profile C key (seal C nonce key plain) = Inr plain"
proof -
  have "length (take keyFingerprintLen (sha256 C key)) = 4"
    using crypto_lawD(2) [OF assms(1)] by (simp add: keyFingerprintLen_def)
  then show ?thesis
    using crypto_lawD(1) [OF assms(1-3)] assms(3)
    by (simp add: open_profile_def seal_def fingerprint_bytes keyFingerprintLen_def open_sealed_def
        NonceSize_def)
qed

lemma validRef_not_temporary: "\<not> validRef (temporary_of name)"
  by (auto simp: validRef_def temporary_of_def HasSuffix_rev)

lemma temporary_of_inj [simp]: "temporary_of a = temporary_of b \<longleftrightarrow> a = b"
  by (simp add: temporary_of_def)

lemma validRef_fresh: "length b = 16 \<Longrightarrow> validRef (hex_encode b @ ''.wg.enc'')"
proof -
  assume "length b = 16"
  moreover have "CHR 0x2F \<notin> set (hex_encode b)" "CHR 0x5C \<notin> set (hex_encode b)"
    using set_hex_encode [of "CHR 0x2F" b] set_hex_encode [of "CHR 0x5C" b]
    by (auto simp: is_lower_hex_def is_digit_def)
  ultimately show ?thesis by (auto simp: validRef_def ContainsAny_iff)
qed

lemma key_of_length:
  "key_of s F fresh fs = (Inr key, fs') \<Longrightarrow> length fresh = KeyBytes \<Longrightarrow> length key = KeyBytes"
  by (auto simp: key_of_def split: if_splits option.splits)

lemma key_of_stable:
  "key_of s F fresh fs = (Inr key, fs') \<Longrightarrow> length fresh = KeyBytes \<Longrightarrow> \<not> read_fails G (KeyFile s) \<Longrightarrow>
   key_of s G other (fs'\<lparr>profiles := d\<rparr>) = (Inr key, fs'\<lparr>profiles := d\<rparr>)"
  by (auto simp: key_of_def KeyBytes_def split: if_splits option.splits)

lemma key_of_profiles [simp]: "profiles (snd (key_of s F fresh fs)) = profiles fs"
  by (simp add: key_of_def split: option.splits)

subsection \<open>The stages of a rotation\<close>

definition staged ::
  "crypto \<Rightarrow> randomness \<Rightarrow> string \<Rightarrow> string \<Rightarrow> directory \<Rightarrow> directory \<Rightarrow> string \<Rightarrow> bool" where
  "staged C R oldKey newKey dir0 dir e =
     (validRef e \<and> (\<exists>data plain. read_file dir0 e = Some data \<and> open_profile C oldKey data = Inr plain
        \<and> read_file dir (temporary_of e) = Some (seal C (nonce_for R e) newKey plain)))"

definition refs_kept :: "directory \<Rightarrow> directory \<Rightarrow> bool" where
  "refs_kept dir0 dir = (\<forall>n. validRef n \<longrightarrow> read_file dir n = read_file dir0 n)"

lemma refs_kept_write: "refs_kept dir0 dir \<Longrightarrow> refs_kept dir0 (write_file (temporary_of e) d dir)"
  using validRef_not_temporary by (auto simp: refs_kept_def)

lemma refs_kept_cleanup: "refs_kept dir0 dir \<Longrightarrow> refs_kept dir0 (cleanup pending dir)"
  unfolding cleanup_def
  by (induction pending arbitrary: dir) (use validRef_not_temporary in \<open>auto simp: refs_kept_def\<close>)

lemma staged_write:
  "e \<noteq> f \<Longrightarrow> staged C R k n dir0 (write_file (temporary_of f) d dir) e = staged C R k n dir0 dir e"
  by (simp add: staged_def)

text \<open>What the staging loop establishes, whether it stops with an error or not.\<close>

lemma stage_result:
  assumes "stage C F R oldKey newKey entries pending result dir = (err, pending', result', dir')"
    and "refs_kept dir0 dir" and "distinct (pending @ entries)"
    and "\<forall>e \<in> set pending. staged C R oldKey newKey dir0 dir e"
    and "Rotated result = 0" and "Total result = AlreadyNew result + length pending"
  shows "refs_kept dir0 dir'
    \<and> (\<forall>x. err \<noteq> Some (RenameFailed x))
    \<and> (err = None \<longrightarrow>
         distinct pending' \<and> (\<forall>e \<in> set pending'. staged C R oldKey newKey dir0 dir' e)
         \<and> set pending \<subseteq> set pending'
         \<and> Rotated result' = 0 \<and> Total result' = AlreadyNew result' + length pending'
         \<and> (\<forall>e \<in> set entries. validRef e \<longrightarrow> e \<in> set pending' \<or>
              (\<exists>data. read_file dir0 e = Some data \<and> \<not> is_ok (open_profile C oldKey data)
                 \<and> is_ok (open_profile C newKey data))))"
  using assms
proof (induction entries arbitrary: pending result dir)
  case Nil
  then show ?case by simp
next
  case (Cons entry entries)
  let ?result = "result\<lparr>Total := Total result + 1\<rparr>"
  show ?case
  proof (cases "validRef entry")
    case False
    with Cons.prems Cons.IH [of pending result dir] show ?thesis by auto
  next
    case valid: True
    show ?thesis
    proof (cases "if read_fails F entry then None else read_file dir entry")
      case None
      with valid Cons.prems refs_kept_cleanup show ?thesis by (auto split: if_splits)
    next
      case (Some data)
      then have data: "\<not> read_fails F entry" "read_file dir entry = Some data"
        by (simp_all split: if_splits)
      with Cons.prems(2) valid have data0: "read_file dir0 entry = Some data"
        by (simp add: refs_kept_def)
      show ?thesis
      proof (cases "open_profile C oldKey data")
        case (Inl e)
        show ?thesis
        proof (cases "is_ok (open_profile C newKey data)")
          case True
          with valid data Inl Cons.prems(1)
          have "stage C F R oldKey newKey entries pending
              (?result\<lparr>AlreadyNew := AlreadyNew result + 1\<rparr>) dir = (err, pending', result', dir')"
            by simp
          from Cons.IH [OF this] Cons.prems True Inl data0 show ?thesis by auto
        next
          case False
          with valid data Inl Cons.prems refs_kept_cleanup show ?thesis by auto
        qed
      next
        case (Inr plain)
        show ?thesis
        proof (cases "write_fails F (temporary_of entry)")
          case (Some partial)
          with valid data Inr Cons.prems refs_kept_cleanup refs_kept_write show ?thesis by auto
        next
          case None
          let ?dir = "write_file (temporary_of entry) (seal C (nonce_for R entry) newKey plain) dir"
          from None valid data Inr Cons.prems(1)
          have step: "stage C F R oldKey newKey entries (pending @ [entry]) ?result ?dir =
              (err, pending', result', dir')" by simp
          have "\<forall>e \<in> set (pending @ [entry]). staged C R oldKey newKey dir0 ?dir e"
          proof
            fix e assume "e \<in> set (pending @ [entry])"
            then consider "e \<in> set pending" "e \<noteq> entry" | "e = entry" by auto
            then show "staged C R oldKey newKey dir0 ?dir e"
              by cases (use Cons.prems(4) valid data0 Inr in \<open>simp_all add: staged_write\<close>,
                simp add: staged_def)
          qed
          from Cons.IH [OF step refs_kept_write [OF Cons.prems(2)] _ this] Cons.prems show ?thesis
            by auto
        qed
      qed
    qed
  qed
qed

lemma replace_result:
  assumes "replace F items result dir = (err, result', dir')" and "distinct items"
    and "\<forall>e \<in> set items. validRef e \<and> read_file dir (temporary_of e) \<noteq> None"
  shows "\<exists>fin rest. items = fin @ rest \<and> (err = None \<longleftrightarrow> rest = [])
    \<and> Rotated result' = Rotated result + length fin
    \<and> Total result' = Total result \<and> AlreadyNew result' = AlreadyNew result
    \<and> (\<forall>n. validRef n \<longrightarrow>
         read_file dir' n = (if n \<in> set fin then read_file dir (temporary_of n) else read_file dir n))"
  using assms
proof (induction items arbitrary: result dir)
  case Nil
  then show ?case by simp
next
  case (Cons item items)
  show ?case
  proof (cases "rename_fails F item")
    case True
    with Cons.prems show ?thesis
      by (intro exI [of _ "[]"] exI [of _ "item # items"]) auto
  next
    case False
    let ?dir = "rename_file (temporary_of item) item dir"
    obtain data where data: "read_file dir (temporary_of item) = Some data"
      using Cons.prems(3) by auto
    have read: "read_file ?dir n =
        (if n = item then Some data else if n = temporary_of item then None else read_file dir n)" for n
      using data by (simp add: rename_file_def)
    have other: "temporary_of e \<noteq> item" "item \<noteq> temporary_of e" for e
      using Cons.prems(3) validRef_not_temporary [of e] by auto
    from False Cons.prems(1) have step: "replace F items (result\<lparr>Rotated := Rotated result + 1\<rparr>) ?dir =
        (err, result', dir')" by simp
    have temps: "\<forall>e \<in> set items. validRef e \<and> read_file ?dir (temporary_of e) \<noteq> None"
      using Cons.prems(2,3) other by (auto simp: read)
    have "distinct items" using Cons.prems(2) by simp
    from Cons.IH [OF step this temps]
    obtain fin rest where IH: "items = fin @ rest" "err = None \<longleftrightarrow> rest = []"
      "Rotated result' = Rotated result + 1 + length fin" "Total result' = Total result"
      "AlreadyNew result' = AlreadyNew result"
      "\<forall>n. validRef n \<longrightarrow> read_file dir' n =
         (if n \<in> set fin then read_file ?dir (temporary_of n) else read_file ?dir n)"
      by (elim exE conjE) simp
    have "read_file dir' n =
        (if n \<in> set (item # fin) then read_file dir (temporary_of n) else read_file dir n)"
      if "validRef n" for n
      using IH(1,6) that Cons.prems(2) data other validRef_not_temporary by (auto simp: read)
    with IH show ?thesis by (intro exI [of _ "item # fin"] exI [of _ rest]) auto
  qed
qed

lemma replace_error:
  "replace F items result dir = (err, result', dir') \<Longrightarrow> err = None \<or> (\<exists>x. err = Some (RenameFailed x))"
  by (induction items arbitrary: result dir) (auto split: if_splits)

text \<open>What holds after the renames, of which \<open>fin\<close> were carried out.\<close>

definition replaced ::
  "crypto \<Rightarrow> randomness \<Rightarrow> string \<Rightarrow> string \<Rightarrow> directory \<Rightarrow> directory \<Rightarrow> vpn_error option
   \<Rightarrow> RotationResult \<Rightarrow> string list \<Rightarrow> bool" where
  "replaced C R oldKey newKey dir0 dir err result fin =
     ((\<forall>e \<in> set fin. \<exists>data plain. read_file dir0 e = Some data \<and> open_profile C oldKey data = Inr plain
         \<and> read_file dir e = Some (seal C (nonce_for R e) newKey plain))
      \<and> (\<forall>n. validRef n \<longrightarrow> n \<notin> set fin \<longrightarrow> read_file dir n = read_file dir0 n)
      \<and> (err = None \<or> (\<exists>x. err = Some (RenameFailed x)))
      \<and> (err = None \<longrightarrow> Rotated result + AlreadyNew result = Total result
         \<and> (\<forall>n data. validRef n \<longrightarrow> read_file dir0 n = Some data \<longrightarrow> n \<notin> set fin \<longrightarrow>
              \<not> is_ok (open_profile C oldKey data) \<and> is_ok (open_profile C newKey data))))"

lemma replace_staged:
  assumes "replace F pending sresult sdir = (err, result, dir')" and "distinct pending"
    and "\<forall>e \<in> set pending. staged C R oldKey newKey dir0 sdir e" and "refs_kept dir0 sdir"
    and "Rotated sresult = 0" and "Total sresult = AlreadyNew sresult + length pending"
    and "\<forall>e. validRef e \<longrightarrow> e \<notin> set pending \<longrightarrow> (\<forall>data. read_file dir0 e = Some data \<longrightarrow>
           \<not> is_ok (open_profile C oldKey data) \<and> is_ok (open_profile C newKey data))"
  shows "\<exists>fin. replaced C R oldKey newKey dir0 dir' err result fin"
proof -
  have "\<forall>e \<in> set pending. validRef e \<and> read_file sdir (temporary_of e) \<noteq> None"
    using assms(3) by (auto simp: staged_def)
  from replace_result [OF assms(1,2) this] obtain fin rest where fin: "pending = fin @ rest"
    "err = None \<longleftrightarrow> rest = []" "Rotated result = Rotated sresult + length fin"
    "Total result = Total sresult" "AlreadyNew result = AlreadyNew sresult"
    "\<forall>n. validRef n \<longrightarrow> read_file dir' n =
       (if n \<in> set fin then read_file sdir (temporary_of n) else read_file sdir n)"
    by (elim exE conjE) simp
  have "\<exists>data plain. read_file dir0 e = Some data \<and> open_profile C oldKey data = Inr plain
      \<and> read_file dir' e = Some (seal C (nonce_for R e) newKey plain)" if "e \<in> set fin" for e
  proof -
    from that fin(1) assms(3) have "staged C R oldKey newKey dir0 sdir e" by simp
    with that fin(6) show ?thesis by (auto simp: staged_def)
  qed
  moreover have "\<forall>n. validRef n \<longrightarrow> n \<notin> set fin \<longrightarrow> read_file dir' n = read_file dir0 n"
    using fin(6) assms(4) by (simp add: refs_kept_def)
  ultimately have "replaced C R oldKey newKey dir0 dir' err result fin"
    using fin(1-5) assms(5-7) replace_error [OF assms(1)] unfolding replaced_def by auto
  then show ?thesis ..
qed

lemma Rotate_outcome:
  assumes "distinct (map fst (profiles fs))"
    and "key_of s F (fresh_key R) fs = (Inr oldKey, fs1)" and "length newKey = KeyBytes"
    and "Rotate C s F R newKey fs = (err, result, fs')"
  shows "(\<exists>e. err = Some e \<and> (\<forall>x. e \<noteq> RenameFailed x) \<and> refs_kept (profiles fs) (profiles fs'))
    \<or> (\<exists>fin. replaced C R oldKey newKey (profiles fs) (profiles fs') err result fin)"
proof -
  let ?result = "\<lparr>Rotated = 0, AlreadyNew = 0, Total = 0, OldKeyPrint = Fingerprint C oldKey,
    NewKeyPrint = Fingerprint C newKey\<rparr>"
  let ?names = "sort (map fst (profiles fs))"
  have fs1: "profiles fs1 = profiles fs"
    using key_of_profiles [of s F "fresh_key R" fs] assms(2) by simp
  obtain serr pending sresult sdir
    where st: "stage C F R oldKey newKey ?names [] ?result (profiles fs) = (serr, pending, sresult, sdir)"
    by (metis prod_cases4)
  note inv = stage_result [OF st, of "profiles fs"]
  have kept: "refs_kept (profiles fs) sdir" and noren: "\<forall>x. serr \<noteq> Some (RenameFailed x)"
    using inv assms(1) by (auto simp: refs_kept_def)
  show ?thesis
  proof (cases serr)
    case (Some e)
    with assms(2-4) st fs1 have "err = Some e" and "profiles fs' = sdir" by (auto simp: Rotate_def)
    with kept noren Some show ?thesis by auto
  next
    case None
    have "e \<in> set ?names" if "read_file (profiles fs) e = Some data" for e data
      using that by (auto simp: read_file_def dest: map_of_SomeD intro: rev_image_eqI)
    with inv None assms(1) have "distinct pending" "Rotated sresult = 0"
      "Total sresult = AlreadyNew sresult + length pending"
      "\<forall>e \<in> set pending. staged C R oldKey newKey (profiles fs) sdir e"
      "\<forall>e. validRef e \<longrightarrow> e \<notin> set pending \<longrightarrow> (\<forall>data. read_file (profiles fs) e = Some data \<longrightarrow>
         \<not> is_ok (open_profile C oldKey data) \<and> is_ok (open_profile C newKey data))"
      by (fastforce simp: refs_kept_def)+
    moreover obtain dir' where "replace F pending sresult sdir = (err, result, dir')" "profiles fs' = dir'"
      using assms(2-4) st None fs1 by (auto simp: Rotate_def split: prod.splits)
    ultimately show ?thesis using replace_staged kept by blast
  qed
qed

subsection \<open>Properties\<close>

text \<open>
  C29: what is saved can be loaded. If saving a configuration succeeds, the reference it returns
  loads to the canonical text of that configuration, from the resulting files, whether the key
  was supplied, read or just generated; loading changes no file. The hypotheses are the laws of
  the cryptography, random bytes of the requested lengths, a canonical text within the size
  limit and readable files.
\<close>

theorem save_load_roundtrip:
  assumes "crypto_law C" and "randomness_ok R" and "Parse uni config = Inr p"
    and "length (Canonical p) \<le> MaxConfigBytes"
    and "Save uni C s F R config fs = (Inr ref, fs')"
    and "\<not> read_fails G (KeyFile s)" and "\<not> read_fails G ref"
  shows "Load uni C s G R ref fs' = (Inr (Canonical p), fs')"
proof -
  from assms(3,5) obtain key fs1 where key: "key_of s F (fresh_key R) fs = (Inr key, fs1)"
    and ref: "ref = hex_encode (ref_bytes R) @ ''.wg.enc''"
    and fs': "fs' = fs1\<lparr>profiles :=
      write_file ref (seal C (nonce_for R ref) key (Canonical p)) (profiles fs1)\<rparr>"
    by (auto simp: Save_def Let_def split: prod.splits sum.splits option.splits)
  from assms(2) have R: "length (fresh_key R) = KeyBytes" "length (nonce_for R ref) = NonceSize"
    "length (ref_bytes R) = 16" by (simp_all add: randomness_ok_def)
  have "key_of s G (fresh_key R) fs' = (Inr key, fs')"
    unfolding fs' by (rule key_of_stable [OF key R(1) assms(6)])
  moreover have "validRef ref" unfolding ref by (rule validRef_fresh [OF R(3)])
  moreover have "read_file (profiles fs') ref =
      Some (seal C (nonce_for R ref) key (Canonical p))" by (simp add: fs')
  moreover have "open_profile C key (seal C (nonce_for R ref) key (Canonical p)) = Inr (Canonical p)"
    by (rule open_seal [OF assms(1) key_of_length [OF key R(1)] R(2)])
  moreover have "Parse uni (Canonical p) = Inr p"
  proof -
    from assms(3) obtain S seen where S: "directives_ok S" "validate_sections seen S = Inr p"
      "set seen \<supseteq> {''interface'', ''peer''}" "Canonical p = canonical S" by (rule Parse_Inr)
    then show ?thesis using assms(4) by (rule Parse_canonical)
  qed
  ultimately show ?thesis using assms(7) by (simp add: Load_def)
qed

definition sample_crypto :: crypto where
  "sample_crypto = \<lparr>aead_seal = (\<lambda>key nonce plain. plain),
     aead_open = (\<lambda>key nonce sealed. Some sealed),
     sha256 = (\<lambda>data. take 32 (data @ replicate 32 CHR 0x00))\<rparr>"

definition no_faults :: faults where
  "no_faults = \<lparr>read_fails = (\<lambda>_. False), write_fails = (\<lambda>_. None), rename_fails = (\<lambda>_. False)\<rparr>"

definition sample_random :: randomness where
  "sample_random = \<lparr>fresh_key = replicate 32 CHR ''k'', nonce_for = (\<lambda>_. replicate 12 CHR ''n''),
     ref_bytes = replicate 16 CHR 0x0A\<rparr>"

definition sample_store :: store where
  "sample_store = \<lparr>Key = [], KeyFile = ''/data/vpn.key''\<rparr>"

definition sample_ref :: string where
  "sample_ref = ''0a0a0a0a0a0a0a0a0a0a0a0a0a0a0a0a.wg.enc''"

lemma sample_crypto_law: "crypto_law sample_crypto"
  by (auto simp: crypto_law_def sample_crypto_def)

lemma sample_random_ok: "randomness_ok sample_random"
  by (simp add: randomness_ok_def sample_random_def KeyBytes_def NonceSize_def)

lemma sample_refs: "hex_encode (replicate 16 CHR 0x0A) @ ''.wg.enc'' = sample_ref"
  by code_simp

definition sample_saved :: files where
  "sample_saved = \<lparr>key_file = Some (replicate 32 CHR ''k''), profiles =
     [(sample_ref, seal sample_crypto (replicate 12 CHR ''n'') (replicate 32 CHR ''k'') sample_canonical)]\<rparr>"

lemma Save_sample:
  "Save (\<lambda>s. s) sample_crypto sample_store no_faults sample_random sample_config
     \<lparr>key_file = None, profiles = []\<rparr> = (Inr sample_ref, sample_saved)"
  by (simp add: Save_def Parse_sample key_of_def sample_store_def no_faults_def sample_random_def
      Let_def sample_refs write_file_def sample_saved_def)

theorem save_load_roundtrip_witness:
  "Load (\<lambda>s. s) sample_crypto sample_store no_faults sample_random sample_ref sample_saved
   = (Inr sample_canonical, sample_saved)"
  using save_load_roundtrip [OF sample_crypto_law sample_random_ok Parse_sample _ Save_sample,
      of no_faults]
  by (simp add: no_faults_def sample_canonical_def MaxConfigBytes_def)

text \<open>
  C18: rotating the key never loses a profile. However a rotation ends, every stored profile is
  byte for byte what it was, or is the same plain text sealed under the new key; an error that
  is not a failing rename leaves every profile as it was; and without an error every profile
  opens under the new key, those that opened under the old one with the same plain text, and
  the counters add up. The hypotheses are the laws of the cryptography, random bytes of the
  requested lengths and a directory with one file per name.
\<close>

theorem rotation_keeps_profiles:
  assumes "crypto_law C" and "randomness_ok R" and "distinct (map fst (profiles fs))"
    and "key_of s F (fresh_key R) fs = (Inr oldKey, fs1)" and "length newKey = KeyBytes"
    and "Rotate C s F R newKey fs = (err, result, fs')"
    and "validRef ref" and "read_file (profiles fs) ref = Some data"
  shows "(read_file (profiles fs') ref = Some data \<or>
      (\<exists>plain data'. open_profile C oldKey data = Inr plain \<and> read_file (profiles fs') ref = Some data'
         \<and> open_profile C newKey data' = Inr plain))
    \<and> ((\<exists>e. err = Some e \<and> (\<forall>x. e \<noteq> RenameFailed x)) \<longrightarrow> read_file (profiles fs') ref = Some data)
    \<and> (err = None \<longrightarrow> Rotated result + AlreadyNew result = Total result \<and>
        (\<exists>data'. read_file (profiles fs') ref = Some data' \<and> is_ok (open_profile C newKey data') \<and>
           (\<forall>plain. open_profile C oldKey data = Inr plain \<longrightarrow> open_profile C newKey data' = Inr plain)))"
proof -
  from Rotate_outcome [OF assms(3-6)] show ?thesis
  proof
    assume "\<exists>e. err = Some e \<and> (\<forall>x. e \<noteq> RenameFailed x) \<and> refs_kept (profiles fs) (profiles fs')"
    with assms(7,8) show ?thesis by (auto simp: refs_kept_def)
  next
    assume "\<exists>fin. replaced C R oldKey newKey (profiles fs) (profiles fs') err result fin"
    then obtain fin where fin: "replaced C R oldKey newKey (profiles fs) (profiles fs') err result fin" ..
    have R: "length (nonce_for R ref) = NonceSize" using assms(2) by (simp add: randomness_ok_def)
    show ?thesis
    proof (cases "ref \<in> set fin")
      case True
      with fin assms(8) obtain plain where "open_profile C oldKey data = Inr plain"
        "read_file (profiles fs') ref = Some (seal C (nonce_for R ref) newKey plain)"
        by (fastforce simp: replaced_def)
      with fin open_seal [OF assms(1,5) R] show ?thesis by (auto simp: replaced_def)
    next
      case False
      with fin assms(7,8) have "read_file (profiles fs') ref = Some data"
        "err = None \<longrightarrow> \<not> is_ok (open_profile C oldKey data) \<and> is_ok (open_profile C newKey data)"
        by (auto simp: replaced_def)
      with fin show ?thesis by (auto simp: replaced_def)
    qed
  qed
qed

lemma Rotate_sample:
  "fst (Rotate sample_crypto sample_store no_faults sample_random (replicate 32 CHR ''z'') sample_saved)
   = None"
  by code_simp

lemma sample_key:
  "key_of sample_store no_faults (fresh_key sample_random) sample_saved =
   (Inr (replicate 32 CHR ''k''), sample_saved)"
  by (simp add: key_of_def sample_store_def no_faults_def sample_saved_def KeyBytes_def)

theorem rotation_keeps_profiles_witness:
  "\<exists>data'. read_file (profiles (snd (snd (Rotate sample_crypto sample_store no_faults sample_random
      (replicate 32 CHR ''z'') sample_saved)))) sample_ref = Some data'
    \<and> open_profile sample_crypto (replicate 32 CHR ''z'') data' = Inr sample_canonical"
proof -
  let ?out = "Rotate sample_crypto sample_store no_faults sample_random (replicate 32 CHR ''z'') sample_saved"
  let ?data = "seal sample_crypto (replicate 12 CHR ''n'') (replicate 32 CHR ''k'') sample_canonical"
  have out: "?out = (None, fst (snd ?out), snd (snd ?out))"
    using Rotate_sample by (metis prod.collapse)
  have valid: "validRef sample_ref" by code_simp
  have data: "read_file (profiles sample_saved) sample_ref = Some ?data"
    by (simp add: sample_saved_def read_file_def)
  have plain: "open_profile sample_crypto (replicate 32 CHR ''k'') ?data = Inr sample_canonical"
    by (rule open_seal [OF sample_crypto_law]) (simp_all add: KeyBytes_def NonceSize_def)
  have one: "distinct (map fst (profiles sample_saved))" by (simp add: sample_saved_def)
  from rotation_keeps_profiles [OF sample_crypto_law sample_random_ok one sample_key _ out valid data]
    plain show ?thesis by (auto simp: KeyBytes_def)
qed

end
