(* ===== verification/Docker_Engine.thy ===== *)
theory Docker_Engine
  imports Worker_API "HOL-Library.Word" "HOL-Library.Multiset"
begin

text \<open>
  The worker's Docker client, \<^verbatim>\<open>internal/dockerworker/engine.go\<close>.

  The Docker daemon is not part of the program: it is the argument \<open>D\<close>, an arbitrary function
  from the requests it has received so far and the current one to its answer. An operation of the
  client takes the requests sent before it and returns its result with the requests sent after it,
  so a statement about every \<open>D\<close> covers every failure and every reply of the daemon, and the
  order of the requests is part of what is modelled. A request is the call with its decoded body; a
  response carries its status, its bytes and what the JSON decoder makes of them. Two more kinds of
  events are kept in the same order: the HTTP requests the worker sends to a workstation's gateway,
  which \<open>D\<close> answers too, and the start of a log collector.
\<close>

subsection \<open>Requests and responses\<close>

type_synonym labels = "(string \<times> string) list"

record Mount =
  mo_Source :: string
  mo_Target :: string

record ContainerConfig =
  cc_Name :: string
  cc_Image :: string
  cc_Entrypoint :: "string list"
  cc_Command :: "string list"
  cc_User :: string
  cc_Environment :: "(string \<times> string) list"
  cc_Labels :: labels
  cc_NetworkMode :: string
  cc_MemoryBytes :: int
  cc_NanoCPUs :: int
  cc_PIDLimit :: int
  cc_ShmSizeBytes :: int
  cc_CapAdd :: "string list"
  cc_Devices :: "labels list"
  cc_Mounts :: "Mount list"
  cc_Ports :: "int list"
  cc_DNS :: "string list"
  cc_Sysctls :: "(string \<times> string) list"
  cc_NetworkAliases :: "string list"

definition no_config :: ContainerConfig where
  "no_config =
     \<lparr>cc_Name = [], cc_Image = [], cc_Entrypoint = [], cc_Command = [], cc_User = [],
      cc_Environment = [], cc_Labels = [], cc_NetworkMode = [], cc_MemoryBytes = 0, cc_NanoCPUs = 0,
      cc_PIDLimit = 0, cc_ShmSizeBytes = 0, cc_CapAdd = [], cc_Devices = [], cc_Mounts = [],
      cc_Ports = [], cc_DNS = [], cc_Sysctls = [], cc_NetworkAliases = []\<rparr>"

text \<open>The body of \<^verbatim>\<open>POST /containers/create\<close>.\<close>

record container_body =
  cb_Image :: string
  cb_Entrypoint :: "string list"
  cb_Cmd :: "string list"
  cb_User :: string
  cb_Env :: "string list"
  cb_Labels :: labels
  cb_ExposedPorts :: "string list"
  cb_NetworkMode :: string
  cb_Memory :: int
  cb_NanoCpus :: int
  cb_PidsLimit :: int
  cb_ShmSize :: int
  cb_CapAdd :: "string list"
  cb_SecurityOpt :: "string list"
  cb_ReadonlyRootfs :: bool
  cb_Devices :: "labels list"
  cb_Mounts :: "(string \<times> string \<times> string) list"
  cb_Dns :: "string list"
  cb_Sysctls :: "(string \<times> string) list"
  cb_Aliases :: "(string \<times> string list) option"

datatype call =
    Ping
  | ImageCreate string
  | ImageInspect string
  | VolumeCreate string labels
  | ContainerCreate string container_body
  | NetworkCreate string labels bool
  | NetworkInspect string
  | NetworkConnect string string "string list"
  | NetworkRemove string
  | ContainerWait string
  | ArchivePut string string string string int
  | ContainerInspect string
  | StatsGet string
  | LogsGet string int
  | ContainerStart string
  | ContainerStop string
  | ContainerRestart string
  | ContainerRemove string
  | VolumeRemove string
  | ContainerList labels
  | VolumeList labels
  | NetworkList labels
  | HTTPGet string int string "(string \<times> string) list"
  | Capture string string string

record network_inspection =
  ni_Name :: string
  ni_Internal :: bool
  ni_Labels :: labels
  ni_Subnets :: "string list"
  ni_Endpoints :: "(string \<times> string) list"

record container_inspection =
  ki_Name :: string
  ki_Image :: string
  ki_Labels :: labels
  ki_NetworkMode :: string
  ki_Running :: bool
  ki_Health :: "string option"

record container_item =
  ct_Id :: string
  ct_Names :: "string list"
  ct_State :: string
  ct_Labels :: labels

record container_stats =
  cs_TotalUsage :: "64 word"
  cs_PercpuUsage :: "64 word list"
  cs_SystemCPUUsage :: "64 word"
  cs_OnlineCPUs :: "32 word"
  cs_PreTotalUsage :: "64 word"
  cs_PreSystemCPUUsage :: "64 word"
  cs_MemoryUsage :: "64 word"
  cs_MemoryLimit :: "64 word"
  cs_Pids :: int
  cs_Networks :: "(64 word \<times> 64 word) list"
  cs_Blkio :: "(string \<times> 64 word) list"

datatype body =
    Undecodable_Body
  | Message string
  | Pull_Stream "string list" bool
  | Volume_Body string labels
  | Network_Body network_inspection
  | Container_Body container_inspection
  | Wait_Body int "string option"
  | Stats_Body container_stats
  | Containers_Body "container_item list"
  | Volumes_Body "string list"
  | Networks_Body "string list"
  | Egress_Body EgressStatus bool

record response =
  rsp_Code :: int
  rsp_Status :: string
  rsp_Raw :: string
  rsp_Body :: body

type_synonym docker = "call list \<Rightarrow> call \<Rightarrow> (string, response) result"

datatype worker_error =
    Transport string
  | DockerAPI string string
  | PullFailed string
  | ScannerFailed
  | Undecoded
  | RefuseVolume string
  | RefuseNetwork string
  | RefuseContainer string
  | SharedNamespacePorts
  | NoSubnet string
  | ContainerError string
  | ExitStatus int
  | UnsupportedAction string
  | TimedOut string
  | ContainerExited
  | NoInternalAddress
  | MultipleOwners
  | NilDereference
  | Context string worker_error

subsection \<open>Operations that send requests\<close>

type_synonym 'a io = "call list \<Rightarrow> (worker_error, 'a) result \<times> call list"

definition return_io :: "'a \<Rightarrow> 'a io" where
  "return_io x h = (Inr x, h)"

definition fail_io :: "worker_error \<Rightarrow> 'a io" where
  "fail_io e h = (Inl e, h)"

definition bind_io :: "'a io \<Rightarrow> ('a \<Rightarrow> 'b io) \<Rightarrow> 'b io" where
  "bind_io m k h = (case m h of (Inl e, h') \<Rightarrow> (Inl e, h') | (Inr x, h') \<Rightarrow> k x h')"

text \<open>\<^verbatim>\<open>if err := m; err != nil { return err }\<close> before the rest.\<close>

definition seq_io :: "unit io \<Rightarrow> 'b io \<Rightarrow> 'b io" where
  "seq_io m k = bind_io m (\<lambda>_. k)"

text \<open>\<^verbatim>\<open>fmt.Errorf("what: %w", err)\<close>.\<close>

definition wrap :: "string \<Rightarrow> 'a io \<Rightarrow> 'a io" where
  "wrap what m h = (case m h of (Inl e, h') \<Rightarrow> (Inl (Context what e), h') | (Inr x, h') \<Rightarrow> (Inr x, h'))"

text \<open>A loop over a slice that returns at the first error.\<close>

primrec each_io :: "('a \<Rightarrow> unit io) \<Rightarrow> 'a list \<Rightarrow> unit io" where
  "each_io f [] = return_io ()"
| "each_io f (x # xs) = seq_io (f x) (each_io f xs)"

definition request :: "docker \<Rightarrow> call \<Rightarrow> response io" where
  "request D c h = (case D h c of Inl t \<Rightarrow> (Inl (Transport t), h @ [c]) | Inr r \<Rightarrow> (Inr r, h @ [c]))"

definition engineError :: "response \<Rightarrow> worker_error" where
  "engineError r =
     (let raw = DockerAPI (rsp_Status r) (TrimSpace (take (64 * 1024) (rsp_Raw r))) in
      case rsp_Body r of
        Message m \<Rightarrow> if m \<noteq> [] then DockerAPI (rsp_Status r) m else raw
      | _ \<Rightarrow> raw)"

text \<open>\<^verbatim>\<open>Engine.do\<close>: one status is expected, \<open>decode\<close> reads the body.\<close>

definition do_io :: "docker \<Rightarrow> call \<Rightarrow> (body \<Rightarrow> 'a option) \<Rightarrow> int \<Rightarrow> 'a io" where
  "do_io D c decode expected =
     bind_io (request D c) (\<lambda>r.
       if rsp_Code r \<noteq> expected then fail_io (engineError r)
       else case decode (rsp_Body r) of None \<Rightarrow> fail_io Undecoded | Some x \<Rightarrow> return_io x)"

definition Ping_engine :: "docker \<Rightarrow> unit io" where
  "Ping_engine D = do_io D Ping (\<lambda>_. Some ()) 200"

definition label :: "labels \<Rightarrow> string \<Rightarrow> string" where
  "label m k = (case map_of m k of Some v \<Rightarrow> v | None \<Rightarrow> [])"

definition containsLabels :: "labels \<Rightarrow> labels \<Rightarrow> bool" where
  "containsLabels actual expected = list_all (\<lambda>(k, v). label actual k = v) expected"

definition success :: "response \<Rightarrow> bool" where
  "success r = (200 \<le> rsp_Code r \<and> rsp_Code r < 300)"

subsubsection \<open>Images and volumes\<close>

definition Pull :: "docker \<Rightarrow> string \<Rightarrow> unit io" where
  "Pull D img =
     bind_io (request D (ImageCreate img)) (\<lambda>r.
       if rsp_Code r \<noteq> 200 then fail_io (engineError r)
       else case rsp_Body r of
         Pull_Stream errs broken \<Rightarrow>
           (case find (\<lambda>e. e \<noteq> []) errs of
              Some e \<Rightarrow> fail_io (PullFailed e)
            | None \<Rightarrow> if broken then fail_io ScannerFailed else return_io ())
       | _ \<Rightarrow> return_io ())"

definition EnsureImage :: "docker \<Rightarrow> string \<Rightarrow> unit io" where
  "EnsureImage D img =
     bind_io (request D (ImageInspect img)) (\<lambda>r.
       if rsp_Code r = 200 then return_io ()
       else if rsp_Code r = 404 then Pull D img
       else fail_io (engineError r))"

definition CreateVolume :: "docker \<Rightarrow> string \<Rightarrow> labels \<Rightarrow> unit io" where
  "CreateVolume D name ls =
     bind_io (request D (VolumeCreate name ls)) (\<lambda>r.
       if rsp_Code r \<noteq> 201 \<and> rsp_Code r \<noteq> 200 then fail_io (engineError r)
       else case rsp_Body r of
         Volume_Body n actual \<Rightarrow>
           if n \<noteq> name \<or> \<not> containsLabels actual ls then fail_io (RefuseVolume name) else return_io ()
       | _ \<Rightarrow> fail_io Undecoded)"

subsubsection \<open>Containers\<close>

definition container_request :: "ContainerConfig \<Rightarrow> container_body" where
  "container_request config =
     \<lparr>cb_Image = cc_Image config, cb_Entrypoint = cc_Entrypoint config, cb_Cmd = cc_Command config,
      cb_User = cc_User config,
      cb_Env = map (\<lambda>(key, v). key @ ''='' @ v) (cc_Environment config),
      cb_Labels = cc_Labels config,
      cb_ExposedPorts = map (\<lambda>port. Itoa port @ ''/tcp'') (cc_Ports config),
      cb_NetworkMode = cc_NetworkMode config, cb_Memory = cc_MemoryBytes config,
      cb_NanoCpus = cc_NanoCPUs config, cb_PidsLimit = cc_PIDLimit config,
      cb_ShmSize = cc_ShmSizeBytes config, cb_CapAdd = cc_CapAdd config,
      cb_SecurityOpt = [''no-new-privileges:true''], cb_ReadonlyRootfs = False,
      cb_Devices = cc_Devices config,
      cb_Mounts = map (\<lambda>m. (''volume'', mo_Source m, mo_Target m)) (cc_Mounts config),
      cb_Dns = cc_DNS config, cb_Sysctls = cc_Sysctls config,
      cb_Aliases = (if cc_NetworkAliases config = [] then None
         else Some (cc_NetworkMode config, cc_NetworkAliases config))\<rparr>"

definition decode_container :: "body \<Rightarrow> container_inspection option" where
  "decode_container b = (case b of Container_Body i \<Rightarrow> Some i | _ \<Rightarrow> None)"

definition verifyExistingContainer :: "docker \<Rightarrow> ContainerConfig \<Rightarrow> unit io" where
  "verifyExistingContainer D expected =
     bind_io (do_io D (ContainerInspect (cc_Name expected)) decode_container 200) (\<lambda>i.
       if TrimPrefix (ki_Name i) ''/'' \<noteq> cc_Name expected
          \<or> ki_Image i \<noteq> cc_Image expected
          \<or> ki_NetworkMode i \<noteq> cc_NetworkMode expected
          \<or> \<not> containsLabels (ki_Labels i) (cc_Labels expected)
       then fail_io (RefuseContainer (cc_Name expected)) else return_io ())"

definition CreateContainer :: "docker \<Rightarrow> ContainerConfig \<Rightarrow> unit io" where
  "CreateContainer D config =
     (if HasPrefix (cc_NetworkMode config) ''container:'' \<and> length (cc_Ports config) > 0
      then fail_io SharedNamespacePorts
      else bind_io (request D (ContainerCreate (cc_Name config) (container_request config))) (\<lambda>r.
        if rsp_Code r = 409 then verifyExistingContainer D config
        else if rsp_Code r \<noteq> 201 then fail_io (engineError r)
        else return_io ()))"

definition ContainerAction :: "docker \<Rightarrow> string \<Rightarrow> string \<Rightarrow> unit io" where
  "ContainerAction D name action =
     (let answer = (\<lambda>r.
        if rsp_Code r = 404 then return_io ()
        else if \<not> success r then fail_io (engineError r)
        else return_io ())
      in if action = ''start'' then bind_io (request D (ContainerStart name)) answer
         else if action = ''stop'' then bind_io (request D (ContainerStop name)) answer
         else if action = ''restart'' then bind_io (request D (ContainerRestart name)) answer
         else if action = ''delete'' then bind_io (request D (ContainerRemove name)) answer
         else fail_io (UnsupportedAction action))"

definition WaitContainer :: "docker \<Rightarrow> string \<Rightarrow> unit io" where
  "WaitContainer D name =
     bind_io (request D (ContainerWait name)) (\<lambda>r.
       if rsp_Code r \<noteq> 200 then fail_io (engineError r)
       else case rsp_Body r of
         Wait_Body code err \<Rightarrow>
           (case err of
              Some m \<Rightarrow>
                if m \<noteq> [] then fail_io (ContainerError m)
                else if code \<noteq> 0 then fail_io (ExitStatus code) else return_io ()
            | None \<Rightarrow> if code \<noteq> 0 then fail_io (ExitStatus code) else return_io ())
       | _ \<Rightarrow> fail_io Undecoded)"

definition CopyFile :: "docker \<Rightarrow> string \<Rightarrow> string \<Rightarrow> string \<Rightarrow> string \<Rightarrow> int \<Rightarrow> unit io" where
  "CopyFile D container directory filename data mode =
     bind_io (request D (ArchivePut container directory filename data mode)) (\<lambda>r.
       if rsp_Code r \<noteq> 200 then fail_io (engineError r) else return_io ())"

definition ContainerState :: "docker \<Rightarrow> string \<Rightarrow> (bool \<times> bool \<times> string) io" where
  "ContainerState D name =
     bind_io (do_io D (ContainerInspect name) decode_container 200) (\<lambda>i.
       return_io (case ki_Health i of
           None \<Rightarrow> (ki_Running i, ki_Running i, ''none'')
         | Some health \<Rightarrow> (ki_Running i, health = ''healthy'', health)))"

subsubsection \<open>Networks\<close>

record NetworkInfo =
  nw_Name :: string
  nw_Subnet :: string
  nw_Internal :: bool
  nw_Labels :: labels
  nw_Containers :: "(string \<times> string) list"

definition decode_network :: "body \<Rightarrow> network_inspection option" where
  "decode_network b = (case b of Network_Body i \<Rightarrow> Some i | _ \<Rightarrow> None)"

definition InspectNetwork :: "docker \<Rightarrow> string \<Rightarrow> NetworkInfo io" where
  "InspectNetwork D name =
     bind_io (do_io D (NetworkInspect name) decode_network 200) (\<lambda>i.
       let info =
         \<lparr>nw_Name = ni_Name i,
          nw_Subnet = (case ni_Subnets i of [] \<Rightarrow> [] | s # _ \<Rightarrow> s),
          nw_Internal = ni_Internal i, nw_Labels = ni_Labels i,
          nw_Containers = map (\<lambda>(n, address). (n, fst (Cut address (CHR ''/'')))) (ni_Endpoints i)\<rparr>
       in if nw_Subnet info = [] then fail_io (NoSubnet name) else return_io info)"

definition CreateNetwork :: "docker \<Rightarrow> string \<Rightarrow> labels \<Rightarrow> bool \<Rightarrow> unit io" where
  "CreateNetwork D name ls enableIPv6 =
     bind_io (request D (NetworkCreate name ls enableIPv6)) (\<lambda>r.
       if rsp_Code r \<noteq> 201 \<and> rsp_Code r \<noteq> 409 then fail_io (engineError r)
       else bind_io (InspectNetwork D name) (\<lambda>info.
         if nw_Name info \<noteq> name \<or> \<not> nw_Internal info \<or> \<not> containsLabels (nw_Labels info) ls
         then fail_io (RefuseNetwork name) else return_io ()))"

definition ConnectNetwork :: "docker \<Rightarrow> string \<Rightarrow> string \<Rightarrow> string list \<Rightarrow> unit io" where
  "ConnectNetwork D network container aliases =
     bind_io (request D (NetworkConnect network container aliases)) (\<lambda>r h.
       let answer = (if \<not> success r then Inl (engineError r) else Inr ()) in
       if rsp_Code r = 409 then
         (case InspectNetwork D network h of
            (Inr info, h') \<Rightarrow>
              (if map_of (nw_Containers info) container \<noteq> None then Inr () else answer, h')
          | (Inl _, h') \<Rightarrow> (answer, h'))
       else (answer, h))"

definition DeleteNetwork :: "docker \<Rightarrow> string \<Rightarrow> unit io" where
  "DeleteNetwork D name =
     bind_io (request D (NetworkRemove name)) (\<lambda>r.
       if rsp_Code r = 404 then return_io ()
       else if \<not> success r then fail_io (engineError r)
       else return_io ())"

definition DeleteVolume :: "docker \<Rightarrow> string \<Rightarrow> unit io" where
  "DeleteVolume D name =
     bind_io (request D (VolumeRemove name)) (\<lambda>r.
       if rsp_Code r = 404 then return_io ()
       else if \<not> success r then fail_io (engineError r)
       else return_io ())"

subsubsection \<open>Managed resources\<close>

definition managed_filter :: "string \<Rightarrow> labels" where
  "managed_filter workstationID =
     (LabelManagedBy, ManagedByValue) #
     (if workstationID \<noteq> [] then [(LabelWorkstationID, workstationID)] else [])"

definition managed_resource :: "container_item \<Rightarrow> Resource" where
  "managed_resource c =
     \<lparr>re_ID = ct_Id c,
      re_Name = (case ct_Names c of [] \<Rightarrow> [] | n # _ \<Rightarrow> TrimPrefix n ''/''),
      re_Kind = label (ct_Labels c) LabelResourceType,
      re_WorkstationID = label (ct_Labels c) LabelWorkstationID,
      re_AppID = label (ct_Labels c) LabelAppID,
      re_State = ct_State c, re_Health = [], re_Labels = ct_Labels c\<rparr>"

definition ListManaged :: "docker \<Rightarrow> string \<Rightarrow> Resource list io" where
  "ListManaged D workstationID =
     bind_io (request D (ContainerList (managed_filter workstationID))) (\<lambda>r.
       if rsp_Code r \<noteq> 200 then fail_io (engineError r)
       else case rsp_Body r of
         Containers_Body items \<Rightarrow> return_io (map managed_resource items)
       | _ \<Rightarrow> fail_io Undecoded)"

definition workstation_filter :: "string \<Rightarrow> labels" where
  "workstation_filter workstationID =
     [(LabelManagedBy, ManagedByValue), (LabelWorkstationID, workstationID)]"

definition listManagedNetworks :: "docker \<Rightarrow> string \<Rightarrow> string list io" where
  "listManagedNetworks D workstationID =
     bind_io (request D (NetworkList (workstation_filter workstationID))) (\<lambda>r.
       if rsp_Code r \<noteq> 200 then fail_io (engineError r)
       else case rsp_Body r of
         Networks_Body names \<Rightarrow> return_io names
       | _ \<Rightarrow> fail_io Undecoded)"

definition resourceRank :: "string \<Rightarrow> int" where
  "resourceRank kind =
     (if kind = ''vpn'' \<or> kind = ''wslan'' then 0
      else if kind = ''sandbox'' then 1
      else if kind = ''app'' then 2
      else 3)"

text \<open>\<^verbatim>\<open>sort.SliceStable\<close> with descending and with ascending rank.\<close>

definition rank_descending :: "Resource list \<Rightarrow> Resource list" where
  "rank_descending resources = sort_key (\<lambda>r. - resourceRank (re_Kind r)) resources"

definition rank_ascending :: "Resource list \<Rightarrow> Resource list" where
  "rank_ascending resources = sort_key (\<lambda>r. resourceRank (re_Kind r)) resources"

definition RemoveWorkstation :: "docker \<Rightarrow> string \<Rightarrow> unit io" where
  "RemoveWorkstation D workstationID =
     bind_io (ListManaged D workstationID) (\<lambda>resources.
     seq_io (each_io (\<lambda>resource. wrap (''delete container '' @ re_Name resource)
         (ContainerAction D (re_Name resource) ''delete'')) (rank_descending resources)) (
     bind_io (listManagedNetworks D workstationID) (\<lambda>networks.
     seq_io (each_io (\<lambda>network. wrap (''delete network '' @ network) (DeleteNetwork D network)) networks) (
     bind_io (request D (VolumeList (workstation_filter workstationID))) (\<lambda>r.
       if rsp_Code r \<noteq> 200 then fail_io (engineError r)
       else case rsp_Body r of
         Volumes_Body names \<Rightarrow>
           each_io (\<lambda>volume. wrap (''delete volume '' @ volume) (DeleteVolume D volume)) names
       | _ \<Rightarrow> fail_io Undecoded)))))"

subsection \<open>Reasoning about operations\<close>

text \<open>
  Two views of an operation. \<open>sends m S\<close>: whatever the daemon answers, \<open>m\<close> only appends
  requests from \<open>S\<close>. The rules of \<open>io_ok\<close> turn a successful run into successful runs of its
  parts.
\<close>

definition sends :: "'a io \<Rightarrow> call set \<Rightarrow> bool" where
  "sends m S = (\<forall>h. \<exists>cs. snd (m h) = h @ cs \<and> set cs \<subseteq> S)"

named_theorems sends_intros \<open>which requests an operation may send\<close>
named_theorems io_ok \<open>inversion of successful runs\<close>

lemma sendsI: "(\<And>h. \<exists>cs. snd (m h) = h @ cs \<and> set cs \<subseteq> S) \<Longrightarrow> sends m S"
  by (simp add: sends_def)

lemma sendsD: "sends m S \<Longrightarrow> m h = (r, h') \<Longrightarrow> \<exists>cs. h' = h @ cs \<and> set cs \<subseteq> S"
  unfolding sends_def by (metis snd_conv)

lemma sends_mono: "sends m S \<Longrightarrow> S \<subseteq> T \<Longrightarrow> sends m T"
  unfolding sends_def by (meson subset_trans)

lemma sends_return [sends_intros]: "sends (return_io x) S"
  by (simp add: sends_def return_io_def)

lemma sends_fail [sends_intros]: "sends (fail_io e) S"
  by (simp add: sends_def fail_io_def)

lemma sends_bind [sends_intros]:
  assumes m: "sends m S" and k: "\<And>x. sends (k x) S"
  shows "sends (bind_io m k) S"
proof (rule sendsI)
  fix h
  obtain r h1 where 1: "m h = (r, h1)" by (cases "m h")
  from sendsD [OF m 1] obtain cs where cs: "h1 = h @ cs" "set cs \<subseteq> S" by blast
  show "\<exists>cs. snd (bind_io m k h) = h @ cs \<and> set cs \<subseteq> S"
  proof (cases r)
    case (Inr x)
    obtain r' h2 where 2: "k x h1 = (r', h2)" by (cases "k x h1")
    from sendsD [OF k 2] obtain ds where "h2 = h1 @ ds" "set ds \<subseteq> S" by blast
    with 1 2 Inr cs show ?thesis by (auto simp: bind_io_def)
  qed (use 1 cs in \<open>auto simp: bind_io_def\<close>)
qed

lemma sends_seq [sends_intros]: "sends m S \<Longrightarrow> sends k S \<Longrightarrow> sends (seq_io m k) S"
  unfolding seq_io_def by (rule sends_bind)

lemma sends_wrap [sends_intros]: "sends m S \<Longrightarrow> sends (wrap what m) S"
  by (auto simp: sends_def wrap_def split: prod.splits sum.splits) (metis snd_conv)+

lemma sends_each [sends_intros]: "(\<And>x. x \<in> set xs \<Longrightarrow> sends (f x) S) \<Longrightarrow> sends (each_io f xs) S"
  by (induction xs) (auto intro: sends_intros)

lemma sends_request [sends_intros]: "c \<in> S \<Longrightarrow> sends (request D c) S"
  by (auto simp: sends_def request_def split: sum.splits)

lemma sends_if [sends_intros]:
  "(c \<Longrightarrow> sends m S) \<Longrightarrow> (\<not> c \<Longrightarrow> sends k S) \<Longrightarrow> sends (if c then m else k) S"
  by simp

lemma sends_option [sends_intros]:
  "(x = None \<Longrightarrow> sends m S) \<Longrightarrow> (\<And>y. x = Some y \<Longrightarrow> sends (k y) S) \<Longrightarrow>
   sends (case x of None \<Rightarrow> m | Some y \<Rightarrow> k y) S"
  by (cases x) simp_all

lemma sends_do [sends_intros]: "c \<in> S \<Longrightarrow> sends (do_io D c decode expected) S"
  unfolding do_io_def by (intro sends_intros)

lemma return_io_ok [io_ok]: "return_io x h = (Inr y, h') \<longleftrightarrow> y = x \<and> h' = h"
  by (auto simp: return_io_def)

lemma fail_io_ok [io_ok]: "fail_io e h = (Inr y, h') \<longleftrightarrow> False"
  by (simp add: fail_io_def)

lemma bind_io_ok [io_ok]:
  "bind_io m k h = (Inr y, h') \<longleftrightarrow> (\<exists>x h1. m h = (Inr x, h1) \<and> k x h1 = (Inr y, h'))"
  by (auto simp: bind_io_def split: prod.splits sum.splits)

lemma seq_io_ok [io_ok]:
  "seq_io m k h = (Inr y, h') \<longleftrightarrow> (\<exists>h1. m h = (Inr (), h1) \<and> k h1 = (Inr y, h'))"
  by (simp add: seq_io_def bind_io_ok)

lemma wrap_ok [io_ok]: "wrap what m h = (Inr y, h') \<longleftrightarrow> m h = (Inr y, h')"
  by (auto simp: wrap_def split: prod.splits sum.splits)

lemma request_ok [io_ok]: "request D c h = (Inr r, h') \<longleftrightarrow> D h c = Inr r \<and> h' = h @ [c]"
  by (auto simp: request_def split: sum.splits)

lemma if_fail_ok [io_ok]: "(if c then fail_io e else m) h = (Inr y, h') \<longleftrightarrow> \<not> c \<and> m h = (Inr y, h')"
  by (simp add: fail_io_ok)

lemma do_io_ok [io_ok]:
  "do_io D c decode expected h = (Inr x, h') \<longleftrightarrow>
   (\<exists>r. D h c = Inr r \<and> rsp_Code r = expected \<and> decode (rsp_Body r) = Some x \<and> h' = h @ [c])"
  by (auto simp: do_io_def io_ok split: option.splits)

text \<open>A successful loop has sent the requests of its iterations one after the other.\<close>

lemma each_io_ok:
  assumes "each_io f xs h = (Inr (), h')"
    and step: "\<And>x h h'. x \<in> set xs \<Longrightarrow> f x h = (Inr (), h') \<Longrightarrow> h' = h @ t x"
  shows "h' = h @ concat (map t xs)"
  using assms
proof (induction xs arbitrary: h)
  case (Cons x xs)
  from Cons.prems(1) obtain h1 where 1: "f x h = (Inr (), h1)" "each_io f xs h1 = (Inr (), h')"
    by (auto simp: io_ok)
  from Cons.IH [OF 1(2) Cons.prems(2)] Cons.prems(2) [OF _ 1(1)] show ?case by simp
qed (simp add: io_ok)

subsubsection \<open>The requests of each operation\<close>

lemma sends_Pull [sends_intros]: "ImageCreate i \<in> S \<Longrightarrow> sends (Pull D i) S"
  unfolding Pull_def by (intro sends_intros) (auto intro: sends_intros split: body.split)

lemma sends_EnsureImage [sends_intros]:
  "ImageInspect i \<in> S \<Longrightarrow> ImageCreate i \<in> S \<Longrightarrow> sends (EnsureImage D i) S"
  unfolding EnsureImage_def by (intro sends_intros)

lemma sends_CreateVolume [sends_intros]: "VolumeCreate n ls \<in> S \<Longrightarrow> sends (CreateVolume D n ls) S"
  unfolding CreateVolume_def by (intro sends_intros) (auto intro: sends_intros split: body.split)

lemma sends_CreateContainer [sends_intros]:
  "ContainerCreate (cc_Name c) (container_request c) \<in> S \<Longrightarrow> ContainerInspect (cc_Name c) \<in> S \<Longrightarrow>
   sends (CreateContainer D c) S"
  unfolding CreateContainer_def verifyExistingContainer_def by (intro sends_intros)

lemma sends_ContainerAction [sends_intros]:
  "(action = ''start'' \<Longrightarrow> ContainerStart n \<in> S) \<Longrightarrow> (action = ''stop'' \<Longrightarrow> ContainerStop n \<in> S) \<Longrightarrow>
   (action = ''restart'' \<Longrightarrow> ContainerRestart n \<in> S) \<Longrightarrow>
   (action = ''delete'' \<Longrightarrow> ContainerRemove n \<in> S) \<Longrightarrow> sends (ContainerAction D n action) S"
  unfolding ContainerAction_def Let_def by (intro sends_intros)

lemma sends_WaitContainer [sends_intros]: "ContainerWait n \<in> S \<Longrightarrow> sends (WaitContainer D n) S"
  unfolding WaitContainer_def
  by (intro sends_intros) (auto intro!: sends_intros split: body.split)

lemma sends_CopyFile [sends_intros]: "ArchivePut c d f x m \<in> S \<Longrightarrow> sends (CopyFile D c d f x m) S"
  unfolding CopyFile_def by (intro sends_intros)

lemma sends_ContainerState [sends_intros]: "ContainerInspect n \<in> S \<Longrightarrow> sends (ContainerState D n) S"
  unfolding ContainerState_def by (intro sends_intros)

lemma sends_InspectNetwork [sends_intros]: "NetworkInspect n \<in> S \<Longrightarrow> sends (InspectNetwork D n) S"
  unfolding InspectNetwork_def Let_def by (intro sends_intros)

lemma sends_CreateNetwork [sends_intros]:
  "NetworkCreate n ls v6 \<in> S \<Longrightarrow> NetworkInspect n \<in> S \<Longrightarrow> sends (CreateNetwork D n ls v6) S"
  unfolding CreateNetwork_def by (intro sends_intros)

lemma sends_ConnectNetwork [sends_intros]:
  assumes "NetworkConnect n c as \<in> S" and "NetworkInspect n \<in> S"
  shows "sends (ConnectNetwork D n c as) S"
  unfolding ConnectNetwork_def Let_def
proof (rule sends_bind [OF sends_request [OF assms(1)]], rule sendsI)
  fix r h
  obtain q h1 where q: "InspectNetwork D n h = (q, h1)" by (cases "InspectNetwork D n h")
  from sendsD [OF sends_InspectNetwork [OF assms(2)] q] obtain cs where "h1 = h @ cs" "set cs \<subseteq> S"
    by blast
  with q show "\<exists>cs. snd ((if rsp_Code r = 409 then case InspectNetwork D n h of
         (Inl x, h') \<Rightarrow> (if \<not> success r then Inl (engineError r) else Inr (), h')
       | (Inr info, h') \<Rightarrow> (if map_of (nw_Containers info) c \<noteq> None then Inr ()
            else if \<not> success r then Inl (engineError r) else Inr (), h')
       else (if \<not> success r then Inl (engineError r) else Inr (), h))) = h @ cs \<and> set cs \<subseteq> S"
    by (cases q) auto
qed

lemma sends_DeleteNetwork [sends_intros]: "NetworkRemove n \<in> S \<Longrightarrow> sends (DeleteNetwork D n) S"
  unfolding DeleteNetwork_def by (intro sends_intros)

lemma sends_DeleteVolume [sends_intros]: "VolumeRemove n \<in> S \<Longrightarrow> sends (DeleteVolume D n) S"
  unfolding DeleteVolume_def by (intro sends_intros)

lemma sends_ListManaged [sends_intros]:
  "ContainerList (managed_filter i) \<in> S \<Longrightarrow> sends (ListManaged D i) S"
  unfolding ListManaged_def by (intro sends_intros) (auto intro: sends_intros split: body.split)

lemma sends_listManagedNetworks [sends_intros]:
  "NetworkList (workstation_filter i) \<in> S \<Longrightarrow> sends (listManagedNetworks D i) S"
  unfolding listManagedNetworks_def
  by (intro sends_intros) (auto intro: sends_intros split: body.split)

subsection \<open>Properties\<close>

lemma answer_ok [io_ok]:
  "(if rsp_Code r = 404 then return_io () else if \<not> success r then fail_io (engineError r)
    else return_io ()) h = (Inr (), h') \<longleftrightarrow> (rsp_Code r = 404 \<or> success r) \<and> h' = h"
  by (auto simp: io_ok)

lemma ContainerAction_ok:
  "ContainerAction D n ''start'' h = (Inr (), h') \<Longrightarrow> h' = h @ [ContainerStart n]"
  "ContainerAction D n ''stop'' h = (Inr (), h') \<Longrightarrow> h' = h @ [ContainerStop n]"
  "ContainerAction D n ''delete'' h = (Inr (), h') \<Longrightarrow> h' = h @ [ContainerRemove n]"
  by (auto simp add: ContainerAction_def bind_io_ok request_ok answer_ok)

lemma decode_Some [simp]:
  "decode_network b = Some i \<longleftrightarrow> b = Network_Body i"
  "decode_container b = Some k \<longleftrightarrow> b = Container_Body k"
  by (auto simp: decode_network_def decode_container_def split: body.splits)

lemma InspectNetwork_ok:
  "InspectNetwork D n h = (Inr info, h') \<Longrightarrow>
   (\<exists>r i. D h (NetworkInspect n) = Inr r \<and> rsp_Body r = Network_Body i
     \<and> nw_Name info = ni_Name i \<and> nw_Internal info = ni_Internal i \<and> nw_Labels info = ni_Labels i
     \<and> ni_Subnets i \<noteq> []) \<and> h' = h @ [NetworkInspect n]"
  by (auto simp: InspectNetwork_def Let_def bind_io_ok do_io_ok if_fail_ok return_io_ok)

lemma DeleteNetwork_ok: "DeleteNetwork D n h = (Inr (), h') \<Longrightarrow> h' = h @ [NetworkRemove n]"
  by (auto simp: DeleteNetwork_def io_ok split: if_splits)

lemma DeleteVolume_ok: "DeleteVolume D n h = (Inr (), h') \<Longrightarrow> h' = h @ [VolumeRemove n]"
  by (auto simp: DeleteVolume_def io_ok split: if_splits)

lemma ListManaged_ok:
  "ListManaged D i h = (Inr resources, h') \<Longrightarrow>
   (\<exists>r items. D h (ContainerList (managed_filter i)) = Inr r \<and> rsp_Code r = 200
      \<and> rsp_Body r = Containers_Body items \<and> resources = map managed_resource items)
   \<and> h' = h @ [ContainerList (managed_filter i)]"
  unfolding ListManaged_def bind_io_ok request_ok if_fail_ok
  by (elim exE conjE; rename_tac r h1; case_tac "rsp_Body r"; simp add: io_ok)

lemma listManagedNetworks_ok:
  "listManagedNetworks D i h = (Inr names, h') \<Longrightarrow>
   (\<exists>r. D h (NetworkList (workstation_filter i)) = Inr r \<and> rsp_Body r = Networks_Body names)
   \<and> h' = h @ [NetworkList (workstation_filter i)]"
  unfolding listManagedNetworks_def bind_io_ok request_ok if_fail_ok
  by (elim exE conjE; rename_tac r h1; case_tac "rsp_Body r"; simp add: io_ok)

lemma sorted_rank_descending:
  "sorted_wrt (\<lambda>a b. resourceRank (re_Kind b) \<le> resourceRank (re_Kind a)) (rank_descending resources)"
proof -
  have "sorted (map (\<lambda>r. - resourceRank (re_Kind r)) (rank_descending resources))"
    by (simp add: rank_descending_def)
  then show ?thesis by (simp add: sorted_map)
qed

lemma sorted_rank_ascending:
  "sorted_wrt (\<lambda>a b. resourceRank (re_Kind a) \<le> resourceRank (re_Kind b)) (rank_ascending resources)"
proof -
  have "sorted (map (\<lambda>r. resourceRank (re_Kind r)) (rank_ascending resources))"
    by (simp add: rank_ascending_def)
  then show ?thesis by (simp add: sorted_map)
qed

lemma mset_rank [simp]:
  "mset (rank_descending resources) = mset resources"
  "mset (rank_ascending resources) = mset resources"
  by (simp_all add: rank_descending_def rank_ascending_def)

text \<open>
  Removing a workstation. When \<^verbatim>\<open>RemoveWorkstation\<close> returns without error it has asked
  the daemon to delete every container, network and volume the daemon listed under the
  workstation's labels, exactly once each and nothing else: first the containers, in an order in
  which apps go before their network sandboxes and those before the gateway, then the networks, then
  the volumes.
\<close>

theorem removal_complete:
  assumes "RemoveWorkstation D i h = (Inr (), h')"
  shows "\<exists>r items ordered h2 r2 nets h4 r3 vols.
    D h (ContainerList (managed_filter i)) = Inr r \<and> rsp_Body r = Containers_Body items
    \<and> mset ordered = mset (map managed_resource items)
    \<and> sorted_wrt (\<lambda>a b. resourceRank (re_Kind b) \<le> resourceRank (re_Kind a)) ordered
    \<and> h2 = h @ ContainerList (managed_filter i) # map (\<lambda>c. ContainerRemove (re_Name c)) ordered
    \<and> D h2 (NetworkList (workstation_filter i)) = Inr r2 \<and> rsp_Body r2 = Networks_Body nets
    \<and> h4 = h2 @ NetworkList (workstation_filter i) # map NetworkRemove nets
    \<and> D h4 (VolumeList (workstation_filter i)) = Inr r3 \<and> rsp_Body r3 = Volumes_Body vols
    \<and> h' = h4 @ VolumeList (workstation_filter i) # map VolumeRemove vols"
proof -
  from assms obtain resources h1 h2 nets h3 h4 r3 where
      1: "ListManaged D i h = (Inr resources, h1)"
    and 2: "each_io (\<lambda>c. wrap (''delete container '' @ re_Name c)
        (ContainerAction D (re_Name c) ''delete'')) (rank_descending resources) h1 = (Inr (), h2)"
    and 3: "listManagedNetworks D i h2 = (Inr nets, h3)"
    and 4: "each_io (\<lambda>n. wrap (''delete network '' @ n) (DeleteNetwork D n)) nets h3 = (Inr (), h4)"
    and 5: "D h4 (VolumeList (workstation_filter i)) = Inr r3"
    and rest: "(if rsp_Code r3 \<noteq> 200 then fail_io (engineError r3)
       else case rsp_Body r3 of
         Volumes_Body names \<Rightarrow>
           each_io (\<lambda>v. wrap (''delete volume '' @ v) (DeleteVolume D v)) names
       | _ \<Rightarrow> fail_io Undecoded) (h4 @ [VolumeList (workstation_filter i)]) = (Inr (), h')"
    unfolding RemoveWorkstation_def bind_io_ok seq_io_ok request_ok by blast
  from rest obtain vols where 6: "rsp_Body r3 = Volumes_Body vols"
    and 7: "each_io (\<lambda>v. wrap (''delete volume '' @ v) (DeleteVolume D v)) vols
        (h4 @ [VolumeList (workstation_filter i)]) = (Inr (), h')"
    by (auto simp: io_ok split: body.splits)
  have a: "h2 = h1 @ concat (map (\<lambda>c. [ContainerRemove (re_Name c)]) (rank_descending resources))"
    by (rule each_io_ok [OF 2]) (auto simp: io_ok dest: ContainerAction_ok)
  have b: "h4 = h3 @ concat (map (\<lambda>n. [NetworkRemove n]) nets)"
    by (rule each_io_ok [OF 4]) (auto simp: io_ok dest: DeleteNetwork_ok)
  have c: "h' = (h4 @ [VolumeList (workstation_filter i)]) @ concat (map (\<lambda>v. [VolumeRemove v]) vols)"
    by (rule each_io_ok [OF 7]) (auto simp: io_ok dest: DeleteVolume_ok)
  obtain r items where d: "D h (ContainerList (managed_filter i)) = Inr r"
      "rsp_Body r = Containers_Body items" "resources = map managed_resource items"
      "h1 = h @ [ContainerList (managed_filter i)]"
    using ListManaged_ok [OF 1] by blast
  obtain r2 where e: "D h2 (NetworkList (workstation_filter i)) = Inr r2"
      "rsp_Body r2 = Networks_Body nets" "h3 = h2 @ [NetworkList (workstation_filter i)]"
    using listManagedNetworks_ok [OF 3] by blast
  have m: "mset (rank_descending resources) = mset (map managed_resource items)"
    by (simp add: d(3))
  show ?thesis
  proof (intro exI conjI)
    show "D h (ContainerList (managed_filter i)) = Inr r" by (rule d)
    show "rsp_Body r = Containers_Body items" by (rule d)
    show "mset (rank_descending resources) = mset (map managed_resource items)" by (rule m)
    show "sorted_wrt (\<lambda>a b. resourceRank (re_Kind b) \<le> resourceRank (re_Kind a))
        (rank_descending resources)" by (rule sorted_rank_descending)
    show "h2 = h @ ContainerList (managed_filter i) #
        map (\<lambda>c. ContainerRemove (re_Name c)) (rank_descending resources)"
      using a d(4) by (simp add: concat_map_singleton)
    show "h4 = h2 @ NetworkList (workstation_filter i) # map NetworkRemove nets"
      using b e(3) by (simp add: concat_map_singleton)
    show "h' = h4 @ VolumeList (workstation_filter i) # map VolumeRemove vols"
      using c by (simp add: concat_map_singleton)
  qed (rule e 5 6)+
qed

text \<open>A daemon that holds one workstation with a gateway, a sandbox and an app.\<close>

definition reply :: "int \<Rightarrow> body \<Rightarrow> (string, response) result" where
  "reply code b = Inr \<lparr>rsp_Code = code, rsp_Status = [], rsp_Raw = [], rsp_Body = b\<rparr>"

definition sample_item :: "string \<Rightarrow> string \<Rightarrow> container_item" where
  "sample_item n kind =
     \<lparr>ct_Id = n, ct_Names = [''/'' @ n], ct_State = ''running'',
      ct_Labels = [(LabelManagedBy, ManagedByValue), (LabelWorkstationID, ''ws-abcdef''),
        (LabelResourceType, kind)]\<rparr>"

definition sample_items :: "container_item list" where
  "sample_items = [sample_item ''gw'' ''wslan'', sample_item ''a1'' ''app'', sample_item ''s1'' ''sandbox'']"

definition removal_daemon :: docker where
  "removal_daemon h c =
     (case c of
        ContainerList _ \<Rightarrow> reply 200 (Containers_Body sample_items)
      | NetworkList _ \<Rightarrow> reply 200 (Networks_Body [''lan''])
      | VolumeList _ \<Rightarrow> reply 200 (Volumes_Body [''v1'', ''v2''])
      | ContainerRemove n \<Rightarrow> reply (if n = ''s1'' then 404 else 204) Undecodable_Body
      | _ \<Rightarrow> reply 204 Undecodable_Body)"

lemma removal_sample:
  "RemoveWorkstation removal_daemon ''ws-abcdef'' [] =
     (Inr (), [ContainerList (managed_filter ''ws-abcdef''), ContainerRemove ''a1'', ContainerRemove ''s1'',
       ContainerRemove ''gw'', NetworkList (workstation_filter ''ws-abcdef''), NetworkRemove ''lan'',
       VolumeList (workstation_filter ''ws-abcdef''), VolumeRemove ''v1'', VolumeRemove ''v2''])"
  by code_simp

theorem removal_complete_witness:
  "\<exists>items ordered. mset ordered = mset (map managed_resource items) \<and> length ordered \<le> 9
    \<and> sorted_wrt (\<lambda>a b. resourceRank (re_Kind b) \<le> resourceRank (re_Kind a)) ordered
    \<and> (\<exists>t. snd (RemoveWorkstation removal_daemon ''ws-abcdef'' []) = ContainerList (managed_filter ''ws-abcdef'')
         # map (\<lambda>c. ContainerRemove (re_Name c)) ordered @ t)"
proof -
  from removal_complete [OF removal_sample] obtain items ordered t where
    "mset ordered = mset (map managed_resource items)"
    "sorted_wrt (\<lambda>a b. resourceRank (re_Kind b) \<le> resourceRank (re_Kind a)) ordered"
    and t: "snd (RemoveWorkstation removal_daemon ''ws-abcdef'' []) =
      ContainerList (managed_filter ''ws-abcdef'') # map (\<lambda>c. ContainerRemove (re_Name c)) ordered @ t"
    unfolding removal_sample snd_conv by auto
  moreover from arg_cong [OF t, of length] have "length ordered \<le> 9"
    unfolding removal_sample by simp
  ultimately show ?thesis by blast
qed

text \<open>
  Resources are reused only when they are the workstation's own. Creating a volume, network or
  container whose name is already taken succeeds only if what exists carries the requested labels;
  the network must also be internal, and the container must have the requested image and network.
\<close>

theorem reuse_is_checked:
  "(fst (CreateVolume D n ls h) = Inr () \<longrightarrow>
      (\<exists>r actual. D h (VolumeCreate n ls) = Inr r \<and> rsp_Body r = Volume_Body n actual
        \<and> containsLabels actual ls))
   \<and> (fst (CreateNetwork D n ls v6 h) = Inr () \<longrightarrow>
      (\<exists>r i. D (h @ [NetworkCreate n ls v6]) (NetworkInspect n) = Inr r \<and> rsp_Body r = Network_Body i
        \<and> ni_Name i = n \<and> ni_Internal i \<and> containsLabels (ni_Labels i) ls \<and> ni_Subnets i \<noteq> []))
   \<and> (fst (CreateContainer D config h) = Inr () \<longrightarrow>
      (\<exists>r. D h (ContainerCreate (cc_Name config) (container_request config)) = Inr r \<and>
        (rsp_Code r = 201 \<or>
         (\<exists>q i. D (h @ [ContainerCreate (cc_Name config) (container_request config)])
              (ContainerInspect (cc_Name config)) = Inr q
            \<and> rsp_Body q = Container_Body i \<and> ki_Image i = cc_Image config
            \<and> ki_NetworkMode i = cc_NetworkMode config
            \<and> containsLabels (ki_Labels i) (cc_Labels config)))))"
proof (intro conjI impI)
  assume "fst (CreateVolume D n ls h) = Inr ()"
  then obtain h' where "CreateVolume D n ls h = (Inr (), h')" by (metis prod.collapse)
  then obtain r where r: "D h (VolumeCreate n ls) = Inr r" and
      "(case rsp_Body r of
         Volume_Body m actual \<Rightarrow>
           if m \<noteq> n \<or> \<not> containsLabels actual ls then fail_io (RefuseVolume n) else return_io ()
       | _ \<Rightarrow> fail_io Undecoded) (h @ [VolumeCreate n ls]) = (Inr (), h')"
    by (auto simp: CreateVolume_def bind_io_ok request_ok if_fail_ok)
  then show "\<exists>r actual. D h (VolumeCreate n ls) = Inr r \<and> rsp_Body r = Volume_Body n actual
      \<and> containsLabels actual ls"
    by (cases "rsp_Body r") (auto simp: io_ok)
next
  assume "fst (CreateNetwork D n ls v6 h) = Inr ()"
  then obtain h' where "CreateNetwork D n ls v6 h = (Inr (), h')" by (metis prod.collapse)
  then obtain info h1 where
      "InspectNetwork D n (h @ [NetworkCreate n ls v6]) = (Inr info, h1)"
      and info: "nw_Name info = n" "nw_Internal info" "containsLabels (nw_Labels info) ls"
    by (auto simp: CreateNetwork_def bind_io_ok request_ok if_fail_ok return_io_ok)
  then obtain r i where "D (h @ [NetworkCreate n ls v6]) (NetworkInspect n) = Inr r"
      "rsp_Body r = Network_Body i" "nw_Name info = ni_Name i" "nw_Internal info = ni_Internal i"
      "nw_Labels info = ni_Labels i" "ni_Subnets i \<noteq> []"
    using InspectNetwork_ok by blast
  with info show "\<exists>r i. D (h @ [NetworkCreate n ls v6]) (NetworkInspect n) = Inr r \<and> rsp_Body r = Network_Body i
      \<and> ni_Name i = n \<and> ni_Internal i \<and> containsLabels (ni_Labels i) ls \<and> ni_Subnets i \<noteq> []"
    by fastforce
next
  assume "fst (CreateContainer D config h) = Inr ()"
  then obtain h' where "CreateContainer D config h = (Inr (), h')" by (metis prod.collapse)
  then show "\<exists>r. D h (ContainerCreate (cc_Name config) (container_request config)) = Inr r \<and>
      (rsp_Code r = 201 \<or>
       (\<exists>q i. D (h @ [ContainerCreate (cc_Name config) (container_request config)])
            (ContainerInspect (cc_Name config)) = Inr q
          \<and> rsp_Body q = Container_Body i \<and> ki_Image i = cc_Image config
          \<and> ki_NetworkMode i = cc_NetworkMode config
          \<and> containsLabels (ki_Labels i) (cc_Labels config)))"
    by (auto simp: CreateContainer_def verifyExistingContainer_def io_ok split: if_splits)
qed

text \<open>A daemon on which every name is taken by a resource of the workstation itself.\<close>

definition reuse_daemon :: docker where
  "reuse_daemon h c =
     (case c of
        VolumeCreate n ls \<Rightarrow> reply 200 (Volume_Body n ls)
      | NetworkInspect n \<Rightarrow> reply 200 (Network_Body
          \<lparr>ni_Name = n, ni_Internal = True, ni_Labels = [(LabelAppID, ''files'')],
           ni_Subnets = [''10.0.0.0/24''], ni_Endpoints = []\<rparr>)
      | ContainerInspect n \<Rightarrow> reply 200 (Container_Body
          \<lparr>ki_Name = ''/'' @ n, ki_Image = ''img:1'', ki_Labels = [(LabelAppID, ''files'')],
           ki_NetworkMode = ''none'', ki_Running = False, ki_Health = None\<rparr>)
      | _ \<Rightarrow> reply 409 Undecodable_Body)"

theorem reuse_is_checked_witness:
  "\<exists>r i. reuse_daemon [NetworkCreate ''lan'' [] False] (NetworkInspect ''lan'') = Inr r
    \<and> rsp_Body r = Network_Body i \<and> ni_Internal i \<and> ni_Subnets i \<noteq> []"
proof -
  have n: "fst (CreateNetwork reuse_daemon ''lan'' [] False []) = Inr ()" by code_simp
  note facts = reuse_is_checked [of reuse_daemon "''lan''" "[]" "[]" False no_config]
  from mp [OF conjunct1 [OF conjunct2 [OF facts]] n] show ?thesis
    unfolding append_Nil by (elim exE conjE) (intro exI conjI)
qed

end
