(* ===== verification/Worker_Logs.thy ===== *)
theory Worker_Logs
  imports Worker_Config VPN_Store Docker_Engine
begin

text \<open>
  Log capture of the worker, \<^verbatim>\<open>internal/dockerworker/logs.go\<close>: which containers are
  captured, where their logs go, the size-limited writer with one rotated file, and reading the end
  of a persisted log. The files are a directory as in \<open>VPN_Store\<close>, by full path; \<open>F\<close> says
  which file operations fail. The retry loop around a live Docker stream is a goroutine paced by
  timers and is not modelled.
\<close>

definition maxLogFileBytes :: nat where
  "maxLogFileBytes = 25 * 1024 * 1024"

definition maxLogReadBytes :: nat where
  "maxLogReadBytes = 2 * 1024 * 1024"

subsection \<open>Collectors\<close>

text \<open>The capture context, if it was set, and the containers with a running collector.\<close>

record captures =
  cap_ctx :: bool
  cap_names :: "string list"

definition captureContainer :: "Worker \<Rightarrow> string \<Rightarrow> string \<Rightarrow> string \<Rightarrow> captures \<Rightarrow> captures" where
  "captureContainer cfg workstationID logName containerName c =
     (if wk_LogsDirectory cfg = [] \<or> \<not> resourceID workstationID \<or> \<not> logFileID logName then c
      else if \<not> cap_ctx c then c
      else if containerName \<in> set (cap_names c) then c
      else c\<lparr>cap_names := containerName # cap_names c\<rparr>)"

definition capture_ended :: "string \<Rightarrow> captures \<Rightarrow> captures" where
  "capture_ended containerName c = c\<lparr>cap_names := filter (\<lambda>n. n \<noteq> containerName) (cap_names c)\<rparr>"

definition captureResource :: "Worker \<Rightarrow> Resource \<Rightarrow> captures \<Rightarrow> captures" where
  "captureResource cfg resource c =
     (if re_Kind resource = ''app'' then
        captureContainer cfg (re_WorkstationID resource) (re_AppID resource) (re_Name resource) c
      else if re_Kind resource = ''wslan'' then
        captureContainer cfg (re_WorkstationID resource) ''wslan'' (re_Name resource) c
      else if re_Kind resource = ''sandbox'' then
        captureContainer cfg (re_WorkstationID resource) (''network-'' @ re_AppID resource) (re_Name resource) c
      else c)"

definition resumeLogCapture :: "Worker \<Rightarrow> docker \<Rightarrow> captures \<Rightarrow> call list \<Rightarrow> captures \<times> call list" where
  "resumeLogCapture cfg D c h =
     (case ListManaged D [] h of
        (Inl _, h') \<Rightarrow> (c, h')
      | (Inr resources, h') \<Rightarrow>
          (foldl (\<lambda>c r. if re_State r = ''running'' then captureResource cfg r c else c) c resources, h'))"

definition StartLogCapture :: "Worker \<Rightarrow> docker \<Rightarrow> captures \<Rightarrow> call list \<Rightarrow> captures \<times> call list" where
  "StartLogCapture cfg D c h =
     (if wk_LogsDirectory cfg = [] then (c, h) else resumeLogCapture cfg D (c\<lparr>cap_ctx := True\<rparr>) h)"

subsection \<open>Paths and reading\<close>

text \<open>\<^verbatim>\<open>filepath.Join\<close> on Unix: empty elements are skipped, the rest is joined and cleaned.\<close>

definition Join_path :: "string list \<Rightarrow> string" where
  "Join_path elems =
     (let es = filter (\<lambda>e. e \<noteq> []) elems in if es = [] then [] else Clean (Join es (CHR ''/'')))"

definition prepareLogPath :: "Worker \<Rightarrow> string \<Rightarrow> string \<Rightarrow> string" where
  "prepareLogPath cfg workstationID logName =
     Join_path [Join_path [wk_LogsDirectory cfg, workstationID], logName @ ''.log'']"

definition readLogTail :: "(string \<Rightarrow> bool) \<Rightarrow> directory \<Rightarrow> string \<Rightarrow> nat \<Rightarrow> string option" where
  "readLogTail fails dir path limit =
     (if fails path then None
      else case read_file dir path of
        None \<Rightarrow> None
      | Some content \<Rightarrow> Some (take limit (drop (length content - limit) content)))"

definition persistedLogs ::
  "(string \<Rightarrow> bool) \<Rightarrow> Worker \<Rightarrow> directory \<Rightarrow> string \<Rightarrow> string \<Rightarrow> nat \<Rightarrow> string option" where
  "persistedLogs fails cfg dir workstationID appID tail =
     (if wk_LogsDirectory cfg = [] \<or> \<not> resourceID workstationID \<or> \<not> logFileID appID then None
      else case readLogTail fails dir
          (Join_path [wk_LogsDirectory cfg, workstationID, appID @ ''.log'']) maxLogReadBytes of
        None \<Rightarrow> None
      | Some content \<Rightarrow>
          if content = [] then None
          else
            (let lines = Split content (CHR 0x0A) in
             Some (Join (if length lines > tail + 1 then drop (length lines - tail - 1) lines else lines)
               (CHR 0x0A))))"

subsection \<open>The rotating writer\<close>

text \<open>
  The writer's file handle is open or closed; while it is open it is at the end of the file at
  \<open>rw_path\<close>. A failing write may have written a first part, whose length the fault gives.
\<close>

record rotatingLogWriter =
  rw_path :: string
  rw_open :: bool
  rw_size :: nat
  rw_max :: nat

record log_faults =
  lf_open :: "string \<Rightarrow> bool"
  lf_close :: "string \<Rightarrow> bool"
  lf_rename :: "string \<Rightarrow> bool"
  lf_write :: "string \<Rightarrow> nat option"

datatype log_error = OpenFailed | CloseFailed | RenameFailed | FileClosed | ShortWrite

definition open_log ::
  "log_faults \<Rightarrow> bool \<Rightarrow> rotatingLogWriter \<Rightarrow> directory \<Rightarrow> log_error option \<times> rotatingLogWriter \<times> directory" where
  "open_log F trunc w dir =
     (if lf_open F (rw_path w) then (Some OpenFailed, w, dir)
      else
        (let content = (case read_file dir (rw_path w) of
            Some old \<Rightarrow> if trunc then [] else old | None \<Rightarrow> [])
         in (None, w\<lparr>rw_open := True, rw_size := length content\<rparr>,
             write_file (rw_path w) content dir)))"

definition newRotatingLogWriter ::
  "log_faults \<Rightarrow> string \<Rightarrow> nat \<Rightarrow> directory \<Rightarrow> (log_error, rotatingLogWriter) result \<times> directory" where
  "newRotatingLogWriter F path limit dir =
     (case open_log F False \<lparr>rw_path = path, rw_open = False, rw_size = 0, rw_max = limit\<rparr> dir of
        (Some e, w, dir') \<Rightarrow> (Inl e, dir')
      | (None, w, dir') \<Rightarrow> (Inr w, dir'))"

definition rotate_log ::
  "log_faults \<Rightarrow> rotatingLogWriter \<Rightarrow> directory \<Rightarrow> log_error option \<times> rotatingLogWriter \<times> directory" where
  "rotate_log F w dir =
     (if \<not> rw_open w then (Some FileClosed, w, dir)
      else
        (let w1 = w\<lparr>rw_open := False\<rparr> in
         if lf_close F (rw_path w) then (Some CloseFailed, w1, dir)
         else
           (let old = rw_path w @ ''.1''; dir1 = remove_file old dir in
            if lf_rename F (rw_path w) then (Some RenameFailed, w1, dir1)
            else open_log F True w1 (rename_file (rw_path w) old dir1))))"

definition write_log ::
  "log_faults \<Rightarrow> string \<Rightarrow> rotatingLogWriter \<Rightarrow> directory \<Rightarrow> (nat \<times> log_error option) \<times> rotatingLogWriter \<times> directory" where
  "write_log F data w dir =
     (if \<not> rw_open w then ((0, Some FileClosed), w, dir)
      else
        (let append = (\<lambda>part. write_file (rw_path w)
               (case read_file dir (rw_path w) of Some old \<Rightarrow> old @ part | None \<Rightarrow> part) dir)
         in case lf_write F data of
              Some k \<Rightarrow>
                (let part = take k data in
                 ((length part, Some ShortWrite), w\<lparr>rw_size := rw_size w + length part\<rparr>, append part))
            | None \<Rightarrow>
                ((length data, None), w\<lparr>rw_size := rw_size w + length data\<rparr>, append data)))"

definition Write ::
  "log_faults \<Rightarrow> string \<Rightarrow> rotatingLogWriter \<Rightarrow> directory \<Rightarrow> (nat \<times> log_error option) \<times> rotatingLogWriter \<times> directory" where
  "Write F data w dir =
     (if 0 < rw_size w \<and> rw_max w < rw_size w + length data then
        (case rotate_log F w dir of
           (Some e, w', dir') \<Rightarrow> ((0, Some e), w', dir')
         | (None, w', dir') \<Rightarrow> write_log F data w' dir')
      else write_log F data w dir)"

text \<open>A sequence of writes, whatever becomes of each.\<close>

primrec writes ::
  "log_faults \<Rightarrow> string list \<Rightarrow> rotatingLogWriter \<Rightarrow> directory \<Rightarrow> rotatingLogWriter \<times> directory" where
  "writes F [] w dir = (w, dir)"
| "writes F (d # ds) w dir = (case Write F d w dir of (_, w', dir') \<Rightarrow> writes F ds w' dir')"

subsection \<open>Paths\<close>

lemma Split_append: "Split (a @ c # b) c = Split a c @ Split b c"
proof (induction a)
  case (Cons d a)
  obtain w ws where "Split a c = w # ws" by (cases "Split a c") auto
  with Cons show ?case by auto
qed simp

lemma clean_step_normal: "normal_part c \<Longrightarrow> clean_step r out c = out @ [c]"
  by (simp add: clean_step_def normal_part_def)

lemma foldl_clean_normal:
  "list_all normal_part cs \<Longrightarrow> foldl (clean_step r) out cs = out @ cs"
  by (induction cs arbitrary: out) (auto simp: clean_step_def normal_part_def)

lemma Split_normal: "normal_part c \<Longrightarrow> Split c (CHR ''/'') = [c]"
  by (simp add: normal_part_def Split_single)

lemma IsAbs_append: "IsAbs p \<Longrightarrow> IsAbs (p @ q)"
  by (auto simp: IsAbs_def HasPrefix_iff)

lemma clean_parts_append:
  assumes "IsAbs p" and "normal_part c"
  shows "clean_parts (p @ CHR ''/'' # c) = clean_parts p @ [c]"
  using assms
  by (simp add: clean_parts_def Split_append Split_normal IsAbs_append clean_step_normal)

lemma Clean_abs: "IsAbs p \<Longrightarrow> Clean p = CHR ''/'' # Join (clean_parts p) (CHR ''/'')"
  by (simp add: Clean_def)

lemma IsAbs_Clean: "IsAbs p \<Longrightarrow> IsAbs (Clean p)"
  by (simp add: Clean_abs IsAbs_def)

lemma clean_parts_Clean: "IsAbs p \<Longrightarrow> clean_parts (Clean p) = clean_parts p"
proof -
  assume abs: "IsAbs p"
  let ?ps = "clean_parts p"
  have n: "list_all normal_part ?ps" using abs by (rule clean_parts_rooted)
  have s: "\<forall>w \<in> set ?ps. CHR ''/'' \<notin> set w" using n by (simp add: list_all_iff normal_part_def)
  have step: "clean_step True [] [] = []" by (simp add: clean_step_def)
  have "foldl (clean_step True) [] (Split (Join ?ps (CHR ''/'')) (CHR ''/'')) = ?ps"
  proof (cases "?ps = []")
    case False
    with s show ?thesis by (simp add: Split_Join foldl_clean_normal [OF n])
  qed (simp add: step)
  then show ?thesis
    unfolding clean_parts_def [of "Clean p"] using IsAbs_Clean [OF abs]
    by (simp add: Clean_abs [OF abs] step)
qed

lemma Join_path_two:
  "IsAbs p \<Longrightarrow> normal_part c \<Longrightarrow> Join_path [p, c] = Clean (p @ CHR ''/'' # c)"
  by (auto simp: Join_path_def normal_part_def IsAbs_def)

lemma Join_path_three:
  "IsAbs p \<Longrightarrow> normal_part c \<Longrightarrow> normal_part d \<Longrightarrow>
   Join_path [p, c, d] = Clean ((p @ CHR ''/'' # c) @ CHR ''/'' # d)"
  by (auto simp: Join_path_def normal_part_def IsAbs_def)

lemma id_chars_normal: "s \<noteq> [] \<Longrightarrow> (\<And>c. c \<in> set s \<Longrightarrow> id_char c) \<Longrightarrow> normal_part s"
proof -
  assume ne: "s \<noteq> []" and chars: "\<And>c. c \<in> set s \<Longrightarrow> id_char c"
  have "\<not> id_char (CHR ''/'')" "\<not> id_char (CHR ''.'')"
    by (simp_all add: id_char_def is_lower_def is_digit_def)
  with ne chars show ?thesis unfolding normal_part_def by fastforce
qed

lemma resourceID_normal: "resourceID s \<Longrightarrow> normal_part s"
  by (rule id_chars_normal [OF resourceID_ne resourceID_chars])

lemma log_name_normal: "logFileID s \<Longrightarrow> normal_part (s @ ''.log'')"
proof -
  assume s: "logFileID s"
  then have "CHR ''/'' \<notin> set s"
    using logFileID_chars [OF s, of "CHR ''/''"] by (auto simp: id_char_def is_lower_def is_digit_def)
  then show ?thesis by (auto simp: normal_part_def)
qed

definition log_path :: "Worker \<Rightarrow> string \<Rightarrow> string \<Rightarrow> string" where
  "log_path cfg workstationID logName =
     CHR ''/'' # Join (clean_parts (wk_LogsDirectory cfg) @ [workstationID, logName @ ''.log'']) (CHR ''/'')"

lemma log_path_eq:
  assumes "IsAbs (wk_LogsDirectory cfg)" and "resourceID w" and "logFileID n"
  shows "Join_path [wk_LogsDirectory cfg, w, n @ ''.log''] = log_path cfg w n"
    and "prepareLogPath cfg w n = log_path cfg w n"
proof -
  let ?d = "wk_LogsDirectory cfg" let ?f = "n @ ''.log''"
  note w = resourceID_normal [OF assms(2)] and f = log_name_normal [OF assms(3)]
  have a: "IsAbs (?d @ CHR ''/'' # w)" using assms(1) by (rule IsAbs_append)
  show "Join_path [?d, w, ?f] = log_path cfg w n"
    unfolding Join_path_three [OF assms(1) w f] Clean_abs [OF IsAbs_append [OF a]]
    unfolding clean_parts_append [OF a f] clean_parts_append [OF assms(1) w]
    by (simp add: log_path_def)
  have "prepareLogPath cfg w n = Clean (Clean (?d @ CHR ''/'' # w) @ CHR ''/'' # ?f)"
    unfolding prepareLogPath_def Join_path_two [OF assms(1) w]
    by (rule Join_path_two [OF IsAbs_Clean [OF a] f])
  then show "prepareLogPath cfg w n = log_path cfg w n"
    unfolding Clean_abs [OF IsAbs_append [OF IsAbs_Clean [OF a]]]
    unfolding clean_parts_append [OF IsAbs_Clean [OF a] f] clean_parts_Clean [OF a]
      clean_parts_append [OF assms(1) w]
    by (simp add: log_path_def)
qed

subsection \<open>The end of a log\<close>

lemma Join_append:
  "xs \<noteq> [] \<Longrightarrow> ys \<noteq> [] \<Longrightarrow> Join (xs @ ys) c = Join xs c @ c # Join ys c"
proof (induction xs)
  case (Cons x xs)
  then show ?case by (cases xs; cases ys) auto
qed simp

lemma Join_drop: "\<exists>a. Join ws c = a @ Join (drop k ws) c"
proof (cases "k < length ws")
  case True
  show ?thesis
  proof (cases "k = 0")
    case False
    then have "take k ws \<noteq> []" "drop k ws \<noteq> []" using True by auto
    from Join_append [OF this] show ?thesis by (metis append_Cons append_Nil append_assoc append_take_drop_id)
  qed simp
qed simp

lemma count_Join:
  "ws \<noteq> [] \<Longrightarrow> \<forall>w \<in> set ws. c \<notin> set w \<Longrightarrow> length (filter ((=) c) (Join ws c)) = length ws - 1"
proof (induction ws c rule: Join.induct)
  case (3 w v ws c)
  then have "filter ((=) c) w = []" by (auto simp: filter_empty_conv)
  with 3 show ?case by simp
qed (auto simp: filter_empty_conv)

lemma persistedLogs_Some:
  assumes "persistedLogs fails cfg dir w n tail = Some out"
  shows "resourceID w \<and> logFileID n \<and>
    (\<exists>content a. read_file dir (Join_path [wk_LogsDirectory cfg, w, n @ ''.log'']) = Some content
      \<and> content = a @ out) \<and> length out \<le> maxLogReadBytes
      \<and> length (filter ((=) (CHR 0x0A)) out) \<le> tail"
proof -
  from assms obtain content where g: "resourceID w" "logFileID n"
    and c: "read_file dir (Join_path [wk_LogsDirectory cfg, w, n @ ''.log'']) = Some content"
    by (auto simp: persistedLogs_def readLogTail_def split: if_splits option.splits)
  define t where "t = take maxLogReadBytes (drop (length content - maxLogReadBytes) content)"
  define ls where "ls = Split t (CHR 0x0A)"
  define k where "k = (if tail + 1 < length ls then length ls - tail - 1 else 0)"
  have out: "out = Join (drop k ls) (CHR 0x0A)"
    using assms c by (auto simp: persistedLogs_def readLogTail_def Let_def t_def ls_def k_def
        split: if_splits)
  have tt: "t = drop (length content - maxLogReadBytes) content" by (simp add: t_def)
  obtain a where a: "t = a @ out"
    using Join_drop [of ls "CHR 0x0A" k] unfolding out by (auto simp: ls_def Join_Split)
  have suffix: "content = (take (length content - maxLogReadBytes) content @ a) @ out"
    using a tt by (metis append_assoc append_take_drop_id)
  have "length out \<le> length t" using a by simp
  then have len: "length out \<le> maxLogReadBytes" by (simp add: t_def)
  have "0 < length ls" by (simp add: ls_def)
  then have ne: "drop k ls \<noteq> []" unfolding k_def by simp linarith
  have "\<forall>l \<in> set (drop k ls). CHR 0x0A \<notin> set l"
    by (auto simp: ls_def dest!: in_set_dropD dest: Split_no_sep)
  from count_Join [OF ne this] have "length (filter ((=) (CHR 0x0A)) out) \<le> tail"
    unfolding out by (auto simp: k_def)
  with g c suffix len show ?thesis by blast
qed

subsection \<open>The writer's invariant\<close>

text \<open>What is at a path; nothing is the empty text.\<close>

definition content :: "directory \<Rightarrow> string \<Rightarrow> string" where
  "content dir p = (case read_file dir p of Some c \<Rightarrow> c | None \<Rightarrow> [])"

text \<open>
  The recorded size is the size of the open file, and neither the current nor the rotated file is
  larger than the limit.
\<close>

definition writer_ok :: "rotatingLogWriter \<Rightarrow> directory \<Rightarrow> bool" where
  "writer_ok w dir =
     ((rw_open w \<longrightarrow> read_file dir (rw_path w) \<noteq> None \<and> length (content dir (rw_path w)) = rw_size w)
      \<and> length (content dir (rw_path w)) \<le> rw_max w
      \<and> length (content dir (rw_path w @ ''.1'')) \<le> rw_max w)"

lemma content_simps [simp]:
  "content (write_file n d dir) m = (if m = n then d else content dir m)"
  "content (remove_file n dir) m = (if m = n then [] else content dir m)"
  by (simp_all add: content_def)

lemma content_rename:
  "a \<noteq> b \<Longrightarrow> read_file dir a \<noteq> None \<Longrightarrow>
   content (rename_file a b dir) m = (if m = b then content dir a else if m = a then [] else content dir m)"
  by (auto simp: rename_file_def content_def split: option.splits)

lemma read_rename_self: "a \<noteq> b \<Longrightarrow> read_file (rename_file a b dir) a = None"
  by (auto simp: rename_file_def split: option.splits)

lemma open_log_trunc:
  "open_log F True w dir = (r, w', dir') \<Longrightarrow>
   rw_path w' = rw_path w \<and> rw_max w' = rw_max w \<and>
   (if lf_open F (rw_path w) then r = Some OpenFailed \<and> w' = w \<and> dir' = dir
    else r = None \<and> rw_open w' \<and> rw_size w' = 0 \<and> dir' = write_file (rw_path w) [] dir)"
  by (auto simp: open_log_def Let_def split: option.splits if_splits)

lemma rotate_ok:
  assumes "writer_ok w dir" and "rotate_log F w dir = (r, w', dir')"
  shows "writer_ok w' dir' \<and> rw_path w' = rw_path w \<and> rw_max w' = rw_max w
    \<and> (r = None \<longrightarrow> rw_size w' = 0)"
proof (cases "rw_open w \<and> \<not> lf_close F (rw_path w) \<and> \<not> lf_rename F (rw_path w)")
  case True
  let ?old = "rw_path w @ ''.1''"
  let ?dir = "rename_file (rw_path w) ?old (remove_file ?old dir)"
  have "open_log F True (w\<lparr>rw_open := False\<rparr>) ?dir = (r, w', dir')"
    using True assms(2) by (simp add: rotate_log_def Let_def)
  note o = open_log_trunc [OF this]
  have c: "content ?dir m = (if m = ?old then content dir (rw_path w)
      else if m = rw_path w then [] else content dir m)" for m
    using True assms(1) by (subst content_rename) (auto simp: writer_ok_def)
  from o c assms(1) show ?thesis
    by (auto simp: writer_ok_def split: if_splits)
next
  case False
  with assms show ?thesis by (auto simp: rotate_log_def writer_ok_def Let_def split: if_splits)
qed

lemma write_log_ok:
  assumes "writer_ok w dir" and "rw_size w + length d \<le> rw_max w"
    and "write_log F d w dir = (r, w', dir')"
  shows "writer_ok w' dir' \<and> rw_path w' = rw_path w \<and> rw_max w' = rw_max w"
  using assms
  by (auto simp: write_log_def writer_ok_def content_def Let_def split: if_splits option.splits)

lemma Write_ok:
  assumes ok: "writer_ok w dir" and small: "length d \<le> rw_max w" and W: "Write F d w dir = (r, w', dir')"
  shows "writer_ok w' dir' \<and> rw_path w' = rw_path w \<and> rw_max w' = rw_max w"
proof (cases "0 < rw_size w \<and> rw_max w < rw_size w + length d")
  case True
  obtain e w1 dir1 where rot: "rotate_log F w dir = (e, w1, dir1)" by (metis prod_cases3)
  note r = rotate_ok [OF ok rot]
  show ?thesis
  proof (cases e)
    case None
    then have "write_log F d w1 dir1 = (r, w', dir')" using W True rot by (simp add: Write_def)
    from write_log_ok [OF _ _ this] r None small show ?thesis by auto
  next
    case (Some x)
    with W True rot r show ?thesis by (auto simp: Write_def)
  qed
next
  case False
  from W have "write_log F d w dir = (r, w', dir')" unfolding Write_def if_not_P [OF False] .
  moreover have "rw_size w + length d \<le> rw_max w" using False small by auto
  ultimately show ?thesis using write_log_ok ok by blast
qed

lemma writes_ok:
  assumes "writer_ok w dir" and "\<forall>d \<in> set ds. length d \<le> rw_max w" and "writes F ds w dir = (w', dir')"
  shows "writer_ok w' dir' \<and> rw_path w' = rw_path w \<and> rw_max w' = rw_max w"
  using assms
proof (induction ds arbitrary: w dir)
  case (Cons d ds)
  obtain r w1 dir1 where W: "Write F d w dir = (r, w1, dir1)" by (metis prod_cases3)
  from Cons.prems(1,2) W have ok: "writer_ok w1 dir1 \<and> rw_path w1 = rw_path w \<and> rw_max w1 = rw_max w"
    by (intro Write_ok) auto
  from Cons.prems(3) W have "writes F ds w1 dir1 = (w', dir')" by simp
  with Cons.IH [of w1 dir1] ok Cons.prems(2) show ?case by auto
qed simp

definition faultless :: "log_faults \<Rightarrow> bool" where
  "faultless F = ((\<forall>p. \<not> lf_open F p \<and> \<not> lf_close F p \<and> \<not> lf_rename F p) \<and> (\<forall>d. lf_write F d = None))"

lemma faultless_rotate:
  assumes "faultless F" and ok: "writer_ok w dir" and "rw_open w"
  shows "\<exists>w' dir'. rotate_log F w dir = (None, w', dir') \<and> rw_open w' \<and> rw_path w' = rw_path w
    \<and> content dir' (rw_path w) = [] \<and> content dir' (rw_path w @ ''.1'') = content dir (rw_path w)"
proof -
  let ?old = "rw_path w @ ''.1''"
  let ?dir = "rename_file (rw_path w) ?old (remove_file ?old dir)"
  obtain e w' dir' where o: "open_log F True (w\<lparr>rw_open := False\<rparr>) ?dir = (e, w', dir')"
    by (metis prod_cases3)
  have rot: "rotate_log F w dir = (e, w', dir')"
    using assms(1,3) o by (simp add: rotate_log_def faultless_def Let_def)
  have c: "content ?dir ?old = content dir (rw_path w)"
    using ok assms(3) by (subst content_rename) (auto simp: writer_ok_def)
  from open_log_trunc [OF o] assms(1) c rot show ?thesis by (auto simp: faultless_def)
qed

lemma faultless_Write:
  assumes "faultless F" and ok: "writer_ok w dir" and "rw_open w" and "Write F d w dir = (r, w', dir')"
  shows "rw_open w' \<and> rw_path w' = rw_path w \<and>
    (\<exists>dropped. content dir (rw_path w @ ''.1'') @ content dir (rw_path w) @ d
       = dropped @ content dir' (rw_path w @ ''.1'') @ content dir' (rw_path w))"
proof (cases "0 < rw_size w \<and> rw_max w < rw_size w + length d")
  case True
  from faultless_rotate [OF assms(1-3)] obtain w1 dir1 where
    rot: "rotate_log F w dir = (None, w1, dir1)" "rw_open w1" "rw_path w1 = rw_path w"
      "content dir1 (rw_path w) = []" "content dir1 (rw_path w @ ''.1'') = content dir (rw_path w)"
    by blast
  with True assms(4) have "write_log F d w1 dir1 = (r, w', dir')" by (simp add: Write_def)
  with rot assms(1) have "rw_open w' \<and> rw_path w' = rw_path w \<and> content dir' (rw_path w) = d
      \<and> content dir' (rw_path w @ ''.1'') = content dir (rw_path w)"
    by (auto simp: write_log_def faultless_def Let_def content_def split: option.splits)
  then show ?thesis by auto
next
  case False
  with assms show ?thesis
    by (auto simp: Write_def write_log_def faultless_def Let_def content_def split: option.splits)
qed

lemma faultless_writes:
  assumes F: "faultless F" and "writer_ok w dir" and "rw_open w"
    and "\<forall>d \<in> set ds. length d \<le> rw_max w" and "writes F ds w dir = (w', dir')"
  shows "\<exists>dropped. content dir (rw_path w @ ''.1'') @ content dir (rw_path w) @ concat ds
     = dropped @ content dir' (rw_path w @ ''.1'') @ content dir' (rw_path w)"
  using assms(2-)
proof (induction ds arbitrary: w dir)
  case Nil
  then show ?case by auto
next
  case (Cons d ds)
  obtain r w1 dir1 where W: "Write F d w dir = (r, w1, dir1)" by (metis prod_cases3)
  have small: "length d \<le> rw_max w" using Cons.prems by simp
  note ok = Write_ok [OF Cons.prems(1) small W]
  from faultless_Write [OF F Cons.prems(1,2) W] obtain x where o: "rw_open w1"
    and x: "content dir (rw_path w @ ''.1'') @ content dir (rw_path w) @ d
       = x @ content dir1 (rw_path w @ ''.1'') @ content dir1 (rw_path w)" by blast
  have "\<exists>y. content dir1 (rw_path w1 @ ''.1'') @ content dir1 (rw_path w1) @ concat ds
     = y @ content dir' (rw_path w1 @ ''.1'') @ content dir' (rw_path w1)"
    using Cons.prems W ok o by (intro Cons.IH) auto
  then obtain y where y: "content dir1 (rw_path w @ ''.1'') @ content dir1 (rw_path w) @ concat ds
     = y @ content dir' (rw_path w @ ''.1'') @ content dir' (rw_path w)" using ok by auto
  have "content dir (rw_path w @ ''.1'') @ content dir (rw_path w) @ concat (d # ds)
     = (x @ y) @ content dir' (rw_path w @ ''.1'') @ content dir' (rw_path w)"
    using x y by (metis append_assoc concat.simps(2))
  then show ?case by blast
qed

subsection \<open>Properties\<close>

lemma new_writer_ok:
  assumes "newRotatingLogWriter F path limit dir = (Inr w, dir')"
    and "length (content dir path) \<le> limit" and "length (content dir (path @ ''.1'')) \<le> limit"
  shows "writer_ok w dir' \<and> rw_open w \<and> rw_path w = path \<and> rw_max w = limit
    \<and> content dir' path = content dir path \<and> content dir' (path @ ''.1'') = content dir (path @ ''.1'')"
  using assms
  by (auto simp: newRotatingLogWriter_def open_log_def writer_ok_def Let_def content_def
      split: if_splits option.splits)


definition no_log_faults :: log_faults where
  "no_log_faults = \<lparr>lf_open = \<lambda>_. False, lf_close = \<lambda>_. False, lf_rename = \<lambda>_. False, lf_write = \<lambda>_. None\<rparr>"


text \<open>
  C32: log requests stay inside the log directory and are bounded. A persisted log is served only for
  a well-formed workstation id and log name; the file read is the one the collector of that
  workstation and name writes, two components below the log directory; the text is a final part of
  that file with at most two megabytes and at most the requested number of line ends.
\<close>

theorem persisted_log_confined:
  assumes "IsAbs (wk_LogsDirectory cfg)" and "persistedLogs fails cfg dir w n tail = Some out"
  shows "resourceID w \<and> logFileID n \<and> prepareLogPath cfg w n = log_path cfg w n
    \<and> (\<exists>content a. read_file dir (log_path cfg w n) = Some content \<and> content = a @ out)
    \<and> length out \<le> maxLogReadBytes \<and> length (filter ((=) (CHR 0x0A)) out) \<le> tail"
proof -
  note p = persistedLogs_Some [OF assms(2)]
  then have "resourceID w" "logFileID n" by simp_all
  from log_path_eq [OF assms(1) this] p show ?thesis by simp
qed

definition sample_log_config :: Worker where
  "sample_log_config =
     \<lparr>wk_Listen = [], wk_Token = [], wk_DockerSocket = [], wk_ManagementNetwork = [],
      wk_AllowedImages = [], wk_WSLANImage = [], wk_ApprovalsPath = [],
      wk_LogsDirectory = ''/var//logs/'', wk_LogsUID = - 1, wk_LogsGID = - 1\<rparr>"

theorem persisted_log_confined_witness:
  "prepareLogPath sample_log_config ''ws-abcdef'' ''files'' = ''/var/logs/ws-abcdef/files.log''
   \<and> length (filter ((=) (CHR 0x0A)) [CHR ''b'', CHR 0x0A, CHR ''c'', CHR 0x0A]) \<le> 2"
proof -
  let ?dir = "[(''/var/logs/ws-abcdef/files.log'', [CHR ''a'', CHR 0x0A, CHR ''b'', CHR 0x0A, CHR ''c'', CHR 0x0A])]"
  have "IsAbs (wk_LogsDirectory sample_log_config)" by code_simp
  moreover have "persistedLogs (\<lambda>_. False) sample_log_config ?dir ''ws-abcdef'' ''files'' 2 =
      Some [CHR ''b'', CHR 0x0A, CHR ''c'', CHR 0x0A]" by code_simp
  moreover have "log_path sample_log_config ''ws-abcdef'' ''files'' = ''/var/logs/ws-abcdef/files.log''"
    by code_simp
  ultimately show ?thesis using persisted_log_confined [of sample_log_config] by fastforce
qed

end
