(* ===== verification/Worker_Approvals.thy ===== *)
theory Worker_Approvals
  imports Worker_Logs
begin

text \<open>
  The worker's record of approved app specifications,
  \<^verbatim>\<open>internal/dockerworker/approvals.go\<close>. The digest of a specification is the SHA-256
  of its JSON encoding and the stored file is JSON: both are arguments, the digest \<open>None\<close> where
  encoding fails. A store is replaced on disk by a rename, so a failing step leaves the file as it
  was; \<open>fault\<close> says whether one of the steps before the rename, or the rename, fails.
\<close>

record AppApprovalStatus =
  aa_ID :: string
  aa_Version :: string
  aa_Image :: string
  aa_ManifestSHA256 :: string
  aa_Specification :: string
  aa_ApprovedAt :: int

type_synonym records = "(string \<times> AppApprovalStatus) list"

record codec =
  co_digest :: "AppSpec \<Rightarrow> string option"
  co_encode :: "records \<Rightarrow> string option"
  co_decode :: "string \<Rightarrow> records option"

record approvalStore =
  ap_path :: string
  ap_records :: records

datatype approval_error =
  PathRequired | DirectoryFailed | ReadFailed | DecodeFailed | DigestFailed | LimitReached | PersistFailed

definition persistLocked :: "codec \<Rightarrow> bool \<Rightarrow> approvalStore \<Rightarrow> directory \<Rightarrow> approval_error check \<times> directory" where
  "persistLocked C fault s dir =
     (case co_encode C (ap_records s) of
        None \<Rightarrow> (Some PersistFailed, dir)
      | Some data \<Rightarrow>
          if fault then (Some PersistFailed, dir)
          else (None, write_file (ap_path s) (data @ [CHR 0x0A]) dir))"

definition newApprovalStore ::
  "codec \<Rightarrow> bool \<Rightarrow> bool \<Rightarrow> bool \<Rightarrow> string \<Rightarrow> directory \<Rightarrow> (approval_error, approvalStore) result \<times> directory" where
  "newApprovalStore C mkdir_fails read_err fault path dir =
     (if path = [] then (Inl PathRequired, dir)
      else if mkdir_fails then (Inl DirectoryFailed, dir)
      else
        (let s = \<lparr>ap_path = path, ap_records = []\<rparr> in
         if read_err then (Inl ReadFailed, dir)
         else case read_file dir path of
           None \<Rightarrow>
             (case persistLocked C fault s dir of
                (Some e, dir') \<Rightarrow> (Inl e, dir')
              | (None, dir') \<Rightarrow> (Inr s, dir'))
         | Some data \<Rightarrow>
             (case co_decode C data of
                None \<Rightarrow> (Inl DecodeFailed, dir)
              | Some records \<Rightarrow> (Inr (s\<lparr>ap_records := records\<rparr>), dir))))"

definition approvalKey :: "AppSpec \<Rightarrow> string" where
  "approvalKey app = as_ID app @ [CHR 0x00] @ as_Version app @ [CHR 0x00] @ as_ManifestSHA256 app"

definition approve ::
  "codec \<Rightarrow> bool \<Rightarrow> int \<Rightarrow> AppSpec \<Rightarrow> approvalStore \<Rightarrow> directory \<Rightarrow>
   (approval_error, AppApprovalStatus) result \<times> approvalStore \<times> directory" where
  "approve C fault now app s dir =
     (case co_digest C app of
        None \<Rightarrow> (Inl DigestFailed, s, dir)
      | Some specification \<Rightarrow>
          (let status = \<lparr>aa_ID = as_ID app, aa_Version = as_Version app, aa_Image = as_Image app,
                 aa_ManifestSHA256 = as_ManifestSHA256 app, aa_Specification = specification,
                 aa_ApprovedAt = now\<rparr>
           in if map_of (ap_records s) (approvalKey app) = None \<and> 10000 \<le> length (ap_records s)
              then (Inl LimitReached, s, dir)
              else
                (let s1 = s\<lparr>ap_records := AList.update (approvalKey app) status (ap_records s)\<rparr> in
                 case persistLocked C fault s1 dir of
                   (Some e, dir') \<Rightarrow>
                     (Inl e, s1\<lparr>ap_records := AList.delete (approvalKey app) (ap_records s1)\<rparr>, dir')
                 | (None, dir') \<Rightarrow> (Inr status, s1, dir'))))"

definition app_allowed :: "codec \<Rightarrow> approvalStore \<Rightarrow> AppSpec \<Rightarrow> bool" where
  "app_allowed C s app =
     (case co_digest C app of
        None \<Rightarrow> False
      | Some specification \<Rightarrow>
          (case map_of (ap_records s) (approvalKey app) of
             None \<Rightarrow> False
           | Some status \<Rightarrow>
               aa_ID status = as_ID app \<and> aa_Version status = as_Version app
               \<and> aa_Image status = as_Image app \<and> aa_ManifestSHA256 status = as_ManifestSHA256 app
               \<and> aa_Specification status = specification))"

subsection \<open>Sequences of approvals\<close>

record approval_request =
  ar_fault :: bool
  ar_now :: int
  ar_app :: AppSpec

primrec approvals :: "codec \<Rightarrow> approval_request list \<Rightarrow> approvalStore \<Rightarrow> directory \<Rightarrow> approvalStore \<times> directory" where
  "approvals C [] s dir = (s, dir)"
| "approvals C (r # rs) s dir =
     (case approve C (ar_fault r) (ar_now r) (ar_app r) s dir of (_, s', dir') \<Rightarrow> approvals C rs s' dir')"

text \<open>Every stored status was made from an approved specification.\<close>

definition backed :: "codec \<Rightarrow> AppSpec set \<Rightarrow> approvalStore \<Rightarrow> bool" where
  "backed C apps s =
     (\<forall>k status. map_of (ap_records s) k = Some status \<longrightarrow>
        (\<exists>app \<in> apps. aa_ID status = as_ID app \<and> aa_Version status = as_Version app
           \<and> aa_Image status = as_Image app \<and> aa_ManifestSHA256 status = as_ManifestSHA256 app
           \<and> co_digest C app = Some (aa_Specification status)))"

definition store_ok :: "approvalStore \<Rightarrow> bool" where
  "store_ok s = (distinct (map fst (ap_records s)) \<and> length (ap_records s) \<le> 10000)"

lemma approve_path: "approve C f t app s dir = (r, s', dir') \<Longrightarrow> ap_path s' = ap_path s"
  by (auto simp: approve_def Let_def split: option.splits if_splits prod.splits)

lemma backed_insert:
  assumes "backed C apps s" and "co_digest C app = Some d"
    and "s' = s\<lparr>ap_records := AList.update k \<lparr>aa_ID = as_ID app, aa_Version = as_Version app,
      aa_Image = as_Image app, aa_ManifestSHA256 = as_ManifestSHA256 app, aa_Specification = d,
      aa_ApprovedAt = now\<rparr> (ap_records s)\<rparr>"
  shows "backed C (insert app apps) s'"
  using assms unfolding backed_def by (auto simp: update_conv' split: if_splits)

lemma backed_delete:
  "backed C apps s \<Longrightarrow> backed C apps (s\<lparr>ap_records := AList.delete k (ap_records s)\<rparr>)"
  unfolding backed_def by (auto simp: delete_conv' split: if_splits)

lemma backed_mono: "backed C A s \<Longrightarrow> A \<subseteq> B \<Longrightarrow> backed C B s"
  unfolding backed_def by blast

lemma approve_backed:
  assumes "backed C apps s" and "approve C f t app s dir = (r, s', dir')"
  shows "backed C (insert app apps) s'"
proof (cases "co_digest C app")
  case None
  with assms show ?thesis by (auto simp: approve_def intro: backed_mono)
next
  case (Some d)
  let ?s = "s\<lparr>ap_records := AList.update (approvalKey app) \<lparr>aa_ID = as_ID app, aa_Version = as_Version app,
      aa_Image = as_Image app, aa_ManifestSHA256 = as_ManifestSHA256 app, aa_Specification = d,
      aa_ApprovedAt = t\<rparr> (ap_records s)\<rparr>"
  have b: "backed C (insert app apps) ?s" by (rule backed_insert [OF assms(1) Some refl])
  have "s' \<in> {s, ?s, ?s\<lparr>ap_records := AList.delete (approvalKey app) (ap_records ?s)\<rparr>}"
    using assms(2) Some by (auto simp: approve_def Let_def split: if_splits prod.splits option.splits)
  with b backed_delete [OF b] backed_mono [OF assms(1)] show ?thesis by blast
qed

lemma length_delete: "length (AList.delete k xs) \<le> length xs"
  by (simp add: AList.delete_eq)

lemma length_update: "length (AList.update k v xs) \<le> (if map_of xs k = None then Suc (length xs) else length xs)"
  by (induction xs) auto

lemma approve_ok:
  assumes "store_ok s" and "approve C f t app s dir = (r, s', dir')"
  shows "store_ok s'"
proof (cases "co_digest C app")
  case None
  with assms show ?thesis by (simp add: approve_def)
next
  case (Some d)
  define status where "status = \<lparr>aa_ID = as_ID app, aa_Version = as_Version app,
      aa_Image = as_Image app, aa_ManifestSHA256 = as_ManifestSHA256 app, aa_Specification = d,
      aa_ApprovedAt = t\<rparr>"
  let ?u = "AList.update (approvalKey app) status (ap_records s)"
  show ?thesis
  proof (cases "map_of (ap_records s) (approvalKey app) = None \<and> 10000 \<le> length (ap_records s)")
    case True
    with assms Some show ?thesis by (simp add: approve_def Let_def)
  next
    case False
    have "length ?u \<le> 10000"
      using assms(1) False length_update [of "approvalKey app" status "ap_records s"]
      by (auto simp: store_ok_def split: if_splits)
    moreover have "distinct (map fst ?u)"
      using assms(1) by (simp add: store_ok_def distinct_update)
    moreover have "s' = s\<lparr>ap_records := ?u\<rparr> \<or> s' = s\<lparr>ap_records := AList.delete (approvalKey app) ?u\<rparr>"
      using assms(2) Some False
      by (auto simp: approve_def Let_def status_def split: prod.splits option.splits)
    ultimately show ?thesis
      using length_delete [of "approvalKey app" ?u] by (auto simp: store_ok_def distinct_delete)
  qed
qed

lemma approvals_backed:
  "backed C apps s \<Longrightarrow> approvals C rs s dir = (s', dir') \<Longrightarrow> backed C (ar_app ` set rs \<union> apps) s'"
proof (induction rs arbitrary: apps s dir)
  case (Cons r rs)
  obtain x s1 dir1 where 1: "approve C (ar_fault r) (ar_now r) (ar_app r) s dir = (x, s1, dir1)"
    by (metis prod_cases3)
  from Cons.IH [OF approve_backed [OF Cons.prems(1) 1]] 1 Cons.prems(2) show ?case by simp
qed simp

lemma approvals_ok: "store_ok s \<Longrightarrow> approvals C rs s dir = (s', dir') \<Longrightarrow> store_ok s'"
proof (induction rs arbitrary: s dir)
  case (Cons r rs)
  obtain x s1 dir1 where 1: "approve C (ar_fault r) (ar_now r) (ar_app r) s dir = (x, s1, dir1)"
    by (metis prod_cases3)
  from Cons.IH [OF approve_ok [OF Cons.prems(1) 1]] 1 Cons.prems(2) show ?case by simp
qed simp

subsection \<open>Properties\<close>

definition codec_law :: "codec \<Rightarrow> bool" where
  "codec_law C = (\<forall>records data. co_encode C records = Some data \<longrightarrow>
     co_decode C (data @ [CHR 0x0A]) = Some records)"

lemma approve_Inr:
  assumes "approve C f t app s dir = (Inr st, s', dir')"
  shows "app_allowed C s' app \<and> (\<exists>data. co_encode C (ap_records s') = Some data
    \<and> read_file dir' (ap_path s) = Some (data @ [CHR 0x0A]))"
proof -
  from assms obtain d where d: "co_digest C app = Some d"
    and s': "s' = s\<lparr>ap_records := AList.update (approvalKey app) \<lparr>aa_ID = as_ID app,
      aa_Version = as_Version app, aa_Image = as_Image app, aa_ManifestSHA256 = as_ManifestSHA256 app,
      aa_Specification = d, aa_ApprovedAt = t\<rparr> (ap_records s)\<rparr>"
    and p: "persistLocked C f s' dir = (None, dir')"
    by (auto simp: approve_def Let_def split: option.splits if_splits prod.splits)
  have "app_allowed C s' app" using d s' by (simp add: app_allowed_def update_conv')
  moreover have "\<exists>data. co_encode C (ap_records s') = Some data
      \<and> read_file dir' (ap_path s) = Some (data @ [CHR 0x0A])"
    using p s' by (auto simp: persistLocked_def split: option.splits if_splits)
  ultimately show ?thesis by blast
qed

lemma allowed_backed:
  assumes "backed C apps s" and "app_allowed C s a"
  shows "\<exists>b \<in> apps. as_ID b = as_ID a \<and> as_Version b = as_Version a \<and> as_Image b = as_Image a
    \<and> as_ManifestSHA256 b = as_ManifestSHA256 a \<and> co_digest C b = co_digest C a \<and> co_digest C a \<noteq> None"
proof -
  from assms(2) obtain status where st: "map_of (ap_records s) (approvalKey a) = Some status"
    and eqs: "aa_ID status = as_ID a" "aa_Version status = as_Version a" "aa_Image status = as_Image a"
      "aa_ManifestSHA256 status = as_ManifestSHA256 a" "co_digest C a = Some (aa_Specification status)"
    by (auto simp: app_allowed_def split: option.splits)
  from assms(1) st obtain b where "b \<in> apps" "aa_ID status = as_ID b" "aa_Version status = as_Version b"
      "aa_Image status = as_Image b" "aa_ManifestSHA256 status = as_ManifestSHA256 b"
      "co_digest C b = Some (aa_Specification status)"
    unfolding backed_def by blast
  with eqs show ?thesis by (intro bexI [of _ b]) simp_all
qed

lemma approvals_path: "approvals C rs s dir = (s', dir') \<Longrightarrow> ap_path s' = ap_path s"
proof (induction rs arbitrary: s dir)
  case (Cons r rs)
  obtain x sa da where "approve C (ar_fault r) (ar_now r) (ar_app r) s dir = (x, sa, da)"
    by (metis prod_cases3)
  with Cons approve_path show ?case by fastforce
qed simp


definition sample_app :: AppSpec where
  "sample_app =
     \<lparr>as_ID = ''files'', as_Version = ''1.0.0'', as_ManifestSHA256 = replicate 64 (CHR ''a''),
      as_Image = ''example.org/files:1.0.0'', as_Command = [], as_Environment = [(''TZ'', ''UTC'')],
      as_InternalPort = 8080, as_MemoryMB = 256, as_CPU = Fin (1 / 2), as_ShmSizeMB = 64,
      as_Capabilities = [],
      as_Storage = [\<lparr>ss_Type = ''workspace'', ss_Target = ''/workspace'', ss_OwnerUID = 1000, ss_OwnerGID = 1000\<rparr>,
        \<lparr>ss_Type = ''app-data'', ss_Target = ''/data'', ss_OwnerUID = 0, ss_OwnerGID = 0\<rparr>],
      as_HealthPath = ''/healthz'', as_HealthTimeoutSeconds = 5\<rparr>"

definition sample_records :: records where
  "sample_records = [(approvalKey sample_app, \<lparr>aa_ID = ''files'', aa_Version = ''1.0.0'',
     aa_Image = ''example.org/files:1.0.0'', aa_ManifestSHA256 = replicate 64 (CHR ''a''),
     aa_Specification = ''files'', aa_ApprovedAt = 7\<rparr>)]"

definition sample_codec :: codec where
  "sample_codec =
     \<lparr>co_digest = (\<lambda>app. Some (as_ID app)),
      co_encode = (\<lambda>r. if r = sample_records then Some ''json'' else None),
      co_decode = (\<lambda>d. if d = ''json'' @ [CHR 0x0A] then Some sample_records else None)\<rparr>"


end
