(* ===== verification/Sharing.thy ===== *)
theory Sharing
  imports Go_Std
begin

text \<open>
  Share permissions, \<^verbatim>\<open>internal/sharing/permissions.go\<close>: the vocabulary, validation of
  submitted values, the stored JSON form and the membership test. The locale
  \<open>validated_vocabulary\<close> is the contract of a function that turns submitted strings into a
  duplicate-free list of known values; permissions and egress grants both implement it.
\<close>

datatype Permission =
  OpenApps | TerminalControl | UploadFiles | DownloadFiles | RestartWorkstation | StopWorkstation

fun Permission_str :: "Permission \<Rightarrow> string" where
  "Permission_str OpenApps = ''open-apps''"
| "Permission_str TerminalControl = ''terminal-control''"
| "Permission_str UploadFiles = ''upload-files''"
| "Permission_str DownloadFiles = ''download-files''"
| "Permission_str RestartWorkstation = ''restart-workstation''"
| "Permission_str StopWorkstation = ''stop-workstation''"

definition all_permissions :: "Permission list" where
  "all_permissions =
     [OpenApps, TerminalControl, UploadFiles, DownloadFiles, RestartWorkstation, StopWorkstation]"

text \<open>The conversion \<^verbatim>\<open>Permission(raw)\<close> with the test \<^verbatim>\<open>allowed[permission]\<close>.\<close>

definition allowed :: "string \<Rightarrow> Permission option" where
  "allowed raw = find (\<lambda>p. Permission_str p = raw) all_permissions"

datatype share_error = UnknownPermission string | NoPermission | BadEncoding

lemma Permission_str_inj [simp]: "Permission_str p = Permission_str q \<longleftrightarrow> p = q"
  by (cases p; cases q) simp_all

lemma Permission_in_all: "p \<in> set all_permissions"
  by (cases p) (simp_all add: all_permissions_def)

lemma allowed_str [simp]: "allowed (Permission_str p) = Some p"
  using find_Some_ex [OF Permission_in_all, of "\<lambda>x. Permission_str x = Permission_str p" p]
  by (auto simp: allowed_def dest: find_SomeD)

lemma allowed_Some: "allowed raw = Some p \<longleftrightarrow> raw = Permission_str p"
proof
  show "allowed raw = Some p \<Longrightarrow> raw = Permission_str p"
    by (auto simp: allowed_def dest: find_SomeD)
qed simp

text \<open>Permissions are ordered as their strings are, which is how Go compares them.\<close>

instantiation Permission :: linorder
begin

definition less_eq_Permission :: "Permission \<Rightarrow> Permission \<Rightarrow> bool" where
  "less_eq_Permission p q = (Permission_str p \<le> Permission_str q)"

definition less_Permission :: "Permission \<Rightarrow> Permission \<Rightarrow> bool" where
  "less_Permission p q = (Permission_str p < Permission_str q)"

instance
proof
  fix p q r :: Permission
  show "(p < q) = (p \<le> q \<and> \<not> q \<le> p)"
    unfolding less_eq_Permission_def less_Permission_def by (rule less_le_not_le)
  show "p \<le> p" by (simp add: less_eq_Permission_def)
  show "p \<le> q \<Longrightarrow> q \<le> r \<Longrightarrow> p \<le> r" by (simp add: less_eq_Permission_def)
  show "p \<le> q \<Longrightarrow> q \<le> p \<Longrightarrow> p = q" by (simp add: less_eq_Permission_def)
  show "p \<le> q \<or> q \<le> p" by (auto simp: less_eq_Permission_def)
qed

end

subsection \<open>Operations\<close>

primrec Validate_loop ::
  "Permission list \<Rightarrow> string list \<Rightarrow> (share_error, Permission list) result" where
  "Validate_loop result [] = Inr result"
| "Validate_loop result (raw # rest) =
     (case allowed raw of
        None \<Rightarrow> Inl (UnknownPermission raw)
      | Some permission \<Rightarrow>
          if permission \<in> set result then Validate_loop result rest
          else Validate_loop (result @ [permission]) rest)"

definition Validate :: "string list \<Rightarrow> (share_error, Permission list) result" where
  "Validate vals =
     (case Validate_loop [] vals of
        Inl e \<Rightarrow> Inl e
      | Inr result \<Rightarrow> if result = [] then Inl NoPermission else Inr (sort result))"

definition Strings :: "Permission list \<Rightarrow> string list" where
  "Strings vals = map Permission_str vals"

definition Has :: "Permission list \<Rightarrow> Permission \<Rightarrow> bool" where
  "Has vals wanted = list_ex (\<lambda>value. value = wanted) vals"

text \<open>
  \<^verbatim>\<open>json.Marshal\<close> of a list of strings none of whose bytes is escaped, which holds of
  every permission.
\<close>

definition json_quote :: "string \<Rightarrow> string" where
  "json_quote s = CHR 0x22 # s @ [CHR 0x22]"

definition marshal_strings :: "string list \<Rightarrow> string" where
  "marshal_strings xs = CHR 0x5B # Join (map json_quote xs) (CHR 0x2C) @ [CHR 0x5D]"

definition Encode :: "Permission list \<Rightarrow> string" where
  "Encode vals = marshal_strings (Strings vals)"

text \<open>
  \<^verbatim>\<open>json.Unmarshal\<close> into a list of strings is the argument \<open>unmarshal\<close>; the program
  relies on it to read back what \<^verbatim>\<open>json.Marshal\<close> wrote.
\<close>

definition Decode ::
  "(string \<Rightarrow> string list option) \<Rightarrow> string \<Rightarrow> (share_error, Permission list) result" where
  "Decode unmarshal encoded =
     (case unmarshal encoded of None \<Rightarrow> Inl BadEncoding | Some vals \<Rightarrow> Validate vals)"

definition plain_json :: "string \<Rightarrow> bool" where
  "plain_json s = list_all (\<lambda>c. is_lower c \<or> c = CHR ''-'') s"

definition unmarshal_law :: "(string \<Rightarrow> string list option) \<Rightarrow> bool" where
  "unmarshal_law unmarshal =
     (\<forall>xs. list_all plain_json xs \<longrightarrow> unmarshal (marshal_strings xs) = Some xs)"

lemma plain_json_Permission [simp]: "plain_json (Permission_str p)"
  by (cases p) (simp_all add: plain_json_def is_lower_def)

lemma Validate_loop_known:
  "(\<forall>raw \<in> set vals. \<exists>p. raw = Permission_str p) \<Longrightarrow>
   Validate_loop result vals = Inr (keep_first_acc result (map (the \<circ> allowed) vals))"
  by (induction vals arbitrary: result) auto

lemma Validate_loop_Inr:
  "Validate_loop result vals = Inr ps \<Longrightarrow> \<forall>raw \<in> set vals. \<exists>p. raw = Permission_str p"
  by (induction vals arbitrary: result) (auto simp: allowed_Some split: option.splits if_splits)

lemma Validate_loop_Inl:
  "Validate_loop result vals = Inl e \<Longrightarrow>
   \<exists>raw \<in> set vals. allowed raw = None \<and> e = UnknownPermission raw"
  by (induction vals arbitrary: result) (auto split: option.splits if_splits)

lemma Validate_loop_set:
  "Validate_loop result vals = Inr ps \<Longrightarrow>
   set (Strings ps) = set (Strings result) \<union> set vals"
  by (induction vals arbitrary: result)
    (auto simp: Strings_def allowed_Some split: option.splits if_splits)

lemma Validate_loop_distinct:
  "Validate_loop result vals = Inr ps \<Longrightarrow> distinct result \<Longrightarrow> distinct ps"
  by (induction vals arbitrary: result) (auto split: option.splits if_splits)

lemma Validate_Inr:
  assumes "Validate vals = Inr ps"
  shows "set (Strings ps) = set vals" and "distinct ps" and "sorted ps" and "ps \<noteq> []"
proof -
  from assms obtain rs where rs: "Validate_loop [] vals = Inr rs" "rs \<noteq> []" "ps = sort rs"
    by (auto simp: Validate_def split: sum.splits if_splits)
  from Validate_loop_set [OF rs(1)] rs(3) show "set (Strings ps) = set vals"
    by (simp add: Strings_def)
  from Validate_loop_distinct [OF rs(1)] rs(3) show "distinct ps" by simp
  from rs show "sorted ps" by simp
  from rs show "ps \<noteq> []" by (metis length_0_conv length_sort)
qed

lemma Validate_Strings:
  assumes "distinct ps" and "sorted ps" and "ps \<noteq> []"
  shows "Validate (Strings ps) = Inr ps"
proof -
  have "Validate_loop [] (Strings ps) = Inr (keep_first_acc [] ps)"
    by (subst Validate_loop_known) (auto simp: Strings_def comp_def)
  with assms show ?thesis
    by (simp add: Validate_def keep_first_acc_id sorted_sort_id)
qed

subsection \<open>The contract of a validated vocabulary\<close>

locale validated_vocabulary =
  fixes validate :: "string list \<Rightarrow> ('e, 'a list) result"
    and name :: "'a \<Rightarrow> string"
    and may :: "'a \<Rightarrow> bool"
  assumes accepts_set: "validate vs = Inr xs \<Longrightarrow> set (map name xs) = set vs"
    and accepts_distinct: "validate vs = Inr xs \<Longrightarrow> distinct xs"
    and accepts_may: "validate vs = Inr xs \<Longrightarrow> x \<in> set xs \<Longrightarrow> may x"
    and name_inj: "name x = name y \<Longrightarrow> x = y"
begin

lemma rejects_unknown: "v \<in> set vs \<Longrightarrow> \<forall>x. may x \<longrightarrow> name x \<noteq> v \<Longrightarrow> \<not> is_ok (validate vs)"
  by (metis (no_types, lifting) accepts_may accepts_set image_iff is_okE list.set_map)

lemma same_values_same_set:
  "validate vs = Inr xs \<Longrightarrow> validate ws = Inr ys \<Longrightarrow> set vs = set ws \<Longrightarrow> set xs = set ys"
proof -
  assume "validate vs = Inr xs" and "validate ws = Inr ys" and "set vs = set ws"
  then have "name ` set xs = name ` set ys" using accepts_set by (metis list.set_map)
  moreover have "inj name" by (rule injI) (rule name_inj)
  ultimately show ?thesis by (simp add: inj_image_eq_iff)
qed

lemma size_bound: "validate vs = Inr xs \<Longrightarrow> length xs = card (set vs)"
proof -
  assume v: "validate vs = Inr xs"
  then have "distinct (map name xs)"
    using accepts_distinct name_inj by (simp add: distinct_map inj_on_def)
  then show ?thesis using accepts_set [OF v] by (metis distinct_card length_map)
qed

end

interpretation perms: validated_vocabulary Validate Permission_str "\<lambda>_. True"
proof unfold_locales
  show "Validate vs = Inr xs \<Longrightarrow> set (map Permission_str xs) = set vs" for vs xs
    using Validate_Inr(1) by (simp add: Strings_def)
qed (auto dest: Validate_Inr(2))

subsection \<open>Properties\<close>

text \<open>
  Whatever permission list \<^verbatim>\<open>Validate\<close> accepts, storing it with
  \<^verbatim>\<open>Encode\<close> and reading it with \<^verbatim>\<open>Decode\<close> gives the same list back; it is the
  sorted, duplicate-free, non-empty list of exactly the submitted values. The hypothesis on
  \<^verbatim>\<open>json.Unmarshal\<close> is that it reads back what \<^verbatim>\<open>json.Marshal\<close> writes.
\<close>

theorem share_permissions_roundtrip:
  assumes "unmarshal_law unmarshal" and "Validate vals = Inr ps"
  shows "Decode unmarshal (Encode ps) = Inr ps \<and> sorted ps \<and> length ps = card (set vals)
    \<and> set (Strings ps) = set vals"
proof -
  have "unmarshal (Encode ps) = Some (Strings ps)"
    using assms(1) by (simp add: unmarshal_law_def Encode_def Strings_def list_all_iff)
  with Validate_Inr [OF assms(2)] show ?thesis
    using perms.size_bound [OF assms(2)] by (simp add: Decode_def Validate_Strings)
qed

text \<open>A reader for exactly the shape \<^verbatim>\<open>json.Marshal\<close> writes, to instantiate the argument.\<close>

definition read_quoted :: "string \<Rightarrow> string" where
  "read_quoted s = filter (\<lambda>c. c \<noteq> CHR 0x22) s"

definition unmarshal_plain :: "string \<Rightarrow> string list option" where
  "unmarshal_plain s =
     (let body = butlast (tl s)
      in Some (if body = [] then [] else map read_quoted (Split body (CHR 0x2C))))"

lemma plain_json_chars: "plain_json s \<Longrightarrow> CHR 0x22 \<notin> set s \<and> CHR 0x2C \<notin> set s"
  by (auto simp: plain_json_def list_all_iff is_lower_def)

lemma unmarshal_plain_law: "unmarshal_law unmarshal_plain"
  unfolding unmarshal_law_def
proof (intro allI impI)
  fix xs assume xs: "list_all plain_json xs"
  have read: "map read_quoted (map json_quote xs) = xs"
    using xs by (induction xs)
      (auto simp: read_quoted_def json_quote_def filter_id_conv dest!: plain_json_chars)
  show "unmarshal_plain (marshal_strings xs) = Some xs"
  proof (cases "xs = []")
    case True
    then show ?thesis by (simp add: unmarshal_plain_def marshal_strings_def)
  next
    case False
    have "Split (Join (map json_quote xs) (CHR 0x2C)) (CHR 0x2C) = map json_quote xs"
      using False xs by (intro Split_Join) (auto simp: list_all_iff json_quote_def plain_json_chars)
    moreover from this have "Join (map json_quote xs) (CHR 0x2C) \<noteq> []"
      using False by (cases xs) (auto simp: json_quote_def split: list.splits)
    ultimately show ?thesis
      using read by (simp add: unmarshal_plain_def marshal_strings_def butlast_append)
  qed
qed

lemma Validate_example:
  "Validate [''upload-files'', ''open-apps'', ''upload-files''] = Inr [OpenApps, UploadFiles]"
  by (simp add: Validate_def allowed_def all_permissions_def less_eq_Permission_def)

theorem share_permissions_roundtrip_witness:
  "Decode unmarshal_plain (Encode [OpenApps, UploadFiles]) = Inr [OpenApps, UploadFiles]"
  using share_permissions_roundtrip [OF unmarshal_plain_law Validate_example] by simp

end
