(* ===== verification/Egress.thy ===== *)
theory Egress
  imports Sharing
begin

text \<open>
  Egress modes and the grants that permit them, \<^verbatim>\<open>internal/egress/egress.go\<close>. A
  \<^verbatim>\<open>Mode\<close> is a string in the source and here; the constants are the four modes this
  build understands. The grant list of a user is validated by \<^verbatim>\<open>ValidateGrants\<close>, stored
  by \<^verbatim>\<open>FormatGrants\<close>, read by \<^verbatim>\<open>ParseGrants\<close> and consulted by
  \<^verbatim>\<open>Granted\<close>.
\<close>

type_synonym Mode = string

abbreviation Direct :: Mode where
  "Direct \<equiv> ''direct''"
abbreviation WireGuard :: Mode where
  "WireGuard \<equiv> ''wireguard''"
abbreviation HostGateway :: Mode where
  "HostGateway \<equiv> ''host-gateway''"
abbreviation DualStack :: Mode where
  "DualStack \<equiv> ''ipv6''"

definition DefaultMode :: Mode where
  "DefaultMode = Direct"

definition All :: "Mode list" where
  "All = [Direct, WireGuard, HostGateway, DualStack]"

definition Description :: "Mode \<Rightarrow> string" where
  "Description m =
     (if m = Direct then
        ''Host's internet connection. Appears to come from this machine's IP.''
      else if m = WireGuard then
        ''All traffic through a WireGuard profile. Fails closed if the tunnel drops.''
      else if m = HostGateway then
        ''Host's connection, and can also reach services running on the host.''
      else if m = DualStack then
        ''Host's connection with IPv6 alongside IPv4. Requires IPv6 on the Docker daemon.''
      else [])"

definition Label :: "Mode \<Rightarrow> string" where
  "Label m =
     (if m = Direct then ''Direct''
      else if m = WireGuard then ''VPN (WireGuard)''
      else if m = HostGateway then ''Direct + host access''
      else if m = DualStack then ''Direct + IPv6''
      else m)"

definition RequiresVPNProfile :: "Mode \<Rightarrow> bool" where
  "RequiresVPNProfile m = (m = WireGuard)"

definition RequiresIPv6 :: "Mode \<Rightarrow> bool" where
  "RequiresIPv6 m = (m = DualStack)"

text \<open>The map \<^verbatim>\<open>all\<close> has the four constants as its keys.\<close>

definition Valid :: "Mode \<Rightarrow> bool" where
  "Valid m = (m = Direct \<or> m = WireGuard \<or> m = HostGateway \<or> m = DualStack)"

datatype egress_error = ModeNotSupported string | ModeNotGrantable string

definition Parse :: "string \<Rightarrow> (egress_error, Mode) result" where
  "Parse value = (if Valid value then Inr value else Inl (ModeNotSupported value))"

definition AdminOnly :: "Mode \<Rightarrow> bool" where
  "AdminOnly m = (m = HostGateway)"

definition DefaultGrants :: "Mode list" where
  "DefaultGrants = [Direct, WireGuard]"

definition Grantable :: "Mode list" where
  "Grantable = filter (\<lambda>mode. \<not> AdminOnly mode) All"

primrec ValidateGrants_loop :: "Mode list \<Rightarrow> string list \<Rightarrow> (egress_error, Mode list) result" where
  "ValidateGrants_loop result [] = Inr result"
| "ValidateGrants_loop result (raw # rest) =
     (case Parse raw of
        Inl e \<Rightarrow> Inl e
      | Inr mode \<Rightarrow>
          if AdminOnly mode then Inl (ModeNotGrantable raw)
          else if mode \<in> set result then ValidateGrants_loop result rest
          else ValidateGrants_loop (result @ [mode]) rest)"

definition ValidateGrants :: "string list \<Rightarrow> (egress_error, Mode list) result" where
  "ValidateGrants vals = ValidateGrants_loop [] vals"

primrec ParseGrants_loop :: "Mode list \<Rightarrow> string list \<Rightarrow> Mode list" where
  "ParseGrants_loop result [] = result"
| "ParseGrants_loop result (raw # rest) =
     (case Parse (TrimSpace raw) of
        Inl _ \<Rightarrow> ParseGrants_loop result rest
      | Inr mode \<Rightarrow>
          if mode \<in> set result then ParseGrants_loop result rest
          else ParseGrants_loop (result @ [mode]) rest)"

definition ParseGrants :: "string \<Rightarrow> Mode list" where
  "ParseGrants encoded = ParseGrants_loop [] (Split encoded (CHR 0x2C))"

definition FormatGrants :: "Mode list \<Rightarrow> string" where
  "FormatGrants modes = Join modes (CHR 0x2C)"

definition Granted :: "Mode list \<Rightarrow> Mode \<Rightarrow> bool \<Rightarrow> bool" where
  "Granted grants mode isAdmin =
     (if isAdmin then Valid mode
      else if AdminOnly mode then False
      else list_ex (\<lambda>granted. granted = mode) grants)"

definition Resolve :: "string \<Rightarrow> bool \<Rightarrow> Mode" where
  "Resolve stored vpnRequired =
     (case Parse stored of
        Inr mode \<Rightarrow> mode
      | Inl _ \<Rightarrow> if vpnRequired then WireGuard else DefaultMode)"

lemmas mode_defs =
  DefaultMode_def All_def RequiresVPNProfile_def RequiresIPv6_def Valid_def AdminOnly_def

lemma Valid_cases [consumes 1, case_names direct wireguard host ipv6]:
  assumes "Valid m"
  obtains "m = Direct" | "m = WireGuard" | "m = HostGateway" | "m = DualStack"
  using assms by (auto simp: Valid_def)

lemma Valid_All: "Valid m \<longleftrightarrow> m \<in> set All"
  by (auto simp: mode_defs)

lemma Valid_no_comma: "Valid m \<Longrightarrow> CHR 0x2C \<notin> set m"
  by (erule Valid_cases) simp_all

lemma Valid_trimmed: "Valid m \<Longrightarrow> TrimSpace m = m"
  by (rule TrimSpace_id, erule Valid_cases; simp add: trimmed_visible visible_def)

lemma Mode_Parse_Inr: "Parse value = Inr m \<longleftrightarrow> Valid value \<and> m = value"
  by (auto simp: Parse_def)

lemma Mode_Parse_Inl: "Parse value = Inl e \<longleftrightarrow> \<not> Valid value \<and> e = ModeNotSupported value"
  by (auto simp: Parse_def)

lemma Mode_Parse_Valid [simp]: "Valid m \<Longrightarrow> Parse m = Inr m"
  by (simp add: Parse_def)

lemma ValidateGrants_loop_Inr:
  "ValidateGrants_loop result vals = Inr gs \<Longrightarrow>
   set gs = set result \<union> set vals \<and> (\<forall>v \<in> set vals. Valid v \<and> \<not> AdminOnly v)
   \<and> (distinct result \<longrightarrow> distinct gs)"
  by (induction vals arbitrary: result) (auto simp: Mode_Parse_Inr split: sum.splits if_splits)

lemma ParseGrants_loop_set:
  "set (ParseGrants_loop result vals) = set result \<union> {TrimSpace v |v. v \<in> set vals \<and> Valid (TrimSpace v)}"
  by (induction vals arbitrary: result) (auto simp: Mode_Parse_Inr Mode_Parse_Inl split: sum.splits)

lemma ParseGrants_loop_distinct: "distinct result \<Longrightarrow> distinct (ParseGrants_loop result vals)"
  by (induction vals arbitrary: result) (auto split: sum.splits)

lemma ParseGrants_loop_valid:
  "\<forall>v \<in> set vals. Valid v \<Longrightarrow> ParseGrants_loop result vals = keep_first_acc result vals"
  by (induction vals arbitrary: result) (auto simp: Valid_trimmed)

lemma ParseGrants_Valid: "m \<in> set (ParseGrants encoded) \<Longrightarrow> Valid m"
  by (auto simp: ParseGrants_def ParseGrants_loop_set)

lemma Resolve_Valid [simp]: "Valid (Resolve stored vpnRequired)"
  by (auto simp: Resolve_def Mode_Parse_Inr mode_defs split: sum.splits)

lemma Resolve_explicit: "Valid stored \<Longrightarrow> Resolve stored vpn = stored"
  by (simp add: Resolve_def)

lemma Resolve_empty: "Resolve [] vpn = (if vpn then WireGuard else Direct)"
  by (simp add: Resolve_def Parse_def mode_defs)

interpretation grants: validated_vocabulary ValidateGrants "\<lambda>m. m" "\<lambda>m. Valid m \<and> \<not> AdminOnly m"
proof unfold_locales
  fix vs xs x
  assume v: "ValidateGrants vs = Inr xs"
  note facts = ValidateGrants_loop_Inr [of "[]", OF v [unfolded ValidateGrants_def]]
  from facts show "set (map (\<lambda>m. m) xs) = set vs" by simp
  from facts show "distinct xs" by simp
  from facts show "x \<in> set xs \<Longrightarrow> Valid x \<and> \<not> AdminOnly x" by simp
qed

subsection \<open>Properties\<close>

text \<open>
  A grant list accepted by \<^verbatim>\<open>ValidateGrants\<close> survives storage: reading what
  \<^verbatim>\<open>FormatGrants\<close> wrote gives the same list, in the same order, also for the empty
  list; it has no duplicates and no mode reserved for administrators.
\<close>

theorem grants_roundtrip:
  assumes "ValidateGrants vals = Inr gs"
  shows "ParseGrants (FormatGrants gs) = gs \<and> distinct gs \<and> HostGateway \<notin> set gs
    \<and> set gs = set vals"
proof -
  have may: "\<forall>m \<in> set gs. Valid m \<and> \<not> AdminOnly m" and d: "distinct gs"
    using grants.accepts_may [OF assms] grants.accepts_distinct [OF assms] by auto
  have "ParseGrants (FormatGrants gs) = gs"
  proof (cases "gs = []")
    case True
    then show ?thesis by (simp add: ParseGrants_def FormatGrants_def Parse_def mode_defs)
  next
    case False
    then have "Split (FormatGrants gs) (CHR 0x2C) = gs"
      using may by (simp add: FormatGrants_def Split_Join Valid_no_comma)
    then show ?thesis
      using may d by (simp add: ParseGrants_def ParseGrants_loop_valid keep_first_acc_id)
  qed
  then show ?thesis
    using may d grants.accepts_set [OF assms] by (auto simp: AdminOnly_def)
qed

lemma ValidateGrants_example:
  "ValidateGrants [''ipv6'', ''direct'', ''ipv6''] = Inr [DualStack, Direct]"
  by (simp add: ValidateGrants_def Parse_def mode_defs)

theorem grants_roundtrip_witness:
  "ParseGrants (FormatGrants [DualStack, Direct]) = [DualStack, Direct]"
  using grants_roundtrip [OF ValidateGrants_example] by simp

text \<open>
  The authorization decision. Whatever text is stored as a user's grants, an ordinary user
  is permitted exactly the understood modes named in it other than host-gateway; an empty or
  unreadable grant text permits nothing; an administrator is permitted every mode this build
  understands and nothing else.
\<close>

theorem Granted_decision:
  "(Granted (ParseGrants encoded) mode False \<longleftrightarrow>
      Valid mode \<and> mode \<noteq> HostGateway \<and>
      (\<exists>raw \<in> set (Split encoded (CHR 0x2C)). TrimSpace raw = mode))
   \<and> \<not> Granted (ParseGrants []) mode False
   \<and> (Granted gs mode True \<longleftrightarrow> mode \<in> set All)"
proof -
  have "mode \<in> set (ParseGrants encoded) \<longleftrightarrow>
      Valid mode \<and> (\<exists>raw \<in> set (Split encoded (CHR 0x2C)). TrimSpace raw = mode)" for encoded
    by (auto simp: ParseGrants_def ParseGrants_loop_set)
  moreover have "\<not> Valid []" by (simp add: Valid_def)
  ultimately show ?thesis
    by (auto simp: Granted_def AdminOnly_def list_ex_iff Valid_All [symmetric])
qed

end
