(* ===== verification/Worker_Admission.thy ===== *)
theory Worker_Admission
  imports Worker_Approvals Egress WireGuard_Profile
begin

text \<open>
  What the worker accepts: \<^verbatim>\<open>validateApp\<close>, \<^verbatim>\<open>validateProvision\<close> and the
  handler that records an approval, \<^verbatim>\<open>internal/dockerworker/service.go\<close>. The worker does
  not trust the controller: it repeats the checks of the manifest on what it is about to run.
\<close>

datatype admission_error =
    InvalidWorkstationID
  | ResourceLimits
  | UnsupportedEgress egress_error
  | ProfileMissing
  | ProfileInvalid wg_error
  | ProfileUnexpected
  | WorkspaceImageUnpinned
  | WorkspaceImageUnapproved string
  | DuplicateApp
  | ImageUnapproved string
  | InvalidAppID string
  | AppImageUnpinned string
  | AppPort string
  | AppResources string
  | AppSharedMemory string
  | AppEnvironment string
  | AppCapability string
  | AppHealthPath string
  | AppStorageType string
  | AppStorageTarget string
  | AppStorageOwner string

definition pinnedImageReference :: "string \<Rightarrow> bool" where
  "pinnedImageReference v =
     (if v = [] \<or> ContainsAny v [CHR '' '', CHR 0x09, CHR 0x0D, CHR 0x0A, CHR 0x00] then False
      else case LastIndex v ''@sha256:'' of
        Some marker \<Rightarrow> marker > 0 \<and> hash64 (drop (marker + length ''@sha256:'') v)
      | None \<Rightarrow>
          (let lastSlash = LastIndex v ''/''; lastColon = LastIndex v '':'' in
           case lastColon of
             None \<Rightarrow> False
           | Some i \<Rightarrow> after lastColon lastSlash \<and> i < length v - 1 \<and> drop (i + 1) v \<noteq> ''latest''))"

definition worker_environment :: "string list" where
  "worker_environment =
     [''PUID'', ''PGID'', ''TZ'', ''HARDEN_DESKTOP'', ''DISABLE_OPEN_TOOLS'', ''DISABLE_SUDO'',
      ''DISABLE_TERMINALS'', ''CHROME_CLI'']"

definition validate_storage :: "StorageSpec \<Rightarrow> admission_error check" where
  "validate_storage storage =
     (if ss_Type storage \<noteq> ''workspace'' \<and> ss_Type storage \<noteq> ''app-data''
         \<and> ss_Type storage \<noteq> ''shell-home'' \<and> ss_Type storage \<noteq> ''temporary''
      then Some (AppStorageType (ss_Type storage))
      else if \<not> IsAbs (ss_Target storage) \<or> Contains (Clean (ss_Target storage)) ''..''
      then Some (AppStorageTarget (ss_Target storage))
      else if ss_OwnerUID storage < 0 \<or> ss_OwnerUID storage > 65535
         \<or> ss_OwnerGID storage < 0 \<or> ss_OwnerGID storage > 65535
         \<or> (ss_OwnerUID storage = 0) \<noteq> (ss_OwnerGID storage = 0)
      then Some (AppStorageOwner (ss_Target storage))
      else None)"

definition validateApp :: "AppSpec \<Rightarrow> float64 \<Rightarrow> int \<Rightarrow> admission_error check" where
  "validateApp app maxCPU maxMemoryMB =
     (if \<not> identifier_re (as_ID app) then Some (InvalidAppID (as_ID app))
      else if \<not> pinnedImageReference (as_Image app) then Some (AppImageUnpinned (as_ID app))
      else if as_InternalPort app < 1024 \<or> as_InternalPort app > 65535 then Some (AppPort (as_ID app))
      else if float_le (as_CPU app) float0 \<or> float_lt maxCPU (as_CPU app)
         \<or> as_MemoryMB app < 64 \<or> as_MemoryMB app > maxMemoryMB
      then Some (AppResources (as_ID app))
      else if as_ShmSizeMB app < 0 \<or> as_ShmSizeMB app > 2048 \<or> as_ShmSizeMB app > as_MemoryMB app
      then Some (AppSharedMemory (as_ID app))
      else and_then (check_all (\<lambda>(key, v).
          if key \<notin> set worker_environment \<or> length v > 512
             \<or> ContainsAny v [CHR 0x0D, CHR 0x0A, CHR 0x00]
          then Some (AppEnvironment (as_ID app)) else None) (as_Environment app))
       (and_then (check_all (\<lambda>capability.
          if capability \<noteq> ''NET_RAW'' then Some (AppCapability capability) else None) (as_Capabilities app))
       (if as_HealthPath app \<noteq> [] \<and> (\<not> HasPrefix (as_HealthPath app) ''/'' \<or> Contains (as_HealthPath app) ''..'')
        then Some (AppHealthPath (as_ID app))
        else check_all validate_storage (as_Storage app))))"

primrec validate_apps ::
  "codec \<Rightarrow> Worker \<Rightarrow> approvalStore \<Rightarrow> float64 \<Rightarrow> int \<Rightarrow> string list \<Rightarrow> AppSpec list \<Rightarrow> admission_error check" where
  "validate_apps C cfg s cpu memory ids [] = None"
| "validate_apps C cfg s cpu memory ids (app # apps) =
     (if as_ID app \<in> set ids then Some DuplicateApp
      else if as_Image app \<notin> set (wk_AllowedImages cfg) \<and> \<not> app_allowed C s app
      then Some (ImageUnapproved (as_Image app))
      else case validateApp app cpu memory of
        Some e \<Rightarrow> Some e
      | None \<Rightarrow> validate_apps C cfg s cpu memory (as_ID app # ids) apps)"

definition check_profile :: "(string \<Rightarrow> string) \<Rightarrow> ProvisionRequest \<Rightarrow> admission_error check" where
  "check_profile uni req =
     (if RequiresVPNProfile (Resolve (pr_EgressMode req) (pr_VPNRequired req)) then
        (case pr_VPNProfile req of
           None \<Rightarrow> Some ProfileMissing
         | Some config \<Rightarrow>
             (case WireGuard_Profile.Parse uni config of
                Inl e \<Rightarrow> Some (ProfileInvalid e)
              | Inr _ \<Rightarrow> None))
      else if pr_VPNProfile req \<noteq> None then Some ProfileUnexpected
      else None)"

definition validateProvision ::
  "(string \<Rightarrow> string) \<Rightarrow> codec \<Rightarrow> Worker \<Rightarrow> approvalStore \<Rightarrow> ProvisionRequest \<Rightarrow> admission_error check" where
  "validateProvision uni C cfg s req =
     (if \<not> resourceID (pr_WorkstationID req) then Some InvalidWorkstationID
      else if float_le (pr_CPU req) float0 \<or> float_lt (Fin 32) (pr_CPU req)
         \<or> pr_MemoryMB req < 128 \<or> pr_MemoryMB req > 131072
         \<or> pr_PIDLimit req < 32 \<or> pr_PIDLimit req > 32768
      then Some ResourceLimits
      else and_then
        (if pr_EgressMode req \<noteq> [] then
           (case Egress.Parse (pr_EgressMode req) of Inl e \<Rightarrow> Some (UnsupportedEgress e) | Inr _ \<Rightarrow> None)
         else None)
       (and_then (check_profile uni req)
       (and_then
         (if pr_WorkspaceImage req \<noteq> [] then
            (if \<not> pinnedImageReference (pr_WorkspaceImage req) then Some WorkspaceImageUnpinned
             else if pr_WorkspaceImage req \<notin> set (wk_AllowedImages cfg)
             then Some (WorkspaceImageUnapproved (pr_WorkspaceImage req))
             else None)
          else None)
         (validate_apps C cfg s (pr_CPU req) (pr_MemoryMB req) [] (pr_Apps req)))))"

text \<open>The regular expression \<^verbatim>\<open>^[0-9]+\.[0-9]+\.[0-9]+(?:[-+][0-9A-Za-z.-]+)?$\<close>.\<close>

definition digits :: "string \<Rightarrow> bool" where
  "digits s = (s \<noteq> [] \<and> list_all is_digit s)"

definition version_core :: "string \<Rightarrow> bool" where
  "version_core s =
     (case Split s (CHR ''.'') of [a, b, c] \<Rightarrow> digits a \<and> digits b \<and> digits c | _ \<Rightarrow> False)"

definition version_suffix :: "string \<Rightarrow> bool" where
  "version_suffix s =
     (s = [] \<or> (hd s = CHR ''-'' \<or> hd s = CHR ''+'') \<and> tl s \<noteq> [] \<and>
        list_all (\<lambda>c. is_digit c \<or> is_upper c \<or> is_lower c \<or> c = CHR ''.'' \<or> c = CHR ''-'') (tl s))"

definition version_re :: "string \<Rightarrow> bool" where
  "version_re s =
     (let core = takeWhile (\<lambda>c. is_digit c \<or> c = CHR ''.'') s
      in version_core core \<and> version_suffix (drop (length core) s))"

datatype approve_reply =
    ApproveInvalid admission_error
  | VersionRequired
  | ApproveFailed approval_error
  | Approved AppApprovalStatus

definition approveApp ::
  "codec \<Rightarrow> bool \<Rightarrow> int \<Rightarrow> AppSpec \<Rightarrow> approvalStore \<Rightarrow> directory \<Rightarrow>
   approve_reply \<times> approvalStore \<times> directory" where
  "approveApp C fault now app s dir =
     (case validateApp app (Fin 32) 131072 of
        Some e \<Rightarrow> (ApproveInvalid e, s, dir)
      | None \<Rightarrow>
          if as_Version app = [] \<or> as_ManifestSHA256 app = [] \<or> \<not> version_re (as_Version app)
             \<or> \<not> hash64 (as_ManifestSHA256 app)
          then (VersionRequired, s, dir)
          else (case approve C fault now app s dir of
              (Inl e, s', dir') \<Rightarrow> (ApproveFailed e, s', dir')
            | (Inr status, s', dir') \<Rightarrow> (Approved status, s', dir')))"

subsection \<open>What was accepted\<close>

lemma pinned_equal: "pinnedImageReference v = pinnedImage v"
proof -
  have "i < length v - 1 \<longleftrightarrow> i \<noteq> length v - 1" if "LastIndex v '':'' = Some i" for i
  proof -
    from LastIndex_SomeD [OF that] have "HasPrefix (drop i v) '':''" by simp
    then have "i < length v" by (metis HasPrefix_Nil(2) drop_all not_le_imp_less)
    then show ?thesis by auto
  qed
  then show ?thesis
    unfolding pinnedImageReference_def pinnedImage_def Let_def by (auto split: option.splits)
qed

definition app_confined :: "AppSpec \<Rightarrow> float64 \<Rightarrow> int \<Rightarrow> bool" where
  "app_confined app cpu memory =
     (identifier_re (as_ID app) \<and> pinnedImage (as_Image app)
      \<and> 1024 \<le> as_InternalPort app \<and> as_InternalPort app \<le> 65535
      \<and> \<not> float_le (as_CPU app) float0 \<and> \<not> float_lt cpu (as_CPU app)
      \<and> 64 \<le> as_MemoryMB app \<and> as_MemoryMB app \<le> memory
      \<and> 0 \<le> as_ShmSizeMB app \<and> as_ShmSizeMB app \<le> as_MemoryMB app \<and> as_ShmSizeMB app \<le> 2048
      \<and> set (as_Capabilities app) \<subseteq> {''NET_RAW''}
      \<and> (\<forall>(k, v) \<in> set (as_Environment app). k \<in> set worker_environment \<and> length v \<le> 512
           \<and> \<not> ContainsAny v [CHR 0x0D, CHR 0x0A, CHR 0x00])
      \<and> (as_HealthPath app = [] \<or> HasPrefix (as_HealthPath app) ''/'' \<and> \<not> Contains (as_HealthPath app) ''..'')
      \<and> (\<forall>st \<in> set (as_Storage app). validate_storage st = None))"

lemma validateApp_None: "validateApp app cpu memory = None \<longleftrightarrow> app_confined app cpu memory"
  unfolding validateApp_def app_confined_def pinned_equal guard_splits check_all_None
  by (auto simp: not_less split: if_splits)

lemma validate_apps_None:
  "validate_apps C cfg s cpu memory ids apps = None \<longleftrightarrow>
   distinct (map as_ID apps) \<and> as_ID ` set apps \<inter> set ids = {} \<and>
   (\<forall>app \<in> set apps. (as_Image app \<in> set (wk_AllowedImages cfg) \<or> app_allowed C s app)
      \<and> validateApp app cpu memory = None)"
  by (induction apps arbitrary: ids) (auto split: option.splits)

lemma validateProvision_None:
  "validateProvision uni C cfg s req = None \<longleftrightarrow>
   resourceID (pr_WorkstationID req)
   \<and> \<not> float_le (pr_CPU req) float0 \<and> \<not> float_lt (Fin 32) (pr_CPU req)
   \<and> 128 \<le> pr_MemoryMB req \<and> pr_MemoryMB req \<le> 131072 \<and> 32 \<le> pr_PIDLimit req \<and> pr_PIDLimit req \<le> 32768
   \<and> (pr_EgressMode req = [] \<or> Valid (pr_EgressMode req))
   \<and> check_profile uni req = None
   \<and> (pr_WorkspaceImage req = [] \<or>
        pinnedImage (pr_WorkspaceImage req) \<and> pr_WorkspaceImage req \<in> set (wk_AllowedImages cfg))
   \<and> distinct (map as_ID (pr_Apps req))
   \<and> (\<forall>app \<in> set (pr_Apps req). (as_Image app \<in> set (wk_AllowedImages cfg) \<or> app_allowed C s app)
        \<and> app_confined app (pr_CPU req) (pr_MemoryMB req))"
  unfolding validateProvision_def guard_splits validate_apps_None validateApp_None pinned_equal
  by (auto simp: not_less Egress.Parse_def split: if_splits)

subsection \<open>Properties\<close>


definition sample_worker :: Worker where
  "sample_worker = sample_log_config\<lparr>wk_Token := replicate 24 (CHR ''t''), wk_WSLANImage := ''wslan:1'',
     wk_ManagementNetwork := ''mgmt'', wk_AllowedImages := [''seed:1'', ''wslan:1'']\<rparr>"

definition sample_request :: ProvisionRequest where
  "sample_request =
     \<lparr>pr_WorkstationID = ''ws-abcdef'', pr_Persistent = True, pr_VPNRequired = True,
      pr_VPNProfile = Some sample_config, pr_MemoryMB = 1024, pr_CPU = Fin 2, pr_PIDLimit = 256,
      pr_WorkspaceImage = ''seed:1'', pr_EgressMode = [], pr_Apps = [sample_app]\<rparr>"

definition sample_approvals :: approvalStore where
  "sample_approvals = \<lparr>ap_path = ''/a'', ap_records = sample_records\<rparr>"

lemma sample_admitted:
  "validateProvision (\<lambda>s. s) sample_codec sample_worker sample_approvals sample_request = None"
  by code_simp


end
