(* ===== verification/Docker_Streams.thy ===== *)
theory Docker_Streams
  imports Docker_Engine
begin

text \<open>
  The container log streams and the resource measurements of
  \<^verbatim>\<open>internal/dockerworker/engine.go\<close>: decoding a complete multiplexed log, copying a live
  one to a writer, reading a container's logs, and \<^verbatim>\<open>ContainerStats\<close> with its
  64-bit counters and floating-point percentages.
\<close>

subsection \<open>Multiplexed logs\<close>

text \<open>The big-endian size in the bytes 4 to 7 of a frame header; \<^verbatim>\<open>int\<close> has 64 bits.\<close>

definition frame_size :: "string \<Rightarrow> nat" where
  "frame_size d =
     of_char (d ! 4) * 2 ^ 24 + of_char (d ! 5) * 2 ^ 16 + of_char (d ! 6) * 2 ^ 8 + of_char (d ! 7)"

definition multiplexed :: "string \<Rightarrow> bool" where
  "multiplexed d =
     (8 \<le> length d \<and> (d ! 0 = CHR 0x01 \<or> d ! 0 = CHR 0x02)
      \<and> d ! 1 = CHR 0x00 \<and> d ! 2 = CHR 0x00 \<and> d ! 3 = CHR 0x00)"

function decode_frames :: "string \<Rightarrow> string \<Rightarrow> string" where
  "decode_frames out d =
     (if 8 \<le> length d then
        (let size = frame_size d in
         if length d < 8 + size then out
         else decode_frames (out @ take size (drop 8 d)) (drop (8 + size) d))
      else out)"
  by pat_completeness auto
termination by (relation "measure (\<lambda>(out, d). length d)") auto

declare decode_frames.simps [simp del]

definition decodeDockerLogStream :: "string \<Rightarrow> string" where
  "decodeDockerLogStream d = (if \<not> multiplexed d then d else decode_frames [] d)"

text \<open>
  A writer is a state and a function that takes the bytes of one \<^verbatim>\<open>Write\<close> and returns its
  error, if any, and the new state. A reader is what is still to come and the error that ends it,
  \<open>None\<close> for \<^verbatim>\<open>io.EOF\<close>. How \<^verbatim>\<open>io.Copy\<close> cuts what it copies into writes
  depends on the reads; \<open>chunks\<close> says how.
\<close>

type_synonym 'w writer = "'w \<Rightarrow> string \<Rightarrow> string option \<times> 'w"

primrec write_chunks :: "'w writer \<Rightarrow> 'w \<Rightarrow> string list \<Rightarrow> string option \<times> 'w" where
  "write_chunks wr w [] = (None, w)"
| "write_chunks wr w (c # cs) =
     (case wr w c of (Some e, w') \<Rightarrow> (Some e, w') | (None, w') \<Rightarrow> write_chunks wr w' cs)"

text \<open>
  The loop of \<^verbatim>\<open>copyDockerLogStream\<close>, with the header just read: the result of
  \<^verbatim>\<open>io.CopyN\<close>, then of \<^verbatim>\<open>io.ReadFull\<close>.
\<close>

function copy_frames ::
  "'w writer \<Rightarrow> (string \<Rightarrow> string list) \<Rightarrow> string option \<Rightarrow> string \<Rightarrow> string \<Rightarrow> 'w \<Rightarrow> string option \<times> 'w" where
  "copy_frames wr chunks final header rest w =
     (let size = frame_size header in
      if 16 * 1024 * 1024 < size then (Some ''invalid Docker log frame'', w)
      else case write_chunks wr w (chunks (take size rest)) of
        (Some e, w') \<Rightarrow> (Some e, w')
      | (None, w') \<Rightarrow>
          if length rest < size then (final, w')
          else if length (drop size rest) < 8 then (final, w')
          else copy_frames wr chunks final (take 8 (drop size rest)) (drop (8 + size) rest) w')"
  by pat_completeness auto
termination by (relation "measure (\<lambda>(wr, chunks, final, header, rest, w). length rest)") auto

declare copy_frames.simps [simp del]

definition copyDockerLogStream ::
  "'w writer \<Rightarrow> (string \<Rightarrow> string list) \<Rightarrow> string option \<Rightarrow> string \<Rightarrow> 'w \<Rightarrow> string option \<times> 'w" where
  "copyDockerLogStream wr chunks final rest w =
     (if length rest < 8 then
        (case final of None \<Rightarrow> wr w rest | Some e \<Rightarrow> (Some e, w))
      else if \<not> multiplexed (take 8 rest) then
        (case wr w (take 8 rest) of
           (Some e, w') \<Rightarrow> (Some e, w')
         | (None, w') \<Rightarrow>
             (case write_chunks wr w' (chunks (drop 8 rest)) of
                (Some e, w'') \<Rightarrow> (Some e, w'')
              | (None, w'') \<Rightarrow> (final, w'')))
      else copy_frames wr chunks final (take 8 rest) (drop 8 rest) w)"

definition ContainerLogs :: "docker \<Rightarrow> string \<Rightarrow> int \<Rightarrow> string io" where
  "ContainerLogs D name tail =
     bind_io (request D (LogsGet name tail)) (\<lambda>r.
       if rsp_Code r \<noteq> 200 then fail_io (engineError r)
       else return_io (decodeDockerLogStream (take (2 * 1024 * 1024) (rsp_Raw r))))"

subsection \<open>Measurements\<close>

record ResourceUsage =
  ru_Name :: string
  ru_Kind :: string
  ru_AppID :: string
  ru_State :: string
  ru_CPUPercent :: rat
  ru_MemoryUsageMB :: rat
  ru_MemoryLimitMB :: rat
  ru_PIDs :: int
  ru_NetworkRXBytes :: "64 word"
  ru_NetworkTXBytes :: "64 word"
  ru_BlockReadBytes :: "64 word"
  ru_BlockWriteBytes :: "64 word"
  ru_Error :: string

definition float_of_word :: "'a::len word \<Rightarrow> rat" where
  "float_of_word w = round_float (of_nat (unat w))"

definition word_delta :: "64 word \<Rightarrow> 64 word \<Rightarrow> 64 word" where
  "word_delta now before = (if before \<le> now then now - before else 0)"

definition blkio_total :: "(string \<Rightarrow> string) \<Rightarrow> string \<Rightarrow> (string \<times> 64 word) list \<Rightarrow> 64 word" where
  "blkio_total uni op items =
     foldl (\<lambda>total (o', v). if ToLower uni o' = op then total + v else total) 0 items"

definition measured_usage :: "(string \<Rightarrow> string) \<Rightarrow> Resource \<Rightarrow> container_stats \<Rightarrow> ResourceUsage" where
  "measured_usage uni resource stats =
     (let cpuDelta = word_delta (cs_TotalUsage stats) (cs_PreTotalUsage stats);
          systemDelta = word_delta (cs_SystemCPUUsage stats) (cs_PreSystemCPUUsage stats);
          onlineCPUs = (if cs_OnlineCPUs stats = 0 then of_nat (length (cs_PercpuUsage stats))
            else cs_OnlineCPUs stats)
      in \<lparr>ru_Name = re_Name resource, ru_Kind = re_Kind resource, ru_AppID = re_AppID resource,
          ru_State = re_State resource,
          ru_CPUPercent =
            (if systemDelta > 0 \<and> cpuDelta > 0 then
               round_float (round_float (round_float (float_of_word cpuDelta / float_of_word systemDelta)
                 * float_of_word onlineCPUs) * 100)
             else 0),
          ru_MemoryUsageMB = round_float (float_of_word (cs_MemoryUsage stats) / (1024 * 1024)),
          ru_MemoryLimitMB = round_float (float_of_word (cs_MemoryLimit stats) / (1024 * 1024)),
          ru_PIDs = cs_Pids stats,
          ru_NetworkRXBytes = foldl (\<lambda>t (rx, tx). t + rx) 0 (cs_Networks stats),
          ru_NetworkTXBytes = foldl (\<lambda>t (rx, tx). t + tx) 0 (cs_Networks stats),
          ru_BlockReadBytes = blkio_total uni ''read'' (cs_Blkio stats),
          ru_BlockWriteBytes = blkio_total uni ''write'' (cs_Blkio stats), ru_Error = []\<rparr>)"

definition ContainerStats :: "(string \<Rightarrow> string) \<Rightarrow> docker \<Rightarrow> Resource \<Rightarrow> ResourceUsage io" where
  "ContainerStats uni D resource =
     bind_io (request D (StatsGet (re_Name resource))) (\<lambda>r.
       if rsp_Code r \<noteq> 200 then fail_io (engineError r)
       else case rsp_Body r of
         Stats_Body stats \<Rightarrow> return_io (measured_usage uni resource stats)
       | _ \<Rightarrow> fail_io Undecoded)"

subsection \<open>Frames\<close>

text \<open>What Docker sends: a header with the stream number and the size, then the payload.\<close>

definition size_bytes :: "nat \<Rightarrow> string" where
  "size_bytes n =
     [char_of (n div 2 ^ 24), char_of (n div 2 ^ 16 mod 256), char_of (n div 2 ^ 8 mod 256),
      char_of (n mod 256)]"

definition frame :: "bool \<times> string \<Rightarrow> string" where
  "frame f =
     (case f of (err, payload) \<Rightarrow>
        [if err then CHR 0x02 else CHR 0x01, CHR 0x00, CHR 0x00, CHR 0x00]
        @ size_bytes (length payload) @ payload)"

definition frames :: "(bool \<times> string) list \<Rightarrow> string" where
  "frames fs = concat (map frame fs)"

definition payloads :: "(bool \<times> string) list \<Rightarrow> string" where
  "payloads fs = concat (map snd fs)"

lemma frames_simps [simp]:
  "frames [] = []" "frames (f # fs) = frame f @ frames fs"
  "payloads [] = []" "payloads (f # fs) = snd f @ payloads fs"
  by (simp_all add: frames_def payloads_def)

lemma length_frame [simp]: "length (frame f) = 8 + length (snd f)"
  by (simp add: frame_def size_bytes_def split: prod.splits)

lemma base256:
  "n div 2 ^ 24 * 2 ^ 24 + n div 2 ^ 16 mod 256 * 2 ^ 16 + n div 2 ^ 8 mod 256 * 2 ^ 8
    + n mod 256 = (n :: nat)"
proof -
  define a where "a = n div 256"
  define b where "b = a div 256"
  define c where "c = b div 256"
  have n: "n = a * 256 + n mod 256" and a: "a = b * 256 + a mod 256" and b: "b = c * 256 + b mod 256"
    by (simp_all add: a_def b_def c_def)
  have eqs: "n div 2 ^ 16 = b" "n div 2 ^ 24 = c" "n div 2 ^ 8 = a"
    by (simp_all add: a_def b_def c_def div_mult2_eq [symmetric])
  have "c * 2 ^ 24 + b mod 256 * 2 ^ 16 = b * 2 ^ 16" using b by simp
  moreover have "b * 2 ^ 16 + a mod 256 * 2 ^ 8 = a * 2 ^ 8" using a by simp
  ultimately show ?thesis unfolding eqs using n by simp
qed

lemma frame_Cons:
  "frame (err, p) =
     (if err then CHR 0x02 else CHR 0x01) # CHR 0x00 # CHR 0x00 # CHR 0x00
     # char_of (length p div 2 ^ 24) # char_of (length p div 2 ^ 16 mod 256)
     # char_of (length p div 2 ^ 8 mod 256) # char_of (length p mod 256) # p"
  by (simp add: frame_def size_bytes_def)

lemma frame_size_frame:
  assumes "length p < 2 ^ 32"
  shows "frame_size (frame (err, p) @ rest) = length p"
proof -
  have 1: "length p div 2 ^ 24 mod 256 = length p div 2 ^ 24" using assms by simp
  have "frame_size (frame (err, p) @ rest) =
      length p div 2 ^ 24 mod 256 * 2 ^ 24 + length p div 2 ^ 16 mod 256 * 2 ^ 16
      + length p div 2 ^ 8 mod 256 * 2 ^ 8 + length p mod 256"
    unfolding frame_size_def frame_Cons append_Cons nth_Cons_numeral by simp
  with base256 [of "length p"] 1 show ?thesis by metis
qed

lemma multiplexed_frame: "multiplexed (frame f @ rest)"
  by (cases f) (simp add: multiplexed_def frame_Cons)

lemma drop_frame [simp]:
  "drop 8 (frame f @ rest) = snd f @ rest"
  "drop (8 + length (snd f)) (frame f @ rest) = rest"
proof -
  obtain head where head: "frame f = head @ snd f" "length head = 8"
    by (cases f) (simp add: frame_def size_bytes_def)
  then show "drop 8 (frame f @ rest) = snd f @ rest" by simp
  from head show "drop (8 + length (snd f)) (frame f @ rest) = rest" by simp
qed

lemma decode_frames_frames:
  assumes "\<forall>f \<in> set fs. length (snd f) < 2 ^ 32"
  shows "decode_frames out (frames fs @ t) = decode_frames (out @ payloads fs) t"
  using assms
proof (induction fs arbitrary: out)
  case (Cons f fs)
  then have size: "frame_size (frame f @ frames fs @ t) = length (snd f)"
    using frame_size_frame [of "snd f" "fst f"] by simp
  have "decode_frames out (frames (f # fs) @ t) =
      decode_frames (out @ snd f) (frames fs @ t)"
    unfolding frames_simps append_assoc
    by (subst decode_frames.simps) (simp only: size drop_frame Let_def, simp)
  with Cons show ?case by simp
qed simp

lemma decode_frames_short: "length t < 8 \<Longrightarrow> decode_frames out t = out"
  by (subst decode_frames.simps) simp

lemma decode_frames_cut:
  assumes "length (snd f) < 2 ^ 32" and "n < length (frame f)"
  shows "decode_frames out (take n (frame f)) = out"
proof (cases "n < 8")
  case False
  have "frame_size (take n (frame f)) = frame_size (frame f)"
    using False by (simp add: frame_size_def)
  then have "frame_size (take n (frame f)) = length (snd f)"
    using frame_size_frame [of "snd f" "fst f" "[]"] assms(1) by simp
  with assms(2) False show ?thesis by (subst decode_frames.simps) simp
qed (simp add: decode_frames_short)

text \<open>A writer that keeps what it is given.\<close>

definition keep_all :: "string writer" where
  "keep_all w s = (None, w @ s)"

lemma write_chunks_keep [simp]: "write_chunks keep_all w cs = (None, w @ concat cs)"
  by (induction cs arbitrary: w) (simp_all add: keep_all_def)

lemma frame_size_take: "frame_size (take 8 d) = frame_size d"
  by (simp add: frame_size_def)

lemma multiplexed_take: "8 \<le> length d \<Longrightarrow> multiplexed (take 8 d) = multiplexed d"
  by (simp add: multiplexed_def)

lemma copy_frames_frames:
  assumes "\<And>s. concat (chunks s) = s" and "\<forall>f \<in> set (f # fs). length (snd f) \<le> 16 * 1024 * 1024"
  shows "copy_frames keep_all chunks None (take 8 (frames (f # fs))) (drop 8 (frames (f # fs))) w =
    (None, w @ payloads (f # fs))"
  using assms(2)
proof (induction fs arbitrary: f w)
  case Nil
  then have "frame_size (frame f) = length (snd f)"
    using frame_size_frame [of "snd f" "fst f" "[]"] by simp
  with Nil assms(1) drop_frame(1) [of f "[]"] show ?case
    by (subst copy_frames.simps) (simp add: frame_size_take)
next
  case (Cons g gs)
  have size: "frame_size (frame f @ frames (g # gs)) = length (snd f)"
    using frame_size_frame [of "snd f" "fst f"] Cons.prems by simp
  have rest: "drop 8 (frames (f # g # gs)) = snd f @ frames (g # gs)"
    by (simp only: frames_simps(2) drop_frame)
  have hd: "frame_size (take 8 (frames (f # g # gs))) = length (snd f)"
    using size by (simp only: frame_size_take frames_simps(2))
  have small: "length (snd f) \<le> 16 * 1024 * 1024" using Cons.prems by simp
  have "copy_frames keep_all chunks None (take 8 (frames (f # g # gs))) (drop 8 (frames (f # g # gs))) w
      = copy_frames keep_all chunks None (take 8 (frames (g # gs))) (drop 8 (frames (g # gs))) (w @ snd f)"
    unfolding rest
    by (subst copy_frames.simps)
      (use small in \<open>simp add: hd Let_def assms(1) del: frames_simps(2), simp\<close>)
  also have "\<dots> = (None, (w @ snd f) @ payloads (g # gs))" using Cons by simp
  finally show ?case by simp
qed

subsection \<open>Properties\<close>

text \<open>
  Reading container logs. A log that Docker sends as frames, whole or cut off inside its last
  frame as the two-megabyte limit may do, is decoded to the payloads of its complete frames in
  their order: no header bytes appear and nothing is lost or repeated.
\<close>

theorem log_stream_roundtrip:
  assumes "fs \<noteq> []" and "\<forall>f \<in> set (g # fs). length (snd f) < 2 ^ 32" and "n < length (frame g)"
  shows "decodeDockerLogStream (frames fs @ take n (frame g)) = payloads fs"
proof -
  obtain f rest where "fs = f # rest" using assms(1) by (cases fs) auto
  then have "multiplexed (frames fs @ take n (frame g))" by (simp add: multiplexed_frame)
  then show ?thesis
    using assms(2,3) by (simp add: decodeDockerLogStream_def decode_frames_frames decode_frames_cut)
qed

theorem log_stream_roundtrip_witness:
  "decodeDockerLogStream (frames [(False, ''one''), (True, []), (False, ''two'')]
     @ take 10 (frame (True, ''lost''))) = ''onetwo''"
  using log_stream_roundtrip [of "[(False, ''one''), (True, []), (False, ''two'')]"
      "(True, ''lost'')" 10]
  by simp

text \<open>
  C31: following a container's log gives what reading it at once gives. For a stream of frames of
  at most 16 MiB that ends regularly, \<^verbatim>\<open>copyDockerLogStream\<close> returns without error and has
  written, in however many pieces, exactly the text \<^verbatim>\<open>decodeDockerLogStream\<close> returns for
  the same bytes.
\<close>

theorem copied_log_equals_decoded:
  assumes "\<And>s. concat (chunks s) = s" and "fs \<noteq> []"
    and "\<forall>f \<in> set fs. length (snd f) \<le> 16 * 1024 * 1024"
  shows "copyDockerLogStream keep_all chunks None (frames fs) [] = (None, decodeDockerLogStream (frames fs))"
proof -
  obtain f rest where fs: "fs = f # rest" using assms(2) by (cases fs) auto
  have m: "multiplexed (frames fs)" unfolding fs frames_simps by (rule multiplexed_frame)
  have l: "8 \<le> length (frames fs)" by (simp add: fs)
  have "copyDockerLogStream keep_all chunks None (frames fs) [] = (None, payloads fs)"
    using copy_frames_frames [of chunks f rest "[]"] assms(1,3) m l
    by (simp add: copyDockerLogStream_def multiplexed_take fs [symmetric])
  moreover have "decodeDockerLogStream (frames fs) = payloads fs"
    using decode_frames_frames [of fs "[]" "[]"] assms(3) m
    by (force simp: decodeDockerLogStream_def decode_frames_short)
  ultimately show ?thesis by simp
qed

theorem copied_log_equals_decoded_witness:
  "copyDockerLogStream keep_all (map (\<lambda>c. [c])) None (frames [(False, ''one''), (True, ''two'')]) [] =
     (None, ''onetwo'')"
proof -
  have c: "concat (map (\<lambda>c. [c]) s) = s" for s :: string by (simp add: concat_map_singleton)
  have d: "decodeDockerLogStream (frames [(False, ''one''), (True, ''two'')]) = ''onetwo''"
    by code_simp
  show ?thesis
    using copied_log_equals_decoded [of "map (\<lambda>c. [c])" "[(False, ''one''), (True, ''two'')]", OF c]
    by (simp add: d del: frames_simps)
qed

end
