(* ===== verification/Worker_Provision.thy ===== *)
theory Worker_Provision
  imports Worker_Admission Docker_Streams
begin

text \<open>
  Building a workstation, \<^verbatim>\<open>internal/dockerworker/service.go\<close>: image preparation, the
  gateway, the network sandbox and the container of every app, seeding the workspace, storage
  ownership, and the health waits. \<^verbatim>\<open>createResources\<close> is split where the gateway
  starts and where the loop over the apps begins.

  A wait polls until an answer is good, its deadline passes or the request is cancelled;
  \<open>ho_wait\<close> says, from the events so far, how often the ticker fires before the wait ends. The
  lengths of timeouts have no other effect. File mode 384 is octal 600.
\<close>

record host =
  ho_docker :: docker
  ho_wait :: "call list \<Rightarrow> nat"

abbreviation wireGuardSecretDirectory :: string where
  "wireGuardSecretDirectory \<equiv> ''/run/wslan''"
abbreviation wireGuardSecretFilename :: string where
  "wireGuardSecretFilename \<equiv> ''wg0.conf''"
abbreviation wslanIngressPort :: int where
  "wslanIngressPort \<equiv> 9000"

subsection \<open>Waiting\<close>

definition endpoint_text :: "string \<Rightarrow> int \<Rightarrow> string \<Rightarrow> string" where
  "endpoint_text host port path = ''http://'' @ host @ '':'' @ Itoa port @ path"

primrec poll_http :: "docker \<Rightarrow> call \<Rightarrow> string \<Rightarrow> nat \<Rightarrow> unit io" where
  "poll_http D c what 0 h =
     (case request D c h of
        (Inr r, h') \<Rightarrow> (if rsp_Code r < 400 then Inr () else Inl (TimedOut what), h')
      | (Inl _, h') \<Rightarrow> (Inl (TimedOut what), h'))"
| "poll_http D c what (Suc n) h =
     (case request D c h of
        (Inr r, h') \<Rightarrow> if rsp_Code r < 400 then (Inr (), h') else poll_http D c what n h'
      | (Inl _, h') \<Rightarrow> poll_http D c what n h')"

definition waitHTTP :: "host \<Rightarrow> string \<Rightarrow> int \<Rightarrow> string \<Rightarrow> (string \<times> string) list \<Rightarrow> unit io" where
  "waitHTTP H host port path headers h =
     poll_http (ho_docker H) (HTTPGet host port path headers) (endpoint_text host port path) (ho_wait H h) h"

primrec poll_healthy :: "docker \<Rightarrow> string \<Rightarrow> nat \<Rightarrow> unit io" where
  "poll_healthy D n 0 h =
     (case ContainerState D n h of
        (Inr (running, healthy, _), h') \<Rightarrow>
          (if running \<and> healthy then Inr () else if \<not> running then Inl ContainerExited
           else Inl (TimedOut n), h')
      | (Inl _, h') \<Rightarrow> (Inl (TimedOut n), h'))"
| "poll_healthy D n (Suc k) h =
     (case ContainerState D n h of
        (Inr (running, healthy, _), h') \<Rightarrow>
          if running \<and> healthy then (Inr (), h')
          else if \<not> running then (Inl ContainerExited, h')
          else poll_healthy D n k h'
      | (Inl _, h') \<Rightarrow> poll_healthy D n k h')"

definition waitContainerHealthy :: "host \<Rightarrow> string \<Rightarrow> unit io" where
  "waitContainerHealthy H n h = poll_healthy (ho_docker H) n (ho_wait H h) h"

definition capture :: "string \<Rightarrow> string \<Rightarrow> string \<Rightarrow> unit io" where
  "capture workstationID logName containerName h =
     (Inr (), h @ [Capture workstationID logName containerName])"

subsection \<open>Images\<close>

definition prepareImages :: "docker \<Rightarrow> Worker \<Rightarrow> ProvisionRequest \<Rightarrow> unit io" where
  "prepareImages D cfg req =
     seq_io (wrap ''pull WSLAN system image'' (EnsureImage D (wk_WSLANImage cfg))) (
     seq_io (if pr_WorkspaceImage req \<noteq> [] then
         wrap ''pull workspace image'' (EnsureImage D (pr_WorkspaceImage req)) else return_io ()) (
     each_io (\<lambda>app. wrap (''pull app '' @ as_ID app) (Pull D (as_Image app))) (pr_Apps req)))"

subsection \<open>One-shot containers\<close>

abbreviation workspaceSeedDirectory :: string where
  "workspaceSeedDirectory \<equiv> ''/opt/workspace-seed''"
abbreviation workspaceSeedMarker :: string where
  "workspaceSeedMarker \<equiv> ''/workspace/.workstation-seeded''"

definition seed_script :: string where
  "seed_script =
     ''set -e; if [ -e '' @ workspaceSeedMarker @ '' ]; then exit 0; fi; if [ -d '' @ workspaceSeedDirectory
     @ '' ]; then cp -a '' @ workspaceSeedDirectory @ ''/. /workspace/; fi; touch '' @ workspaceSeedMarker"

definition run_once :: "docker \<Rightarrow> ContainerConfig \<Rightarrow> unit io" where
  "run_once D config =
     seq_io (CreateContainer D config) (
     seq_io (ContainerAction D (cc_Name config) ''start'') (
     seq_io (WaitContainer D (cc_Name config)) (
     ContainerAction D (cc_Name config) ''delete'')))"

definition seed_config :: "ProvisionRequest \<Rightarrow> string \<Rightarrow> ContainerConfig" where
  "seed_config req workspaceVolume =
     no_config\<lparr>cc_Name := name (pr_WorkstationID req) ''seed-workspace'', cc_Image := pr_WorkspaceImage req,
       cc_Entrypoint := [''/bin/sh''], cc_Command := [''-c'', seed_script], cc_User := ''0:0'',
       cc_Labels := baseLabels (pr_WorkstationID req) ''seed'', cc_NetworkMode := ''none'',
       cc_MemoryBytes := 512 * 1024 * 1024, cc_NanoCPUs := 1000000000, cc_PIDLimit := 128,
       cc_Mounts := [\<lparr>mo_Source = workspaceVolume, mo_Target = ''/workspace''\<rparr>]\<rparr>"

definition seedWorkspace :: "docker \<Rightarrow> ProvisionRequest \<Rightarrow> string \<Rightarrow> unit io" where
  "seedWorkspace D req workspaceVolume =
     (if pr_WorkspaceImage req = [] then return_io ()
      else seq_io (ContainerAction D (name (pr_WorkstationID req) ''seed-workspace'') ''delete'')
        (run_once D (seed_config req workspaceVolume)))"

text \<open>The owner the app's storage asks for, and the mounts it applies to.\<close>

primrec storage_owner ::
  "string \<Rightarrow> string list \<Rightarrow> (StorageSpec \<times> Mount) list \<Rightarrow> (worker_error, string \<times> string list) result" where
  "storage_owner owner targets [] = Inr (owner, targets)"
| "storage_owner owner targets (sm # sms) =
     (case sm of (storage, mount) \<Rightarrow>
        if ss_OwnerUID storage = 0 \<and> ss_OwnerGID storage = 0 then storage_owner owner targets sms
        else
          (let candidate = Itoa (ss_OwnerUID storage) @ '':'' @ Itoa (ss_OwnerGID storage) in
           if owner \<noteq> [] \<and> owner \<noteq> candidate then Inl MultipleOwners
           else storage_owner candidate (targets @ [mo_Target mount]) sms))"

definition init_config :: "string \<Rightarrow> AppSpec \<Rightarrow> Mount list \<Rightarrow> string \<Rightarrow> string list \<Rightarrow> ContainerConfig" where
  "init_config workstationID app mounts owner targets =
     no_config\<lparr>cc_Name := name workstationID (''init-'' @ as_ID app), cc_Image := as_Image app,
       cc_Entrypoint := [''chown''], cc_Command := [''-R'', owner] @ targets, cc_User := ''0:0'',
       cc_Labels := baseLabels workstationID ''init'', cc_NetworkMode := ''none'',
       cc_MemoryBytes := 128 * 1024 * 1024, cc_NanoCPUs := 100000000, cc_PIDLimit := 64,
       cc_Mounts := mounts\<rparr>"

definition initializeStorage :: "docker \<Rightarrow> string \<Rightarrow> AppSpec \<Rightarrow> Mount list \<Rightarrow> unit io" where
  "initializeStorage D workstationID app mounts =
     (case storage_owner [] [] (zip (as_Storage app) mounts) of
        Inl e \<Rightarrow> fail_io e
      | Inr (owner, targets) \<Rightarrow>
          if targets = [] then return_io ()
          else run_once D (init_config workstationID app mounts owner targets))"

subsection \<open>The gateway\<close>

definition gateway_config :: "Worker \<Rightarrow> ProvisionRequest \<Rightarrow> string \<Rightarrow> ContainerConfig" where
  "gateway_config cfg req subnet =
     (let mode = Resolve (pr_EgressMode req) (pr_VPNRequired req);
          appMappings = sort (map (\<lambda>app. as_ID app @ ''='' @ Itoa (as_InternalPort app)) (pr_Apps req))
      in no_config\<lparr>cc_Name := name (pr_WorkstationID req) ''wslan'', cc_Image := wk_WSLANImage cfg,
           cc_Environment := [(''WSLAN_ROLE'', ''gateway''), (''WSLAN_MODE'', mode),
             (''WSLAN_INTERNAL_CIDR'', subnet), (''WSLAN_TOKEN'', wk_Token cfg),
             (''WSLAN_APPS'', Join appMappings (CHR '',''))],
           cc_Labels := baseLabels (pr_WorkstationID req) ''wslan'',
           cc_NetworkMode := wk_ManagementNetwork cfg,
           cc_MemoryBytes := 256 * 1024 * 1024, cc_NanoCPUs := 500000000, cc_PIDLimit := 256,
           cc_CapAdd := [''NET_ADMIN''], cc_Ports := [wslanIngressPort],
           cc_Sysctls := (''net.ipv4.ip_forward'', ''1'') #
             (if RequiresIPv6 mode then
                [(''net.ipv6.conf.all.forwarding'', ''1''), (''net.ipv6.conf.all.disable_ipv6'', ''0'')]
              else []),
           cc_Devices := (if RequiresVPNProfile mode then
              [[(''PathOnHost'', ''/dev/net/tun''), (''PathInContainer'', ''/dev/net/tun''),
                (''CgroupPermissions'', ''rwm'')]] else [])\<rparr>)"

text \<open>
  The stages: everything up to connecting the gateway to the workstation's network, the profile, and
  from the gateway's start to its internal address.
\<close>

definition connect_gateway :: "docker \<Rightarrow> Worker \<Rightarrow> ProvisionRequest \<Rightarrow> unit io" where
  "connect_gateway D cfg req =
     (let w = pr_WorkstationID req;
          mode = Resolve (pr_EgressMode req) (pr_VPNRequired req);
          workspaceVolume = name w ''workspace''; wslanNetwork = name w ''wslan''; gatewayName = name w ''wslan''
      in
       seq_io (wrap ''create workspace volume'' (CreateVolume D workspaceVolume (baseLabels w ''volume''))) (
       seq_io (wrap ''seed workspace'' (seedWorkspace D req workspaceVolume)) (
       seq_io (wrap ''create WSLAN network''
         (CreateNetwork D wslanNetwork (baseLabels w ''network'') (RequiresIPv6 mode))) (
       bind_io (wrap ''inspect WSLAN network'' (InspectNetwork D wslanNetwork)) (\<lambda>networkInfo.
       seq_io (wrap ''create WSLAN gateway'' (CreateContainer D (gateway_config cfg req (nw_Subnet networkInfo))))
         (wrap ''connect WSLAN gateway'' (ConnectNetwork D wslanNetwork gatewayName [''wslan-gateway''])))))))"

definition inject_profile :: "docker \<Rightarrow> ProvisionRequest \<Rightarrow> unit io" where
  "inject_profile D req =
     (if RequiresVPNProfile (Resolve (pr_EgressMode req) (pr_VPNRequired req)) then
        (case pr_VPNProfile req of
           None \<Rightarrow> fail_io NilDereference
         | Some config \<Rightarrow>
             wrap ''inject WireGuard profile'' (CopyFile D (name (pr_WorkstationID req) ''wslan'')
               wireGuardSecretDirectory wireGuardSecretFilename config 384))
      else return_io ())"

definition start_gateway :: "host \<Rightarrow> string \<Rightarrow> string io" where
  "start_gateway H w =
     (let D = ho_docker H; wslanNetwork = name w ''wslan''; gatewayName = name w ''wslan'' in
       seq_io (wrap ''start WSLAN gateway'' (ContainerAction D gatewayName ''start'')) (
       seq_io (capture w ''wslan'' gatewayName) (
       seq_io (wrap ''WSLAN gateway did not become healthy''
         (waitHTTP H gatewayName wslanIngressPort ''/healthz'' [])) (
       bind_io (wrap ''inspect connected WSLAN'' (InspectNetwork D wslanNetwork)) (\<lambda>networkInfo.
         let gatewayAddress = label (nw_Containers networkInfo) gatewayName in
         if gatewayAddress = [] then fail_io NoInternalAddress else return_io gatewayAddress)))))"

subsection \<open>Apps\<close>

definition sandbox_config :: "Worker \<Rightarrow> string \<Rightarrow> string \<Rightarrow> AppSpec \<Rightarrow> ContainerConfig" where
  "sandbox_config cfg w gatewayAddress app =
     no_config\<lparr>cc_Name := name w (''net-'' @ as_ID app), cc_Image := wk_WSLANImage cfg,
       cc_Environment := [(''WSLAN_ROLE'', ''sandbox''), (''WSLAN_GATEWAY'', gatewayAddress)],
       cc_Labels := baseLabels w ''sandbox'' @ [(LabelAppID, as_ID app)], cc_NetworkMode := name w ''wslan'',
       cc_MemoryBytes := 32 * 1024 * 1024, cc_NanoCPUs := 50000000, cc_PIDLimit := 16,
       cc_CapAdd := [''NET_ADMIN''], cc_DNS := [gatewayAddress],
       cc_NetworkAliases := [''app-'' @ as_ID app, as_ID app]\<rparr>"

definition storage_source :: "string \<Rightarrow> AppSpec \<Rightarrow> StorageSpec \<Rightarrow> string" where
  "storage_source w app storage =
     (if ss_Type storage \<noteq> ''workspace'' then name w (as_ID app @ ''-'' @ ss_Type storage)
      else name w ''workspace'')"

definition app_mounts :: "string \<Rightarrow> AppSpec \<Rightarrow> Mount list" where
  "app_mounts w app =
     map (\<lambda>storage. \<lparr>mo_Source = storage_source w app storage, mo_Target = ss_Target storage\<rparr>) (as_Storage app)"

definition app_config :: "ProvisionRequest \<Rightarrow> AppSpec \<Rightarrow> ContainerConfig" where
  "app_config req app =
     (let w = pr_WorkstationID req in
      no_config\<lparr>cc_Name := name w (''app-'' @ as_ID app), cc_Image := as_Image app,
        cc_Command := as_Command app, cc_Environment := as_Environment app,
        cc_Labels := baseLabels w ''app'' @ [(LabelAppID, as_ID app)],
        cc_NetworkMode := ''container:'' @ name w (''net-'' @ as_ID app),
        cc_MemoryBytes := as_MemoryMB app * 1024 * 1024,
        cc_NanoCPUs := int64_of_float (float_times (as_CPU app) 1000000000),
        cc_PIDLimit := pr_PIDLimit req, cc_ShmSizeBytes := as_ShmSizeMB app * 1024 * 1024,
        cc_CapAdd := as_Capabilities app, cc_Mounts := app_mounts w app\<rparr>)"

definition create_app :: "host \<Rightarrow> Worker \<Rightarrow> ProvisionRequest \<Rightarrow> string \<Rightarrow> AppSpec \<Rightarrow> unit io" where
  "create_app H cfg req gatewayAddress app =
     (let D = ho_docker H; w = pr_WorkstationID req;
          sandboxName = name w (''net-'' @ as_ID app); appName = name w (''app-'' @ as_ID app)
      in
       seq_io (wrap (''create network sandbox for app '' @ as_ID app)
         (CreateContainer D (sandbox_config cfg w gatewayAddress app))) (
       seq_io (wrap (''start network sandbox for app '' @ as_ID app) (ContainerAction D sandboxName ''start'')) (
       seq_io (capture w (''network-'' @ as_ID app) sandboxName) (
       seq_io (each_io (\<lambda>storage.
           if ss_Type storage \<noteq> ''workspace'' then
             wrap ''create app volume'' (CreateVolume D (storage_source w app storage) (baseLabels w ''volume''))
           else return_io ()) (as_Storage app)) (
       seq_io (wrap (''initialize storage for app '' @ as_ID app) (initializeStorage D w app (app_mounts w app))) (
       seq_io (wrap (''create app '' @ as_ID app) (CreateContainer D (app_config req app))) (
       seq_io (wrap (''start app '' @ as_ID app) (ContainerAction D appName ''start'')) (
       seq_io (capture w (as_ID app) appName) (
       if as_HealthPath app \<noteq> [] then
         wrap (''app '' @ as_ID app @ '' did not become healthy'')
           (waitHTTP H (name w ''wslan'') wslanIngressPort (as_HealthPath app)
             [(''X-Contain-WSLAN-Token'', wk_Token cfg), (''X-Contain-WSLAN-App'', as_ID app)])
       else return_io ())))))))))"

definition createResources :: "host \<Rightarrow> Worker \<Rightarrow> ProvisionRequest \<Rightarrow> unit io" where
  "createResources H cfg req =
     seq_io (connect_gateway (ho_docker H) cfg req) (
     seq_io (inject_profile (ho_docker H) req) (
     bind_io (start_gateway H (pr_WorkstationID req)) (\<lambda>gatewayAddress.
       each_io (create_app H cfg req gatewayAddress) (pr_Apps req))))"

definition provisionResources :: "host \<Rightarrow> Worker \<Rightarrow> ProvisionRequest \<Rightarrow> unit io" where
  "provisionResources H cfg req =
     seq_io (prepareImages (ho_docker H) cfg req) (createResources H cfg req)"

definition rebuildResources :: "host \<Rightarrow> Worker \<Rightarrow> ProvisionRequest \<Rightarrow> unit io" where
  "rebuildResources H cfg req =
     (let D = ho_docker H; w = pr_WorkstationID req in
      seq_io (prepareImages D cfg req) (
      bind_io (ListManaged D w) (\<lambda>resources.
      seq_io (each_io (\<lambda>resource.
          if re_Kind resource \<noteq> ''app'' \<and> re_Kind resource \<noteq> ''vpn'' \<and> re_Kind resource \<noteq> ''wslan''
             \<and> re_Kind resource \<noteq> ''sandbox''
          then return_io ()
          else wrap (''replace container '' @ re_Name resource) (ContainerAction D (re_Name resource) ''delete''))
        (rank_descending resources)) (
      bind_io (listManagedNetworks D w) (\<lambda>networks.
      seq_io (each_io (\<lambda>network. wrap (''replace network '' @ network) (DeleteNetwork D network)) networks)
        (createResources H cfg req))))))"

end
