(* ===== verification/Worker_Confinement.thy ===== *)
theory Worker_Confinement
  imports Worker_Provision
begin

text \<open>
  What provisioning does, in which order, and to what: no event of an app before the gateway has
  answered its health check, no start of a tunnelled gateway before its profile is in place, and
  every request names only resources of the workstation, with the confinement its kind has. The
  statements hold for every daemon and every way a step can fail.
\<close>

subsection \<open>Requests of the building blocks\<close>

lemma poll_http_sends: "sends (poll_http D c what n) {c}"
proof (rule sendsI)
  fix h
  show "\<exists>cs. snd (poll_http D c what n h) = h @ cs \<and> set cs \<subseteq> {c}"
  proof (induction n arbitrary: h)
    case 0
    show ?case by (cases "D h c") (simp_all add: request_def)
  next
    case (Suc n)
    obtain cs where "snd (poll_http D c what n (h @ [c])) = (h @ [c]) @ cs \<and> set cs \<subseteq> {c}"
      using Suc by blast
    then show ?case by (cases "D h c") (auto simp: request_def)
  qed
qed

lemma sends_waitHTTP [sends_intros]:
  "HTTPGet n port path headers \<in> S \<Longrightarrow> sends (waitHTTP H n port path headers) S"
proof -
  assume c: "HTTPGet n port path headers \<in> S"
  have "sends (poll_http D (HTTPGet n port path headers) what k) S" for D what k
    using sends_mono [OF poll_http_sends] c by blast
  then show ?thesis unfolding sends_def waitHTTP_def by blast
qed

lemma sends_capture [sends_intros]: "Capture w l c \<in> S \<Longrightarrow> sends (capture w l c) S"
  by (simp add: sends_def capture_def)

lemma sends_run_once [sends_intros]:
  "ContainerCreate (cc_Name c) (container_request c) \<in> S \<Longrightarrow> ContainerInspect (cc_Name c) \<in> S \<Longrightarrow>
   ContainerStart (cc_Name c) \<in> S \<Longrightarrow> ContainerWait (cc_Name c) \<in> S \<Longrightarrow> ContainerRemove (cc_Name c) \<in> S \<Longrightarrow>
   sends (run_once D c) S"
  unfolding run_once_def by (intro sends_intros) simp_all

text \<open>A good answer ends a wait; without one it ends after the last tick.\<close>

lemma poll_http_ok:
  "poll_http D c what n h = (Inr (), h') \<Longrightarrow>
   \<exists>a r. h' = h @ a @ [c] \<and> D (h @ a) c = Inr r \<and> rsp_Code r < 400"
proof (induction n arbitrary: h)
  case 0
  then show ?case by (cases "D h c") (auto simp: request_def split: if_splits)
next
  case (Suc n)
  show ?case
  proof (cases "\<exists>r. D h c = Inr r \<and> rsp_Code r < 400")
    case True
    with Suc.prems show ?thesis by (auto simp: request_def)
  next
    case False
    with Suc.prems have "poll_http D c what n (h @ [c]) = (Inr (), h')"
      by (cases "D h c") (auto simp: request_def)
    from Suc.IH [OF this] obtain a r where "h' = (h @ [c]) @ a @ [c]" "D ((h @ [c]) @ a) c = Inr r"
      "rsp_Code r < 400" by blast
    then show ?thesis by (intro exI [of _ "[c] @ a"] exI [of _ r]) simp
  qed
qed

lemma poll_http_length: "length (snd (poll_http D c what n h)) \<le> length h + Suc n"
proof (induction n arbitrary: h)
  case 0
  show ?case by (cases "D h c") (simp_all add: request_def)
next
  case (Suc n)
  from Suc [of "h @ [c]"] show ?case by (cases "D h c") (auto simp: request_def)
qed

subsection \<open>Phases\<close>

definition app_event :: "string \<Rightarrow> call \<Rightarrow> bool" where
  "app_event w c =
     (\<exists>i. c = ContainerStart (name w (''app-'' @ i)) \<or> c = ContainerStart (name w (''net-'' @ i))
        \<or> (\<exists>b. c = ContainerCreate (name w (''app-'' @ i)) b \<or> c = ContainerCreate (name w (''net-'' @ i)) b))"

lemma app_event_simps [simp]:
  "app_event w (ContainerStart (name w s)) \<longleftrightarrow> HasPrefix s ''app-'' \<or> HasPrefix s ''net-''"
  "app_event w (ContainerCreate (name w s) b) \<longleftrightarrow> HasPrefix s ''app-'' \<or> HasPrefix s ''net-''"
  by (auto simp: app_event_def name_inj_suffix HasPrefix_iff)

lemma app_event_other [simp]:
  "\<not> app_event w (VolumeCreate n ls)" "\<not> app_event w (NetworkCreate n ls v)"
  "\<not> app_event w (NetworkInspect n)" "\<not> app_event w (NetworkConnect n c as)"
  "\<not> app_event w (ContainerWait n)" "\<not> app_event w (ArchivePut n d f x m)"
  "\<not> app_event w (ContainerInspect n)" "\<not> app_event w (ContainerRemove n)"
  "\<not> app_event w (HTTPGet n port path headers)" "\<not> app_event w (Capture a l c)"
  by (simp_all add: app_event_def)

lemma gateway_config_name [simp]: "cc_Name (gateway_config cfg req subnet) = name (pr_WorkstationID req) ''wslan''"
  by (simp add: gateway_config_def Let_def)

lemma seed_config_name [simp]: "cc_Name (seed_config req v) = name (pr_WorkstationID req) ''seed-workspace''"
  by (simp add: seed_config_def)

definition before_start :: "string \<Rightarrow> call set" where
  "before_start w = {c. \<not> app_event w c \<and> c \<noteq> ContainerStart (name w ''wslan'')}"

lemma before_start_simps [simp]:
  "VolumeCreate n ls \<in> before_start w" "NetworkCreate n ls v \<in> before_start w"
  "NetworkInspect n \<in> before_start w" "NetworkConnect n c as \<in> before_start w"
  "ContainerWait n \<in> before_start w" "ArchivePut n d f x m \<in> before_start w"
  "ContainerInspect n \<in> before_start w" "ContainerRemove n \<in> before_start w"
  "ContainerStart (name w s) \<in> before_start w \<longleftrightarrow>
     \<not> HasPrefix s ''app-'' \<and> \<not> HasPrefix s ''net-'' \<and> s \<noteq> ''wslan''"
  "ContainerCreate (name w s) b \<in> before_start w \<longleftrightarrow> \<not> HasPrefix s ''app-'' \<and> \<not> HasPrefix s ''net-''"
  by (auto simp: before_start_def name_inj_suffix)

lemma connect_gateway_sends: "sends (connect_gateway D cfg req) (before_start (pr_WorkstationID req))"
  unfolding connect_gateway_def seedWorkspace_def Let_def
  by (intro sends_intros) (simp_all add: HasPrefix_def)

lemma inject_profile_sends: "sends (inject_profile D req) (before_start (pr_WorkstationID req))"
  unfolding inject_profile_def by (intro sends_intros) simp

lemma start_gateway_sends: "sends (start_gateway H w) {c. \<not> app_event w c}"
  unfolding start_gateway_def Let_def by (intro sends_intros) (simp_all add: HasPrefix_def)

lemma inject_profile_ok:
  assumes "inject_profile D req h = (Inr (), h')"
    and "Resolve (pr_EgressMode req) (pr_VPNRequired req) = WireGuard"
  shows "\<exists>config r. pr_VPNProfile req = Some config \<and>
    h' = h @ [ArchivePut (name (pr_WorkstationID req) ''wslan'') ''/run/wslan'' ''wg0.conf'' config 384]
    \<and> D h (ArchivePut (name (pr_WorkstationID req) ''wslan'') ''/run/wslan'' ''wg0.conf'' config 384) = Inr r
    \<and> rsp_Code r = 200"
  using assms
  by (auto simp: inject_profile_def RequiresVPNProfile_def CopyFile_def io_ok split: option.splits)

lemma start_gateway_ok:
  assumes "start_gateway H w h = (Inr address, h')"
  shows "\<exists>a b r. h' = h @ a @ HTTPGet (name w ''wslan'') wslanIngressPort ''/healthz'' [] # b
    \<and> ho_docker H (h @ a) (HTTPGet (name w ''wslan'') wslanIngressPort ''/healthz'' []) = Inr r
    \<and> rsp_Code r < 400"
proof -
  let ?c = "HTTPGet (name w ''wslan'') wslanIngressPort ''/healthz'' []"
  from assms obtain h1 h2 h3 info h4 where
      1: "ContainerAction (ho_docker H) (name w ''wslan'') ''start'' h = (Inr (), h1)"
    and 2: "capture w ''wslan'' (name w ''wslan'') h1 = (Inr (), h2)"
    and 3: "waitHTTP H (name w ''wslan'') wslanIngressPort ''/healthz'' [] h2 = (Inr (), h3)"
    and 4: "InspectNetwork (ho_docker H) (name w ''wslan'') h3 = (Inr info, h4)" and 5: "h' = h4"
    by (auto simp: start_gateway_def Let_def bind_io_ok seq_io_ok wrap_ok if_fail_ok return_io_ok)
  from poll_http_ok [OF 3 [unfolded waitHTTP_def]] obtain a r where
    a: "h3 = h2 @ a @ [?c]" "ho_docker H (h2 @ a) ?c = Inr r" "rsp_Code r < 400" by blast
  have h2: "h2 = h @ [ContainerStart (name w ''wslan''), Capture w ''wslan'' (name w ''wslan'')]"
    using ContainerAction_ok(1) [OF 1] 2 by (simp add: capture_def)
  have "h' = h3 @ [NetworkInspect (name w ''wslan'')]" using InspectNetwork_ok [OF 4] 5 by simp
  with a h2 show ?thesis
    by (intro exI [of _ "[ContainerStart (name w ''wslan''), Capture w ''wslan'' (name w ''wslan'')] @ a"]
        exI [of _ "[NetworkInspect (name w ''wslan'')]"] exI [of _ r]) simp
qed

text \<open>The three parts of any run, whether it succeeds or stops somewhere.\<close>

lemma seq_io_run:
  assumes "seq_io m k h = (r, h')"
  shows "(\<exists>e. m h = (Inl e, h') \<and> r = Inl e) \<or> (\<exists>h1. m h = (Inr (), h1) \<and> k h1 = (r, h'))"
  using assms by (auto simp: seq_io_def bind_io_def split: prod.splits sum.splits)

lemma bind_io_run:
  assumes "bind_io m k h = (r, h')"
  shows "(\<exists>e. m h = (Inl e, h') \<and> r = Inl e) \<or> (\<exists>x h1. m h = (Inr x, h1) \<and> k x h1 = (r, h'))"
  using assms by (auto simp: bind_io_def split: prod.splits sum.splits)

lemma create_app_sends_any: "sends (create_app H cfg req address app) UNIV"
  unfolding create_app_def initializeStorage_def Let_def
  by (intro sends_intros) (auto split: sum.splits prod.splits intro!: sends_intros)

lemma each_create_app_extends:
  "each_io (create_app H cfg req address) apps h = (r, h') \<Longrightarrow> \<exists>cs. h' = h @ cs"
  by (drule sendsD [OF sends_each [OF create_app_sends_any]]) blast

lemma createResources_phases:
  assumes "createResources H cfg req h = (r, h')"
  obtains (stopped) cs where "h' = h @ cs" "set cs \<subseteq> before_start (pr_WorkstationID req)"
  | (started) h1 h2 x h3 where
      "connect_gateway (ho_docker H) cfg req h = (Inr (), h1)"
      "inject_profile (ho_docker H) req h1 = (Inr (), h2)"
      "start_gateway H (pr_WorkstationID req) h2 = (x, h3)"
      "(\<exists>e. x = Inl e \<and> h' = h3) \<or>
       (\<exists>address. x = Inr address \<and> each_io (create_app H cfg req address) (pr_Apps req) h3 = (r, h'))"
  using seq_io_run [OF assms [unfolded createResources_def]]
proof (elim disjE exE conjE)
  fix e assume "connect_gateway (ho_docker H) cfg req h = (Inl e, h')"
  from sendsD [OF connect_gateway_sends this] show thesis using stopped by blast
next
  fix h1 assume 1: "connect_gateway (ho_docker H) cfg req h = (Inr (), h1)"
    and rest: "seq_io (inject_profile (ho_docker H) req) (bind_io (start_gateway H (pr_WorkstationID req))
      (\<lambda>address. each_io (create_app H cfg req address) (pr_Apps req))) h1 = (r, h')"
  from seq_io_run [OF rest] show thesis
  proof (elim disjE exE conjE)
    fix e assume "inject_profile (ho_docker H) req h1 = (Inl e, h')"
    from sendsD [OF connect_gateway_sends 1] sendsD [OF inject_profile_sends this]
    obtain cs ds where "h1 = h @ cs" "h' = h1 @ ds" "set (cs @ ds) \<subseteq> before_start (pr_WorkstationID req)"
      by auto
    then show thesis using stopped [of "cs @ ds"] by simp
  next
    fix h2 assume 2: "inject_profile (ho_docker H) req h1 = (Inr (), h2)"
      and rest2: "bind_io (start_gateway H (pr_WorkstationID req))
        (\<lambda>address. each_io (create_app H cfg req address) (pr_Apps req)) h2 = (r, h')"
    from bind_io_run [OF rest2] show thesis using started [OF 1 2] by blast
  qed
qed

subsection \<open>Properties\<close>

text \<open>
  C2: the order of provisioning. Whatever the daemon answers and wherever a run of
  \<^verbatim>\<open>createResources\<close> stops, its events fall into three parts. Before the gateway is
  started no container of an app or of an app's network sandbox is created or started; a gateway in
  mode \<^verbatim>\<open>wireguard\<close> is started only directly after Docker accepted its profile, written
  as a file readable by its owner alone; and apps are touched only after the gateway has answered
  its health check.
\<close>

theorem gateway_before_apps:
  assumes "createResources H cfg req h = (r, h')"
    and gw: "gw = name (pr_WorkstationID req) ''wslan''"
  shows "\<exists>p q a. h' = h @ p @ q @ a
    \<and> (\<forall>c \<in> set p. \<not> app_event (pr_WorkstationID req) c \<and> c \<noteq> ContainerStart gw)
    \<and> (\<forall>c \<in> set q. \<not> app_event (pr_WorkstationID req) c)
    \<and> (q \<noteq> [] \<and> Resolve (pr_EgressMode req) (pr_VPNRequired req) = WireGuard \<longrightarrow>
        (\<exists>config p' s. pr_VPNProfile req = Some config
          \<and> p = p' @ [ArchivePut gw ''/run/wslan'' ''wg0.conf'' config 384]
          \<and> ho_docker H (h @ p') (ArchivePut gw ''/run/wslan'' ''wg0.conf'' config 384) = Inr s
          \<and> rsp_Code s = 200))
    \<and> (a \<noteq> [] \<longrightarrow>
        (\<exists>q1 q2 s. q = q1 @ HTTPGet gw 9000 ''/healthz'' [] # q2
          \<and> ho_docker H (h @ p @ q1) (HTTPGet gw 9000 ''/healthz'' []) = Inr s \<and> rsp_Code s < 400))"
  using assms(1)
proof (cases rule: createResources_phases)
  case (stopped cs)
  then show ?thesis
    by (intro exI [of _ cs] exI [of _ "[]"]) (auto simp: before_start_def gw)
next
  case (started h1 h2 x h3)
  let ?w = "pr_WorkstationID req"
  from sendsD [OF connect_gateway_sends started(1)] obtain cs where cs: "h1 = h @ cs"
    "set cs \<subseteq> before_start ?w" by blast
  from sendsD [OF inject_profile_sends started(2)] obtain ds where ds: "h2 = h1 @ ds"
    "set ds \<subseteq> before_start ?w" by blast
  from sendsD [OF start_gateway_sends started(3)] obtain q where q: "h3 = h2 @ q"
    "set q \<subseteq> {c. \<not> app_event ?w c}" by blast
  from started(4) each_create_app_extends obtain a where a: "h' = h3 @ a"
    and a_ok: "a \<noteq> [] \<Longrightarrow> \<exists>address. x = Inr address" by fastforce
  have profile: "\<exists>config p' s. pr_VPNProfile req = Some config
      \<and> cs @ ds = p' @ [ArchivePut gw ''/run/wslan'' ''wg0.conf'' config 384]
      \<and> ho_docker H (h @ p') (ArchivePut gw ''/run/wslan'' ''wg0.conf'' config 384) = Inr s
      \<and> rsp_Code s = 200" if "Resolve (pr_EgressMode req) (pr_VPNRequired req) = WireGuard"
    using inject_profile_ok [OF started(2) that] cs(1) ds(1) gw by auto
  have healthy: "\<exists>q1 q2 s. q = q1 @ HTTPGet gw 9000 ''/healthz'' [] # q2
      \<and> ho_docker H (h @ (cs @ ds) @ q1) (HTTPGet gw 9000 ''/healthz'' []) = Inr s \<and> rsp_Code s < 400"
    if "a \<noteq> []"
  proof -
    from a_ok [OF that] started(3) obtain address where "start_gateway H ?w h2 = (Inr address, h3)" by blast
    from start_gateway_ok [OF this] show ?thesis using q(1) cs(1) ds(1) gw by auto
  qed
  have split: "h' = h @ (cs @ ds) @ q @ a" using cs(1) ds(1) q(1) a by simp
  have quiet: "\<forall>c \<in> set (cs @ ds). \<not> app_event ?w c \<and> c \<noteq> ContainerStart gw"
    using cs(2) ds(2) gw by (auto simp: before_start_def)
  have quiet2: "\<forall>c \<in> set q. \<not> app_event ?w c" using q(2) by blast
  show ?thesis
  proof (intro exI conjI)
    show "h' = h @ (cs @ ds) @ q @ a" by (rule split)
    show "\<forall>c \<in> set (cs @ ds). \<not> app_event ?w c \<and> c \<noteq> ContainerStart gw" by (rule quiet)
    show "\<forall>c \<in> set q. \<not> app_event ?w c" by (rule quiet2)
  qed (rule impI, (erule conjE)?, erule profile healthy)+
qed

text \<open>A daemon on which everything succeeds; the gateway answers its second health check.\<close>

definition sample_docker :: docker where
  "sample_docker h c =
     (case c of
        VolumeCreate n ls \<Rightarrow> reply 201 (Volume_Body n ls)
      | NetworkCreate n ls v6 \<Rightarrow> reply 201 Undecodable_Body
      | NetworkInspect n \<Rightarrow> reply 200 (Network_Body
          \<lparr>ni_Name = n, ni_Internal = True, ni_Labels = baseLabels ''ws-abcdef'' ''network'',
           ni_Subnets = [''10.9.0.0/24''], ni_Endpoints = [(''wm-ws-abcdef-wslan'', ''10.9.0.2/24'')]\<rparr>)
      | ContainerCreate n b \<Rightarrow> reply 201 Undecodable_Body
      | ArchivePut n d f x m \<Rightarrow> reply 200 Undecodable_Body
      | ContainerWait n \<Rightarrow> reply 200 (Wait_Body 0 None)
      | HTTPGet n p path hs \<Rightarrow> reply (if c \<in> set h then 200 else 503) Undecodable_Body
      | _ \<Rightarrow> reply 204 Undecodable_Body)"

definition sample_host :: host where
  "sample_host = \<lparr>ho_docker = sample_docker, ho_wait = (\<lambda>_. 89)\<rparr>"

lemma sample_created:
  "fst (createResources sample_host sample_worker sample_request []) = Inr ()"
  by code_simp

theorem gateway_before_apps_witness:
  "\<exists>q1 q2 s. snd (createResources sample_host sample_worker sample_request []) =
      q1 @ HTTPGet ''wm-ws-abcdef-wslan'' 9000 ''/healthz'' [] # q2
    \<and> sample_docker q1 (HTTPGet ''wm-ws-abcdef-wslan'' 9000 ''/healthz'' []) = Inr s \<and> rsp_Code s < 400"
proof -
  let ?w = "pr_WorkstationID sample_request"
  let ?t = "snd (createResources sample_host sample_worker sample_request [])"
  have "createResources sample_host sample_worker sample_request [] = (Inr (), ?t)"
    using sample_created by (metis prod.collapse)
  from gateway_before_apps [OF this refl] obtain p q a where
    t: "?t = p @ q @ a" and p: "\<forall>c \<in> set p. \<not> app_event ?w c" and q: "\<forall>c \<in> set q. \<not> app_event ?w c"
    and a: "a \<noteq> [] \<Longrightarrow> \<exists>q1 q2 s. q = q1 @ HTTPGet (name ?w ''wslan'') 9000 ''/healthz'' [] # q2
       \<and> ho_docker sample_host (p @ q1) (HTTPGet (name ?w ''wslan'') 9000 ''/healthz'' []) = Inr s
       \<and> rsp_Code s < 400"
    unfolding append_Nil by blast
  have "ContainerStart (name ?w ''app-files'') \<in> set ?t" by code_simp
  moreover have "app_event ?w (ContainerStart (name ?w ''app-files''))" by (simp add: HasPrefix_def)
  ultimately have "a \<noteq> []" using t p q by auto
  from a [OF this] obtain q1 q2 s where "q = q1 @ HTTPGet (name ?w ''wslan'') 9000 ''/healthz'' [] # q2"
    "ho_docker sample_host (p @ q1) (HTTPGet (name ?w ''wslan'') 9000 ''/healthz'' []) = Inr s"
    "rsp_Code s < 400" by blast
  moreover have "name ?w ''wslan'' = ''wm-ws-abcdef-wslan''" by code_simp
  ultimately show ?thesis
    using t by (intro exI [of _ "p @ q1"] exI [of _ "q2 @ a"] exI [of _ s]) (simp add: sample_host_def)
qed

subsection \<open>What requests name\<close>

definition own :: "string \<Rightarrow> string \<Rightarrow> bool" where
  "own w n = HasPrefix n (name w [])"

lemma own_name [simp]: "own w (name w s)"
  by (simp add: own_def name_def HasPrefix_def)

definition body_confined :: "Worker \<Rightarrow> string \<Rightarrow> string \<Rightarrow> container_body \<Rightarrow> bool" where
  "body_confined cfg w n b =
     (own w n \<and> cb_SecurityOpt b = [''no-new-privileges:true'']
      \<and> label (cb_Labels b) LabelManagedBy = ManagedByValue \<and> label (cb_Labels b) LabelWorkstationID = w
      \<and> list_all (\<lambda>(kind, source, target). kind = ''volume'' \<and> own w source) (cb_Mounts b)
      \<and> (if n = name w ''wslan'' then cb_NetworkMode b = wk_ManagementNetwork cfg
         else cb_NetworkMode b = ''none'' \<or> cb_NetworkMode b = name w ''wslan''
           \<or> HasPrefix (cb_NetworkMode b) (''container:'' @ name w ''net-''))
      \<and> (list_all (\<lambda>c. c = ''NET_RAW'') (cb_CapAdd b)
         \<or> cb_Image b = wk_WSLANImage cfg \<and> cb_CapAdd b = [''NET_ADMIN'']))"

definition call_confined :: "Worker \<Rightarrow> string \<Rightarrow> call \<Rightarrow> bool" where
  "call_confined cfg w c =
     (case c of
        VolumeCreate n ls \<Rightarrow> own w n \<and> label ls LabelWorkstationID = w
      | NetworkCreate n ls v6 \<Rightarrow> own w n \<and> label ls LabelWorkstationID = w
      | NetworkInspect n \<Rightarrow> own w n
      | NetworkConnect n k as \<Rightarrow> n = name w ''wslan'' \<and> k = name w ''wslan''
      | ContainerCreate n b \<Rightarrow> body_confined cfg w n b
      | ContainerInspect n \<Rightarrow> own w n
      | ContainerWait n \<Rightarrow> own w n
      | ContainerStart n \<Rightarrow> own w n
      | ContainerRemove n \<Rightarrow> own w n
      | ArchivePut n d f x m \<Rightarrow> n = name w ''wslan'' \<and> m = 384
      | HTTPGet n port path hs \<Rightarrow> n = name w ''wslan'' \<and> port = 9000
      | Capture v l k \<Rightarrow> v = w \<and> own w k
      | _ \<Rightarrow> False)"

lemma label_base [simp]:
  "label (baseLabels w k @ ls) LabelManagedBy = ManagedByValue"
  "label (baseLabels w k @ ls) LabelWorkstationID = w"
  "label (baseLabels w k) LabelManagedBy = ManagedByValue"
  "label (baseLabels w k) LabelWorkstationID = w"
  by (simp_all add: baseLabels_def label_def)

lemma app_mounts_own: "list_all (\<lambda>m. own w (mo_Source m)) (app_mounts w app)"
  by (simp add: app_mounts_def list_all_iff storage_source_def)

lemma gateway_confined: "body_confined cfg w (name w ''wslan'') (container_request (gateway_config cfg req subnet))"
  if "w = pr_WorkstationID req"
  using that by (simp add: body_confined_def container_request_def gateway_config_def no_config_def Let_def)

lemma sandbox_confined:
  "body_confined cfg w (name w (''net-'' @ as_ID app)) (container_request (sandbox_config cfg w a app))"
  by (simp add: body_confined_def container_request_def sandbox_config_def no_config_def name_inj_suffix)

lemma seed_confined:
  "w = pr_WorkstationID req \<Longrightarrow>
   body_confined cfg w (name w ''seed-workspace'') (container_request (seed_config req (name w v)))"
  by (simp add: body_confined_def container_request_def seed_config_def no_config_def name_inj_suffix)

lemma init_confined:
  "list_all (\<lambda>m. own w (mo_Source m)) mounts \<Longrightarrow>
   body_confined cfg w (name w (''init-'' @ as_ID app)) (container_request (init_config w app mounts o' ts))"
  by (simp add: body_confined_def container_request_def init_config_def no_config_def name_inj_suffix
      list_all_iff)

lemma sandbox_network: "HasPrefix (''container:'' @ name w (''net-'' @ i)) (''container:'' @ name w ''net-'')"
  by (simp add: HasPrefix_iff name_def)

lemma app_container_confined:
  "w = pr_WorkstationID req \<Longrightarrow> set (as_Capabilities app) \<subseteq> {''NET_RAW''} \<Longrightarrow>
   body_confined cfg w (name w (''app-'' @ as_ID app)) (container_request (app_config req app))"
  using app_mounts_own [of w app] sandbox_network [of w "as_ID app"]
  by (auto simp: body_confined_def container_request_def app_config_def no_config_def name_inj_suffix
      list_all_iff Let_def)

lemma config_names [simp]:
  "cc_Name (sandbox_config cfg w a app) = name w (''net-'' @ as_ID app)"
  "cc_Name (init_config w app mounts o' ts) = name w (''init-'' @ as_ID app)"
  "cc_Name (app_config req app) = name (pr_WorkstationID req) (''app-'' @ as_ID app)"
  by (simp_all add: sandbox_config_def init_config_def app_config_def Let_def)

lemma connect_gateway_confined:
  "sends (connect_gateway D cfg req) {c. call_confined cfg (pr_WorkstationID req) c}"
  unfolding connect_gateway_def seedWorkspace_def Let_def
  by (intro sends_intros) (simp_all add: call_confined_def gateway_confined seed_confined)

lemma inject_profile_confined:
  "sends (inject_profile D req) {c. call_confined cfg (pr_WorkstationID req) c}"
  unfolding inject_profile_def by (intro sends_intros) (simp add: call_confined_def)

lemma start_gateway_confined: "sends (start_gateway H w) {c. call_confined cfg w c}"
  unfolding start_gateway_def Let_def by (intro sends_intros) (simp_all add: call_confined_def)

lemma initializeStorage_confined:
  assumes "list_all (\<lambda>m. own w (mo_Source m)) mounts"
  shows "sends (initializeStorage D w app mounts) {c. call_confined cfg w c}"
proof (cases "storage_owner [] [] (zip (as_Storage app) mounts)")
  case (Inr ot)
  obtain owner targets where "ot = (owner, targets)" by (cases ot)
  with Inr assms show ?thesis
    unfolding initializeStorage_def
    by (auto simp: call_confined_def init_confined [simplified] intro!: sends_intros)
qed (simp add: initializeStorage_def sends_fail)

lemma create_app_confined:
  assumes "set (as_Capabilities app) \<subseteq> {''NET_RAW''}"
  shows "sends (create_app H cfg req address app) {c. call_confined cfg (pr_WorkstationID req) c}"
  unfolding create_app_def Let_def
  by (intro sends_intros initializeStorage_confined app_mounts_own)
    (simp_all add: call_confined_def sandbox_confined [simplified] app_container_confined [simplified]
      assms storage_source_def)

lemma createResources_confined:
  assumes "\<forall>app \<in> set (pr_Apps req). set (as_Capabilities app) \<subseteq> {''NET_RAW''}"
  shows "sends (createResources H cfg req) {c. call_confined cfg (pr_WorkstationID req) c}"
  unfolding createResources_def
  by (intro sends_intros connect_gateway_confined inject_profile_confined start_gateway_confined
      create_app_confined) (use assms in blast)

text \<open>
  C4: a workstation is built from its own parts only. For a request that passed validation, every
  event of \<^verbatim>\<open>createResources\<close>, whatever the daemon answers, concerns only names of that
  workstation: containers are created with \<^verbatim>\<open>no-new-privileges\<close>, with the workstation's
  ownership labels and with mounts of the workstation's own volumes only; the gateway alone is on
  the management network, everything else has no network, the workstation's internal network or the
  network of an app's sandbox; \<^verbatim>\<open>NET_ADMIN\<close> goes only to the system image; nothing is
  deleted but the workstation's own one-shot containers.
\<close>

theorem provisioning_confined:
  assumes "validateProvision uni C cfg s req = None" and "createResources H cfg req h = (r, h')"
  shows "\<exists>cs. h' = h @ cs \<and> (\<forall>c \<in> set cs. call_confined cfg (pr_WorkstationID req) c)"
proof -
  have "\<forall>app \<in> set (pr_Apps req). set (as_Capabilities app) \<subseteq> {''NET_RAW''}"
    using assms(1) by (simp add: validateProvision_None app_confined_def)
  from sendsD [OF createResources_confined [OF this] assms(2)] show ?thesis by blast
qed

theorem provisioning_confined_witness:
  "list_all (call_confined sample_worker ''ws-abcdef'') (snd (createResources sample_host sample_worker sample_request []))"
proof -
  obtain r h' where run: "createResources sample_host sample_worker sample_request [] = (r, h')"
    by (metis prod.exhaust)
  from provisioning_confined [OF sample_admitted run] run show ?thesis
    by (auto simp: list_all_iff sample_request_def)
qed

end
