(* ===== verification/Worker_Service.thy ===== *)
theory Worker_Service
  imports Worker_Confinement
begin

text \<open>
  The worker's HTTP handlers, \<^verbatim>\<open>internal/dockerworker/service.go\<close>: authentication, listing,
  inspection, usage, egress status, logs, provisioning, rebuilding and the start, stop, restart and
  delete actions. A request body is the value the JSON decoder made of it, \<open>None\<close> if it refused;
  a reply is a status code with its payload.
\<close>

datatype service_error =
    BadJSON
  | BadToken
  | BadWorkstationID
  | BadIDs
  | BadTail
  | IDsDiffer
  | BadAction
  | AppContainerMissing
  | Refused admission_error
  | EngineFailed worker_error

datatype payload =
    P_Error service_error
  | P_Health string string
  | P_Resources "Resource list"
  | P_Status string string "Resource list"
  | P_Usage string "ResourceUsage list"
  | P_Egress EgressStatus
  | P_Logs string string int string
  | P_Accepted

type_synonym handler = "call list \<Rightarrow> (int \<times> payload) \<times> call list"

definition respond :: "int \<Rightarrow> payload \<Rightarrow> handler" where
  "respond code p h = ((code, p), h)"

text \<open>An error of the engine becomes status 502.\<close>

definition gateway_error :: "'a io \<Rightarrow> ('a \<Rightarrow> handler) \<Rightarrow> handler" where
  "gateway_error m k h =
     (case m h of
        (Inl e, h') \<Rightarrow> ((502, P_Error (EngineFailed e)), h')
      | (Inr x, h') \<Rightarrow> k x h')"

definition auth :: "Worker \<Rightarrow> string \<Rightarrow> handler \<Rightarrow> handler" where
  "auth cfg authorization k h =
     (let v = TrimPrefix authorization ''Bearer '' in
      if length v \<noteq> length (wk_Token cfg) \<or> v \<noteq> wk_Token cfg then ((401, P_Error BadToken), h) else k h)"

definition health :: "docker \<Rightarrow> (worker_error \<Rightarrow> string) \<Rightarrow> handler" where
  "health D text h =
     (case Ping_engine D h of
        (Inl e, h') \<Rightarrow> ((503, P_Health ''unhealthy'' (text e)), h')
      | (Inr _, h') \<Rightarrow> ((200, P_Health ''ok'' ''reachable''), h'))"

definition list_resources :: "docker \<Rightarrow> handler" where
  "list_resources D = gateway_error (ListManaged D []) (\<lambda>resources. respond 200 (P_Resources resources))"

definition status_of :: "Resource list \<Rightarrow> string" where
  "status_of resources =
     (if length resources > 0 then
        (if list_ex (\<lambda>r. re_State r = ''running'') resources then ''running'' else ''stopped'')
      else ''missing'')"

definition inspect :: "docker \<Rightarrow> string \<Rightarrow> handler" where
  "inspect D i =
     (if \<not> resourceID i then respond 400 (P_Error BadWorkstationID)
      else gateway_error (ListManaged D i) (\<lambda>resources.
        respond 200 (P_Status i (status_of resources) resources)))"

definition zero_usage :: "Resource \<Rightarrow> ResourceUsage" where
  "zero_usage r =
     \<lparr>ru_Name = re_Name r, ru_Kind = re_Kind r, ru_AppID = re_AppID r, ru_State = re_State r,
      ru_CPUPercent = 0, ru_MemoryUsageMB = 0, ru_MemoryLimitMB = 0, ru_PIDs = 0,
      ru_NetworkRXBytes = 0, ru_NetworkTXBytes = 0, ru_BlockReadBytes = 0, ru_BlockWriteBytes = 0,
      ru_Error = []\<rparr>"

definition measure_resource ::
  "(string \<Rightarrow> string) \<Rightarrow> (worker_error \<Rightarrow> string) \<Rightarrow> docker \<Rightarrow> Resource \<Rightarrow> call list \<Rightarrow> ResourceUsage \<times> call list" where
  "measure_resource uni text D r h =
     (if re_State r = ''running'' then
        (case ContainerStats uni D r h of
           (Inl e, h') \<Rightarrow> ((zero_usage r)\<lparr>ru_Error := text e\<rparr>, h')
         | (Inr measured, h') \<Rightarrow> (measured, h'))
      else (zero_usage r, h))"

primrec measure_all ::
  "(string \<Rightarrow> string) \<Rightarrow> (worker_error \<Rightarrow> string) \<Rightarrow> docker \<Rightarrow> Resource list \<Rightarrow> call list \<Rightarrow> ResourceUsage list \<times> call list" where
  "measure_all uni text D [] h = ([], h)"
| "measure_all uni text D (r # rs) h =
     (case measure_resource uni text D r h of
        (u, h1) \<Rightarrow> (case measure_all uni text D rs h1 of (us, h2) \<Rightarrow> (u # us, h2)))"

definition usage :: "(string \<Rightarrow> string) \<Rightarrow> (worker_error \<Rightarrow> string) \<Rightarrow> docker \<Rightarrow> string \<Rightarrow> handler" where
  "usage uni text D i =
     (if \<not> resourceID i then respond 400 (P_Error BadWorkstationID)
      else gateway_error (ListManaged D i) (\<lambda>resources h.
        (case measure_all uni text D resources h of (us, h') \<Rightarrow> ((200, P_Usage i us), h'))))"

definition egress_error :: "string \<Rightarrow> string \<Rightarrow> EgressStatus" where
  "egress_error i e =
     \<lparr>es_WorkstationID = i, es_Mode = [], es_Healthy = False, es_FailsClosed = False, es_Tunnel = None,
      es_Error = e\<rparr>"

definition egress :: "Worker \<Rightarrow> docker \<Rightarrow> string \<Rightarrow> handler" where
  "egress cfg D i h =
     (if \<not> resourceID i then ((400, P_Error BadWorkstationID), h)
      else
        (let gateway = name i ''wslan'' in
         case ContainerState D gateway h of
           (Inl _, h1) \<Rightarrow> ((200, P_Egress (egress_error i ''workstation gateway is not running'')), h1)
         | (Inr (running, _), h1) \<Rightarrow>
             if \<not> running then ((200, P_Egress (egress_error i ''workstation gateway is not running'')), h1)
             else
               (case request D (HTTPGet gateway wslanIngressPort ''/status''
                   [(''X-Contain-WSLAN-Token'', wk_Token cfg)]) h1 of
                  (Inl e, h2) \<Rightarrow>
                    ((200, P_Egress (egress_error i (''gateway did not answer: '' @
                       (case e of Transport t \<Rightarrow> t | _ \<Rightarrow> [])))), h2)
                | (Inr r, h2) \<Rightarrow>
                    if rsp_Code r \<noteq> 200 then
                      ((200, P_Egress (egress_error i (''gateway returned '' @ rsp_Status r))), h2)
                    else (case rsp_Body r of
                        Egress_Body status failed \<Rightarrow>
                          if failed then
                            ((200, P_Egress (status\<lparr>es_Error := ''gateway sent an unreadable status''\<rparr>)), h2)
                          else ((200, P_Egress (status\<lparr>es_WorkstationID := i\<rparr>)), h2)
                      | _ \<Rightarrow>
                          ((200, P_Egress (egress_error i ''gateway sent an unreadable status'')), h2)))))"

definition parse_tail :: "string \<Rightarrow> int option" where
  "parse_tail raw =
     (if raw \<noteq> [] then
        (case Atoi raw of
           None \<Rightarrow> None
         | Some parsed \<Rightarrow> if parsed < 1 \<or> parsed > 1000 then None else Some parsed)
      else Some 200)"

definition logs ::
  "(string \<Rightarrow> bool) \<Rightarrow> directory \<Rightarrow> Worker \<Rightarrow> docker \<Rightarrow> string \<Rightarrow> string \<Rightarrow> string \<Rightarrow> handler" where
  "logs fails dir cfg D i appID raw =
     (if \<not> resourceID i \<or> \<not> identifier_re appID then respond 400 (P_Error BadIDs)
      else case parse_tail raw of
        None \<Rightarrow> respond 400 (P_Error BadTail)
      | Some tail \<Rightarrow>
          (case persistedLogs fails cfg dir i appID (nat tail) of
             Some output \<Rightarrow> respond 200 (P_Logs i appID tail output)
           | None \<Rightarrow>
               gateway_error (ListManaged D i) (\<lambda>resources.
                 (case find (\<lambda>r. re_Kind r = ''app'' \<and> re_AppID r = appID) resources of
                    None \<Rightarrow> respond 404 (P_Error AppContainerMissing)
                  | Some r \<Rightarrow>
                      if re_Name r = [] then respond 404 (P_Error AppContainerMissing)
                      else gateway_error (ContainerLogs D (re_Name r) tail) (\<lambda>output.
                        respond 200 (P_Logs i appID tail output))))))"

definition listed :: "docker \<Rightarrow> string \<Rightarrow> call list \<Rightarrow> Resource list \<times> call list" where
  "listed D i h = (case ListManaged D i h of (Inl _, h') \<Rightarrow> ([], h') | (Inr rs, h') \<Rightarrow> (rs, h'))"

definition provision ::
  "(string \<Rightarrow> string) \<Rightarrow> codec \<Rightarrow> approvalStore \<Rightarrow> Worker \<Rightarrow> host \<Rightarrow> ProvisionRequest option \<Rightarrow> handler" where
  "provision uni C s cfg H decoded =
     (case decoded of
        None \<Rightarrow> respond 400 (P_Error BadJSON)
      | Some req \<Rightarrow>
          (case validateProvision uni C cfg s req of
             Some e \<Rightarrow> respond 422 (P_Error (Refused e))
           | None \<Rightarrow>
               gateway_error (provisionResources H cfg req) (\<lambda>_ h.
                 (case listed (ho_docker H) (pr_WorkstationID req) h of (rs, h') \<Rightarrow>
                    ((201, P_Status (pr_WorkstationID req) ''running'' rs), h')))))"

definition rebuild ::
  "(string \<Rightarrow> string) \<Rightarrow> codec \<Rightarrow> approvalStore \<Rightarrow> Worker \<Rightarrow> host \<Rightarrow> string \<Rightarrow> ProvisionRequest option \<Rightarrow> handler" where
  "rebuild uni C s cfg H i decoded =
     (case decoded of
        None \<Rightarrow> respond 400 (P_Error BadJSON)
      | Some req \<Rightarrow>
          if pr_WorkstationID req \<noteq> i then respond 400 (P_Error IDsDiffer)
          else (case validateProvision uni C cfg s req of
             Some e \<Rightarrow> respond 422 (P_Error (Refused e))
           | None \<Rightarrow>
               gateway_error (rebuildResources H cfg req) (\<lambda>_ h.
                 (case listed (ho_docker H) (pr_WorkstationID req) h of (rs, h') \<Rightarrow>
                    ((200, P_Status (pr_WorkstationID req) ''running'' rs), h')))))"

subsection \<open>Actions\<close>

definition capture_event :: "Resource \<Rightarrow> unit io" where
  "capture_event r =
     (if re_Kind r = ''app'' then capture (re_WorkstationID r) (re_AppID r) (re_Name r)
      else if re_Kind r = ''wslan'' then capture (re_WorkstationID r) ''wslan'' (re_Name r)
      else if re_Kind r = ''sandbox'' then capture (re_WorkstationID r) (''network-'' @ re_AppID r) (re_Name r)
      else return_io ())"

definition stop_running :: "docker \<Rightarrow> Resource \<Rightarrow> unit io" where
  "stop_running D r =
     bind_io (ContainerState D (re_Name r)) (\<lambda>(running, _).
       if \<not> running then return_io () else ContainerAction D (re_Name r) ''stop'')"

definition act_on :: "host \<Rightarrow> string \<Rightarrow> Resource \<Rightarrow> unit io" where
  "act_on H action r =
     seq_io (ContainerAction (ho_docker H) (re_Name r) action) (
     seq_io (if action = ''start'' then capture_event r else return_io ()) (
       if action = ''start'' \<and> (re_Kind r = ''vpn'' \<or> re_Kind r = ''wslan'') then
         (if re_Kind r = ''wslan'' then waitHTTP H (re_Name r) wslanIngressPort ''/healthz'' []
          else waitContainerHealthy H (re_Name r))
       else return_io ()))"

definition run_action :: "host \<Rightarrow> string \<Rightarrow> string \<Rightarrow> unit io" where
  "run_action H i action =
     (let D = ho_docker H in
      bind_io (ListManaged D i) (\<lambda>resources.
        if action = ''restart'' then
          seq_io (each_io (stop_running D) (rank_descending resources))
            (each_io (act_on H ''start'') (rank_ascending (rank_descending resources)))
        else each_io (act_on H action)
          (if action = ''start'' then rank_ascending resources else rank_descending resources)))"

definition action_handler :: "host \<Rightarrow> string \<Rightarrow> string option \<Rightarrow> handler" where
  "action_handler H i decoded =
     (if \<not> resourceID i then respond 400 (P_Error BadWorkstationID)
      else case decoded of
        None \<Rightarrow> respond 400 (P_Error BadJSON)
      | Some action \<Rightarrow>
          if action = ''start'' \<or> action = ''stop'' \<or> action = ''restart'' then
            gateway_error (run_action H i action) (\<lambda>_. respond 200 P_Accepted)
          else if action = ''delete'' then
            gateway_error (RemoveWorkstation (ho_docker H) i) (\<lambda>_. respond 200 P_Accepted)
          else respond 400 (P_Error BadAction))"

subsection \<open>The order of actions\<close>

fun is_start :: "call \<Rightarrow> bool" where
  "is_start (ContainerStart _) = True"
| "is_start _ = False"

fun is_stop :: "call \<Rightarrow> bool" where
  "is_stop (ContainerStop _) = True"
| "is_stop _ = False"

definition idle :: "call set" where
  "idle = {c. \<not> is_start c \<and> \<not> is_stop c}"

lemma idle_filter [simp]: "set cs \<subseteq> idle \<Longrightarrow> filter is_start cs = [] \<and> filter is_stop cs = []"
  by (auto simp: idle_def filter_empty_conv)

lemma idle_simps [simp]:
  "ContainerInspect n \<in> idle" "Capture a b c \<in> idle" "HTTPGet n p q hs \<in> idle"
  "ContainerList f \<in> idle"
  by (simp_all add: idle_def)

lemma poll_healthy_sends: "sends (poll_healthy D n k) {ContainerInspect n}"
proof (rule sendsI)
  fix h
  show "\<exists>cs. snd (poll_healthy D n k h) = h @ cs \<and> set cs \<subseteq> {ContainerInspect n}"
  proof (induction k arbitrary: h)
    case 0
    obtain r h1 where r: "ContainerState D n h = (r, h1)" by (cases "ContainerState D n h")
    from sendsD [OF sends_ContainerState [of n "{ContainerInspect n}"] r] r
    show ?case by (auto split: sum.splits prod.splits)
  next
    case (Suc k)
    obtain r h1 where r: "ContainerState D n h = (r, h1)" by (cases "ContainerState D n h")
    from sendsD [OF sends_ContainerState [of n "{ContainerInspect n}"] r] obtain cs where
      cs: "h1 = h @ cs" "set cs \<subseteq> {ContainerInspect n}" by auto
    from Suc [of h1] obtain ds where "snd (poll_healthy D n k h1) = h1 @ ds" "set ds \<subseteq> {ContainerInspect n}"
      by blast
    with r cs show ?case by (auto split: sum.splits prod.splits)
  qed
qed

lemma sends_waitContainerHealthy [sends_intros]:
  assumes "ContainerInspect n \<in> S"
  shows "sends (waitContainerHealthy H n) S"
proof -
  have "sends (poll_healthy D n k) S" for D k using sends_mono [OF poll_healthy_sends] assms by blast
  then show ?thesis unfolding sends_def waitContainerHealthy_def by blast
qed

lemma sends_capture_event [sends_intros]: "(\<And>l. Capture (re_WorkstationID r) l (re_Name r) \<in> S) \<Longrightarrow> sends (capture_event r) S"
  unfolding capture_event_def by (intro sends_intros)

lemma act_on_ok:
  assumes "act_on H action r h = (Inr (), h')" and "action = ''start'' \<or> action = ''stop''"
  shows "\<exists>cs. h' = h @ (if action = ''start'' then ContainerStart (re_Name r) else ContainerStop (re_Name r)) # cs
    \<and> set cs \<subseteq> idle"
proof -
  from assms(1) obtain h1 where 1: "ContainerAction (ho_docker H) (re_Name r) action h = (Inr (), h1)"
    and 2: "seq_io (if action = ''start'' then capture_event r else return_io ()) (
       if action = ''start'' \<and> (re_Kind r = ''vpn'' \<or> re_Kind r = ''wslan'') then
         (if re_Kind r = ''wslan'' then waitHTTP H (re_Name r) wslanIngressPort ''/healthz'' []
          else waitContainerHealthy H (re_Name r))
       else return_io ()) h1 = (Inr (), h')"
    unfolding act_on_def seq_io_ok by blast
  have "sends (seq_io (if action = ''start'' then capture_event r else return_io ()) (
       if action = ''start'' \<and> (re_Kind r = ''vpn'' \<or> re_Kind r = ''wslan'') then
         (if re_Kind r = ''wslan'' then waitHTTP H (re_Name r) wslanIngressPort ''/healthz'' []
          else waitContainerHealthy H (re_Name r))
       else return_io ())) idle"
    by (intro sends_intros) simp_all
  from sendsD [OF this 2] obtain cs where "h' = h1 @ cs" "set cs \<subseteq> idle" by blast
  with assms(2) 1 ContainerAction_ok(1,2) show ?thesis by fastforce
qed

lemma each_act_ok:
  assumes "each_io (act_on H action) rs h = (Inr (), h')" and "action = ''start'' \<or> action = ''stop''"
  shows "\<exists>cs. h' = h @ cs \<and>
    (if action = ''start''
     then filter is_start cs = map (\<lambda>r. ContainerStart (re_Name r)) rs \<and> filter is_stop cs = []
     else filter is_stop cs = map (\<lambda>r. ContainerStop (re_Name r)) rs \<and> filter is_start cs = [])"
  using assms(1)
proof (induction rs arbitrary: h)
  case (Cons r rs)
  from Cons.prems obtain h1 where 1: "act_on H action r h = (Inr (), h1)"
    and 2: "each_io (act_on H action) rs h1 = (Inr (), h')" by (auto simp: io_ok)
  from act_on_ok [OF 1 assms(2)] Cons.IH [OF 2] show ?case
    by (elim exE conjE) (auto simp: assms(2) split: if_splits)
qed (simp add: io_ok)

lemma stop_running_sends: "sends (stop_running D r) {c. \<not> is_start c}"
  unfolding stop_running_def by (intro sends_intros) (auto intro!: sends_intros)


definition action_docker :: docker where
  "action_docker h c =
     (case c of
        ContainerList _ \<Rightarrow> reply 200 (Containers_Body sample_items)
      | ContainerInspect n \<Rightarrow> reply 200 (Container_Body \<lparr>ki_Name = n, ki_Image = [], ki_Labels = [],
          ki_NetworkMode = [], ki_Running = (n \<noteq> ''s1''), ki_Health = None\<rparr>)
      | _ \<Rightarrow> reply 204 Undecodable_Body)"


end
