(* ===== verification/Controller_Config.thy ===== *)
theory Controller_Config
  imports Worker_Config VPN_Store Egress
begin

text \<open>
  The controller's settings, \<^verbatim>\<open>internal/config/config.go\<close>. Durations are nanoseconds.
  The parsers of floating-point numbers, durations and URLs of Go's library are arguments.
\<close>

record Controller_settings =
  cc_Listen :: string
  cc_DatabasePath :: string
  cc_AppsDirectory :: string
  cc_InstalledAppsDirectory :: string
  cc_AppStoreDirectory :: string
  cc_AppStoreIndexURL :: string
  cc_ControllerVersion :: string
  cc_TemplatesDirectory :: string
  cc_DefaultWorkspaceImage :: string
  cc_VPNProfilesDirectory :: string
  cc_VPNEncryptionKeyFile :: string
  cc_VPNEncryptionKey :: string
  cc_WorkerURL :: string
  cc_WorkerToken :: string
  cc_PublicBaseDomain :: string
  cc_SecureCookies :: bool
  cc_SessionLifetime :: int
  cc_DefaultCPU :: float64
  cc_DefaultMemoryMB :: int
  cc_DefaultPIDLimit :: int
  cc_ReconcileOnStartup :: bool

datatype settings_error =
    EncryptionKey vpn_error
  | TokenRequired
  | TokenShort
  | LifetimeShort
  | LimitsInvalid
  | WorkerURLInvalid string

record go_parsers =
  gp_ParseFloat :: "string \<Rightarrow> float64 option"
  gp_ParseDuration :: "string \<Rightarrow> int option"
  gp_URL :: "string \<Rightarrow> (string \<times> string) option"
  gp_uni :: "string \<Rightarrow> string"

definition envFloat :: "go_parsers \<Rightarrow> environ \<Rightarrow> string \<Rightarrow> float64 \<Rightarrow> float64" where
  "envFloat P getenv key fallback =
     (case gp_ParseFloat P (TrimSpace (getenv key)) of None \<Rightarrow> fallback | Some v \<Rightarrow> v)"

definition envDuration :: "go_parsers \<Rightarrow> environ \<Rightarrow> string \<Rightarrow> int \<Rightarrow> int" where
  "envDuration P getenv key fallback =
     (let v = TrimSpace (getenv key) in
      if v = [] then fallback
      else case gp_ParseDuration P v of None \<Rightarrow> fallback | Some d \<Rightarrow> d)"

text \<open>\<^verbatim>\<open>strings.TrimRight(s, "/")\<close>\<close>

definition trim_slashes :: "string \<Rightarrow> string" where
  "trim_slashes s = rev (dropWhile (\<lambda>c. c = CHR ''/'') (rev s))"

abbreviation second :: int where "second \<equiv> 1000000000"

definition load_key :: "string \<Rightarrow> (settings_error, string) result" where
  "load_key raw =
     (if raw = [] then Inr []
      else case ParseKey raw of Inl e \<Rightarrow> Inl (EncryptionKey e) | Inr key \<Rightarrow> Inr key)"

definition LoadController :: "go_parsers \<Rightarrow> environ \<Rightarrow> (settings_error, Controller_settings) result" where
  "LoadController P getenv =
     (let c = \<lparr>cc_Listen = env getenv ''CONTROLLER_LISTEN'' ''0.0.0.0:7080'',
        cc_DatabasePath = env getenv ''DATABASE_PATH'' ''/data/controller.db'',
        cc_AppsDirectory = env getenv ''APPS_DIRECTORY'' ''/config/apps'',
        cc_InstalledAppsDirectory = env getenv ''INSTALLED_APPS_DIRECTORY'' ''/data/apps'',
        cc_AppStoreDirectory = env getenv ''APP_STORE_DIRECTORY'' ''/data/app-store'',
        cc_AppStoreIndexURL = env getenv ''APP_STORE_INDEX_URL''
          ''https://raw.githubusercontent.com/matthewsawatzky/contain-yourself/main/app_store/index.json'',
        cc_ControllerVersion = TrimPrefix (env getenv ''CONTROLLER_VERSION'' ''0.4.1'') ''v'',
        cc_TemplatesDirectory = env getenv ''TEMPLATES_DIRECTORY'' ''/config/templates'',
        cc_DefaultWorkspaceImage = env getenv ''DEFAULT_WORKSPACE_IMAGE'' ''alpine:3.21'',
        cc_VPNProfilesDirectory = env getenv ''VPN_PROFILES_DIRECTORY'' ''/data/vpn-profiles'',
        cc_VPNEncryptionKeyFile = env getenv ''VPN_ENCRYPTION_KEY_FILE'' ''/data/vpn-profiles.key'',
        cc_VPNEncryptionKey = [],
        cc_WorkerURL = trim_slashes (env getenv ''WORKER_URL'' ''http://docker-worker:8090''),
        cc_WorkerToken = getenv ''WORKER_TOKEN'',
        cc_PublicBaseDomain = ToLower (gp_uni P) (TrimSpace (getenv ''PUBLIC_BASE_DOMAIN'')),
        cc_SecureCookies = envBool getenv ''SECURE_COOKIES'' False,
        cc_SessionLifetime = envDuration P getenv ''SESSION_LIFETIME'' (24 * 3600 * second),
        cc_DefaultCPU = envFloat P getenv ''DEFAULT_CPU'' (Fin 2),
        cc_DefaultMemoryMB = envInt getenv ''DEFAULT_MEMORY_MB'' 4096,
        cc_DefaultPIDLimit = envInt getenv ''DEFAULT_PID_LIMIT'' 512,
        cc_ReconcileOnStartup = envBool getenv ''RECONCILE_ON_STARTUP'' True\<rparr>
      in case load_key (TrimSpace (getenv ''VPN_ENCRYPTION_KEY'')) of
        Inl e \<Rightarrow> Inl e
      | Inr key \<Rightarrow>
          (let c = c\<lparr>cc_VPNEncryptionKey := key\<rparr> in
           if cc_WorkerToken c = [] then Inl TokenRequired
           else if length (cc_WorkerToken c) < 24 then Inl TokenShort
           else if cc_SessionLifetime c < 5 * 60 * second then Inl LifetimeShort
           else if float_le (cc_DefaultCPU c) (Fin 0) \<or> cc_DefaultMemoryMB c < 128 \<or> cc_DefaultPIDLimit c < 32
           then Inl LimitsInvalid
           else case gp_URL P (cc_WorkerURL c) of
             None \<Rightarrow> Inl (WorkerURLInvalid (cc_WorkerURL c))
           | Some (scheme, host) \<Rightarrow>
               if scheme \<noteq> ''http'' \<and> scheme \<noteq> ''https'' \<or> host = []
               then Inl (WorkerURLInvalid (cc_WorkerURL c)) else Inr c))"

text \<open>
  What the rest of the program relies on. An operator's key has the size of a key, so it is never
  replaced by a generated one, and sessions last.
\<close>

lemma loaded_settings:
  assumes "LoadController P getenv = Inr c"
  shows "24 \<le> length (cc_WorkerToken c) \<and> 5 * 60 * second \<le> cc_SessionLifetime c
    \<and> (cc_VPNEncryptionKey c = [] \<longleftrightarrow> TrimSpace (getenv ''VPN_ENCRYPTION_KEY'') = [])
    \<and> (cc_VPNEncryptionKey c \<noteq> [] \<longrightarrow> length (cc_VPNEncryptionKey c) = KeyBytes)"
  using assms
  by (auto simp: LoadController_def load_key_def ParseKey_def KeyBytes_def Let_def
      split: if_splits option.splits sum.splits prod.splits)

end
