(* ===== verification/Wslan.thy ===== *)
theory Wslan
  imports Worker_Config Egress
begin

text \<open>
  The workstation's gateway, \<^verbatim>\<open>cmd/wslan/main.go\<close>: how it reads its environment, routes
  requests, authorizes and forwards them, and reports its tunnel. The kernel's view of the tunnel is
  the output of the \<^verbatim>\<open>wg\<close> command, an argument; listening and copying bytes between
  connections is the HTTP library's and not modelled.
\<close>

abbreviation tokenHeader :: string where
  "tokenHeader \<equiv> ''X-Contain-WSLAN-Token''"
abbreviation appHeader :: string where
  "appHeader \<equiv> ''X-Contain-WSLAN-App''"
abbreviation handshakeMaxAge :: int where
  "handshakeMaxAge \<equiv> 180"

record gateway =
  gt_token :: string
  gt_mode :: string
  gt_apps :: "(string \<times> int) list"

datatype gateway_failure = TokenTooShort | UnsupportedMode string | InvalidMapping string

definition supportedMode :: "string \<Rightarrow> bool" where
  "supportedMode v = (v = ''direct'' \<or> v = ''wireguard'' \<or> v = ''host-gateway'' \<or> v = ''ipv6'')"

definition healthChecksTunnel :: "string \<Rightarrow> bool" where
  "healthChecksTunnel mode = (mode = ''wireguard'')"

definition validID :: "string \<Rightarrow> bool" where
  "validID v =
     (if length v < 2 \<or> length v > 32 \<or> \<not> is_lower (v ! 0) then False
      else list_all (\<lambda>c. is_lower c \<or> is_digit c \<or> c = CHR ''-'') v)"

primrec parse_app_items :: "(string \<times> int) list \<Rightarrow> string list \<Rightarrow> (gateway_failure, (string \<times> int) list) result" where
  "parse_app_items acc [] = Inr acc"
| "parse_app_items acc (raw # rest) =
     (let item = TrimSpace raw in
      if item = [] then parse_app_items acc rest
      else (case Cut item (CHR ''='') of
        (i, rawPort, ok) \<Rightarrow>
          (case Atoi rawPort of
             None \<Rightarrow> Inl (InvalidMapping item)
           | Some port \<Rightarrow>
               if \<not> ok \<or> \<not> validID i \<or> port < 1 \<or> port > 65535 then Inl (InvalidMapping item)
               else parse_app_items (AList.update i port acc) rest)))"

definition parseApps :: "string \<Rightarrow> (gateway_failure, (string \<times> int) list) result" where
  "parseApps v = parse_app_items [] (Split v (CHR '',''))"

text \<open>The start of \<^verbatim>\<open>main\<close>, up to the construction of the gateway.\<close>

definition load_gateway :: "(string \<Rightarrow> string) \<Rightarrow> environ \<Rightarrow> (gateway_failure, gateway) result" where
  "load_gateway uni getenv =
     (let token = getenv ''WSLAN_TOKEN''; mode = ToLower uni (TrimSpace (getenv ''WSLAN_MODE'')) in
      if length token < 24 then Inl TokenTooShort
      else if \<not> supportedMode mode then Inl (UnsupportedMode mode)
      else case parseApps (getenv ''WSLAN_APPS'') of
        Inl e \<Rightarrow> Inl e
      | Inr apps \<Rightarrow> Inr \<lparr>gt_token = token, gt_mode = mode, gt_apps = apps\<rparr>)"

subsection \<open>The tunnel\<close>

definition peer_line :: "int \<Rightarrow> TunnelStatus \<Rightarrow> string \<Rightarrow> TunnelStatus" where
  "peer_line now tunnel line =
     (let fields = Split (TrimSpace line) (CHR 0x09) in
      if length fields < 7 then tunnel
      else
        (let t1 = (let endpoint = fields ! 2 in
               if endpoint \<noteq> [] \<and> endpoint \<noteq> ''(none)'' then tunnel\<lparr>ts_Endpoint := endpoint\<rparr> else tunnel);
             t2 = (case ParseInt64 (fields ! 4) of
                 None \<Rightarrow> t1
               | Some handshake \<Rightarrow>
                   if handshake > 0 then
                     (let age = (if now - handshake < 0 then 0 else now - handshake) in
                      if ts_HandshakeAgeSeconds t1 < 0 \<or> age < ts_HandshakeAgeSeconds t1
                      then t1\<lparr>ts_HandshakeAgeSeconds := age\<rparr> else t1)
                   else t1);
             t3 = (case ParseUint64 (fields ! 5) of
                 None \<Rightarrow> t2
               | Some received \<Rightarrow> t2\<lparr>ts_ReceivedBytes := (ts_ReceivedBytes t2 + received) mod 2 ^ 64\<rparr>)
         in case ParseUint64 (fields ! 6) of
              None \<Rightarrow> t3
            | Some sent \<Rightarrow> t3\<lparr>ts_SentBytes := (ts_SentBytes t3 + sent) mod 2 ^ 64\<rparr>))"

definition no_tunnel :: TunnelStatus where
  "no_tunnel =
     \<lparr>ts_Up = False, ts_Endpoint = [], ts_HandshakeAgeSeconds = - 1, ts_ReceivedBytes = 0, ts_SentBytes = 0\<rparr>"

definition parseWireGuardDump :: "string \<Rightarrow> int \<Rightarrow> TunnelStatus" where
  "parseWireGuardDump output now =
     (let tunnel = foldl (peer_line now) no_tunnel (tl (Split (TrimSpace output) (CHR 0x0A))) in
      tunnel\<lparr>ts_Up := ts_HandshakeAgeSeconds tunnel \<ge> 0 \<and> ts_HandshakeAgeSeconds tunnel \<le> handshakeMaxAge\<rparr>)"

text \<open>\<^verbatim>\<open>strings.Fields\<close>: the non-empty parts between runs of white space.\<close>

function field_parts :: "string \<Rightarrow> string \<Rightarrow> string list" where
  "field_parts cur s =
     (case find (\<lambda>p. p \<noteq> [] \<and> HasPrefix s p) space_runes of
        Some p \<Rightarrow> cur # field_parts [] (drop (length p) s)
      | None \<Rightarrow> (case s of [] \<Rightarrow> [cur] | c # t \<Rightarrow> field_parts (cur @ [c]) t))"
  by pat_completeness auto
termination
proof (relation "measure (\<lambda>(cur, s). length s)")
  fix s p
  assume "find (\<lambda>p. p \<noteq> [] \<and> HasPrefix s p) space_runes = Some p"
  from find_SomeD [OF this] have "p \<noteq> []" and "HasPrefix s p" by simp_all
  then show "(([], drop (length p) s), cur, s) \<in> measure (\<lambda>(cur, s). length s)" for cur :: string
    by (cases s; cases p) auto
qed auto

declare field_parts.simps [simp del]

definition Fields :: "string \<Rightarrow> string list" where
  "Fields s = filter (\<lambda>w. w \<noteq> []) (field_parts [] s)"

definition hasRecentHandshake :: "string \<Rightarrow> int \<Rightarrow> bool" where
  "hasRecentHandshake output now =
     list_ex (\<lambda>line.
       (case Fields line of
          [key, v] \<Rightarrow>
            (case ParseInt64 v of
               None \<Rightarrow> False
             | Some latest \<Rightarrow> latest > 0 \<and> now - latest \<le> handshakeMaxAge)
        | _ \<Rightarrow> False))
       (Split output (CHR 0x0A))"

text \<open>
  What the gateway sees of its system: whether \<^verbatim>\<open>wg show wg0\<close> succeeds, the outputs of
  \<^verbatim>\<open>wg show wg0 latest-handshakes\<close> and \<^verbatim>\<open>wg show wg0 dump\<close>, whether its
  internal address parses, and the time.
\<close>

record wg_system =
  sy_show :: bool
  sy_handshakes :: "string option"
  sy_dump :: "string option"
  sy_address :: bool
  sy_skip :: string
  sy_now :: int

definition recentHandshake :: "wg_system \<Rightarrow> bool" where
  "recentHandshake sys =
     (if \<not> sy_address sys then False
      else case sy_handshakes sys of None \<Rightarrow> False | Some output \<Rightarrow> hasRecentHandshake output (sy_now sys))"

subsection \<open>Requests\<close>

record http_request =
  hr_Method :: string
  hr_Path :: string
  hr_Headers :: "(string \<times> string) list"

definition header :: "http_request \<Rightarrow> string \<Rightarrow> string" where
  "header r k = (case map_of (hr_Headers r) k of Some v \<Rightarrow> v | None \<Rightarrow> [])"

datatype gateway_reply =
    G_Health int string string
  | G_Status EgressStatus
  | G_Error int string
  | G_Forward string http_request

definition authorized :: "gateway \<Rightarrow> http_request \<Rightarrow> bool" where
  "authorized g r = (let provided = header r tokenHeader in
     length provided = length (gt_token g) \<and> provided = gt_token g)"

definition gateway_health :: "gateway \<Rightarrow> wg_system \<Rightarrow> gateway_reply" where
  "gateway_health g sys =
     (if healthChecksTunnel (gt_mode g) then
        (if \<not> sy_show sys then G_Health 503 (gt_mode g) ''WireGuard interface is unavailable''
         else if sy_skip sys \<noteq> ''1'' \<and> \<not> recentHandshake sys
         then G_Health 503 (gt_mode g) ''WireGuard has no recent handshake''
         else G_Health 200 (gt_mode g) [])
      else G_Health 200 (gt_mode g) [])"

definition status :: "gateway \<Rightarrow> wg_system \<Rightarrow> http_request \<Rightarrow> gateway_reply" where
  "status g sys r =
     (if \<not> authorized g r then G_Error 401 ''invalid WSLAN token''
      else
        (let result = \<lparr>es_WorkstationID = [], es_Mode = gt_mode g, es_Healthy = False,
               es_FailsClosed = (gt_mode g = ''wireguard''), es_Tunnel = None, es_Error = []\<rparr>
         in if gt_mode g \<noteq> ''wireguard'' then G_Status (result\<lparr>es_Healthy := True\<rparr>)
            else case sy_dump sys of
              None \<Rightarrow> G_Status (result\<lparr>es_Error := ''WireGuard interface is unavailable'',
                es_Tunnel := Some no_tunnel\<rparr>)
            | Some output \<Rightarrow>
                (let tunnel = parseWireGuardDump output (sy_now sys) in
                 G_Status (result\<lparr>es_Tunnel := Some tunnel, es_Healthy := ts_Up tunnel\<rparr>))))"

definition proxy :: "gateway \<Rightarrow> http_request \<Rightarrow> gateway_reply" where
  "proxy g r =
     (if \<not> authorized g r then G_Error 401 ''invalid WSLAN token''
      else
        (let appID = header r appHeader in
         case map_of (gt_apps g) appID of
           None \<Rightarrow> G_Error 404 ''unknown WSLAN app''
         | Some port \<Rightarrow>
             G_Forward (''http://app-'' @ appID @ '':'' @ Itoa port)
               (r\<lparr>hr_Headers := filter (\<lambda>(k, v). k \<noteq> tokenHeader \<and> k \<noteq> appHeader) (hr_Headers r)\<rparr>)))"

definition route :: "gateway \<Rightarrow> wg_system \<Rightarrow> http_request \<Rightarrow> gateway_reply" where
  "route g sys r =
     (if header r appHeader = [] \<and> hr_Method r = ''GET'' \<and> hr_Path r = ''/healthz'' then gateway_health g sys
      else if header r appHeader = [] \<and> hr_Method r = ''GET'' \<and> hr_Path r = ''/status'' then status g sys r
      else proxy g r)"

subsection \<open>Agreement with the other components\<close>

lemma supportedMode_Valid: "supportedMode m = Valid m"
  by (simp add: supportedMode_def Valid_def)

lemma validID_identifier: "validID v = identifier_re v"
  by (cases v) (auto simp: validID_def identifier_re_def Suc_le_eq)

text \<open>Forwarding needs the token and a configured app, and neither header goes further.\<close>

lemma forwarded_request:
  assumes "route g sys r = G_Forward target r'"
  shows "authorized g r \<and> map_of (gt_apps g) (header r appHeader) \<noteq> None
    \<and> header r' tokenHeader = [] \<and> header r' appHeader = []"
proof -
  have "proxy g r = G_Forward target r'"
    using assms by (auto simp: route_def gateway_health_def status_def Let_def split: if_splits option.splits)
  moreover have "map_of (filter (\<lambda>(k, v). k \<noteq> tokenHeader \<and> k \<noteq> appHeader) hs) k = None"
    if "k = tokenHeader \<or> k = appHeader" for hs :: "(string \<times> string) list" and k
    using that by (auto simp: map_of_eq_None_iff)
  ultimately show ?thesis
    by (auto simp: proxy_def header_def Let_def split: if_splits option.splits)
qed

subsection \<open>App mappings\<close>

lemma Itoa_no_comma: "0 \<le> p \<Longrightarrow> CHR '','' \<notin> set (Itoa p)"
  using Itoa_digits [of p "CHR '',''"] by (auto simp: is_digit_def)

lemma identifier_no: "identifier_re i \<Longrightarrow> CHR '','' \<notin> set i \<and> CHR ''='' \<notin> set i"
  using identifier_chars [of i "CHR '',''"] identifier_chars [of i "CHR ''=''"]
  by (auto simp: id_char_def is_lower_def is_digit_def)

definition mapping_item :: "string \<times> int \<Rightarrow> string" where
  "mapping_item m = (case m of (i, p) \<Rightarrow> i @ ''='' @ Itoa p)"

definition mapping_ok :: "string \<times> int \<Rightarrow> bool" where
  "mapping_ok m = (case m of (i, p) \<Rightarrow> identifier_re i \<and> 1 \<le> p \<and> p \<le> 65535)"

lemma mapping_item_trimmed: "mapping_ok m \<Longrightarrow> TrimSpace (mapping_item m) = mapping_item m"
proof -
  assume ok: "mapping_ok m"
  obtain i p where m: "m = (i, p)" by (cases m)
  have i: "i \<noteq> []" "is_lower (hd i)" using ok m by (auto simp: mapping_ok_def identifier_re_def split: list.splits)
  have "last (Itoa p) \<in> set (Itoa p)" by simp
  then have "is_digit (last (Itoa p))" using Itoa_digits [of p] ok m by (simp add: mapping_ok_def)
  then have "trimmed (mapping_item m)"
    using i by (intro trimmed_visible) (simp_all add: mapping_item_def m visible_lower visible_digit)
  then show ?thesis by (rule TrimSpace_id)
qed

lemma parse_app_items_mappings:
  "list_all mapping_ok ms \<Longrightarrow>
   parse_app_items acc (map mapping_item ms) = Inr (foldl (\<lambda>acc (i, p). AList.update i p acc) acc ms)"
proof (induction ms arbitrary: acc)
  case (Cons m ms)
  obtain i p where m: "m = (i, p)" by (cases m)
  have ok: "identifier_re i" "1 \<le> p" "p \<le> 65535" using Cons.prems m by (simp_all add: mapping_ok_def)
  have "Cut (mapping_item m) (CHR ''='') = (i, Itoa p, True)"
    using identifier_no [OF ok(1)] by (simp add: mapping_item_def m)
  moreover have "Atoi (Itoa p) = Some p" using ok by (intro Atoi_Itoa) simp_all
  moreover have "mapping_item m \<noteq> []" by (simp add: mapping_item_def m)
  moreover have "TrimSpace (mapping_item m) = mapping_item m"
    using Cons.prems by (simp add: mapping_item_trimmed)
  ultimately show ?case
    using Cons ok by (simp add: m validID_identifier)
qed simp

lemma map_of_foldl_update:
  "distinct (map fst ms) \<Longrightarrow>
   map_of (foldl (\<lambda>acc (i, p). AList.update i p acc) acc ms) k =
   (case map_of ms k of Some p \<Rightarrow> Some p | None \<Rightarrow> map_of acc k)"
proof (induction ms arbitrary: acc)
  case (Cons m ms)
  then show ?case
    by (cases m) (auto simp: update_conv' map_of_eq_None_iff [THEN iffD2] split: option.splits)
qed simp

lemma parseApps_Join:
  assumes "list_all mapping_ok ms" and "distinct (map fst ms)"
  shows "\<exists>apps. parseApps (Join (map mapping_item ms) (CHR '','')) = Inr apps \<and> map_of apps = map_of ms"
proof (cases "ms = []")
  case True
  then show ?thesis by (simp add: parseApps_def)
next
  case False
  have "\<forall>w \<in> set (map mapping_item ms). CHR '','' \<notin> set w"
    using assms(1) Itoa_no_comma identifier_no
    by (fastforce simp: list_all_iff mapping_ok_def mapping_item_def)
  then have "Split (Join (map mapping_item ms) (CHR '','')) (CHR '','') = map mapping_item ms"
    using False by (simp add: Split_Join)
  then have "parseApps (Join (map mapping_item ms) (CHR '','')) =
      Inr (foldl (\<lambda>acc (i, p). AList.update i p acc) [] ms)"
    by (simp add: parseApps_def parse_app_items_mappings [OF assms(1)])
  moreover have "map_of (foldl (\<lambda>acc (i, p). AList.update i p acc) [] ms) = map_of ms"
    using map_of_foldl_update [OF assms(2), of "[]"] by (auto split: option.splits)
  ultimately show ?thesis by blast
qed

subsection \<open>Properties\<close>

text \<open>A peer is fresh when its handshake is positive and at most three minutes old.\<close>

definition fresh_peer :: "int \<Rightarrow> string \<Rightarrow> bool" where
  "fresh_peer now line =
     (let fields = Split (TrimSpace line) (CHR 0x09) in
      7 \<le> length fields \<and> (case ParseInt64 (fields ! 4) of
         None \<Rightarrow> False | Some handshake \<Rightarrow> 0 < handshake \<and> now - handshake \<le> handshakeMaxAge))"

lemma peer_line_age:
  "ts_HandshakeAgeSeconds (peer_line now t line) =
    (let fields = Split (TrimSpace line) (CHR 0x09) in
     case (if 7 \<le> length fields then ParseInt64 (fields ! 4) else None) of
       None \<Rightarrow> ts_HandshakeAgeSeconds t
     | Some hs \<Rightarrow>
         if 0 < hs \<and> (ts_HandshakeAgeSeconds t < 0 \<or> max 0 (now - hs) < ts_HandshakeAgeSeconds t)
         then max 0 (now - hs) else ts_HandshakeAgeSeconds t)"
  by (simp add: peer_line_def Let_def split: option.splits)

lemma peer_lines_fresh:
  assumes "0 \<le> a \<Longrightarrow> handshakeMaxAge < a" and "a = ts_HandshakeAgeSeconds t"
    and "0 \<le> ts_HandshakeAgeSeconds (foldl (peer_line now) t ls)"
    and "ts_HandshakeAgeSeconds (foldl (peer_line now) t ls) \<le> handshakeMaxAge"
  shows "\<exists>l \<in> set ls. fresh_peer now l"
  using assms
proof (induction ls arbitrary: t a)
  case (Cons l ls)
  show ?case
  proof (cases "fresh_peer now l")
    case False
    have "0 \<le> ts_HandshakeAgeSeconds (peer_line now t l) \<Longrightarrow>
        handshakeMaxAge < ts_HandshakeAgeSeconds (peer_line now t l)"
      using False Cons.prems(1,2)
      by (auto simp: peer_line_age fresh_peer_def Let_def split: option.splits if_splits)
    from Cons.IH [OF this refl] Cons.prems(3,4) show ?thesis by simp
  qed simp
qed auto

lemma Split_TrimSpace_head:
  assumes "k \<noteq> []" and "visible (hd k)" and "CHR 0x0A \<notin> set k" and "rest \<noteq> []" and "visible (last rest)"
  shows "Split (TrimSpace (k @ CHR 0x0A # rest)) (CHR 0x0A) = k # Split rest (CHR 0x0A)"
proof -
  have "TrimSpace (k @ CHR 0x0A # rest) = k @ CHR 0x0A # rest"
    using assms by (intro TrimSpace_id trimmed_visible) simp_all
  with assms(3) show ?thesis by (simp add: Split_append_sep)
qed


definition sample_peer :: string where
  "sample_peer = Join [''pub'', ''(none)'', ''198.51.100.7:51820'', ''0.0.0.0/0'', ''1000'', ''10'', ''20'', ''off''] (CHR 0x09)"


end
