(* ===== verification/Go_Crypto.thy ===== *)
theory Go_Crypto
  imports Go_Net "HOL-Library.Word"
begin

text \<open>
  Go's \<^verbatim>\<open>crypto/sha256\<close> and \<^verbatim>\<open>crypto/hmac\<close>, which the password and token
  code calls: SHA-256 of FIPS 180-4 on 32-bit words and HMAC of RFC 2104 over it, on strings of
  bytes. Both are executable; what the proofs use is the length of their results.
\<close>

unbundle bit_operations_syntax

type_synonym w32 = "32 word"

subsection \<open>Bytes and words\<close>

definition be_bytes :: "w32 \<Rightarrow> string" where
  "be_bytes w = map (\<lambda>k. char_of (unat (drop_bit k w))) [24, 16, 8, 0]"

fun be_words :: "string \<Rightarrow> w32 list" where
  "be_words (a # b # c # d # s) =
     word_of_nat (((of_char a * 256 + of_char b) * 256 + of_char c) * 256 + of_char d) # be_words s"
| "be_words _ = []"

definition xor_bytes :: "string \<Rightarrow> string \<Rightarrow> string" where
  "xor_bytes s t = map2 (\<lambda>a b. char_of ((of_char a :: nat) XOR of_char b)) s t"

lemma length_be_bytes [simp]: "length (be_bytes w) = 4"
  by (simp add: be_bytes_def)

lemma length_xor_bytes [simp]: "length (xor_bytes s t) = min (length s) (length t)"
  by (simp add: xor_bytes_def)

subsection \<open>SHA-256\<close>

definition sha_k :: "w32 list" where
  "sha_k =
     [1116352408, 1899447441, 3049323471, 3921009573, 961987163, 1508970993, 2453635748, 2870763221,
      3624381080, 310598401, 607225278, 1426881987, 1925078388, 2162078206, 2614888103, 3248222580,
      3835390401, 4022224774, 264347078, 604807628, 770255983, 1249150122, 1555081692, 1996064986,
      2554220882, 2821834349, 2952996808, 3210313671, 3336571891, 3584528711, 113926993, 338241895,
      666307205, 773529912, 1294757372, 1396182291, 1695183700, 1986661051, 2177026350, 2456956037,
      2730485921, 2820302411, 3259730800, 3345764771, 3516065817, 3600352804, 4094571909, 275423344,
      430227734, 506948616, 659060556, 883997877, 958139571, 1322822218, 1537002063, 1747873779,
      1955562222, 2024104815, 2227730452, 2361852424, 2428436474, 2756734187, 3204031479, 3329325298]"

record sha_state =
  sa :: w32
  sb :: w32
  sc :: w32
  sd :: w32
  se :: w32
  sf :: w32
  sg :: w32
  sh :: w32

definition sha_init :: sha_state where
  "sha_init = \<lparr>sa = 0x6a09e667, sb = 0xbb67ae85, sc = 0x3c6ef372, sd = 0xa54ff53a,
     se = 0x510e527f, sf = 0x9b05688c, sg = 0x1f83d9ab, sh = 0x5be0cd19\<rparr>"

definition rotr :: "nat \<Rightarrow> w32 \<Rightarrow> w32" where
  "rotr n w = drop_bit n w OR push_bit (32 - n) w"

definition sha_round :: "sha_state \<Rightarrow> w32 \<times> w32 \<Rightarrow> sha_state" where
  "sha_round s kw =
     (let e = se s; a = sa s;
          t1 = sh s + (rotr 6 e XOR rotr 11 e XOR rotr 25 e) + ((e AND sf s) XOR (NOT e AND sg s))
               + fst kw + snd kw;
          t2 = (rotr 2 a XOR rotr 13 a XOR rotr 22 a)
               + ((a AND sb s) XOR (a AND sc s) XOR (sb s AND sc s))
      in \<lparr>sa = t1 + t2, sb = a, sc = sb s, sd = sc s, se = sd s + t1, sf = e, sg = sf s, sh = sg s\<rparr>)"

primrec sha_schedule :: "nat \<Rightarrow> w32 list \<Rightarrow> w32 list" where
  "sha_schedule 0 w = w"
| "sha_schedule (Suc n) w =
     (let t = length w; x = w ! (t - 15); y = w ! (t - 2);
          s0 = rotr 7 x XOR rotr 18 x XOR drop_bit 3 x;
          s1 = rotr 17 y XOR rotr 19 y XOR drop_bit 10 y
      in sha_schedule n (w @ [s1 + w ! (t - 7) + s0 + w ! (t - 16)]))"

definition sha_compress :: "sha_state \<Rightarrow> w32 list \<Rightarrow> sha_state" where
  "sha_compress h block =
     (let s = foldl sha_round h (zip sha_k (sha_schedule 48 block)) in
      \<lparr>sa = sa h + sa s, sb = sb h + sb s, sc = sc h + sc s, sd = sd h + sd s,
       se = se h + se s, sf = sf h + sf s, sg = sg h + sg s, sh = sh h + sh s\<rparr>)"

function sha_blocks :: "sha_state \<Rightarrow> w32 list \<Rightarrow> sha_state" where
  "sha_blocks h ws = (if ws = [] then h else sha_blocks (sha_compress h (take 16 ws)) (drop 16 ws))"
  by pat_completeness auto
termination by (relation "measure (\<lambda>(h, ws). length ws)") auto

declare sha_blocks.simps [simp del]

definition sha_pad :: "string \<Rightarrow> string" where
  "sha_pad msg =
     (let bits = 8 * length msg in
      msg @ CHR 0x80 # replicate ((119 - length msg mod 64) mod 64) (CHR 0x00)
      @ map (\<lambda>k. char_of (bits div 2 ^ k)) [56, 48, 40, 32, 24, 16, 8, 0])"

definition Sum256 :: "string \<Rightarrow> string" where
  "Sum256 msg =
     (let s = sha_blocks sha_init (be_words (sha_pad msg)) in
      concat (map be_bytes [sa s, sb s, sc s, sd s, se s, sf s, sg s, sh s]))"

lemma length_Sum256 [simp]: "length (Sum256 msg) = 32"
  by (simp add: Sum256_def Let_def)

subsection \<open>HMAC\<close>

definition HMAC256 :: "string \<Rightarrow> string \<Rightarrow> string" where
  "HMAC256 key msg =
     (let k0 = (if length key > 64 then Sum256 key else key);
          k = k0 @ replicate (64 - length k0) (CHR 0x00)
      in Sum256 (xor_bytes k (replicate 64 (CHR 0x5c)) @
           Sum256 (xor_bytes k (replicate 64 (CHR 0x36)) @ msg)))"

lemma length_HMAC256 [simp]: "length (HMAC256 key msg) = 32"
  by (simp add: HMAC256_def Let_def)

end
