(* ===== verification/Passwords.thy ===== *)
theory Passwords
  imports Go_Crypto
begin

text \<open>
  Passwords and random tokens, \<^verbatim>\<open>internal/auth/password.go\<close>: the key derivation, the
  stored form of a password, its verification, and the tokens of sessions and shares with the
  hashes the store keeps. Random bytes are arguments, \<open>None\<close> for a failing source.
\<close>

definition pbkdf2Iterations :: int where
  "pbkdf2Iterations = 600000"
definition saltBytes :: nat where
  "saltBytes = 16"
definition keyBytes :: nat where
  "keyBytes = 32"

subsection \<open>Key derivation\<close>

text \<open>The big-endian block number, \<^verbatim>\<open>byte(block >> 24)\<close> and so on.\<close>

definition block_bytes :: "nat \<Rightarrow> string" where
  "block_bytes block = map (\<lambda>k. char_of (block div 2 ^ k)) [24, 16, 8, 0]"

text \<open>The inner loop: \<open>n\<close> rounds are left, \<open>u\<close> is the last output, \<open>t\<close> the sum so far.\<close>

primrec stretch :: "nat \<Rightarrow> string \<Rightarrow> string \<Rightarrow> string \<Rightarrow> string" where
  "stretch 0 password u t = t"
| "stretch (Suc n) password u t =
     (let u' = HMAC256 password u in stretch n password u' (xor_bytes t u'))"

definition pbkdf2_block :: "string \<Rightarrow> string \<Rightarrow> int \<Rightarrow> nat \<Rightarrow> string" where
  "pbkdf2_block password salt iterations block =
     (let u = HMAC256 password (salt @ block_bytes block) in stretch (nat (iterations - 1)) password u u)"

lemma length_stretch: "length t = 32 \<Longrightarrow> length (stretch n password u t) = 32"
  by (induction n arbitrary: u t) (simp_all add: Let_def)

lemma length_pbkdf2_block [simp]: "length (pbkdf2_block password salt iterations block) = 32"
  by (simp add: pbkdf2_block_def Let_def length_stretch)

text \<open>The outer loop runs until the result is long enough; every round adds 32 bytes.\<close>

function pbkdf2_blocks :: "string \<Rightarrow> string \<Rightarrow> int \<Rightarrow> nat \<Rightarrow> nat \<Rightarrow> string \<Rightarrow> string" where
  "pbkdf2_blocks password salt iterations len block result =
     (if length result < len
      then pbkdf2_blocks password salt iterations len (block + 1)
             (result @ pbkdf2_block password salt iterations block)
      else take len result)"
  by pat_completeness auto
termination
  by (relation "measure (\<lambda>(password, salt, iterations, len, block, result). len - length result)") auto

declare pbkdf2_blocks.simps [simp del]

definition pbkdf2SHA256 :: "string \<Rightarrow> string \<Rightarrow> int \<Rightarrow> nat \<Rightarrow> string" where
  "pbkdf2SHA256 password salt iterations len = pbkdf2_blocks password salt iterations len 1 []"

subsection \<open>Stored passwords\<close>

datatype auth_error = PasswordTooShort | NoRandomness

definition HashPassword :: "string option \<Rightarrow> string \<Rightarrow> (auth_error, string) result" where
  "HashPassword random password =
     (if length password < 12 then Inl PasswordTooShort
      else case random of
        None \<Rightarrow> Inl NoRandomness
      | Some salt \<Rightarrow>
          (let key = pbkdf2SHA256 password salt pbkdf2Iterations keyBytes in
           Inr (''pbkdf2-sha256$'' @ Itoa pbkdf2Iterations @ ''$'' @ b64_encode False False salt @ ''$'' @
                b64_encode False False key)))"

definition VerifyPassword :: "string \<Rightarrow> string \<Rightarrow> bool" where
  "VerifyPassword encoded password =
     (let parts = Split encoded (CHR ''$'') in
      if length parts \<noteq> 4 \<or> parts ! 0 \<noteq> ''pbkdf2-sha256'' then False
      else case Atoi (parts ! 1) of
        None \<Rightarrow> False
      | Some iterations \<Rightarrow>
          if iterations < 100000 \<or> iterations > 2000000 then False
          else case b64_decode False False (parts ! 2) of
            None \<Rightarrow> False
          | Some salt \<Rightarrow>
              if length salt < 16 then False
              else case b64_decode False False (parts ! 3) of
                None \<Rightarrow> False
              | Some expected \<Rightarrow>
                  if length expected \<noteq> keyBytes then False
                  else pbkdf2SHA256 password salt iterations (length expected) = expected)"

subsection \<open>Tokens\<close>

definition TokenHash :: "string \<Rightarrow> string" where
  "TokenHash raw = b64_encode False False (Sum256 raw)"

definition RandomToken :: "string option \<Rightarrow> (auth_error, string \<times> string) result" where
  "RandomToken random =
     (case random of
        None \<Rightarrow> Inl NoRandomness
      | Some v \<Rightarrow>
          (let raw = b64_encode True False v; sum = Sum256 raw in
           Inr (raw, b64_encode False False sum)))"

lemma length_b64_raw: "length (b64_encode url False s) = (4 * length s + 2) div 3"
  by (induction url False s rule: b64_encode.induct) (simp_all add: Let_def)

lemma RandomToken_hash: "RandomToken random = Inr (raw, hash) \<Longrightarrow> hash = TokenHash raw"
  by (auto simp: RandomToken_def TokenHash_def Let_def split: option.splits)

lemma RandomToken_length:
  "RandomToken (Some v) = Inr (raw, hash) \<Longrightarrow> length v = 32 \<Longrightarrow> length raw = 43"
  by (auto simp: RandomToken_def Let_def length_b64_raw)

subsection \<open>The standard's derivation\<close>

text \<open>
  PBKDF2 as RFC 8018 states it, with HMAC-SHA-256: the chain \<open>U\<close> of one block, its sum, and the
  concatenation of as many blocks as the key needs.
\<close>

primrec rfc_U :: "string \<Rightarrow> string \<Rightarrow> nat \<Rightarrow> nat \<Rightarrow> string" where
  "rfc_U P S i 0 = HMAC256 P (S @ block_bytes i)"
| "rfc_U P S i (Suc j) = HMAC256 P (rfc_U P S i j)"

definition rfc_F :: "string \<Rightarrow> string \<Rightarrow> nat \<Rightarrow> nat \<Rightarrow> string" where
  "rfc_F P S c i = foldl xor_bytes (rfc_U P S i 0) (map (rfc_U P S i) [1..<c])"

definition rfc_PBKDF2 :: "string \<Rightarrow> string \<Rightarrow> nat \<Rightarrow> nat \<Rightarrow> string" where
  "rfc_PBKDF2 P S c dkLen = take dkLen (concat (map (rfc_F P S c) [1..<Suc ((dkLen + 31) div 32)]))"

lemma stretch_chain:
  "stretch n P (rfc_U P S i j) t = foldl xor_bytes t (map (rfc_U P S i) [Suc j..<Suc j + n])"
proof (induction n arbitrary: j t)
  case (Suc n)
  have "[Suc j..<Suc j + Suc n] = Suc j # [Suc (Suc j)..<Suc (Suc j) + n]"
    by (simp add: upt_conv_Cons)
  with Suc.IH [of "Suc j"] show ?case by (simp add: Let_def)
qed simp

lemma pbkdf2_block_rfc: "0 < c \<Longrightarrow> pbkdf2_block P S (int c) i = rfc_F P S c i"
  using stretch_chain [of "c - 1" P S i 0]
  by (simp add: pbkdf2_block_def rfc_F_def Let_def of_nat_diff nat_diff_distrib)

lemma length_concat_const: "(\<And>x. x \<in> set xs \<Longrightarrow> length (f x) = k) \<Longrightarrow> length (concat (map f xs)) = k * length xs"
  by (induction xs) auto

text \<open>
  The loop over the blocks, from block \<open>b\<close> on with \<open>b - 1\<close> blocks done, appends the blocks up
  to the first number of bytes that suffices.
\<close>

lemma pbkdf2_blocks_all:
  assumes "length result = 32 * b"
  shows "pbkdf2_blocks P S c len (Suc b) result =
    take len (result @ concat (map (pbkdf2_block P S c) [Suc b..<Suc ((len + 31) div 32)]))"
  using assms
proof (induction "len - length result" arbitrary: b result rule: less_induct)
  case less
  show ?case
  proof (cases "length result < len")
    case True
    then have b: "b < (len + 31) div 32" using less.prems by linarith
    let ?r = "result @ pbkdf2_block P S c (Suc b)"
    have "len - length ?r < len - length result" "length ?r = 32 * Suc b" using True less.prems by auto
    note rest = less.hyps [OF this]
    from b have "[Suc b..<Suc ((len + 31) div 32)] = Suc b # [Suc (Suc b)..<Suc ((len + 31) div 32)]"
      by (intro upt_conv_Cons) simp
    with rest True show ?thesis
      by (subst pbkdf2_blocks.simps) (simp del: upt_Suc)
  next
    case False
    then have "(len + 31) div 32 \<le> b" using less.prems by linarith
    then show ?thesis using False by (subst pbkdf2_blocks.simps) simp
  qed
qed

subsection \<open>Properties\<close>

lemma length_pbkdf2SHA256: "length (pbkdf2SHA256 P S c len) = len"
proof -
  have "len \<le> 32 * ((len + 31) div 32)" by linarith
  then show ?thesis
    using length_concat_const [of _ "pbkdf2_block P S c" 32, OF length_pbkdf2_block, of "[1..<Suc ((len + 31) div 32)]"]
      pbkdf2_blocks_all [of "[]" 0 P S c len]
    by (simp add: pbkdf2SHA256_def del: upt_Suc)
qed

text \<open>
  C26: the key derivation of the program is PBKDF2 of RFC 8018 with HMAC-SHA-256, for every
  password, salt, positive iteration count and key length; in particular its loops end, and the key
  has the length asked for.
\<close>

theorem pbkdf2_is_rfc8018:
  assumes "0 < c"
  shows "pbkdf2SHA256 P S (int c) dkLen = rfc_PBKDF2 P S c dkLen \<and> length (pbkdf2SHA256 P S (int c) dkLen) = dkLen"
proof -
  have same: "pbkdf2_block P S (int c) = rfc_F P S c" by (rule ext) (rule pbkdf2_block_rfc [OF assms])
  have all: "pbkdf2SHA256 P S (int c) dkLen = rfc_PBKDF2 P S c dkLen"
    using pbkdf2_blocks_all [of "[]" 0 P S "int c" dkLen]
    by (simp add: pbkdf2SHA256_def rfc_PBKDF2_def same del: upt_Suc)
  with length_pbkdf2SHA256 show ?thesis by metis
qed

theorem pbkdf2_is_rfc8018_witness:
  "length (pbkdf2SHA256 ''password'' ''salt'' (int 600000) 40) = 40"
  using pbkdf2_is_rfc8018 [of 600000 "''password''" "''salt''" 40] by linarith

lemma hashed_password:
  assumes "HashPassword (Some salt) password = Inr encoded" and "length salt = saltBytes"
  shows "12 \<le> length password \<and> VerifyPassword encoded password
    \<and> VerifyPassword encoded other = (pbkdf2SHA256 other salt pbkdf2Iterations keyBytes
        = pbkdf2SHA256 password salt pbkdf2Iterations keyBytes)
    \<and> length (Split encoded (CHR ''$'')) = 4"
proof -
  let ?key = "pbkdf2SHA256 password salt pbkdf2Iterations keyBytes"
  let ?parts = "[''pbkdf2-sha256'', Itoa pbkdf2Iterations, b64_encode False False salt, b64_encode False False ?key]"
  have enc: "encoded = Join ?parts (CHR ''$'')" and long: "12 \<le> length password"
    using assms(1) by (auto simp: HashPassword_def Let_def split: if_splits)
  have "CHR ''$'' \<notin> set (Itoa pbkdf2Iterations)"
    using Itoa_digits [of pbkdf2Iterations "CHR ''$''"] by (auto simp: pbkdf2Iterations_def is_digit_def)
  then have split: "Split encoded (CHR ''$'') = ?parts"
    unfolding enc using b64_encode_chars [of "CHR ''$''" False False] by (intro Split_Join) auto
  have it: "Atoi (Itoa pbkdf2Iterations) = Some pbkdf2Iterations"
    by (rule Atoi_Itoa) (simp_all add: pbkdf2Iterations_def)
  have "length ?key = keyBytes"
    by (rule length_pbkdf2SHA256)
  then have "VerifyPassword encoded p =
      (pbkdf2SHA256 p salt pbkdf2Iterations keyBytes = ?key)" for p
    using assms(2) unfolding VerifyPassword_def split
    by (simp add: Let_def it b64_decode_encode saltBytes_def length_pbkdf2SHA256) (simp add: pbkdf2Iterations_def)
  with long split show ?thesis by simp
qed

text \<open>
  C38: what \<^verbatim>\<open>HashPassword\<close> stores, \<^verbatim>\<open>VerifyPassword\<close> accepts for the same
  password, and for another one exactly when it derives the same 32 bytes from the stored salt;
  passwords under 12 bytes are never stored, and the stored text has four fields.
\<close>

theorem password_roundtrip:
  assumes "HashPassword (Some salt) password = Inr encoded" and "length salt = saltBytes"
  shows "12 \<le> length password \<and> VerifyPassword encoded password
    \<and> VerifyPassword encoded other = (pbkdf2SHA256 other salt pbkdf2Iterations keyBytes
        = pbkdf2SHA256 password salt pbkdf2Iterations keyBytes)
    \<and> length (Split encoded (CHR ''$'')) = 4"
  by (rule hashed_password [OF assms])

theorem password_roundtrip_witness:
  "VerifyPassword (projr (HashPassword (Some (replicate 16 (CHR ''s''))) ''correct horse''))
     ''correct horse''"
proof -
  let ?r = "HashPassword (Some (replicate 16 (CHR ''s''))) ''correct horse''"
  have "?r = Inr (projr ?r)" by (simp add: HashPassword_def Let_def)
  from password_roundtrip [OF this, of "[]"] show ?thesis by (simp add: saltBytes_def)
qed

end
