(* ===== verification/File_Tree.thy ===== *)
theory File_Tree
  imports Manifests
begin

text \<open>
  A file system as a tree, with the operations of Go's \<^verbatim>\<open>os\<close> and
  \<^verbatim>\<open>path/filepath\<close> that the app store calls. Paths are lists of components. A symbolic
  link carries what it resolves to. Every operation counts as one step; \<open>dw_fails\<close> says which
  steps fail and \<open>dw_left\<close> what a failing operation that writes leaves at its target, so a
  theorem over all of them covers interrupted writes, copies and removals.
\<close>

datatype node = File string | Dir "(string \<times> node) list" | Symlink "node option" | Special

record disk =
  dk_tree :: node
  dk_steps :: nat

record disk_world =
  dw_fails :: "nat \<Rightarrow> bool"
  dw_left :: "nat \<Rightarrow> node option"
  dw_temp :: "nat \<Rightarrow> string"

subsection \<open>Trees\<close>

fun deref :: "node \<Rightarrow> node option" where
  "deref (Symlink None) = None"
| "deref (Symlink (Some n)) = deref n"
| "deref n = Some n"

text \<open>What is at a path, without following a link in the last component, and following it.\<close>

fun at_path :: "node \<Rightarrow> string list \<Rightarrow> node option" where
  "at_path n [] = Some n"
| "at_path n (c # cs) =
     (case deref n of
        Some (Dir items) \<Rightarrow> (case map_of items c of None \<Rightarrow> None | Some m \<Rightarrow> at_path m cs)
      | _ \<Rightarrow> None)"

definition stat_path :: "node \<Rightarrow> string list \<Rightarrow> node option" where
  "stat_path n p = (case at_path n p of None \<Rightarrow> None | Some m \<Rightarrow> deref m)"

text \<open>
  Setting or removing what is at a path whose parent is a directory; otherwise nothing changes. The
  program does not write through symbolic links.
\<close>

fun put_path :: "node \<Rightarrow> string list \<Rightarrow> node option \<Rightarrow> node" where
  "put_path n [] v = (case v of None \<Rightarrow> n | Some m \<Rightarrow> m)"
| "put_path (Dir items) (c # cs) v =
     (if cs = [] then
        Dir (case v of None \<Rightarrow> AList.delete c items | Some m \<Rightarrow> AList.update c m items)
      else (case map_of items c of
          None \<Rightarrow> Dir items
        | Some m \<Rightarrow> Dir (AList.update c (put_path m cs v) items)))"
| "put_path n (c # cs) v = n"

definition is_dir :: "node option \<Rightarrow> bool" where
  "is_dir n = (case n of Some (Dir _) \<Rightarrow> True | _ \<Rightarrow> False)"

text \<open>No path is a prefix of the other: they lie in different branches of the tree.\<close>

fun apart :: "string list \<Rightarrow> string list \<Rightarrow> bool" where
  "apart (a # as) (b # bs) = (a \<noteq> b \<or> apart as bs)"
| "apart _ _ = False"

lemma apart_sym: "apart p q = apart q p"
  by (induction p q rule: apart.induct) auto

lemma apart_append [simp]: "apart (p @ q) (p @ r) = apart q r"
  by (induction p) auto

lemma apart_extend: "apart p q \<Longrightarrow> apart (p @ r) q" "apart p q \<Longrightarrow> apart p (q @ s)"
  by (induction p q rule: apart.induct) auto

lemma at_put_apart: "apart p q \<Longrightarrow> at_path (put_path n p v) q = at_path n q"
proof (induction n p v arbitrary: q rule: put_path.induct)
  case (2 items c cs v)
  then obtain d ds where q: "q = d # ds" by (cases q) auto
  show ?case
  proof (cases "c = d")
    case True
    with 2 q have "apart cs ds" "cs \<noteq> []" by auto
    with 2 True q show ?thesis by (cases "map_of items d") (auto simp: update_conv')
  next
    case False
    with q show ?thesis
      by (auto simp: update_conv' delete_conv' split: option.splits)
  qed
qed (auto split: option.splits)

subsection \<open>Operations\<close>

definition step :: "disk \<Rightarrow> disk" where
  "step d = d\<lparr>dk_steps := Suc (dk_steps d)\<rparr>"

definition failing :: "disk_world \<Rightarrow> disk \<Rightarrow> bool" where
  "failing W d = dw_fails W (dk_steps d)"

text \<open>
  Setting what is at a path: \<open>None\<close> if that is impossible, because the parent is missing or not
  a directory.
\<close>

definition set_at :: "node \<Rightarrow> string list \<Rightarrow> node option \<Rightarrow> node option" where
  "set_at t p v = (let t' = put_path t p v in if p \<noteq> [] \<and> at_path t' p = v then Some t' else None)"

text \<open>What a failed writing operation leaves behind.\<close>

definition leave :: "disk_world \<Rightarrow> string list \<Rightarrow> disk \<Rightarrow> disk" where
  "leave W p d = (step d)\<lparr>dk_tree := put_path (dk_tree d) p (dw_left W (dk_steps d))\<rparr>"

definition set_op :: "disk_world \<Rightarrow> string list \<Rightarrow> node option \<Rightarrow> disk \<Rightarrow> bool \<times> disk" where
  "set_op W p v d =
     (if failing W d then (False, leave W p d)
      else case set_at (dk_tree d) p v of
        None \<Rightarrow> (False, step d)
      | Some t \<Rightarrow> (True, (step d)\<lparr>dk_tree := t\<rparr>))"

definition os_ReadFile :: "disk_world \<Rightarrow> string list \<Rightarrow> disk \<Rightarrow> read_outcome \<times> disk" where
  "os_ReadFile W p d =
     (if failing W d then (ReadError ''input/output error'', step d)
      else (case stat_path (dk_tree d) p of
          None \<Rightarrow> NotExist
        | Some (File data) \<Rightarrow> Data data
        | Some _ \<Rightarrow> ReadError ''is a directory'', step d))"

definition os_WriteFile :: "disk_world \<Rightarrow> string list \<Rightarrow> string \<Rightarrow> disk \<Rightarrow> bool \<times> disk" where
  "os_WriteFile W p data d =
     (if is_dir (at_path (dk_tree d) p) then (False, step d) else set_op W p (Some (File data)) d)"

primrec mkdirs :: "string list \<Rightarrow> string list \<Rightarrow> node \<Rightarrow> node" where
  "mkdirs base [] t = t"
| "mkdirs base (c # cs) t =
     mkdirs (base @ [c]) cs
       (if at_path t (base @ [c]) = None then put_path t (base @ [c]) (Some (Dir [])) else t)"

definition os_MkdirAll :: "disk_world \<Rightarrow> string list \<Rightarrow> disk \<Rightarrow> bool \<times> disk" where
  "os_MkdirAll W p d =
     (if failing W d then (False, step d)
      else (let t = mkdirs [] p (dk_tree d) in
        (is_dir (stat_path t p), (step d)\<lparr>dk_tree := t\<rparr>)))"

text \<open>\<^verbatim>\<open>os.MkdirTemp\<close>: a new directory whose name ends in random digits.\<close>

definition os_MkdirTemp :: "disk_world \<Rightarrow> string list \<Rightarrow> string \<Rightarrow> disk \<Rightarrow> string list option \<times> disk" where
  "os_MkdirTemp W dir prefix d =
     (let p = dir @ [prefix @ dw_temp W (dk_steps d)] in
      if at_path (dk_tree d) p \<noteq> None then (None, step d)
      else case set_op W p (Some (Dir [])) d of (ok, d') \<Rightarrow> (if ok then Some p else None, d'))"

text \<open>\<^verbatim>\<open>os.Remove\<close> takes a file or an empty directory.\<close>

definition os_Remove :: "disk_world \<Rightarrow> string list \<Rightarrow> disk \<Rightarrow> bool \<times> disk" where
  "os_Remove W p d =
     (if failing W d then (False, step d)
      else (case at_path (dk_tree d) p of
          None \<Rightarrow> (False, step d)
        | Some (Dir (_ # _)) \<Rightarrow> (False, step d)
        | Some _ \<Rightarrow> (True, (step d)\<lparr>dk_tree := put_path (dk_tree d) p None\<rparr>)))"

definition os_RemoveAll :: "disk_world \<Rightarrow> string list \<Rightarrow> disk \<Rightarrow> bool \<times> disk" where
  "os_RemoveAll W p d =
     (if failing W d then (False, leave W p d)
      else (True, (step d)\<lparr>dk_tree := put_path (dk_tree d) p None\<rparr>))"

datatype rename_outcome = Renamed | NoSource | NotRenamed

text \<open>
  \<^verbatim>\<open>os.Rename\<close> is atomic: a directory replaces only an empty directory, a file only a file.
\<close>

definition may_replace :: "node \<Rightarrow> node option \<Rightarrow> bool" where
  "may_replace n old =
     (case (n, old) of
        (_, None) \<Rightarrow> True
      | (Dir _, Some (Dir items)) \<Rightarrow> items = []
      | (Dir _, Some _) \<Rightarrow> False
      | (_, Some (Dir _)) \<Rightarrow> False
      | _ \<Rightarrow> True)"

definition os_Rename :: "disk_world \<Rightarrow> string list \<Rightarrow> string list \<Rightarrow> disk \<Rightarrow> rename_outcome \<times> disk" where
  "os_Rename W a b d =
     (case at_path (dk_tree d) a of
        None \<Rightarrow> (NoSource, step d)
      | Some n \<Rightarrow>
          if failing W d \<or> \<not> may_replace n (at_path (dk_tree d) b) then (NotRenamed, step d)
          else (case set_at (put_path (dk_tree d) a None) b (Some n) of
              None \<Rightarrow> (NotRenamed, step d)
            | Some t \<Rightarrow> (Renamed, (step d)\<lparr>dk_tree := t\<rparr>)))"

subsection \<open>Walking and copying\<close>

text \<open>
  \<^verbatim>\<open>filepath.WalkDir\<close> below a directory, for callbacks that refuse links and special
  files: the regular files with their paths relative to the start, or \<open>None\<close>.
\<close>

fun walk :: "string \<Rightarrow> node \<Rightarrow> (string \<times> string) list option"
  and walk_items :: "string \<Rightarrow> (string \<times> node) list \<Rightarrow> (string \<times> string) list option" where
  "walk rel (File data) = Some [(rel, data)]"
| "walk rel (Dir items) = walk_items rel items"
| "walk rel (Symlink _) = None"
| "walk rel Special = None"
| "walk_items rel [] = Some []"
| "walk_items rel ((name, n) # items) =
     (case walk (if rel = [] then name else rel @ ''/'' @ name) n of
        None \<Rightarrow> None
      | Some files \<Rightarrow> (case walk_items rel items of None \<Rightarrow> None | Some rest \<Rightarrow> Some (files @ rest)))"

fun overlay :: "node option \<Rightarrow> node \<Rightarrow> node option"
  and overlay_items :: "(string \<times> node) list \<Rightarrow> (string \<times> node) list \<Rightarrow> (string \<times> node) list option" where
  "overlay None n = Some n"
| "overlay (Some (Dir [])) (Dir new) = Some (Dir new)"
| "overlay (Some (Dir old)) (Dir new) = map_option Dir (overlay_items old new)"
| "overlay (Some (File _)) (File data) = Some (File data)"
| "overlay (Some _) _ = None"
| "overlay_items old [] = Some old"
| "overlay_items old ((k, n) # rest) =
     (case overlay (map_of old k) n of
        None \<Rightarrow> None
      | Some m \<Rightarrow> overlay_items (AList.update k m old) rest)"

text \<open>The entries of a directory as a scan of app packages sees them.\<close>

definition app_item :: "string \<times> node \<Rightarrow> dir_item" where
  "app_item e =
     (case e of (name, n) \<Rightarrow>
        \<lparr>di_Name = name, di_IsDir = (case n of Dir _ \<Rightarrow> True | _ \<Rightarrow> False),
         di_AppYAML = (case stat_path n [''app.yaml''] of
             None \<Rightarrow> NotExist
           | Some (File data) \<Rightarrow> Data data
           | Some _ \<Rightarrow> ReadError ''is a directory'')\<rparr>)"

definition app_items :: "node \<Rightarrow> string list \<Rightarrow> dir_item list option" where
  "app_items t p =
     (case stat_path t p of
        Some (Dir items) \<Rightarrow> Some (map app_item (sort_key fst items))
      | _ \<Rightarrow> None)"

subsection \<open>Frames\<close>

text \<open>An operation keeps what is apart from the paths it writes.\<close>

named_theorems frame_simps \<open>what an operation leaves unchanged\<close>

lemma tree_step [simp]: "dk_tree (step d) = dk_tree d"
  by (simp add: step_def)

lemma leave_apart [frame_simps]: "apart p q \<Longrightarrow> at_path (dk_tree (leave W p d)) q = at_path (dk_tree d) q"
  by (simp add: leave_def at_put_apart)

lemma set_at_apart: "set_at t p v = Some t' \<Longrightarrow> apart p q \<Longrightarrow> at_path t' q = at_path t q"
  using at_put_apart [of p q t v] by (auto simp: set_at_def Let_def split: if_splits)

lemma set_at_same: "set_at t p v = Some t' \<Longrightarrow> at_path t' p = v"
  by (auto simp: set_at_def Let_def split: if_splits)

lemma set_op_apart [frame_simps]: "apart p q \<Longrightarrow> at_path (dk_tree (snd (set_op W p v d))) q = at_path (dk_tree d) q"
  by (auto simp: set_op_def leave_apart set_at_apart split: option.split)

lemma set_op_same: "fst (set_op W p v d) \<Longrightarrow> at_path (dk_tree (snd (set_op W p v d))) p = v"
  by (auto simp: set_op_def set_at_same split: option.splits if_splits)

lemma ReadFile_tree [simp]: "dk_tree (snd (os_ReadFile W p d)) = dk_tree d"
  by (simp add: os_ReadFile_def)

lemma WriteFile_apart [frame_simps]:
  "apart p q \<Longrightarrow> at_path (dk_tree (snd (os_WriteFile W p data d))) q = at_path (dk_tree d) q"
  by (simp add: os_WriteFile_def set_op_apart)

lemma RemoveAll_apart [frame_simps]:
  "apart p q \<Longrightarrow> at_path (dk_tree (snd (os_RemoveAll W p d))) q = at_path (dk_tree d) q"
  by (simp add: os_RemoveAll_def leave_apart at_put_apart)

lemma Remove_apart [frame_simps]:
  "apart p q \<Longrightarrow> at_path (dk_tree (snd (os_Remove W p d))) q = at_path (dk_tree d) q"
  by (auto simp: os_Remove_def at_put_apart split: option.split node.split list.split)

lemma MkdirTemp_apart [frame_simps]:
  "(\<And>s. apart (dir @ [prefix @ s]) q) \<Longrightarrow>
   at_path (dk_tree (snd (os_MkdirTemp W dir prefix d))) q = at_path (dk_tree d) q"
  using set_op_apart [of "dir @ [prefix @ dw_temp W (dk_steps d)]" q W "Some (Dir [])" d]
  by (auto simp: os_MkdirTemp_def Let_def split: prod.split)

lemma MkdirTemp_path: "fst (os_MkdirTemp W dir prefix d) = Some p \<Longrightarrow> \<exists>s. p = dir @ [prefix @ s]"
  by (auto simp: os_MkdirTemp_def Let_def split: if_splits prod.splits)

lemma Rename_apart [frame_simps]:
  "apart a q \<Longrightarrow> apart b q \<Longrightarrow> at_path (dk_tree (snd (os_Rename W a b d))) q = at_path (dk_tree d) q"
  by (auto simp: os_Rename_def at_put_apart set_at_apart split: option.split)

lemma Rename_failed: "fst (os_Rename W a b d) \<noteq> Renamed \<Longrightarrow> dk_tree (snd (os_Rename W a b d)) = dk_tree d"
  by (auto simp: os_Rename_def split: option.splits if_splits)

lemma Rename_moved:
  "fst (os_Rename W a b d) = Renamed \<Longrightarrow>
   at_path (dk_tree (snd (os_Rename W a b d))) b = at_path (dk_tree d) a \<and> at_path (dk_tree d) a \<noteq> None"
  by (auto simp: os_Rename_def set_at_same split: option.splits if_splits)

lemma put_same_cases: "p \<noteq> [] \<Longrightarrow> at_path (put_path n p v) p = v \<or> at_path (put_path n p v) p = at_path n p"
proof (induction n p v rule: put_path.induct)
  case (2 items c cs v)
  show ?case
  proof (cases "cs = []")
    case True
    then show ?thesis by (auto simp: update_conv' delete_conv' split: option.splits)
  next
    case False
    with 2 show ?thesis by (cases "map_of items c") (simp_all add: update_conv')
  qed
qed auto

lemma at_path_append: "at_path t (p @ q) = (case at_path t p of None \<Rightarrow> None | Some n \<Rightarrow> at_path n q)"
  by (induction p arbitrary: t) (auto split: option.split node.split)

text \<open>Making directories changes nothing apart from the path made.\<close>

lemma apart_or_prefix: "apart (p @ r) q \<Longrightarrow> apart p q \<or> (\<exists>s. q = p @ s \<and> s \<noteq> [])"
  by (induction p q rule: apart.induct) (auto elim: apart.elims)

lemma put_dir_keeps:
  assumes "at_path t p = None" and "p \<noteq> []" and "apart (p @ r) q"
  shows "at_path (put_path t p (Some (Dir []))) q = at_path t q"
  using apart_or_prefix [OF assms(3)]
proof
  assume "\<exists>s. q = p @ s \<and> s \<noteq> []"
  then obtain c s where "q = p @ c # s" by (metis neq_Nil_conv)
  with put_same_cases [OF assms(2), of t "Some (Dir [])"] assms(1) show ?thesis
    by (auto simp: at_path_append split: option.splits)
qed (rule at_put_apart)

lemma mkdirs_apart: "apart (base @ cs) q \<Longrightarrow> at_path (mkdirs base cs t) q = at_path t q"
proof (induction cs arbitrary: base t)
  case (Cons c cs)
  then have "at_path (mkdirs base (c # cs) t) q =
      at_path (if at_path t (base @ [c]) = None then put_path t (base @ [c]) (Some (Dir [])) else t) q"
    by simp
  with put_dir_keeps [of t "base @ [c]" cs q] Cons.prems show ?case by simp
qed simp

lemma MkdirAll_apart [frame_simps]:
  "apart p q \<Longrightarrow> at_path (dk_tree (snd (os_MkdirAll W p d))) q = at_path (dk_tree d) q"
  using mkdirs_apart [of "[]" p q] by (simp add: os_MkdirAll_def Let_def)

lemma put_dir_below:
  assumes "at_path t p = None" and "p \<noteq> []"
  shows "at_path (put_path t p (Some (Dir []))) (p @ cs) = None \<or>
    cs = [] \<and> at_path (put_path t p (Some (Dir []))) (p @ cs) = Some (Dir [])"
  using put_same_cases [OF assms(2), of t "Some (Dir [])"] assms(1)
  by (cases cs) (auto simp: at_path_append)

lemma mkdirs_target:
  "cs \<noteq> [] \<Longrightarrow> at_path (mkdirs base cs t) (base @ cs) = at_path t (base @ cs) \<or>
   at_path t (base @ cs) = None \<and> at_path (mkdirs base cs t) (base @ cs) = Some (Dir [])"
proof (induction cs arbitrary: base t)
  case (Cons c cs)
  let ?p = "base @ [c]"
  let ?t = "if at_path t ?p = None then put_path t ?p (Some (Dir [])) else t"
  have "at_path t ?p = None \<Longrightarrow> at_path t (?p @ cs) = None" by (subst at_path_append) simp
  with put_dir_below [of t ?p cs] have put: "at_path ?t (?p @ cs) = at_path t (?p @ cs) \<or>
      at_path t (?p @ cs) = None \<and> (at_path ?t (?p @ cs) = None \<or> cs = [] \<and> at_path ?t (?p @ cs) = Some (Dir []))"
    by (cases "at_path t ?p = None") auto
  show ?case
  proof (cases "cs = []")
    case True
    with put show ?thesis by auto
  next
    case False
    from Cons.IH [OF this, of ?p ?t] put False show ?thesis by auto
  qed
qed simp

lemma Remove_same:
  "p \<noteq> [] \<Longrightarrow> at_path (dk_tree (snd (os_Remove W p d))) p = at_path (dk_tree d) p \<or>
   at_path (dk_tree (snd (os_Remove W p d))) p = None"
  using put_same_cases [of p "dk_tree d" None]
  by (auto simp: os_Remove_def split: option.split node.split list.split)

subsection \<open>Copying a directory\<close>

text \<open>
  \<^verbatim>\<open>copyDirectory\<close> of the app store. Walking and copying count as one step that may fail
  half way; a directory with links or special files is refused, again with part of it copied.
\<close>

definition copyDirectory :: "disk_world \<Rightarrow> string list \<Rightarrow> string list \<Rightarrow> disk \<Rightarrow> bool \<times> disk" where
  "copyDirectory W source destination d =
     (case os_MkdirAll W destination d of
        (False, d) \<Rightarrow> (False, d)
      | (True, d) \<Rightarrow>
          if failing W d then (False, leave W destination d)
          else (case at_path (dk_tree d) source of
              None \<Rightarrow> (False, step d)
            | Some (Dir items) \<Rightarrow>
                (case walk [] (Dir items) of
                   None \<Rightarrow> (False, leave W destination d)
                 | Some _ \<Rightarrow>
                     (case overlay (at_path (dk_tree d) destination) (Dir items) of
                        None \<Rightarrow> (False, leave W destination d)
                      | Some m \<Rightarrow> set_op W destination (Some m) d))
            | Some _ \<Rightarrow> (True, step d)))"

lemma copyDirectory_apart [frame_simps]:
  "apart destination q \<Longrightarrow> at_path (dk_tree (snd (copyDirectory W source destination d))) q = at_path (dk_tree d) q"
  using MkdirAll_apart [of destination q W d]
  by (auto simp: copyDirectory_def leave_apart set_op_apart split: prod.split bool.split option.split node.split)

lemma copyDirectory_exact:
  assumes "fst (copyDirectory W source destination d)" and "destination \<noteq> []" and "apart destination source"
    and "at_path (dk_tree d) destination = None \<or> at_path (dk_tree d) destination = Some (Dir [])"
    and "at_path (dk_tree d) source = Some (Dir items)"
  shows "at_path (dk_tree (snd (copyDirectory W source destination d))) destination = Some (Dir items)"
proof -
  obtain ok d1 where m: "os_MkdirAll W destination d = (ok, d1)" by (cases "os_MkdirAll W destination d")
  with assms(1) have ok: "os_MkdirAll W destination d = (True, d1)" by (cases ok) (auto simp: copyDirectory_def)
  have src: "at_path (dk_tree d1) source = Some (Dir items)"
    using MkdirAll_apart [OF assms(3), of W d] ok assms(5) by simp
  have "at_path (dk_tree d1) destination = Some (Dir []) \<or> at_path (dk_tree d1) destination = None"
    using mkdirs_target [OF assms(2), of "[]" "dk_tree d"] ok assms(4)
    by (auto simp: os_MkdirAll_def Let_def split: if_splits)
  then have "overlay (at_path (dk_tree d1) destination) (Dir items) = Some (Dir items)" by auto
  with assms(1) ok src show ?thesis
    by (auto simp: copyDirectory_def dest: set_op_same split: if_splits option.splits)
qed

end
