(* ===== verification/App_Catalog.thy ===== *)
theory App_Catalog
  imports File_Tree Go_Crypto Worker_Admission
begin

text \<open>
  Packages of the app store and their catalogue, \<^verbatim>\<open>internal/appstore/catalog.go\<close>: reading
  and checking a bundle and an index, inspecting a payload, and building the index of a source tree.
  The JSON decoder and encoder, the YAML decoder and \<^verbatim>\<open>url.Parse\<close> are arguments; a JSON
  decoder yields the decoded value and the unread rest of the text.
\<close>

abbreviation SchemaVersion :: int where
  "SchemaVersion \<equiv> 1"
abbreviation maxBundleBytes :: int where
  "maxBundleBytes \<equiv> 262144"
abbreviation maxFileBytes :: int where
  "maxFileBytes \<equiv> 10485760"
abbreviation maxPayloadBytes :: int where
  "maxPayloadBytes \<equiv> 26214400"

record Author =
  au_Name :: string
  au_URL :: string

record Compatibility =
  co_MinimumControllerVersion :: string
  co_Platforms :: "string list"

record FileRecord =
  fr_Path :: string
  fr_SHA256 :: string
  fr_SizeBytes :: int

record Package =
  pk_PayloadSHA256 :: string
  pk_PayloadSizeBytes :: int
  pk_Files :: "FileRecord list"

record Bundle =
  bu_SchemaVersion :: int
  bu_ID :: string
  bu_Name :: string
  bu_Version :: string
  bu_Summary :: string
  bu_Description :: string
  bu_Categories :: "string list"
  bu_Authors :: "Author list"
  bu_LicenseCatalog :: string
  bu_LicenseUpstream :: string
  bu_Homepage :: string
  bu_Source :: string
  bu_Support :: string
  bu_Compatibility :: Compatibility
  bu_Icon :: string
  bu_Screenshots :: "string list"
  bu_Package :: Package

record PermissionBrief =
  pb_Network :: string
  pb_Storage :: "string list"
  pb_Capabilities :: "string list"

record IndexEntry =
  ie_ID :: string
  ie_Name :: string
  ie_Version :: string
  ie_Summary :: string
  ie_Categories :: "string list"
  ie_Icon :: string
  ie_Image :: string
  ie_Compatibility :: Compatibility
  ie_Permissions :: PermissionBrief
  ie_Bundle :: FileRecord

record Index =
  ix_SchemaVersion :: int
  ix_Apps :: "IndexEntry list"

record URL =
  url_Scheme :: string
  url_User :: bool
  url_Host :: string
  url_Path :: string
  url_RawQuery :: string
  url_Fragment :: string

record catalog_world =
  cw_bundle :: "string \<Rightarrow> (Bundle \<times> string) option"
  cw_index :: "string \<Rightarrow> (Index \<times> string) option"
  cw_marshal_bundle :: "Bundle \<Rightarrow> string"
  cw_marshal_index :: "Index \<Rightarrow> string"
  cw_yaml :: "string \<Rightarrow> string option \<times> Manifest"
  cw_url :: "string \<Rightarrow> URL option"

datatype catalog_error =
    BundleTooLarge
  | BundleUnreadable
  | BundleUndecodable
  | TrailingJSON
  | IndexTooLarge
  | IndexUndecodable
  | IndexSchema
  | TooManyApps
  | BadAppID string
  | BadDisplayMetadata string
  | BadBundleMetadata string
  | UnsafeIconPath string
  | BundleSchema
  | IDsDiffer
  | NamesDiffer
  | BadSummary
  | BadDescription
  | BadCategories
  | BadCategory string
  | NoAuthors
  | AuthorName
  | AuthorURL string
  | NoLicense
  | BadLink string
  | BadMinimumVersion
  | NoPlatforms
  | BadPlatform string
  | NotAService
  | IconMismatch
  | UnsafePath string
  | PackageFile string
  | SpecialFiles
  | FileTooLarge string
  | PayloadEmpty
  | PayloadTooLarge
  | AppsUnreadable
  | MissingManifest string
  | StaleHashes string
  | InApp string catalog_error
  | WriteError
  | StaleIndex

subsection \<open>Decoding\<close>

text \<open>The second \<^verbatim>\<open>Decode\<close> reports the end of the text only when white space is left.\<close>

definition ensureJSONEnd :: "string \<Rightarrow> bool" where
  "ensureJSONEnd rest = list_all (\<lambda>c. c \<in> {CHR '' '', CHR 0x09, CHR 0x0A, CHR 0x0D}) rest"

definition DecodeBundle :: "catalog_world \<Rightarrow> string \<Rightarrow> (catalog_error, Bundle) result" where
  "DecodeBundle C data =
     (if int (length data) > maxBundleBytes then Inl BundleTooLarge
      else case cw_bundle C data of
        None \<Rightarrow> Inl BundleUndecodable
      | Some (bundle, rest) \<Rightarrow> if ensureJSONEnd rest then Inr bundle else Inl TrailingJSON)"

text \<open>\<^verbatim>\<open>filepath.Base\<close> and the \<^verbatim>\<open>filepath.Join\<close> of three elements.\<close>

definition Base :: "string \<Rightarrow> string" where
  "Base p =
     (if p = [] then ''.''
      else (let q = rev (dropWhile (\<lambda>c. c = CHR ''/'') (rev p)) in
        if q = [] then ''/'' else last (Split q (CHR ''/''))))"

definition path_join3 :: "string \<Rightarrow> string \<Rightarrow> string \<Rightarrow> string" where
  "path_join3 a b c = Clean (a @ CHR ''/'' # b @ CHR ''/'' # c)"

definition check_index_app :: "string list \<Rightarrow> IndexEntry \<Rightarrow> catalog_error check" where
  "check_index_app seen app =
     (if \<not> identifier_re (ie_ID app) \<or> ie_ID app \<in> set seen then Some (BadAppID (ie_ID app))
      else if TrimSpace (ie_Name app) = [] \<or> \<not> version_re (ie_Version app) \<or>
              length (TrimSpace (ie_Summary app)) < 8
      then Some (BadDisplayMetadata (ie_ID app))
      else if fr_Path (ie_Bundle app) \<noteq> path_join3 ''apps'' (ie_ID app) ''bundle.json'' \<or>
              \<not> hash64 (fr_SHA256 (ie_Bundle app)) \<or> fr_SizeBytes (ie_Bundle app) < 2 \<or>
              fr_SizeBytes (ie_Bundle app) > maxBundleBytes
      then Some (BadBundleMetadata (ie_ID app))
      else if ie_Icon app \<noteq> path_join3 ''apps'' (ie_ID app) (Base (ie_Icon app))
      then Some (UnsafeIconPath (ie_ID app))
      else None)"

primrec check_index_apps :: "string list \<Rightarrow> IndexEntry list \<Rightarrow> catalog_error check" where
  "check_index_apps seen [] = None"
| "check_index_apps seen (app # apps) =
     and_then (check_index_app seen app) (check_index_apps (seen @ [ie_ID app]) apps)"

definition DecodeIndex :: "catalog_world \<Rightarrow> string \<Rightarrow> (catalog_error, Index) result" where
  "DecodeIndex C data =
     (if length data > 1024 * 1024 then Inl IndexTooLarge
      else case cw_index C data of
        None \<Rightarrow> Inl IndexUndecodable
      | Some (index, rest) \<Rightarrow>
          if \<not> ensureJSONEnd rest then Inl TrailingJSON
          else if ix_SchemaVersion index \<noteq> SchemaVersion then Inl IndexSchema
          else if length (ix_Apps index) > 1000 then Inl TooManyApps
          else guard (check_index_apps [] (ix_Apps index)) (Inr index))"

definition loadBundle ::
  "catalog_world \<Rightarrow> disk_world \<Rightarrow> string list \<Rightarrow> disk \<Rightarrow> (catalog_error, Bundle) result \<times> disk" where
  "loadBundle C W path d =
     (if failing W d then (Inl BundleUnreadable, step d)
      else case stat_path (dk_tree d) path of
        None \<Rightarrow> (Inl BundleUnreadable, step d)
      | Some info \<Rightarrow>
          if (case info of File data \<Rightarrow> int (length data) > maxBundleBytes | _ \<Rightarrow> False)
          then (Inl BundleTooLarge, step d)
          else (case os_ReadFile W path (step d) of
              (Data data, d') \<Rightarrow> (DecodeBundle C data, d')
            | (_, d') \<Rightarrow> (Inl BundleUnreadable, d')))"

subsection \<open>Checking a bundle\<close>

definition validHTTPSURL :: "catalog_world \<Rightarrow> string \<Rightarrow> bool" where
  "validHTTPSURL C v =
     (case cw_url C v of
        None \<Rightarrow> False
      | Some u \<Rightarrow> url_Scheme u = ''https'' \<and> url_Host u \<noteq> [] \<and> \<not> url_User u \<and> url_Fragment u = [])"

text \<open>A path string below a directory, \<^verbatim>\<open>filepath.Join(dir, path)\<close>, as components.\<close>

definition sub_path :: "string list \<Rightarrow> string \<Rightarrow> string list" where
  "sub_path dir path = foldl (clean_step True) dir (Split path (CHR ''/''))"

definition validateRelativeFile :: "node \<Rightarrow> string list \<Rightarrow> string \<Rightarrow> catalog_error check" where
  "validateRelativeFile t dir path =
     (let clean = Clean path in
      if path = [] \<or> IsAbs clean \<or> clean = ''.'' \<or> clean = ''..'' \<or> HasPrefix clean ''../''
      then Some (UnsafePath path)
      else case at_path t (sub_path dir clean) of
        Some (File _) \<Rightarrow> None
      | _ \<Rightarrow> Some (PackageFile path))"

definition check_author :: "catalog_world \<Rightarrow> Author \<Rightarrow> catalog_error check" where
  "check_author C author =
     (if TrimSpace (au_Name author) = [] then Some AuthorName
      else if au_URL author \<noteq> [] \<and> \<not> validHTTPSURL C (au_URL author) then Some (AuthorURL (au_URL author))
      else None)"

definition validateBundle ::
  "catalog_world \<Rightarrow> node \<Rightarrow> Bundle \<Rightarrow> Manifest \<Rightarrow> string \<Rightarrow> string list \<Rightarrow> catalog_error check" where
  "validateBundle C t bundle manifest directory packageDirectory =
     (if bu_SchemaVersion bundle \<noteq> SchemaVersion then Some BundleSchema
      else if \<not> identifier_re (bu_ID bundle) \<or> bu_ID bundle \<noteq> directory \<or> m_ID manifest \<noteq> bu_ID bundle
      then Some IDsDiffer
      else if bu_Name bundle \<noteq> m_Name manifest \<or> bu_Version bundle \<noteq> m_Version manifest \<or>
              \<not> version_re (bu_Version bundle)
      then Some NamesDiffer
      else if length (TrimSpace (bu_Summary bundle)) < 8 \<or> length (bu_Summary bundle) > 100
      then Some BadSummary
      else if length (TrimSpace (bu_Description bundle)) < 20 \<or> length (bu_Description bundle) > 2000
      then Some BadDescription
      else if length (bu_Categories bundle) = 0 \<or> length (bu_Categories bundle) > 8
      then Some BadCategories
      else and_then (check_all (\<lambda>c. if \<not> identifier_re c then Some (BadCategory c) else None)
             (bu_Categories bundle))
       (if length (bu_Authors bundle) = 0 then Some NoAuthors
        else and_then (check_all (check_author C) (bu_Authors bundle))
         (if bu_LicenseCatalog bundle = [] \<or> bu_LicenseUpstream bundle = [] then Some NoLicense
          else and_then (check_all (\<lambda>v. if \<not> validHTTPSURL C v then Some (BadLink v) else None)
                 [bu_Homepage bundle, bu_Source bundle, bu_Support bundle])
           (if \<not> version_re (co_MinimumControllerVersion (bu_Compatibility bundle)) then Some BadMinimumVersion
            else if length (co_Platforms (bu_Compatibility bundle)) = 0 then Some NoPlatforms
            else and_then (check_all
                   (\<lambda>p. if p \<noteq> ''linux/amd64'' \<and> p \<noteq> ''linux/arm64'' then Some (BadPlatform p) else None)
                   (co_Platforms (bu_Compatibility bundle)))
             (if rt_Type (m_Runtime manifest) \<noteq> ''container-service'' then Some NotAService
              else if bu_Icon bundle = [] \<or> bu_Icon bundle \<noteq> d_Icon (m_Desktop manifest) then Some IconMismatch
              else check_all (validateRelativeFile t packageDirectory)
                     (bu_Icon bundle # bu_Screenshots bundle))))))"

subsection \<open>Payloads\<close>

definition file_record :: "string \<times> string \<Rightarrow> (catalog_error, FileRecord) result" where
  "file_record f =
     (case f of (path, data) \<Rightarrow>
        if int (length data) > maxFileBytes then Inl (FileTooLarge path)
        else Inr \<lparr>fr_Path = path, fr_SHA256 = hex_encode (Sum256 data), fr_SizeBytes = int (length data)\<rparr>)"

primrec file_records :: "(string \<times> string) list \<Rightarrow> (catalog_error, FileRecord list) result" where
  "file_records [] = Inr []"
| "file_records (f # fs) =
     (if fst f = ''bundle.json'' then file_records fs
      else (case file_record f of
          Inl e \<Rightarrow> Inl e
        | Inr r \<Rightarrow> (case file_records fs of Inl e \<Rightarrow> Inl e | Inr rs \<Rightarrow> Inr (r # rs))))"

definition payload_line :: "FileRecord \<Rightarrow> string" where
  "payload_line f = fr_Path f @ [CHR 0x0A] @ fr_SHA256 f @ [CHR 0x0A] @ Itoa (fr_SizeBytes f) @ [CHR 0x0A]"

primrec payload_sum :: "int \<Rightarrow> string \<Rightarrow> FileRecord list \<Rightarrow> (catalog_error, int \<times> string) result" where
  "payload_sum acc text [] = Inr (acc, text)"
| "payload_sum acc text (f # fs) =
     (let acc = acc + fr_SizeBytes f in
      if acc > maxPayloadBytes then Inl PayloadTooLarge else payload_sum acc (text @ payload_line f) fs)"

text \<open>\<^verbatim>\<open>inspectPayload\<close> of what is at the root, without the failures of reading it.\<close>

definition payload_of :: "node option \<Rightarrow> (catalog_error, Package) result" where
  "payload_of base =
     (case base of
        None \<Rightarrow> Inl BundleUnreadable
      | Some n \<Rightarrow>
          (case (case n of File _ \<Rightarrow> Some [] | Special \<Rightarrow> Some [] | Symlink _ \<Rightarrow> Some [] | Dir _ \<Rightarrow> walk [] n) of
             None \<Rightarrow> Inl SpecialFiles
           | Some files \<Rightarrow>
               (case file_records files of
                  Inl e \<Rightarrow> Inl e
                | Inr records \<Rightarrow>
                    (let files = sort_key fr_Path records in
                     if length files = 0 then Inl PayloadEmpty
                     else (case payload_sum 0 [] files of
                         Inl e \<Rightarrow> Inl e
                       | Inr (acc, text) \<Rightarrow>
                           Inr \<lparr>pk_PayloadSHA256 = hex_encode (Sum256 text), pk_PayloadSizeBytes = acc,
                              pk_Files = files\<rparr>)))))"

definition inspectPayload ::
  "disk_world \<Rightarrow> string list \<Rightarrow> disk \<Rightarrow> (catalog_error, Package) result \<times> disk" where
  "inspectPayload W dir d =
     (if failing W d then Inl BundleUnreadable else payload_of (at_path (dk_tree d) dir), step d)"

subsection \<open>Building the index\<close>

definition path_string :: "string list \<Rightarrow> string" where
  "path_string p = CHR ''/'' # Join p (CHR ''/'')"

definition scan_environment :: "catalog_world \<Rightarrow> node \<Rightarrow> environment" where
  "scan_environment C t =
     \<lparr>yaml_decode = cw_yaml C, digest = Sum256, file_exists = (\<lambda>p. stat_path t (clean_parts p) \<noteq> None)\<rparr>"

text \<open>\<^verbatim>\<open>manifests.Scan\<close> of a directory of the tree.\<close>

definition scan_tree :: "catalog_world \<Rightarrow> string list \<Rightarrow> node \<Rightarrow> Registry option" where
  "scan_tree C p t = map_option (Scan (scan_environment C t) (path_string p)) (app_items t p)"

definition inspectFile :: "disk_world \<Rightarrow> string list \<Rightarrow> disk \<Rightarrow> (catalog_error, FileRecord) result \<times> disk" where
  "inspectFile W path d =
     (case os_ReadFile W path d of
        (Data data, d') \<Rightarrow> (file_record (path_string path, data), d')
      | (_, d') \<Rightarrow> (Inl BundleUnreadable, d'))"

definition index_entry :: "string \<Rightarrow> Bundle \<Rightarrow> Manifest \<Rightarrow> FileRecord \<Rightarrow> IndexEntry" where
  "index_entry item bundle manifest record =
     \<lparr>ie_ID = bu_ID bundle, ie_Name = bu_Name bundle, ie_Version = bu_Version bundle,
      ie_Summary = bu_Summary bundle, ie_Categories = bu_Categories bundle,
      ie_Icon = path_join3 ''apps'' item (bu_Icon bundle), ie_Image = rt_Image (m_Runtime manifest),
      ie_Compatibility = bu_Compatibility bundle,
      ie_Permissions = \<lparr>pb_Network = m_NetworkMode manifest,
        pb_Storage = sort (keep_first (map st_Type (m_Storage manifest))),
        pb_Capabilities = m_Capabilities manifest\<rparr>,
      ie_Bundle = record\<lparr>fr_Path := path_join3 ''apps'' item ''bundle.json''\<rparr>\<rparr>"

definition build_item ::
  "catalog_world \<Rightarrow> disk_world \<Rightarrow> string list \<Rightarrow> bool \<Rightarrow> Registry \<Rightarrow> string \<Rightarrow> disk
   \<Rightarrow> (catalog_error, IndexEntry) result \<times> disk" where
  "build_item C W base update registry item d =
     (let dir = base @ [''apps'', item]; bundlePath = dir @ [''bundle.json''] in
      case loadBundle C W bundlePath d of
        (Inl e, d) \<Rightarrow> (Inl (InApp item e), d)
      | (Inr bundle, d) \<Rightarrow>
          (case Get registry (bu_ID bundle) of
             None \<Rightarrow> (Inl (MissingManifest item), d)
           | Some manifest \<Rightarrow>
               (case validateBundle C (dk_tree d) bundle manifest item dir of
                  Some e \<Rightarrow> (Inl (InApp item e), d)
                | None \<Rightarrow>
                    (case inspectPayload W dir d of
                       (Inl e, d) \<Rightarrow> (Inl (InApp item e), d)
                     | (Inr payload, d) \<Rightarrow>
                         (let stale = (bu_Package bundle \<noteq> payload) in
                          if stale \<and> \<not> update then (Inl (StaleHashes item), d)
                          else (case (if stale
                                then os_WriteFile W bundlePath
                                  (cw_marshal_bundle C (bundle\<lparr>bu_Package := payload\<rparr>) @ [CHR 0x0A]) d
                                else (True, d)) of
                              (False, d) \<Rightarrow> (Inl WriteError, d)
                            | (True, d) \<Rightarrow>
                                (case inspectFile W bundlePath d of
                                   (Inl e, d) \<Rightarrow> (Inl e, d)
                                 | (Inr record, d) \<Rightarrow> (Inr (index_entry item bundle manifest record), d))))))))"

primrec build_items ::
  "catalog_world \<Rightarrow> disk_world \<Rightarrow> string list \<Rightarrow> bool \<Rightarrow> Registry \<Rightarrow> dir_item list \<Rightarrow> disk
   \<Rightarrow> (catalog_error, IndexEntry list) result \<times> disk" where
  "build_items C W base update registry [] d = (Inr [], d)"
| "build_items C W base update registry (item # items) d =
     (if \<not> di_IsDir item then build_items C W base update registry items d
      else (case build_item C W base update registry (di_Name item) d of
          (Inl e, d) \<Rightarrow> (Inl e, d)
        | (Inr entry, d) \<Rightarrow>
            (case build_items C W base update registry items d of
               (Inl e, d) \<Rightarrow> (Inl e, d)
             | (Inr entries, d) \<Rightarrow> (Inr (entry # entries), d))))"

definition Build ::
  "catalog_world \<Rightarrow> disk_world \<Rightarrow> string list \<Rightarrow> bool \<Rightarrow> disk \<Rightarrow> (catalog_error, Index) result \<times> disk" where
  "Build C W base update d =
     (if failing W d then (Inl AppsUnreadable, step d)
      else case (scan_tree C (base @ [''apps'']) (dk_tree d), app_items (dk_tree d) (base @ [''apps''])) of
        (Some registry, Some items) \<Rightarrow>
          (case build_items C W base update registry items (step d) of
             (Inl e, d) \<Rightarrow> (Inl e, d)
           | (Inr apps, d) \<Rightarrow>
               (Inr \<lparr>ix_SchemaVersion = SchemaVersion, ix_Apps = sort_key ie_ID apps\<rparr>, d))
      | _ \<Rightarrow> (Inl AppsUnreadable, step d))"

definition CheckIndex ::
  "catalog_world \<Rightarrow> disk_world \<Rightarrow> string list \<Rightarrow> disk \<Rightarrow> catalog_error check \<times> disk" where
  "CheckIndex C W base d =
     (case Build C W base False d of
        (Inl e, d) \<Rightarrow> (Some e, d)
      | (Inr index, d) \<Rightarrow>
          (let expected = cw_marshal_index C index @ [CHR 0x0A] in
           case os_ReadFile W (base @ [''index.json'']) d of
             (Data actual, d) \<Rightarrow> (if actual \<noteq> expected then Some StaleIndex else None, d)
           | (_, d) \<Rightarrow> (Some BundleUnreadable, d)))"

definition WriteIndex :: "catalog_world \<Rightarrow> disk_world \<Rightarrow> string list \<Rightarrow> Index \<Rightarrow> disk \<Rightarrow> bool \<times> disk" where
  "WriteIndex C W base index d =
     os_WriteFile W (base @ [''index.json'']) (cw_marshal_index C index @ [CHR 0x0A]) d"

end
