(* ===== verification/Database.thy ===== *)
theory Database
  imports Sharing "HOL-Library.Product_Lexorder"
begin

text \<open>
  The SQLite store of the controller, \<^verbatim>\<open>internal/database/database.go\<close> over the schema of
  \<^verbatim>\<open>migrations/\<close>: one record field per table the program uses, rows as records in
  insertion order, and one definition per method. Every method is one SQL statement or one
  transaction; a failing transaction returns the database unchanged. Constraint violations
  (\<^verbatim>\<open>UNIQUE\<close>, \<^verbatim>\<open>CHECK\<close>, \<^verbatim>\<open>NOT NULL\<close>, foreign keys) are errors of the
  statement; failures of the disk or of the connection are not modelled. The current time is an
  argument, the same for all calls of \<^verbatim>\<open>now()\<close> within one method.
\<close>

subsection \<open>Timestamps\<close>

text \<open>
  Timestamps are stored as the RFC 3339 text of a UTC time with the trailing zeros of the
  fraction removed, and SQLite compares them as text. For the years 0000 to 9999 the texts up to
  the seconds have one length and order as the seconds do; what follows is the fraction, written
  out here. A stored timestamp is the instant itself, compared by \<open>text_key\<close>.
\<close>

datatype time = Time (unix_sec: int) (unix_nano: nat)

definition zero_time :: time where
  "zero_time = Time (-62135596800) 0"

definition frac_text :: "nat \<Rightarrow> string" where
  "frac_text n =
     (if n = 0 then ''Z''
      else
        (let digits = nat_digits n;
             padded = replicate (9 - length digits) CHR ''0'' @ digits
         in CHR ''.'' # rev (dropWhile (\<lambda>c. c = CHR ''0'') (rev padded)) @ ''Z''))"

definition text_key :: "time \<Rightarrow> int \<times> string" where
  "text_key t = (unix_sec t, frac_text (unix_nano t))"

definition later :: "time \<Rightarrow> time \<Rightarrow> bool" where
  "later a b = (text_key b < text_key a)"

lemma later_sec: "later a b \<Longrightarrow> unix_sec b \<le> unix_sec a"
  by (auto simp: later_def text_key_def)

lemma later_if_sec: "unix_sec b < unix_sec a \<Longrightarrow> later a b"
  by (simp add: later_def text_key_def)

subsection \<open>Tables\<close>

record User =
  u_ID :: int
  u_Username :: string
  u_IsAdmin :: bool
  u_AllowedEgress :: string
  u_AccentColor :: string
  u_CreatedAt :: time

record user_row = User +
  u_password_hash :: string

record session_row =
  s_token_hash :: string
  s_user_id :: int
  s_expires_at :: time
  s_created_at :: time
  s_last_used_at :: time
  s_revoked_at :: "time option"

record WorkstationApp =
  wa_AppID :: string
  wa_AppVersion :: string
  wa_State :: string
  wa_ContainerName :: string
  wa_InternalPort :: int

record app_row = WorkstationApp +
  ar_workstation_id :: string
  ar_updated_at :: time

record Workstation =
  ws_ID :: string
  ws_Name :: string
  ws_OwnerUserID :: int
  ws_TemplateID :: string
  ws_WorkspaceImage :: string
  ws_State :: string
  ws_Hostname :: string
  ws_CPULimit :: float64
  ws_MemoryLimitMB :: int
  ws_PIDLimit :: int
  ws_Persistent :: bool
  ws_VPNRequired :: bool
  ws_VPNProfileID :: "int option"
  ws_EgressMode :: string
  ws_AccentColor :: string
  ws_ExitIP :: string
  ws_CreatedAt :: time
  ws_UpdatedAt :: time
  ws_LastStartedAt :: time
  ws_ErrorMessage :: string
  ws_Apps :: "WorkstationApp list"

record workstation_row =
  r_id :: string
  r_name :: string
  r_owner_user_id :: int
  r_template_id :: string
  r_workspace_image :: string
  r_state :: string
  r_hostname :: string
  r_cpu_limit :: float64
  r_memory_limit_mb :: int
  r_pid_limit :: int
  r_persistent :: bool
  r_vpn_required :: bool
  r_vpn_profile_id :: "int option"
  r_egress_mode :: string
  r_accent_color :: string
  r_exit_ip :: string
  r_created_at :: time
  r_updated_at :: time
  r_last_started_at :: "time option"
  r_error_message :: string

record VPNProfile =
  p_ID :: int
  p_Name :: string
  p_Provider :: string
  p_VPNType :: string
  p_ServerCountries :: string
  p_ServerCities :: string
  p_ServerRegions :: string
  p_Endpoint :: string
  p_OwnerUserID :: "int option"
  p_Visibility :: string
  p_AutoAssign :: bool
  p_Enabled :: bool
  p_CreatedAt :: time
  p_UpdatedAt :: time
  p_ConfigRef :: string

record Event =
  ev_ID :: int
  ev_WorkstationID :: string
  ev_Type :: string
  ev_Message :: string
  ev_CreatedAt :: time

record Share =
  sh_ID :: int
  sh_WorkstationID :: string
  sh_Permissions :: "Permission list"
  sh_NamedRecipient :: string
  sh_ExpiresAt :: "time option"
  sh_MaxUses :: "int option"
  sh_UseCount :: int
  sh_CreatedBy :: int
  sh_CreatedAt :: time
  sh_LastUsedAt :: "time option"
  sh_RevokedAt :: "time option"

record share_row =
  t_id :: int
  t_workstation_id :: string
  t_token_hash :: string
  t_permissions :: string
  t_named_recipient :: string
  t_expires_at :: "time option"
  t_max_uses :: "int option"
  t_use_count :: int
  t_created_by :: int
  t_created_at :: time
  t_last_used_at :: "time option"
  t_revoked_at :: "time option"

record db =
  users :: "user_row list"
  next_user :: int
  sessions :: "session_row list"
  workstations :: "workstation_row list"
  workstation_apps :: "app_row list"
  vpn_profiles :: "VPNProfile list"
  next_profile :: int
  vpn_profile_grants :: "(int \<times> int) list"
  share_tokens :: "share_row list"
  next_share :: int
  events :: "Event list"
  next_event :: int

definition empty_db :: db where
  "empty_db = \<lparr>users = [], next_user = 1, sessions = [], workstations = [], workstation_apps = [],
     vpn_profiles = [], next_profile = 1, vpn_profile_grants = [], share_tokens = [], next_share = 1,
     events = [], next_event = 1\<rparr>"

datatype db_error =
    ErrNoRows
  | Unique string
  | Check string
  | NotNull string
  | ForeignKey string
  | InitialAdminExists
  | UserNotFound
  | WorkstationNotFound
  | StateChangedConcurrently string
  | DecodeShare share_error

text \<open>\<^verbatim>\<open>COLLATE NOCASE\<close> folds the 26 ASCII letters.\<close>

definition nocase :: "string \<Rightarrow> string" where
  "nocase s = map lower_byte s"

definition initialAdminEgress :: string where
  "initialAdminEgress = ''direct,wireguard,ipv6''"

subsection \<open>Users\<close>

definition HasUsers :: "db \<Rightarrow> bool" where
  "HasUsers d = (length (users d) > 0)"

definition insert_user ::
  "time \<Rightarrow> string \<Rightarrow> string \<Rightarrow> bool \<Rightarrow> string \<Rightarrow> db \<Rightarrow> (db_error, int) result \<times> db" where
  "insert_user now username passwordHash isAdmin allowedEgress d =
     (if \<exists>u \<in> set (users d). nocase (u_Username u) = nocase username
      then (Inl (Unique ''users.username''), d)
      else (Inr (next_user d),
        d\<lparr>users := users d @ [\<lparr>u_ID = next_user d, u_Username = username, u_IsAdmin = isAdmin,
             u_AllowedEgress = allowedEgress, u_AccentColor = [], u_CreatedAt = now,
             u_password_hash = passwordHash\<rparr>],
          next_user := next_user d + 1\<rparr>))"

definition CreateInitialAdmin ::
  "time \<Rightarrow> string \<Rightarrow> string \<Rightarrow> db \<Rightarrow> (db_error, User) result \<times> db" where
  "CreateInitialAdmin now username passwordHash d =
     (if length (users d) \<noteq> 0 then (Inl InitialAdminExists, d)
      else (case insert_user now username passwordHash True initialAdminEgress d of
          (Inl e, _) \<Rightarrow> (Inl e, d)
        | (Inr i, d') \<Rightarrow>
            (Inr \<lparr>u_ID = i, u_Username = username, u_IsAdmin = True,
               u_AllowedEgress = initialAdminEgress, u_AccentColor = [], u_CreatedAt = zero_time\<rparr>, d')))"

definition Authenticate :: "string \<Rightarrow> db \<Rightarrow> (db_error, User \<times> string) result" where
  "Authenticate username d =
     (case find (\<lambda>u. nocase (u_Username u) = nocase username) (users d) of
        None \<Rightarrow> Inl ErrNoRows
      | Some u \<Rightarrow> Inr ((User.truncate u)\<lparr>u_CreatedAt := zero_time\<rparr>, u_password_hash u))"

definition CreateUser ::
  "time \<Rightarrow> string \<Rightarrow> string \<Rightarrow> bool \<Rightarrow> string \<Rightarrow> db \<Rightarrow> (db_error, User) result \<times> db" where
  "CreateUser now username passwordHash isAdmin allowedEgress d =
     (case insert_user now username passwordHash isAdmin allowedEgress d of
        (Inl e, _) \<Rightarrow> (Inl e, d)
      | (Inr i, d') \<Rightarrow>
          (Inr \<lparr>u_ID = i, u_Username = username, u_IsAdmin = isAdmin,
             u_AllowedEgress = allowedEgress, u_AccentColor = [], u_CreatedAt = now\<rparr>, d'))"

definition SetUserEgress :: "int \<Rightarrow> string \<Rightarrow> db \<Rightarrow> db_error check \<times> db" where
  "SetUserEgress userID allowedEgress d =
     (let matches = (\<lambda>u. u_ID u = userID);
          d' = d\<lparr>users := update_where matches (\<lambda>u. u\<lparr>u_AllowedEgress := allowedEgress\<rparr>) (users d)\<rparr> in
      (if rows_affected matches (users d) = 0 then Some UserNotFound else None, d'))"

definition ListUsers :: "db \<Rightarrow> User list" where
  "ListUsers d = map User.truncate (sort_key (\<lambda>u. nocase (u_Username u)) (users d))"

definition SetUserAccent :: "int \<Rightarrow> string \<Rightarrow> db \<Rightarrow> db" where
  "SetUserAccent userID accent d =
     d\<lparr>users := update_where (\<lambda>u. u_ID u = userID) (\<lambda>u. u\<lparr>u_AccentColor := accent\<rparr>) (users d)\<rparr>"

text \<open>
  The condition \<^verbatim>\<open>AND owner_user_id = ?\<close> that a query gets when the user is not an
  administrator.
\<close>

definition may_reach :: "User \<Rightarrow> int \<Rightarrow> bool" where
  "may_reach user owner = (u_IsAdmin user \<or> owner = u_ID user)"

definition SetWorkstationAccent ::
  "time \<Rightarrow> string \<Rightarrow> User \<Rightarrow> string \<Rightarrow> db \<Rightarrow> db_error check \<times> db" where
  "SetWorkstationAccent now i user accent d =
     (let matches = (\<lambda>w. r_id w = i \<and> may_reach user (r_owner_user_id w));
          d' = d\<lparr>workstations := update_where matches
                  (\<lambda>w. w\<lparr>r_accent_color := accent, r_updated_at := now\<rparr>) (workstations d)\<rparr> in
      (if rows_affected matches (workstations d) = 0 then Some WorkstationNotFound else None, d'))"

subsection \<open>Sessions\<close>

definition CreateSession :: "time \<Rightarrow> int \<Rightarrow> string \<Rightarrow> time \<Rightarrow> db \<Rightarrow> db_error check \<times> db" where
  "CreateSession now userID tokenHash expires d =
     (if \<exists>s \<in> set (sessions d). s_token_hash s = tokenHash then (Some (Unique ''sessions.token_hash''), d)
      else if userID \<notin> u_ID ` set (users d) then (Some (ForeignKey ''sessions.user_id''), d)
      else (None, d\<lparr>sessions := sessions d @ [\<lparr>s_token_hash = tokenHash, s_user_id = userID,
              s_expires_at = expires, s_created_at = now, s_last_used_at = now,
              s_revoked_at = None\<rparr>]\<rparr>))"

definition live_session :: "time \<Rightarrow> string \<Rightarrow> session_row \<Rightarrow> bool" where
  "live_session now tokenHash s =
     (s_token_hash s = tokenHash \<and> s_revoked_at s = None \<and> later (s_expires_at s) now)"

definition session_rows :: "time \<Rightarrow> string \<Rightarrow> db \<Rightarrow> (session_row \<times> user_row) list" where
  "session_rows now tokenHash d =
     filter (\<lambda>(s, u). u_ID u = s_user_id s \<and> live_session now tokenHash s)
       (List.product (sessions d) (users d))"

definition SessionUser :: "time \<Rightarrow> string \<Rightarrow> db \<Rightarrow> (db_error, User) result \<times> db" where
  "SessionUser now tokenHash d =
     (case session_rows now tokenHash d of
        [] \<Rightarrow> (Inl ErrNoRows, d)
      | (s, u) # _ \<Rightarrow>
          (Inr ((User.truncate u)\<lparr>u_CreatedAt := zero_time\<rparr>),
           d\<lparr>sessions := update_where (\<lambda>s. s_token_hash s = tokenHash)
              (\<lambda>s. s\<lparr>s_last_used_at := now\<rparr>) (sessions d)\<rparr>))"

definition RevokeSession :: "time \<Rightarrow> string \<Rightarrow> db \<Rightarrow> db" where
  "RevokeSession now tokenHash d =
     d\<lparr>sessions := update_where (\<lambda>s. s_token_hash s = tokenHash \<and> s_revoked_at s = None)
        (\<lambda>s. s\<lparr>s_revoked_at := Some now\<rparr>) (sessions d)\<rparr>"

definition RevokeUserSessions :: "time \<Rightarrow> int \<Rightarrow> db \<Rightarrow> db" where
  "RevokeUserSessions now userID d =
     d\<lparr>sessions := update_where (\<lambda>s. s_user_id s = userID \<and> s_revoked_at s = None)
        (\<lambda>s. s\<lparr>s_revoked_at := Some now\<rparr>) (sessions d)\<rparr>"

subsection \<open>VPN profiles\<close>

definition profile_checks :: "VPNProfile \<Rightarrow> bool" where
  "profile_checks p =
     (p_VPNType p = ''wireguard'' \<and> p_Visibility p \<in> {''global'', ''private''} \<and>
      (p_Visibility p = ''global'' \<and> p_OwnerUserID p = None \<or>
       p_Visibility p = ''private'' \<and> p_OwnerUserID p \<noteq> None) \<and>
      (\<not> p_AutoAssign p \<or> p_Visibility p = ''global''))"

text \<open>The unique index on \<^verbatim>\<open>COALESCE(owner_user_id, 0), name\<close>.\<close>

definition owner_name :: "VPNProfile \<Rightarrow> int \<times> string" where
  "owner_name p = (case p_OwnerUserID p of None \<Rightarrow> 0 | Some i \<Rightarrow> i, nocase (p_Name p))"

definition VPNProfile_row :: "int \<Rightarrow> db \<Rightarrow> (db_error, VPNProfile) result" where
  "VPNProfile_row i d =
     (case find (\<lambda>p. p_ID p = i) (vpn_profiles d) of None \<Rightarrow> Inl ErrNoRows | Some p \<Rightarrow> Inr p)"

definition CreateVPNProfile ::
  "time \<Rightarrow> VPNProfile \<Rightarrow> db \<Rightarrow> (db_error, VPNProfile) result \<times> db" where
  "CreateVPNProfile now profile d =
     (if \<not> profile_checks profile then (Inl (Check ''vpn_profiles''), d)
      else if owner_name profile \<in> owner_name ` set (vpn_profiles d)
      then (Inl (Unique ''vpn_profiles.name''), d)
      else if p_ConfigRef profile \<noteq> [] \<and> p_ConfigRef profile \<in> p_ConfigRef ` set (vpn_profiles d)
      then (Inl (Unique ''vpn_profiles.config_ref''), d)
      else if (case p_OwnerUserID profile of None \<Rightarrow> False | Some i \<Rightarrow> i \<notin> u_ID ` set (users d))
      then (Inl (ForeignKey ''vpn_profiles.owner_user_id''), d)
      else
        (let row = profile\<lparr>p_ID := next_profile d, p_CreatedAt := now, p_UpdatedAt := now\<rparr>;
             d' = d\<lparr>vpn_profiles := vpn_profiles d @ [row], next_profile := next_profile d + 1\<rparr>
         in (VPNProfile_row (next_profile d) d', d')))"

definition ListVPNProfiles :: "bool \<Rightarrow> db \<Rightarrow> VPNProfile list" where
  "ListVPNProfiles enabledOnly d =
     sort_key (\<lambda>p. nocase (p_Name p)) (filter (\<lambda>p. enabledOnly \<longrightarrow> p_Enabled p) (vpn_profiles d))"

definition profile_visible :: "User \<Rightarrow> db \<Rightarrow> VPNProfile \<Rightarrow> bool" where
  "profile_visible user d p =
     (p_Visibility p = ''global'' \<or> p_OwnerUserID p = Some (u_ID user) \<or>
      (p_ID p, u_ID user) \<in> set (vpn_profile_grants d))"

definition ListVPNProfilesForUser :: "User \<Rightarrow> bool \<Rightarrow> db \<Rightarrow> VPNProfile list" where
  "ListVPNProfilesForUser user enabledOnly d =
     sort_key (\<lambda>p. (\<not> p_AutoAssign p, p_Visibility p, nocase (p_Name p)))
       (filter (\<lambda>p. profile_visible user d p \<and> (enabledOnly \<longrightarrow> p_Enabled p)) (vpn_profiles d))"

definition VPNProfileForUser :: "int \<Rightarrow> User \<Rightarrow> db \<Rightarrow> (db_error, VPNProfile) result" where
  "VPNProfileForUser i user d =
     (case find (\<lambda>p. p_ID p = i \<and> profile_visible user d p) (vpn_profiles d) of
        None \<Rightarrow> Inl ErrNoRows
      | Some p \<Rightarrow> Inr p)"

definition SetVPNProfileEnabled ::
  "time \<Rightarrow> int \<Rightarrow> User \<Rightarrow> bool \<Rightarrow> db \<Rightarrow> db_error check \<times> db" where
  "SetVPNProfileEnabled now i user enabled d =
     (let matches = (\<lambda>p. p_ID p = i \<and> (u_IsAdmin user \<or> p_OwnerUserID p = Some (u_ID user)));
          d' = d\<lparr>vpn_profiles := update_where matches
                  (\<lambda>p. p\<lparr>p_Enabled := enabled, p_UpdatedAt := now\<rparr>) (vpn_profiles d)\<rparr> in
      (if rows_affected matches (vpn_profiles d) \<noteq> 1 then Some ErrNoRows else None, d'))"

subsection \<open>Shares\<close>

definition scanShare ::
  "(string \<Rightarrow> string list option) \<Rightarrow> share_row \<Rightarrow> (db_error, Share) result" where
  "scanShare unmarshal t =
     (case Decode unmarshal (t_permissions t) of
        Inl e \<Rightarrow> Inl (DecodeShare e)
      | Inr permissions \<Rightarrow>
          Inr \<lparr>sh_ID = t_id t, sh_WorkstationID = t_workstation_id t, sh_Permissions = permissions,
             sh_NamedRecipient = t_named_recipient t, sh_ExpiresAt = t_expires_at t,
             sh_MaxUses = t_max_uses t, sh_UseCount = t_use_count t, sh_CreatedBy = t_created_by t,
             sh_CreatedAt = t_created_at t, sh_LastUsedAt = t_last_used_at t,
             sh_RevokedAt = t_revoked_at t\<rparr>)"

definition scan_first ::
  "(string \<Rightarrow> string list option) \<Rightarrow> share_row option \<Rightarrow> (db_error, Share) result" where
  "scan_first unmarshal r = (case r of None \<Rightarrow> Inl ErrNoRows | Some t \<Rightarrow> scanShare unmarshal t)"

definition shareByID ::
  "(string \<Rightarrow> string list option) \<Rightarrow> int \<Rightarrow> db \<Rightarrow> (db_error, Share) result" where
  "shareByID unmarshal i d = scan_first unmarshal (find (\<lambda>t. t_id t = i) (share_tokens d))"

definition CreateShare ::
  "(string \<Rightarrow> string list option) \<Rightarrow> time \<Rightarrow> string \<Rightarrow> int \<Rightarrow> string \<Rightarrow> Permission list \<Rightarrow> string
   \<Rightarrow> time option \<Rightarrow> int option \<Rightarrow> db \<Rightarrow> (db_error, Share) result \<times> db" where
  "CreateShare unmarshal now workstationID createdBy tokenHash permissions recipient expiresAt maxUses d =
     (if \<exists>t \<in> set (share_tokens d). t_token_hash t = tokenHash
      then (Inl (Unique ''share_tokens.token_hash''), d)
      else if workstationID \<notin> r_id ` set (workstations d)
      then (Inl (ForeignKey ''share_tokens.workstation_id''), d)
      else if createdBy \<notin> u_ID ` set (users d)
      then (Inl (ForeignKey ''share_tokens.created_by''), d)
      else
        (let row = \<lparr>t_id = next_share d, t_workstation_id = workstationID, t_token_hash = tokenHash,
                t_permissions = Encode permissions, t_named_recipient = recipient,
                t_expires_at = expiresAt, t_max_uses = maxUses, t_use_count = 0,
                t_created_by = createdBy, t_created_at = now, t_last_used_at = None,
                t_revoked_at = None\<rparr>;
             d' = d\<lparr>share_tokens := share_tokens d @ [row], next_share := next_share d + 1\<rparr>
         in (shareByID unmarshal (next_share d) d', d')))"

primrec scan_all ::
  "(string \<Rightarrow> string list option) \<Rightarrow> share_row list \<Rightarrow> (db_error, Share list) result" where
  "scan_all unmarshal [] = Inr []"
| "scan_all unmarshal (t # ts) =
     (case scanShare unmarshal t of
        Inl e \<Rightarrow> Inl e
      | Inr share \<Rightarrow>
          (case scan_all unmarshal ts of Inl e \<Rightarrow> Inl e | Inr result \<Rightarrow> Inr (share # result)))"

definition ListShares ::
  "(string \<Rightarrow> string list option) \<Rightarrow> string \<Rightarrow> db \<Rightarrow> (db_error, Share list) result" where
  "ListShares unmarshal workstationID d =
     scan_all unmarshal
       (rev (sort_key t_id (filter (\<lambda>t. t_workstation_id t = workstationID) (share_tokens d))))"

definition unexpired :: "time \<Rightarrow> time option \<Rightarrow> bool" where
  "unexpired now expires = (case expires of None \<Rightarrow> True | Some e \<Rightarrow> later e now)"

definition redeemable :: "time \<Rightarrow> string \<Rightarrow> share_row \<Rightarrow> bool" where
  "redeemable now tokenHash t =
     (t_token_hash t = tokenHash \<and> t_revoked_at t = None \<and> unexpired now (t_expires_at t) \<and>
      (case t_max_uses t of None \<Rightarrow> True | Some m \<Rightarrow> t_use_count t < m))"

definition RedeemShare ::
  "(string \<Rightarrow> string list option) \<Rightarrow> time \<Rightarrow> string \<Rightarrow> db \<Rightarrow> (db_error, Share) result \<times> db" where
  "RedeemShare unmarshal now tokenHash d =
     (let rows' = update_where (redeemable now tokenHash)
                    (\<lambda>t. t\<lparr>t_use_count := t_use_count t + 1, t_last_used_at := Some now\<rparr>)
                    (share_tokens d) in
      if rows_affected (redeemable now tokenHash) (share_tokens d) \<noteq> 1 then (Inl ErrNoRows, d)
      else (case scan_first unmarshal (find (\<lambda>t. t_token_hash t = tokenHash) rows') of
          Inl e \<Rightarrow> (Inl e, d)
        | Inr share \<Rightarrow> (Inr share, d\<lparr>share_tokens := rows'\<rparr>)))"

definition ValidateShare ::
  "(string \<Rightarrow> string list option) \<Rightarrow> time \<Rightarrow> string \<Rightarrow> string \<Rightarrow> db \<Rightarrow> (db_error, Share) result" where
  "ValidateShare unmarshal now tokenHash workstationID d =
     scan_first unmarshal
       (find (\<lambda>t. t_token_hash t = tokenHash \<and> t_workstation_id t = workstationID \<and>
                  t_revoked_at t = None \<and> unexpired now (t_expires_at t)) (share_tokens d))"

definition RevokeShare :: "time \<Rightarrow> string \<Rightarrow> int \<Rightarrow> db \<Rightarrow> db_error check \<times> db" where
  "RevokeShare now workstationID shareID d =
     (let matches = (\<lambda>t. t_id t = shareID \<and> t_workstation_id t = workstationID \<and> t_revoked_at t = None);
          d' = d\<lparr>share_tokens := update_where matches (\<lambda>t. t\<lparr>t_revoked_at := Some now\<rparr>)
                  (share_tokens d)\<rparr> in
      (if rows_affected matches (share_tokens d) \<noteq> 1 then Some ErrNoRows else None, d'))"

subsection \<open>Workstations\<close>

definition scanWorkstation :: "workstation_row \<Rightarrow> Workstation" where
  "scanWorkstation w =
     \<lparr>ws_ID = r_id w, ws_Name = r_name w, ws_OwnerUserID = r_owner_user_id w,
      ws_TemplateID = r_template_id w, ws_WorkspaceImage = r_workspace_image w,
      ws_State = r_state w, ws_Hostname = r_hostname w, ws_CPULimit = r_cpu_limit w,
      ws_MemoryLimitMB = r_memory_limit_mb w, ws_PIDLimit = r_pid_limit w,
      ws_Persistent = r_persistent w, ws_VPNRequired = r_vpn_required w,
      ws_VPNProfileID = r_vpn_profile_id w, ws_EgressMode = r_egress_mode w,
      ws_AccentColor = r_accent_color w, ws_ExitIP = r_exit_ip w, ws_CreatedAt = r_created_at w,
      ws_UpdatedAt = r_updated_at w,
      ws_LastStartedAt = (case r_last_started_at w of None \<Rightarrow> zero_time | Some t \<Rightarrow> t),
      ws_ErrorMessage = r_error_message w, ws_Apps = []\<rparr>"

definition RecordEvent :: "time \<Rightarrow> string \<Rightarrow> string \<Rightarrow> string \<Rightarrow> db \<Rightarrow> db_error check \<times> db" where
  "RecordEvent now workstationID eventType message d =
     (if workstationID \<notin> r_id ` set (workstations d)
      then (Some (ForeignKey ''events.workstation_id''), d)
      else (None, d\<lparr>events := events d @ [\<lparr>ev_ID = next_event d, ev_WorkstationID = workstationID,
             ev_Type = eventType, ev_Message = message, ev_CreatedAt = now\<rparr>],
           next_event := next_event d + 1\<rparr>))"

text \<open>
  The row \<^verbatim>\<open>CreateWorkstation\<close> inserts: its column list leaves \<^verbatim>\<open>egress_mode\<close>,
  \<^verbatim>\<open>accent_color\<close>, \<^verbatim>\<open>exit_ip\<close> and the rest to their defaults. SQLite stores a
  not-a-number as \<^verbatim>\<open>NULL\<close>, which \<^verbatim>\<open>cpu_limit\<close> refuses.
\<close>

definition workstation_insert :: "time \<Rightarrow> Workstation \<Rightarrow> workstation_row" where
  "workstation_insert stamp ws =
     \<lparr>r_id = ws_ID ws, r_name = ws_Name ws, r_owner_user_id = ws_OwnerUserID ws,
      r_template_id = ws_TemplateID ws, r_workspace_image = ws_WorkspaceImage ws,
      r_state = ws_State ws, r_hostname = ws_Hostname ws, r_cpu_limit = ws_CPULimit ws,
      r_memory_limit_mb = ws_MemoryLimitMB ws, r_pid_limit = ws_PIDLimit ws,
      r_persistent = ws_Persistent ws, r_vpn_required = ws_VPNRequired ws,
      r_vpn_profile_id = ws_VPNProfileID ws, r_egress_mode = [], r_accent_color = [],
      r_exit_ip = [], r_created_at = stamp, r_updated_at = stamp, r_last_started_at = None,
      r_error_message = []\<rparr>"

primrec insert_apps ::
  "time \<Rightarrow> string \<Rightarrow> WorkstationApp list \<Rightarrow> app_row list \<Rightarrow> (db_error, app_row list) result" where
  "insert_apps stamp i [] rows = Inr rows"
| "insert_apps stamp i (app # apps) rows =
     (if \<exists>a \<in> set rows. ar_workstation_id a = i \<and> wa_AppID a = wa_AppID app
      then Inl (Unique ''workstation_apps'')
      else insert_apps stamp i apps
        (rows @ [\<lparr>wa_AppID = wa_AppID app, wa_AppVersion = wa_AppVersion app,
                  wa_State = ''creating'', wa_ContainerName = [],
                  wa_InternalPort = wa_InternalPort app, ar_workstation_id = i,
                  ar_updated_at = stamp\<rparr>]))"

definition CreateWorkstation ::
  "time \<Rightarrow> Workstation \<Rightarrow> WorkstationApp list \<Rightarrow> db \<Rightarrow> db_error check \<times> db" where
  "CreateWorkstation now ws apps d =
     (if ws_CPULimit ws = NaN then (Some (NotNull ''workstations.cpu_limit''), d)
      else if ws_ID ws \<in> r_id ` set (workstations d) then (Some (Unique ''workstations.id''), d)
      else if ws_Hostname ws \<in> r_hostname ` set (workstations d)
      then (Some (Unique ''workstations.hostname''), d)
      else if ws_OwnerUserID ws \<notin> u_ID ` set (users d)
      then (Some (ForeignKey ''workstations.owner_user_id''), d)
      else (case insert_apps now (ws_ID ws) apps (workstation_apps d) of
          Inl e \<Rightarrow> (Some e, d)
        | Inr app_rows \<Rightarrow>
            (case RecordEvent now (ws_ID ws) ''workstation.created'' ''Workstation creation requested''
                (d\<lparr>workstations := workstations d @ [workstation_insert now ws],
                   workstation_apps := app_rows\<rparr>) of
               (Some e, _) \<Rightarrow> (Some e, d)
             | (None, d') \<Rightarrow> (None, d'))))"

definition ListWorkstations :: "User \<Rightarrow> db \<Rightarrow> Workstation list" where
  "ListWorkstations user d =
     map scanWorkstation
       (rev (sort_key (\<lambda>w. text_key (r_created_at w))
         (filter (\<lambda>w. may_reach user (r_owner_user_id w)) (workstations d))))"

definition workstation_app_list :: "string \<Rightarrow> db \<Rightarrow> WorkstationApp list" where
  "workstation_app_list i d =
     map WorkstationApp.truncate
       (sort_key wa_AppID (filter (\<lambda>a. ar_workstation_id a = i) (workstation_apps d)))"

definition Workstation_lookup :: "string \<Rightarrow> User \<Rightarrow> db \<Rightarrow> (db_error, Workstation) result" where
  "Workstation_lookup i user d =
     (case find (\<lambda>w. r_id w = i \<and> may_reach user (r_owner_user_id w)) (workstations d) of
        None \<Rightarrow> Inl ErrNoRows
      | Some w \<Rightarrow> Inr ((scanWorkstation w)\<lparr>ws_Apps := workstation_app_list i d\<rparr>))"

definition WorkstationByHostname :: "string \<Rightarrow> User \<Rightarrow> db \<Rightarrow> (db_error, Workstation) result" where
  "WorkstationByHostname hostname user d =
     (case find (\<lambda>w. r_hostname w = hostname \<and> may_reach user (r_owner_user_id w)) (workstations d) of
        None \<Rightarrow> Inl ErrNoRows
      | Some w \<Rightarrow> Workstation_lookup (r_id w) user d)"

definition SetWorkstationState ::
  "time \<Rightarrow> string \<Rightarrow> string \<Rightarrow> string \<Rightarrow> string \<Rightarrow> db \<Rightarrow> db_error check \<times> db" where
  "SetWorkstationState now i from to message d =
     (let matches = (\<lambda>w. r_id w = i \<and> r_state w = from);
          rows' = update_where matches
            (\<lambda>w. w\<lparr>r_state := to, r_error_message := message, r_updated_at := now,
                   r_last_started_at := (if to = ''ready'' then Some now else r_last_started_at w)\<rparr>)
            (workstations d) in
      if rows_affected matches (workstations d) \<noteq> 1 then (Some (StateChangedConcurrently from), d)
      else (case RecordEvent now i (''workstation.state.'' @ to)
                (''State changed from '' @ from @ '' to '' @ to) (d\<lparr>workstations := rows'\<rparr>) of
          (Some e, _) \<Rightarrow> (Some e, d)
        | (None, d') \<Rightarrow> (None, d')))"

definition SetAppStates :: "time \<Rightarrow> string \<Rightarrow> string \<Rightarrow> db \<Rightarrow> db" where
  "SetAppStates now i state d =
     d\<lparr>workstation_apps := update_where (\<lambda>a. ar_workstation_id a = i)
        (\<lambda>a. a\<lparr>wa_State := state, ar_updated_at := now\<rparr>) (workstation_apps d)\<rparr>"

definition SetAppVersion :: "time \<Rightarrow> string \<Rightarrow> string \<Rightarrow> string \<Rightarrow> db \<Rightarrow> db_error check \<times> db" where
  "SetAppVersion now workstationID appID version d =
     (let matches = (\<lambda>a. ar_workstation_id a = workstationID \<and> wa_AppID a = appID);
          d' = d\<lparr>workstation_apps := update_where matches
                  (\<lambda>a. a\<lparr>wa_AppVersion := version, ar_updated_at := now\<rparr>) (workstation_apps d)\<rparr> in
      (if rows_affected matches (workstation_apps d) \<noteq> 1 then Some ErrNoRows else None, d'))"

definition Events :: "string \<Rightarrow> int \<Rightarrow> db \<Rightarrow> Event list" where
  "Events workstationID limit d =
     (let limit = (if limit \<le> 0 \<or> limit > 500 then 100 else limit) in
      take (nat limit)
        (rev (sort_key ev_ID (filter (\<lambda>e. ev_WorkstationID e = workstationID) (events d)))))"

definition AllActiveWorkstations :: "db \<Rightarrow> Workstation list" where
  "AllActiveWorkstations d =
     map scanWorkstation (filter (\<lambda>w. r_state w \<notin> {''deleted'', ''deleting''}) (workstations d))"

end
