(* ===== verification/Go_Http.thy ===== *)
theory Go_Http
  imports Wslan Passwords App_Catalog Database
begin

text \<open>
  What the controller uses of Go's \<^verbatim>\<open>net/http\<close>, \<^verbatim>\<open>net/url\<close> and
  \<^verbatim>\<open>net/http/httputil\<close>: headers, cookies, redirects, escaping, the patterns of the
  request multiplexer, and the connection headers a reverse proxy drops. A request carries its query
  and form as parsed by the library, \<open>None\<close> for a form that does not parse.
\<close>

subsection \<open>Headers\<close>

text \<open>Header names are case insensitive; the library keeps them in one spelling.\<close>

definition same_key :: "string \<Rightarrow> string \<Rightarrow> bool" where
  "same_key a b = (map lower_byte a = map lower_byte b)"

type_synonym headers = "(string \<times> string) list"

definition header_Get :: "headers \<Rightarrow> string \<Rightarrow> string" where
  "header_Get h k = (case find (\<lambda>(q, _). same_key q k) h of None \<Rightarrow> [] | Some (_, v) \<Rightarrow> v)"

definition header_Values :: "headers \<Rightarrow> string \<Rightarrow> string list" where
  "header_Values h k = map snd (filter (\<lambda>(q, _). same_key q k) h)"

definition header_Del :: "headers \<Rightarrow> string \<Rightarrow> headers" where
  "header_Del h k = filter (\<lambda>(q, _). \<not> same_key q k) h"

definition header_Set :: "headers \<Rightarrow> string \<Rightarrow> string \<Rightarrow> headers" where
  "header_Set h k v = header_Del h k @ [(k, v)]"

definition header_Add :: "headers \<Rightarrow> string \<Rightarrow> string \<Rightarrow> headers" where
  "header_Add h k v = h @ [(k, v)]"

lemma same_key_refl [simp]: "same_key k k"
  by (simp add: same_key_def)

lemma same_key_sym: "same_key a b = same_key b a"
  by (auto simp: same_key_def)

lemma same_key_trans: "same_key a b \<Longrightarrow> same_key b c = same_key a c"
  by (simp add: same_key_def)

lemma find_filter: "find P (filter Q xs) = find (\<lambda>x. Q x \<and> P x) xs"
  by (induction xs) auto

lemma find_cong_pred: "(\<And>x. P x = Q x) \<Longrightarrow> find P xs = find Q xs"
  by (induction xs) auto

lemma Get_Set_same [simp]: "header_Get (header_Set h k v) k = v"
proof -
  have "find (\<lambda>(q, _). same_key q k) (header_Del h k) = None"
    by (auto simp: find_None_iff header_Del_def)
  then show ?thesis by (simp add: header_Get_def header_Set_def)
qed

lemma Get_Del_same [simp]: "header_Get (header_Del h k) k = []"
proof -
  have "find (\<lambda>(q, _). same_key q k) (header_Del h k) = None"
    by (auto simp: find_None_iff header_Del_def)
  then show ?thesis by (simp add: header_Get_def)
qed

lemma Get_Del_other: "\<not> same_key j k \<Longrightarrow> header_Get (header_Del h k) j = header_Get h j"
proof -
  assume "\<not> same_key j k"
  then have "find (\<lambda>(q, _). same_key q j) (header_Del h k) = find (\<lambda>(q, _). same_key q j) h"
    unfolding header_Del_def find_filter
    by (intro find_cong_pred) (auto simp: same_key_def)
  then show ?thesis by (simp add: header_Get_def)
qed

lemma Get_Set_other: "\<not> same_key j k \<Longrightarrow> header_Get (header_Set h k v) j = header_Get h j"
  using Get_Del_other [of j k h]
  by (auto simp: header_Get_def header_Set_def same_key_sym [of k j] split: option.splits)

subsection \<open>Requests\<close>

record web_request = http_request +
  rq_Host :: string
  rq_RemoteAddr :: string
  rq_URI :: string
  rq_EscapedPath :: string
  rq_RawQuery :: string
  rq_Query :: "(string \<times> string list) list"
  rq_Form :: "(string \<times> string list) list option"
  rq_Body :: string
  rq_Values :: "(string \<times> string) list"

text \<open>\<^verbatim>\<open>url.Values.Get\<close>: the first value, or the empty text.\<close>

definition first_value :: "(string \<times> string list) list \<Rightarrow> string \<Rightarrow> string" where
  "first_value vs k = (case map_of vs k of Some (v # _) \<Rightarrow> v | _ \<Rightarrow> [])"

definition FormValue :: "web_request \<Rightarrow> string \<Rightarrow> string" where
  "FormValue r k = (case rq_Form r of None \<Rightarrow> [] | Some form \<Rightarrow> first_value form k)"

definition FormValues :: "web_request \<Rightarrow> string \<Rightarrow> string list" where
  "FormValues r k = (case rq_Form r of None \<Rightarrow> [] | Some form \<Rightarrow>
     (case map_of form k of Some vs \<Rightarrow> vs | None \<Rightarrow> []))"

definition PathValue :: "web_request \<Rightarrow> string \<Rightarrow> string" where
  "PathValue r k = (case map_of (rq_Values r) k of Some v \<Rightarrow> v | None \<Rightarrow> [])"

subsection \<open>Cookies\<close>

definition token_char :: "char \<Rightarrow> bool" where
  "token_char c = (is_lower c \<or> is_upper c \<or> is_digit c \<or> c \<in> set ''!#$%&*+-.^_`|~'' \<or> c = CHR 0x27)"

definition is_token :: "string \<Rightarrow> bool" where
  "is_token s = (s \<noteq> [] \<and> list_all token_char s)"

definition cookie_byte :: "char \<Rightarrow> bool" where
  "cookie_byte c = ((0x20 :: nat) \<le> of_char c \<and> of_char c < (0x7F :: nat) \<and>
     c \<noteq> CHR 0x22 \<and> c \<noteq> CHR '';'' \<and> c \<noteq> CHR 0x5C)"

definition trim_space_char :: "char \<Rightarrow> bool" where
  "trim_space_char c = (c \<in> {CHR '' '', CHR 0x09, CHR 0x0A, CHR 0x0D})"

definition TrimString :: "string \<Rightarrow> string" where
  "TrimString s = rev (dropWhile trim_space_char (rev (dropWhile trim_space_char s)))"

definition parseCookieValue :: "string \<Rightarrow> string option" where
  "parseCookieValue raw =
     (let v = (if 1 < length raw \<and> hd raw = CHR 0x22 \<and> last raw = CHR 0x22 then butlast (tl raw) else raw)
      in if list_all cookie_byte v then Some v else None)"

definition parse_cookie :: "string \<Rightarrow> (string \<times> string) option" where
  "parse_cookie raw =
     (let part = TrimString raw in
      if part = [] then None
      else case Cut part (CHR ''='') of
        (key, val, _) \<Rightarrow>
          (let key = TrimString key in
           if \<not> is_token key then None else map_option (Pair key) (parseCookieValue val)))"

definition readCookies :: "headers \<Rightarrow> (string \<times> string) list" where
  "readCookies h =
     concat (map (\<lambda>line. List.map_filter parse_cookie (Split (TrimString line) (CHR '';'')))
       (header_Values h ''Cookie''))"

definition request_Cookie :: "('a http_request_scheme) \<Rightarrow> string \<Rightarrow> string option" where
  "request_Cookie r k = map_of (readCookies (hr_Headers r)) k"

record cookie =
  ck_Name :: string
  ck_Value :: string
  ck_Path :: string
  ck_Expires :: time
  ck_MaxAge :: int
  ck_HttpOnly :: bool
  ck_Secure :: bool

definition sanitize_value :: "string \<Rightarrow> string" where
  "sanitize_value v =
     (let v = filter cookie_byte v in
      if CHR '' '' \<in> set v \<or> CHR '','' \<in> set v then CHR 0x22 # v @ [CHR 0x22] else v)"

definition sanitize_path :: "string \<Rightarrow> string" where
  "sanitize_path = filter (\<lambda>c. (0x20 :: nat) \<le> of_char c \<and> of_char c < (0x7F :: nat) \<and> c \<noteq> CHR '';'')"

text \<open>\<^verbatim>\<open>http.SetCookie\<close>: what is sent, nothing when the name is no token.\<close>

definition SetCookie :: "cookie \<Rightarrow> cookie list" where
  "SetCookie c =
     (if is_token (ck_Name c)
      then [c\<lparr>ck_Value := sanitize_value (ck_Value c), ck_Path := sanitize_path (ck_Path c)\<rparr>] else [])"

text \<open>A cookie that a client sends alone comes back as it was set.\<close>

lemma Split_none: "c \<notin> set s \<Longrightarrow> Split s c = [s]"
  by (induction s c rule: Split.induct) auto

lemma Cut_at: "c \<notin> set a \<Longrightarrow> Cut (a @ c # b) c = (a, b, True)"
  by (induction a c rule: Cut.induct) auto

lemma TrimString_id:
  "s \<noteq> [] \<Longrightarrow> \<not> trim_space_char (hd s) \<Longrightarrow> \<not> trim_space_char (last s) \<Longrightarrow> TrimString s = s"
proof -
  assume a: "s \<noteq> []" "\<not> trim_space_char (hd s)" "\<not> trim_space_char (last s)"
  then have "dropWhile trim_space_char s = s" by (cases s) auto
  moreover have "dropWhile trim_space_char (rev s) = rev s"
    using a(1,3) by (cases s rule: rev_cases) auto
  ultimately show ?thesis by (simp add: TrimString_def)
qed

lemma sent_cookie:
  assumes "is_token nme" and "v \<noteq> []" and "list_all (\<lambda>c. cookie_byte c \<and> c \<noteq> CHR '' '') v"
  shows "readCookies [(''Cookie'', nme @ CHR ''='' # v)] = [(nme, v)]"
proof -
  let ?t = "nme @ CHR ''='' # v"
  have nm: "nme \<noteq> []" "\<forall>c \<in> set nme. token_char c"
    using assms(1) by (auto simp: is_token_def list_all_iff)
  have vb: "\<forall>c \<in> set v. cookie_byte c \<and> c \<noteq> CHR '' ''" using assms(3) by (simp add: list_all_iff)
  have tok: "\<not> trim_space_char c \<and> c \<noteq> CHR '';'' \<and> c \<noteq> CHR ''=''" if "token_char c" for c
    using that by (auto simp: token_char_def trim_space_char_def is_lower_def is_upper_def is_digit_def)
  have byte: "\<not> trim_space_char c \<and> c \<noteq> CHR '';'' \<and> c \<noteq> CHR 0x22" if "cookie_byte c" "c \<noteq> CHR '' ''" for c
    using that by (auto simp: cookie_byte_def trim_space_char_def)
  have ends: "\<not> trim_space_char (hd nme)" "\<not> trim_space_char (last nme)"
    using tok nm(2) hd_in_set [OF nm(1)] last_in_set [OF nm(1)] by simp_all
  have "cookie_byte (last v)" "last v \<noteq> CHR '' ''" "cookie_byte (hd v)" "hd v \<noteq> CHR '' ''"
    using vb hd_in_set [OF assms(2)] last_in_set [OF assms(2)] by simp_all
  then have vends: "\<not> trim_space_char (last v)" "hd v \<noteq> CHR 0x22"
    using byte by simp_all
  from ends vends have trim: "TrimString ?t = ?t" "TrimString nme = nme"
    using nm(1) assms(2) by (auto intro!: TrimString_id)
  have "CHR '';'' \<notin> set nme" "CHR ''='' \<notin> set nme"
    using nm(2) tok [of "CHR '';''"] tok [of "CHR ''=''"] by blast+
  moreover have "CHR '';'' \<notin> set v" using vb byte [of "CHR '';''"] by blast
  ultimately have "CHR '';'' \<notin> set ?t" "CHR ''='' \<notin> set nme" by simp_all
  then have "Split ?t (CHR '';'') = [?t]" "Cut ?t (CHR ''='') = (nme, v, True)"
    by (simp_all only: Split_none Cut_at not_False_eq_True)
  moreover have "parseCookieValue v = Some v"
    using vends(2) vb by (auto simp: parseCookieValue_def list_all_iff)
  ultimately have "parse_cookie ?t = Some (nme, v)"
    using trim nm(1) assms(1) by (simp add: parse_cookie_def Let_def)
  with trim(1) \<open>Split ?t (CHR '';'') = [?t]\<close> show ?thesis
    by (simp add: readCookies_def header_Values_def same_key_def List.map_filter_simps)
qed

subsection \<open>Escaping and redirects\<close>

definition upper_hex :: "nat \<Rightarrow> char" where
  "upper_hex n = (if n < 10 then char_of (48 + n) else char_of (55 + n))"

definition query_plain :: "char \<Rightarrow> bool" where
  "query_plain c = (is_lower c \<or> is_upper c \<or> is_digit c \<or> c \<in> set ''-_.~'')"

definition QueryEscape :: "string \<Rightarrow> string" where
  "QueryEscape s = concat (map (\<lambda>c. if c = CHR '' '' then ''+'' else if query_plain c then [c]
     else [CHR ''%'', upper_hex (of_char c div 16), upper_hex (of_char c mod 16)]) s)"

fun path_unescape :: "string \<Rightarrow> string option" where
  "path_unescape [] = Some []"
| "path_unescape (c # s) =
     (if c \<noteq> CHR ''%'' then map_option ((#) c) (path_unescape s)
      else case s of
        a # b # rest \<Rightarrow>
          (case (hex_val a, hex_val b) of
             (Some x, Some y) \<Rightarrow> map_option ((#) (char_of (16 * x + y))) (path_unescape rest)
           | _ \<Rightarrow> None)
      | _ \<Rightarrow> None)"

definition hexEscapeNonASCII :: "string \<Rightarrow> string" where
  "hexEscapeNonASCII s = concat (map (\<lambda>c. if of_char c < (0x80 :: nat) then [c]
     else [CHR ''%'', hex_char (of_char c div 16), hex_char (of_char c mod 16)]) s)"

text \<open>The \<^verbatim>\<open>Location\<close> that \<^verbatim>\<open>http.Redirect\<close> sends.\<close>

definition redirect_location :: "(string \<Rightarrow> URL option) \<Rightarrow> string \<Rightarrow> string \<Rightarrow> string" where
  "redirect_location url_Parse path url =
     hexEscapeNonASCII
       (case url_Parse url of
          None \<Rightarrow> url
        | Some u \<Rightarrow>
            if url_Scheme u \<noteq> [] then url
            else
              (let url = (if HasPrefix url ''/'' then url
                          else rev (dropWhile (\<lambda>c. c \<noteq> CHR ''/'') (rev (if path = [] then ''/'' else path))) @ url);
                   target = takeWhile (\<lambda>c. c \<noteq> CHR ''?'') url;
                   query = dropWhile (\<lambda>c. c \<noteq> CHR ''?'') url;
                   clean = Clean target
               in (if HasSuffix target ''/'' \<and> \<not> HasSuffix clean ''/'' then clean @ ''/'' else clean) @ query))"

subsection \<open>Patterns of the multiplexer\<close>

datatype segment = Lit string | Wild string

text \<open>
  A pattern: its method, empty for all of them, its segments, and whether it ends in a slash and so
  stands for everything below. The segments of a path that ends in a slash end in an empty one.
\<close>

record mux_pattern =
  mp_Method :: string
  mp_Segments :: "segment list"
  mp_Subtree :: bool

definition method_matches :: "string \<Rightarrow> string \<Rightarrow> bool" where
  "method_matches pattern method =
     (pattern = [] \<or> pattern = method \<or> pattern = ''GET'' \<and> method = ''HEAD'')"

fun match_segments :: "segment list \<Rightarrow> bool \<Rightarrow> string list \<Rightarrow> (string \<times> string) list option" where
  "match_segments [] subtree rest = (if subtree = (rest \<noteq> []) then Some [] else None)"
| "match_segments (Lit s # ps) subtree (x # rest) =
     (if s = x then match_segments ps subtree rest else None)"
| "match_segments (Wild k # ps) subtree (x # rest) =
     (if x = [] then None else map_option ((#) (k, x)) (match_segments ps subtree rest))"
| "match_segments _ _ _ = None"

definition path_segments :: "string \<Rightarrow> string list" where
  "path_segments p = map (\<lambda>s. case path_unescape s of Some t \<Rightarrow> t | None \<Rightarrow> s) (Split (drop 1 p) (CHR ''/''))"

definition cleanPath :: "string \<Rightarrow> string" where
  "cleanPath p =
     (if p = [] then ''/''
      else
        (let p = (if HasPrefix p ''/'' then p else ''/'' @ p); np = Clean p in
         if HasSuffix p ''/'' \<and> np \<noteq> ''/'' then np @ ''/'' else np))"

subsection \<open>What a reverse proxy drops\<close>

definition hop_headers :: "string list" where
  "hop_headers = [''Connection'', ''Proxy-Connection'', ''Keep-Alive'', ''Proxy-Authenticate'',
     ''Proxy-Authorization'', ''Te'', ''Trailer'', ''Transfer-Encoding'', ''Upgrade'']"

definition connection_named :: "headers \<Rightarrow> string list" where
  "connection_named h =
     filter (\<lambda>f. f \<noteq> []) (map TrimString (concat (map (\<lambda>f. Split f (CHR '','')) (header_Values h ''Connection''))))"

text \<open>
  \<^verbatim>\<open>removeHopByHopHeaders\<close>, and the headers of a protocol upgrade put back after it.
\<close>

definition removeHopByHopHeaders :: "headers \<Rightarrow> headers" where
  "removeHopByHopHeaders h = fold (\<lambda>k h. header_Del h k) hop_headers (fold (\<lambda>k h. header_Del h k) (connection_named h) h)"

definition upgradeType :: "headers \<Rightarrow> string" where
  "upgradeType h =
     (if \<exists>f \<in> set (connection_named h). same_key f ''Upgrade'' then header_Get h ''Upgrade'' else [])"

definition proxied_headers :: "string \<Rightarrow> headers \<Rightarrow> headers" where
  "proxied_headers remote h =
     (let up = upgradeType h; h = removeHopByHopHeaders h;
          h = (if up = [] then h else header_Set (header_Set h ''Connection'' ''Upgrade'') ''Upgrade'' up)
      in case SplitHostPort remote of
        None \<Rightarrow> h
      | Some (ip, _) \<Rightarrow>
          (let prior = header_Values h ''X-Forwarded-For'' in
           header_Set h ''X-Forwarded-For''
             (concat (map (\<lambda>p. p @ '', '') prior) @ ip)))"

lemma Get_fold_Del:
  "(\<forall>k \<in> set ks. \<not> same_key j k) \<Longrightarrow> header_Get (fold (\<lambda>k h. header_Del h k) ks h) j = header_Get h j"
  by (induction ks arbitrary: h) (auto simp: Get_Del_other)

lemma proxied_keeps:
  assumes "\<not> (\<exists>f \<in> set (connection_named h). same_key j f)" and "\<not> (\<exists>f \<in> set hop_headers. same_key j f)"
    and "\<not> same_key j ''X-Forwarded-For''"
  shows "header_Get (proxied_headers remote h) j = header_Get h j"
proof -
  have hop: "\<not> same_key j ''Connection''" "\<not> same_key j ''Upgrade''"
    using assms(2) by (auto simp: hop_headers_def)
  have "header_Get (removeHopByHopHeaders h) j = header_Get h j"
    using assms(1,2) by (simp add: removeHopByHopHeaders_def Get_fold_Del)
  with hop assms(3) show ?thesis
    by (simp add: proxied_headers_def Let_def Get_Set_other split: option.split)
qed

end
