(* ===== verification/Database_Integrity.thy ===== *)
theory Database_Integrity
  imports Database
begin

text \<open>
  What the schema and the methods of \<^verbatim>\<open>internal/database/database.go\<close> keep true of the
  store: keys are unique and below the next key, foreign keys resolve, profiles satisfy their
  checks, no share is used more often than it allows. The write operations are collected in one
  type, so that the properties speak of every sequence of calls.
\<close>

subsection \<open>Integrity\<close>

definition users_ok :: "int \<Rightarrow> user_row list \<Rightarrow> bool" where
  "users_ok n us = (serial u_ID n us \<and> distinct (map (\<lambda>u. nocase (u_Username u)) us))"

definition sessions_ok :: "int set \<Rightarrow> session_row list \<Rightarrow> bool" where
  "sessions_ok U ss = (distinct (map s_token_hash ss) \<and> s_user_id ` set ss \<subseteq> U)"

definition workstations_ok :: "int set \<Rightarrow> workstation_row list \<Rightarrow> bool" where
  "workstations_ok U ws =
     (distinct (map r_id ws) \<and> distinct (map r_hostname ws) \<and> r_owner_user_id ` set ws \<subseteq> U)"

definition app_key :: "app_row \<Rightarrow> string \<times> string" where
  "app_key a = (ar_workstation_id a, wa_AppID a)"

definition apps_ok :: "string set \<Rightarrow> app_row list \<Rightarrow> bool" where
  "apps_ok W as = (distinct (map app_key as) \<and> ar_workstation_id ` set as \<subseteq> W)"

definition profile_ok :: "int set \<Rightarrow> VPNProfile \<Rightarrow> bool" where
  "profile_ok U p = (profile_checks p \<and> set_option (p_OwnerUserID p) \<subseteq> U)"

definition profiles_ok :: "int set \<Rightarrow> int \<Rightarrow> VPNProfile list \<Rightarrow> bool" where
  "profiles_ok U n ps =
     (serial p_ID n ps \<and> distinct (map owner_name ps) \<and> list_all (profile_ok U) ps \<and>
      distinct (filter (\<lambda>r. r \<noteq> []) (map p_ConfigRef ps)))"

definition share_uses_ok :: "share_row \<Rightarrow> bool" where
  "share_uses_ok t =
     (0 \<le> t_use_count t \<and> (case t_max_uses t of None \<Rightarrow> True | Some m \<Rightarrow> t_use_count t \<le> max 0 m))"

definition shares_ok :: "int set \<Rightarrow> string set \<Rightarrow> int \<Rightarrow> share_row list \<Rightarrow> bool" where
  "shares_ok U W n ts =
     (serial t_id n ts \<and> distinct (map t_token_hash ts) \<and> t_workstation_id ` set ts \<subseteq> W \<and>
      t_created_by ` set ts \<subseteq> U \<and> list_all share_uses_ok ts)"

definition events_ok :: "string set \<Rightarrow> int \<Rightarrow> Event list \<Rightarrow> bool" where
  "events_ok W n es = (serial ev_ID n es \<and> ev_WorkstationID ` set es \<subseteq> W)"

abbreviation user_ids :: "db \<Rightarrow> int set" where
  "user_ids d \<equiv> u_ID ` set (users d)"

abbreviation workstation_ids :: "db \<Rightarrow> string set" where
  "workstation_ids d \<equiv> r_id ` set (workstations d)"

definition integrity :: "db \<Rightarrow> bool" where
  "integrity d =
     (users_ok (next_user d) (users d) \<and> sessions_ok (user_ids d) (sessions d) \<and>
      workstations_ok (user_ids d) (workstations d) \<and>
      apps_ok (workstation_ids d) (workstation_apps d) \<and>
      profiles_ok (user_ids d) (next_profile d) (vpn_profiles d) \<and>
      shares_ok (user_ids d) (workstation_ids d) (next_share d) (share_tokens d) \<and>
      events_ok (workstation_ids d) (next_event d) (events d))"

subsection \<open>Write operations\<close>

datatype (discs_sels) db_op =
    OpCreateInitialAdmin string string
  | OpCreateUser string string bool string
  | OpSetUserEgress int string
  | OpSetUserAccent int string
  | OpSetWorkstationAccent string User string
  | OpCreateSession int string time
  | OpSessionUser string
  | OpRevokeSession string
  | OpRevokeUserSessions int
  | OpCreateVPNProfile VPNProfile
  | OpSetVPNProfileEnabled int User bool
  | OpCreateShare string int string "Permission list" string "time option" "int option"
  | OpRedeemShare string
  | OpRevokeShare string int
  | OpCreateWorkstation Workstation "WorkstationApp list"
  | OpSetWorkstationState string string string string
  | OpSetAppStates string string
  | OpSetAppVersion string string string
  | OpRecordEvent string string string

primrec apply_op :: "(string \<Rightarrow> string list option) \<Rightarrow> time \<Rightarrow> db_op \<Rightarrow> db \<Rightarrow> db" where
  "apply_op unm now (OpCreateInitialAdmin n h) d = snd (CreateInitialAdmin now n h d)"
| "apply_op unm now (OpCreateUser n h a e) d = snd (CreateUser now n h a e d)"
| "apply_op unm now (OpSetUserEgress i e) d = snd (SetUserEgress i e d)"
| "apply_op unm now (OpSetUserAccent i c) d = SetUserAccent i c d"
| "apply_op unm now (OpSetWorkstationAccent i u c) d = snd (SetWorkstationAccent now i u c d)"
| "apply_op unm now (OpCreateSession i h e) d = snd (CreateSession now i h e d)"
| "apply_op unm now (OpSessionUser h) d = snd (SessionUser now h d)"
| "apply_op unm now (OpRevokeSession h) d = RevokeSession now h d"
| "apply_op unm now (OpRevokeUserSessions i) d = RevokeUserSessions now i d"
| "apply_op unm now (OpCreateVPNProfile p) d = snd (CreateVPNProfile now p d)"
| "apply_op unm now (OpSetVPNProfileEnabled i u e) d = snd (SetVPNProfileEnabled now i u e d)"
| "apply_op unm now (OpCreateShare w c h ps r e m) d = snd (CreateShare unm now w c h ps r e m d)"
| "apply_op unm now (OpRedeemShare h) d = snd (RedeemShare unm now h d)"
| "apply_op unm now (OpRevokeShare w i) d = snd (RevokeShare now w i d)"
| "apply_op unm now (OpCreateWorkstation w as) d = snd (CreateWorkstation now w as d)"
| "apply_op unm now (OpSetWorkstationState i f t m) d = snd (SetWorkstationState now i f t m d)"
| "apply_op unm now (OpSetAppStates i s) d = SetAppStates now i s d"
| "apply_op unm now (OpSetAppVersion w a v) d = snd (SetAppVersion now w a v d)"
| "apply_op unm now (OpRecordEvent w t m) d = snd (RecordEvent now w t m d)"

type_synonym call = "time \<times> db_op"

definition run :: "(string \<Rightarrow> string list option) \<Rightarrow> call list \<Rightarrow> db \<Rightarrow> db" where
  "run unm calls d = fold (\<lambda>(now, op). apply_op unm now op) calls d"

inductive reachable_db :: "(string \<Rightarrow> string list option) \<Rightarrow> db \<Rightarrow> bool" for unm where
  start: "reachable_db unm empty_db"
| step: "reachable_db unm d \<Longrightarrow> reachable_db unm (apply_op unm now op d)"

lemma run_simps [simp]: "run unm [] d = d" "run unm ((now, op) # calls) d = run unm calls (apply_op unm now op d)"
  by (simp_all add: run_def)

lemma run_reachable: "reachable_db unm d \<Longrightarrow> reachable_db unm (run unm calls d)"
  by (induction calls arbitrary: d) (auto simp: reachable_db.step)

subsection \<open>Preservation, table by table\<close>

lemma integrity_empty: "integrity empty_db"
  by (simp add: integrity_def empty_db_def users_ok_def sessions_ok_def workstations_ok_def apps_ok_def
      profiles_ok_def shares_ok_def events_ok_def)

lemma ok_mono:
  assumes "U \<subseteq> U'" and "W \<subseteq> W'"
  shows "sessions_ok U ss \<Longrightarrow> sessions_ok U' ss" and "workstations_ok U ws \<Longrightarrow> workstations_ok U' ws"
    and "apps_ok W as \<Longrightarrow> apps_ok W' as" and "profiles_ok U n ps \<Longrightarrow> profiles_ok U' n ps"
    and "shares_ok U W n ts \<Longrightarrow> shares_ok U' W' n ts" and "events_ok W n es \<Longrightarrow> events_ok W' n es"
  using assms
  by (auto simp: sessions_ok_def workstations_ok_def apps_ok_def profiles_ok_def shares_ok_def
      events_ok_def profile_ok_def list_all_iff)

lemma users_ok_update [simp]:
  "(\<And>u. u_ID (f u) = u_ID u) \<Longrightarrow> (\<And>u. u_Username (f u) = u_Username u) \<Longrightarrow>
   users_ok n (update_where P f us) = users_ok n us"
  by (simp add: users_ok_def)

lemma sessions_ok_update [simp]:
  "(\<And>s. s_token_hash (f s) = s_token_hash s) \<Longrightarrow> (\<And>s. s_user_id (f s) = s_user_id s) \<Longrightarrow>
   sessions_ok U (update_where P f ss) = sessions_ok U ss"
  by (simp add: sessions_ok_def)

lemma workstations_ok_update [simp]:
  "(\<And>w. r_id (f w) = r_id w) \<Longrightarrow> (\<And>w. r_hostname (f w) = r_hostname w) \<Longrightarrow>
   (\<And>w. r_owner_user_id (f w) = r_owner_user_id w) \<Longrightarrow>
   workstations_ok U (update_where P f ws) = workstations_ok U ws"
  by (simp add: workstations_ok_def)

lemma apps_ok_update [simp]:
  "(\<And>a. ar_workstation_id (f a) = ar_workstation_id a) \<Longrightarrow> (\<And>a. wa_AppID (f a) = wa_AppID a) \<Longrightarrow>
   apps_ok W (update_where P f as) = apps_ok W as"
  by (simp add: apps_ok_def app_key_def)

lemma profiles_ok_enabled:
  "profiles_ok U n ps \<Longrightarrow>
   profiles_ok U n (update_where P (\<lambda>p. p\<lparr>p_Enabled := e, p_UpdatedAt := t\<rparr>) ps)"
  by (auto simp: profiles_ok_def owner_name_def profile_ok_def profile_checks_def
      intro!: list_all_update_where)

lemma shares_ok_update:
  assumes "shares_ok U W n ts"
    and "\<And>t. t_id (f t) = t_id t" "\<And>t. t_token_hash (f t) = t_token_hash t"
    and "\<And>t. t_workstation_id (f t) = t_workstation_id t" "\<And>t. t_created_by (f t) = t_created_by t"
    and "\<And>t. P t \<Longrightarrow> share_uses_ok t \<Longrightarrow> share_uses_ok (f t)"
  shows "shares_ok U W n (update_where P f ts)"
  using assms by (simp add: shares_ok_def list_all_update_where)

lemma integrity_users:
  "integrity d \<Longrightarrow> (\<And>u. u_ID (f u) = u_ID u) \<Longrightarrow> (\<And>u. u_Username (f u) = u_Username u) \<Longrightarrow>
   integrity (d\<lparr>users := update_where P f (users d)\<rparr>)"
  by (simp add: integrity_def)

lemma integrity_sessions:
  "integrity d \<Longrightarrow> (\<And>s. s_token_hash (f s) = s_token_hash s) \<Longrightarrow> (\<And>s. s_user_id (f s) = s_user_id s) \<Longrightarrow>
   integrity (d\<lparr>sessions := update_where P f (sessions d)\<rparr>)"
  by (simp add: integrity_def)

lemma integrity_workstations:
  "integrity d \<Longrightarrow> (\<And>w. r_id (f w) = r_id w) \<Longrightarrow> (\<And>w. r_hostname (f w) = r_hostname w) \<Longrightarrow>
   (\<And>w. r_owner_user_id (f w) = r_owner_user_id w) \<Longrightarrow>
   integrity (d\<lparr>workstations := update_where P f (workstations d)\<rparr>)"
  by (simp add: integrity_def)

lemma integrity_apps:
  "integrity d \<Longrightarrow> (\<And>a. ar_workstation_id (f a) = ar_workstation_id a) \<Longrightarrow>
   (\<And>a. wa_AppID (f a) = wa_AppID a) \<Longrightarrow>
   integrity (d\<lparr>workstation_apps := update_where P f (workstation_apps d)\<rparr>)"
  by (simp add: integrity_def)

lemma integrity_profiles:
  "integrity d \<Longrightarrow>
   integrity (d\<lparr>vpn_profiles := update_where P (\<lambda>p. p\<lparr>p_Enabled := e, p_UpdatedAt := t\<rparr>)
     (vpn_profiles d)\<rparr>)"
  by (simp add: integrity_def profiles_ok_enabled)

lemmas integrity_updates =
  integrity_users integrity_sessions integrity_workstations integrity_apps

lemma integrity_insert_user: "integrity d \<Longrightarrow> integrity (snd (insert_user now n h a e d))"
proof (cases "\<exists>u \<in> set (users d). nocase (u_Username u) = nocase n")
  case False
  assume "integrity d"
  moreover let ?d = "snd (insert_user now n h a e d)"
  have sub: "user_ids d \<subseteq> user_ids ?d" using False by (auto simp: insert_user_def)
  moreover have "users_ok (next_user d) (users d) \<Longrightarrow> users_ok (next_user ?d) (users ?d)"
    using False by (auto simp: insert_user_def users_ok_def intro!: serial_insert)
  moreover have "sessions ?d = sessions d" "workstations ?d = workstations d"
    "workstation_apps ?d = workstation_apps d" "vpn_profiles ?d = vpn_profiles d"
    "next_profile ?d = next_profile d" "share_tokens ?d = share_tokens d" "next_share ?d = next_share d"
    "events ?d = events d" "next_event ?d = next_event d"
    using False by (simp_all add: insert_user_def)
  ultimately show ?thesis by (simp add: integrity_def ok_mono [OF sub subset_refl])
qed (auto simp: insert_user_def)

lemma integrity_RecordEvent: "integrity d \<Longrightarrow> integrity (snd (RecordEvent now w t m d))"
  by (auto simp: RecordEvent_def integrity_def events_ok_def intro!: serial_insert)

lemma integrity_CreateSession: "integrity d \<Longrightarrow> integrity (snd (CreateSession now i h e d))"
  by (auto simp: CreateSession_def integrity_def sessions_ok_def)

lemma integrity_CreateVPNProfile: "integrity d \<Longrightarrow> integrity (snd (CreateVPNProfile now p d))"
  by (auto simp: CreateVPNProfile_def integrity_def profiles_ok_def owner_name_def profile_ok_def
      profile_checks_def Let_def intro!: serial_insert split: option.splits)

lemma integrity_CreateShare:
  "integrity d \<Longrightarrow> integrity (snd (CreateShare unm now w c h ps r e m d))"
  by (auto simp: CreateShare_def integrity_def shares_ok_def share_uses_ok_def Let_def
      intro!: serial_insert split: option.splits)

lemma integrity_RedeemShare: "integrity d \<Longrightarrow> integrity (snd (RedeemShare unm now h d))"
  by (auto simp: RedeemShare_def integrity_def Let_def share_uses_ok_def redeemable_def
      intro!: shares_ok_update split: sum.splits option.splits)

lemma integrity_RevokeShare: "integrity d \<Longrightarrow> integrity (snd (RevokeShare now w i d))"
  by (auto simp: RevokeShare_def integrity_def Let_def share_uses_ok_def intro!: shares_ok_update
      split: option.splits)

lemma insert_apps_Inr:
  "insert_apps stamp i apps rows = Inr rows' \<Longrightarrow> apps_ok W rows \<Longrightarrow> i \<in> W \<Longrightarrow> apps_ok W rows'"
proof (induction apps arbitrary: rows)
  case (Cons app apps)
  let ?row = "\<lparr>wa_AppID = wa_AppID app, wa_AppVersion = wa_AppVersion app, wa_State = ''creating'',
    wa_ContainerName = [], wa_InternalPort = wa_InternalPort app, ar_workstation_id = i,
    ar_updated_at = stamp\<rparr>"
  from Cons.prems(1) have "insert_apps stamp i apps (rows @ [?row]) = Inr rows'"
    and "app_key ?row \<notin> app_key ` set rows"
    by (auto simp: app_key_def split: if_splits)
  moreover from this(2) Cons.prems(2,3) have "apps_ok W (rows @ [?row])" by (auto simp: apps_ok_def)
  ultimately show ?case using Cons.prems(3) by (intro Cons.IH)
qed simp

lemma integrity_CreateWorkstation:
  assumes "integrity d"
  shows "integrity (snd (CreateWorkstation now ws apps d))"
proof (cases "fst (CreateWorkstation now ws apps d)")
  case None
  then obtain rows where ok: "ws_ID ws \<notin> workstation_ids d" "ws_Hostname ws \<notin> r_hostname ` set (workstations d)"
      "ws_OwnerUserID ws \<in> user_ids d"
    and rows: "insert_apps now (ws_ID ws) apps (workstation_apps d) = Inr rows"
    and res: "snd (CreateWorkstation now ws apps d) =
      snd (RecordEvent now (ws_ID ws) ''workstation.created'' ''Workstation creation requested''
        (d\<lparr>workstations := workstations d @ [workstation_insert now ws], workstation_apps := rows\<rparr>))"
    by (auto simp: CreateWorkstation_def split: if_splits sum.splits prod.splits option.splits)
  let ?d = "d\<lparr>workstations := workstations d @ [workstation_insert now ws], workstation_apps := rows\<rparr>"
  have sub: "workstation_ids d \<subseteq> workstation_ids ?d" by auto
  have "apps_ok (workstation_ids ?d) rows"
    using assms ok_mono(3) [OF subset_refl sub]
    by (intro insert_apps_Inr [OF rows]) (auto simp: integrity_def workstation_insert_def)
  moreover have "workstations_ok (user_ids d) (workstations ?d)"
    using assms ok by (auto simp: integrity_def workstations_ok_def workstation_insert_def)
  ultimately have "integrity ?d"
    using assms ok_mono [OF subset_refl sub] by (auto simp: integrity_def)
  then show ?thesis unfolding res by (rule integrity_RecordEvent)
qed (auto simp: assms CreateWorkstation_def split: sum.splits prod.splits option.splits)

lemma integrity_SetWorkstationState:
  "integrity d \<Longrightarrow> integrity (snd (SetWorkstationState now i f t m d))"
  using integrity_RecordEvent [OF integrity_workstations]
  by (fastforce simp: SetWorkstationState_def Let_def split: prod.splits option.splits
      dest: sndI)

lemmas integrity_ops =
  integrity_insert_user integrity_RecordEvent integrity_CreateSession integrity_CreateVPNProfile
  integrity_CreateShare integrity_RedeemShare integrity_RevokeShare integrity_CreateWorkstation
  integrity_SetWorkstationState

lemma integrity_apply_op: "integrity d \<Longrightarrow> integrity (apply_op unm now op d)"
proof (cases op)
  case (OpCreateInitialAdmin n h)
  moreover assume "integrity d"
  ultimately show ?thesis
    using integrity_insert_user [of d now n h True initialAdminEgress]
    by (auto simp: CreateInitialAdmin_def split: sum.splits prod.splits)
next
  case (OpCreateUser n h a e)
  moreover assume "integrity d"
  ultimately show ?thesis
    using integrity_insert_user [of d now n h a e]
    by (auto simp: CreateUser_def split: sum.splits prod.splits)
qed (auto simp: SetUserEgress_def SetUserAccent_def SetWorkstationAccent_def SessionUser_def
    RevokeSession_def RevokeUserSessions_def SetAppStates_def SetAppVersion_def
    SetVPNProfileEnabled_def Let_def
    intro!: integrity_updates integrity_ops integrity_profiles split: list.splits)

lemma reachable_integrity: "reachable_db unm d \<Longrightarrow> integrity d"
  by (induction rule: reachable_db.induct) (auto intro: integrity_empty integrity_apply_op)

lemma run_integrity: "integrity d \<Longrightarrow> integrity (run unm calls d)"
  by (induction calls arbitrary: d) (auto simp: integrity_apply_op)

end
