(* ===== verification/Database_Credentials.thy ===== *)
theory Database_Credentials
  imports Database_Integrity
begin

text \<open>
  The credentials the store checks: session tokens (\<^verbatim>\<open>CreateSession\<close>,
  \<^verbatim>\<open>SessionUser\<close>, \<^verbatim>\<open>RevokeSession\<close>, \<^verbatim>\<open>RevokeUserSessions\<close>) and share
  tokens (\<^verbatim>\<open>CreateShare\<close>, \<^verbatim>\<open>RedeemShare\<close>, \<^verbatim>\<open>ValidateShare\<close>,
  \<^verbatim>\<open>RevokeShare\<close>). The locale \<open>credential\<close> states what both promise; it is
  interpreted on both.
\<close>

subsection \<open>Which tables an operation touches\<close>

lemmas op_defs = CreateInitialAdmin_def CreateUser_def insert_user_def SetUserEgress_def SetUserAccent_def
  SetWorkstationAccent_def CreateSession_def SessionUser_def RevokeSession_def RevokeUserSessions_def
  CreateVPNProfile_def SetVPNProfileEnabled_def CreateShare_def RedeemShare_def RevokeShare_def
  CreateWorkstation_def SetWorkstationState_def SetAppStates_def SetAppVersion_def RecordEvent_def Let_def

lemma sessions_frame:
  assumes "\<not> is_OpCreateSession op" "\<not> is_OpSessionUser op" "\<not> is_OpRevokeSession op"
    "\<not> is_OpRevokeUserSessions op"
  shows "sessions (apply_op unm now op d) = sessions d"
  using assms by (cases op) (auto simp: op_defs split: sum.splits prod.splits option.splits)

lemma shares_frame:
  assumes "\<not> is_OpCreateShare op" "\<not> is_OpRedeemShare op" "\<not> is_OpRevokeShare op"
  shows "share_tokens (apply_op unm now op d) = share_tokens d"
  using assms by (cases op) (auto simp: op_defs split: sum.splits prod.splits option.splits list.splits)

lemma workstations_frame:
  assumes "\<not> is_OpSetWorkstationAccent op" "\<not> is_OpCreateWorkstation op" "\<not> is_OpSetWorkstationState op"
  shows "workstations (apply_op unm now op d) = workstations d"
  using assms by (cases op) (auto simp: op_defs split: sum.splits prod.splits option.splits list.splits)

subsection \<open>Credentials that can be withdrawn\<close>

text \<open>
  Session tokens and share tokens promise the same: once a credential is withdrawn, no sequence
  of calls makes it acceptable again.
\<close>

locale credential =
  fixes accepts :: "time \<Rightarrow> string \<Rightarrow> 'st \<Rightarrow> bool"
    and withdrawn :: "string \<Rightarrow> 'st \<Rightarrow> bool"
    and perform :: "'op \<Rightarrow> 'st \<Rightarrow> 'st"
  assumes withdrawn_refused: "withdrawn k d \<Longrightarrow> \<not> accepts now k d"
    and withdrawn_stays: "withdrawn k d \<Longrightarrow> withdrawn k (perform op d)"
begin

lemma withdrawn_run: "withdrawn k d \<Longrightarrow> withdrawn k (fold perform ops d)"
  by (induction ops arbitrary: d) (auto simp: withdrawn_stays)

lemma never_accepted: "withdrawn k d \<Longrightarrow> \<not> accepts now k (fold perform ops d)"
  by (simp add: withdrawn_run withdrawn_refused)

end

definition session_withdrawn :: "string \<Rightarrow> db \<Rightarrow> bool" where
  "session_withdrawn k d =
     (k \<in> s_token_hash ` set (sessions d) \<and>
      (\<forall>s \<in> set (sessions d). s_token_hash s = k \<longrightarrow> s_revoked_at s \<noteq> None))"

definition share_withdrawn :: "string \<Rightarrow> db \<Rightarrow> bool" where
  "share_withdrawn k d =
     (k \<in> t_token_hash ` set (share_tokens d) \<and>
      (\<forall>t \<in> set (share_tokens d). t_token_hash t = k \<longrightarrow> t_revoked_at t \<noteq> None))"

definition share_accepted :: "(string \<Rightarrow> string list option) \<Rightarrow> time \<Rightarrow> string \<Rightarrow> db \<Rightarrow> bool" where
  "share_accepted unm now k d =
     (is_ok (fst (RedeemShare unm now k d)) \<or> (\<exists>w. is_ok (ValidateShare unm now k w d)))"

lemma session_withdrawn_step:
  assumes "session_withdrawn k d"
  shows "session_withdrawn k (apply_op unm now op d)"
proof (cases "is_OpCreateSession op \<or> is_OpSessionUser op \<or> is_OpRevokeSession op \<or> is_OpRevokeUserSessions op")
  case True
  with assms show ?thesis
    by (cases op) (auto simp: SessionUser_def RevokeSession_def RevokeUserSessions_def CreateSession_def
        session_withdrawn_def dest!: in_update_where split: list.splits if_splits)
next
  case False
  with assms show ?thesis by (simp add: session_withdrawn_def sessions_frame)
qed

lemma share_withdrawn_step:
  assumes "share_withdrawn k d"
  shows "share_withdrawn k (apply_op unm now op d)"
proof (cases "is_OpCreateShare op \<or> is_OpRedeemShare op \<or> is_OpRevokeShare op")
  case True
  with assms show ?thesis
    by (cases op) (auto simp: CreateShare_def RedeemShare_def RevokeShare_def Let_def
        share_withdrawn_def dest!: in_update_where split: sum.splits if_splits)
next
  case False
  with assms show ?thesis by (simp add: share_withdrawn_def shares_frame)
qed


lemma session_rows_live:
  "(s, u) \<in> set (session_rows now k d) \<Longrightarrow>
   s \<in> set (sessions d) \<and> u \<in> set (users d) \<and> u_ID u = s_user_id s \<and> live_session now k s"
  by (auto simp: session_rows_def)

lemma SessionUser_Inr:
  assumes "fst (SessionUser now k d) = Inr user"
  obtains s u where "s \<in> set (sessions d)" "u \<in> set (users d)" "u_ID u = s_user_id s"
    "live_session now k s" "user = (User.truncate u)\<lparr>u_CreatedAt := zero_time\<rparr>"
proof (cases "session_rows now k d")
  case (Cons r rs)
  obtain s u where r: "r = (s, u)" by (cases r)
  with Cons have "(s, u) \<in> set (session_rows now k d)" by simp
  from session_rows_live [OF this] that assms Cons r show ?thesis by (auto simp: SessionUser_def)
qed (use assms in \<open>simp add: SessionUser_def\<close>)

lemma session_rows_unique:
  assumes "integrity d" and "s \<in> set (sessions d)" and "u \<in> set (users d)"
    and "live_session now k s" and "u_ID u = s_user_id s"
  shows "\<exists>rest. session_rows now k d = (s, u) # rest"
proof -
  have "(s, u) \<in> set (session_rows now k d)" using assms(2-5) by (auto simp: session_rows_def)
  then obtain r rest where r: "session_rows now k d = r # rest" by (cases "session_rows now k d") auto
  obtain s' u' where su: "r = (s', u')" by (cases r)
  from session_rows_live [of s' u' now k d] r su
  have live: "s' \<in> set (sessions d)" "u' \<in> set (users d)" "u_ID u' = s_user_id s'" "live_session now k s'"
    by auto
  have unique: "distinct (map s_token_hash (sessions d))" "distinct (map u_ID (users d))"
    using assms(1) by (simp_all add: integrity_def sessions_ok_def users_ok_def serial_def)
  have "s_token_hash s' = s_token_hash s" using assms(4) live(4) by (simp add: live_session_def)
  from distinct_mapD [OF unique(1) live(1) assms(2) this] have "s' = s" .
  moreover from this have "u_ID u' = u_ID u" using assms(5) live(3) by simp
  from distinct_mapD [OF unique(2) live(2) assms(3) this] have "u' = u" .
  ultimately show ?thesis using r su by simp
qed

lemma share_accepted_row:
  assumes "share_accepted unm now k d"
  shows "\<exists>t \<in> set (share_tokens d). t_token_hash t = k \<and> t_revoked_at t = None \<and> unexpired now (t_expires_at t)"
  using assms
proof (unfold share_accepted_def, elim disjE exE)
  assume "is_ok (fst (RedeemShare unm now k d))"
  then have "rows_affected (redeemable now k) (share_tokens d) = 1"
    by (auto simp: RedeemShare_def Let_def split: if_splits)
  then have "0 < rows_affected (redeemable now k) (share_tokens d)" by simp
  then show ?thesis by (auto simp: rows_affected_pos redeemable_def)
next
  fix w assume "is_ok (ValidateShare unm now k w d)"
  then show ?thesis
    by (auto simp: ValidateShare_def scan_first_def split: option.splits dest: find_SomeD)
qed

interpretation session_token: credential "\<lambda>now k d. is_ok (fst (SessionUser now k d))" session_withdrawn
  "\<lambda>(now, op). apply_op unm now op" for unm
proof unfold_locales
  show "session_withdrawn k d \<Longrightarrow> \<not> is_ok (fst (SessionUser now k d))" for k d now
    by (auto simp: session_withdrawn_def live_session_def elim!: is_okE SessionUser_Inr)
qed (auto simp: session_withdrawn_step split: prod.split)

interpretation share_token: credential "share_accepted unm" share_withdrawn
  "\<lambda>(now, op). apply_op unm now op" for unm
proof unfold_locales
  show "share_withdrawn k d \<Longrightarrow> \<not> share_accepted unm now k d" for k d now
    by (auto simp: share_withdrawn_def dest!: share_accepted_row)
qed (auto simp: share_withdrawn_step split: prod.split)

lemma RevokeSession_withdraws:
  "k \<in> s_token_hash ` set (sessions d) \<Longrightarrow> session_withdrawn k (RevokeSession now k d)"
  by (auto simp: session_withdrawn_def RevokeSession_def dest!: in_update_where split: if_splits)

lemma RevokeUserSessions_withdraws:
  "integrity d \<Longrightarrow> s \<in> set (sessions d) \<Longrightarrow> s_user_id s = i \<Longrightarrow>
   session_withdrawn (s_token_hash s) (RevokeUserSessions now i d)"
  by (auto simp: session_withdrawn_def RevokeUserSessions_def integrity_def sessions_ok_def
      dest!: in_update_where split: if_splits dest: map_of_eq_Some_iff) (metis distinct_map inj_onD option.distinct(1))+

lemma RevokeShare_withdraws:
  assumes "integrity d" and "RevokeShare now w i d = (None, d')"
  shows "\<exists>t \<in> set (share_tokens d). t_id t = i \<and> t_workstation_id t = w \<and>
    share_withdrawn (t_token_hash t) d'"
proof -
  let ?P = "\<lambda>t. t_id t = i \<and> t_workstation_id t = w \<and> t_revoked_at t = None"
  from assms(2) have "0 < rows_affected ?P (share_tokens d)"
    and d': "d' = d\<lparr>share_tokens := update_where ?P (\<lambda>t. t\<lparr>t_revoked_at := Some now\<rparr>) (share_tokens d)\<rparr>"
    by (auto simp: RevokeShare_def Let_def split: if_splits)
  then obtain t where t: "t \<in> set (share_tokens d)" "?P t" by (auto simp: rows_affected_pos)
  have "distinct (map t_token_hash (share_tokens d))"
    using assms(1) by (simp add: integrity_def shares_ok_def)
  then have same: "q = t" if "q \<in> set (share_tokens d)" "t_token_hash q = t_token_hash t" for q
    using that t(1) by (auto intro: distinct_mapD)
  have "share_withdrawn (t_token_hash t) d'"
    using t by (auto simp: share_withdrawn_def d' dest!: in_update_where same split: if_splits)
  with t show ?thesis by blast
qed

subsection \<open>Counting redemptions\<close>

fun redemptions ::
  "(string \<Rightarrow> string list option) \<Rightarrow> string \<Rightarrow> call list \<Rightarrow> db \<Rightarrow> nat" where
  "redemptions unm h [] d = 0"
| "redemptions unm h ((now, op) # calls) d =
     (if op = OpRedeemShare h \<and> is_ok (fst (RedeemShare unm now h d)) then 1 else 0)
     + redemptions unm h calls (apply_op unm now op d)"

abbreviation share_row_of :: "string \<Rightarrow> db \<Rightarrow> share_row option" where
  "share_row_of h d \<equiv> find (\<lambda>t. t_token_hash t = h) (share_tokens d)"

lemma RedeemShare_row:
  assumes "integrity d" and "share_row_of h d = Some t"
  shows "is_ok (fst (RedeemShare unm now h d)) \<Longrightarrow> redeemable now h t \<and>
      share_row_of h (snd (RedeemShare unm now h d)) =
        Some (t\<lparr>t_use_count := t_use_count t + 1, t_last_used_at := Some now\<rparr>)"
    and "\<not> is_ok (fst (RedeemShare unm now h d)) \<Longrightarrow> snd (RedeemShare unm now h d) = d"
proof -
  let ?d' = "d\<lparr>share_tokens := update_where (redeemable now h)
    (\<lambda>t. t\<lparr>t_use_count := t_use_count t + 1, t_last_used_at := Some now\<rparr>) (share_tokens d)\<rparr>"
  assume "is_ok (fst (RedeemShare unm now h d))"
  then have one: "rows_affected (redeemable now h) (share_tokens d) = 1"
    and d': "snd (RedeemShare unm now h d) = ?d'"
    by (auto simp: RedeemShare_def Let_def split: if_splits sum.splits)
  from one have "0 < rows_affected (redeemable now h) (share_tokens d)" by simp
  then obtain q where q: "q \<in> set (share_tokens d)" "redeemable now h q" by (auto simp: rows_affected_pos)
  have "find (\<lambda>t. t_token_hash t = h) (share_tokens d) = Some q"
    using assms(1) q
    by (intro find_unique [where k = t_token_hash])
      (auto simp: integrity_def shares_ok_def redeemable_def)
  with assms(2) q have "redeemable now h t" by simp
  with d' assms(2) show "redeemable now h t \<and> share_row_of h (snd (RedeemShare unm now h d)) =
      Some (t\<lparr>t_use_count := t_use_count t + 1, t_last_used_at := Some now\<rparr>)"
    by (simp add: find_update_where)
qed (auto simp: RedeemShare_def Let_def split: sum.splits)

lemma redeem_other:
  "h \<noteq> k \<Longrightarrow> share_row_of h d = Some t \<Longrightarrow> share_row_of h (snd (RedeemShare unm now k d)) = Some t"
  using find_SomeD [of "\<lambda>t. t_token_hash t = h" "share_tokens d" t]
  by (auto simp: RedeemShare_def Let_def find_update_where redeemable_def split: sum.splits)

lemma share_row_step:
  assumes "integrity d" and "share_row_of h d = Some t"
  shows "\<exists>t'. share_row_of h (apply_op unm now op d) = Some t' \<and> t_max_uses t' = t_max_uses t \<and>
    t_use_count t' = t_use_count t +
      (if op = OpRedeemShare h \<and> is_ok (fst (RedeemShare unm now h d)) then 1 else 0)"
proof (cases "is_OpCreateShare op \<or> is_OpRedeemShare op \<or> is_OpRevokeShare op")
  case False
  with assms(2) show ?thesis by (auto simp: shares_frame)
next
  case True
  then consider k where "op = OpRedeemShare k" | "is_OpCreateShare op \<or> is_OpRevokeShare op"
    by (cases op) auto
  then show ?thesis
  proof cases
    case (1 k)
    show ?thesis
    proof (cases "k = h")
      case True
      with 1 RedeemShare_row [OF assms, of unm now] assms(2) show ?thesis
        by (cases "is_ok (fst (RedeemShare unm now h d))") simp_all
    next
      case False
      with 1 redeem_other [OF _ assms(2), of k unm now] show ?thesis by simp
    qed
  next
    case 2
    with assms(2) show ?thesis
      by (cases op) (auto simp: CreateShare_def RevokeShare_def Let_def find_update_where)
  qed
qed

lemma share_row_run:
  assumes "integrity d" and "share_row_of h d = Some t"
  shows "\<exists>t'. share_row_of h (run unm calls d) = Some t' \<and> t_max_uses t' = t_max_uses t \<and>
    t_use_count t' = t_use_count t + int (redemptions unm h calls d)"
  using assms
proof (induction calls arbitrary: d t)
  case (Cons c calls)
  obtain now op where c: "c = (now, op)" by (cases c)
  from share_row_step [OF Cons.prems] obtain t1 where
    t1: "share_row_of h (apply_op unm now op d) = Some t1" "t_max_uses t1 = t_max_uses t"
      "t_use_count t1 = t_use_count t +
        (if op = OpRedeemShare h \<and> is_ok (fst (RedeemShare unm now h d)) then 1 else 0)" by blast
  from Cons.IH [OF integrity_apply_op [OF Cons.prems(1)] t1(1)] t1(2,3) show ?case
    by (auto simp: c)
qed simp

subsection \<open>A sample store\<close>

definition sample_workstation :: Workstation where
  "sample_workstation =
     \<lparr>ws_ID = ''ws-abc123'', ws_Name = ''dev'', ws_OwnerUserID = 1, ws_TemplateID = ''general'',
      ws_WorkspaceImage = ''img'', ws_State = ''creating'', ws_Hostname = ''ws-abc123'',
      ws_CPULimit = Fin 2, ws_MemoryLimitMB = 2048, ws_PIDLimit = 256, ws_Persistent = True,
      ws_VPNRequired = False, ws_VPNProfileID = None, ws_EgressMode = ''direct'', ws_AccentColor = [],
      ws_ExitIP = [], ws_CreatedAt = zero_time, ws_UpdatedAt = zero_time,
      ws_LastStartedAt = zero_time, ws_ErrorMessage = [], ws_Apps = []\<rparr>"

definition sample_db :: db where
  "sample_db = run unmarshal_plain
     [(Time 100 0, OpCreateInitialAdmin ''admin'' ''hash''),
      (Time 101 0, OpCreateUser ''guest'' ''hash'' False ''direct''),
      (Time 110 0, OpCreateSession 1 ''session'' (Time 500 0)),
      (Time 120 0, OpCreateWorkstation sample_workstation
         [\<lparr>wa_AppID = ''browser'', wa_AppVersion = ''1'', wa_State = [], wa_ContainerName = [],
           wa_InternalPort = 3000\<rparr>]),
      (Time 130 0, OpCreateShare ''ws-abc123'' 1 ''share'' [OpenApps] ''bob'' None (Some 2)),
      (Time 140 0, OpRedeemShare ''share'')] empty_db"

lemma sample_db_reachable: "reachable_db unmarshal_plain sample_db"
  unfolding sample_db_def by (intro run_reachable reachable_db.start)

lemma sample_db_integrity: "integrity sample_db"
  by (rule reachable_integrity [OF sample_db_reachable])

subsection \<open>Properties\<close>

text \<open>
  C19: whatever methods are called, in whatever order and with whatever arguments, the store keeps
  its integrity: ids are positive, unique and below the next id, names, hosts and tokens are unique,
  every foreign key resolves, every VPN profile satisfies its checks, and no share token has been
  used more often than it allows.
\<close>

theorem database_integrity:
  assumes "reachable_db unm d"
  shows "integrity d \<and> (\<forall>t \<in> set (share_tokens d). \<forall>m. t_max_uses t = Some m \<longrightarrow> t_use_count t \<le> max 0 m)"
  using reachable_integrity [OF assms]
  by (auto simp: integrity_def shares_ok_def list_all_iff share_uses_ok_def split: option.splits)

theorem database_integrity_witness:
  "integrity sample_db \<and> length (share_tokens sample_db) = 1"
proof -
  have "length (share_tokens sample_db) = 1" by code_simp
  with database_integrity [OF sample_db_reachable] show ?thesis by simp
qed

text \<open>
  \<^verbatim>\<open>SessionUser\<close> in full: a token is accepted exactly when a session row carries its
  hash, is not revoked and expires later in the order of the stored texts than the present; the
  user returned is the owner of that row, and the present is not past the second of expiry.
\<close>

theorem session_lookup:
  assumes "integrity d"
  shows "((fst (SessionUser now k d) = Inr user) \<longleftrightarrow>
      (\<exists>s \<in> set (sessions d). \<exists>u \<in> set (users d). live_session now k s \<and> u_ID u = s_user_id s \<and>
         user = (User.truncate u)\<lparr>u_CreatedAt := zero_time\<rparr>))
    \<and> (fst (SessionUser now k d) = Inr user \<longrightarrow>
      (\<exists>s \<in> set (sessions d). s_token_hash s = k \<and> s_revoked_at s = None \<and>
         unix_sec now \<le> unix_sec (s_expires_at s)))"
proof -
  have "fst (SessionUser now k d) = Inr ((User.truncate u)\<lparr>u_CreatedAt := zero_time\<rparr>)"
    if "s \<in> set (sessions d)" "u \<in> set (users d)" "live_session now k s" "u_ID u = s_user_id s" for s u
    using session_rows_unique [OF assms that] by (auto simp: SessionUser_def)
  moreover have "\<exists>s \<in> set (sessions d). s_token_hash s = k \<and> s_revoked_at s = None \<and>
      unix_sec now \<le> unix_sec (s_expires_at s)" if "fst (SessionUser now k d) = Inr user"
    using that by (rule SessionUser_Inr) (auto simp: live_session_def dest: later_sec)
  moreover have "\<exists>s \<in> set (sessions d). \<exists>u \<in> set (users d). live_session now k s \<and> u_ID u = s_user_id s \<and>
      user = (User.truncate u)\<lparr>u_CreatedAt := zero_time\<rparr>" if "fst (SessionUser now k d) = Inr user"
    using that by (rule SessionUser_Inr) blast
  ultimately show ?thesis by blast
qed

theorem session_lookup_witness:
  "fst (SessionUser (Time 499 0) ''session'' sample_db) =
     Inr \<lparr>u_ID = 1, u_Username = ''admin'', u_IsAdmin = True, u_AllowedEgress = initialAdminEgress,
          u_AccentColor = [], u_CreatedAt = zero_time\<rparr>
   \<and> (\<exists>s \<in> set (sessions sample_db). s_token_hash s = ''session'' \<and> 499 \<le> unix_sec (s_expires_at s))"
proof -
  have "fst (SessionUser (Time 499 0) ''session'' sample_db) =
     Inr \<lparr>u_ID = 1, u_Username = ''admin'', u_IsAdmin = True, u_AllowedEgress = initialAdminEgress,
          u_AccentColor = [], u_CreatedAt = zero_time\<rparr>" by code_simp
  moreover from session_lookup [OF sample_db_integrity, THEN conjunct2, THEN mp, OF this]
  have "\<exists>s \<in> set (sessions sample_db). s_token_hash s = ''session'' \<and> 499 \<le> unix_sec (s_expires_at s)"
    by auto
  ultimately show ?thesis by simp
qed

text \<open>
  A revoked session stays revoked. After \<^verbatim>\<open>RevokeSession\<close> of a token, and after
  \<^verbatim>\<open>RevokeUserSessions\<close> for every token of that user, no sequence of calls makes
  \<^verbatim>\<open>SessionUser\<close> accept the token again.
\<close>

theorem revoked_session_refused:
  assumes "integrity d" and "s \<in> set (sessions d)"
  shows "\<not> is_ok (fst (SessionUser now (s_token_hash s) (run unm calls (RevokeSession t (s_token_hash s) d))))
    \<and> \<not> is_ok (fst (SessionUser now (s_token_hash s) (run unm calls (RevokeUserSessions t (s_user_id s) d))))"
  using RevokeSession_withdraws [of "s_token_hash s" d t] RevokeUserSessions_withdraws [OF assms refl, of t]
    assms(2)
  unfolding run_def by (auto dest: session_token.never_accepted)

theorem revoked_session_refused_witness:
  "\<not> is_ok (fst (SessionUser (Time 150 0) ''session'' (run unmarshal_plain
     [(Time 145 0, OpCreateSession 1 ''session'' (Time 900 0))] (RevokeSession (Time 141 0) ''session'' sample_db))))"
proof -
  have "\<exists>s \<in> set (sessions sample_db). s_token_hash s = ''session''" by code_simp
  then obtain s where "s \<in> set (sessions sample_db)" "s_token_hash s = ''session''" ..
  with revoked_session_refused [OF sample_db_integrity, of s] show ?thesis by metis
qed

text \<open>
  A revoked share stays revoked. When \<^verbatim>\<open>RevokeShare\<close> succeeds, the share it names
  exists, belongs to the workstation, and no sequence of calls makes \<^verbatim>\<open>RedeemShare\<close> or
  \<^verbatim>\<open>ValidateShare\<close> accept its token again.
\<close>

theorem revoked_share_refused:
  assumes "integrity d" and "RevokeShare t w i d = (None, d')"
  shows "\<exists>r \<in> set (share_tokens d). t_id r = i \<and> t_workstation_id r = w \<and>
    (\<forall>calls now v. \<not> is_ok (fst (RedeemShare unm now (t_token_hash r) (run unm calls d'))) \<and>
       \<not> is_ok (ValidateShare unm now (t_token_hash r) v (run unm calls d')))"
proof -
  from RevokeShare_withdraws [OF assms] obtain r where r: "r \<in> set (share_tokens d)" "t_id r = i"
    "t_workstation_id r = w" "share_withdrawn (t_token_hash r) d'" by blast
  have "\<not> share_accepted unm now (t_token_hash r) (run unm calls d')" for calls now
    unfolding run_def by (rule share_token.never_accepted [OF r(4)])
  with r(1-3) show ?thesis unfolding share_accepted_def by blast
qed

theorem revoked_share_refused_witness:
  "\<exists>r \<in> set (share_tokens sample_db). t_id r = 1 \<and>
    \<not> is_ok (fst (RedeemShare unmarshal_plain (Time 160 0) (t_token_hash r)
      (run unmarshal_plain [(Time 155 0, OpRedeemShare ''share'')]
        (snd (RevokeShare (Time 150 0) ''ws-abc123'' 1 sample_db)))))"
proof -
  have "fst (RevokeShare (Time 150 0) ''ws-abc123'' 1 sample_db) = None" by code_simp
  then have "RevokeShare (Time 150 0) ''ws-abc123'' 1 sample_db =
      (None, snd (RevokeShare (Time 150 0) ''ws-abc123'' 1 sample_db))" by (metis prod.collapse)
  from revoked_share_refused [OF sample_db_integrity this, of unmarshal_plain] show ?thesis by blast
qed

text \<open>
  C30: the use limit of a share. In any sequence of calls a token that allows \<open>m\<close> uses is redeemed
  at most as often as it has uses left, every redemption is counted, and the limit never changes.
\<close>

theorem share_use_limit:
  assumes "integrity d" and "r \<in> set (share_tokens d)" and "t_max_uses r = Some m" and "0 \<le> m"
  shows "t_use_count r + int (redemptions unm (t_token_hash r) calls d) \<le> m \<and>
    (\<exists>r' \<in> set (share_tokens (run unm calls d)). t_token_hash r' = t_token_hash r \<and>
       t_max_uses r' = Some m \<and>
       t_use_count r' = t_use_count r + int (redemptions unm (t_token_hash r) calls d))"
proof -
  have row: "share_row_of (t_token_hash r) d = Some r"
    using assms(1,2) by (intro find_unique [where k = t_token_hash]) (auto simp: integrity_def shares_ok_def)
  from share_row_run [OF assms(1) row, of unm calls] obtain r' where
    r': "share_row_of (t_token_hash r) (run unm calls d) = Some r'" "t_max_uses r' = t_max_uses r"
      "t_use_count r' = t_use_count r + int (redemptions unm (t_token_hash r) calls d)" by blast
  from find_SomeD [OF r'(1)] have mem: "r' \<in> set (share_tokens (run unm calls d))"
    "t_token_hash r' = t_token_hash r" by auto
  have "share_uses_ok r'"
    using run_integrity [OF assms(1), of unm calls] mem(1)
    by (auto simp: integrity_def shares_ok_def list_all_iff)
  with assms(3,4) r'(2) have "t_use_count r' \<le> m" by (simp add: share_uses_ok_def)
  with r' mem assms(3) show ?thesis by auto
qed

theorem share_use_limit_witness:
  "int (redemptions unmarshal_plain ''share''
     [(Time 150 0, OpRedeemShare ''share''), (Time 151 0, OpRedeemShare ''share'')] sample_db) \<le> 1"
proof -
  have "\<exists>r \<in> set (share_tokens sample_db). t_token_hash r = ''share'' \<and> t_max_uses r = Some 2 \<and> t_use_count r = 1"
    by code_simp
  then obtain r where "r \<in> set (share_tokens sample_db)" "t_token_hash r = ''share''"
    "t_max_uses r = Some 2" "t_use_count r = 1" by blast
  with share_use_limit [OF sample_db_integrity, of r 2 unmarshal_plain
      "[(Time 150 0, OpRedeemShare ''share''), (Time 151 0, OpRedeemShare ''share'')]"]
  show ?thesis by (simp del: redemptions.simps)
qed

end
