(* ===== verification/Database_Workstations.thy ===== *)
theory Database_Workstations
  imports Database_Credentials
begin

text \<open>
  Users and workstations in the store: who may reach which workstation
  (\<^verbatim>\<open>Workstation\<close>, \<^verbatim>\<open>WorkstationByHostname\<close>, \<^verbatim>\<open>ListWorkstations\<close>), the
  compare-and-set of the lifecycle state (\<^verbatim>\<open>SetWorkstationState\<close>) and the creation of
  users. Two locales state what the controller relies on: \<open>owner_scoped\<close> for the lookups and
  \<open>state_store\<close> for the state of a workstation.
\<close>

subsection \<open>Lookups scoped to the owner\<close>

locale owner_scoped =
  fixes lookup :: "'k \<Rightarrow> User \<Rightarrow> db \<Rightarrow> (db_error, Workstation) result"
    and key :: "workstation_row \<Rightarrow> 'k"
  assumes lookup_row: "integrity d \<Longrightarrow> w \<in> set (workstations d) \<Longrightarrow> key w = k \<Longrightarrow>
      lookup k user d =
        (if may_reach user (r_owner_user_id w)
         then Inr ((scanWorkstation w)\<lparr>ws_Apps := workstation_app_list (r_id w) d\<rparr>) else Inl ErrNoRows)"
    and lookup_none: "k \<notin> key ` set (workstations d) \<Longrightarrow> lookup k user d = Inl ErrNoRows"
begin

lemma lookup_Inr:
  assumes "integrity d" and "lookup k user d = Inr ws"
  shows "\<exists>w \<in> set (workstations d). key w = k \<and> may_reach user (r_owner_user_id w) \<and>
    ws = (scanWorkstation w)\<lparr>ws_Apps := workstation_app_list (r_id w) d\<rparr>"
proof (cases "k \<in> key ` set (workstations d)")
  case True
  then obtain w where "w \<in> set (workstations d)" "key w = k" by auto
  with lookup_row [OF assms(1) this, of user] assms(2) show ?thesis by (auto split: if_splits)
qed (use assms(2) lookup_none in auto)

lemma lookup_reach: "integrity d \<Longrightarrow> lookup k user d = Inr ws \<Longrightarrow> may_reach user (ws_OwnerUserID ws)"
  by (auto dest!: lookup_Inr simp: scanWorkstation_def)

end

lemma workstation_unique:
  assumes "integrity d"
  shows "distinct (map r_id (workstations d))" and "distinct (map r_hostname (workstations d))"
  using assms by (simp_all add: integrity_def workstations_ok_def)

lemma find_scoped:
  assumes "distinct (map key rows)" and "w \<in> set rows"
  shows "find (\<lambda>q. key q = key w \<and> P q) rows = (if P w then Some w else None)"
  using assms by (auto simp: find_None_iff intro: find_unique [where k = key] dest: distinct_mapD)

interpretation by_id: owner_scoped Workstation_lookup r_id
proof unfold_locales
  show "Workstation_lookup k user d =
      (if may_reach user (r_owner_user_id w)
       then Inr ((scanWorkstation w)\<lparr>ws_Apps := workstation_app_list (r_id w) d\<rparr>) else Inl ErrNoRows)"
    if "integrity d" "w \<in> set (workstations d)" "r_id w = k" for k user d w
    using find_scoped [OF workstation_unique(1) [OF that(1)] that(2)] that(3)
    by (simp add: Workstation_lookup_def)
  show "Workstation_lookup k user d = Inl ErrNoRows" if "k \<notin> r_id ` set (workstations d)" for k user d
  proof -
    have "find (\<lambda>w. r_id w = k \<and> may_reach user (r_owner_user_id w)) (workstations d) = None"
      using that by (auto simp: find_None_iff)
    then show ?thesis by (simp add: Workstation_lookup_def)
  qed
qed

interpretation by_hostname: owner_scoped WorkstationByHostname r_hostname
proof unfold_locales
  show "WorkstationByHostname k user d =
      (if may_reach user (r_owner_user_id w)
       then Inr ((scanWorkstation w)\<lparr>ws_Apps := workstation_app_list (r_id w) d\<rparr>) else Inl ErrNoRows)"
    if "integrity d" "w \<in> set (workstations d)" "r_hostname w = k" for k user d w
    using find_scoped [OF workstation_unique(2) [OF that(1)] that(2)] that(3)
      by_id.lookup_row [OF that(1,2) refl, of user]
    by (simp add: WorkstationByHostname_def)
  show "WorkstationByHostname k user d = Inl ErrNoRows" if "k \<notin> r_hostname ` set (workstations d)" for k user d
  proof -
    have "find (\<lambda>w. r_hostname w = k \<and> may_reach user (r_owner_user_id w)) (workstations d) = None"
      using that by (auto simp: find_None_iff)
    then show ?thesis by (simp add: WorkstationByHostname_def)
  qed
qed

subsection \<open>The state of a workstation as a compare-and-set register\<close>

locale state_store =
  fixes inv :: "'st \<Rightarrow> bool"
    and state_of :: "string \<Rightarrow> 'st \<Rightarrow> string option"
    and set_state :: "time \<Rightarrow> string \<Rightarrow> string \<Rightarrow> string \<Rightarrow> string \<Rightarrow> 'st \<Rightarrow> db_error check \<times> 'st"
  assumes set_inv: "inv d \<Longrightarrow> inv (snd (set_state now i from to m d))"
    and set_when: "inv d \<Longrightarrow> fst (set_state now i from to m d) = None \<longleftrightarrow> state_of i d = Some from"
    and set_same: "inv d \<Longrightarrow> state_of i d = Some from \<Longrightarrow>
      state_of i (snd (set_state now i from to m d)) = Some to"
    and set_other: "inv d \<Longrightarrow> j \<noteq> i \<Longrightarrow> state_of j (snd (set_state now i from to m d)) = state_of j d"
    and set_fail: "fst (set_state now i from to m d) \<noteq> None \<Longrightarrow> snd (set_state now i from to m d) = d"
begin

lemma one_winner:
  assumes "inv d" and "fst (set_state now i from to m d) = None" and "from \<noteq> to"
  shows "fst (set_state now' i from to' m' (snd (set_state now i from to m d))) \<noteq> None"
proof -
  have "state_of i d = Some from" using set_when [OF assms(1)] assms(2) by simp
  from set_same [OF assms(1) this] assms(3)
  have "state_of i (snd (set_state now i from to m d)) \<noteq> Some from" by simp
  then show ?thesis using set_when [OF set_inv [OF assms(1)]] by simp
qed

end

definition state_in :: "string \<Rightarrow> db \<Rightarrow> string option" where
  "state_in i d = map_option r_state (find (\<lambda>w. r_id w = i) (workstations d))"

lemma state_in_iff:
  "integrity d \<Longrightarrow> state_in i d = Some s \<longleftrightarrow> (\<exists>w \<in> set (workstations d). r_id w = i \<and> r_state w = s)"
  using find_unique [OF workstation_unique(1)]
  by (auto simp: state_in_def dest: find_SomeD)

lemma RecordEvent_frame [simp]:
  "workstations (snd (RecordEvent now w t m d)) = workstations d"
  "workstation_apps (snd (RecordEvent now w t m d)) = workstation_apps d"
  by (simp_all add: RecordEvent_def)

lemma SetWorkstationState_cases:
  assumes "integrity d"
  shows "state_in i d = Some from \<Longrightarrow> SetWorkstationState now i from to m d =
      (None, snd (RecordEvent now i (''workstation.state.'' @ to) (''State changed from '' @ from @ '' to '' @ to)
        (d\<lparr>workstations := update_where (\<lambda>w. r_id w = i \<and> r_state w = from)
            (\<lambda>w. w\<lparr>r_state := to, r_error_message := m, r_updated_at := now,
                   r_last_started_at := (if to = ''ready'' then Some now else r_last_started_at w)\<rparr>)
            (workstations d)\<rparr>)))"
    and "state_in i d \<noteq> Some from \<Longrightarrow>
      SetWorkstationState now i from to m d = (Some (StateChangedConcurrently from), d)"
proof -
  let ?P = "\<lambda>w. r_id w = i \<and> r_state w = from"
  have le: "rows_affected ?P (workstations d) \<le> 1"
    by (rule rows_affected_unique [OF workstation_unique(1) [OF assms]]) simp
  have pos: "0 < rows_affected ?P (workstations d) \<longleftrightarrow> state_in i d = Some from"
    using state_in_iff [OF assms] by (simp add: rows_affected_pos)
  show "SetWorkstationState now i from to m d = (Some (StateChangedConcurrently from), d)"
    if "state_in i d \<noteq> Some from"
    using that pos by (simp add: SetWorkstationState_def Let_def)
  assume s: "state_in i d = Some from"
  then have "rows_affected ?P (workstations d) = 1" using le pos by simp
  moreover have "i \<in> workstation_ids d" using s state_in_iff [OF assms] by auto
  ultimately show "SetWorkstationState now i from to m d =
      (None, snd (RecordEvent now i (''workstation.state.'' @ to) (''State changed from '' @ from @ '' to '' @ to)
        (d\<lparr>workstations := update_where ?P
            (\<lambda>w. w\<lparr>r_state := to, r_error_message := m, r_updated_at := now,
                   r_last_started_at := (if to = ''ready'' then Some now else r_last_started_at w)\<rparr>)
            (workstations d)\<rparr>)))"
    by (simp add: SetWorkstationState_def Let_def RecordEvent_def)
qed

lemma state_in_set:
  assumes "integrity d" and "state_in i d = Some from"
  shows "state_in j (snd (SetWorkstationState now i from to m d)) =
    (if j = i then Some to else state_in j d)"
proof -
  let ?found = "find (\<lambda>w. r_id w = j) (workstations d)"
  have "\<forall>w. ?found = Some w \<longrightarrow> r_id w = j" by (auto dest: find_SomeD)
  then show ?thesis using assms(2)
    by (cases ?found) (auto simp: SetWorkstationState_cases(1) [OF assms] state_in_def find_update_where)
qed

interpretation ws_state: state_store integrity state_in SetWorkstationState
proof unfold_locales
  show "integrity d \<Longrightarrow> integrity (snd (SetWorkstationState now i f to m d))" for d now i f to m
    by (rule integrity_SetWorkstationState)
  show "integrity d \<Longrightarrow>
      fst (SetWorkstationState now i f to m d) = None \<longleftrightarrow> state_in i d = Some f" for d now i f to m
    using SetWorkstationState_cases [of d i f] by fastforce
  show "integrity d \<Longrightarrow> state_in i d = Some f \<Longrightarrow>
      state_in i (snd (SetWorkstationState now i f to m d)) = Some to" for d now i f to m
    by (simp add: state_in_set)
  show "integrity d \<Longrightarrow> j \<noteq> i \<Longrightarrow>
      state_in j (snd (SetWorkstationState now i f to m d)) = state_in j d" for d now i j f to m
    using state_in_set [of d i f j] SetWorkstationState_cases(2) [of d i f]
    by (cases "state_in i d = Some f") simp_all
  show "fst (SetWorkstationState now i f to m d) \<noteq> None \<Longrightarrow>
      snd (SetWorkstationState now i f to m d) = d" for d now i f to m
    by (auto simp: SetWorkstationState_def Let_def split: prod.splits option.splits)
qed

subsection \<open>Users\<close>

lemma users_grow: "length (users d) \<le> length (users (apply_op unm now op d))"
  by (cases op) (auto simp: op_defs split: sum.splits prod.splits option.splits list.splits)

lemma HasUsers_run: "HasUsers d \<Longrightarrow> HasUsers (run unm calls d)"
proof (induction calls arbitrary: d)
  case (Cons c calls)
  obtain now op where c: "c = (now, op)" by (cases c)
  from users_grow [of d unm now op] Cons.prems have "HasUsers (apply_op unm now op d)"
    by (auto simp: HasUsers_def)
  then show ?case by (simp add: c Cons.IH)
qed simp

subsection \<open>Properties\<close>

text \<open>
  Who reaches a workstation. Looking one up by id or by host name succeeds for the
  administrators and the owner, and for nobody else; it returns the row with its apps; listing
  returns exactly the workstations that can be looked up.
\<close>

theorem workstation_access:
  assumes "integrity d" and "w \<in> set (workstations d)"
  shows "(is_ok (Workstation_lookup (r_id w) user d) \<longleftrightarrow> u_IsAdmin user \<or> r_owner_user_id w = u_ID user)
    \<and> WorkstationByHostname (r_hostname w) user d = Workstation_lookup (r_id w) user d
    \<and> (\<forall>ws. Workstation_lookup (r_id w) user d = Inr ws \<longrightarrow>
         ws = (scanWorkstation w)\<lparr>ws_Apps := workstation_app_list (r_id w) d\<rparr>)
    \<and> (r_id w \<in> ws_ID ` set (ListWorkstations user d) \<longleftrightarrow> is_ok (Workstation_lookup (r_id w) user d))"
proof -
  have listed: "r_id w \<in> ws_ID ` set (ListWorkstations user d) \<longleftrightarrow> may_reach user (r_owner_user_id w)"
  proof -
    have "ws_ID ` set (ListWorkstations user d) =
        r_id ` {q \<in> set (workstations d). may_reach user (r_owner_user_id q)}"
      by (force simp: ListWorkstations_def scanWorkstation_def)
    then show ?thesis using assms(2) workstation_unique(1) [OF assms(1)] by (auto dest: distinct_mapD)
  qed
  show ?thesis
    using by_id.lookup_row [OF assms refl, of user] by_hostname.lookup_row [OF assms refl, of user] listed
    by (auto simp: may_reach_def)
qed

theorem workstation_access_witness:
  "\<not> is_ok (Workstation_lookup ''ws-abc123''
      \<lparr>u_ID = 2, u_Username = ''guest'', u_IsAdmin = False, u_AllowedEgress = ''direct'',
       u_AccentColor = [], u_CreatedAt = zero_time\<rparr> sample_db)"
proof -
  have "\<exists>w \<in> set (workstations sample_db). r_id w = ''ws-abc123'' \<and> r_owner_user_id w = 1" by code_simp
  then obtain w where w: "w \<in> set (workstations sample_db)" "r_id w = ''ws-abc123''" "r_owner_user_id w = 1"
    by blast
  from workstation_access [OF sample_db_integrity w(1), of "\<lparr>u_ID = 2, u_Username = ''guest'',
      u_IsAdmin = False, u_AllowedEgress = ''direct'', u_AccentColor = [], u_CreatedAt = zero_time\<rparr>"]
  show ?thesis using w by simp
qed

text \<open>
  A state change is a compare-and-set. It succeeds exactly when the workstation exists in the
  expected state; then that workstation alone is in the new state and one event is recorded; else
  nothing changes. Of two callers that expect the same state, only the first one succeeds.
\<close>

theorem state_change_exclusive:
  assumes "integrity d" and "SetWorkstationState now i f t m d = (err, d')"
  shows "(err = None \<longleftrightarrow> state_in i d = Some f)
    \<and> (err \<noteq> None \<longrightarrow> d' = d)
    \<and> (err = None \<longrightarrow> state_in i d' = Some t \<and> (\<forall>j. j \<noteq> i \<longrightarrow> state_in j d' = state_in j d)
        \<and> length (events d') = length (events d) + 1
        \<and> (t \<noteq> f \<longrightarrow> (\<forall>now' t' m'. fst (SetWorkstationState now' i f t' m' d') \<noteq> None)))"
proof -
  have err: "err = fst (SetWorkstationState now i f t m d)" and d': "d' = snd (SetWorkstationState now i f t m d)"
    using assms(2) by simp_all
  have "length (events d') = length (events d) + 1" if "state_in i d = Some f"
    using that state_in_iff [OF assms(1), of i f] SetWorkstationState_cases(1) [OF assms(1) that, of now t m]
    by (auto simp: d' RecordEvent_def)
  then show ?thesis
    using ws_state.set_when [OF assms(1), of now i f t m] ws_state.set_fail [of now i f t m d]
      ws_state.set_same [OF assms(1), of i f now t m] ws_state.set_other [OF assms(1), of _ i now f t m]
      ws_state.one_winner [OF assms(1), of now i f t m]
    unfolding err d' by blast
qed

theorem state_change_exclusive_witness:
  "fst (SetWorkstationState (Time 151 0) ''ws-abc123'' ''creating'' ''deleting'' []
     (snd (SetWorkstationState (Time 150 0) ''ws-abc123'' ''creating'' ''pulling_images'' [] sample_db))) \<noteq> None"
proof -
  let ?r = "SetWorkstationState (Time 150 0) ''ws-abc123'' ''creating'' ''pulling_images'' [] sample_db"
  have "fst ?r = None" by code_simp
  then have "?r = (None, snd ?r)" by (metis prod.collapse)
  from state_change_exclusive [OF sample_db_integrity this] show ?thesis by simp
qed

text \<open>
  The first administrator. \<^verbatim>\<open>CreateInitialAdmin\<close> succeeds exactly on a store without
  users; the user it makes is an administrator whose password hash \<^verbatim>\<open>Authenticate\<close> returns,
  under any spelling of the name in upper and lower case; and from then on no sequence of calls
  makes it succeed again.
\<close>

theorem initial_admin_once:
  assumes "CreateInitialAdmin now n h d = (r, d')"
  shows "(is_ok r \<longleftrightarrow> \<not> HasUsers d)
    \<and> (is_ok r \<longrightarrow> (\<exists>u. Authenticate n d' = Inr (u, h) \<and> r = Inr u \<and> u_IsAdmin u
          \<and> (\<forall>n'. nocase n' = nocase n \<longrightarrow> Authenticate n' d' = Authenticate n d'))
        \<and> (\<forall>unm calls now' n' h'. fst (CreateInitialAdmin now' n' h' (run unm calls d')) = Inl InitialAdminExists))"
proof (cases "users d")
  case Nil
  with assms have d': "users d' = [\<lparr>u_ID = next_user d, u_Username = n, u_IsAdmin = True,
      u_AllowedEgress = initialAdminEgress, u_AccentColor = [], u_CreatedAt = now, u_password_hash = h\<rparr>]"
    and r: "r = Inr \<lparr>u_ID = next_user d, u_Username = n, u_IsAdmin = True,
      u_AllowedEgress = initialAdminEgress, u_AccentColor = [], u_CreatedAt = zero_time\<rparr>"
    by (auto simp: CreateInitialAdmin_def insert_user_def)
  have "HasUsers (run unm calls d')" for unm calls by (rule HasUsers_run) (simp add: HasUsers_def d')
  then have "fst (CreateInitialAdmin now' n' h' (run unm calls d')) = Inl InitialAdminExists"
    for unm calls now' n' h' by (simp add: HasUsers_def CreateInitialAdmin_def)
  then show ?thesis using Nil r d' by (simp add: HasUsers_def Authenticate_def User.truncate_def)
next
  case (Cons u us)
  with assms show ?thesis by (auto simp: CreateInitialAdmin_def HasUsers_def)
qed

theorem initial_admin_once_witness:
  "fst (CreateInitialAdmin (Time 9 0) ''eve'' ''h''
     (run unmarshal_plain [] (snd (CreateInitialAdmin (Time 1 0) ''root'' ''x'' empty_db)))) = Inl InitialAdminExists"
proof -
  let ?r = "CreateInitialAdmin (Time 1 0) ''root'' ''x'' empty_db"
  have "?r = (fst ?r, snd ?r)" and "is_ok (fst ?r)" by (simp, code_simp)
  then show ?thesis using initial_admin_once by blast
qed

end
