(* ===== verification/Templates.thy ===== *)
theory Templates
  imports Manifests Egress
begin

text \<open>
  Workstation presets, \<^verbatim>\<open>internal/templates/templates.go\<close>: validation, the scan of a
  directory, saving and deleting a custom preset, and the registry. YAML decoding and encoding are
  arguments. A directory is an association list from file names to contents; the scan visits the
  names in their order, as \<^verbatim>\<open>os.ReadDir\<close> does. Saving writes a temporary file and renames
  it; when any step before or including the rename fails, the temporary file is removed.
\<close>

record Template =
  tp_SchemaVersion :: int
  tp_ID :: string
  tp_Name :: string
  tp_Description :: string
  tp_WorkspaceImage :: string
  tp_Apps :: "string list"
  tp_VPNRequired :: bool
  tp_Egress :: string
  tp_Persistent :: bool
  tp_CPU :: float64
  tp_MemoryMB :: int
  tp_PIDLimit :: int
  tp_ExpiresHours :: int
  tp_Custom :: bool

datatype template_error =
    BadSchemaOrID
  | NameAndImageRequired
  | BadLimits
  | NegativeExpiry
  | BadEgress egress_error
  | EgressDisagrees string bool
  | NoDefaultApp
  | DuplicateApp string
  | UnknownApp string
  | NotCustomID
  | InvalidCustomID
  | TemplateRead string
  | TemplateDecode string
  | TemplateFile string template_error
  | DuplicateTemplate string
  | NoTemplates
  | TemplateWrite
  | TemplateNotFound

definition check_egress :: "Template \<Rightarrow> template_error check" where
  "check_egress t =
     (if tp_Egress t \<noteq> [] then
        (case Egress.Parse (tp_Egress t) of
           Inl e \<Rightarrow> Some (BadEgress e)
         | Inr mode \<Rightarrow>
             if RequiresVPNProfile mode \<noteq> tp_VPNRequired t
             then Some (EgressDisagrees (tp_Egress t) (tp_VPNRequired t)) else None)
      else None)"

primrec check_apps :: "(string \<Rightarrow> bool) \<Rightarrow> string list \<Rightarrow> string list \<Rightarrow> template_error check" where
  "check_apps appExists seen [] = None"
| "check_apps appExists seen (app # apps) =
     (if app \<in> set seen then Some (DuplicateApp app)
      else if \<not> appExists app then Some (UnknownApp app)
      else check_apps appExists (app # seen) apps)"

definition Validate_template :: "(string \<Rightarrow> bool) \<Rightarrow> Template \<Rightarrow> template_error check" where
  "Validate_template appExists t =
     (if tp_SchemaVersion t \<noteq> 1 \<or> \<not> identifier_re (tp_ID t) then Some BadSchemaOrID
      else if tp_Name t = [] \<or> tp_WorkspaceImage t = [] \<or> HasSuffix (tp_WorkspaceImage t) '':latest''
      then Some NameAndImageRequired
      else if float_le (tp_CPU t) float0 \<or> tp_MemoryMB t < 128 \<or> tp_PIDLimit t < 32 then Some BadLimits
      else if tp_ExpiresHours t < 0 then Some NegativeExpiry
      else and_then (check_egress t)
        (if length (tp_Apps t) = 0 then Some NoDefaultApp else check_apps appExists [] (tp_Apps t)))"

type_synonym template_dir = "(string \<times> string) list"
type_synonym template_registry = "(string \<times> Template) list"

definition scan_template ::
  "(string \<Rightarrow> (string, Template) result) \<Rightarrow> (string \<Rightarrow> bool) \<Rightarrow> string \<Rightarrow> string option \<Rightarrow> template_registry
   \<Rightarrow> (template_error, template_registry) result" where
  "scan_template decode appExists name content registry =
     (if \<not> HasSuffix name ''.yaml'' then Inr registry
      else case content of
        None \<Rightarrow> Inl (TemplateRead name)
      | Some data \<Rightarrow>
          (case decode data of
             Inl e \<Rightarrow> Inl (TemplateFile name (TemplateDecode e))
           | Inr t \<Rightarrow>
               (case Validate_template appExists t of
                  Some e \<Rightarrow> Inl (TemplateFile name e)
                | None \<Rightarrow>
                    (let t = t\<lparr>tp_Custom := HasPrefix name ''custom-''\<rparr> in
                     if map_of registry (tp_ID t) \<noteq> None then Inl (DuplicateTemplate (tp_ID t))
                     else Inr (AList.update (tp_ID t) t registry)))))"

primrec scan_templates ::
  "(string \<Rightarrow> (string, Template) result) \<Rightarrow> (string \<Rightarrow> bool) \<Rightarrow> (string \<Rightarrow> string option) \<Rightarrow> string list
   \<Rightarrow> template_registry \<Rightarrow> (template_error, template_registry) result" where
  "scan_templates decode appExists read [] registry = Inr registry"
| "scan_templates decode appExists read (name # names) registry =
     (case scan_template decode appExists name (read name) registry of
        Inl e \<Rightarrow> Inl e
      | Inr registry' \<Rightarrow> scan_templates decode appExists read names registry')"

definition Scan_templates ::
  "(string \<Rightarrow> (string, Template) result) \<Rightarrow> (string \<Rightarrow> bool) \<Rightarrow> template_dir
   \<Rightarrow> (template_error, template_registry) result" where
  "Scan_templates decode appExists dir =
     (case scan_templates decode appExists (map_of dir) (sort (map fst dir)) [] of
        Inl e \<Rightarrow> Inl e
      | Inr registry \<Rightarrow> if registry = [] then Inl NoTemplates else Inr registry)"

text \<open>\<open>write_fails\<close> says that some file operation up to and including the rename fails.\<close>

definition SaveCustom ::
  "(Template \<Rightarrow> string) \<Rightarrow> bool \<Rightarrow> Template \<Rightarrow> (string \<Rightarrow> bool) \<Rightarrow> template_dir
   \<Rightarrow> template_error check \<times> template_dir" where
  "SaveCustom encode write_fails v appExists dir =
     (if \<not> HasPrefix (tp_ID v) ''custom-'' then (Some NotCustomID, dir)
      else
        (let v = v\<lparr>tp_Custom := False\<rparr> in
         case Validate_template appExists v of
           Some e \<Rightarrow> (Some e, dir)
         | None \<Rightarrow>
             if write_fails then (Some TemplateWrite, dir)
             else (None, AList.update (tp_ID v @ ''.yaml'') (encode v) dir)))"

definition DeleteCustom :: "string \<Rightarrow> template_dir \<Rightarrow> template_error check \<times> template_dir" where
  "DeleteCustom i dir =
     (if \<not> identifier_re i \<or> \<not> HasPrefix i ''custom-'' then (Some InvalidCustomID, dir)
      else if map_of dir (i @ ''.yaml'') = None then (Some TemplateNotFound, dir)
      else (None, AList.delete (i @ ''.yaml'') dir))"

definition Get_template :: "template_registry \<Rightarrow> string \<Rightarrow> Template option" where
  "Get_template r i = map_of r i"

definition All_templates :: "template_registry \<Rightarrow> Template list" where
  "All_templates r = sort_key tp_ID (map snd r)"

subsection \<open>What validation establishes\<close>

lemma check_apps_None:
  "check_apps appExists seen apps = None \<longleftrightarrow>
   list_all appExists apps \<and> distinct apps \<and> set seen \<inter> set apps = {}"
  by (induction apps arbitrary: seen) auto

lemma Validate_template_None:
  "Validate_template appExists t = None \<longleftrightarrow>
   tp_SchemaVersion t = 1 \<and> identifier_re (tp_ID t) \<and> tp_Name t \<noteq> [] \<and> tp_WorkspaceImage t \<noteq> [] \<and>
   \<not> HasSuffix (tp_WorkspaceImage t) '':latest'' \<and> \<not> float_le (tp_CPU t) float0 \<and>
   128 \<le> tp_MemoryMB t \<and> 32 \<le> tp_PIDLimit t \<and> 0 \<le> tp_ExpiresHours t \<and> check_egress t = None \<and>
   tp_Apps t \<noteq> [] \<and> list_all appExists (tp_Apps t) \<and> distinct (tp_Apps t)"
  by (auto simp: Validate_template_def guard_splits check_apps_None)

lemma Validate_template_custom [simp]:
  "Validate_template appExists (t\<lparr>tp_Custom := c\<rparr>) = Validate_template appExists t"
proof -
  have "check_egress (t\<lparr>tp_Custom := c\<rparr>) = check_egress t"
    by (auto simp: check_egress_def split: sum.splits)
  then show ?thesis by (simp add: Validate_template_def)
qed

subsection \<open>What the scan establishes\<close>

abbreviation yaml_name :: "string \<Rightarrow> bool" where
  "yaml_name n \<equiv> HasSuffix n ''.yaml''"

definition template_of ::
  "(string \<Rightarrow> (string, Template) result) \<Rightarrow> (string \<Rightarrow> string option) \<Rightarrow> string \<Rightarrow> Template option" where
  "template_of decode read name =
     (case read name of None \<Rightarrow> None | Some data \<Rightarrow> (case decode data of Inl _ \<Rightarrow> None | Inr t \<Rightarrow> Some t))"

definition file_ok ::
  "(string \<Rightarrow> (string, Template) result) \<Rightarrow> (string \<Rightarrow> bool) \<Rightarrow> (string \<Rightarrow> string option) \<Rightarrow> string \<Rightarrow> bool" where
  "file_ok decode appExists read name =
     (case template_of decode read name of
        None \<Rightarrow> False
      | Some t \<Rightarrow> Validate_template appExists t = None)"

definition file_id ::
  "(string \<Rightarrow> (string, Template) result) \<Rightarrow> (string \<Rightarrow> string option) \<Rightarrow> string \<Rightarrow> string" where
  "file_id decode read name = tp_ID (the (template_of decode read name))"

lemma scan_template_cases:
  "yaml_name name \<Longrightarrow> scan_template decode appExists name (read name) registry = Inr registry' \<longleftrightarrow>
   file_ok decode appExists read name \<and> map_of registry (file_id decode read name) = None \<and>
   registry' = AList.update (file_id decode read name)
     ((the (template_of decode read name))\<lparr>tp_Custom := HasPrefix name ''custom-''\<rparr>) registry"
  by (auto simp: scan_template_def file_ok_def file_id_def template_of_def Let_def
      split: option.splits sum.splits)

lemma scan_templates_iff:
  "is_ok (scan_templates decode appExists read names registry) \<longleftrightarrow>
   list_all (file_ok decode appExists read) (filter yaml_name names) \<and>
   distinct (map (file_id decode read) (filter yaml_name names)) \<and>
   (\<forall>name \<in> set (filter yaml_name names). map_of registry (file_id decode read name) = None)"
proof (induction names arbitrary: registry)
  case (Cons name names)
  show ?case
  proof (cases "yaml_name name")
    case False
    then show ?thesis by (simp add: scan_template_def Cons.IH)
  next
    case True
    show ?thesis
    proof (cases "scan_template decode appExists name (read name) registry")
      case (Inl e)
      then have "\<not> (file_ok decode appExists read name \<and> map_of registry (file_id decode read name) = None)"
        using scan_template_cases [OF True, of decode appExists read registry] by auto
      with Inl True show ?thesis by auto
    next
      case (Inr registry')
      then have "file_ok decode appExists read name" "map_of registry (file_id decode read name) = None"
        "map_of registry' = (map_of registry)(file_id decode read name \<mapsto>
           (the (template_of decode read name))\<lparr>tp_Custom := HasPrefix name ''custom-''\<rparr>)"
        using scan_template_cases [OF True, of decode appExists read registry] by (auto simp: update_conv')
      with Inr True show ?thesis by (auto simp: Cons.IH image_iff)
    qed
  qed
qed simp

lemma scan_templates_keep:
  "scan_templates decode appExists read names registry = Inr r \<Longrightarrow> map_of registry i = Some t \<Longrightarrow>
   map_of r i = Some t"
proof (induction names arbitrary: registry)
  case (Cons name names)
  from Cons.prems(1) obtain registry' where step:
    "scan_template decode appExists name (read name) registry = Inr registry'"
    "scan_templates decode appExists read names registry' = Inr r" by (auto split: sum.splits)
  have "map_of registry' i = Some t"
  proof (cases "yaml_name name")
    case True
    with step(1) Cons.prems(2) show ?thesis by (auto simp: scan_template_cases update_conv')
  next
    case False
    with step(1) Cons.prems(2) show ?thesis by (simp add: scan_template_def)
  qed
  with step(2) show ?case by (rule Cons.IH)
qed simp

lemma scan_templates_found:
  "scan_templates decode appExists read names registry = Inr r \<Longrightarrow> name \<in> set names \<Longrightarrow> yaml_name name \<Longrightarrow>
   map_of r (file_id decode read name) =
     Some ((the (template_of decode read name))\<lparr>tp_Custom := HasPrefix name ''custom-''\<rparr>)"
proof (induction names arbitrary: registry)
  case (Cons n names)
  from Cons.prems(1) obtain registry' where step:
    "scan_template decode appExists n (read n) registry = Inr registry'"
    "scan_templates decode appExists read names registry' = Inr r" by (auto split: sum.splits)
  show ?case
  proof (cases "n = name")
    case True
    then have "map_of registry' (file_id decode read name) =
        Some ((the (template_of decode read name))\<lparr>tp_Custom := HasPrefix name ''custom-''\<rparr>)"
      using step(1) Cons.prems(3) by (simp add: scan_template_cases update_conv')
    with step(2) show ?thesis by (rule scan_templates_keep)
  next
    case False
    with Cons.IH [OF step(2)] Cons.prems(2,3) show ?thesis by simp
  qed
qed simp

lemma scan_write:
  assumes names: "distinct (map fst dir)"
    and scan: "is_ok (scan_templates decode appExists (map_of dir) (sort (map fst dir)) [])"
    and dir': "dir' = AList.update f data dir"
    and ok: "file_ok decode appExists (map_of dir') f"
    and others: "\<forall>n \<in> set (map fst dir). yaml_name n \<longrightarrow> n \<noteq> f \<longrightarrow>
      file_id decode (map_of dir) n \<noteq> file_id decode (map_of dir') f"
  shows "is_ok (scan_templates decode appExists (map_of dir') (sort (map fst dir')) [])"
proof -
  let ?Y = "{n \<in> set (map fst dir). yaml_name n}" and ?Y' = "{n \<in> set (map fst dir'). yaml_name n}"
  have set': "?Y' \<subseteq> insert f ?Y" by (auto simp: dir' update_keys simp flip: set_map)
  have old: "template_of decode (map_of dir') n = template_of decode (map_of dir) n" if "n \<noteq> f" for n
    using that by (simp add: template_of_def dir' update_conv')
  then have id_old: "file_id decode (map_of dir') n = file_id decode (map_of dir) n" if "n \<noteq> f" for n
    using that by (simp add: file_id_def)
  from scan have inj: "inj_on (file_id decode (map_of dir)) ?Y"
    and oks: "\<forall>n \<in> ?Y. file_ok decode appExists (map_of dir) n"
    by (simp_all add: scan_templates_iff distinct_map list_all_iff)
  have lone: "n = f" if "n \<in> ?Y'" "file_id decode (map_of dir') n = file_id decode (map_of dir') f" for n
  proof (rule ccontr)
    assume n: "n \<noteq> f"
    with that(1) set' have "n \<in> ?Y" by auto
    with others n have "file_id decode (map_of dir) n \<noteq> file_id decode (map_of dir') f" by blast
    with that(2) id_old [OF n] show False by simp
  qed
  have "inj_on (file_id decode (map_of dir')) ?Y'"
  proof (rule inj_onI)
    fix a b assume ab: "a \<in> ?Y'" "b \<in> ?Y'" "file_id decode (map_of dir') a = file_id decode (map_of dir') b"
    show "a = b"
    proof (cases "a = f \<or> b = f")
      case True
      with ab lone [of a] lone [of b] show ?thesis by fastforce
    next
      case False
      with ab set' have "a \<in> ?Y" "b \<in> ?Y" by auto
      with ab(3) False id_old inj show ?thesis by (simp add: inj_on_def)
    qed
  qed
  moreover have "file_ok decode appExists (map_of dir') n" if "n \<in> ?Y'" for n
  proof (cases "n = f")
    case False
    with that set' have "n \<in> ?Y" by auto
    with oks old [OF False] show ?thesis by (simp add: file_ok_def)
  qed (simp add: ok)
  moreover have "distinct (map fst dir')" using names by (simp add: dir' distinct_update)
  ultimately show ?thesis by (simp add: scan_templates_iff distinct_map list_all_iff)
qed

subsection \<open>Properties\<close>

text \<open>
  A valid preset is consistent about its connection. The mode that workstations made from it
  get is one this build knows, and it needs a VPN profile exactly when the preset says
  \<^verbatim>\<open>vpn_required\<close>; its apps are distinct and known, and its limits are positive or not a
  number.
\<close>

theorem template_egress_consistent:
  assumes "Validate_template appExists t = None"
  shows "Valid (Resolve (tp_Egress t) (tp_VPNRequired t))
    \<and> (RequiresVPNProfile (Resolve (tp_Egress t) (tp_VPNRequired t)) \<longleftrightarrow> tp_VPNRequired t)
    \<and> (\<forall>app \<in> set (tp_Apps t). appExists app) \<and> distinct (tp_Apps t) \<and> tp_Apps t \<noteq> []
    \<and> (float_lt float0 (tp_CPU t) \<or> tp_CPU t = NaN) \<and> 128 \<le> tp_MemoryMB t \<and> 32 \<le> tp_PIDLimit t"
proof -
  have v: "check_egress t = None" "\<not> float_le (tp_CPU t) float0"
    using assms by (simp_all add: Validate_template_None)
  have "RequiresVPNProfile (Resolve (tp_Egress t) (tp_VPNRequired t)) \<longleftrightarrow> tp_VPNRequired t"
  proof (cases "tp_Egress t = []")
    case True
    then show ?thesis by (simp add: Resolve_empty RequiresVPNProfile_def DefaultMode_def)
  next
    case False
    with v(1) show ?thesis
      by (auto simp: check_egress_def Resolve_def split: sum.splits if_splits)
  qed
  moreover have "float_lt float0 (tp_CPU t) \<or> tp_CPU t = NaN" using v(2) by (cases "tp_CPU t") auto
  ultimately show ?thesis
    using assms Resolve_Valid by (simp add: Validate_template_None list_all_iff)
qed

definition sample_template :: Template where
  "sample_template = \<lparr>tp_SchemaVersion = 1, tp_ID = ''custom-dev'', tp_Name = ''Dev'', tp_Description = [],
     tp_WorkspaceImage = ''ws:1'', tp_Apps = [''browser''], tp_VPNRequired = True, tp_Egress = ''wireguard'',
     tp_Persistent = True, tp_CPU = Fin 2, tp_MemoryMB = 2048, tp_PIDLimit = 256, tp_ExpiresHours = 0,
     tp_Custom = False\<rparr>"

lemma sample_template_valid: "Validate_template (\<lambda>a. a = ''browser'') sample_template = None"
  by code_simp

theorem template_egress_consistent_witness:
  "RequiresVPNProfile (Resolve (tp_Egress sample_template) (tp_VPNRequired sample_template))"
  using template_egress_consistent [OF sample_template_valid] by (simp add: sample_template_def)

text \<open>
  A saved preset is found by the next scan. If the directory scans without error, no other
  file of it declares the same id, and saving succeeds, then the directory scans again without
  error and the registry returns the saved preset, marked as custom. The hypothesis on YAML is
  that what it wrote for this preset decodes to the same preset.
\<close>

theorem saved_template_scans:
  assumes yaml: "decode (encode (t\<lparr>tp_Custom := False\<rparr>)) = Inr (t\<lparr>tp_Custom := False\<rparr>)"
    and names: "distinct (map fst dir)"
    and scan: "is_ok (Scan_templates decode appExists dir)"
    and others: "\<forall>name \<in> set (map fst dir). yaml_name name \<longrightarrow> name \<noteq> tp_ID t @ ''.yaml'' \<longrightarrow>
      file_id decode (map_of dir) name \<noteq> tp_ID t"
    and save: "SaveCustom encode write_fails t appExists dir = (None, dir')"
  shows "\<exists>r. Scan_templates decode appExists dir' = Inr r \<and> Get_template r (tp_ID t) = Some (t\<lparr>tp_Custom := True\<rparr>)"
proof -
  let ?f = "tp_ID t @ ''.yaml''" and ?v = "t\<lparr>tp_Custom := False\<rparr>"
  from save have pre: "HasPrefix (tp_ID t) ''custom-''" and valid: "Validate_template appExists t = None"
    and dir': "dir' = AList.update ?f (encode ?v) dir"
    by (auto simp: SaveCustom_def Let_def split: if_splits option.splits)
  have new: "template_of decode (map_of dir') ?f = Some ?v"
    by (simp add: template_of_def dir' update_conv' yaml)
  then have id_new: "file_id decode (map_of dir') ?f = tp_ID t"
    and "file_ok decode appExists (map_of dir') ?f" using valid by (simp_all add: file_id_def file_ok_def)
  moreover have "is_ok (scan_templates decode appExists (map_of dir) (sort (map fst dir)) [])"
    using scan by (auto simp: Scan_templates_def split: sum.splits)
  ultimately have "is_ok (scan_templates decode appExists (map_of dir') (sort (map fst dir')) [])"
    using others by (intro scan_write [OF names _ dir']) auto
  then obtain r where r: "scan_templates decode appExists (map_of dir') (sort (map fst dir')) [] = Inr r"
    by (rule is_okE)
  have "?f \<in> set (sort (map fst dir'))" by (simp add: dir' update_keys flip: set_map)
  with scan_templates_found [OF r this] new id_new pre
  have "map_of r (tp_ID t) = Some (t\<lparr>tp_Custom := True\<rparr>)" by (auto simp: HasPrefix_iff)
  moreover from this have "r \<noteq> []" by auto
  ultimately show ?thesis using r by (simp add: Scan_templates_def Get_template_def)
qed

definition sample_templates :: template_dir where
  "sample_templates = [(''general.yaml'', ''g'')]"

definition sample_decode :: "string \<Rightarrow> (string, Template) result" where
  "sample_decode s =
     (if s = ''g'' then Inr (sample_template\<lparr>tp_ID := ''general''\<rparr>) else Inr sample_template)"

definition sample_saved_templates :: template_dir where
  "sample_saved_templates = [(''general.yaml'', ''g''), (''custom-dev.yaml'', ''c'')]"

theorem saved_template_scans_witness:
  "\<exists>r. Scan_templates sample_decode (\<lambda>a. a = ''browser'') sample_saved_templates = Inr r \<and>
     Get_template r ''custom-dev'' = Some (sample_template\<lparr>tp_Custom := True\<rparr>)"
proof -
  have yaml: "sample_decode ((\<lambda>_. ''c'') (sample_template\<lparr>tp_Custom := False\<rparr>)) =
      Inr (sample_template\<lparr>tp_Custom := False\<rparr>)"
    by (simp add: sample_decode_def sample_template_def)
  have scan: "is_ok (Scan_templates sample_decode (\<lambda>a. a = ''browser'') sample_templates)" by code_simp
  have save: "SaveCustom (\<lambda>_. ''c'') False sample_template (\<lambda>a. a = ''browser'') sample_templates =
      (None, sample_saved_templates)" by code_simp
  have id: "tp_ID sample_template = ''custom-dev''" by (simp add: sample_template_def)
  have others: "file_id sample_decode (map_of sample_templates) ''general.yaml'' \<noteq> ''custom-dev''" by code_simp
  show ?thesis
    using saved_template_scans [OF yaml _ scan _ save] others id by (simp add: sample_templates_def)
qed

end
