(* ===== verification/Workstation_State.thy ===== *)
theory Workstation_State
  imports Go_Std
begin

text \<open>
  The workstation life cycle of \<^verbatim>\<open>internal/workstations/state.go\<close>: the states, the table of
  permitted transitions, \<^verbatim>\<open>CanTransition\<close> and \<^verbatim>\<open>ValidateTransition\<close>, the step
  relation they define and the reachable states. The locale \<open>lifecycle\<close> states what a client of
  a life cycle relies on and proves that deletion always stays possible.
\<close>

datatype State =
    StateCreating | StatePullingImages | StateCreatingStorage | StateStartingVPN
  | StateWaitingForVPN | StateStartingApps | StateReady | StateVPNFailed | StateUnhealthy
  | StateLocked | StateStopping | StateStopped | StateDeleting | StateDeleted | StateError

fun State_str :: "State \<Rightarrow> string" where
  "State_str StateCreating = ''creating''"
| "State_str StatePullingImages = ''pulling-images''"
| "State_str StateCreatingStorage = ''creating-storage''"
| "State_str StateStartingVPN = ''starting-vpn''"
| "State_str StateWaitingForVPN = ''waiting-for-vpn''"
| "State_str StateStartingApps = ''starting-apps''"
| "State_str StateReady = ''ready''"
| "State_str StateVPNFailed = ''vpn-failed''"
| "State_str StateUnhealthy = ''unhealthy''"
| "State_str StateLocked = ''locked''"
| "State_str StateStopping = ''stopping''"
| "State_str StateStopped = ''stopped''"
| "State_str StateDeleting = ''deleting''"
| "State_str StateDeleted = ''deleted''"
| "State_str StateError = ''error''"

definition all_states :: "State list" where
  "all_states =
     [StateCreating, StatePullingImages, StateCreatingStorage, StateStartingVPN,
      StateWaitingForVPN, StateStartingApps, StateReady, StateVPNFailed, StateUnhealthy,
      StateLocked, StateStopping, StateStopped, StateDeleting, StateDeleted, StateError]"

text \<open>The conversion \<^verbatim>\<open>State(s)\<close> of a stored string, \<open>None\<close> for a string no constant has.\<close>

definition State_of :: "string \<Rightarrow> State option" where
  "State_of s = find (\<lambda>st. State_str st = s) all_states"

fun transitions :: "State \<Rightarrow> State list" where
  "transitions StateCreating =
     [StatePullingImages, StateCreatingStorage, StateError, StateDeleting]"
| "transitions StatePullingImages = [StateCreatingStorage, StateError, StateDeleting]"
| "transitions StateCreatingStorage =
     [StateStartingVPN, StateStartingApps, StateError, StateDeleting]"
| "transitions StateStartingVPN =
     [StateWaitingForVPN, StateVPNFailed, StateError, StateDeleting]"
| "transitions StateWaitingForVPN =
     [StateStartingApps, StateVPNFailed, StateLocked, StateError, StateDeleting]"
| "transitions StateStartingApps =
     [StateReady, StateUnhealthy, StateVPNFailed, StateError, StateDeleting]"
| "transitions StateReady =
     [StatePullingImages, StateStopping, StateUnhealthy, StateVPNFailed, StateLocked,
      StateDeleting, StateError]"
| "transitions StateVPNFailed =
     [StatePullingImages, StateStartingVPN, StateLocked, StateStopping, StateDeleting,
      StateError]"
| "transitions StateUnhealthy =
     [StatePullingImages, StateStartingApps, StateStopping, StateDeleting, StateError]"
| "transitions StateLocked =
     [StatePullingImages, StateStartingVPN, StateStopping, StateDeleting, StateError]"
| "transitions StateStopping = [StateStopped, StateError]"
| "transitions StateStopped =
     [StatePullingImages, StateCreatingStorage, StateStartingVPN, StateStartingApps,
      StateDeleting, StateError]"
| "transitions StateDeleting = [StateDeleted, StateError]"
| "transitions StateError =
     [StatePullingImages, StateCreatingStorage, StateStartingVPN, StateStartingApps,
      StateStopping, StateDeleting]"
| "transitions StateDeleted = []"

definition CanTransition :: "State \<Rightarrow> State \<Rightarrow> bool" where
  "CanTransition from to = (to \<in> set (transitions from))"

text \<open>
  \<^verbatim>\<open>ValidateTransition\<close> on the stored string and the next state; a string that is no state
  has no row in the table, so nothing is permitted from it.
\<close>

definition ValidateTransition :: "string \<Rightarrow> State \<Rightarrow> (string \<times> string) check" where
  "ValidateTransition from to =
     (case State_of from of
        Some st \<Rightarrow> if CanTransition st to then None else Some (from, State_str to)
      | None \<Rightarrow> Some (from, State_str to))"

lemma State_str_inj [simp]: "State_str a = State_str b \<longleftrightarrow> a = b"
  by (cases a; cases b) simp_all

lemma State_in_all: "st \<in> set all_states"
  by (cases st) (simp_all add: all_states_def)

lemma State_of_str [simp]: "State_of (State_str st) = Some st"
  using find_Some_ex [OF State_in_all, of "\<lambda>x. State_str x = State_str st" st]
  by (auto simp: State_of_def dest: find_SomeD)

lemma State_of_Some: "State_of s = Some st \<Longrightarrow> s = State_str st"
  by (auto simp: State_of_def dest: find_SomeD)

lemma ValidateTransition_ok:
  "ValidateTransition from to = None \<longleftrightarrow>
   (\<exists>st. from = State_str st \<and> CanTransition st to)"
  by (auto simp: ValidateTransition_def dest: State_of_Some split: option.splits if_splits)

subsection \<open>The step relation\<close>

inductive lifecycle_step :: "State \<Rightarrow> State \<Rightarrow> bool" where
  "CanTransition s t \<Longrightarrow> lifecycle_step s t"

inductive_simps lifecycle_step_iff: "lifecycle_step s t"
inductive_cases lifecycle_stepE: "lifecycle_step s t"

inductive reachable_from :: "State \<Rightarrow> State \<Rightarrow> bool" where
  here: "reachable_from s s"
| there: "reachable_from s t \<Longrightarrow> lifecycle_step t u \<Longrightarrow> reachable_from s u"

lemma reachable_from_step: "CanTransition s t \<Longrightarrow> reachable_from s t"
  by (metis reachable_from.here reachable_from.there lifecycle_step.intros)

lemma reachable_from_trans: "reachable_from s t \<Longrightarrow> reachable_from t u \<Longrightarrow> reachable_from s u"
  by (rotate_tac 1, induction rule: reachable_from.induct) (auto intro: reachable_from.there)

subsection \<open>The interface of a life cycle\<close>

text \<open>
  What the controller relies on: one final state that is never left, a state of removal that
  leads to it, a failure state that is always recoverable towards removal, and no state but the
  final one and the two of a running operation that refuses removal.
\<close>

locale lifecycle =
  fixes can :: "'s \<Rightarrow> 's \<Rightarrow> bool"
    and removing final failed :: 's
    and busy :: "'s \<Rightarrow> bool"
  assumes final_stays: "\<not> can final s"
    and removing_final: "can removing final"
    and failed_removing: "can failed removing"
    and busy_failed: "busy s \<Longrightarrow> can s failed"
    and idle_removing: "s \<noteq> final \<Longrightarrow> \<not> busy s \<Longrightarrow> can s removing"
begin

lemma can_leave: "s \<noteq> final \<Longrightarrow> can s removing \<or> can s failed"
  using busy_failed idle_removing by blast

lemma removal_possible: "s \<noteq> final \<Longrightarrow> can\<^sup>*\<^sup>* s final"
proof -
  assume "s \<noteq> final"
  have ended: "can\<^sup>*\<^sup>* removing final" using removing_final by auto
  moreover have "can\<^sup>*\<^sup>* failed final"
    using failed_removing ended by (meson converse_rtranclp_into_rtranclp)
  ultimately show ?thesis
    using can_leave [OF \<open>s \<noteq> final\<close>] by (meson converse_rtranclp_into_rtranclp)
qed

lemma final_only_final: "can\<^sup>*\<^sup>* final s \<Longrightarrow> s = final"
  by (induction rule: rtranclp_induct) (use final_stays in auto)

end

definition busy_state :: "State \<Rightarrow> bool" where
  "busy_state s = (s = StateStopping \<or> s = StateDeleting)"

interpretation ws: lifecycle CanTransition StateDeleting StateDeleted StateError busy_state
proof unfold_locales
  fix s
  show "\<not> CanTransition StateDeleted s" by (simp add: CanTransition_def)
  show "busy_state s \<Longrightarrow> CanTransition s StateError"
    by (auto simp: busy_state_def CanTransition_def)
  show "s \<noteq> StateDeleted \<Longrightarrow> \<not> busy_state s \<Longrightarrow> CanTransition s StateDeleting"
    by (cases s) (simp_all add: busy_state_def CanTransition_def)
qed (simp_all add: CanTransition_def)

lemma reachable_from_rtranclp: "reachable_from s t \<longleftrightarrow> CanTransition\<^sup>*\<^sup>* s t"
proof
  show "reachable_from s t \<Longrightarrow> CanTransition\<^sup>*\<^sup>* s t"
    by (induction rule: reachable_from.induct)
      (auto simp: lifecycle_step_iff intro: rtranclp.rtrancl_into_rtrancl)
  show "CanTransition\<^sup>*\<^sup>* s t \<Longrightarrow> reachable_from s t"
    by (induction rule: rtranclp_induct) (auto simp: lifecycle_step_iff intro: reachable_from.intros)
qed

subsection \<open>Properties\<close>

text \<open>
  From every state but the final one a workstation can still be brought to
  \<^verbatim>\<open>deleted\<close>, and nothing ever leaves \<^verbatim>\<open>deleted\<close>: no sequence of permitted
  transitions traps a workstation, and none revives one.
\<close>

theorem deletion_always_reachable:
  "reachable_from s StateDeleted \<and> (reachable_from StateDeleted t \<longrightarrow> t = StateDeleted)"
proof
  show "reachable_from s StateDeleted"
    using ws.removal_possible [of s] by (cases "s = StateDeleted")
      (auto simp: reachable_from_rtranclp)
  show "reachable_from StateDeleted t \<longrightarrow> t = StateDeleted"
    using ws.final_only_final by (simp add: reachable_from_rtranclp)
qed

theorem deletion_always_reachable_witness:
  "reachable_from StateDeleted StateDeleted \<and>
   reachable_from StateLocked StateDeleted \<and> StateDeleted = StateDeleted"
  using deletion_always_reachable [of StateLocked StateDeleted] reachable_from.here by blast

end
