(* ===== verification/Controller.thy ===== *)
theory Controller
  imports Database_Workstations Templates Worker_API Workstation_State VPN_Store
begin

text \<open>
  The workstation life cycle in the controller, \<^verbatim>\<open>internal/httpapi/workstations.go\<close>, with
  the helpers of \<^verbatim>\<open>server.go\<close> and the VPN profile handlers of \<^verbatim>\<open>settings.go\<close>:
  creating a workstation, provisioning it, the actions of its owner, the background runs they
  start, and reconciliation.

  The state of the server is the record \<open>server\<close>; what lies outside it (the worker behind its
  HTTP client, cryptography, random bytes, failures of the file system, JSON, the text of an error)
  is the record
  \<open>world\<close>. A background goroutine is a function of its own that the handler's caller runs after
  the handler; the theorems on \<open>controller_call\<close> cover every interleaving of their store calls.
\<close>

record server =
  sv_db :: db
  sv_apps :: Registry
  sv_presets :: template_registry
  sv_files :: files
  sv_vpnStore :: store

datatype api_error =
    NameLength
  | UnknownTemplate
  | AppUnavailable string
  | NoApps
  | EgressNotPermitted string
  | VPNProfileRequired
  | VPNProfileUnavailable
  | NoWorkstation
  | UnknownAction
  | InvalidTransition string string
  | StoreFailed db_error
  | NoSelectedProfile
  | LoadVPNProfile db_error
  | ProfileDisabled
  | LoadConfig vpn_error
  | AppDisappeared string
  | WorkerFailed string
  | ProfileNameLength
  | BadVisibility
  | OnlyAdminsRecommend
  | ConfigInvalid wg_error
  | ConfigNotSaved vpn_error

record world =
  w_uni :: "string \<Rightarrow> string"
  w_crypto :: crypto
  w_faults :: faults
  w_random :: randomness
  w_unmarshal :: "string \<Rightarrow> string list option"
  w_Provision :: "ProvisionRequest \<Rightarrow> string option"
  w_Rebuild :: "ProvisionRequest \<Rightarrow> string option"
  w_Action :: "string \<Rightarrow> string \<Rightarrow> string option"
  w_List :: "(string, Resource list) result"
  w_text :: "api_error \<Rightarrow> string"

subsection \<open>Helpers\<close>

definition unique :: "string list \<Rightarrow> string list" where
  "unique vals = keep_first vals"

definition parseOptionalID :: "string \<Rightarrow> int option" where
  "parseOptionalID v =
     (case ParseInt64 (TrimSpace v) of None \<Rightarrow> None | Some i \<Rightarrow> if i \<le> 0 then None else Some i)"

definition id_alphabet :: string where
  "id_alphabet = ''abcdefghijklmnopqrstuvwxyz0123456789''"

definition workstationID :: "string \<Rightarrow> string" where
  "workstationID data = ''ws-'' @ map (\<lambda>c. id_alphabet ! (of_char c mod length id_alphabet)) data"

definition loadVPNConfig :: "world \<Rightarrow> VPNProfile \<Rightarrow> server \<Rightarrow> (vpn_error, string) result \<times> server" where
  "loadVPNConfig W profile sv =
     (case Load (w_uni W) (w_crypto W) (sv_vpnStore sv) (w_faults W) (w_random W) (p_ConfigRef profile)
         (sv_files sv) of
        (r, fs) \<Rightarrow> (r, sv\<lparr>sv_files := fs\<rparr>))"

record launcherApp =
  la_ID :: string
  la_Name :: string
  la_State :: string
  la_Role :: string
  la_Initial :: string

definition launcher_tile :: "Registry \<Rightarrow> WorkstationApp \<Rightarrow> launcherApp option" where
  "launcher_tile apps installed =
     (case Get apps (wa_AppID installed) of
        Some app \<Rightarrow>
          if d_Role (m_Desktop app) = RoleLauncher then None
          else if \<not> d_Visible (m_Desktop app) then None
          else Some \<lparr>la_ID = wa_AppID installed, la_Name = m_Name app, la_State = wa_State installed,
                la_Role = d_Role (m_Desktop app), la_Initial = take 1 (m_Name app)\<rparr>
      | None \<Rightarrow>
          Some \<lparr>la_ID = wa_AppID installed, la_Name = wa_AppID installed, la_State = wa_State installed,
             la_Role = [], la_Initial = take 1 (wa_AppID installed)\<rparr>)"

definition launcherApps :: "Registry \<Rightarrow> Workstation \<Rightarrow> launcherApp list" where
  "launcherApps apps ws = List.map_filter (launcher_tile apps) (ws_Apps ws)"

subsection \<open>Creating a workstation\<close>

record createInput =
  ci_Name :: string
  ci_TemplateID :: string
  ci_Apps :: "string list"
  ci_VPNProfileID :: "int option"

primrec resolve_apps :: "Registry \<Rightarrow> string list \<Rightarrow> (api_error, WorkstationApp list) result" where
  "resolve_apps apps [] = Inr []"
| "resolve_apps apps (i # ids) =
     (case Get apps i of
        None \<Rightarrow> Inl (AppUnavailable i)
      | Some app \<Rightarrow>
          (case resolve_apps apps ids of
             Inl e \<Rightarrow> Inl e
           | Inr rest \<Rightarrow>
               Inr (\<lparr>wa_AppID = m_ID app, wa_AppVersion = m_Version app, wa_State = [],
                      wa_ContainerName = [], wa_InternalPort = rt_InternalPort (m_Runtime app)\<rparr> # rest)))"

definition select_profile ::
  "Template \<Rightarrow> int option \<Rightarrow> User \<Rightarrow> db \<Rightarrow> (api_error, int option) result" where
  "select_profile preset requested user d =
     (if tp_VPNRequired preset then
        (case requested of
           None \<Rightarrow> Inl VPNProfileRequired
         | Some i \<Rightarrow>
             if i \<le> 0 then Inl VPNProfileRequired
             else (case VPNProfileForUser i user d of
                 Inl _ \<Rightarrow> Inl VPNProfileUnavailable
               | Inr profile \<Rightarrow>
                   if \<not> p_Enabled profile then Inl VPNProfileUnavailable else Inr (Some (p_ID profile))))
      else Inr None)"

definition new_workstation ::
  "string \<Rightarrow> string \<Rightarrow> User \<Rightarrow> Template \<Rightarrow> Mode \<Rightarrow> int option \<Rightarrow> Workstation" where
  "new_workstation i name user preset mode profile =
     \<lparr>ws_ID = i, ws_Name = name, ws_OwnerUserID = u_ID user, ws_TemplateID = tp_ID preset,
      ws_WorkspaceImage = tp_WorkspaceImage preset, ws_State = State_str StateCreating,
      ws_Hostname = i, ws_CPULimit = tp_CPU preset, ws_MemoryLimitMB = tp_MemoryMB preset,
      ws_PIDLimit = tp_PIDLimit preset, ws_Persistent = tp_Persistent preset,
      ws_VPNRequired = tp_VPNRequired preset, ws_VPNProfileID = profile, ws_EgressMode = mode,
      ws_AccentColor = [], ws_ExitIP = [], ws_CreatedAt = zero_time, ws_UpdatedAt = zero_time,
      ws_LastStartedAt = zero_time, ws_ErrorMessage = [], ws_Apps = []\<rparr>"

definition create ::
  "time \<Rightarrow> string \<Rightarrow> User \<Rightarrow> createInput \<Rightarrow> server \<Rightarrow> (api_error, Workstation) result \<times> server" where
  "create now id_bytes user input sv =
     (let name = TrimSpace (ci_Name input) in
      if length name < 2 \<or> length name > 80 then (Inl NameLength, sv)
      else case Get_template (sv_presets sv) (ci_TemplateID input) of
        None \<Rightarrow> (Inl UnknownTemplate, sv)
      | Some preset \<Rightarrow>
          (let wanted = (if length (ci_Apps input) = 0 then tp_Apps preset else ci_Apps input);
               mode = Resolve (tp_Egress preset) (tp_VPNRequired preset) in
           case resolve_apps (sv_apps sv) (unique wanted) of
             Inl e \<Rightarrow> (Inl e, sv)
           | Inr dbApps \<Rightarrow>
               if length dbApps = 0 then (Inl NoApps, sv)
               else if \<not> Granted (ParseGrants (u_AllowedEgress user)) mode (u_IsAdmin user)
               then (Inl (EgressNotPermitted (Label mode)), sv)
               else (case select_profile preset (ci_VPNProfileID input) user (sv_db sv) of
                   Inl e \<Rightarrow> (Inl e, sv)
                 | Inr profile \<Rightarrow>
                     (let ws = new_workstation (workstationID id_bytes) name user preset mode profile in
                      case CreateWorkstation now ws dbApps (sv_db sv) of
                        (Some e, d) \<Rightarrow> (Inl (StoreFailed e), sv\<lparr>sv_db := d\<rparr>)
                      | (None, d) \<Rightarrow> (Inr ws, sv\<lparr>sv_db := d\<rparr>)))))"

subsection \<open>State changes\<close>

definition transition ::
  "time \<Rightarrow> Workstation \<Rightarrow> State \<Rightarrow> string \<Rightarrow> db \<Rightarrow> api_error check \<times> Workstation \<times> db" where
  "transition now ws nxt message d =
     (case ValidateTransition (ws_State ws) nxt of
        Some (a, b) \<Rightarrow> (Some (InvalidTransition a b), ws, d)
      | None \<Rightarrow>
          (case SetWorkstationState now (ws_ID ws) (ws_State ws) (State_str nxt) message d of
             (Some e, d') \<Rightarrow> (Some (StoreFailed e), ws, d')
           | (None, d') \<Rightarrow>
               (None, ws\<lparr>ws_State := State_str nxt, ws_ErrorMessage := message\<rparr>, d')))"

text \<open>A run of \<^verbatim>\<open>if err := s.transition(...); err != nil { return }\<close>.\<close>

primrec transition_all ::
  "time \<Rightarrow> State list \<Rightarrow> Workstation \<Rightarrow> db \<Rightarrow> api_error check \<times> Workstation \<times> db" where
  "transition_all now [] ws d = (None, ws, d)"
| "transition_all now (s # ss) ws d =
     (case transition now ws s [] d of
        (Some e, ws', d') \<Rightarrow> (Some e, ws', d')
      | (None, ws', d') \<Rightarrow> transition_all now ss ws' d')"

definition manifestAppSpec :: "Manifest \<Rightarrow> string \<Rightarrow> AppSpec" where
  "manifestAppSpec app manifestSHA256 =
     \<lparr>as_ID = m_ID app, as_Version = m_Version app, as_ManifestSHA256 = manifestSHA256,
      as_Image = rt_Image (m_Runtime app), as_Command = rt_Command (m_Runtime app),
      as_Environment = rt_Environment (m_Runtime app), as_InternalPort = rt_InternalPort (m_Runtime app),
      as_MemoryMB = rs_DefaultMemoryMB (m_Resources app), as_CPU = rs_DefaultCPU (m_Resources app),
      as_ShmSizeMB = rs_ShmSizeMB (m_Resources app), as_Capabilities = m_Capabilities app,
      as_Storage = map (\<lambda>s. \<lparr>ss_Type = st_Type s, ss_Target = st_Target s, ss_OwnerUID = st_OwnerUID s,
        ss_OwnerGID = st_OwnerGID s\<rparr>) (m_Storage app),
      as_HealthPath = h_Path (m_Health app), as_HealthTimeoutSeconds = h_TimeoutSeconds (m_Health app)\<rparr>"

primrec request_apps :: "Registry \<Rightarrow> WorkstationApp list \<Rightarrow> (api_error, AppSpec list) result" where
  "request_apps apps [] = Inr []"
| "request_apps apps (a # as) =
     (case Registry_Entry apps (wa_AppID a) of
        None \<Rightarrow> Inl (AppDisappeared (wa_AppID a))
      | Some entry \<Rightarrow>
          (case request_apps apps as of
             Inl e \<Rightarrow> Inl e
           | Inr rest \<Rightarrow>
               Inr (if rt_Type (m_Runtime (e_Manifest entry)) \<noteq> ''container-service'' then rest
                    else manifestAppSpec (e_Manifest entry) (e_SHA256 entry) # rest)))"

definition request_profile ::
  "world \<Rightarrow> Mode \<Rightarrow> Workstation \<Rightarrow> server \<Rightarrow> (api_error, string option) result \<times> server" where
  "request_profile W mode ws sv =
     (if RequiresVPNProfile mode then
        (case ws_VPNProfileID ws of
           None \<Rightarrow> (Inl NoSelectedProfile, sv)
         | Some i \<Rightarrow>
             (case VPNProfile_row i (sv_db sv) of
                Inl e \<Rightarrow> (Inl (LoadVPNProfile e), sv)
              | Inr profile \<Rightarrow>
                  if \<not> p_Enabled profile then (Inl ProfileDisabled, sv)
                  else (case loadVPNConfig W profile sv of
                      (Inl e, sv') \<Rightarrow> (Inl (LoadConfig e), sv')
                    | (Inr config, sv') \<Rightarrow> (Inr (Some config), sv'))))
      else (Inr None, sv))"

definition provisionRequest ::
  "world \<Rightarrow> Workstation \<Rightarrow> server \<Rightarrow> (api_error, ProvisionRequest) result \<times> server" where
  "provisionRequest W ws sv =
     (let mode = Resolve (ws_EgressMode ws) (ws_VPNRequired ws) in
      case request_profile W mode ws sv of
        (Inl e, sv') \<Rightarrow> (Inl e, sv')
      | (Inr profile, sv') \<Rightarrow>
          (case request_apps (sv_apps sv') (ws_Apps ws) of
             Inl e \<Rightarrow> (Inl e, sv')
           | Inr apps \<Rightarrow>
               (Inr \<lparr>pr_WorkstationID = ws_ID ws, pr_Persistent = ws_Persistent ws,
                  pr_VPNRequired = ws_VPNRequired ws, pr_VPNProfile = profile,
                  pr_MemoryMB = ws_MemoryLimitMB ws, pr_CPU = ws_CPULimit ws,
                  pr_PIDLimit = ws_PIDLimit ws, pr_WorkspaceImage = ws_WorkspaceImage ws,
                  pr_EgressMode = mode, pr_Apps = apps\<rparr>, sv')))"

subsection \<open>Background runs\<close>

text \<open>The states passed after the worker has built the resources.\<close>

definition starting_states :: "bool \<Rightarrow> State list" where
  "starting_states vpnRequired =
     StateCreatingStorage # (if vpnRequired then [StateStartingVPN, StateWaitingForVPN] else [])
     @ [StateStartingApps]"

definition record_versions :: "time \<Rightarrow> Registry \<Rightarrow> string \<Rightarrow> WorkstationApp list \<Rightarrow> db \<Rightarrow> db" where
  "record_versions now apps i as d =
     fold (\<lambda>a d. case Get apps (wa_AppID a) of
         None \<Rightarrow> d
       | Some manifest \<Rightarrow> snd (SetAppVersion now i (wa_AppID a) (m_Version manifest) d)) as d"

definition finish_start :: "time \<Rightarrow> string \<Rightarrow> Workstation \<Rightarrow> server \<Rightarrow> server" where
  "finish_start now i ws sv =
     (case transition_all now (starting_states (ws_VPNRequired ws)) ws (sv_db sv) of
        (Some _, _, d) \<Rightarrow> sv\<lparr>sv_db := d\<rparr>
      | (None, ws', d) \<Rightarrow>
          (let d = SetAppStates now i ''ready'' (record_versions now (sv_apps sv) i (ws_Apps ws') d) in
           sv\<lparr>sv_db := snd (snd (transition now ws' StateReady [] d))\<rparr>))"

definition fail_run :: "time \<Rightarrow> string \<Rightarrow> Workstation \<Rightarrow> string \<Rightarrow> server \<Rightarrow> server" where
  "fail_run now i ws message sv =
     sv\<lparr>sv_db := SetAppStates now i ''error'' (snd (snd (transition now ws StateError message (sv_db sv))))\<rparr>"

definition build ::
  "world \<Rightarrow> (ProvisionRequest \<Rightarrow> string option) \<Rightarrow> time \<Rightarrow> string \<Rightarrow> Workstation \<Rightarrow> server \<Rightarrow> server" where
  "build W call now i ws sv =
     (case provisionRequest W ws sv of
        (Inl e, sv') \<Rightarrow> fail_run now i ws (w_text W e) sv'
      | (Inr request, sv') \<Rightarrow>
          (case call request of
             Some e \<Rightarrow> fail_run now i ws (w_text W (WorkerFailed e)) sv'
           | None \<Rightarrow> finish_start now i ws sv'))"

definition provision :: "world \<Rightarrow> time \<Rightarrow> string \<Rightarrow> User \<Rightarrow> server \<Rightarrow> server" where
  "provision W now i user sv =
     (case Workstation_lookup i user (sv_db sv) of
        Inl _ \<Rightarrow> sv
      | Inr ws \<Rightarrow>
          (case transition now ws StatePullingImages [] (sv_db sv) of
             (Some _, _, d) \<Rightarrow> sv\<lparr>sv_db := d\<rparr>
           | (None, ws', d) \<Rightarrow> build W (w_Provision W) now i ws' (sv\<lparr>sv_db := d\<rparr>)))"

definition runUpdate :: "world \<Rightarrow> time \<Rightarrow> string \<Rightarrow> User \<Rightarrow> server \<Rightarrow> server" where
  "runUpdate W now i user sv =
     (case Workstation_lookup i user (sv_db sv) of
        Inl _ \<Rightarrow> sv
      | Inr ws \<Rightarrow> build W (w_Rebuild W) now i ws sv)"

definition action_app_state :: "string \<Rightarrow> string" where
  "action_app_state action =
     (if action = ''start'' then ''ready'' else if action = ''stop'' then ''stopped''
      else if action = ''delete'' then ''deleted'' else [])"

definition runAction :: "world \<Rightarrow> time \<Rightarrow> string \<Rightarrow> User \<Rightarrow> string \<Rightarrow> State \<Rightarrow> server \<Rightarrow> server" where
  "runAction W now i user action final sv =
     (case Workstation_lookup i user (sv_db sv) of
        Inl _ \<Rightarrow> sv
      | Inr ws \<Rightarrow>
          (case w_Action W i action of
             Some e \<Rightarrow>
               sv\<lparr>sv_db := snd (snd (transition now ws StateError (w_text W (WorkerFailed e)) (sv_db sv)))\<rparr>
           | None \<Rightarrow>
               (case transition_all now
                   (if action = ''start'' \<and> ws_VPNRequired ws
                    then [StateWaitingForVPN, StateStartingApps] else []) ws (sv_db sv) of
                  (Some _, _, d) \<Rightarrow> sv\<lparr>sv_db := d\<rparr>
                | (None, ws', d) \<Rightarrow>
                    sv\<lparr>sv_db := snd (snd (transition now ws' final []
                       (SetAppStates now i (action_app_state action) d)))\<rparr>)))"

definition restart_states :: "bool \<Rightarrow> State list" where
  "restart_states vpnRequired =
     StateStopped # (if vpnRequired then [StateStartingVPN, StateWaitingForVPN, StateStartingApps]
                     else [StateStartingApps])"

definition runRestart :: "world \<Rightarrow> time \<Rightarrow> string \<Rightarrow> User \<Rightarrow> server \<Rightarrow> server" where
  "runRestart W now i user sv =
     (case Workstation_lookup i user (sv_db sv) of
        Inl _ \<Rightarrow> sv
      | Inr ws \<Rightarrow>
          (case w_Action W i ''restart'' of
             Some e \<Rightarrow>
               sv\<lparr>sv_db := snd (snd (transition now ws StateError (w_text W (WorkerFailed e)) (sv_db sv)))\<rparr>
           | None \<Rightarrow>
               (case transition_all now (restart_states (ws_VPNRequired ws)) ws (sv_db sv) of
                  (Some _, _, d) \<Rightarrow> sv\<lparr>sv_db := d\<rparr>
                | (None, ws', d) \<Rightarrow>
                    sv\<lparr>sv_db := snd (snd (transition now ws' StateReady [] (SetAppStates now i ''ready'' d)))\<rparr>)))"

subsection \<open>Actions\<close>

text \<open>
  \<^verbatim>\<open>beginAction\<close> changes the state and starts a goroutine; the goroutine it starts is part
  of the result.
\<close>

datatype goroutine =
  GoProvision string User | GoAction string User string State | GoRestart string User | GoUpdate string User

definition run_goroutine :: "world \<Rightarrow> time \<Rightarrow> goroutine \<Rightarrow> server \<Rightarrow> server" where
  "run_goroutine W now g =
     (case g of
        GoProvision i user \<Rightarrow> provision W now i user
      | GoAction i user action final \<Rightarrow> runAction W now i user action final
      | GoRestart i user \<Rightarrow> runRestart W now i user
      | GoUpdate i user \<Rightarrow> runUpdate W now i user)"

definition action_plan :: "string \<Rightarrow> User \<Rightarrow> string \<Rightarrow> bool \<Rightarrow> (State \<times> goroutine) option" where
  "action_plan i user action vpnRequired =
     (if action = ''stop'' then Some (StateStopping, GoAction i user ''stop'' StateStopped)
      else if action = ''start'' then
        Some (if vpnRequired then StateStartingVPN else StateStartingApps, GoAction i user ''start'' StateReady)
      else if action = ''restart'' then Some (StateStopping, GoRestart i user)
      else if action = ''update'' then Some (StatePullingImages, GoUpdate i user)
      else if action = ''delete'' then Some (StateDeleting, GoAction i user ''delete'' StateDeleted)
      else None)"

definition beginAction ::
  "time \<Rightarrow> User \<Rightarrow> string \<Rightarrow> string \<Rightarrow> server \<Rightarrow> (api_error, goroutine) result \<times> server" where
  "beginAction now user i action sv =
     (case Workstation_lookup i user (sv_db sv) of
        Inl _ \<Rightarrow> (Inl NoWorkstation, sv)
      | Inr ws \<Rightarrow>
          (case action_plan i user action (ws_VPNRequired ws) of
             None \<Rightarrow> (Inl UnknownAction, sv)
           | Some (nxt, g) \<Rightarrow>
               (case transition now ws nxt [] (sv_db sv) of
                  (Some e, _, d) \<Rightarrow> (Inl e, sv\<lparr>sv_db := d\<rparr>)
                | (None, _, d) \<Rightarrow> (Inr g, sv\<lparr>sv_db := d\<rparr>))))"

subsection \<open>Reconciliation\<close>

definition reconcile_one :: "time \<Rightarrow> Resource list \<Rightarrow> Workstation \<Rightarrow> db \<Rightarrow> db" where
  "reconcile_one now resources ws d =
     (let items = filter (\<lambda>r. re_WorkstationID r = ws_ID ws) resources in
      if length items = 0 \<and> ws_State ws \<noteq> State_str StateCreating \<and>
         ws_State ws \<noteq> State_str StatePullingImages
      then snd (SetWorkstationState now (ws_ID ws) (ws_State ws) (State_str StateError)
             ''Reconciliation found no managed Docker resources'' d)
      else d)"

definition Reconcile :: "world \<Rightarrow> time \<Rightarrow> server \<Rightarrow> string option \<times> server" where
  "Reconcile W now sv =
     (case w_List W of
        Inl e \<Rightarrow> (Some e, sv)
      | Inr resources \<Rightarrow>
          (None, sv\<lparr>sv_db := fold (reconcile_one now resources) (AllActiveWorkstations (sv_db sv)) (sv_db sv)\<rparr>))"

subsection \<open>VPN profiles\<close>

record vpnProfileInput =
  vi_Name :: string
  vi_Visibility :: string
  vi_AutoAssign :: bool
  vi_WireGuardConfig :: string

definition input_visibility :: "world \<Rightarrow> User \<Rightarrow> string \<Rightarrow> string" where
  "input_visibility W user v =
     (let v = ToLower (w_uni W) (TrimSpace v);
          v = (if \<not> u_IsAdmin user then ''private'' else v)
      in if v = [] then ''private'' else v)"

definition storeVPNProfile ::
  "world \<Rightarrow> time \<Rightarrow> User \<Rightarrow> vpnProfileInput \<Rightarrow> server \<Rightarrow> (api_error, VPNProfile) result \<times> server" where
  "storeVPNProfile W now user input sv =
     (let name = TrimSpace (vi_Name input); visibility = input_visibility W user (vi_Visibility input) in
      if length name < 2 \<or> length name > 80 then (Inl ProfileNameLength, sv)
      else if visibility \<noteq> ''private'' \<and> visibility \<noteq> ''global'' then (Inl BadVisibility, sv)
      else if vi_AutoAssign input \<and> (\<not> u_IsAdmin user \<or> visibility \<noteq> ''global'')
      then (Inl OnlyAdminsRecommend, sv)
      else case WireGuard_Profile.Parse (w_uni W) (vi_WireGuardConfig input) of
        Inl e \<Rightarrow> (Inl (ConfigInvalid e), sv)
      | Inr parsed \<Rightarrow>
          (case Save (w_uni W) (w_crypto W) (sv_vpnStore sv) (w_faults W) (w_random W) (Canonical parsed)
              (sv_files sv) of
             (Inl e, fs) \<Rightarrow> (Inl (ConfigNotSaved e), sv\<lparr>sv_files := fs\<rparr>)
           | (Inr ref, fs) \<Rightarrow>
               (case CreateVPNProfile now
                   \<lparr>p_ID = 0, p_Name = name, p_Provider = ''custom'', p_VPNType = ''wireguard'',
                    p_ServerCountries = [], p_ServerCities = [], p_ServerRegions = [],
                    p_Endpoint = Endpoint parsed,
                    p_OwnerUserID = (if visibility = ''private'' then Some (u_ID user) else None),
                    p_Visibility = visibility, p_AutoAssign = vi_AutoAssign input, p_Enabled = True,
                    p_CreatedAt = zero_time, p_UpdatedAt = zero_time, p_ConfigRef = ref\<rparr> (sv_db sv) of
                  (Inl e, d) \<Rightarrow> (Inl (StoreFailed e), sv\<lparr>sv_files := Remove ref fs, sv_db := d\<rparr>)
                | (Inr created, d) \<Rightarrow> (Inr created, sv\<lparr>sv_files := fs, sv_db := d\<rparr>))))"

end
