(* ===== verification/Theme.thy ===== *)
theory Theme
  imports Go_Std
begin

text \<open>
  The accent colour and the palette it expands to, \<^verbatim>\<open>internal/theme/theme.go\<close>: validation
  of a submitted colour, the precedence of workstation, user and default, the colour arithmetic, and
  the style sheet. \<^verbatim>\<open>math.Pow\<close> is the argument \<open>pow\<close>; the other operations on
  \<^verbatim>\<open>float64\<close> are rounded as on amd64.
\<close>

definition DefaultAccent :: string where
  "DefaultAccent = ''#ff6b00''"

record Preset =
  ps_Name :: string
  ps_Value :: string

definition Presets :: "Preset list" where
  "Presets =
     [\<lparr>ps_Name = ''Orange'', ps_Value = ''#ff6b00''\<rparr>, \<lparr>ps_Name = ''Amber'', ps_Value = ''#f5a524''\<rparr>,
      \<lparr>ps_Name = ''Green'', ps_Value = ''#22c55e''\<rparr>, \<lparr>ps_Name = ''Teal'', ps_Value = ''#14b8a6''\<rparr>,
      \<lparr>ps_Name = ''Blue'', ps_Value = ''#3ea6ff''\<rparr>, \<lparr>ps_Name = ''Violet'', ps_Value = ''#8b7cff''\<rparr>,
      \<lparr>ps_Name = ''Pink'', ps_Value = ''#ec4899''\<rparr>, \<lparr>ps_Name = ''Red'', ps_Value = ''#ef4444''\<rparr>]"

record Palette =
  pl_Accent :: string
  pl_AccentStrong :: string
  pl_AccentMuted :: string
  pl_AccentSoft :: string
  pl_OnAccent :: string
  pl_Sidebar :: string
  pl_Background :: string
  pl_Surface :: string
  pl_SurfaceRaise :: string
  pl_SurfaceSunk :: string
  pl_Line :: string
  pl_LineStrong :: string
  pl_Text :: string
  pl_Muted :: string
  pl_Success :: string
  pl_Warning :: string
  pl_Danger :: string
  pl_Source :: string

subsection \<open>Colours as text\<close>

text \<open>The regular expression \<^verbatim>\<open>^#?([0-9a-fA-F]{6})$\<close>; the result is the group.\<close>

definition hexPattern :: "string \<Rightarrow> string option" where
  "hexPattern s =
     (let digits = TrimPrefix s ''#'' in
      if length digits = 6 \<and> list_all (\<lambda>c. hex_val c \<noteq> None) digits then Some digits else None)"

definition Normalize :: "string \<Rightarrow> string option" where
  "Normalize v = (case hexPattern (TrimSpace v) of None \<Rightarrow> None | Some m \<Rightarrow> Some (''#'' @ map lower_byte m))"

text \<open>\<^verbatim>\<open>strconv.ParseUint(s, 16, 32)\<close>.\<close>

definition ParseHex32 :: "string \<Rightarrow> nat option" where
  "ParseHex32 s =
     (if s = [] \<or> \<not> list_all (\<lambda>c. hex_val c \<noteq> None) s then None
      else (let n = foldl (\<lambda>a c. 16 * a + the (hex_val c)) 0 s in if n < 2 ^ 32 then Some n else None))"

definition parse_colour :: "string \<Rightarrow> nat \<times> nat \<times> nat" where
  "parse_colour v =
     (case ParseHex32 (TrimPrefix v ''#'') of
        None \<Rightarrow> (0xff, 0x6b, 0x00)
      | Some n \<Rightarrow> (n div 2 ^ 16 mod 256, n div 2 ^ 8 mod 256, n mod 256))"

definition hex2 :: "nat \<Rightarrow> string" where
  "hex2 n = [hex_char (n div 16), hex_char (n mod 16)]"

definition hex_colour :: "nat \<times> nat \<times> nat \<Rightarrow> string" where
  "hex_colour c = (case c of (r, g, b) \<Rightarrow> ''#'' @ hex2 r @ hex2 g @ hex2 b)"

subsection \<open>Colour arithmetic\<close>

abbreviation f64 :: "rat \<Rightarrow> rat" where
  "f64 \<equiv> round_float"

text \<open>\<^verbatim>\<open>math.Round\<close>: to the nearest integer, halves away from zero.\<close>

definition round_away :: "rat \<Rightarrow> int" where
  "round_away x = (if x < 0 then - \<lfloor>- x + 1 / 2\<rfloor> else \<lfloor>x + 1 / 2\<rfloor>)"

definition clamp :: "int \<Rightarrow> nat" where
  "clamp v = (if v < 0 then 0 else if v > 255 then 255 else nat v)"

definition blend :: "rat \<Rightarrow> nat \<Rightarrow> nat \<Rightarrow> nat" where
  "blend amount a b =
     clamp (round_away (f64 (of_nat a + f64 ((of_nat b - of_nat a) * amount))))"

definition mix :: "nat \<times> nat \<times> nat \<Rightarrow> nat \<times> nat \<times> nat \<Rightarrow> rat \<Rightarrow> nat \<times> nat \<times> nat" where
  "mix c t amount =
     (case (c, t) of ((r, g, b), (tr, tg, tb)) \<Rightarrow>
        (blend (f64 amount) r tr, blend (f64 amount) g tg, blend (f64 amount) b tb))"

definition lighten :: "nat \<times> nat \<times> nat \<Rightarrow> rat \<Rightarrow> nat \<times> nat \<times> nat" where
  "lighten c amount = mix c (255, 255, 255) amount"

definition channel :: "(rat \<Rightarrow> rat \<Rightarrow> rat) \<Rightarrow> nat \<Rightarrow> rat" where
  "channel pow n =
     (let v = f64 (of_nat n / 255) in
      if v \<le> f64 (3928 / 100000) then f64 (v / f64 (1292 / 100))
      else pow (f64 (f64 (v + f64 (55 / 1000)) / f64 (1055 / 1000))) (f64 (24 / 10)))"

definition luminance :: "(rat \<Rightarrow> rat \<Rightarrow> rat) \<Rightarrow> nat \<times> nat \<times> nat \<Rightarrow> rat" where
  "luminance pow c =
     (case c of (r, g, b) \<Rightarrow>
        f64 (f64 (f64 (f64 (2126 / 10000) * channel pow r) + f64 (f64 (7152 / 10000) * channel pow g))
             + f64 (f64 (722 / 10000) * channel pow b)))"

definition contrast :: "rat \<Rightarrow> rat \<Rightarrow> rat" where
  "contrast a b =
     (let lighter = max a b; darker = min a b in
      f64 (f64 (lighter + f64 (5 / 100)) / f64 (darker + f64 (5 / 100))))"

definition onAccent :: "(rat \<Rightarrow> rat \<Rightarrow> rat) \<Rightarrow> nat \<times> nat \<times> nat \<Rightarrow> string" where
  "onAccent pow c =
     (if contrast (luminance pow c) (luminance pow (0x0a, 0x08, 0x14)) \<ge>
         contrast (luminance pow c) (luminance pow (0xff, 0xff, 0xff))
      then ''#0a0814'' else ''#ffffff'')"

definition build_palette :: "(rat \<Rightarrow> rat \<Rightarrow> rat) \<Rightarrow> string \<Rightarrow> string \<Rightarrow> Palette" where
  "build_palette pow accent source =
     (let c = parse_colour accent in
      \<lparr>pl_Accent = accent, pl_AccentStrong = hex_colour (lighten c (18 / 100)),
       pl_AccentMuted = hex_colour (mix c (0x18, 0x18, 0x18) (80 / 100)),
       pl_AccentSoft = hex_colour (mix c (0x12, 0x12, 0x12) (90 / 100)),
       pl_OnAccent = onAccent pow c, pl_Sidebar = ''#0a0a0a'', pl_Background = ''#121212'',
       pl_Surface = ''#181818'', pl_SurfaceRaise = ''#1f1f1f'', pl_SurfaceSunk = ''#0e0e0e'',
       pl_Line = ''rgba(148,148,158,.12)'', pl_LineStrong = ''rgba(148,148,158,.20)'',
       pl_Text = ''#fafafa'', pl_Muted = ''#9b9ba4'', pl_Success = ''#22c55e'',
       pl_Warning = ''#eab308'', pl_Danger = ''#ef4444'', pl_Source = source\<rparr>)"

definition Resolve_theme :: "(rat \<Rightarrow> rat \<Rightarrow> rat) \<Rightarrow> string \<Rightarrow> string \<Rightarrow> Palette" where
  "Resolve_theme pow userAccent workstationAccent =
     (let (accent, source) = (DefaultAccent, ''default'');
          (accent, source) = (case Normalize userAccent of
             Some v \<Rightarrow> (v, ''user'') | None \<Rightarrow> (accent, source));
          (accent, source) = (case Normalize workstationAccent of
             Some v \<Rightarrow> (v, ''workstation'') | None \<Rightarrow> (accent, source))
      in build_palette pow accent source)"

subsection \<open>The style sheet\<close>

definition css_pairs :: "Palette \<Rightarrow> (string \<times> string) list" where
  "css_pairs p =
     [(''--accent'', pl_Accent p), (''--accent-strong'', pl_AccentStrong p),
      (''--accent-muted'', pl_AccentMuted p), (''--accent-soft'', pl_AccentSoft p),
      (''--on-accent'', pl_OnAccent p), (''--sidebar'', pl_Sidebar p), (''--bg'', pl_Background p),
      (''--panel'', pl_Surface p), (''--panel-raised'', pl_SurfaceRaise p),
      (''--panel-soft'', pl_SurfaceSunk p), (''--line'', pl_Line p),
      (''--line-strong'', pl_LineStrong p), (''--text'', pl_Text p), (''--muted'', pl_Muted p),
      (''--green'', pl_Success p), (''--warning'', pl_Warning p), (''--danger'', pl_Danger p)]"

definition swatch_rule :: "Preset \<Rightarrow> string" where
  "swatch_rule p =
     (case Normalize (ps_Value p) of
        None \<Rightarrow> []
      | Some v \<Rightarrow> ''.swatch[data-accent-preset='' @ [CHR 0x22] @ v @ [CHR 0x22] @ '']{background:'' @ v @ '';}'')"

definition presetSwatchCSS :: string where
  "presetSwatchCSS = concat (map swatch_rule Presets)"

definition CSS :: "Palette \<Rightarrow> string" where
  "CSS p =
     '':root{'' @ concat (map (\<lambda>(k, v). k @ '':'' @ v @ '';'') (css_pairs p)) @ ''}'' @ presetSwatchCSS"

definition normalizeAccentInput :: "string \<Rightarrow> string option" where
  "normalizeAccentInput v =
     (let v = TrimSpace v in if v = [] \<or> v = ''default'' then Some [] else Normalize v)"

subsection \<open>The shape of colours\<close>

definition colour :: "string \<Rightarrow> bool" where
  "colour s = (\<exists>t. s = CHR ''#'' # t \<and> length t = 6 \<and> list_all is_lower_hex t)"

lemma hex_val_lower: "hex_val c \<noteq> None \<Longrightarrow> is_lower_hex (lower_byte c)"
  by (auto simp: hex_val_def is_lower_hex_def lower_byte_def is_digit_def Let_def split: if_splits)

lemma Normalize_colour: "Normalize v = Some s \<Longrightarrow> colour s"
  by (auto simp: Normalize_def hexPattern_def colour_def list_all_iff hex_val_lower Let_def
      split: option.splits if_splits)

lemma clamp_le: "clamp v < 256"
  by (auto simp: clamp_def)

lemma hex2_shape: "n < 256 \<Longrightarrow> length (hex2 n) = 2 \<and> list_all is_lower_hex (hex2 n)"
  by (simp add: hex2_def hex_char_lower_hex less_mult_imp_div_less)

lemma mix_colour: "colour (hex_colour (mix c t a))"
proof -
  obtain r g b where c: "c = (r, g, b)" by (cases c)
  obtain tr tg tb where t: "t = (tr, tg, tb)" by (cases t)
  have "blend (f64 a) x y < 256" for x y by (simp add: blend_def clamp_le)
  then show ?thesis
    using hex2_shape by (simp add: colour_def hex_colour_def mix_def c t)
qed

lemma default_colour: "colour DefaultAccent" "colour ''#0a0814''" "colour ''#ffffff''"
  by (simp_all add: colour_def DefaultAccent_def is_lower_hex_def is_digit_def)

lemma colour_plain: "colour s \<Longrightarrow> filter (\<lambda>c. \<not> is_lower_hex c) s = ''#''"
  by (auto simp: colour_def list_all_iff filter_empty_conv) (simp add: is_lower_hex_def is_digit_def)

definition resolved_accent :: "string \<Rightarrow> string \<Rightarrow> string" where
  "resolved_accent u w =
     (case Normalize w of Some v \<Rightarrow> v
      | None \<Rightarrow> (case Normalize u of Some v \<Rightarrow> v | None \<Rightarrow> DefaultAccent))"

lemma Resolve_theme_fields:
  "pl_Accent (Resolve_theme pow u w) = resolved_accent u w"
  "colour (pl_Accent (Resolve_theme pow u w))" "colour (pl_AccentStrong (Resolve_theme pow u w))"
  "colour (pl_AccentMuted (Resolve_theme pow u w))" "colour (pl_AccentSoft (Resolve_theme pow u w))"
  "colour (pl_OnAccent (Resolve_theme pow u w))"
  by (auto simp: Resolve_theme_def build_palette_def resolved_accent_def lighten_def onAccent_def
      mix_colour default_colour Normalize_colour Let_def split: option.splits)

subsection \<open>Properties\<close>

text \<open>
  C39: no submitted colour reaches the style sheet as anything but a colour. Whatever the stored
  accents of the user and the workstation are, the resolved accent is the workstation's if that is a
  colour, else the user's if that is one, else the default; and the style sheet differs from the one
  without accents at most in hexadecimal digits, so its selectors, properties and punctuation do not
  depend on user input.
\<close>

theorem stylesheet_injection_free:
  "pl_Accent (Resolve_theme pow u w) = resolved_accent u w \<and> colour (resolved_accent u w)
   \<and> filter (\<lambda>c. \<not> is_lower_hex c) (CSS (Resolve_theme pow u w)) =
     filter (\<lambda>c. \<not> is_lower_hex c) (CSS (Resolve_theme pow [] []))"
proof -
  let ?plain = "filter (\<lambda>c. \<not> is_lower_hex c)"
  define skel where "skel p = map (\<lambda>(k, v). ?plain (k @ '':'' @ v @ '';'')) (css_pairs p)" for p
  have css: "?plain (CSS p) = ?plain '':root{'' @ concat (skel p) @ ?plain (''}'' @ presetSwatchCSS)" for p
    by (simp add: CSS_def skel_def filter_concat comp_def case_prod_unfold)
  have rest: "pl_Sidebar (Resolve_theme pow u w) = ''#0a0a0a'' \<and> pl_Background (Resolve_theme pow u w) = ''#121212''
      \<and> pl_Surface (Resolve_theme pow u w) = ''#181818'' \<and> pl_SurfaceRaise (Resolve_theme pow u w) = ''#1f1f1f''
      \<and> pl_SurfaceSunk (Resolve_theme pow u w) = ''#0e0e0e'' \<and> pl_Line (Resolve_theme pow u w) = ''rgba(148,148,158,.12)''
      \<and> pl_LineStrong (Resolve_theme pow u w) = ''rgba(148,148,158,.20)'' \<and> pl_Text (Resolve_theme pow u w) = ''#fafafa''
      \<and> pl_Muted (Resolve_theme pow u w) = ''#9b9ba4'' \<and> pl_Success (Resolve_theme pow u w) = ''#22c55e''
      \<and> pl_Warning (Resolve_theme pow u w) = ''#eab308'' \<and> pl_Danger (Resolve_theme pow u w) = ''#ef4444''" for u w
    by (simp add: Resolve_theme_def build_palette_def Let_def split: option.split)
  have "skel (Resolve_theme pow u w) = skel (Resolve_theme pow [] [])"
    unfolding skel_def css_pairs_def
    by (simp only: list.map prod.case filter_append rest [of u w] rest [of "[]" "[]"]
        Resolve_theme_fields(2-6) [THEN colour_plain])
  then have "?plain (CSS (Resolve_theme pow u w)) = ?plain (CSS (Resolve_theme pow [] []))"
    unfolding css by simp
  with Resolve_theme_fields(1,2) [of pow u w] show ?thesis by simp
qed

end
