(* ===== verification/App_Store.thy ===== *)
theory App_Store
  imports App_Catalog Database
begin

text \<open>
  The app store of the controller, \<^verbatim>\<open>internal/appstore/manager.go\<close>: synchronizing the
  catalogue, the views of its apps, installation, rollback and activation, over a file system whose
  every operation may fail and a network that may answer anything. The approval of a manifest by the
  worker is an argument, as it is in the code; so are the JSON encodings of the state files, the
  resolution of URL references, and the clock. A decoder of a state file yields what it filled in and
  the unread rest, or no rest when it failed.
\<close>

record store_config =
  mc_RootDirectory :: "string list"
  mc_InstalledAppsDirectory :: "string list"
  mc_IndexURL :: string
  mc_ControllerVersion :: string
  mc_ReservedIDs :: "string list"
  mc_Platform :: string

record SyncStatus =
  sy_IndexURL :: string
  sy_ETag :: string
  sy_SyncedAt :: time
  sy_Error :: string

record InstalledRecord =
  in_ID :: string
  in_CurrentVersion :: string
  in_PreviousVersion :: string
  in_UpdatedAt :: time

type_synonym StoreState = "(string \<times> InstalledRecord) list"

record AppView =
  av_Entry :: IndexEntry
  av_Installed :: bool
  av_CurrentVersion :: string
  av_PreviousVersion :: string
  av_UpdateAvailable :: bool
  av_Compatible :: bool
  av_CompatibilityNote :: string

record http_answer =
  ha_Status :: int
  ha_ETag :: string
  ha_Body :: string

text \<open>
  \<open>sw_http\<close> gets the step, the URL and the \<^verbatim>\<open>If-None-Match\<close> header; \<open>None\<close> is a
  failed request. \<open>sw_approve\<close> gets the step, the files, the manifest and its path.
\<close>

record store_world =
  sw_catalog :: catalog_world
  sw_disk :: disk_world
  sw_http :: "nat \<Rightarrow> string \<Rightarrow> string \<Rightarrow> http_answer option"
  sw_approve :: "nat \<Rightarrow> node \<Rightarrow> Manifest \<Rightarrow> string list \<Rightarrow> string check"
  sw_reference :: "URL \<Rightarrow> string \<Rightarrow> URL option"
  sw_url_text :: "URL \<Rightarrow> string"
  sw_state :: "string \<Rightarrow> StoreState \<times> string option"
  sw_marshal_state :: "StoreState \<Rightarrow> string"
  sw_status :: "string \<Rightarrow> SyncStatus \<times> string option"
  sw_marshal_status :: "SyncStatus \<Rightarrow> string"
  sw_now :: "nat \<Rightarrow> time"

datatype store_error =
    Catalog catalog_error
  | DirectoriesRequired
  | BadIndexURL
  | IndexURLNotHTTPS
  | CannotCreateDirectory
  | StateNotWritten
  | FetchFailed
  | NotModifiedWithoutIndex
  | StoreReturned int
  | NotSynchronized
  | DownloadLimit
  | DownloadTooLarge
  | SizeDiffers
  | HashDiffers
  | NotInCatalogue
  | CoreApp
  | RequiresController string
  | NotPublishedFor string
  | EscapedOrigin
  | BadURL
  | MetadataDiffers
  | PayloadMetadata
  | FileSystem
  | UnsafeRecord string
  | BundleInPayload
  | PayloadDiffers
  | ManifestInvalid
  | NotApproved string
  | VersionConflict
  | NoPreviousVersion
  | PreviousInvalid
  | StateUnreadable
  | RedirectEscaped
  | TooManyRedirects

type_synonym 'a task = "disk \<Rightarrow> (store_error, 'a) result \<times> disk"

subsection \<open>Sequencing\<close>

text \<open>\<^verbatim>\<open>x, err := m(); if err != nil { return err }\<close> and what follows.\<close>

definition attempt :: "'a task \<Rightarrow> ('a \<Rightarrow> 'b task) \<Rightarrow> 'b task" where
  "attempt m k d = (case m d of (Inl e, d') \<Rightarrow> (Inl e, d') | (Inr x, d') \<Rightarrow> k x d')"

definition need :: "store_error \<Rightarrow> (disk \<Rightarrow> bool \<times> disk) \<Rightarrow> unit task" where
  "need e op d = (case op d of (ok, d') \<Rightarrow> (if ok then Inr () else Inl e, d'))"

definition test :: "store_error check \<Rightarrow> unit task" where
  "test c d = (case c of Some e \<Rightarrow> (Inl e, d) | None \<Rightarrow> (Inr (), d))"

definition catalog :: "(disk \<Rightarrow> (catalog_error, 'a) result \<times> disk) \<Rightarrow> 'a task" where
  "catalog m d = (case m d of (Inl e, d') \<Rightarrow> (Inl (Catalog e), d') | (Inr x, d') \<Rightarrow> (Inr x, d'))"

definition pure_result :: "(store_error, 'a) result \<Rightarrow> 'a task" where
  "pure_result r d = (r, d)"

subsection \<open>Checks\<close>

definition findEntry :: "Index \<Rightarrow> string \<Rightarrow> IndexEntry option" where
  "findEntry index i = find (\<lambda>entry. ie_ID entry = i) (ix_Apps index)"

definition validateDownloadRecord :: "FileRecord \<Rightarrow> store_error check" where
  "validateDownloadRecord record =
     (let clean = Clean (fr_Path record) in
      if fr_Path record = [] \<or> clean = ''.'' \<or> clean = ''..'' \<or> HasPrefix clean ''../'' \<or>
         HasPrefix (fr_Path record) ''/'' \<or> CHR 0x5C \<in> set (fr_Path record) \<or>
         \<not> hash64 (fr_SHA256 record) \<or> fr_SizeBytes record < 0 \<or> fr_SizeBytes record > maxFileBytes
      then Some (UnsafeRecord (fr_Path record))
      else if clean = ''bundle.json'' then Some BundleInPayload else None)"

definition resolveStorePath :: "store_world \<Rightarrow> string \<Rightarrow> string \<Rightarrow> (store_error, string) result" where
  "resolveStorePath W base relative =
     (case cw_url (sw_catalog W) base of
        None \<Rightarrow> Inl BadURL
      | Some baseURL \<Rightarrow>
          (case sw_reference W baseURL relative of
             None \<Rightarrow> Inl BadURL
           | Some target \<Rightarrow>
               if url_Scheme target \<noteq> url_Scheme baseURL \<or> url_Host target \<noteq> url_Host baseURL \<or>
                  url_User target \<or> url_Fragment target \<noteq> []
               then Inl EscapedOrigin else Inr (sw_url_text W target)))"

text \<open>\<^verbatim>\<open>URL.Hostname\<close>: the host without port and brackets.\<close>

definition Hostname :: "string \<Rightarrow> string" where
  "Hostname host =
     (case Cut host (CHR '':'') of
        (before, _, found) \<Rightarrow>
          if \<not> found then host
          else (case Cut host (CHR '']'') of
              (inside, _, bracket) \<Rightarrow> if bracket then TrimPrefix inside ''['' else before))"

definition validateSourceURL :: "catalog_world \<Rightarrow> string \<Rightarrow> store_error check" where
  "validateSourceURL C v =
     (case cw_url C v of
        None \<Rightarrow> Some BadIndexURL
      | Some u \<Rightarrow>
          if url_Host u = [] \<or> url_User u \<or> url_Fragment u \<noteq> [] then Some BadIndexURL
          else if url_Scheme u = ''https'' then None
          else (let host = Hostname (url_Host u) in
            if url_Scheme u = ''http'' \<and> (host = ''127.0.0.1'' \<or> host = ''::1'' \<or> host = ''localhost'')
            then None else Some IndexURLNotHTTPS))"

text \<open>The redirect policy of the store's HTTP client; \<open>via\<close> are the requests made already.\<close>

definition CheckRedirect :: "URL \<Rightarrow> URL list \<Rightarrow> store_error check" where
  "CheckRedirect req via =
     (if via = [] \<or> url_Scheme req \<noteq> url_Scheme (hd via) \<or> url_Host req \<noteq> url_Host (hd via)
      then Some RedirectEscaped
      else if length via \<ge> 10 then Some TooManyRedirects else None)"

definition readBounded :: "string \<Rightarrow> int \<Rightarrow> (store_error, string) result" where
  "readBounded body limit =
     (if limit < 1 then Inl DownloadLimit
      else (let data = take (nat (limit + 1)) body in
        if int (length data) > limit then Inl DownloadTooLarge else Inr data))"

text \<open>\<^verbatim>\<open>fmt.Sscanf(v, "%d.%d.%d", ...)\<close>: numbers not reached stay zero.\<close>

definition scan_int :: "string \<Rightarrow> (int \<times> string) option" where
  "scan_int s =
     (let s = dropWhile (\<lambda>c. c = CHR '' '' \<or> c = CHR 0x09) s;
          (sign, t) = (case s of [] \<Rightarrow> ([], s)
            | c # t \<Rightarrow> if c = CHR ''-'' \<or> c = CHR ''+'' then ([c], t) else ([], s));
          ds = takeWhile is_digit t
      in case ParseInt64 (sign @ ds) of None \<Rightarrow> None | Some i \<Rightarrow> Some (i, drop (length ds) t))"

primrec scan_ints :: "nat \<Rightarrow> string \<Rightarrow> int list" where
  "scan_ints 0 s = []"
| "scan_ints (Suc n) s =
     (case scan_int s of
        None \<Rightarrow> replicate (Suc n) 0
      | Some (i, rest) \<Rightarrow>
          i # (case rest of
             c # t \<Rightarrow> if c = CHR ''.'' then scan_ints n t else replicate n 0
           | [] \<Rightarrow> replicate n 0))"

primrec compare_ints :: "int list \<Rightarrow> int list \<Rightarrow> int" where
  "compare_ints [] bs = 0"
| "compare_ints (a # as) bs =
     (case bs of
        [] \<Rightarrow> 0
      | b # bs \<Rightarrow> if a < b then - 1 else if a > b then 1 else compare_ints as bs)"

definition compareVersions :: "string \<Rightarrow> string \<Rightarrow> int" where
  "compareVersions left right =
     compare_ints (scan_ints 3 (TrimPrefix left ''v'')) (scan_ints 3 (TrimPrefix right ''v''))"

subsection \<open>Files of the store\<close>

text \<open>\<^verbatim>\<open>atomicWrite\<close>: a temporary file beside the target, renamed onto it, removed in the end.\<close>

definition atomicWrite :: "disk_world \<Rightarrow> string list \<Rightarrow> string \<Rightarrow> disk \<Rightarrow> bool \<times> disk" where
  "atomicWrite W file data d =
     (let temporary = butlast file @ [''.write-'' @ dw_temp W (dk_steps d)] in
      if at_path (dk_tree d) temporary \<noteq> None then (False, step d)
      else case set_op W temporary (Some (File [])) d of
        (False, d) \<Rightarrow> (False, d)
      | (True, d) \<Rightarrow>
          (case set_op W temporary (Some (File data)) d of
             (False, d) \<Rightarrow> (False, snd (os_Remove W temporary d))
           | (True, d) \<Rightarrow>
               (case os_Rename W temporary file d of
                  (outcome, d) \<Rightarrow> (outcome = Renamed, snd (os_Remove W temporary d)))))"

definition statePath :: "store_config \<Rightarrow> string list" where
  "statePath cfg = mc_RootDirectory cfg @ [''state.json'']"
definition indexPath :: "store_config \<Rightarrow> string list" where
  "indexPath cfg = mc_RootDirectory cfg @ [''catalog'', ''index.json'']"
definition statusPath :: "store_config \<Rightarrow> string list" where
  "statusPath cfg = mc_RootDirectory cfg @ [''catalog'', ''status.json'']"

definition loadIndex :: "store_world \<Rightarrow> store_config \<Rightarrow> Index task" where
  "loadIndex W cfg d =
     (case os_ReadFile (sw_disk W) (indexPath cfg) d of
        (NotExist, d) \<Rightarrow> (Inl NotSynchronized, d)
      | (ReadError _, d) \<Rightarrow> (Inl FileSystem, d)
      | (Data data, d) \<Rightarrow>
          (case DecodeIndex (sw_catalog W) data of Inl e \<Rightarrow> Inl (Catalog e) | Inr x \<Rightarrow> Inr x, d))"

text \<open>
  \<^verbatim>\<open>readJSONFile\<close>: one value and nothing but white space after it. An error keeps what was
  filled in, since one caller uses it.
\<close>

datatype 'a json_outcome = J_Ok 'a | J_Missing | J_Error 'a

definition readJSONFile ::
  "disk_world \<Rightarrow> (string \<Rightarrow> 'a \<times> string option) \<Rightarrow> 'a \<Rightarrow> string list \<Rightarrow> disk \<Rightarrow> 'a json_outcome \<times> disk" where
  "readJSONFile W decode output file d =
     (case os_ReadFile W file d of
        (Data data, d) \<Rightarrow>
          (case decode data of
             (v, None) \<Rightarrow> (J_Error v, d)
           | (v, Some rest) \<Rightarrow> (if ensureJSONEnd rest then J_Ok v else J_Error v, d))
      | (NotExist, d) \<Rightarrow> (J_Missing, d)
      | (ReadError _, d) \<Rightarrow> (J_Error output, d))"

definition loadState :: "store_world \<Rightarrow> store_config \<Rightarrow> StoreState task" where
  "loadState W cfg d =
     (case readJSONFile (sw_disk W) (sw_state W) [] (statePath cfg) d of
        (J_Ok s, d) \<Rightarrow> (Inr s, d) | (_, d) \<Rightarrow> (Inl StateUnreadable, d))"

definition writeState :: "store_world \<Rightarrow> store_config \<Rightarrow> StoreState \<Rightarrow> disk \<Rightarrow> bool \<times> disk" where
  "writeState W cfg state d =
     atomicWrite (sw_disk W) (statePath cfg) (sw_marshal_state W state @ [CHR 0x0A]) d"

definition no_status :: SyncStatus where
  "no_status = \<lparr>sy_IndexURL = [], sy_ETag = [], sy_SyncedAt = zero_time, sy_Error = []\<rparr>"

definition loadSyncStatus :: "store_world \<Rightarrow> store_config \<Rightarrow> disk \<Rightarrow> SyncStatus \<times> disk" where
  "loadSyncStatus W cfg d =
     (case readJSONFile (sw_disk W) (sw_status W) no_status (statusPath cfg) d of
        (J_Ok s, d) \<Rightarrow> (s, d)
      | (J_Missing, d) \<Rightarrow> (no_status\<lparr>sy_IndexURL := mc_IndexURL cfg\<rparr>, d)
      | (J_Error s, d) \<Rightarrow> (s, d))"

definition writeSyncStatus :: "store_world \<Rightarrow> store_config \<Rightarrow> SyncStatus \<Rightarrow> disk \<Rightarrow> bool \<times> disk" where
  "writeSyncStatus W cfg status d =
     atomicWrite (sw_disk W) (statusPath cfg) (sw_marshal_status W status @ [CHR 0x0A]) d"

definition recordSyncError ::
  "store_world \<Rightarrow> store_config \<Rightarrow> (store_error \<Rightarrow> string) \<Rightarrow> SyncStatus \<Rightarrow> store_error \<Rightarrow> disk \<Rightarrow> disk" where
  "recordSyncError W cfg text status e d =
     snd (writeSyncStatus W cfg (status\<lparr>sy_IndexURL := mc_IndexURL cfg, sy_Error := text e\<rparr>) d)"

subsection \<open>Construction and synchronization\<close>

primrec make_directories :: "disk_world \<Rightarrow> string list list \<Rightarrow> disk \<Rightarrow> bool \<times> disk" where
  "make_directories W [] d = (True, d)"
| "make_directories W (p # ps) d =
     (case os_MkdirAll W p d of (False, d) \<Rightarrow> (False, d) | (True, d) \<Rightarrow> make_directories W ps d)"

text \<open>\<^verbatim>\<open>NewManager\<close>; \<open>approvable\<close> says that an approval callback was given.\<close>

definition NewManager :: "store_world \<Rightarrow> bool \<Rightarrow> store_config \<Rightarrow> unit task" where
  "NewManager W approvable cfg =
     attempt (test (if mc_RootDirectory cfg = [] \<or> mc_InstalledAppsDirectory cfg = []
       then Some DirectoriesRequired else None)) (\<lambda>_.
     attempt (test (validateSourceURL (sw_catalog W) (mc_IndexURL cfg))) (\<lambda>_.
     attempt (test (if approvable then None else Some DirectoriesRequired)) (\<lambda>_.
     attempt (need CannotCreateDirectory (make_directories (sw_disk W)
       [mc_RootDirectory cfg, mc_RootDirectory cfg @ [''catalog''], mc_RootDirectory cfg @ [''versions''],
        mc_InstalledAppsDirectory cfg])) (\<lambda>_ d.
       if stat_path (dk_tree d) (statePath cfg) = None
       then need StateNotWritten (writeState W cfg []) d else (Inr (), d)))))"

definition Sync :: "store_world \<Rightarrow> (store_error \<Rightarrow> string) \<Rightarrow> store_config \<Rightarrow> Index task" where
  "Sync W text cfg d =
     (case loadSyncStatus W cfg d of
        (status, d) \<Rightarrow>
          (let etag = (if sy_IndexURL status = mc_IndexURL cfg then sy_ETag status else []);
               refuse = (\<lambda>e d. (Inl e, recordSyncError W cfg text status e d))
           in case sw_http W (dk_steps d) (mc_IndexURL cfg) etag of
                None \<Rightarrow> refuse FetchFailed (step d)
              | Some response \<Rightarrow>
                  if ha_Status response = 304 then
                    (case loadIndex W cfg (step d) of
                       (Inl _, d) \<Rightarrow> (Inl NotModifiedWithoutIndex, d)
                     | (Inr index, d) \<Rightarrow>
                         (Inr index, snd (writeSyncStatus W cfg
                            (status\<lparr>sy_SyncedAt := sw_now W (dk_steps d), sy_Error := []\<rparr>) d)))
                  else if ha_Status response \<noteq> 200
                  then refuse (StoreReturned (ha_Status response)) (step d)
                  else (case readBounded (ha_Body response) (1024 * 1024) of
                      Inl e \<Rightarrow> refuse e (step d)
                    | Inr data \<Rightarrow>
                        (case DecodeIndex (sw_catalog W) data of
                           Inl e \<Rightarrow> refuse (Catalog e) (step d)
                         | Inr index \<Rightarrow>
                             (case atomicWrite (sw_disk W) (indexPath cfg) data (step d) of
                                (False, d) \<Rightarrow> (Inl FileSystem, d)
                              | (True, d) \<Rightarrow>
                                  (case writeSyncStatus W cfg
                                      \<lparr>sy_IndexURL = mc_IndexURL cfg, sy_ETag = ha_ETag response,
                                       sy_SyncedAt = sw_now W (dk_steps d), sy_Error = []\<rparr> d of
                                     (False, d) \<Rightarrow> (Inl FileSystem, d)
                                   | (True, d) \<Rightarrow> (Inr index, d)))))))"

subsection \<open>Views\<close>

definition compatible_version :: "store_config \<Rightarrow> IndexEntry \<Rightarrow> bool" where
  "compatible_version cfg entry =
     (\<not> (mc_ControllerVersion cfg \<noteq> [] \<and>
         compareVersions (mc_ControllerVersion cfg)
           (co_MinimumControllerVersion (ie_Compatibility entry)) < 0))"

definition compatible_platform :: "store_config \<Rightarrow> IndexEntry \<Rightarrow> bool" where
  "compatible_platform cfg entry =
     (\<not> (mc_Platform cfg \<noteq> [] \<and> mc_Platform cfg \<notin> set (co_Platforms (ie_Compatibility entry))))"

text \<open>\<^verbatim>\<open>manifests.Load\<close> of a package directory.\<close>

definition load_manifest :: "store_world \<Rightarrow> string list \<Rightarrow> disk \<Rightarrow> Entry option \<times> disk" where
  "load_manifest W dir d =
     (case os_ReadFile (sw_disk W) (dir @ [''app.yaml'']) d of
        (outcome, d') \<Rightarrow>
          (case Manifests.Load (scan_environment (sw_catalog W) (dk_tree d)) (path_string dir)
              (path_string (dir @ [''app.yaml''])) outcome of
             Inl _ \<Rightarrow> (None, d') | Inr entry \<Rightarrow> (Some entry, d')))"

definition view_of ::
  "store_world \<Rightarrow> store_config \<Rightarrow> StoreState \<Rightarrow> IndexEntry \<Rightarrow> disk \<Rightarrow> AppView \<times> disk" where
  "view_of W cfg state entry d =
     (let view = \<lparr>av_Entry = entry, av_Installed = False, av_CurrentVersion = [], av_PreviousVersion = [],
            av_UpdateAvailable = False, av_Compatible = True, av_CompatibilityNote = []\<rparr>;
          (view, d) = (case map_of state (ie_ID entry) of
             Some installed \<Rightarrow>
               (view\<lparr>av_Installed := True, av_CurrentVersion := in_CurrentVersion installed,
                  av_PreviousVersion := in_PreviousVersion installed,
                  av_UpdateAvailable := compareVersions (ie_Version entry) (in_CurrentVersion installed) > 0\<rparr>, d)
           | None \<Rightarrow>
               (case load_manifest W (sub_path (mc_InstalledAppsDirectory cfg) (ie_ID entry)) d of
                  (Some e, d) \<Rightarrow>
                    (if m_ID (e_Manifest e) = ie_ID entry then
                       view\<lparr>av_Installed := True, av_CurrentVersion := m_Version (e_Manifest e),
                         av_UpdateAvailable := compareVersions (ie_Version entry) (m_Version (e_Manifest e)) > 0\<rparr>
                     else view, d)
                | (None, d) \<Rightarrow> (view, d)));
          view = (if \<not> compatible_version cfg entry then
              view\<lparr>av_Compatible := False, av_CompatibilityNote := ''Requires controller '' @
                co_MinimumControllerVersion (ie_Compatibility entry) @ '' or newer''\<rparr> else view);
          view = (if \<not> compatible_platform cfg entry then
              view\<lparr>av_Compatible := False, av_CompatibilityNote := ''Not published for '' @ mc_Platform cfg\<rparr>
            else view)
      in (view, d))"

primrec views_of ::
  "store_world \<Rightarrow> store_config \<Rightarrow> StoreState \<Rightarrow> IndexEntry list \<Rightarrow> disk \<Rightarrow> AppView list \<times> disk" where
  "views_of W cfg state [] d = ([], d)"
| "views_of W cfg state (entry # entries) d =
     (case view_of W cfg state entry d of
        (view, d) \<Rightarrow> (case views_of W cfg state entries d of (views, d) \<Rightarrow> (view # views, d)))"

definition Views :: "store_world \<Rightarrow> store_config \<Rightarrow> disk \<Rightarrow> (store_error, AppView list) result \<times> SyncStatus \<times> disk" where
  "Views W cfg d =
     (case loadIndex W cfg d of
        (r, d) \<Rightarrow>
          (case loadSyncStatus W cfg d of
             (status, d) \<Rightarrow>
               (case r of
                  Inl e \<Rightarrow> (Inl e, status, d)
                | Inr index \<Rightarrow>
                    (case loadState W cfg d of
                       (Inl e, d) \<Rightarrow> (Inl e, status, d)
                     | (Inr state, d) \<Rightarrow>
                         (case views_of W cfg state (ix_Apps index) d of
                            (views, d) \<Rightarrow> (Inr views, status, d))))))"

subsection \<open>Downloads\<close>

definition fetchVerified :: "store_world \<Rightarrow> string \<Rightarrow> FileRecord \<Rightarrow> string task" where
  "fetchVerified W location record d =
     (case sw_http W (dk_steps d) location [] of
        None \<Rightarrow> (Inl FetchFailed, step d)
      | Some response \<Rightarrow>
          (if ha_Status response \<noteq> 200 then Inl (StoreReturned (ha_Status response))
           else case readBounded (ha_Body response) (fr_SizeBytes record) of
             Inl e \<Rightarrow> Inl e
           | Inr data \<Rightarrow>
               if int (length data) \<noteq> fr_SizeBytes record then Inl SizeDiffers
               else if hex_encode (Sum256 data) \<noteq> fr_SHA256 record then Inl HashDiffers
               else Inr data, step d))"

text \<open>\<^verbatim>\<open>path.Dir\<close>: what stands before the last slash, cleaned.\<close>

definition Dir_of :: "string \<Rightarrow> string" where
  "Dir_of p = Clean (rev (dropWhile (\<lambda>c. c \<noteq> CHR ''/'') (rev p)))"

primrec download_files :: "store_world \<Rightarrow> string \<Rightarrow> string list \<Rightarrow> FileRecord list \<Rightarrow> unit task" where
  "download_files W base dir [] = pure_result (Inr ())"
| "download_files W base dir (file # files) =
     attempt (test (validateDownloadRecord file)) (\<lambda>_.
     attempt (pure_result (resolveStorePath W base (fr_Path file))) (\<lambda>fileURL.
     attempt (fetchVerified W fileURL file) (\<lambda>data.
       let target = sub_path dir (fr_Path file) in
     attempt (need FileSystem (os_MkdirAll (sw_disk W) (butlast target))) (\<lambda>_.
     attempt (need FileSystem (os_WriteFile (sw_disk W) target data)) (\<lambda>_.
       download_files W base dir files)))))"

subsection \<open>Activation\<close>

definition activate :: "store_world \<Rightarrow> store_config \<Rightarrow> string \<Rightarrow> string list \<Rightarrow> unit task" where
  "activate W cfg i source d =
     (case os_MkdirTemp (sw_disk W) (mc_InstalledAppsDirectory cfg) (''.activate-'' @ i @ ''-'') d of
        (None, d) \<Rightarrow> (Inl FileSystem, d)
      | (Some incoming, d) \<Rightarrow>
          (let d = snd (os_Remove (sw_disk W) incoming d);
               active = sub_path (mc_InstalledAppsDirectory cfg) i;
               previous = sub_path (mc_InstalledAppsDirectory cfg) (''.previous-'' @ i);
               finish = (\<lambda>ok d. (if ok then Inr () else Inl FileSystem, snd (os_RemoveAll (sw_disk W) incoming d)))
           in case copyDirectory (sw_disk W) source incoming d of
                (False, d) \<Rightarrow> finish False d
              | (True, d) \<Rightarrow>
                  (let d = snd (os_RemoveAll (sw_disk W) previous d) in
                   case os_Rename (sw_disk W) active previous d of
                     (NotRenamed, d) \<Rightarrow> finish False d
                   | (_, d) \<Rightarrow>
                       (case os_Rename (sw_disk W) incoming active d of
                          (Renamed, d) \<Rightarrow>
                            (case os_RemoveAll (sw_disk W) previous d of (ok, d) \<Rightarrow> finish ok d)
                        | (_, d) \<Rightarrow> finish False (snd (os_Rename (sw_disk W) previous active d))))))"

subsection \<open>Installation\<close>

text \<open>The checks on the catalogue entry, the bundle and its metadata, before anything is written.\<close>

definition check_entry :: "store_config \<Rightarrow> IndexEntry \<Rightarrow> store_error check" where
  "check_entry cfg entry =
     (if ie_ID entry \<in> set (mc_ReservedIDs cfg) then Some CoreApp
      else if \<not> compatible_version cfg entry
      then Some (RequiresController (co_MinimumControllerVersion (ie_Compatibility entry)))
      else if \<not> compatible_platform cfg entry then Some (NotPublishedFor (mc_Platform cfg))
      else None)"

definition check_metadata :: "IndexEntry \<Rightarrow> Bundle \<Rightarrow> store_error check" where
  "check_metadata entry bundle =
     (if bu_ID bundle \<noteq> ie_ID entry \<or> bu_Name bundle \<noteq> ie_Name entry \<or>
         bu_Version bundle \<noteq> ie_Version entry \<or> bu_Icon bundle \<noteq> Base (ie_Icon entry)
      then Some MetadataDiffers
      else if length (pk_Files (bu_Package bundle)) = 0 \<or> length (pk_Files (bu_Package bundle)) > 128 \<or>
              \<not> hash64 (pk_PayloadSHA256 (bu_Package bundle)) \<or>
              pk_PayloadSizeBytes (bu_Package bundle) < 1 \<or>
              pk_PayloadSizeBytes (bu_Package bundle) > maxPayloadBytes
      then Some PayloadMetadata else None)"

definition fetch_bundle :: "store_world \<Rightarrow> store_config \<Rightarrow> string \<Rightarrow> (IndexEntry \<times> string \<times> Bundle) task" where
  "fetch_bundle W cfg i =
     attempt (loadIndex W cfg) (\<lambda>index.
     attempt (pure_result (case findEntry index i of None \<Rightarrow> Inl NotInCatalogue | Some e \<Rightarrow> Inr e)) (\<lambda>entry.
     attempt (test (check_entry cfg entry)) (\<lambda>_.
     attempt (pure_result (resolveStorePath W (mc_IndexURL cfg) (fr_Path (ie_Bundle entry)))) (\<lambda>bundleURL.
     attempt (fetchVerified W bundleURL (ie_Bundle entry)) (\<lambda>bundleData.
     attempt (catalog (\<lambda>d. (DecodeBundle (sw_catalog W) bundleData, d))) (\<lambda>bundle.
     attempt (test (check_metadata entry bundle)) (\<lambda>_.
       pure_result (Inr (entry, bundleURL, bundle)))))))))"

text \<open>
  Downloading into the incoming directory, checking what arrived and having it approved; the result is
  the inspected payload.
\<close>

definition scan_package :: "store_world \<Rightarrow> string list \<Rightarrow> string \<Rightarrow> Manifest task" where
  "scan_package W appsRoot i d =
     (if failing (sw_disk W) d then (Inl FileSystem, step d)
      else case scan_tree (sw_catalog W) appsRoot (dk_tree d) of
        None \<Rightarrow> (Inl FileSystem, step d)
      | Some registry \<Rightarrow>
          (case Get registry i of None \<Rightarrow> Inl ManifestInvalid | Some m \<Rightarrow> Inr m, step d))"

definition approve_manifest :: "store_world \<Rightarrow> Manifest \<Rightarrow> string list \<Rightarrow> unit task" where
  "approve_manifest W m path d =
     (case sw_approve W (dk_steps d) (dk_tree d) m path of
        Some e \<Rightarrow> (Inl (NotApproved e), step d) | None \<Rightarrow> (Inr (), step d))"

definition bundle_base :: "store_world \<Rightarrow> string \<Rightarrow> (store_error, string) result" where
  "bundle_base W bundleURL =
     (case cw_url (sw_catalog W) bundleURL of
        None \<Rightarrow> Inl BadURL
      | Some u \<Rightarrow>
          Inr (sw_url_text W (u\<lparr>url_Path := Dir_of (url_Path u) @ ''/'', url_RawQuery := [], url_Fragment := []\<rparr>)))"

definition receive_package ::
  "store_world \<Rightarrow> string list \<Rightarrow> string \<Rightarrow> string \<Rightarrow> Bundle \<Rightarrow> Package task" where
  "receive_package W incoming i bundleURL bundle =
     (let appsRoot = incoming @ [''apps'']; packageDirectory = sub_path appsRoot i in
      attempt (need FileSystem (os_MkdirAll (sw_disk W) packageDirectory)) (\<lambda>_.
      attempt (pure_result (bundle_base W bundleURL)) (\<lambda>base.
      attempt (download_files W base packageDirectory (pk_Files (bu_Package bundle))) (\<lambda>_.
      attempt (catalog (inspectPayload (sw_disk W) packageDirectory)) (\<lambda>payload.
      attempt (test (if payload \<noteq> bu_Package bundle then Some PayloadDiffers else None)) (\<lambda>_.
      attempt (scan_package W appsRoot i) (\<lambda>manifest.
      attempt (\<lambda>d. test (map_option Catalog
          (validateBundle (sw_catalog W) (dk_tree d) bundle manifest i packageDirectory)) d) (\<lambda>_.
      attempt (approve_manifest W manifest (packageDirectory @ [''app.yaml''])) (\<lambda>_.
        pure_result (Inr payload))))))))))"

text \<open>Storing the version, or finding the same payload stored already.\<close>

definition store_version :: "store_world \<Rightarrow> string list \<Rightarrow> string list \<Rightarrow> Package \<Rightarrow> unit task" where
  "store_version W packageDirectory versionDirectory payload d =
     (if failing (sw_disk W) d then (Inl FileSystem, step d)
      else if stat_path (dk_tree d) versionDirectory = None then
        attempt (need FileSystem (os_MkdirAll (sw_disk W) (butlast versionDirectory)))
          (\<lambda>_. need FileSystem (copyDirectory (sw_disk W) packageDirectory versionDirectory)) (step d)
      else (case inspectPayload (sw_disk W) versionDirectory (step d) of
          (existing, d) \<Rightarrow> (if existing = Inr payload then Inr () else Inl VersionConflict, d)))"

definition install_record :: "store_world \<Rightarrow> string \<Rightarrow> string \<Rightarrow> StoreState \<Rightarrow> nat \<Rightarrow> InstalledRecord" where
  "install_record W i version state now =
     (let (cur, prev) = (case map_of state i of
            None \<Rightarrow> ([], []) | Some r \<Rightarrow> (in_CurrentVersion r, in_PreviousVersion r))
      in \<lparr>in_ID = i, in_CurrentVersion = version,
          in_PreviousVersion = (if cur \<noteq> [] \<and> cur \<noteq> version then cur else prev),
          in_UpdatedAt = sw_now W now\<rparr>)"

definition version_path :: "store_config \<Rightarrow> string \<Rightarrow> string \<Rightarrow> string list" where
  "version_path cfg i version = sub_path (sub_path (mc_RootDirectory cfg @ [''versions'']) i) version"

text \<open>Activating a version and recording it.\<close>

definition switch_to ::
  "store_world \<Rightarrow> store_config \<Rightarrow> string \<Rightarrow> string list \<Rightarrow> StoreState \<Rightarrow> InstalledRecord \<Rightarrow> InstalledRecord task" where
  "switch_to W cfg i versionDirectory state record =
     attempt (activate W cfg i versionDirectory) (\<lambda>_.
     attempt (need StateNotWritten (writeState W cfg (AList.update i record state))) (\<lambda>_.
       pure_result (Inr record)))"

definition install_package ::
  "store_world \<Rightarrow> store_config \<Rightarrow> string \<Rightarrow> string \<Rightarrow> Bundle \<Rightarrow> string list \<Rightarrow> InstalledRecord task" where
  "install_package W cfg i bundleURL bundle incoming =
     attempt (receive_package W incoming i bundleURL bundle) (\<lambda>payload.
       let versionDirectory = version_path cfg i (bu_Version bundle) in
     attempt (store_version W (sub_path (incoming @ [''apps'']) i) versionDirectory payload) (\<lambda>_.
     attempt (loadState W cfg) (\<lambda>state d.
       switch_to W cfg i versionDirectory state
         (install_record W i (bu_Version bundle) state (dk_steps d)) d)))"

definition Install :: "store_world \<Rightarrow> store_config \<Rightarrow> string \<Rightarrow> InstalledRecord task" where
  "Install W cfg i =
     attempt (fetch_bundle W cfg i) (\<lambda>(entry, bundleURL, bundle) d.
       case os_MkdirTemp (sw_disk W) (mc_RootDirectory cfg) ''.incoming-'' d of
         (None, d) \<Rightarrow> (Inl FileSystem, d)
       | (Some incoming, d) \<Rightarrow>
           (case install_package W cfg i bundleURL bundle incoming d of
              (r, d) \<Rightarrow> (r, snd (os_RemoveAll (sw_disk W) incoming d))))"

subsection \<open>Rollback\<close>

definition Rollback :: "store_world \<Rightarrow> store_config \<Rightarrow> string \<Rightarrow> InstalledRecord task" where
  "Rollback W cfg i =
     attempt (loadState W cfg) (\<lambda>state.
     attempt (pure_result (case map_of state i of
         None \<Rightarrow> Inl NoPreviousVersion
       | Some r \<Rightarrow> if in_PreviousVersion r = [] then Inl NoPreviousVersion else Inr r)) (\<lambda>current.
       let versionDirectory = version_path cfg i (in_PreviousVersion current) in
     attempt (\<lambda>d. case load_manifest W versionDirectory d of
         (Some entry, d) \<Rightarrow>
           (if m_ID (e_Manifest entry) = i then Inr (e_Manifest entry) else Inl PreviousInvalid, d)
       | (None, d) \<Rightarrow> (Inl PreviousInvalid, d)) (\<lambda>manifest.
     attempt (approve_manifest W manifest (versionDirectory @ [''app.yaml''])) (\<lambda>_ d.
       switch_to W cfg i versionDirectory state
         \<lparr>in_ID = i, in_CurrentVersion = in_PreviousVersion current,
          in_PreviousVersion = in_CurrentVersion current, in_UpdatedAt = sw_now W (dk_steps d)\<rparr> d))))"

end
