(* ===== verification/Web_Base.thy ===== *)
theory Web_Base
  imports Go_Http Controller_Config Controller Theme App_Store Docker_Streams
begin

text \<open>
  The ground of the controller's HTTP handlers, \<^verbatim>\<open>internal/httpapi/server.go\<close> and
  \<^verbatim>\<open>internal/proxy/hostname.go\<close>: the state they share, what they get from outside while
  they serve one request, what they answer, and the helpers they all use. A page is the name of its
  template with the data passed to it; how the template lays the data out is not modelled.

  Time is read once per request, in nanoseconds since 1970.
\<close>

subsection \<open>State and surroundings\<close>

record loginAttempt =
  at_Failures :: int
  at_Blocked :: "int option"
  at_LastSeen :: int

text \<open>
  \<open>wb_jobs\<close> are the goroutines started and not yet run, \<open>wb_backups\<close> the files the
  database was copied to.
\<close>

record web =
  wb_server :: server
  wb_logins :: "(string \<times> loginAttempt) list"
  wb_store :: store_config
  wb_disk :: disk
  wb_templates :: template_dir
  wb_jobs :: "goroutine list"
  wb_backups :: "string list"

abbreviation wb_db :: "web \<Rightarrow> db" where
  "wb_db s \<equiv> sv_db (wb_server s)"

definition set_db :: "db \<Rightarrow> web \<Rightarrow> web" where
  "set_db d s = s\<lparr>wb_server := (wb_server s)\<lparr>sv_db := d\<rparr>\<rparr>"

record shareInput =
  si_Permissions :: "string list"
  si_ExpiresHours :: int
  si_MaxUses :: int
  si_NamedRecipient :: string

record userInput =
  ui_Username :: string
  ui_Password :: string
  ui_ConfirmPassword :: string
  ui_IsAdmin :: bool
  ui_AllowedEgress :: "string list option"

text \<open>
  What Go's JSON decoder with unknown fields disallowed makes of a body, for the types the program
  decodes into: the value and the unread rest.
\<close>

record json_decoders =
  js_create :: "string \<Rightarrow> (createInput \<times> string) option"
  js_share :: "string \<Rightarrow> (shareInput \<times> string) option"
  js_profile :: "string \<Rightarrow> (vpnProfileInput \<times> string) option"
  js_enabled :: "string \<Rightarrow> (bool \<times> string) option"
  js_user :: "string \<Rightarrow> (userInput \<times> string) option"
  js_egress :: "string \<Rightarrow> (string list \<times> string) option"
  js_path :: "string \<Rightarrow> (string \<times> string) option"
  js_accent :: "string \<Rightarrow> (string \<times> string) option"

record web_env =
  en_config :: Controller_settings
  en_world :: world
  en_now :: int
  en_salt :: "string option"
  en_token :: "string option"
  en_id :: string
  en_url :: "string \<Rightarrow> URL option"
  en_fold :: "string \<Rightarrow> string"
  en_pow :: "rat \<Rightarrow> rat \<Rightarrow> rat"
  en_ParseFloat :: "string \<Rightarrow> float64 option"
  en_json :: json_decoders
  en_Health :: "string option"
  en_Usage :: "string \<Rightarrow> (string, ResourceUsage list) result"
  en_Egress :: "string \<Rightarrow> (string, EgressStatus) result"
  en_Logs :: "string \<Rightarrow> string \<Rightarrow> int \<Rightarrow> (string, string) result"
  en_ApproveApp :: "nat \<Rightarrow> AppSpec \<Rightarrow> string option"
  en_store :: store_world
  en_store_text :: "store_error \<Rightarrow> string"
  en_template_decode :: "string \<Rightarrow> (string, Template) result"
  en_template_encode :: "Template \<Rightarrow> string"
  en_template_fails :: bool
  en_integrity :: "string option"
  en_backup :: "string \<Rightarrow> string option"
  en_date :: string

definition time_of :: "int \<Rightarrow> time" where
  "time_of n = Time (n div second) (nat (n mod second))"

definition ns_of :: "time \<Rightarrow> int" where
  "ns_of t = unix_sec t * second + int (unix_nano t)"

abbreviation en_time :: "web_env \<Rightarrow> time" where
  "en_time E \<equiv> time_of (en_now E)"

text \<open>\<^verbatim>\<open>int(d.Seconds())\<close> of a duration.\<close>

definition Seconds :: "int \<Rightarrow> rat" where
  "Seconds d =
     (let sec = (if d < 0 then - ((- d) div second) else d div second); nsec = d - sec * second in
      round_float (of_int sec + round_float (of_int nsec / of_int second)))"

definition whole_seconds :: "int \<Rightarrow> int" where
  "whole_seconds d = (let x = Seconds d in if x < 0 then - \<lfloor>- x\<rfloor> else \<lfloor>x\<rfloor>)"

subsection \<open>Answers\<close>

abbreviation en_dash :: string where
  "en_dash \<equiv> [CHR 0xE2, CHR 0x80, CHR 0x93]"

datatype web_error =
    Message string
  | FromApi api_error
  | FromPassword auth_error
  | FromDatabase db_error
  | FromSharing share_error
  | FromEgress egress_error
  | FromTemplates template_error
  | FromScan scan_error
  | FromStore store_error
  | FromWorker string
  | SyncFailed string

record egressChoice =
  ec_Value :: string
  ec_Label :: string
  ec_Description :: string
  ec_RequiresProfile :: bool

definition egress_choice :: "Mode \<Rightarrow> egressChoice" where
  "egress_choice mode = \<lparr>ec_Value = mode, ec_Label = Label mode, ec_Description = Description mode,
     ec_RequiresProfile = RequiresVPNProfile mode\<rparr>"

definition grantableChoices :: "egressChoice list" where
  "grantableChoices = map egress_choice Grantable"

definition egressChoices :: "egressChoice list" where
  "egressChoices = map egress_choice All"

record pageData =
  pd_Title :: string
  pd_User :: "User option"
  pd_Error :: "web_error option"
  pd_Notice :: string
  pd_Next :: string
  pd_Workstations :: "Workstation list"
  pd_Workstation :: "Workstation option"
  pd_Templates :: "Template list"
  pd_Apps :: "Entry list"
  pd_LauncherApps :: "launcherApp list"
  pd_Events :: "Event list"
  pd_AppBase :: string
  pd_Shares :: "Share list"
  pd_ShareURL :: string
  pd_Shared :: bool
  pd_SharePermissions :: "Permission list"
  pd_Usage :: "ResourceUsage list"
  pd_VPNProfiles :: "VPNProfile list"
  pd_Users :: "User list"
  pd_StoreApps :: "AppView list"
  pd_StoreStatus :: SyncStatus
  pd_EgressModes :: "egressChoice list"
  pd_Egress :: "EgressStatus option"
  pd_EgressLabel :: string
  pd_DefaultWorkspaceImage :: string
  pd_Theme :: "Palette option"
  pd_Presets :: "Preset list"

definition no_page :: pageData where
  "no_page = \<lparr>pd_Title = [], pd_User = None, pd_Error = None, pd_Notice = [], pd_Next = [],
     pd_Workstations = [], pd_Workstation = None, pd_Templates = [], pd_Apps = [],
     pd_LauncherApps = [], pd_Events = [], pd_AppBase = [], pd_Shares = [], pd_ShareURL = [],
     pd_Shared = False, pd_SharePermissions = [], pd_Usage = [], pd_VPNProfiles = [], pd_Users = [],
     pd_StoreApps = [], pd_StoreStatus = no_status, pd_EgressModes = [], pd_Egress = None,
     pd_EgressLabel = [], pd_DefaultWorkspaceImage = [], pd_Theme = None, pd_Presets = []\<rparr>"

datatype json =
    JError web_error
  | JErrorSync web_error SyncStatus
  | JUnready string web_error
  | JStatus string
  | JHealth string string string
  | JWorkstations "Workstation list"
  | JWorkstation Workstation
  | JUsage string "ResourceUsage list"
  | JEgress EgressStatus
  | JLogs string string int string
  | JShares "Share list"
  | JShare Share string
  | JEntries "Entry list"
  | JStore SyncStatus "AppView list"
  | JIndex Index
  | JInstalled InstalledRecord
  | JTemplates "Template list"
  | JProfiles "VPNProfile list"
  | JProfile VPNProfile
  | JEnabled int bool
  | JUsers "User list"
  | JUser User
  | JUserEgress int string
  | JBackup string
  | JTheme Palette
  | JThemes Palette "Preset list" string

text \<open>
  \<open>Forwarded\<close> hands the request to the host with the path prefix that its answer gets back;
  \<open>Redirected\<close> carries the \<^verbatim>\<open>Location\<close>.
\<close>

datatype web_body =
    Text string
  | Page string pageData
  | Json json
  | Redirected string
  | Css string
  | Asset string
  | Forwarded string http_request string

record web_reply =
  rp_Status :: int
  rp_Headers :: headers
  rp_Cookies :: "cookie list"
  rp_Body :: web_body

type_synonym handler = "web_env \<Rightarrow> web_request \<Rightarrow> web \<Rightarrow> web_reply \<times> web"

definition answer :: "int \<Rightarrow> web_body \<Rightarrow> web_reply" where
  "answer code body = \<lparr>rp_Status = code, rp_Headers = [], rp_Cookies = [], rp_Body = body\<rparr>"

definition http_Error :: "string \<Rightarrow> int \<Rightarrow> web_reply" where
  "http_Error message code = answer code (Text message)"

definition NotFound :: web_reply where
  "NotFound = http_Error ''404 page not found'' 404"

definition writeJSON :: "int \<Rightarrow> json \<Rightarrow> web_reply" where
  "writeJSON code v = (answer code (Json v))\<lparr>rp_Headers := [(''Content-Type'', ''application/json'')]\<rparr>"

definition json_error :: "int \<Rightarrow> web_error \<Rightarrow> web_reply" where
  "json_error code e = writeJSON code (JError e)"

definition renderStatus :: "string \<Rightarrow> int \<Rightarrow> pageData \<Rightarrow> web_reply" where
  "renderStatus template code data =
     (answer code (Page template data))\<lparr>rp_Headers := [(''Content-Type'', ''text/html; charset=utf-8'')]\<rparr>"

definition render :: "string \<Rightarrow> pageData \<Rightarrow> web_reply" where
  "render template data = renderStatus template 200 data"

definition StatusText :: "int \<Rightarrow> string" where
  "StatusText n =
     (if n = 400 then ''Bad Request'' else if n = 401 then ''Unauthorized'' else if n = 403 then ''Forbidden''
      else if n = 404 then ''Not Found'' else if n = 422 then ''Unprocessable Entity''
      else if n = 500 then ''Internal Server Error'' else if n = 502 then ''Bad Gateway''
      else [])"

definition renderError :: "User option \<Rightarrow> int \<Rightarrow> web_error \<Rightarrow> web_reply" where
  "renderError user code e =
     renderStatus ''error.html'' code (no_page\<lparr>pd_Title := StatusText code, pd_Error := Some e, pd_User := user\<rparr>)"

definition Redirect :: "web_env \<Rightarrow> web_request \<Rightarrow> string \<Rightarrow> int \<Rightarrow> web_reply" where
  "Redirect E r url code = answer code (Redirected (redirect_location (en_url E) (hr_Path r) url))"

definition with_cookie :: "cookie \<Rightarrow> web_reply \<Rightarrow> web_reply" where
  "with_cookie c q = q\<lparr>rp_Cookies := SetCookie c @ rp_Cookies q\<rparr>"

lemma reply_simps [simp]:
  "rp_Body (answer n b) = b" "rp_Cookies (answer n b) = []" "rp_Status (answer n b) = n"
  "rp_Body (http_Error m n) = Text m" "rp_Body (writeJSON n v) = Json v" "rp_Body (json_error n e) = Json (JError e)"
  "rp_Body (renderStatus t n p) = Page t p" "rp_Body (render t p) = Page t p"
  "rp_Body (Redirect E r u n) = Redirected (redirect_location (en_url E) (hr_Path r) u)"
  "rp_Body (with_cookie c q) = rp_Body q" "rp_Status (with_cookie c q) = rp_Status q"
  "rp_Cookies (with_cookie c q) = SetCookie c @ rp_Cookies q"
  "rp_Cookies (http_Error m n) = []" "rp_Cookies (writeJSON n v) = []" "rp_Cookies (json_error n e) = []"
  "rp_Cookies (renderStatus t n p) = []" "rp_Cookies (render t p) = []" "rp_Cookies (Redirect E r u n) = []"
  "rp_Status (http_Error m n) = n" "rp_Status (writeJSON n v) = n" "rp_Status (json_error n e) = n"
  "rp_Status (renderStatus t n p) = n" "rp_Status (render t p) = 200" "rp_Status (Redirect E r u n) = n"
  by (simp_all add: answer_def http_Error_def writeJSON_def json_error_def renderStatus_def render_def
      Redirect_def with_cookie_def)

lemma renderError_simps [simp]:
  "rp_Status (renderError u n e) = n" "rp_Cookies (renderError u n e) = []"
  by (simp_all add: renderError_def)

lemma set_db_simps [simp]:
  "wb_db (set_db d s) = d" "wb_logins (set_db d s) = wb_logins s" "wb_store (set_db d s) = wb_store s"
  "wb_disk (set_db d s) = wb_disk s" "wb_templates (set_db d s) = wb_templates s"
  "wb_jobs (set_db d s) = wb_jobs s" "wb_backups (set_db d s) = wb_backups s"
  "sv_apps (wb_server (set_db d s)) = sv_apps (wb_server s)"
  "sv_presets (wb_server (set_db d s)) = sv_presets (wb_server s)"
  "sv_files (wb_server (set_db d s)) = sv_files (wb_server s)"
  "sv_vpnStore (wb_server (set_db d s)) = sv_vpnStore (wb_server s)"
  "set_db d' (set_db d s) = set_db d' s"
  by (simp_all add: set_db_def)

lemma set_db_same [simp]: "set_db (wb_db s) s = s"
  by (simp add: set_db_def)

subsection \<open>The origin of a request\<close>

text \<open>\<^verbatim>\<open>strings.EqualFold\<close>; folding text that is not ASCII is an argument.\<close>

definition EqualFold :: "(string \<Rightarrow> string) \<Rightarrow> string \<Rightarrow> string \<Rightarrow> bool" where
  "EqualFold uni a b = (ToLower uni a = ToLower uni b)"

definition sameOrigin :: "web_env \<Rightarrow> web_request \<Rightarrow> bool" where
  "sameOrigin E r =
     (let origin = header_Get (hr_Headers r) ''Origin'';
          origin = (if origin = [] then header_Get (hr_Headers r) ''Referer'' else origin)
      in if origin = [] then True
         else (case en_url E origin of None \<Rightarrow> False
           | Some parsed \<Rightarrow> EqualFold (en_fold E) (url_Host parsed) (rq_Host r)))"

definition safe_method :: "web_request \<Rightarrow> bool" where
  "safe_method r = (hr_Method r = ''GET'' \<or> hr_Method r = ''HEAD'' \<or> hr_Method r = ''OPTIONS'')"

definition cross_origin :: web_reply where
  "cross_origin = http_Error ''cross-origin request rejected'' 403"

definition safeNext :: "string \<Rightarrow> string" where
  "safeNext v = (if v = [] \<or> \<not> HasPrefix v ''/'' \<or> HasPrefix v ''//'' then ''/'' else v)"

definition remoteIP :: "web_request \<Rightarrow> string" where
  "remoteIP r = (case SplitHostPort (rq_RemoteAddr r) of Some (host, _) \<Rightarrow> host | None \<Rightarrow> rq_RemoteAddr r)"

definition WorkstationHostname :: "(string \<Rightarrow> string) \<Rightarrow> string \<Rightarrow> string \<Rightarrow> string" where
  "WorkstationHostname uni hostport baseDomain =
     (let host = ToLower uni (case SplitHostPort hostport of Some (h, _) \<Rightarrow> h | None \<Rightarrow> hostport);
          baseDomain = ToLower uni (TrimSuffix baseDomain ''.'') in
      if baseDomain = [] then []
      else
        (let suffix = ''.'' @ baseDomain in
         if \<not> HasSuffix host suffix then []
         else (let l = TrimSuffix host suffix in if l = [] \<or> CHR ''.'' \<in> set l then [] else l)))"

definition workstationHostname :: "web_env \<Rightarrow> web_request \<Rightarrow> string" where
  "workstationHostname E r =
     WorkstationHostname (w_uni (en_world E)) (rq_Host r) (cc_PublicBaseDomain (en_config E))"

text \<open>A workstation's address is one label before the domain.\<close>

lemma WorkstationHostname_label:
  assumes "ToLower uni (TrimSuffix base ''.'') \<noteq> []" and "l \<noteq> []"
  shows "WorkstationHostname uni hostport base = l \<longleftrightarrow>
    CHR ''.'' \<notin> set l \<and>
    ToLower uni (case SplitHostPort hostport of Some (h, _) \<Rightarrow> h | None \<Rightarrow> hostport) =
      l @ ''.'' @ ToLower uni (TrimSuffix base ''.'')"
proof -
  define h where "h = ToLower uni (case SplitHostPort hostport of Some (h, _) \<Rightarrow> h | None \<Rightarrow> hostport)"
  define u where "u = ''.'' @ ToLower uni (TrimSuffix base ''.'')"
  have "WorkstationHostname uni hostport base =
      (if \<not> HasSuffix h u then [] else (let l = TrimSuffix h u in if l = [] \<or> CHR ''.'' \<in> set l then [] else l))"
    unfolding WorkstationHostname_def Let_def h_def u_def using assms(1) by simp
  moreover have "HasSuffix h u \<Longrightarrow> h = TrimSuffix h u @ u"
    by (metis HasSuffix_iff TrimSuffix_append)
  ultimately have "WorkstationHostname uni hostport base = l \<longleftrightarrow> CHR ''.'' \<notin> set l \<and> h = l @ u"
    using assms(2) TrimSuffix_append [of l u] by (auto simp: Let_def HasSuffix_iff)
  then show ?thesis by (simp add: h_def u_def)
qed

subsection \<open>Security headers and scanning\<close>

definition securityHeaders :: "web_request \<Rightarrow> headers" where
  "securityHeaders r =
     [(''X-Content-Type-Options'', ''nosniff''), (''X-Frame-Options'', ''SAMEORIGIN''),
      (''Referrer-Policy'', ''same-origin'')] @
     (if Contains (hr_Path r) ''/apps/'' then []
      else [(''Content-Security-Policy'',
        ''default-src 'self'; style-src 'self'; script-src 'self'; img-src 'self' data:; frame-src 'self'; connect-src 'self' ws: wss:'')])"

definition directory_items :: "node \<Rightarrow> string \<Rightarrow> string \<times> dir_item list option" where
  "directory_items t dir = (dir, app_items t (clean_parts dir))"

definition scan_templates_of :: "web_env \<Rightarrow> Registry \<Rightarrow> template_dir \<Rightarrow> (template_error, template_registry) result" where
  "scan_templates_of E apps dir = Scan_templates (en_template_decode E) (\<lambda>i. Get apps i \<noteq> None) dir"

definition rescan :: "web_env \<Rightarrow> web \<Rightarrow> web_error check \<times> web" where
  "rescan E s =
     (case ScanDirectories (scan_environment (sw_catalog (en_store E)) (dk_tree (wb_disk s)))
         [directory_items (dk_tree (wb_disk s)) (cc_AppsDirectory (en_config E)),
          directory_items (dk_tree (wb_disk s)) (cc_InstalledAppsDirectory (en_config E))] of
        Inl e \<Rightarrow> (Some (FromScan e), s)
      | Inr apps \<Rightarrow>
          (case scan_templates_of E apps (wb_templates s) of
             Inl e \<Rightarrow> (Some (FromTemplates e), s)
           | Inr presets \<Rightarrow>
               (None, s\<lparr>wb_server := (wb_server s)\<lparr>sv_apps := apps, sv_presets := presets\<rparr>\<rparr>)))"

text \<open>\<^verbatim>\<open>New\<close>, after the page templates are parsed: the core apps reserve their names.\<close>

definition reserved_ids :: "Registry \<Rightarrow> string list" where
  "reserved_ids registry =
     map (\<lambda>entry. m_ID (e_Manifest entry)) (filter (\<lambda>entry. e_Error entry = None) (Entries registry))"

definition New_server :: "web_env \<Rightarrow> string \<Rightarrow> web \<Rightarrow> web_error check \<times> web" where
  "New_server E platform s =
     (case app_items (dk_tree (wb_disk s)) (clean_parts (cc_AppsDirectory (en_config E))) of
        None \<Rightarrow> (Some (Message ''scan core apps''), s)
      | Some items \<Rightarrow>
          (let core = Scan (scan_environment (sw_catalog (en_store E)) (dk_tree (wb_disk s)))
                 (cc_AppsDirectory (en_config E)) items;
               cfg = \<lparr>mc_RootDirectory = clean_parts (cc_AppStoreDirectory (en_config E)),
                 mc_InstalledAppsDirectory = clean_parts (cc_InstalledAppsDirectory (en_config E)),
                 mc_IndexURL = cc_AppStoreIndexURL (en_config E),
                 mc_ControllerVersion = cc_ControllerVersion (en_config E),
                 mc_ReservedIDs = reserved_ids core, mc_Platform = platform\<rparr>
           in case NewManager (en_store E) True cfg (wb_disk s) of
                (Inl e, disk) \<Rightarrow> (Some (FromStore e), s\<lparr>wb_disk := disk\<rparr>)
              | (Inr _, disk) \<Rightarrow> rescan E (s\<lparr>wb_logins := [], wb_store := cfg, wb_disk := disk\<rparr>)))"

end
