(* ===== verification/Web_Auth.thy ===== *)
theory Web_Auth
  imports Web_Base
begin

text \<open>
  Setup, login and sessions, \<^verbatim>\<open>internal/httpapi/auth.go\<close>: the handlers, the wrappers
  that let a request through to the handlers of users and administrators, and the counting of failed
  logins.
\<close>

subsection \<open>Session cookies\<close>

definition session_cookie :: "web_env \<Rightarrow> string \<Rightarrow> time \<Rightarrow> int \<Rightarrow> cookie" where
  "session_cookie E v expires maxAge =
     \<lparr>ck_Name = ''wm_session'', ck_Value = v, ck_Path = ''/'', ck_Expires = expires, ck_MaxAge = maxAge,
      ck_HttpOnly = True, ck_Secure = cc_SecureCookies (en_config E)\<rparr>"

definition startSession :: "web_env \<Rightarrow> int \<Rightarrow> web \<Rightarrow> (web_error, cookie) result \<times> web" where
  "startSession E userID s =
     (case RandomToken (en_token E) of
        Inl e \<Rightarrow> (Inl (FromPassword e), s)
      | Inr (raw, hash) \<Rightarrow>
          (let expires = time_of (en_now E + cc_SessionLifetime (en_config E)) in
           case CreateSession (en_time E) userID hash expires (wb_db s) of
             (Some e, d) \<Rightarrow> (Inl (FromDatabase e), set_db d s)
           | (None, d) \<Rightarrow>
               (Inr (session_cookie E raw expires (whole_seconds (cc_SessionLifetime (en_config E)))),
                set_db d s)))"

definition clearSession :: "web_env \<Rightarrow> cookie" where
  "clearSession E = session_cookie E [] zero_time (- 1)"

definition redirectLogin :: "web_env \<Rightarrow> web_request \<Rightarrow> web_reply" where
  "redirectLogin E r = Redirect E r (''/login?next='' @ QueryEscape (rq_URI r)) 303"

subsection \<open>Who is asking\<close>

definition requireUser :: "(User \<Rightarrow> handler) \<Rightarrow> handler" where
  "requireUser next_handler E r s =
     (case request_Cookie r ''wm_session'' of
        None \<Rightarrow> (redirectLogin E r, s)
      | Some v \<Rightarrow>
          (case SessionUser (en_time E) (TokenHash v) (wb_db s) of
             (Inl _, d) \<Rightarrow> (with_cookie (clearSession E) (redirectLogin E r), set_db d s)
           | (Inr user, d) \<Rightarrow>
               (if \<not> safe_method r \<and> \<not> sameOrigin E r then (cross_origin, set_db d s)
                else next_handler user E r (set_db d s))))"

definition requireAdmin :: "(User \<Rightarrow> handler) \<Rightarrow> handler" where
  "requireAdmin next_handler = requireUser (\<lambda>user E r s.
     if \<not> u_IsAdmin user then (json_error 403 (Message ''administrator access required''), s)
     else next_handler user E r s)"

subsection \<open>Failed logins\<close>

definition loginBlocked :: "int \<Rightarrow> string \<Rightarrow> web \<Rightarrow> int" where
  "loginBlocked now ip s =
     (case map_of (wb_logins s) ip of
        None \<Rightarrow> 0
      | Some a \<Rightarrow> (case at_Blocked a of None \<Rightarrow> 0 | Some blocked \<Rightarrow> blocked - now))"

definition failed_attempt :: "int \<Rightarrow> loginAttempt option \<Rightarrow> loginAttempt" where
  "failed_attempt now a =
     (let a = (case a of Some a \<Rightarrow> a | None \<Rightarrow> \<lparr>at_Failures = 0, at_Blocked = None, at_LastSeen = now\<rparr>);
          a = a\<lparr>at_Failures := at_Failures a + 1, at_LastSeen := now\<rparr>
      in if at_Failures a \<ge> 5 then a\<lparr>at_Blocked := Some (now + (at_Failures a - 4) * 30 * second)\<rparr> else a)"

definition recordLogin :: "int \<Rightarrow> string \<Rightarrow> bool \<Rightarrow> web \<Rightarrow> web" where
  "recordLogin now ip ok s =
     (if ok then s\<lparr>wb_logins := AList.delete ip (wb_logins s)\<rparr>
      else
        (let logins = AList.update ip (failed_attempt now (map_of (wb_logins s) ip)) (wb_logins s) in
         s\<lparr>wb_logins := filter (\<lambda>(key, a). \<not> now - at_LastSeen a > 24 * 3600 * second) logins\<rparr>))"

subsection \<open>Pages\<close>

definition setupGet :: handler where
  "setupGet E r s =
     (if HasUsers (wb_db s) then (Redirect E r ''/login'' 303, s)
      else (render ''setup.html'' (no_page\<lparr>pd_Title := ''Setup''\<rparr>), s))"

definition setup_error :: "web_error \<Rightarrow> web_reply" where
  "setup_error e = render ''setup.html'' (no_page\<lparr>pd_Title := ''Setup'', pd_Error := Some e\<rparr>)"

definition bad_username :: "string \<Rightarrow> bool" where
  "bad_username username =
     (length username < 3 \<or> length username > 64 \<or> ContainsAny username [CHR '' '', CHR 0x09, CHR 0x0D, CHR 0x0A])"

definition setupPost :: handler where
  "setupPost E r s =
     (if \<not> sameOrigin E r then (cross_origin, s)
      else if rq_Form r = None then (setup_error (Message ''Invalid form submission.''), s)
      else
        (let username = TrimSpace (FormValue r ''username''); password = FormValue r ''password'' in
         if bad_username username then (setup_error (Message (''Username must be 3'' @ en_dash @ ''64 characters without spaces.'')), s)
         else if password \<noteq> FormValue r ''confirm_password''
         then (setup_error (Message ''Passwords do not match.''), s)
         else case HashPassword (en_salt E) password of
           Inl e \<Rightarrow> (setup_error (FromPassword e), s)
         | Inr hash \<Rightarrow>
             (case CreateInitialAdmin (en_time E) username hash (wb_db s) of
                (Inl e, d) \<Rightarrow> (setup_error (FromDatabase e), set_db d s)
              | (Inr user, d) \<Rightarrow>
                  (case startSession E (u_ID user) (set_db d s) of
                     (Inl e, s) \<Rightarrow> (renderError None 500 e, s)
                   | (Inr c, s) \<Rightarrow> (with_cookie c (Redirect E r ''/'' 303), s)))))"

definition loginGet :: handler where
  "loginGet E r s =
     (if \<not> HasUsers (wb_db s) then (Redirect E r ''/setup'' 303, s)
      else (render ''login.html'' (no_page\<lparr>pd_Title := ''Login'',
        pd_Next := safeNext (first_value (rq_Query r) ''next'')\<rparr>), s))"

definition login_page :: "int \<Rightarrow> string \<Rightarrow> string \<Rightarrow> web_reply" where
  "login_page code message after_login =
     renderStatus ''login.html'' code
       (no_page\<lparr>pd_Title := ''Login'', pd_Error := Some (Message message), pd_Next := after_login\<rparr>)"

text \<open>The user a name and a password belong to.\<close>

definition check_password :: "string \<Rightarrow> string \<Rightarrow> db \<Rightarrow> User option" where
  "check_password username password d =
     (case Authenticate username d of
        Inl _ \<Rightarrow> None
      | Inr (user, passwordHash) \<Rightarrow> if VerifyPassword passwordHash password then Some user else None)"

definition loginPost :: handler where
  "loginPost E r s =
     (if \<not> sameOrigin E r then (cross_origin, s)
      else
        (let ip = remoteIP r; wait = loginBlocked (en_now E) ip s in
         if wait > 0 then
           ((login_page 429 ''Too many failed attempts. Try again shortly.'' [])\<lparr>rp_Headers :=
              [(''Retry-After'', Itoa (whole_seconds wait + 1)), (''Content-Type'', ''text/html; charset=utf-8'')]\<rparr>, s)
         else if rq_Form r = None then (http_Error ''invalid form'' 400, s)
         else case check_password (TrimSpace (FormValue r ''username'')) (FormValue r ''password'') (wb_db s) of
           None \<Rightarrow>
             (login_page 401 ''Invalid username or password.'' (safeNext (FormValue r ''next'')),
              recordLogin (en_now E) ip False s)
         | Some user \<Rightarrow>
             (case startSession E (u_ID user) (recordLogin (en_now E) ip True s) of
                (Inl e, s) \<Rightarrow> (renderError None 500 e, s)
              | (Inr c, s) \<Rightarrow> (with_cookie c (Redirect E r (safeNext (FormValue r ''next'')) 303), s))))"

definition logout :: handler where
  "logout E r s =
     (if \<not> sameOrigin E r then (cross_origin, s)
      else
        (with_cookie (clearSession E) (Redirect E r ''/login'' 303),
         case request_Cookie r ''wm_session'' of
           None \<Rightarrow> s
         | Some v \<Rightarrow> set_db (RevokeSession (en_time E) (TokenHash v) (wb_db s)) s))"

subsection \<open>What the wrappers guarantee\<close>

lemma requireUser_cases:
  obtains (refused) "snd (requireUser h E r s) = s" "rp_Body (fst (requireUser h E r s)) =
      Redirected (redirect_location (en_url E) (hr_Path r) (''/login?next='' @ QueryEscape (rq_URI r)))"
  | (foreign) v user d where "request_Cookie r ''wm_session'' = Some v"
      "SessionUser (en_time E) (TokenHash v) (wb_db s) = (Inr user, d)"
      "\<not> safe_method r" "\<not> sameOrigin E r" "requireUser h E r s = (cross_origin, set_db d s)"
  | (served) v user d where "request_Cookie r ''wm_session'' = Some v"
      "SessionUser (en_time E) (TokenHash v) (wb_db s) = (Inr user, d)"
      "safe_method r \<or> sameOrigin E r" "requireUser h E r s = h user E r (set_db d s)"
proof (cases "request_Cookie r ''wm_session''")
  case None
  then show ?thesis by (intro refused) (simp_all add: requireUser_def redirectLogin_def)
next
  case (Some v)
  obtain q d where q: "SessionUser (en_time E) (TokenHash v) (wb_db s) = (q, d)"
    by (cases "SessionUser (en_time E) (TokenHash v) (wb_db s)")
  show ?thesis
  proof (cases q)
    case (Inl e)
    with q have "d = wb_db s" by (auto simp: SessionUser_def split: list.splits)
    with Some q Inl show ?thesis by (intro refused) (simp_all add: requireUser_def redirectLogin_def)
  next
    case (Inr user)
    with Some q show ?thesis
      by (cases "\<not> safe_method r \<and> \<not> sameOrigin E r") (auto simp: requireUser_def intro: foreign served)
  qed
qed

end
