(* ===== verification/Web_Workstations.thy ===== *)
theory Web_Workstations
  imports Web_Auth
begin

text \<open>
  The pages and forms of workstations in \<^verbatim>\<open>internal/httpapi/workstations.go\<close>, and the
  choice of colours in \<^verbatim>\<open>theme.go\<close>.
\<close>

definition resolveTheme :: "web_env \<Rightarrow> User option \<Rightarrow> string \<Rightarrow> Palette" where
  "resolveTheme E user workstationAccent =
     Resolve_theme (en_pow E) (case user of None \<Rightarrow> [] | Some u \<Rightarrow> u_AccentColor u) workstationAccent"

text \<open>The parts of the state that are the life cycle's, with the goroutines it starts.\<close>

definition start_job :: "goroutine \<Rightarrow> web \<Rightarrow> web" where
  "start_job g s = s\<lparr>wb_jobs := wb_jobs s @ [g]\<rparr>"

definition create_and_start :: "web_env \<Rightarrow> User \<Rightarrow> createInput \<Rightarrow> web \<Rightarrow> (api_error, Workstation) result \<times> web" where
  "create_and_start E user input s =
     (case create (en_time E) (en_id E) user input (wb_server s) of
        (Inl e, sv) \<Rightarrow> (Inl e, s\<lparr>wb_server := sv\<rparr>)
      | (Inr ws, sv) \<Rightarrow> (Inr ws, start_job (GoProvision (ws_ID ws) user) (s\<lparr>wb_server := sv\<rparr>)))"

definition act_and_start :: "web_env \<Rightarrow> User \<Rightarrow> string \<Rightarrow> string \<Rightarrow> web \<Rightarrow> api_error check \<times> web" where
  "act_and_start E user i action s =
     (case beginAction (en_time E) user i action (wb_server s) of
        (Inl e, sv) \<Rightarrow> (Some e, s\<lparr>wb_server := sv\<rparr>)
      | (Inr g, sv) \<Rightarrow> (None, start_job g (s\<lparr>wb_server := sv\<rparr>)))"

definition launcher_page :: "web \<Rightarrow> User \<Rightarrow> Workstation \<Rightarrow> string \<Rightarrow> web_reply" where
  "launcher_page s user ws appBase =
     render ''launcher.html'' (no_page\<lparr>pd_Title := ws_Name ws, pd_User := Some user, pd_Workstation := Some ws,
       pd_AppBase := appBase, pd_LauncherApps := launcherApps (sv_apps (wb_server s)) ws\<rparr>)"

definition no_workstation :: "User \<Rightarrow> web_reply" where
  "no_workstation user = renderError (Some user) 404 (Message ''workstation not found'')"

definition web_root :: "User \<Rightarrow> handler" where
  "web_root user E r s =
     (let hostname = workstationHostname E r in
      if hostname \<noteq> [] then
        (case WorkstationByHostname hostname user (wb_db s) of
           Inl _ \<Rightarrow> (no_workstation user, s)
         | Inr ws \<Rightarrow> (launcher_page s user ws [], s))
      else
        (render ''dashboard.html'' (no_page\<lparr>pd_Title := ''Dashboard'', pd_User := Some user,
           pd_Workstations := ListWorkstations user (wb_db s),
           pd_Templates := All_templates (sv_presets (wb_server s)), pd_Apps := Entries (sv_apps (wb_server s)),
           pd_VPNProfiles := ListVPNProfilesForUser user True (wb_db s)\<rparr>), s))"

definition createWorkstation :: "User \<Rightarrow> handler" where
  "createWorkstation user E r s =
     (if \<not> sameOrigin E r then (cross_origin, s)
      else if rq_Form r = None then (http_Error ''invalid form'' 400, s)
      else
        (case create_and_start E user
            \<lparr>ci_Name = FormValue r ''name'', ci_TemplateID = FormValue r ''template_id'',
             ci_Apps = FormValues r ''apps'', ci_VPNProfileID = parseOptionalID (FormValue r ''vpn_profile_id'')\<rparr> s of
           (Inl e, s) \<Rightarrow> (renderError (Some user) 422 (FromApi e), s)
         | (Inr ws, s) \<Rightarrow> (Redirect E r (''/workstations/'' @ ws_ID ws) 303, s)))"

definition egress_report :: "web_env \<Rightarrow> Workstation \<Rightarrow> EgressStatus" where
  "egress_report E ws =
     (let status = (case en_Egress E (ws_ID ws) of
          Inr q \<Rightarrow> q
        | Inl e \<Rightarrow> \<lparr>es_WorkstationID = ws_ID ws, es_Mode = [], es_Healthy = False, es_FailsClosed = False,
            es_Tunnel = None, es_Error = e\<rparr>)
      in if es_Mode status = []
         then status\<lparr>es_Mode := Resolve (ws_EgressMode ws) (ws_VPNRequired ws)\<rparr> else status)"

definition renderWorkstation :: "web_env \<Rightarrow> User \<Rightarrow> web \<Rightarrow> Workstation \<Rightarrow> string \<Rightarrow> web_reply" where
  "renderWorkstation E user s ws shareURL =
     (let status = egress_report E ws in
      render ''workstation.html'' (no_page\<lparr>pd_Title := ws_Name ws, pd_User := Some user,
        pd_Workstation := Some ws, pd_Events := Events (ws_ID ws) 100 (wb_db s),
        pd_Shares := (case ListShares (w_unmarshal (en_world E)) (ws_ID ws) (wb_db s) of Inl _ \<Rightarrow> [] | Inr l \<Rightarrow> l),
        pd_ShareURL := shareURL,
        pd_Usage := (case en_Usage E (ws_ID ws) of Inl _ \<Rightarrow> [] | Inr l \<Rightarrow> l),
        pd_Egress := Some status, pd_EgressLabel := Label (es_Mode status),
        pd_Theme := Some (resolveTheme E (Some user) (ws_AccentColor ws)), pd_Presets := Presets\<rparr>))"

definition workstationPage :: "User \<Rightarrow> handler" where
  "workstationPage user E r s =
     (case Workstation_lookup (PathValue r ''id'') user (wb_db s) of
        Inl _ \<Rightarrow> (no_workstation user, s)
      | Inr ws \<Rightarrow> (renderWorkstation E user s ws [], s))"

definition desktopPage :: "User \<Rightarrow> handler" where
  "desktopPage user E r s =
     (case Workstation_lookup (PathValue r ''id'') user (wb_db s) of
        Inl _ \<Rightarrow> (no_workstation user, s)
      | Inr ws \<Rightarrow> (launcher_page s user ws (''/workstations/'' @ ws_ID ws), s))"

definition workstationAction :: "User \<Rightarrow> handler" where
  "workstationAction user E r s =
     (if \<not> sameOrigin E r then (cross_origin, s)
      else (case act_and_start E user (PathValue r ''id'') (PathValue r ''action'') s of
          (Some e, s) \<Rightarrow> (renderError (Some user) 422 (FromApi e), s)
        | (None, s) \<Rightarrow> (Redirect E r ''/'' 303, s)))"

end
