(* ===== verification/Web_Proxy.thy ===== *)
theory Web_Proxy
  imports Web_Workstations
begin

text \<open>
  The proxy in front of the apps, \<^verbatim>\<open>internal/httpapi/proxy.go\<close>: which app a request may
  reach, how the request to the workstation's gateway and the answer of the app are rewritten.
\<close>

text \<open>\<^verbatim>\<open>reverse.Director\<close>\<close>

definition forward_path :: "string \<Rightarrow> bool \<Rightarrow> string \<Rightarrow> string \<Rightarrow> string" where
  "forward_path explicitPrefix stripPrefix appID path =
     (let path = (if explicitPrefix \<noteq> [] then TrimPrefix path explicitPrefix else path) in
      if stripPrefix then
        (let path = TrimPrefix path (''/apps/'' @ appID) in if path = [] then ''/'' else path)
      else path)"

definition Director :: "web_env \<Rightarrow> Workstation \<Rightarrow> string \<Rightarrow> bool \<Rightarrow> string \<Rightarrow> web_request \<Rightarrow> http_request" where
  "Director E ws appID stripPrefix explicitPrefix r =
     \<lparr>hr_Method = hr_Method r, hr_Path = forward_path explicitPrefix stripPrefix appID (hr_Path r),
      hr_Headers = header_Set (header_Set (header_Set (hr_Headers r) ''X-Workstation-ID'' (ws_ID ws))
        tokenHeader (cc_WorkerToken (en_config E))) appHeader appID\<rparr>"

text \<open>\<^verbatim>\<open>reverse.ModifyResponse\<close>, on the headers of the answer.\<close>

definition modifyResponse :: "(string \<Rightarrow> string) \<Rightarrow> string \<Rightarrow> headers \<Rightarrow> headers" where
  "modifyResponse uni explicitPrefix h =
     (let location = header_Get h ''Location'';
          h = (if explicitPrefix \<noteq> [] \<and> HasPrefix location ''/'' \<and> \<not> HasPrefix location (explicitPrefix @ ''/'')
               then header_Set h ''Location'' (explicitPrefix @ location) else h);
          cookies = header_Values h ''Set-Cookie''
      in fold (\<lambda>c h. if \<not> HasPrefix (ToLower uni (TrimSpace c)) ''wm_session=''
                     then header_Add h ''Set-Cookie'' c else h) cookies (header_Del h ''Set-Cookie''))"

definition gateway_host :: "Workstation \<Rightarrow> string" where
  "gateway_host ws = ''http://wm-'' @ ws_ID ws @ ''-wslan:9000''"

definition proxyApp :: "web_env \<Rightarrow> web_request \<Rightarrow> web \<Rightarrow> Workstation \<Rightarrow> string \<Rightarrow> string \<Rightarrow> web_reply" where
  "proxyApp E r s ws appID explicitPrefix =
     (if ws_State ws \<noteq> State_str StateReady then http_Error ''workstation is not ready'' 503
      else if \<not> list_ex (\<lambda>a. wa_AppID a = appID) (ws_Apps ws) then NotFound
      else case Get (sv_apps (wb_server s)) appID of
        None \<Rightarrow> NotFound
      | Some app \<Rightarrow>
          if rt_Type (m_Runtime app) \<noteq> ''container-service'' then NotFound
          else
            (let q = Director E ws appID (ro_StripPrefix (m_Routing app)) explicitPrefix r in
             answer 0 (Forwarded (gateway_host ws)
               (q\<lparr>hr_Headers := proxied_headers (rq_RemoteAddr r) (hr_Headers q)\<rparr>) explicitPrefix)))"

definition active_cookie :: "web_env \<Rightarrow> string \<Rightarrow> Workstation \<Rightarrow> cookie" where
  "active_cookie E appID ws =
     \<lparr>ck_Name = ''wm_active_'' @ appID, ck_Value = ws_ID ws, ck_Path = ''/apps/'' @ appID @ ''/'',
      ck_Expires = zero_time, ck_MaxAge = 0, ck_HttpOnly = True, ck_Secure = cc_SecureCookies (en_config E)\<rparr>"

definition proxyExplicit :: "User \<Rightarrow> handler" where
  "proxyExplicit user E r s =
     (case Workstation_lookup (PathValue r ''id'') user (wb_db s) of
        Inl _ \<Rightarrow> (NotFound, s)
      | Inr ws \<Rightarrow>
          (let appID = PathValue r ''app'' in
           (with_cookie (active_cookie E appID ws)
              (case Get (sv_apps (wb_server s)) appID of
                 Some app \<Rightarrow>
                   if \<not> ro_StripPrefix (m_Routing app) then
                     Redirect E r (TrimPrefix (hr_Path r) (''/workstations/'' @ ws_ID ws) @
                       (if rq_RawQuery r \<noteq> [] then ''?'' @ rq_RawQuery r else [])) 307
                   else proxyApp E r s ws appID (''/workstations/'' @ ws_ID ws)
               | None \<Rightarrow> proxyApp E r s ws appID (''/workstations/'' @ ws_ID ws)), s)))"

definition proxyHostname :: "User \<Rightarrow> handler" where
  "proxyHostname user E r s =
     (let hostname = workstationHostname E r;
          hostname = (if hostname = []
            then (case request_Cookie r (''wm_active_'' @ PathValue r ''app'') of None \<Rightarrow> [] | Some v \<Rightarrow> v)
            else hostname)
      in if hostname = [] then (NotFound, s)
         else (case WorkstationByHostname hostname user (wb_db s) of
             Inl _ \<Rightarrow> (NotFound, s)
           | Inr ws \<Rightarrow> (proxyApp E r s ws (PathValue r ''app'') [], s)))"

end
