(* ===== verification/Web_Sharing.thy ===== *)
theory Web_Sharing
  imports Web_Proxy
begin

text \<open>
  Share links, \<^verbatim>\<open>internal/httpapi/sharing.go\<close>: creating and revoking them, redeeming
  one for a cookie, and what the holder of the cookie may do.
\<close>

subsection \<open>Creating and revoking\<close>

definition parse_expiry :: "int \<Rightarrow> string \<Rightarrow> (web_error, time option) result" where
  "parse_expiry now raw =
     (if raw = [] \<or> raw = ''0'' then Inr None
      else case Atoi raw of
        None \<Rightarrow> Inl (Message ''expiration must be between 1 and 8760 hours'')
      | Some hours \<Rightarrow>
          if hours < 1 \<or> hours > 8760 then Inl (Message ''expiration must be between 1 and 8760 hours'')
          else Inr (Some (time_of (now + hours * 3600 * second))))"

definition parse_uses :: "string \<Rightarrow> (web_error, int option) result" where
  "parse_uses raw =
     (if raw = [] \<or> raw = ''0'' then Inr None
      else case Atoi raw of
        None \<Rightarrow> Inl (Message ''maximum uses must be between 1 and 10000'')
      | Some uses \<Rightarrow>
          if uses < 1 \<or> uses > 10000 then Inl (Message ''maximum uses must be between 1 and 10000'')
          else Inr (Some uses))"

definition parseShareInput ::
  "int \<Rightarrow> string list \<Rightarrow> string \<Rightarrow> string \<Rightarrow> string
   \<Rightarrow> (web_error, Permission list \<times> time option \<times> int option \<times> string) result" where
  "parseShareInput now rawPermissions expiresRaw maxUsesRaw recipient =
     (case Sharing.Validate rawPermissions of
        Inl e \<Rightarrow> Inl (FromSharing e)
      | Inr permissions \<Rightarrow>
          (case parse_expiry now expiresRaw of
             Inl e \<Rightarrow> Inl e
           | Inr expiresAt \<Rightarrow>
               (case parse_uses maxUsesRaw of
                  Inl e \<Rightarrow> Inl e
                | Inr maxUses \<Rightarrow>
                    (let recipient = TrimSpace recipient in
                     if length recipient > 128 then Inl (Message ''recipient name is too long'')
                     else Inr (permissions, expiresAt, maxUses, recipient)))))"

definition shareRecipient :: "string \<Rightarrow> string" where
  "shareRecipient recipient = (if recipient = [] then ''an unnamed recipient'' else recipient)"

text \<open>
  What \<^verbatim>\<open>createShare\<close> and \<^verbatim>\<open>apiCreateShare\<close> do with valid input: the share
  and its link.
\<close>

definition new_share ::
  "web_env \<Rightarrow> User \<Rightarrow> Workstation \<Rightarrow> Permission list \<times> time option \<times> int option \<times> string \<Rightarrow> web
   \<Rightarrow> (web_error, Share \<times> string) result \<times> web" where
  "new_share E user ws input s =
     (case input of (permissions, expiresAt, maxUses, recipient) \<Rightarrow>
        (case RandomToken (en_token E) of
           Inl e \<Rightarrow> (Inl (FromPassword e), s)
         | Inr (raw, hash) \<Rightarrow>
             (case CreateShare (w_unmarshal (en_world E)) (en_time E) (ws_ID ws) (u_ID user) hash permissions
                 recipient expiresAt maxUses (wb_db s) of
                (Inl e, d) \<Rightarrow> (Inl (FromDatabase e), set_db d s)
              | (Inr share, d) \<Rightarrow>
                  (Inr (share, ''/share/'' @ raw),
                   set_db (snd (RecordEvent (en_time E) (ws_ID ws) ''share.created''
                     (''Workstation share created for '' @ shareRecipient recipient) d)) s))))"

definition createShare :: "User \<Rightarrow> handler" where
  "createShare user E r s =
     (if rq_Form r = None then (renderError (Some user) 400 (Message ''invalid share form''), s)
      else case Workstation_lookup (PathValue r ''id'') user (wb_db s) of
        Inl _ \<Rightarrow> (no_workstation user, s)
      | Inr ws \<Rightarrow>
          (case parseShareInput (en_now E) (FormValues r ''permissions'') (FormValue r ''expires_hours'')
              (FormValue r ''max_uses'') (FormValue r ''recipient'') of
             Inl e \<Rightarrow> (renderError (Some user) 422 e, s)
           | Inr input \<Rightarrow>
               (case new_share E user ws input s of
                  (Inl e, s) \<Rightarrow> (renderError (Some user) 500 e, s)
                | (Inr (_, link), s) \<Rightarrow> (renderWorkstation E user s ws link, s))))"

definition revoke_share :: "web_env \<Rightarrow> Workstation \<Rightarrow> int \<Rightarrow> web \<Rightarrow> bool \<times> web" where
  "revoke_share E ws shareID s =
     (case RevokeShare (en_time E) (ws_ID ws) shareID (wb_db s) of
        (Some _, d) \<Rightarrow> (False, set_db d s)
      | (None, d) \<Rightarrow>
          (True, set_db (snd (RecordEvent (en_time E) (ws_ID ws) ''share.revoked'' ''Workstation share revoked'' d)) s))"

text \<open>\<^verbatim>\<open>strconv.ParseInt\<close> of a path value that has to be positive.\<close>

definition positive_id :: "string \<Rightarrow> int option" where
  "positive_id raw = (case ParseInt64 raw of None \<Rightarrow> None | Some i \<Rightarrow> if i \<le> 0 then None else Some i)"

definition revokeShare :: "User \<Rightarrow> handler" where
  "revokeShare user E r s =
     (case Workstation_lookup (PathValue r ''id'') user (wb_db s) of
        Inl _ \<Rightarrow> (no_workstation user, s)
      | Inr ws \<Rightarrow>
          (case positive_id (PathValue r ''share'') of
             None \<Rightarrow> (renderError (Some user) 400 (Message ''invalid share id''), s)
           | Some shareID \<Rightarrow>
               (case revoke_share E ws shareID s of
                  (False, s) \<Rightarrow> (renderError (Some user) 404 (Message ''share not found or already revoked''), s)
                | (True, s) \<Rightarrow> (Redirect E r (''/workstations/'' @ ws_ID ws) 303, s))))"

subsection \<open>Redeeming\<close>

definition share_cookie :: "web_env \<Rightarrow> string \<Rightarrow> string \<Rightarrow> time \<Rightarrow> int \<Rightarrow> cookie" where
  "share_cookie E token wsID expires maxAge =
     \<lparr>ck_Name = ''wm_share'', ck_Value = token, ck_Path = ''/shared/'' @ wsID, ck_Expires = expires,
      ck_MaxAge = maxAge, ck_HttpOnly = True, ck_Secure = cc_SecureCookies (en_config E)\<rparr>"

definition redeemShare :: handler where
  "redeemShare E r s =
     (let token = PathValue r ''token'' in
      if length token < 32 \<or> length token > 128
      then (renderError None 404 (Message ''share is invalid or unavailable''), s)
      else case RedeemShare (w_unmarshal (en_world E)) (en_time E) (TokenHash token) (wb_db s) of
        (Inl _, d) \<Rightarrow>
          (renderError None 404 (Message ''share is invalid, expired, revoked, or fully used''), set_db d s)
      | (Inr share, d) \<Rightarrow>
          (let (expires, maxAge) = (case sh_ExpiresAt share of
                 None \<Rightarrow> (zero_time, 0)
               | Some t \<Rightarrow> (t, max 1 (whole_seconds (ns_of t - en_now E))))
           in (with_cookie (share_cookie E token (sh_WorkstationID share) expires maxAge)
                 (Redirect E r (''/shared/'' @ sh_WorkstationID share) 303),
               set_db (snd (RecordEvent (en_time E) (sh_WorkstationID share) ''share.redeemed''
                 ''Workstation share redeemed'' d)) s)))"

definition clearShare :: "web_env \<Rightarrow> string \<Rightarrow> cookie" where
  "clearShare E wsID = share_cookie E [] wsID zero_time (- 1)"

definition requireShare :: "(Share \<Rightarrow> handler) \<Rightarrow> handler" where
  "requireShare next_handler E r s =
     (let wsID = PathValue r ''id'' in
      case request_Cookie r ''wm_share'' of
        None \<Rightarrow> (renderError None 401 (Message ''share authentication required''), s)
      | Some v \<Rightarrow>
          (case ValidateShare (w_unmarshal (en_world E)) (en_time E) (TokenHash v) wsID (wb_db s) of
             Inl _ \<Rightarrow>
               (with_cookie (clearShare E wsID)
                  (renderError None 403 (Message ''share is expired or revoked'')), s)
           | Inr share \<Rightarrow>
               if \<not> safe_method r \<and> \<not> sameOrigin E r then (cross_origin, s) else next_handler share E r s))"

subsection \<open>What the holder of a share may do\<close>

text \<open>\<^verbatim>\<open>database.User{IsAdmin: true}\<close>: the lookups after the share was checked.\<close>

definition internal_user :: User where
  "internal_user = \<lparr>u_ID = 0, u_Username = [], u_IsAdmin = True, u_AllowedEgress = [], u_AccentColor = [],
     u_CreatedAt = zero_time\<rparr>"

definition shareCanOpenApp :: "Registry \<Rightarrow> Share \<Rightarrow> string \<Rightarrow> string \<Rightarrow> bool" where
  "shareCanOpenApp apps share appID method =
     (if (case Get apps appID of None \<Rightarrow> False | Some app \<Rightarrow> d_Role (m_Desktop app) = RoleLauncher) then True
      else if appID = ''terminal'' then Has (sh_Permissions share) TerminalControl
      else if appID = ''files'' then
        (if method = ''GET'' \<or> method = ''HEAD''
         then Has (sh_Permissions share) OpenApps \<or> Has (sh_Permissions share) DownloadFiles
         else Has (sh_Permissions share) UploadFiles)
      else Has (sh_Permissions share) OpenApps)"

definition sharedLauncher :: "Share \<Rightarrow> handler" where
  "sharedLauncher share E r s =
     (case Workstation_lookup (sh_WorkstationID share) internal_user (wb_db s) of
        Inl _ \<Rightarrow> (renderError None 404 (Message ''workstation is unavailable''), s)
      | Inr ws \<Rightarrow>
          if ws_State ws = State_str StateDeleted
          then (renderError None 404 (Message ''workstation is unavailable''), s)
          else
            (let apps = sv_apps (wb_server s);
                 ws = ws\<lparr>ws_Apps := filter (\<lambda>a. shareCanOpenApp apps share (wa_AppID a) ''GET'') (ws_Apps ws)\<rparr>
             in (render ''launcher.html'' (no_page\<lparr>pd_Title := ws_Name ws, pd_Workstation := Some ws,
                   pd_AppBase := ''/shared/'' @ ws_ID ws, pd_Shared := True,
                   pd_SharePermissions := sh_Permissions share, pd_LauncherApps := launcherApps apps ws\<rparr>), s)))"

definition proxyShared :: "Share \<Rightarrow> handler" where
  "proxyShared share E r s =
     (let appID = PathValue r ''app'' in
      if \<not> shareCanOpenApp (sv_apps (wb_server s)) share appID (hr_Method r)
      then (http_Error ''share permission denied'' 403, s)
      else case Workstation_lookup (sh_WorkstationID share) internal_user (wb_db s) of
        Inl _ \<Rightarrow> (NotFound, s)
      | Inr ws \<Rightarrow> (proxyApp E r s ws appID (''/shared/'' @ ws_ID ws), s))"

definition required_permission :: "string \<Rightarrow> Permission option" where
  "required_permission action =
     (if action = ''restart'' then Some RestartWorkstation
      else if action = ''stop'' then Some StopWorkstation else None)"

definition sharedAction :: "Share \<Rightarrow> handler" where
  "sharedAction share E r s =
     (let action = PathValue r ''action'' in
      if (case required_permission action of None \<Rightarrow> True | Some p \<Rightarrow> \<not> Has (sh_Permissions share) p)
      then (http_Error ''share permission denied'' 403, s)
      else case act_and_start E internal_user (sh_WorkstationID share) action s of
        (Some e, s) \<Rightarrow> (renderError None 422 (FromApi e), s)
      | (None, s) \<Rightarrow> (Redirect E r (''/shared/'' @ sh_WorkstationID share) 303, s))"

definition sharedLogout :: "Share \<Rightarrow> handler" where
  "sharedLogout share E r s =
     (with_cookie (clearShare E (sh_WorkstationID share)) (Redirect E r ''/login'' 303), s)"

end
