(* ===== verification/Web_Settings.thy ===== *)
theory Web_Settings
  imports Web_Sharing
begin

text \<open>
  Templates, users, VPN profiles, colours and the app store: the handlers of
  \<^verbatim>\<open>settings.go\<close>, \<^verbatim>\<open>theme.go\<close> and \<^verbatim>\<open>store.go\<close> of
  \<^verbatim>\<open>internal/httpapi\<close>.
\<close>

subsection \<open>Templates\<close>

definition templatesPage :: "User \<Rightarrow> handler" where
  "templatesPage user E r s =
     (render ''templates.html'' (no_page\<lparr>pd_Title := ''Templates'', pd_User := Some user,
        pd_Templates := All_templates (sv_presets (wb_server s)), pd_Apps := Entries (sv_apps (wb_server s)),
        pd_EgressModes := egressChoices,
        pd_DefaultWorkspaceImage := cc_DefaultWorkspaceImage (en_config E)\<rparr>), s)"

definition template_numbers :: "web_env \<Rightarrow> web_request \<Rightarrow> (float64 \<times> int \<times> int \<times> int) option" where
  "template_numbers E r =
     (let raw = TrimSpace (FormValue r ''expires_hours'');
          expires = (if raw = [] then Some 0 else Atoi raw)
      in case (en_ParseFloat E (FormValue r ''cpu''), Atoi (FormValue r ''memory_mb''),
               Atoi (FormValue r ''pid_limit''), expires) of
           (Some cpu, Some memory, Some pids, Some expires) \<Rightarrow> Some (cpu, memory, pids, expires)
         | _ \<Rightarrow> None)"

definition submitted_template ::
  "web_env \<Rightarrow> web_request \<Rightarrow> float64 \<times> int \<times> int \<times> int \<Rightarrow> Mode \<Rightarrow> Template" where
  "submitted_template E r numbers mode =
     (case numbers of (cpu, memory, pids, expires) \<Rightarrow>
        (let i = TrimPrefix (ToLower (w_uni (en_world E)) (TrimSpace (FormValue r ''id''))) ''custom-'';
             workspaceImage = TrimSpace (FormValue r ''workspace_image'')
         in \<lparr>tp_SchemaVersion = 1, tp_ID = ''custom-'' @ i, tp_Name = TrimSpace (FormValue r ''name''),
             tp_Description = TrimSpace (FormValue r ''description''),
             tp_WorkspaceImage = (if workspaceImage = [] then cc_DefaultWorkspaceImage (en_config E) else workspaceImage),
             tp_Apps = unique (FormValues r ''apps''), tp_VPNRequired = RequiresVPNProfile mode, tp_Egress = mode,
             tp_Persistent = (FormValue r ''persistent'' = ''true''), tp_CPU = cpu, tp_MemoryMB = memory,
             tp_PIDLimit = pids, tp_ExpiresHours = expires, tp_Custom = False\<rparr>))"

text \<open>A rescan and the answer after it, as three handlers end.\<close>

definition rescan_then :: "web_env \<Rightarrow> User \<Rightarrow> web_reply \<Rightarrow> web \<Rightarrow> web_reply \<times> web" where
  "rescan_then E user q s =
     (case rescan E s of
        (Some e, s) \<Rightarrow> (renderError (Some user) 500 e, s)
      | (None, s) \<Rightarrow> (q, s))"

definition createCustomTemplate :: "User \<Rightarrow> handler" where
  "createCustomTemplate user E r s =
     (if \<not> sameOrigin E r then (cross_origin, s)
      else if rq_Form r = None then (renderError (Some user) 400 (Message ''invalid form''), s)
      else case template_numbers E r of
        None \<Rightarrow> (renderError (Some user) 422
            (Message ''CPU, memory, PID limit, and expiration must be valid numbers''), s)
      | Some numbers \<Rightarrow>
          (let mode = TrimSpace (FormValue r ''egress''); mode = (if mode = [] then DefaultMode else mode) in
           case Egress.Parse mode of
             Inl e \<Rightarrow> (renderError (Some user) 422 (FromEgress e), s)
           | Inr selected \<Rightarrow>
               (case SaveCustom (en_template_encode E) (en_template_fails E) (submitted_template E r numbers selected)
                   (\<lambda>i. Get (sv_apps (wb_server s)) i \<noteq> None) (wb_templates s) of
                  (Some e, dir) \<Rightarrow> (renderError (Some user) 422 (FromTemplates e), s\<lparr>wb_templates := dir\<rparr>)
                | (None, dir) \<Rightarrow>
                    rescan_then E user (Redirect E r ''/templates'' 303) (s\<lparr>wb_templates := dir\<rparr>))))"

definition deleteCustomTemplate :: "User \<Rightarrow> handler" where
  "deleteCustomTemplate user E r s =
     (if \<not> sameOrigin E r then (cross_origin, s)
      else (case DeleteCustom (PathValue r ''id'') (wb_templates s) of
          (Some e, dir) \<Rightarrow> (renderError (Some user) 422 (FromTemplates e), s\<lparr>wb_templates := dir\<rparr>)
        | (None, dir) \<Rightarrow>
            rescan_then E user (Redirect E r ''/templates'' 303) (s\<lparr>wb_templates := dir\<rparr>)))"

subsection \<open>Users\<close>

definition usersPage :: "User \<Rightarrow> handler" where
  "usersPage user E r s =
     (render ''users.html'' (no_page\<lparr>pd_Title := ''Users'', pd_User := Some user,
        pd_Users := ListUsers (wb_db s), pd_EgressModes := grantableChoices\<rparr>), s)"

definition input_grants :: "string list option \<Rightarrow> (egress_error, Mode list) result" where
  "input_grants allowed_egress =
     (case allowed_egress of None \<Rightarrow> Inr DefaultGrants | Some vals \<Rightarrow> ValidateGrants vals)"

definition storeUser :: "web_env \<Rightarrow> userInput \<Rightarrow> web \<Rightarrow> (web_error, User) result \<times> web" where
  "storeUser E input s =
     (let username = TrimSpace (ui_Username input) in
      if bad_username username
      then (Inl (Message (''username must be 3'' @ en_dash @ ''64 characters without spaces'')), s)
      else if ui_Password input \<noteq> ui_ConfirmPassword input then (Inl (Message ''passwords do not match''), s)
      else case HashPassword (en_salt E) (ui_Password input) of
        Inl e \<Rightarrow> (Inl (FromPassword e), s)
      | Inr hash \<Rightarrow>
          (case input_grants (ui_AllowedEgress input) of
             Inl e \<Rightarrow> (Inl (FromEgress e), s)
           | Inr grants \<Rightarrow>
               (case CreateUser (en_time E) username hash (ui_IsAdmin input) (FormatGrants grants) (wb_db s) of
                  (Inl e, d) \<Rightarrow> (Inl (FromDatabase e), set_db d s)
                | (Inr user, d) \<Rightarrow> (Inr user, set_db d s))))"

definition createUser :: "User \<Rightarrow> handler" where
  "createUser user E r s =
     (if \<not> sameOrigin E r then (cross_origin, s)
      else if rq_Form r = None then (renderError (Some user) 400 (Message ''invalid user form''), s)
      else (case storeUser E \<lparr>ui_Username = FormValue r ''username'', ui_Password = FormValue r ''password'',
            ui_ConfirmPassword = FormValue r ''confirm_password'', ui_IsAdmin = (FormValue r ''is_admin'' = ''true''),
            ui_AllowedEgress = None\<rparr> s of
          (Inl e, s) \<Rightarrow> (renderError (Some user) 422 e, s)
        | (Inr _, s) \<Rightarrow> (Redirect E r ''/users'' 303, s)))"

definition set_grants :: "int \<Rightarrow> Mode list \<Rightarrow> web \<Rightarrow> bool \<times> web" where
  "set_grants i grants s =
     (case SetUserEgress i (FormatGrants grants) (wb_db s) of (e, d) \<Rightarrow> (e = None, set_db d s))"

definition setUserEgress :: "User \<Rightarrow> handler" where
  "setUserEgress user E r s =
     (if \<not> sameOrigin E r then (cross_origin, s)
      else if rq_Form r = None then (renderError (Some user) 400 (Message ''invalid form''), s)
      else case positive_id (PathValue r ''id'') of
        None \<Rightarrow> (renderError (Some user) 400 (Message ''invalid user id''), s)
      | Some i \<Rightarrow>
          (case ValidateGrants (FormValues r ''allowed_egress'') of
             Inl e \<Rightarrow> (renderError (Some user) 422 (FromEgress e), s)
           | Inr grants \<Rightarrow>
               (case set_grants i grants s of
                  (False, s) \<Rightarrow> (renderError (Some user) 404 (Message ''user not found''), s)
                | (True, s) \<Rightarrow> (Redirect E r ''/users'' 303, s))))"

subsection \<open>VPN profiles\<close>

definition listed_profiles :: "User \<Rightarrow> db \<Rightarrow> VPNProfile list" where
  "listed_profiles user d =
     (if u_IsAdmin user then ListVPNProfiles False d else ListVPNProfilesForUser user False d)"

definition vpnProfilesPage :: "User \<Rightarrow> handler" where
  "vpnProfilesPage user E r s =
     (render ''vpn-profiles.html'' (no_page\<lparr>pd_Title := ''VPN profiles'', pd_User := Some user,
        pd_VPNProfiles := listed_profiles user (wb_db s)\<rparr>), s)"

definition store_profile :: "web_env \<Rightarrow> User \<Rightarrow> vpnProfileInput \<Rightarrow> web \<Rightarrow> (api_error, VPNProfile) result \<times> web" where
  "store_profile E user input s =
     (case storeVPNProfile (en_world E) (en_time E) user input (wb_server s) of (q, sv) \<Rightarrow> (q, s\<lparr>wb_server := sv\<rparr>))"

definition createVPNProfile :: "User \<Rightarrow> handler" where
  "createVPNProfile user E r s =
     (if \<not> sameOrigin E r then (cross_origin, s)
      else if rq_Form r = None then (renderError (Some user) 400 (Message ''invalid VPN profile form''), s)
      else (case store_profile E user \<lparr>vi_Name = FormValue r ''name'', vi_Visibility = FormValue r ''visibility'',
            vi_AutoAssign = (FormValue r ''auto_assign'' = ''true''),
            vi_WireGuardConfig = FormValue r ''wireguard_config''\<rparr> s of
          (Inl e, s) \<Rightarrow> (renderError (Some user) 422 (FromApi e), s)
        | (Inr _, s) \<Rightarrow> (Redirect E r ''/vpn-profiles'' 303, s)))"

definition enable_profile :: "web_env \<Rightarrow> int \<Rightarrow> User \<Rightarrow> bool \<Rightarrow> web \<Rightarrow> bool \<times> web" where
  "enable_profile E i user enabled s =
     (case SetVPNProfileEnabled (en_time E) i user enabled (wb_db s) of (e, d) \<Rightarrow> (e = None, set_db d s))"

definition setVPNProfileEnabled_form :: "User \<Rightarrow> handler" where
  "setVPNProfileEnabled_form user E r s =
     (if \<not> sameOrigin E r then (cross_origin, s)
      else case ParseInt64 (PathValue r ''id'') of
        None \<Rightarrow> (renderError (Some user) 400 (Message ''invalid VPN profile id''), s)
      | Some i \<Rightarrow>
          if rq_Form r = None then (renderError (Some user) 400 (Message ''invalid form''), s)
          else (case enable_profile E i user (FormValue r ''enabled'' = ''true'') s of
              (False, s) \<Rightarrow> (renderError (Some user) 404 (Message ''VPN profile not found''), s)
            | (True, s) \<Rightarrow> (Redirect E r ''/vpn-profiles'' 303, s)))"

subsection \<open>Colours\<close>

text \<open>
  The requests for the style sheet come without the wrappers, so no user and no share is known for
  them; the accents are looked up with the cookie, and looking up a session notes its use.
\<close>

definition session_user :: "web_env \<Rightarrow> web_request \<Rightarrow> web \<Rightarrow> User option \<times> web" where
  "session_user E r s =
     (case request_Cookie r ''wm_session'' of
        None \<Rightarrow> (None, s)
      | Some v \<Rightarrow>
          (case SessionUser (en_time E) (TokenHash v) (wb_db s) of
             (Inl _, d) \<Rightarrow> (None, set_db d s)
           | (Inr user, d) \<Rightarrow> (Some user, set_db d s)))"

definition viewerAccent :: "web_env \<Rightarrow> web_request \<Rightarrow> web \<Rightarrow> string \<times> web" where
  "viewerAccent E r s =
     (case session_user E r s of (None, s) \<Rightarrow> ([], s) | (Some user, s) \<Rightarrow> (u_AccentColor user, s))"

definition workstationAccent :: "web_env \<Rightarrow> web_request \<Rightarrow> web \<Rightarrow> string \<times> web" where
  "workstationAccent E r s =
     (let i = TrimSpace (first_value (rq_Query r) ''workstation'');
          i = (if i = [] then workstationHostname E r else i)
      in if i = [] then ([], s)
         else (case session_user E r s of
             (None, s) \<Rightarrow> ([], s)
           | (Some user, s) \<Rightarrow>
               (case Workstation_lookup i user (wb_db s) of
                  Inl _ \<Rightarrow> ([], s) | Inr ws \<Rightarrow> (ws_AccentColor ws, s))))"

definition request_palette :: "web_env \<Rightarrow> web_request \<Rightarrow> web \<Rightarrow> Palette \<times> web" where
  "request_palette E r s =
     (case viewerAccent E r s of
        (viewer, s) \<Rightarrow>
          (case workstationAccent E r s of (ws, s) \<Rightarrow> (Resolve_theme (en_pow E) viewer ws, s)))"

definition themeStylesheet :: handler where
  "themeStylesheet E r s =
     (case request_palette E r s of
        (palette, s) \<Rightarrow>
          ((answer 200 (Web_Base.Css (CSS palette)))\<lparr>rp_Headers :=
             [(''Content-Type'', ''text/css; charset=utf-8''), (''Cache-Control'', ''private, no-store'')]\<rparr>, s))"

definition apiTheme :: handler where
  "apiTheme E r s =
     (case request_palette E r s of (palette, s) \<Rightarrow> (writeJSON 200 (JThemes palette Presets DefaultAccent), s))"

definition appearancePage :: "User \<Rightarrow> handler" where
  "appearancePage user E r s =
     (render ''appearance.html'' (no_page\<lparr>pd_Title := ''Appearance'', pd_User := Some user,
        pd_Theme := Some (resolveTheme E (Some user) []), pd_Presets := Presets\<rparr>), s)"

definition bad_colour :: web_error where
  "bad_colour = Message ''accent colour must be a six-digit hex value such as #ff6b00''"

definition setUserAccent_form :: "User \<Rightarrow> handler" where
  "setUserAccent_form user E r s =
     (if \<not> sameOrigin E r then (cross_origin, s)
      else if rq_Form r = None then (renderError (Some user) 400 (Message ''invalid appearance form''), s)
      else case normalizeAccentInput (FormValue r ''accent_color'') of
        None \<Rightarrow> (renderError (Some user) 422 bad_colour, s)
      | Some accent \<Rightarrow>
          (Redirect E r ''/appearance'' 303, set_db (SetUserAccent (u_ID user) accent (wb_db s)) s))"

definition accent_of_workstation :: "web_env \<Rightarrow> string \<Rightarrow> User \<Rightarrow> string \<Rightarrow> web \<Rightarrow> bool \<times> web" where
  "accent_of_workstation E i user accent s =
     (case SetWorkstationAccent (en_time E) i user accent (wb_db s) of (e, d) \<Rightarrow> (e = None, set_db d s))"

definition setWorkstationAccent_form :: "User \<Rightarrow> handler" where
  "setWorkstationAccent_form user E r s =
     (if \<not> sameOrigin E r then (cross_origin, s)
      else if rq_Form r = None then (renderError (Some user) 400 (Message ''invalid appearance form''), s)
      else case normalizeAccentInput (FormValue r ''accent_color'') of
        None \<Rightarrow> (renderError (Some user) 422 bad_colour, s)
      | Some accent \<Rightarrow>
          (case accent_of_workstation E (PathValue r ''id'') user accent s of
             (False, s) \<Rightarrow> (no_workstation user, s)
           | (True, s) \<Rightarrow> (Redirect E r (''/workstations/'' @ PathValue r ''id'') 303, s)))"

subsection \<open>The app store\<close>

text \<open>\<^verbatim>\<open>approveStoreManifest\<close>, the callback of the store's manager.\<close>

definition approveStoreManifest ::
  "web_env \<Rightarrow> nat \<Rightarrow> node \<Rightarrow> Manifest \<Rightarrow> string list \<Rightarrow> string check" where
  "approveStoreManifest E k t manifest path =
     (case stat_path t path of
        Some (File data) \<Rightarrow> en_ApproveApp E k (manifestAppSpec manifest (hex_encode (Sum256 data)))
      | _ \<Rightarrow> Some ''cannot read the manifest'')"

definition store_world_of :: "web_env \<Rightarrow> store_world" where
  "store_world_of E = (en_store E)\<lparr>sw_approve := approveStoreManifest E\<rparr>"

text \<open>A call of the manager, on the files of the server.\<close>

definition run_store :: "(store_world \<Rightarrow> store_config \<Rightarrow> 'a task) \<Rightarrow> web_env \<Rightarrow> web \<Rightarrow> (store_error, 'a) result \<times> web" where
  "run_store op E s =
     (case op (store_world_of E) (wb_store s) (wb_disk s) of (q, disk) \<Rightarrow> (q, s\<lparr>wb_disk := disk\<rparr>))"

definition store_sync :: "web_env \<Rightarrow> web \<Rightarrow> (store_error, Index) result \<times> web" where
  "store_sync E s = run_store (\<lambda>W. Sync W (en_store_text E)) E s"

definition store_install :: "string \<Rightarrow> web_env \<Rightarrow> web \<Rightarrow> (store_error, InstalledRecord) result \<times> web" where
  "store_install i E s = run_store (\<lambda>W cfg. Install W cfg i) E s"

definition store_rollback :: "string \<Rightarrow> web_env \<Rightarrow> web \<Rightarrow> (store_error, InstalledRecord) result \<times> web" where
  "store_rollback i E s = run_store (\<lambda>W cfg. Rollback W cfg i) E s"

definition store_views :: "web_env \<Rightarrow> web \<Rightarrow> (store_error, AppView list) result \<times> SyncStatus \<times> web" where
  "store_views E s =
     (case Views (store_world_of E) (wb_store s) (wb_disk s) of
        (q, stat, disk) \<Rightarrow> (q, stat, s\<lparr>wb_disk := disk\<rparr>))"

definition appStorePage :: "User \<Rightarrow> handler" where
  "appStorePage user E r s =
     (case store_views E s of
        (q, stat, s) \<Rightarrow>
          (render ''app-store.html'' (no_page\<lparr>pd_Title := ''App store'', pd_User := Some user,
             pd_StoreApps := (case q of Inl _ \<Rightarrow> [] | Inr views \<Rightarrow> views), pd_StoreStatus := stat,
             pd_Error := (if sy_Error stat \<noteq> [] then Some (SyncFailed (sy_Error stat)) else None),
             pd_Notice := (case q of Inl _ \<Rightarrow> ''Synchronize the catalogue to browse optional apps.'' | Inr _ \<Rightarrow> [])\<rparr>), s))"

definition appStoreSync :: "User \<Rightarrow> handler" where
  "appStoreSync user E r s =
     (case store_sync E s of
        (Inl e, s) \<Rightarrow> (renderError (Some user) 502 (FromStore e), s)
      | (Inr _, s) \<Rightarrow> (Redirect E r ''/app-store'' 303, s))"

definition appStoreInstall :: "User \<Rightarrow> handler" where
  "appStoreInstall user E r s =
     (case store_install (PathValue r ''id'') E s of
        (Inl e, s) \<Rightarrow> (renderError (Some user) 422 (FromStore e), s)
      | (Inr _, s) \<Rightarrow> rescan_then E user (Redirect E r ''/app-store'' 303) s)"

definition appStoreRollback :: "User \<Rightarrow> handler" where
  "appStoreRollback user E r s =
     (case store_rollback (PathValue r ''id'') E s of
        (Inl e, s) \<Rightarrow> (renderError (Some user) 422 (FromStore e), s)
      | (Inr _, s) \<Rightarrow> rescan_then E user (Redirect E r ''/app-store'' 303) s)"

end
