(* ===== verification/Web_API.thy ===== *)
theory Web_API
  imports Web_Settings
begin

text \<open>
  The JSON interface, \<^verbatim>\<open>internal/httpapi/api.go\<close>, with the JSON handlers of
  \<^verbatim>\<open>theme.go\<close> and the probes of \<^verbatim>\<open>server.go\<close>.
\<close>

text \<open>
  \<^verbatim>\<open>decodeAPIJSON\<close>: at most a mebibyte is read; after the value nothing but white space
  may follow.
\<close>

definition maxBody :: nat where
  "maxBody = 1048576"

definition decodeAPIJSON ::
  "(string \<Rightarrow> ('a \<times> string) option) \<Rightarrow> web_request \<Rightarrow> (web_error, 'a) result" where
  "decodeAPIJSON decode r =
     (case decode (take maxBody (rq_Body r)) of
        None \<Rightarrow> Inl (Message ''invalid JSON'')
      | Some (v, rest) \<Rightarrow>
          if ensureJSONEnd rest \<and> length (rq_Body r) \<le> maxBody then Inr v
          else Inl (Message ''trailing JSON is not allowed''))"

definition with_json ::
  "(string \<Rightarrow> ('a \<times> string) option) \<Rightarrow> web_request \<Rightarrow> web \<Rightarrow> ('a \<Rightarrow> web_reply \<times> web) \<Rightarrow> web_reply \<times> web" where
  "with_json decode r s k =
     (case decodeAPIJSON decode r of Inl e \<Rightarrow> (json_error 400 e, s) | Inr v \<Rightarrow> k v)"

text \<open>The lookup with which most handlers begin.\<close>

definition with_workstation ::
  "User \<Rightarrow> web_request \<Rightarrow> web \<Rightarrow> (Workstation \<Rightarrow> web_reply \<times> web) \<Rightarrow> web_reply \<times> web" where
  "with_workstation user r s k =
     (case Workstation_lookup (PathValue r ''id'') user (wb_db s) of
        Inl _ \<Rightarrow> (json_error 404 (Message ''workstation not found''), s)
      | Inr ws \<Rightarrow> k ws)"

subsection \<open>Status\<close>

definition web_health :: handler where
  "web_health E r s = (writeJSON 200 (JStatus ''ok''), s)"

definition web_ready :: handler where
  "web_ready E r s =
     (case en_integrity E of
        Some e \<Rightarrow> (writeJSON 503 (JUnready ''database'' (FromWorker e)), s)
      | None \<Rightarrow>
          (case en_Health E of
             Some e \<Rightarrow> (writeJSON 503 (JUnready ''worker'' (FromWorker e)), s)
           | None \<Rightarrow> (writeJSON 200 (JStatus ''ready''), s)))"

definition apiStatus :: "User \<Rightarrow> handler" where
  "apiStatus user E r s =
     (case en_Health E of
        None \<Rightarrow> (writeJSON 200 (JHealth ''ok'' ''ok'' ''ok''), s)
      | Some e \<Rightarrow> (writeJSON 200 (JHealth ''degraded'' ''ok'' e), s))"

subsection \<open>Workstations\<close>

definition apiWorkstations :: "User \<Rightarrow> handler" where
  "apiWorkstations user E r s = (writeJSON 200 (JWorkstations (ListWorkstations user (wb_db s))), s)"

definition apiWorkstation :: "User \<Rightarrow> handler" where
  "apiWorkstation user E r s = with_workstation user r s (\<lambda>ws. (writeJSON 200 (JWorkstation ws), s))"

definition apiCreateWorkstation :: "User \<Rightarrow> handler" where
  "apiCreateWorkstation user E r s =
     with_json (js_create (en_json E)) r s (\<lambda>input.
       case create_and_start E user input s of
         (Inl e, s) \<Rightarrow> (json_error 422 (FromApi e), s)
       | (Inr ws, s) \<Rightarrow> (writeJSON 202 (JWorkstation ws), s))"

definition apiWorkstationAction :: "User \<Rightarrow> handler" where
  "apiWorkstationAction user E r s =
     (case act_and_start E user (PathValue r ''id'') (PathValue r ''action'') s of
        (Some e, s) \<Rightarrow> (json_error 422 (FromApi e), s)
      | (None, s) \<Rightarrow> (writeJSON 202 (JStatus ''accepted''), s))"

definition apiUsage :: "User \<Rightarrow> handler" where
  "apiUsage user E r s =
     with_workstation user r s (\<lambda>ws.
       (case en_Usage E (ws_ID ws) of
          Inl e \<Rightarrow> json_error 502 (FromWorker e) | Inr usage \<Rightarrow> writeJSON 200 (JUsage (ws_ID ws) usage), s))"

definition apiEgress :: "User \<Rightarrow> handler" where
  "apiEgress user E r s =
     with_workstation user r s (\<lambda>ws.
       (case en_Egress E (ws_ID ws) of
          Inl e \<Rightarrow> json_error 502 (FromWorker e)
        | Inr stat \<Rightarrow>
            writeJSON 200 (JEgress (if es_Mode stat = []
              then stat\<lparr>es_Mode := Resolve (ws_EgressMode ws) (ws_VPNRequired ws)\<rparr> else stat)), s))"

definition log_tail :: "string \<Rightarrow> int option" where
  "log_tail raw =
     (if raw = [] then Some 200
      else case Atoi raw of
        None \<Rightarrow> None | Some n \<Rightarrow> if n < 1 \<or> n > 1000 then None else Some n)"

definition apiLogs :: "User \<Rightarrow> handler" where
  "apiLogs user E r s =
     with_workstation user r s (\<lambda>ws.
       (let appID = PathValue r ''app'' in
        if \<not> list_ex (\<lambda>a. wa_AppID a = appID) (ws_Apps ws) then (json_error 404 (Message ''app not installed''), s)
        else case log_tail (first_value (rq_Query r) ''tail'') of
          None \<Rightarrow> (json_error 400 (Message ''tail must be between 1 and 1000''), s)
        | Some n \<Rightarrow>
            (case en_Logs E (ws_ID ws) appID n of
               Inl e \<Rightarrow> (json_error 502 (FromWorker e), s)
             | Inr logs \<Rightarrow> (writeJSON 200 (JLogs (ws_ID ws) appID n logs), s))))"

subsection \<open>Shares\<close>

definition apiShares :: "User \<Rightarrow> handler" where
  "apiShares user E r s =
     with_workstation user r s (\<lambda>ws.
       (case ListShares (w_unmarshal (en_world E)) (ws_ID ws) (wb_db s) of
          Inl e \<Rightarrow> json_error 500 (FromDatabase e) | Inr shares \<Rightarrow> writeJSON 200 (JShares shares), s))"

definition apiCreateShare :: "User \<Rightarrow> handler" where
  "apiCreateShare user E r s =
     with_workstation user r s (\<lambda>ws.
     with_json (js_share (en_json E)) r s (\<lambda>input.
       case parseShareInput (en_now E) (si_Permissions input) (Itoa (si_ExpiresHours input))
           (Itoa (si_MaxUses input)) (si_NamedRecipient input) of
         Inl e \<Rightarrow> (json_error 422 e, s)
       | Inr parsed \<Rightarrow>
           (case new_share E user ws parsed s of
              (Inl e, s) \<Rightarrow> (json_error 500 e, s)
            | (Inr (share, link), s) \<Rightarrow> (writeJSON 201 (JShare share link), s))))"

definition apiRevokeShare :: "User \<Rightarrow> handler" where
  "apiRevokeShare user E r s =
     with_workstation user r s (\<lambda>ws.
       case positive_id (PathValue r ''share'') of
         None \<Rightarrow> (json_error 400 (Message ''invalid share id''), s)
       | Some shareID \<Rightarrow>
           (case revoke_share E ws shareID s of
              (False, s) \<Rightarrow> (json_error 404 (Message ''share not found or already revoked''), s)
            | (True, s) \<Rightarrow> (writeJSON 200 (JStatus ''revoked''), s)))"

subsection \<open>Apps, templates and the store\<close>

definition apiApps :: "User \<Rightarrow> handler" where
  "apiApps user E r s = (writeJSON 200 (JEntries (Entries (sv_apps (wb_server s)))), s)"

definition apiTemplates :: "User \<Rightarrow> handler" where
  "apiTemplates user E r s = (writeJSON 200 (JTemplates (All_templates (sv_presets (wb_server s)))), s)"

definition apiAppStore :: "User \<Rightarrow> handler" where
  "apiAppStore user E r s =
     (case store_views E s of
        (Inl e, stat, s) \<Rightarrow> (writeJSON 503 (JErrorSync (FromStore e) stat), s)
      | (Inr views, stat, s) \<Rightarrow> (writeJSON 200 (JStore stat views), s))"

definition apiAppStoreSync :: "User \<Rightarrow> handler" where
  "apiAppStoreSync user E r s =
     (case store_sync E s of
        (Inl e, s) \<Rightarrow> (json_error 502 (FromStore e), s) | (Inr index, s) \<Rightarrow> (writeJSON 200 (JIndex index), s))"

definition rescan_json :: "web_env \<Rightarrow> int \<Rightarrow> json \<Rightarrow> web \<Rightarrow> web_reply \<times> web" where
  "rescan_json E code v s =
     (case rescan E s of (Some e, s) \<Rightarrow> (json_error code e, s) | (None, s) \<Rightarrow> (writeJSON 200 v, s))"

definition apiAppStoreInstall :: "User \<Rightarrow> handler" where
  "apiAppStoreInstall user E r s =
     (case store_install (PathValue r ''id'') E s of
        (Inl e, s) \<Rightarrow> (json_error 422 (FromStore e), s)
      | (Inr installed, s) \<Rightarrow> rescan_json E 500 (JInstalled installed) s)"

definition apiAppStoreRollback :: "User \<Rightarrow> handler" where
  "apiAppStoreRollback user E r s =
     (case store_rollback (PathValue r ''id'') E s of
        (Inl e, s) \<Rightarrow> (json_error 422 (FromStore e), s)
      | (Inr installed, s) \<Rightarrow> rescan_json E 500 (JInstalled installed) s)"

definition apiRescan :: "User \<Rightarrow> handler" where
  "apiRescan user E r s = rescan_json E 422 (JStatus ''rescanned'') s"

subsection \<open>VPN profiles and users\<close>

definition apiVPNProfiles :: "User \<Rightarrow> handler" where
  "apiVPNProfiles user E r s = (writeJSON 200 (JProfiles (listed_profiles user (wb_db s))), s)"

definition apiCreateVPNProfile :: "User \<Rightarrow> handler" where
  "apiCreateVPNProfile user E r s =
     with_json (js_profile (en_json E)) r s (\<lambda>input.
       case store_profile E user input s of
         (Inl e, s) \<Rightarrow> (json_error 422 (FromApi e), s)
       | (Inr profile, s) \<Rightarrow> (writeJSON 201 (JProfile profile), s))"

definition apiSetVPNProfileEnabled :: "User \<Rightarrow> handler" where
  "apiSetVPNProfileEnabled user E r s =
     (case positive_id (PathValue r ''id'') of
        None \<Rightarrow> (json_error 400 (Message ''invalid VPN profile id''), s)
      | Some i \<Rightarrow>
          with_json (js_enabled (en_json E)) r s (\<lambda>enabled.
            case enable_profile E i user enabled s of
              (False, s) \<Rightarrow> (json_error 404 (Message ''VPN profile not found''), s)
            | (True, s) \<Rightarrow> (writeJSON 200 (JEnabled i enabled), s)))"

definition apiUsers :: "User \<Rightarrow> handler" where
  "apiUsers user E r s = (writeJSON 200 (JUsers (ListUsers (wb_db s))), s)"

definition apiCreateUser :: "User \<Rightarrow> handler" where
  "apiCreateUser user E r s =
     with_json (js_user (en_json E)) r s (\<lambda>input.
       case storeUser E input s of
         (Inl e, s) \<Rightarrow> (json_error 422 e, s) | (Inr created, s) \<Rightarrow> (writeJSON 201 (JUser created), s))"

definition apiSetUserEgress :: "User \<Rightarrow> handler" where
  "apiSetUserEgress user E r s =
     (case positive_id (PathValue r ''id'') of
        None \<Rightarrow> (json_error 400 (Message ''invalid user id''), s)
      | Some i \<Rightarrow>
          with_json (js_egress (en_json E)) r s (\<lambda>vals.
            case ValidateGrants vals of
              Inl e \<Rightarrow> (json_error 422 (FromEgress e), s)
            | Inr grants \<Rightarrow>
                (case set_grants i grants s of
                   (False, s) \<Rightarrow> (json_error 404 (Message ''user not found''), s)
                 | (True, s) \<Rightarrow> (writeJSON 200 (JUserEgress i (FormatGrants grants)), s))))"

subsection \<open>Colours\<close>

definition apiSetUserAccent :: "User \<Rightarrow> handler" where
  "apiSetUserAccent user E r s =
     with_json (js_accent (en_json E)) r s (\<lambda>v.
       case normalizeAccentInput v of
         None \<Rightarrow> (json_error 422 bad_colour, s)
       | Some accent \<Rightarrow>
           (writeJSON 200 (JTheme (Resolve_theme (en_pow E) accent [])),
            set_db (SetUserAccent (u_ID user) accent (wb_db s)) s))"

definition apiSetWorkstationAccent :: "User \<Rightarrow> handler" where
  "apiSetWorkstationAccent user E r s =
     with_json (js_accent (en_json E)) r s (\<lambda>v.
       case normalizeAccentInput v of
         None \<Rightarrow> (json_error 422 bad_colour, s)
       | Some accent \<Rightarrow>
           (case accent_of_workstation E (PathValue r ''id'') user accent s of
              (False, s) \<Rightarrow> (json_error 404 (Message ''workstation not found''), s)
            | (True, s) \<Rightarrow> (writeJSON 200 (JTheme (Resolve_theme (en_pow E) (u_AccentColor user) accent)), s)))"

subsection \<open>Administration\<close>

definition apiReconcile :: "User \<Rightarrow> handler" where
  "apiReconcile user E r s =
     (case Reconcile (en_world E) (en_time E) (wb_server s) of
        (Some e, sv) \<Rightarrow> (json_error 502 (FromWorker e), s\<lparr>wb_server := sv\<rparr>)
      | (None, sv) \<Rightarrow> (writeJSON 200 (JStatus ''reconciled''), s\<lparr>wb_server := sv\<rparr>))"

definition backup_root :: string where
  "backup_root = ''/data/backups''"

definition backup_path_refused :: "string \<Rightarrow> bool" where
  "backup_path_refused clean =
     (clean \<noteq> backup_root \<and> length clean > length (backup_root @ ''/'') \<and>
      take (length (backup_root @ ''/'')) clean \<noteq> backup_root @ ''/'')"

text \<open>\<open>en_backup\<close> is what copying the database to a path fails with.\<close>

definition apiBackup :: "User \<Rightarrow> handler" where
  "apiBackup user E r s =
     with_json (js_path (en_json E)) r s (\<lambda>path.
       let path = (if path = [] then backup_root @ ''/controller-'' @ en_date E @ ''.db'' else path);
           clean = Clean path
       in if backup_path_refused clean
          then (json_error 422 (Message ''backup path must be under /data/backups''), s)
          else (case en_backup E clean of
              Some e \<Rightarrow> (json_error 500 (FromWorker e), s)
            | None \<Rightarrow> (writeJSON 200 (JBackup clean), s\<lparr>wb_backups := wb_backups s @ [clean]\<rparr>)))"

end
