(* ===== verification/Web_Server.thy ===== *)
theory Web_Server
  imports Web_API
begin

text \<open>
  The controller's server as a whole: the table of routes of \<^verbatim>\<open>Handler\<close> in
  \<^verbatim>\<open>internal/httpapi/server.go\<close> with the wrapper of every route, the multiplexer that
  finds the route, and the service of a request. No two patterns of the table match one request, so
  the order of the table does not matter.
\<close>

subsection \<open>Routes\<close>

datatype access =
    Public handler
  | ForUser "User \<Rightarrow> handler"
  | ForAdmin "User \<Rightarrow> handler"
  | ForShare "Share \<Rightarrow> handler"

definition run_access :: "access \<Rightarrow> handler" where
  "run_access a =
     (case a of
        Public h \<Rightarrow> h
      | ForUser h \<Rightarrow> requireUser h
      | ForAdmin h \<Rightarrow> requireAdmin h
      | ForShare h \<Rightarrow> requireShare h)"

text \<open>The files of the user interface are built into the program.\<close>

definition static_files :: handler where
  "static_files E r s = (answer 200 (Asset (hr_Path r)), s)"

definition parse_segment :: "string \<Rightarrow> segment" where
  "parse_segment p =
     (if p = ''{$}'' then Lit [] else if HasPrefix p ''{'' then Wild (butlast (tl p)) else Lit p)"

definition parse_pattern :: "string \<Rightarrow> mux_pattern" where
  "parse_pattern p =
     (let (method, path) = (case Cut p (CHR '' '') of (a, b, found) \<Rightarrow> if found then (a, b) else ([], p));
          segments = Split (drop 1 path) (CHR ''/''); subtree = (last segments = [])
      in \<lparr>mp_Method = method, mp_Segments = map parse_segment (if subtree then butlast segments else segments),
          mp_Subtree = subtree\<rparr>)"

definition page_routes :: "(string \<times> access) list" where
  "page_routes =
     [(''GET /static/'', Public static_files),
      (''GET /healthz'', Public web_health),
      (''GET /readyz'', Public web_ready),
      (''GET /theme.css'', Public themeStylesheet),
      (''GET /setup'', Public setupGet),
      (''POST /setup'', Public setupPost),
      (''GET /login'', Public loginGet),
      (''POST /login'', Public loginPost),
      (''POST /logout'', ForUser (\<lambda>user. logout)),
      (''GET /{$}'', ForUser web_root),
      (''POST /workstations'', ForUser createWorkstation),
      (''GET /templates'', ForUser templatesPage),
      (''POST /templates'', ForAdmin createCustomTemplate),
      (''POST /templates/{id}/delete'', ForAdmin deleteCustomTemplate),
      (''GET /appearance'', ForUser appearancePage),
      (''POST /appearance'', ForUser setUserAccent_form),
      (''POST /workstations/{id}/accent'', ForUser setWorkstationAccent_form),
      (''GET /users'', ForAdmin usersPage),
      (''POST /users'', ForAdmin createUser),
      (''POST /users/{id}/egress'', ForAdmin setUserEgress),
      (''GET /vpn-profiles'', ForUser vpnProfilesPage),
      (''POST /vpn-profiles'', ForUser createVPNProfile),
      (''POST /vpn-profiles/{id}/enabled'', ForUser setVPNProfileEnabled_form),
      (''GET /app-store'', ForUser appStorePage),
      (''POST /app-store/sync'', ForAdmin appStoreSync),
      (''POST /app-store/apps/{id}/install'', ForAdmin appStoreInstall),
      (''POST /app-store/apps/{id}/rollback'', ForAdmin appStoreRollback),
      (''GET /workstations/{id}'', ForUser workstationPage),
      (''GET /workstations/{id}/desktop'', ForUser desktopPage),
      (''POST /workstations/{id}/actions/{action}'', ForUser workstationAction),
      (''POST /workstations/{id}/shares'', ForUser createShare),
      (''POST /workstations/{id}/shares/{share}/revoke'', ForUser revokeShare),
      (''/workstations/{id}/apps/{app}/'', ForUser proxyExplicit),
      (''/apps/{app}/'', ForUser proxyHostname),
      (''GET /share/{token}'', Public redeemShare),
      (''GET /shared/{id}'', ForShare sharedLauncher),
      (''/shared/{id}/apps/{app}/'', ForShare proxyShared),
      (''POST /shared/{id}/actions/{action}'', ForShare sharedAction),
      (''POST /shared/{id}/logout'', ForShare sharedLogout)]"

definition api_routes :: "(string \<times> access) list" where
  "api_routes =
     [(''GET /api/v1/status'', ForUser apiStatus),
      (''GET /api/v1/workstations'', ForUser apiWorkstations),
      (''POST /api/v1/workstations'', ForUser apiCreateWorkstation),
      (''GET /api/v1/workstations/{id}'', ForUser apiWorkstation),
      (''POST /api/v1/workstations/{id}/actions/{action}'', ForUser apiWorkstationAction),
      (''GET /api/v1/workstations/{id}/usage'', ForUser apiUsage),
      (''GET /api/v1/workstations/{id}/egress'', ForUser apiEgress),
      (''GET /api/v1/workstations/{id}/apps/{app}/logs'', ForUser apiLogs),
      (''GET /api/v1/workstations/{id}/shares'', ForUser apiShares),
      (''POST /api/v1/workstations/{id}/shares'', ForUser apiCreateShare),
      (''POST /api/v1/workstations/{id}/shares/{share}/revoke'', ForUser apiRevokeShare),
      (''GET /api/v1/theme'', Public apiTheme),
      (''POST /api/v1/theme'', ForUser apiSetUserAccent),
      (''POST /api/v1/workstations/{id}/theme'', ForUser apiSetWorkstationAccent),
      (''GET /api/v1/apps'', ForUser apiApps),
      (''GET /api/v1/app-store'', ForUser apiAppStore),
      (''GET /api/v1/templates'', ForUser apiTemplates),
      (''GET /api/v1/vpn-profiles'', ForUser apiVPNProfiles),
      (''POST /api/v1/vpn-profiles'', ForUser apiCreateVPNProfile),
      (''POST /api/v1/vpn-profiles/{id}/enabled'', ForUser apiSetVPNProfileEnabled),
      (''GET /api/v1/users'', ForAdmin apiUsers),
      (''POST /api/v1/users'', ForAdmin apiCreateUser),
      (''POST /api/v1/users/{id}/egress'', ForAdmin apiSetUserEgress),
      (''POST /api/v1/admin/rescan'', ForAdmin apiRescan),
      (''POST /api/v1/admin/app-store/sync'', ForAdmin apiAppStoreSync),
      (''POST /api/v1/admin/app-store/apps/{id}/install'', ForAdmin apiAppStoreInstall),
      (''POST /api/v1/admin/app-store/apps/{id}/rollback'', ForAdmin apiAppStoreRollback),
      (''POST /api/v1/admin/reconcile'', ForAdmin apiReconcile),
      (''POST /api/v1/admin/backup'', ForAdmin apiBackup)]"

definition routes :: "(string \<times> access) list" where
  "routes = page_routes @ api_routes"

subsection \<open>The multiplexer\<close>

definition match_pattern :: "string \<Rightarrow> string \<Rightarrow> string \<Rightarrow> (string \<times> string) list option" where
  "match_pattern p method path =
     (let q = parse_pattern p in
      if method_matches (mp_Method q) method
      then match_segments (mp_Segments q) (mp_Subtree q) (path_segments path) else None)"

fun find_route :: "(string \<times> 'a) list \<Rightarrow> string \<Rightarrow> string \<Rightarrow> ('a \<times> (string \<times> string) list) option" where
  "find_route [] method path = None"
| "find_route ((p, a) # rest) method path =
     (case match_pattern p method path of
        Some vals \<Rightarrow> Some (a, vals)
      | None \<Rightarrow> find_route rest method path)"

definition request_path :: "web_request \<Rightarrow> string" where
  "request_path r =
     (if hr_Method r = ''CONNECT'' then rq_EscapedPath r else cleanPath (rq_EscapedPath r))"

definition moved :: "web_request \<Rightarrow> string \<Rightarrow> web_reply" where
  "moved r path = answer 301 (Redirected (path @ (if rq_RawQuery r = [] then [] else ''?'' @ rq_RawQuery r)))"

text \<open>A path that only lacks the slash of a pattern for a subtree.\<close>

definition lacks_slash :: "string \<Rightarrow> string \<Rightarrow> bool" where
  "lacks_slash method path =
     (\<not> HasSuffix path ''/'' \<and>
      list_ex (\<lambda>(p, _). mp_Subtree (parse_pattern p) \<and> match_pattern p method (path @ ''/'') \<noteq> None \<and>
        length (mp_Segments (parse_pattern p)) + 1 = length (path_segments (path @ ''/''))) routes)"

definition other_methods :: "string \<Rightarrow> bool" where
  "other_methods path =
     list_ex (\<lambda>(p, _). match_pattern p (mp_Method (parse_pattern p)) path \<noteq> None) routes"

definition mux :: handler where
  "mux E r s =
     (let path = request_path r in
      case find_route routes (hr_Method r) path of
        Some (a, vals) \<Rightarrow>
          if path \<noteq> rq_EscapedPath r then (moved r path, s)
          else run_access a E (r\<lparr>rq_Values := vals\<rparr>) s
      | None \<Rightarrow>
          (if lacks_slash (hr_Method r) path then moved r (path @ ''/'')
           else if path \<noteq> rq_EscapedPath r then moved r path
           else if other_methods path then http_Error ''Method Not Allowed'' 405
           else NotFound, s))"

text \<open>\<^verbatim>\<open>securityHeaders\<close> around the multiplexer; the request log is not modelled.\<close>

definition serve :: handler where
  "serve E r s =
     (case mux E r s of (q, s') \<Rightarrow> (q\<lparr>rp_Headers := securityHeaders r @ rp_Headers q\<rparr>, s'))"

lemma serve_body [simp]: "rp_Body (fst (serve E r s)) = rp_Body (fst (mux E r s))"
  "rp_Status (fst (serve E r s)) = rp_Status (fst (mux E r s))"
  "rp_Cookies (fst (serve E r s)) = rp_Cookies (fst (mux E r s))" "snd (serve E r s) = snd (mux E r s)"
  by (simp_all add: serve_def split: prod.split)

subsection \<open>No two routes for one request\<close>

fun overlap :: "segment list \<Rightarrow> bool \<Rightarrow> segment list \<Rightarrow> bool \<Rightarrow> bool" where
  "overlap [] u [] v = (u = v)"
| "overlap [] u (_ # _) v = u"
| "overlap (_ # _) u [] v = v"
| "overlap (Lit a # ps) u (Lit b # qs) v = (a = b \<and> overlap ps u qs v)"
| "overlap (Lit a # ps) u (Wild k # qs) v = (a \<noteq> [] \<and> overlap ps u qs v)"
| "overlap (Wild k # ps) u (Lit b # qs) v = (b \<noteq> [] \<and> overlap ps u qs v)"
| "overlap (Wild k # ps) u (Wild l # qs) v = overlap ps u qs v"

lemma both_match:
  "match_segments ps u xs \<noteq> None \<Longrightarrow> match_segments qs v xs \<noteq> None \<Longrightarrow> overlap ps u qs v"
proof (induction ps u qs v arbitrary: xs rule: overlap.induct)
  case (1 u v) then show ?case by (auto split: if_splits)
next
  case (2 u q qs v) then show ?case by (cases xs; cases q) (auto split: if_splits)
next
  case (3 p ps u v) then show ?case by (cases xs; cases p) (auto split: if_splits)
next
  case (4 a ps u b qs v) then show ?case by (cases xs) (auto split: if_splits)
next
  case (5 a ps u k qs v) then show ?case by (cases xs) (auto split: if_splits)
next
  case (6 k ps u b qs v) then show ?case by (cases xs) (auto split: if_splits)
next
  case (7 k ps u l qs v) then show ?case by (cases xs) (auto split: if_splits)
qed

definition clash :: "mux_pattern \<Rightarrow> mux_pattern \<Rightarrow> bool" where
  "clash p q =
     ((mp_Method p = [] \<or> mp_Method q = [] \<or> mp_Method p = mp_Method q) \<and>
      overlap (mp_Segments p) (mp_Subtree p) (mp_Segments q) (mp_Subtree q))"

fun clash_free :: "mux_pattern list \<Rightarrow> bool" where
  "clash_free [] = True"
| "clash_free (p # ps) = (list_all (\<lambda>q. \<not> clash p q) ps \<and> clash_free ps)"

definition get_or_post :: "mux_pattern \<Rightarrow> bool" where
  "get_or_post p = (mp_Method p = [] \<or> mp_Method p = ''GET'' \<or> mp_Method p = ''POST'')"

lemma routes_clash_free:
  "clash_free (map (\<lambda>x. parse_pattern (fst x)) routes)"
  "list_all get_or_post (map (\<lambda>x. parse_pattern (fst x)) routes)"
  unfolding routes_def page_routes_def api_routes_def map_append list.map fst_conv
  by code_simp+

end
