(* ===== verification/Worker_Client.thy ===== *)
theory Worker_Client
  imports Worker_Service Controller_Config Web_Server
begin

text \<open>
  Between controller and worker: the worker's own route table, \<^verbatim>\<open>Handler\<close> in
  \<^verbatim>\<open>internal/dockerworker/service.go\<close>, and the controller's client of it,
  \<^verbatim>\<open>internal/workerclient/client.go\<close>. \<^verbatim>\<open>encoding/json\<close> on both sides is taken to
  deliver a body as the value that was sent, and nothing of another type; the network is a function from
  a request to its response.
\<close>

subsection \<open>The worker's routes\<close>

datatype worker_op =
    W_Health | W_ApproveApp | W_List | W_Inspect | W_Usage | W_Egress | W_Logs | W_Provision | W_Rebuild | W_Action

definition worker_routes :: "(string \<times> worker_op) list" where
  "worker_routes =
     [(''GET /healthz'', W_Health),
      (''POST /v1/apps/approve'', W_ApproveApp),
      (''GET /v1/resources'', W_List),
      (''GET /v1/workstations/{id}'', W_Inspect),
      (''GET /v1/workstations/{id}/usage'', W_Usage),
      (''GET /v1/workstations/{id}/egress'', W_Egress),
      (''GET /v1/workstations/{id}/apps/{app}/logs'', W_Logs),
      (''POST /v1/workstations'', W_Provision),
      (''POST /v1/workstations/{id}/rebuild'', W_Rebuild),
      (''POST /v1/workstations/{id}/action'', W_Action)]"

datatype worker_body = No_Body | App_Body AppSpec | Provision_Body ProvisionRequest | Action_Body string

text \<open>A request on the wire; the path is the escaped one, the query is not parsed.\<close>

record worker_request =
  wq_Method :: string
  wq_Path :: string
  wq_Query :: string
  wq_Authorization :: string
  wq_Body :: worker_body

text \<open>The query of a single pair without escapes.\<close>

definition tail_query :: "string \<Rightarrow> string" where
  "tail_query raw = (case Cut raw (CHR ''='') of (k, v, _) \<Rightarrow> if k = ''tail'' then v else [])"

record worker_env =
  we_config :: Worker
  we_host :: host
  we_uni :: "string \<Rightarrow> string"
  we_text :: "worker_error \<Rightarrow> string"
  we_codec :: codec
  we_log_fails :: "string \<Rightarrow> bool"
  we_logs :: directory
  we_fault :: bool
  we_now :: int

record worker_state =
  wt_calls :: "Docker_Engine.call list"
  wt_approvals :: approvalStore
  wt_files :: directory

datatype worker_payload = Served payload | Approval approve_reply | Refusal int string

definition on_engine :: "Worker_Service.handler \<Rightarrow> worker_state \<Rightarrow> (int \<times> worker_payload) \<times> worker_state" where
  "on_engine k st =
     (case k (wt_calls st) of ((code, p), h) \<Rightarrow> ((code, Served p), st\<lparr>wt_calls := h\<rparr>))"

definition approve_code :: "approve_reply \<Rightarrow> int" where
  "approve_code q = (case q of ApproveInvalid _ \<Rightarrow> 422 | VersionRequired \<Rightarrow> 422 | ApproveFailed _ \<Rightarrow> 500 | Approved _ \<Rightarrow> 201)"

definition approve_op :: "worker_env \<Rightarrow> AppSpec \<Rightarrow> worker_state \<Rightarrow> (int \<times> worker_payload) \<times> worker_state" where
  "approve_op E app st =
     (case approveApp (we_codec E) (we_fault E) (we_now E) app (wt_approvals st) (wt_files st) of
        (q, s, dir) \<Rightarrow> ((approve_code q, Approval q), st\<lparr>wt_approvals := s, wt_files := dir\<rparr>))"

definition path_id :: "(string \<times> string) list \<Rightarrow> string \<Rightarrow> string" where
  "path_id vals k = (case map_of vals k of Some v \<Rightarrow> v | None \<Rightarrow> [])"

definition run_op ::
  "worker_env \<Rightarrow> worker_op \<Rightarrow> (string \<times> string) list \<Rightarrow> worker_request \<Rightarrow> worker_state \<Rightarrow> (int \<times> worker_payload) \<times> worker_state" where
  "run_op E op vals r st =
     (let D = ho_docker (we_host E); cfg = we_config E; i = path_id vals ''id'';
          provided = (case wq_Body r of Provision_Body req \<Rightarrow> Some req | _ \<Rightarrow> None)
      in case op of
        W_Health \<Rightarrow> on_engine (health D (we_text E)) st
      | W_ApproveApp \<Rightarrow> (case wq_Body r of App_Body app \<Rightarrow> approve_op E app st
          | _ \<Rightarrow> ((400, Served (P_Error BadJSON)), st))
      | W_List \<Rightarrow> on_engine (list_resources D) st
      | W_Inspect \<Rightarrow> on_engine (inspect D i) st
      | W_Usage \<Rightarrow> on_engine (usage (we_uni E) (we_text E) D i) st
      | W_Egress \<Rightarrow> on_engine (egress cfg D i) st
      | W_Logs \<Rightarrow> on_engine (logs (we_log_fails E) (we_logs E) cfg D i (path_id vals ''app'') (tail_query (wq_Query r))) st
      | W_Provision \<Rightarrow> on_engine (Worker_Service.provision (we_uni E) (we_codec E) (wt_approvals st) cfg (we_host E) provided) st
      | W_Rebuild \<Rightarrow> on_engine (rebuild (we_uni E) (we_codec E) (wt_approvals st) cfg (we_host E) i provided) st
      | W_Action \<Rightarrow> on_engine (action_handler (we_host E) i
          (case wq_Body r of Action_Body a \<Rightarrow> Some a | _ \<Rightarrow> None)) st)"

text \<open>\<^verbatim>\<open>auth\<close> stands before every operation but the health check.\<close>

definition guarded_op ::
  "worker_env \<Rightarrow> worker_op \<Rightarrow> (string \<times> string) list \<Rightarrow> worker_request \<Rightarrow> worker_state \<Rightarrow> (int \<times> worker_payload) \<times> worker_state" where
  "guarded_op E op vals r st =
     (if op = W_Health then run_op E op vals r st
      else (case auth (we_config E) (wq_Authorization r) (respond 200 P_Accepted) (wt_calls st) of
          ((code, p), _) \<Rightarrow> if code = 401 then ((code, Served p), st) else run_op E op vals r st))"

definition worker_serve :: "worker_env \<Rightarrow> worker_request \<Rightarrow> worker_state \<Rightarrow> (int \<times> worker_payload) \<times> worker_state" where
  "worker_serve E r st =
     (let path = cleanPath (wq_Path r) in
      case find_route worker_routes (wq_Method r) path of
        Some (op, vals) \<Rightarrow> if path \<noteq> wq_Path r then ((301, Refusal 301 path), st) else guarded_op E op vals r st
      | None \<Rightarrow> if path \<noteq> wq_Path r then ((301, Refusal 301 path), st)
          else if list_ex (\<lambda>(p, _). match_pattern p (mp_Method (parse_pattern p)) path \<noteq> None) worker_routes
          then ((405, Refusal 405 ''Method Not Allowed''), st) else ((404, Refusal 404 ''404 page not found''), st))"


subsection \<open>The client\<close>

record Client =
  cl_baseURL :: string
  cl_token :: string

definition New_client :: "string \<Rightarrow> string \<Rightarrow> Client" where
  "New_client baseURL token = \<lparr>cl_baseURL = trim_slashes baseURL, cl_token = token\<rparr>"

datatype client_call =
    C_Health
  | C_ApproveApp AppSpec
  | C_Provision ProvisionRequest
  | C_Rebuild ProvisionRequest
  | C_Action string string
  | C_Inspect string
  | C_List
  | C_Usage string
  | C_Egress string
  | C_Logs string string int

text \<open>Method, path with query, and body of every call.\<close>

fun client_request :: "client_call \<Rightarrow> string \<times> string \<times> worker_body" where
  "client_request C_Health = (''GET'', ''/healthz'', No_Body)"
| "client_request (C_ApproveApp app) = (''POST'', ''/v1/apps/approve'', App_Body app)"
| "client_request (C_Provision req) = (''POST'', ''/v1/workstations'', Provision_Body req)"
| "client_request (C_Rebuild req) =
     (''POST'', ''/v1/workstations/'' @ pr_WorkstationID req @ ''/rebuild'', Provision_Body req)"
| "client_request (C_Action i action) = (''POST'', ''/v1/workstations/'' @ i @ ''/action'', Action_Body action)"
| "client_request (C_Inspect i) = (''GET'', ''/v1/workstations/'' @ i, No_Body)"
| "client_request C_List = (''GET'', ''/v1/resources'', No_Body)"
| "client_request (C_Usage i) = (''GET'', ''/v1/workstations/'' @ i @ ''/usage'', No_Body)"
| "client_request (C_Egress i) = (''GET'', ''/v1/workstations/'' @ i @ ''/egress'', No_Body)"
| "client_request (C_Logs i app n) =
     (''GET'', ''/v1/workstations/'' @ i @ ''/apps/'' @ app @ ''/logs?tail='' @ Itoa n, No_Body)"

definition wants_output :: "client_call \<Rightarrow> bool" where
  "wants_output c = (case c of C_Action _ _ \<Rightarrow> False | _ \<Rightarrow> True)"

text \<open>
  A response: its status and status line, what decoding its body as the output gives, and the error
  field of its first 64 kB, if that is JSON.
\<close>

record 'p response =
  rs_Code :: int
  rs_Status :: string
  rs_Error :: "string option"
  rs_Output :: "(string, 'p) result"

datatype client_error =
    BadURL string
  | RequestFailed string
  | FromWorkerError string
  | ReturnedStatus string
  | DecodeFailed string

text \<open>
  \<open>check_url\<close> is \<^verbatim>\<open>http.NewRequestWithContext\<close>'s verdict on the URL, \<open>send\<close> the network.
\<close>

definition do_client ::
  "(string \<Rightarrow> string option) \<Rightarrow> (string \<Rightarrow> worker_request \<Rightarrow> (string, 'p response) result) \<Rightarrow> Client \<Rightarrow> client_call \<Rightarrow>
   (client_error, 'p option) result" where
  "do_client check_url send c k =
     (let (method, path, body) = client_request k; url = cl_baseURL c @ path in
      case check_url url of
        Some e \<Rightarrow> Inl (BadURL e)
      | None \<Rightarrow>
          (case Cut path (CHR ''?'') of (pth, query, _) \<Rightarrow>
             (case send (cl_baseURL c) \<lparr>wq_Method = method, wq_Path = pth, wq_Query = query,
                  wq_Authorization = ''Bearer '' @ cl_token c, wq_Body = body\<rparr> of
                Inl e \<Rightarrow> Inl (RequestFailed (''worker request: '' @ e))
              | Inr resp \<Rightarrow>
                  (if rs_Code resp < 200 \<or> rs_Code resp \<ge> 300 then
                     (case rs_Error resp of
                        Some e \<Rightarrow> if e \<noteq> [] then Inl (FromWorkerError (''worker: '' @ e))
                          else Inl (ReturnedStatus (''worker returned '' @ rs_Status resp))
                      | None \<Rightarrow> Inl (ReturnedStatus (''worker returned '' @ rs_Status resp)))
                   else if wants_output k then
                     (case rs_Output resp of
                        Inl e \<Rightarrow> Inl (DecodeFailed (''decode worker response: '' @ e))
                      | Inr p \<Rightarrow> Inr (Some p))
                   else Inr None))))"

definition wire_request :: "Client \<Rightarrow> client_call \<Rightarrow> worker_request" where
  "wire_request c k =
     (case client_request k of (method, path, body) \<Rightarrow>
        (case Cut path (CHR ''?'') of (pth, query, _) \<Rightarrow>
           \<lparr>wq_Method = method, wq_Path = pth, wq_Query = query, wq_Authorization = ''Bearer '' @ cl_token c, wq_Body = body\<rparr>))"

text \<open>What a call is meant to do at the worker.\<close>

fun call_effect :: "worker_env \<Rightarrow> client_call \<Rightarrow> worker_state \<Rightarrow> (int \<times> worker_payload) \<times> worker_state" where
  "call_effect E C_Health = on_engine (health (ho_docker (we_host E)) (we_text E))"
| "call_effect E (C_ApproveApp app) = approve_op E app"
| "call_effect E (C_Provision req) =
     (\<lambda>st. on_engine (Worker_Service.provision (we_uni E) (we_codec E) (wt_approvals st) (we_config E) (we_host E) (Some req)) st)"
| "call_effect E (C_Rebuild req) =
     (\<lambda>st. on_engine (rebuild (we_uni E) (we_codec E) (wt_approvals st) (we_config E) (we_host E) (pr_WorkstationID req) (Some req)) st)"
| "call_effect E (C_Action i action) = on_engine (action_handler (we_host E) i (Some action))"
| "call_effect E (C_Inspect i) = on_engine (inspect (ho_docker (we_host E)) i)"
| "call_effect E C_List = on_engine (list_resources (ho_docker (we_host E)))"
| "call_effect E (C_Usage i) = on_engine (usage (we_uni E) (we_text E) (ho_docker (we_host E)) i)"
| "call_effect E (C_Egress i) = on_engine (egress (we_config E) (ho_docker (we_host E)) i)"
| "call_effect E (C_Logs i app n) =
     on_engine (logs (we_log_fails E) (we_logs E) (we_config E) (ho_docker (we_host E)) i app (Itoa n))"

text \<open>The ids the controller gives out: of workstations, and of apps in accepted manifests.\<close>

fun proper_ids :: "client_call \<Rightarrow> bool" where
  "proper_ids (C_Rebuild req) = resourceID (pr_WorkstationID req)"
| "proper_ids (C_Action i action) = resourceID i"
| "proper_ids (C_Inspect i) = resourceID i"
| "proper_ids (C_Usage i) = resourceID i"
| "proper_ids (C_Egress i) = resourceID i"
| "proper_ids (C_Logs i app n) = (resourceID i \<and> identifier_re app)"
| "proper_ids _ = True"

subsection \<open>Ids in paths\<close>

definition id_part :: "string \<Rightarrow> bool" where
  "id_part s = (s \<noteq> [] \<and> list_all (\<lambda>c. is_lower c \<or> is_digit c \<or> c = CHR ''-'') s)"

lemma resource_part: "resourceID i \<Longrightarrow> id_part i"
proof -
  assume i: "resourceID i"
  then obtain t where "i = ''ws-'' @ t" "list_all (\<lambda>c. is_lower c \<or> is_digit c) t"
    by (auto simp: resourceID_def HasPrefix_iff Let_def)
  moreover have "is_lower (CHR ''w'')" "is_lower (CHR ''s'')" by code_simp+
  ultimately show ?thesis by (auto simp: id_part_def list_all_iff)
qed

lemma app_part: "identifier_re i \<Longrightarrow> id_part i"
  using identifier_chars [of i] by (cases i) (auto simp: id_part_def list_all_iff id_char_def identifier_re_def)

lemma id_part_chars:
  assumes "id_part s" shows "CHR ''/'' \<notin> set s" "CHR ''%'' \<notin> set s" "CHR ''?'' \<notin> set s" "CHR ''.'' \<notin> set s"
proof -
  have "\<not> (is_lower c \<or> is_digit c \<or> c = CHR ''-'')" if "c \<in> {CHR ''/'', CHR ''%'', CHR ''?'', CHR ''.''}" for c
    using that by (auto simp: is_lower_def is_digit_def)
  with assms show "CHR ''/'' \<notin> set s" "CHR ''%'' \<notin> set s" "CHR ''?'' \<notin> set s" "CHR ''.'' \<notin> set s"
    by (auto simp: id_part_def list_all_iff)
qed

lemma id_part_normal: "id_part s \<Longrightarrow> normal_part s"
  using id_part_chars [of s] by (auto simp: normal_part_def id_part_def)

lemma unescape_plain: "CHR ''%'' \<notin> set s \<Longrightarrow> path_unescape s = Some s"
  by (induction s) auto

lemma clean_normal: "list_all normal_part ps \<Longrightarrow> foldl (clean_step True) out ps = out @ ps"
  by (induction ps arbitrary: out) (auto simp: clean_step_def normal_part_def)

definition api_path :: "string list \<Rightarrow> string" where
  "api_path ps = CHR ''/'' # Join ps (CHR ''/'')"

lemma Split_trailing: "last (Split (t @ [c]) c) = []"
proof -
  have "Split (t @ [c]) c = Split t c @ [[]]" by (induction t) (auto split: list.split)
  then show ?thesis by simp
qed

lemma Join_empty: "list_all normal_part ps \<Longrightarrow> Join ps c = [] \<longleftrightarrow> ps = []"
  by (cases ps; cases "tl ps") (auto simp: normal_part_def)

lemma api_path_simps:
  assumes "ps \<noteq> []" and "list_all id_part ps"
  shows "cleanPath (api_path ps) = api_path ps" and "path_segments (api_path ps) = ps"
proof -
  have n: "list_all normal_part ps" using assms(2) by (auto simp: list_all_iff id_part_normal)
  have split: "Split (Join ps (CHR ''/'')) (CHR ''/'') = ps"
    using n assms(1) by (intro Split_Join) (auto simp: list_all_iff normal_part_def)
  have "clean_parts (api_path ps) = ps"
    using clean_normal [OF n, of "[]"]
    by (simp add: clean_parts_def api_path_def IsAbs_def HasPrefix_def split clean_step_def)
  then have c: "Clean (api_path ps) = api_path ps" by (simp add: Clean_def api_path_def IsAbs_def HasPrefix_def Let_def)
  have "last (Split (Join ps (CHR ''/'')) (CHR ''/'')) \<noteq> []" unfolding split using assms n
    by (auto simp: list_all_iff normal_part_def)
  then have "\<not> HasSuffix (api_path ps) ''/''"
    using assms(1) n Split_trailing by (auto simp: api_path_def HasSuffix_iff Cons_eq_append_conv Join_empty [OF n])
  with c show "cleanPath (api_path ps) = api_path ps"
    by (simp add: cleanPath_def api_path_def HasPrefix_def Let_def)
  have "path_unescape p = Some p" if "p \<in> set ps" for p
    using that assms(2) id_part_chars(2) unescape_plain by (auto simp: list_all_iff)
  then show "path_segments (api_path ps) = ps"
    by (simp add: path_segments_def api_path_def split cong: map_cong)
qed


subsection \<open>A call reaches its handler\<close>

lemma worker_patterns:
  "map (\<lambda>x. parse_pattern (fst x)) worker_routes =
    [\<lparr>mp_Method = ''GET'', mp_Segments = [Lit ''healthz''], mp_Subtree = False\<rparr>,
     \<lparr>mp_Method = ''POST'', mp_Segments = [Lit ''v1'', Lit ''apps'', Lit ''approve''], mp_Subtree = False\<rparr>,
     \<lparr>mp_Method = ''GET'', mp_Segments = [Lit ''v1'', Lit ''resources''], mp_Subtree = False\<rparr>,
     \<lparr>mp_Method = ''GET'', mp_Segments = [Lit ''v1'', Lit ''workstations'', Wild ''id''], mp_Subtree = False\<rparr>,
     \<lparr>mp_Method = ''GET'', mp_Segments = [Lit ''v1'', Lit ''workstations'', Wild ''id'', Lit ''usage''], mp_Subtree = False\<rparr>,
     \<lparr>mp_Method = ''GET'', mp_Segments = [Lit ''v1'', Lit ''workstations'', Wild ''id'', Lit ''egress''], mp_Subtree = False\<rparr>,
     \<lparr>mp_Method = ''GET'', mp_Segments = [Lit ''v1'', Lit ''workstations'', Wild ''id'', Lit ''apps'', Wild ''app'', Lit ''logs''],
       mp_Subtree = False\<rparr>,
     \<lparr>mp_Method = ''POST'', mp_Segments = [Lit ''v1'', Lit ''workstations''], mp_Subtree = False\<rparr>,
     \<lparr>mp_Method = ''POST'', mp_Segments = [Lit ''v1'', Lit ''workstations'', Wild ''id'', Lit ''rebuild''], mp_Subtree = False\<rparr>,
     \<lparr>mp_Method = ''POST'', mp_Segments = [Lit ''v1'', Lit ''workstations'', Wild ''id'', Lit ''action''], mp_Subtree = False\<rparr>]"
  unfolding worker_routes_def list.map fst_conv by code_simp

definition find_segments :: "(mux_pattern \<times> worker_op) list \<Rightarrow> string \<Rightarrow> string list \<Rightarrow> (worker_op \<times> (string \<times> string) list) option" where
  "find_segments qs m segs =
     (case List.find (\<lambda>(q, _). method_matches (mp_Method q) m \<and> match_segments (mp_Segments q) (mp_Subtree q) segs \<noteq> None) qs of
        None \<Rightarrow> None
      | Some (q, op) \<Rightarrow> map_option (Pair op) (match_segments (mp_Segments q) (mp_Subtree q) segs))"

lemma find_route_segments:
  "find_route rs m p = find_segments (map (\<lambda>x. (parse_pattern (fst x), snd x)) rs) m (path_segments p)"
  by (induction rs m p rule: find_route.induct)
    (auto simp: find_segments_def match_pattern_def Let_def split: option.split)

lemma worker_route_list:
  "map (\<lambda>x. (parse_pattern (fst x), snd x)) worker_routes =
   zip (map (\<lambda>x. parse_pattern (fst x)) worker_routes) (map snd worker_routes)"
  by (simp add: zip_map_map zip_same_conv_map)

lemmas worker_find = find_route_segments worker_route_list worker_patterns


lemma lit_parts: "list_all id_part [''healthz'', ''v1'', ''apps'', ''approve'', ''resources'', ''workstations'', ''usage'', ''egress'',
    ''logs'', ''rebuild'', ''action'']"
  by code_simp

lemma Cut_none: "CHR ''?'' \<notin> set s \<Longrightarrow> Cut s (CHR ''?'') = (s, [], False)"
  by (induction s) auto

lemma api_path_plain: "list_all id_part ps \<Longrightarrow> CHR ''?'' \<notin> set (api_path ps)"
proof -
  assume "list_all id_part ps"
  then have "CHR ''?'' \<notin> set (Join ps (CHR ''/''))"
    by (induction ps "CHR ''/''" rule: Join.induct) (auto dest: id_part_chars(3))
  then show ?thesis by (simp add: api_path_def)
qed

text \<open>The parts of the path of a call, and its query.\<close>

fun call_parts :: "client_call \<Rightarrow> string list" where
  "call_parts C_Health = [''healthz'']"
| "call_parts (C_ApproveApp app) = [''v1'', ''apps'', ''approve'']"
| "call_parts (C_Provision req) = [''v1'', ''workstations'']"
| "call_parts (C_Rebuild req) = [''v1'', ''workstations'', pr_WorkstationID req, ''rebuild'']"
| "call_parts (C_Action i action) = [''v1'', ''workstations'', i, ''action'']"
| "call_parts (C_Inspect i) = [''v1'', ''workstations'', i]"
| "call_parts C_List = [''v1'', ''resources'']"
| "call_parts (C_Usage i) = [''v1'', ''workstations'', i, ''usage'']"
| "call_parts (C_Egress i) = [''v1'', ''workstations'', i, ''egress'']"
| "call_parts (C_Logs i app n) = [''v1'', ''workstations'', i, ''apps'', app, ''logs'']"

lemma call_parts_ids: "proper_ids k \<Longrightarrow> list_all id_part (call_parts k) \<and> call_parts k \<noteq> []"
  using lit_parts by (cases k) (auto simp: resource_part app_part)

fun call_query :: "client_call \<Rightarrow> string" where
  "call_query (C_Logs i app n) = ''tail='' @ Itoa n"
| "call_query _ = []"

lemma call_path:
  "fst (snd (client_request k)) = api_path (call_parts k) @ (if call_query k = [] then [] else CHR ''?'' # call_query k)"
  by (cases k) (simp_all add: api_path_def)

lemma wire_path:
  assumes "proper_ids k"
  shows "wire_request c k = \<lparr>wq_Method = fst (client_request k), wq_Path = api_path (call_parts k), wq_Query = call_query k,
    wq_Authorization = ''Bearer '' @ cl_token c, wq_Body = snd (snd (client_request k))\<rparr>"
proof -
  have plain: "CHR ''?'' \<notin> set (api_path (call_parts k))" using assms api_path_plain call_parts_ids by blast
  have "Cut (api_path (call_parts k) @ (if call_query k = [] then [] else CHR ''?'' # call_query k)) (CHR ''?'') =
      (api_path (call_parts k), call_query k, call_query k \<noteq> [])"
    using Cut_at [OF plain, of "call_query k"] Cut_none [OF plain] by simp
  then show ?thesis by (cases "client_request k") (simp add: wire_request_def call_path [symmetric])
qed

definition call_op :: "client_call \<Rightarrow> worker_op \<times> (string \<times> string) list" where
  "call_op k =
     (case k of
        C_Health \<Rightarrow> (W_Health, [])
      | C_ApproveApp _ \<Rightarrow> (W_ApproveApp, [])
      | C_Provision _ \<Rightarrow> (W_Provision, [])
      | C_Rebuild req \<Rightarrow> (W_Rebuild, [(''id'', pr_WorkstationID req)])
      | C_Action i _ \<Rightarrow> (W_Action, [(''id'', i)])
      | C_Inspect i \<Rightarrow> (W_Inspect, [(''id'', i)])
      | C_List \<Rightarrow> (W_List, [])
      | C_Usage i \<Rightarrow> (W_Usage, [(''id'', i)])
      | C_Egress i \<Rightarrow> (W_Egress, [(''id'', i)])
      | C_Logs i app _ \<Rightarrow> (W_Logs, [(''id'', i), (''app'', app)]))"

lemma call_routed:
  assumes "proper_ids k"
  shows "find_route worker_routes (fst (client_request k)) (api_path (call_parts k)) = Some (call_op k)"
proof -
  have ne: "list_all id_part (call_parts k)" "call_parts k \<noteq> []" using call_parts_ids [OF assms] by blast+
  have "path_segments (api_path (call_parts k)) = call_parts k" using api_path_simps(2) [OF ne(2,1)] .
  then have "find_route worker_routes (fst (client_request k)) (api_path (call_parts k)) =
      find_segments (zip (map (\<lambda>x. parse_pattern (fst x)) worker_routes) (map snd worker_routes)) (fst (client_request k)) (call_parts k)"
    by (simp only: find_route_segments worker_route_list)
  also have "\<dots> = Some (call_op k)"
    unfolding worker_patterns using ne(1)
    by (cases k) (auto simp: worker_routes_def find_segments_def method_matches_def call_op_def id_part_def)
  finally show ?thesis .
qed



definition sample_worker_env :: worker_env where
  "sample_worker_env = \<lparr>we_config = sample_worker, we_host = \<lparr>ho_docker = action_docker, ho_wait = (\<lambda>_. 0)\<rparr>,
     we_uni = (\<lambda>s. s), we_text = (\<lambda>_. ''failed''), we_codec = sample_codec, we_log_fails = (\<lambda>_. True), we_logs = [],
     we_fault = False, we_now = 0\<rparr>"


text \<open>A refusal of the worker arrives as the client's error with the worker's own words.\<close>

lemma refusal_arrives:
  assumes "check_url (cl_baseURL c @ fst (snd (client_request k))) = None"
    and "send (cl_baseURL c) (wire_request c k) = Inr resp" and "rs_Code resp < 200 \<or> 300 \<le> rs_Code resp"
    and "rs_Error resp = Some e" and "e \<noteq> []"
  shows "do_client check_url send c k = Inl (FromWorkerError (''worker: '' @ e))"
  using assms by (auto simp: do_client_def wire_request_def Let_def split: prod.splits)

end
