(* ===== verification/Key_Tool.thy ===== *)
theory Key_Tool
  imports VPN_Store Worker_Config
begin

text \<open>
  The command that manages the key of the VPN profiles, \<^verbatim>\<open>cmd/vpnkeyctl/main.go\<close>.
  \<^verbatim>\<open>flag.Parse\<close> is an argument, a function from the arguments and the defaults to the
  flags; what is printed is a report with the values that are printed.
\<close>

record key_flags =
  kf_directory :: string
  kf_keyFile :: string
  kf_newKey :: string
  kf_newKeyFile :: string

datatype key_report =
    Status_Report string string string nat
  | Key_Report string string
  | Rotation_Report RotationResult
  | Usage_Report

datatype key_failure =
    Flags_Failed string
  | Random_Failed string
  | Environment_Key vpn_error
  | Key_Failed vpn_error
  | Directory_Failed string
  | Exactly_One
  | New_Key_File string
  | Rotation_Aborted vpn_error
  | Unknown_Command string

text \<open>
  \<open>names\<close> is what \<^verbatim>\<open>os.ReadDir\<close> gives for the directory: its entries with the flag for
  directories, \<open>Inr None\<close> when it is missing.
\<close>

definition key_status ::
  "crypto \<Rightarrow> store \<Rightarrow> faults \<Rightarrow> randomness \<Rightarrow> string \<Rightarrow> (string, (string \<times> bool) list option) result \<Rightarrow> files \<Rightarrow>
   (key_failure, key_report) result \<times> files" where
  "key_status C s F R directory names fs =
     (case KeyFingerprint C s F R fs of
        (Inl e, fs') \<Rightarrow> (Inl (Key_Failed e), fs')
      | (Inr fingerprint, fs') \<Rightarrow>
          (let source = (if 0 < length (Key s) then ''VPN_ENCRYPTION_KEY'' else ''key file '' @ KeyFile s) in
           case names of
             Inl e \<Rightarrow> (Inl (Directory_Failed e), fs')
           | Inr listing \<Rightarrow>
               (let entries = (case listing of Some es \<Rightarrow> es | None \<Rightarrow> []);
                    count = length (filter (\<lambda>(n, is_directory). \<not> is_directory \<and> HasSuffix n ''.wg.enc'') entries)
                in (Inr (Status_Report source fingerprint directory count), fs'))))"

text \<open>\<^verbatim>\<open>NewKey\<close> fails when the random source does.\<close>

definition key_generate :: "crypto \<Rightarrow> (string, string) result \<Rightarrow> (key_failure, key_report) result" where
  "key_generate C random =
     (case random of
        Inl e \<Rightarrow> Inl (Random_Failed e)
      | Inr key \<Rightarrow> Inr (Key_Report (hex_encode key) (Fingerprint C key)))"

definition new_key_of :: "(string \<Rightarrow> string option) \<Rightarrow> string \<Rightarrow> string \<Rightarrow> (key_failure, string) result" where
  "new_key_of look newKeyHex newKeyFile =
     (let parsed = (\<lambda>text. case ParseKey text of Inl e \<Rightarrow> Inl (Key_Failed e) | Inr key \<Rightarrow> Inr key) in
      if newKeyHex \<noteq> [] then parsed newKeyHex
      else case look newKeyFile of
        None \<Rightarrow> Inl (New_Key_File newKeyFile)
      | Some data \<Rightarrow> if length data = KeyBytes then Inr data else parsed data)"

definition key_rotate ::
  "crypto \<Rightarrow> store \<Rightarrow> faults \<Rightarrow> randomness \<Rightarrow> (string \<Rightarrow> string option) \<Rightarrow> string \<Rightarrow> string \<Rightarrow> files \<Rightarrow>
   (key_failure, key_report) result \<times> files" where
  "key_rotate C s F R look newKeyHex newKeyFile fs =
     (if (newKeyHex = []) = (newKeyFile = []) then (Inl Exactly_One, fs)
      else case new_key_of look newKeyHex newKeyFile of
        Inl e \<Rightarrow> (Inl e, fs)
      | Inr key \<Rightarrow>
          (case Rotate C s F R key fs of
             (Some e, _, fs') \<Rightarrow> (Inl (Rotation_Aborted e), fs')
           | (None, outcome, fs') \<Rightarrow> (Inr (Rotation_Report outcome), fs')))"

definition key_command ::
  "crypto \<Rightarrow> faults \<Rightarrow> randomness \<Rightarrow> environ \<Rightarrow> (string list \<Rightarrow> key_flags \<Rightarrow> (string, key_flags) result) \<Rightarrow>
   (string \<Rightarrow> string option) \<Rightarrow> (string \<Rightarrow> (string, (string \<times> bool) list option) result) \<Rightarrow> (string, string) result \<Rightarrow>
   string \<Rightarrow> string list \<Rightarrow> (string \<Rightarrow> string \<Rightarrow> files) \<Rightarrow> (key_failure, key_report) result \<times> files option" where
  "key_command C F R getenv parse look names random command arguments disk =
     (let defaults = \<lparr>kf_directory = env getenv ''VPN_PROFILES_DIRECTORY'' ''/data/vpn-profiles'',
            kf_keyFile = env getenv ''VPN_ENCRYPTION_KEY_FILE'' ''/data/vpn-profiles.key'', kf_newKey = [], kf_newKeyFile = []\<rparr>
      in case parse arguments defaults of
        Inl e \<Rightarrow> (Inl (Flags_Failed e), None)
      | Inr flags \<Rightarrow>
          (let raw = TrimSpace (getenv ''VPN_ENCRYPTION_KEY'') in
           case (if raw = [] then Inr [] else ParseKey raw) of
             Inl e \<Rightarrow> (Inl (Environment_Key e), None)
           | Inr key \<Rightarrow>
               (let s = \<lparr>Key = key, KeyFile = kf_keyFile flags\<rparr>; fs = disk (kf_directory flags) (kf_keyFile flags) in
                if command = ''status'' then
                  (case key_status C s F R (kf_directory flags) (names (kf_directory flags)) fs of (q, fs') \<Rightarrow> (q, Some fs'))
                else if command = ''generate'' then (key_generate C random, None)
                else if command = ''rotate'' then
                  (case key_rotate C s F R look (kf_newKey flags) (kf_newKeyFile flags) fs of (q, fs') \<Rightarrow> (q, Some fs'))
                else if command = ''help'' \<or> command = ''-h'' \<or> command = ''--help'' then (Inr Usage_Report, None)
                else (Inl (Unknown_Command command), None))))"

subsection \<open>Keys survive being written down\<close>

lemma lower_hex_visible: "is_lower_hex c \<Longrightarrow> visible c"
  by (auto simp: is_lower_hex_def visible_def is_digit_def)

lemma hex_text:
  assumes "key \<noteq> []"
  shows "hex_encode key \<noteq> []" "visible (hd (hex_encode key))" "visible (last (hex_encode key))"
proof -
  have "length (hex_encode key) \<noteq> 0" using assms by simp
  then show ne: "hex_encode key \<noteq> []" by blast
  show "visible (hd (hex_encode key))" "visible (last (hex_encode key))"
    using ne set_hex_encode lower_hex_visible by (metis hd_in_set) (metis ne set_hex_encode lower_hex_visible last_in_set)
qed

lemma trim_line:
  assumes "s \<noteq> []" and "visible (hd s)" and "visible (last s)"
  shows "TrimSpace (s @ [CHR 0x0A]) = s"
proof -
  have "TrimLeft (s @ [CHR 0x0A]) = s @ [CHR 0x0A]"
    using assms(1,2) by (intro TrimLeft_id) (metis HasPrefix_iff append_is_Nil_conv hd_append2 space_runes_hd space_runes_ne)
  moreover have "find (\<lambda>p. p \<noteq> [] \<and> HasPrefix (CHR 0x0A # t) p) (map rev space_runes) = Some [CHR 0x0A]" for t
    by (simp add: space_runes_def HasPrefix_def)
  then have "strip_runes (map rev space_runes) (CHR 0x0A # rev s) = strip_runes (map rev space_runes) (rev s)"
    by (subst strip_runes.simps) simp
  moreover have "TrimRight s = s"
    using trimmed_visible [OF assms] by (intro TrimRight_id) (simp add: trimmed_def)
  ultimately show ?thesis by (simp add: TrimSpace_def TrimRight_def)
qed

lemma ParseKey_hex:
  assumes "length key = KeyBytes"
  shows "ParseKey (hex_encode key) = Inr key" "ParseKey (hex_encode key @ [CHR 0x0A]) = Inr key"
proof -
  have ne: "key \<noteq> []" using assms by (auto simp: KeyBytes_def)
  have "TrimSpace (hex_encode key) = hex_encode key" "TrimSpace (hex_encode key @ [CHR 0x0A]) = hex_encode key"
    using trim_line [OF hex_text [OF ne]] trimmed_visible [OF hex_text [OF ne]] TrimSpace_id by auto
  with assms show "ParseKey (hex_encode key) = Inr key" "ParseKey (hex_encode key @ [CHR 0x0A]) = Inr key"
    by (simp_all add: ParseKey_def hex_decode_encode)
qed

text \<open>
  A generated key comes back. Printed in hex and passed on the command line, kept in a file as
  \<^verbatim>\<open>generate\<close> prints it with its newline, or kept as raw bytes, a key of the right length
  is the key that rotation uses.
\<close>

theorem generated_key_returns:
  assumes "length key = KeyBytes" and "key_generate C (Inr key) = Inr (Key_Report shown fingerprint)"
    and "look f = Some (shown @ [CHR 0x0A])" and "look g = Some key"
  shows "new_key_of look shown [] = Inr key \<and> new_key_of look [] f = Inr key \<and> new_key_of look [] g = Inr key
    \<and> fingerprint = Fingerprint C key"
proof -
  have shown: "shown = hex_encode key" "fingerprint = Fingerprint C key" using assms(2) by (simp_all add: key_generate_def)
  have "hex_encode key \<noteq> []" "length (hex_encode key @ [CHR 0x0A]) \<noteq> KeyBytes"
    using assms(1) length_hex_encode [of key] by (auto simp: KeyBytes_def simp del: length_hex_encode)
  then show ?thesis using assms(1,3,4) by (simp add: new_key_of_def shown ParseKey_hex)
qed


theorem generated_key_returns_witness:
  "new_key_of (\<lambda>f. if f = ''raw'' then Some (replicate 32 CHR ''k'') else Some (hex_encode (replicate 32 CHR ''k'') @ [CHR 0x0A]))
     [] ''key.hex'' = Inr (replicate 32 CHR ''k'')"
proof -
  let ?look = "\<lambda>f. if f = ''raw'' then Some (replicate 32 CHR ''k'') else Some (hex_encode (replicate 32 CHR ''k'') @ [CHR 0x0A])"
  have "key_generate sample_crypto (Inr (replicate 32 CHR ''k'')) =
      Inr (Key_Report (hex_encode (replicate 32 CHR ''k'')) (Fingerprint sample_crypto (replicate 32 CHR ''k'')))"
    by (simp only: key_generate_def sum.case)
  from generated_key_returns [OF _ this, of ?look "''key.hex''" "''raw''"] show ?thesis by (simp add: KeyBytes_def)
qed

subsection \<open>A rotation that stops half way\<close>

text \<open>
  The error of a failed rotation says that no profiles were changed. When a rename fails after others
  succeeded, profiles were.
\<close>

definition other_ref :: string where
  "other_ref = ''1a0a0a0a0a0a0a0a0a0a0a0a0a0a0a0a.wg.enc''"

definition two_saved :: files where
  "two_saved = sample_saved\<lparr>profiles := profiles sample_saved @ map (\<lambda>(n, data). (other_ref, data)) (profiles sample_saved)\<rparr>"

lemma aborted_rotation_changes:
  "case key_rotate sample_crypto sample_store (no_faults\<lparr>rename_fails := (\<lambda>n. n = other_ref)\<rparr>) sample_random (\<lambda>_. None)
      (hex_encode (replicate 32 CHR ''z'')) [] two_saved of
     (Inl (Rotation_Aborted e), fs') \<Rightarrow> read_file (profiles fs') sample_ref \<noteq> read_file (profiles two_saved) sample_ref
   | _ \<Rightarrow> False"
  by code_simp

end
