(* ===== verification/Web_Authority.thy ===== *)
theory Web_Authority
  imports Web_Server
begin

text \<open>
  Who may change what: an abstract machine whose steps are what anyone, a user, an administrator and
  the holder of a share may do to the state, and the proof that every request the server answers is
  one of its steps, taken with the authority the request carries.
\<close>

subsection \<open>The abstract machine\<close>

inductive public_step :: "web_env \<Rightarrow> web \<Rightarrow> web \<Rightarrow> bool" for E s where
  p_idle: "public_step E s s"
| p_setup: "CreateInitialAdmin (en_time E) username hash (wb_db s) = (Inr user, d) \<Longrightarrow>
    public_step E s (snd (startSession E (u_ID user) (set_db d s)))"
| p_login: "check_password username password (wb_db s) = Some user \<Longrightarrow> loginBlocked (en_now E) ip s \<le> 0 \<Longrightarrow>
    public_step E s (snd (startSession E (u_ID user) (recordLogin (en_now E) ip True s)))"
| p_failed: "loginBlocked (en_now E) ip s \<le> 0 \<Longrightarrow> public_step E s (recordLogin (en_now E) ip False s)"
| p_redeem: "RedeemShare (w_unmarshal (en_world E)) (en_time E) h (wb_db s) = (Inr share, d) \<Longrightarrow>
    public_step E s (set_db (snd (RecordEvent (en_time E) (sh_WorkstationID share) ''share.redeemed'' m d)) s)"
| p_glance: "public_step E s (set_db (fold (\<lambda>h d. snd (SessionUser (en_time E) h d)) hs (wb_db s)) s)"

inductive user_step :: "web_env \<Rightarrow> User \<Rightarrow> web \<Rightarrow> web \<Rightarrow> bool" for E user s where
  u_idle: "user_step E user s s"
| u_views: "user_step E user s (snd (snd (store_views E s)))"
| u_create: "user_step E user s (snd (create_and_start E user input s))"
| u_act: "user_step E user s (snd (act_and_start E user i action s))"
| u_share: "Workstation_lookup i user (wb_db s) = Inr ws \<Longrightarrow> user_step E user s (snd (new_share E user ws input s))"
| u_revoke: "Workstation_lookup i user (wb_db s) = Inr ws \<Longrightarrow> user_step E user s (snd (revoke_share E ws k s))"
| u_profile: "user_step E user s (snd (store_profile E user profile s))"
| u_enable: "user_step E user s (snd (enable_profile E k user enabled s))"
| u_accent: "user_step E user s (set_db (SetUserAccent (u_ID user) accent (wb_db s)) s)"
| u_workstation_accent: "user_step E user s (snd (accent_of_workstation E i user accent s))"
| u_logout: "user_step E user s (set_db (RevokeSession (en_time E) h (wb_db s)) s)"

inductive admin_step :: "web_env \<Rightarrow> web \<Rightarrow> web \<Rightarrow> bool" for E s where
  a_templates: "admin_step E s (s\<lparr>wb_templates := dir\<rparr>)"
| a_templates_scan: "admin_step E s (snd (rescan E (s\<lparr>wb_templates := dir\<rparr>)))"
| a_user: "admin_step E s (snd (storeUser E input s))"
| a_grants: "admin_step E s (snd (set_grants k grants s))"
| a_sync: "admin_step E s (snd (store_sync E s))"
| a_install: "admin_step E s (snd (store_install i E s))"
| a_install_scan: "admin_step E s (snd (rescan E (snd (store_install i E s))))"
| a_rollback: "admin_step E s (snd (store_rollback i E s))"
| a_rollback_scan: "admin_step E s (snd (rescan E (snd (store_rollback i E s))))"
| a_scan: "admin_step E s (snd (rescan E s))"
| a_reconcile: "admin_step E s (s\<lparr>wb_server := snd (Reconcile (en_world E) (en_time E) (wb_server s))\<rparr>)"
| a_backup: "admin_step E s (s\<lparr>wb_backups := wb_backups s @ [path]\<rparr>)"

inductive share_step :: "web_env \<Rightarrow> Share \<Rightarrow> web \<Rightarrow> web \<Rightarrow> bool" for E share s where
  s_idle: "share_step E share s s"
| s_act: "required_permission action = Some p \<Longrightarrow> Has (sh_Permissions share) p \<Longrightarrow>
    share_step E share s (snd (act_and_start E internal_user (sh_WorkstationID share) action s))"

subsection \<open>Every handler takes one step\<close>

definition granted :: "access \<Rightarrow> bool" where
  "granted a =
     (case a of
        Public h \<Rightarrow> \<forall>E r s. public_step E s (snd (h E r s))
      | ForUser h \<Rightarrow> \<forall>user E r s. user_step E user s (snd (h user E r s))
      | ForAdmin h \<Rightarrow> \<forall>user E r s. user_step E user s (snd (h user E r s)) \<or> admin_step E s (snd (h user E r s))
      | ForShare h \<Rightarrow> \<forall>share E r s. share_step E share s (snd (h share E r s)))"

lemma granted_simps [simp]:
  "granted (Public h) = (\<forall>E r s. public_step E s (snd (h E r s)))"
  "granted (ForUser g) = (\<forall>user E r s. user_step E user s (snd (g user E r s)))"
  "granted (ForAdmin g) =
     (\<forall>user E r s. user_step E user s (snd (g user E r s)) \<or> admin_step E s (snd (g user E r s)))"
  "granted (ForShare f) = (\<forall>share E r s. share_step E share s (snd (f share E r s)))"
  by (simp_all add: granted_def)

text \<open>Handlers that only read.\<close>

lemma reading_handlers:
  "snd (static_files E r s) = s" "snd (web_health E r s) = s" "snd (web_ready E r s) = s"
  "snd (setupGet E r s) = s" "snd (loginGet E r s) = s" "snd (web_root user E r s) = s"
  "snd (templatesPage user E r s) = s" "snd (appearancePage user E r s) = s" "snd (usersPage user E r s) = s"
  "snd (vpnProfilesPage user E r s) = s" "snd (workstationPage user E r s) = s" "snd (desktopPage user E r s) = s"
  "snd (proxyExplicit user E r s) = s" "snd (proxyHostname user E r s) = s" "snd (apiStatus user E r s) = s"
  "snd (apiWorkstations user E r s) = s" "snd (apiWorkstation user E r s) = s" "snd (apiUsage user E r s) = s"
  "snd (apiEgress user E r s) = s" "snd (apiLogs user E r s) = s" "snd (apiShares user E r s) = s"
  "snd (apiApps user E r s) = s" "snd (apiTemplates user E r s) = s" "snd (apiVPNProfiles user E r s) = s"
  "snd (apiUsers user E r s) = s" "snd (sharedLauncher share E r s) = s" "snd (proxyShared share E r s) = s"
  "snd (sharedLogout share E r s) = s"
  by (auto simp: static_files_def web_health_def web_ready_def setupGet_def loginGet_def web_root_def
      templatesPage_def appearancePage_def usersPage_def vpnProfilesPage_def workstationPage_def desktopPage_def
      proxyExplicit_def proxyHostname_def apiStatus_def apiWorkstations_def apiWorkstation_def apiUsage_def
      apiEgress_def apiLogs_def apiShares_def apiApps_def apiTemplates_def apiVPNProfiles_def apiUsers_def
      sharedLauncher_def proxyShared_def sharedLogout_def with_workstation_def Let_def split: option.split sum.split)

lemma failed_calls:
  "CreateInitialAdmin now u h d = (Inl e, d') \<Longrightarrow> d' = d"
  "RedeemShare unm now h d = (Inl e, d') \<Longrightarrow> d' = d"
  "SessionUser now h d = (Inl e, d') \<Longrightarrow> d' = d"
  by (auto simp: CreateInitialAdmin_def RedeemShare_def SessionUser_def Let_def
      split: if_splits sum.splits prod.splits list.splits)

lemma session_user_state: "\<exists>hs. snd (session_user E r s) = set_db (fold (\<lambda>h d. snd (SessionUser (en_time E) h d)) hs (wb_db s)) s"
proof (cases "request_Cookie r ''wm_session''")
  case None
  then show ?thesis by (intro exI [of _ "[]"]) (simp add: session_user_def)
next
  case (Some v)
  then show ?thesis
    by (intro exI [of _ "[TokenHash v]"]) (simp add: session_user_def split: prod.split sum.split)
qed

lemma palette_state:
  "\<exists>hs. snd (request_palette E r s) = set_db (fold (\<lambda>h d. snd (SessionUser (en_time E) h d)) hs (wb_db s)) s"
proof -
  obtain viewer s1 where 1: "viewerAccent E r s = (viewer, s1)" by (cases "viewerAccent E r s")
  then have s1: "s1 = snd (session_user E r s)"
    by (auto simp: viewerAccent_def split: prod.splits option.splits)
  obtain ws s2 where 2: "workstationAccent E r s1 = (ws, s2)" by (cases "workstationAccent E r s1")
  then have s2: "s2 = s1 \<or> s2 = snd (session_user E r s1)"
    by (auto simp: workstationAccent_def Let_def split: if_splits prod.splits option.splits sum.splits)
  from session_user_state [of E r s] s1 obtain hs where
    hs: "s1 = set_db (fold (\<lambda>h d. snd (SessionUser (en_time E) h d)) hs (wb_db s)) s" by auto
  from session_user_state [of E r s1] obtain ks where
    ks: "snd (session_user E r s1) = set_db (fold (\<lambda>h d. snd (SessionUser (en_time E) h d)) ks (wb_db s1)) s1" by auto
  have "\<exists>ls. s2 = set_db (fold (\<lambda>h d. snd (SessionUser (en_time E) h d)) ls (wb_db s)) s"
  proof (cases "s2 = s1")
    case True
    with hs show ?thesis by blast
  next
    case False
    with s2 hs ks show ?thesis by (intro exI [of _ "hs @ ks"]) simp
  qed
  moreover have "snd (request_palette E r s) = s2" using 1 2 by (simp add: request_palette_def)
  ultimately show ?thesis by blast
qed

lemma public_handlers:
  "public_step E s (snd (setupPost E r s))" "public_step E s (snd (loginPost E r s))"
  "public_step E s (snd (redeemShare E r s))" "public_step E s (snd (themeStylesheet E r s))"
  "public_step E s (snd (apiTheme E r s))"
proof -
  show "public_step E s (snd (setupPost E r s))"
    by (auto simp: setupPost_def Let_def intro: public_step.intros dest!: failed_calls
        split: sum.split prod.split) (metis public_step.p_setup snd_conv)+
  show "public_step E s (snd (loginPost E r s))"
    by (auto simp: loginPost_def Let_def intro: public_step.intros
        split: sum.split prod.split option.split) (metis public_step.p_login not_less snd_conv)+
  show "public_step E s (snd (redeemShare E r s))"
    by (auto simp: redeemShare_def Let_def intro: public_step.intros dest!: failed_calls
        split: sum.split prod.split option.split)
  from palette_state [of E r s] obtain hs where
    "snd (request_palette E r s) = set_db (fold (\<lambda>h d. snd (SessionUser (en_time E) h d)) hs (wb_db s)) s" by blast
  then show "public_step E s (snd (themeStylesheet E r s))" "public_step E s (snd (apiTheme E r s))"
    by (auto simp: themeStylesheet_def apiTheme_def split: prod.split intro: public_step.p_glance)
qed


lemma snd_case_sum: "snd (case q of (Inl e, s) \<Rightarrow> (f e s, s) | (Inr x, s) \<Rightarrow> (g x s, s)) = snd q"
  by (auto split: prod.split sum.split)

lemma snd_case_bool: "snd (case q of (True, s) \<Rightarrow> (f s, s) | (False, s) \<Rightarrow> (g s, s)) = snd q"
  by (auto split: prod.split bool.split)

lemma snd_case_check: "snd (case q of (None, s) \<Rightarrow> (f s, s) | (Some e, s) \<Rightarrow> (g e s, s)) = snd q"
  by (auto split: prod.split option.split)

lemma snd_case_views: "snd (case q of (v, st, s) \<Rightarrow> (f v st s, s)) = snd (snd q)"
  by (auto split: prod.split)

lemma snd_case_pair: "snd (case q of (Inl e, s) \<Rightarrow> (f e s, s) | (Inr (x, y), s) \<Rightarrow> (g x y s, s)) = snd q"
  by (auto split: prod.split sum.split)

lemmas snd_cases = snd_case_pair snd_case_sum snd_case_bool snd_case_check snd_case_views

lemma user_handlers:
  "user_step E user s (snd (logout E r s))"
  "user_step E user s (snd (createWorkstation user E r s))"
  "user_step E user s (snd (setUserAccent_form user E r s))"
  "user_step E user s (snd (setWorkstationAccent_form user E r s))"
  "user_step E user s (snd (createVPNProfile user E r s))"
  "user_step E user s (snd (setVPNProfileEnabled_form user E r s))"
  "user_step E user s (snd (appStorePage user E r s))"
  "user_step E user s (snd (workstationAction user E r s))"
  "user_step E user s (snd (createShare user E r s))"
  "user_step E user s (snd (revokeShare user E r s))"
  "user_step E user s (snd (apiCreateWorkstation user E r s))"
  "user_step E user s (snd (apiWorkstationAction user E r s))"
  "user_step E user s (snd (apiCreateShare user E r s))"
  "user_step E user s (snd (apiRevokeShare user E r s))"
  "user_step E user s (snd (apiSetUserAccent user E r s))"
  "user_step E user s (snd (apiSetWorkstationAccent user E r s))"
  "user_step E user s (snd (apiAppStore user E r s))"
  "user_step E user s (snd (apiCreateVPNProfile user E r s))"
  "user_step E user s (snd (apiSetVPNProfileEnabled user E r s))"
proof -
  show "user_step E user s (snd (logout E r s))"
    by (auto simp: logout_def intro: user_step.intros split: option.split)
  show "user_step E user s (snd (createWorkstation user E r s))"
    by (auto simp: createWorkstation_def snd_cases intro: user_step.intros)
  show "user_step E user s (snd (setUserAccent_form user E r s))"
    by (auto simp: setUserAccent_form_def intro: user_step.intros split: option.split)
  show "user_step E user s (snd (setWorkstationAccent_form user E r s))"
    by (auto simp: setWorkstationAccent_form_def snd_cases intro: user_step.intros split: option.split)
  show "user_step E user s (snd (createVPNProfile user E r s))"
    by (auto simp: createVPNProfile_def snd_cases intro: user_step.intros)
  show "user_step E user s (snd (setVPNProfileEnabled_form user E r s))"
    by (auto simp: setVPNProfileEnabled_form_def snd_cases intro: user_step.intros split: option.split)
  show "user_step E user s (snd (appStorePage user E r s))"
    by (auto simp: appStorePage_def snd_cases intro: user_step.intros)
  show "user_step E user s (snd (workstationAction user E r s))"
    by (auto simp: workstationAction_def snd_cases intro: user_step.intros)
  show "user_step E user s (snd (createShare user E r s))"
    by (auto simp: createShare_def snd_cases intro: user_step.intros split: sum.split)
  show "user_step E user s (snd (revokeShare user E r s))"
    by (auto simp: revokeShare_def snd_cases intro: user_step.intros split: sum.split option.split)
  show "user_step E user s (snd (apiCreateWorkstation user E r s))"
    by (auto simp: apiCreateWorkstation_def with_json_def snd_cases intro: user_step.intros split: sum.split)
  show "user_step E user s (snd (apiWorkstationAction user E r s))"
    by (auto simp: apiWorkstationAction_def snd_cases intro: user_step.intros)
  show "user_step E user s (snd (apiCreateShare user E r s))"
    by (auto simp: apiCreateShare_def with_workstation_def with_json_def snd_cases intro: user_step.intros split: sum.split)
  show "user_step E user s (snd (apiRevokeShare user E r s))"
    by (auto simp: apiRevokeShare_def with_workstation_def snd_cases intro: user_step.intros split: sum.split option.split)
  show "user_step E user s (snd (apiSetUserAccent user E r s))"
    by (auto simp: apiSetUserAccent_def with_json_def intro: user_step.intros split: sum.split option.split)
  show "user_step E user s (snd (apiSetWorkstationAccent user E r s))"
    by (auto simp: apiSetWorkstationAccent_def with_json_def snd_cases intro: user_step.intros split: sum.split option.split)
  show "user_step E user s (snd (apiAppStore user E r s))"
    using user_step.u_views [of E user s] by (auto simp: apiAppStore_def split: prod.splits sum.split)
  show "user_step E user s (snd (apiCreateVPNProfile user E r s))"
    by (auto simp: apiCreateVPNProfile_def with_json_def snd_cases intro: user_step.intros split: sum.split)
  show "user_step E user s (snd (apiSetVPNProfileEnabled user E r s))"
    by (auto simp: apiSetVPNProfileEnabled_def with_json_def snd_cases intro: user_step.intros split: sum.split option.split)
qed


lemma admin_scan:
  "admin_step E s (snd (rescan E t)) \<Longrightarrow> admin_step E s (snd (rescan_then E user q t))"
  "admin_step E s (snd (rescan E t)) \<Longrightarrow> admin_step E s (snd (rescan_json E code v t))"
  by (simp_all add: rescan_then_def rescan_json_def snd_cases)

lemma after_store:
  assumes "admin_step E s (snd p)" and "admin_step E s (snd (rescan E (snd p)))"
  shows "admin_step E s (snd (case p of (Inl e, s) \<Rightarrow> (f e s, s) | (Inr _, s) \<Rightarrow> rescan_then E user q s))"
    and "admin_step E s (snd (case p of (Inl e, s) \<Rightarrow> (f e s, s) | (Inr x, s) \<Rightarrow> rescan_json E code (g x) s))"
  using assms by (auto intro: admin_scan split: prod.split sum.split)

lemma admin_handlers:
  "user_step E user s (snd (createCustomTemplate user E r s)) \<or> admin_step E s (snd (createCustomTemplate user E r s))"
  "user_step E user s (snd (deleteCustomTemplate user E r s)) \<or> admin_step E s (snd (deleteCustomTemplate user E r s))"
  "user_step E user s (snd (createUser user E r s)) \<or> admin_step E s (snd (createUser user E r s))"
  "user_step E user s (snd (setUserEgress user E r s)) \<or> admin_step E s (snd (setUserEgress user E r s))"
  "admin_step E s (snd (appStoreSync user E r s))"
  "admin_step E s (snd (appStoreInstall user E r s))"
  "admin_step E s (snd (appStoreRollback user E r s))"
  "user_step E user s (snd (apiCreateUser user E r s)) \<or> admin_step E s (snd (apiCreateUser user E r s))"
  "user_step E user s (snd (apiSetUserEgress user E r s)) \<or> admin_step E s (snd (apiSetUserEgress user E r s))"
  "admin_step E s (snd (apiRescan user E r s))"
  "admin_step E s (snd (apiAppStoreSync user E r s))"
  "admin_step E s (snd (apiAppStoreInstall user E r s))"
  "admin_step E s (snd (apiAppStoreRollback user E r s))"
  "admin_step E s (snd (apiReconcile user E r s))"
  "user_step E user s (snd (apiBackup user E r s)) \<or> admin_step E s (snd (apiBackup user E r s))"
proof -
  show "user_step E user s (snd (createCustomTemplate user E r s)) \<or> admin_step E s (snd (createCustomTemplate user E r s))"
    by (auto simp: createCustomTemplate_def Let_def intro: user_step.intros admin_step.intros admin_scan
        split: option.split sum.split prod.split)
  show "user_step E user s (snd (deleteCustomTemplate user E r s)) \<or> admin_step E s (snd (deleteCustomTemplate user E r s))"
    by (auto simp: deleteCustomTemplate_def intro: user_step.intros admin_step.intros admin_scan
        split: option.split prod.split)
  show "user_step E user s (snd (createUser user E r s)) \<or> admin_step E s (snd (createUser user E r s))"
    by (auto simp: createUser_def snd_cases intro: user_step.intros admin_step.intros)
  show "user_step E user s (snd (setUserEgress user E r s)) \<or> admin_step E s (snd (setUserEgress user E r s))"
    by (auto simp: setUserEgress_def snd_cases intro: user_step.intros admin_step.intros split: option.split sum.split)
  show "admin_step E s (snd (appStoreSync user E r s))" "admin_step E s (snd (apiAppStoreSync user E r s))"
    by (auto simp: appStoreSync_def apiAppStoreSync_def snd_cases intro: admin_step.intros)
  show "admin_step E s (snd (appStoreInstall user E r s))" "admin_step E s (snd (apiAppStoreInstall user E r s))"
    "admin_step E s (snd (appStoreRollback user E r s))" "admin_step E s (snd (apiAppStoreRollback user E r s))"
    unfolding appStoreInstall_def apiAppStoreInstall_def appStoreRollback_def apiAppStoreRollback_def
    by (intro after_store admin_step.intros)+
  show "user_step E user s (snd (apiCreateUser user E r s)) \<or> admin_step E s (snd (apiCreateUser user E r s))"
    by (auto simp: apiCreateUser_def with_json_def snd_cases intro: user_step.intros admin_step.intros split: sum.split)
  show "user_step E user s (snd (apiSetUserEgress user E r s)) \<or> admin_step E s (snd (apiSetUserEgress user E r s))"
    by (auto simp: apiSetUserEgress_def with_json_def snd_cases intro: user_step.intros admin_step.intros
        split: option.split sum.split)
  show "admin_step E s (snd (apiRescan user E r s))"
    by (simp add: apiRescan_def admin_scan admin_step.intros)
  show "admin_step E s (snd (apiReconcile user E r s))"
    using admin_step.a_reconcile [of E s] by (auto simp: apiReconcile_def split: prod.splits option.split)
  show "user_step E user s (snd (apiBackup user E r s)) \<or> admin_step E s (snd (apiBackup user E r s))"
    by (auto simp: apiBackup_def with_json_def Let_def intro: user_step.intros admin_step.intros
        split: sum.split option.split)
qed

lemma share_handlers: "share_step E share s (snd (sharedAction share E r s))"
  by (auto simp: sharedAction_def Let_def snd_cases intro: share_step.intros split: option.splits)

lemma routes_granted: "\<forall>(p, a) \<in> set routes. granted a"
  by (simp add: routes_def page_routes_def api_routes_def reading_handlers public_handlers user_handlers
      admin_handlers share_handlers user_step.intros public_step.intros share_step.intros)

subsection \<open>The server refines the machine\<close>

text \<open>What a request may do with the credentials it carries.\<close>

definition as_user :: "web_env \<Rightarrow> web_request \<Rightarrow> web \<Rightarrow> User \<Rightarrow> db \<Rightarrow> bool" where
  "as_user E r s user d =
     (\<exists>v. request_Cookie r ''wm_session'' = Some v \<and>
        SessionUser (en_time E) (TokenHash v) (wb_db s) = (Inr user, d))"

definition as_holder :: "web_env \<Rightarrow> web_request \<Rightarrow> web \<Rightarrow> Share \<Rightarrow> bool" where
  "as_holder E r s share =
     (\<exists>v i. request_Cookie r ''wm_share'' = Some v \<and>
        ValidateShare (w_unmarshal (en_world E)) (en_time E) (TokenHash v) i (wb_db s) = Inr share)"

inductive machine_step :: "web_env \<Rightarrow> web_request \<Rightarrow> web \<Rightarrow> web \<Rightarrow> bool" for E r s where
  by_anyone: "public_step E s s' \<Longrightarrow> machine_step E r s s'"
| by_user: "as_user E r s user d \<Longrightarrow> safe_method r \<or> sameOrigin E r \<Longrightarrow> user_step E user (set_db d s) s' \<Longrightarrow>
    machine_step E r s s'"
| by_admin: "as_user E r s user d \<Longrightarrow> safe_method r \<or> sameOrigin E r \<Longrightarrow> u_IsAdmin user \<Longrightarrow>
    admin_step E (set_db d s) s' \<Longrightarrow> machine_step E r s s'"
| by_holder: "as_holder E r s share \<Longrightarrow> safe_method r \<or> sameOrigin E r \<Longrightarrow> share_step E share s s' \<Longrightarrow>
    machine_step E r s s'"
| by_foreign: "as_user E r s user d \<Longrightarrow> machine_step E r s (set_db d s)"

lemma values_fields:
  "hr_Headers (r\<lparr>rq_Values := vals\<rparr>) = hr_Headers r" "hr_Method (r\<lparr>rq_Values := vals\<rparr>) = hr_Method r"
  "rq_Host (r\<lparr>rq_Values := vals\<rparr>) = rq_Host r" "rq_RemoteAddr (r\<lparr>rq_Values := vals\<rparr>) = rq_RemoteAddr r"
  by (cases r; simp)+

lemma values_simps [simp]:
  "request_Cookie (r\<lparr>rq_Values := vals\<rparr>) k = request_Cookie r k"
  "safe_method (r\<lparr>rq_Values := vals\<rparr>) = safe_method r" "sameOrigin E (r\<lparr>rq_Values := vals\<rparr>) = sameOrigin E r"
  "remoteIP (r\<lparr>rq_Values := vals\<rparr>) = remoteIP r"
  unfolding request_Cookie_def safe_method_def sameOrigin_def remoteIP_def by (simp_all only: values_fields)

lemma values_authority [simp]:
  "as_user E (r\<lparr>rq_Values := vals\<rparr>) s user d = as_user E r s user d"
  "as_holder E (r\<lparr>rq_Values := vals\<rparr>) s share = as_holder E r s share"
  by (simp_all add: as_user_def as_holder_def)

lemma requireUser_step:
  assumes "\<And>user s. user_step E user s (snd (h user E r s)) \<or> u_IsAdmin user \<and> admin_step E s (snd (h user E r s))"
  shows "machine_step E r s (snd (requireUser h E r s))"
proof (cases rule: requireUser_cases [of h E r s])
  case refused
  then show ?thesis by (simp add: machine_step.by_anyone public_step.p_idle)
next
  case (foreign v user d)
  then have "as_user E r s user d" by (auto simp: as_user_def)
  with foreign show ?thesis by (simp add: machine_step.by_foreign)
next
  case (served v user d)
  then have "as_user E r s user d" by (auto simp: as_user_def)
  with served assms [of user "set_db d s"] show ?thesis
    by (auto intro: machine_step.by_user machine_step.by_admin)
qed

lemma run_access_step: "granted a \<Longrightarrow> machine_step E r s (snd (run_access a E r s))"
proof (cases a)
  case (Public h)
  assume "granted a"
  with Public show ?thesis by (simp add: run_access_def machine_step.by_anyone)
next
  case (ForUser h)
  assume "granted a"
  with ForUser show ?thesis by (simp add: run_access_def requireUser_step)
next
  case (ForAdmin h)
  assume g: "granted a"
  with ForAdmin show ?thesis
    unfolding run_access_def requireAdmin_def
  proof (simp only: access.case, intro requireUser_step)
    fix user s
    show "user_step E user s (snd (if \<not> u_IsAdmin user
        then (json_error 403 (Message ''administrator access required''), s) else h user E r s)) \<or>
      u_IsAdmin user \<and> admin_step E s (snd (if \<not> u_IsAdmin user
        then (json_error 403 (Message ''administrator access required''), s) else h user E r s))"
      using g ForAdmin by (cases "u_IsAdmin user") (simp_all add: user_step.u_idle)
  qed
next
  case (ForShare h)
  assume g: "granted a"
  show ?thesis
  proof (cases "snd (requireShare h E r s) = s")
    case True
    with ForShare show ?thesis by (simp add: run_access_def machine_step.by_anyone public_step.p_idle)
  next
    case False
    then obtain v share where "request_Cookie r ''wm_share'' = Some v"
      "ValidateShare (w_unmarshal (en_world E)) (en_time E) (TokenHash v) (PathValue r ''id'') (wb_db s) = Inr share"
      "safe_method r \<or> sameOrigin E r" "requireShare h E r s = h share E r s"
      by (auto simp: requireShare_def Let_def split: option.splits sum.splits if_splits)
    with g ForShare show ?thesis
      by (auto simp: run_access_def as_holder_def intro!: machine_step.by_holder)
  qed
qed

lemma find_route_in:
  "find_route rs m path = Some (a, vals) \<Longrightarrow> \<exists>p. (p, a) \<in> set rs \<and> match_pattern p m path = Some vals"
  by (induction rs m path rule: find_route.induct) (auto split: option.splits)

lemma mux_cases:
  obtains (other) "snd (mux E r s) = s" "\<forall>h q p. rp_Body (fst (mux E r s)) \<noteq> Forwarded h q p"
  | (routed) p a vals where "(p, a) \<in> set routes" "match_pattern p (hr_Method r) (request_path r) = Some vals"
      "mux E r s = run_access a E (r\<lparr>rq_Values := vals\<rparr>) s"
proof (cases "find_route routes (hr_Method r) (request_path r)")
  case None
  then show ?thesis by (intro other) (simp_all add: mux_def Let_def moved_def NotFound_def)
next
  case (Some x)
  obtain a vals where x: "x = (a, vals)" by (cases x)
  from find_route_in [OF Some [unfolded x]] obtain p where p: "(p, a) \<in> set routes"
    "match_pattern p (hr_Method r) (request_path r) = Some vals" by blast
  show ?thesis
  proof (cases "request_path r = rq_EscapedPath r")
    case True
    with Some x p show ?thesis by (intro routed) (auto simp: mux_def Let_def)
  next
    case False
    with Some x show ?thesis by (intro other) (simp_all add: mux_def Let_def moved_def)
  qed
qed

lemma server_steps: "machine_step E r s (snd (serve E r s))"
proof (cases rule: mux_cases [of E r s])
  case other
  then show ?thesis by (simp add: machine_step.by_anyone public_step.p_idle)
next
  case (routed p a vals)
  then have "granted a" using routes_granted by auto
  from run_access_step [OF this, of E "r\<lparr>rq_Values := vals\<rparr>" s] routed(3)
  have "machine_step E (r\<lparr>rq_Values := vals\<rparr>) s (snd (serve E r s))" by simp
  then show ?thesis
    by cases (auto intro: machine_step.intros)
qed

text \<open>
  C1: the server refines the abstract machine of authority. Whatever the request, the state after
  serving it is the state before after one step of the machine, taken with the credentials the
  request carries: nothing, a live session, a live session of an administrator, or a live share.
\<close>

theorem server_refines_authority: "machine_step E r s (snd (serve E r s))"
  by (rule server_steps)

end
