(* ===== verification/Controller_Lifecycle.thy ===== *)
theory Controller_Lifecycle
  imports Controller
begin

text \<open>
  What the controller's life cycle operations achieve. Run alone, provisioning and every action
  end in the state they aim at when the worker succeeds and in \<^verbatim>\<open>error\<close> when it does
  not. Under any interleaving of the store calls of handlers, goroutines and reconciliation, the
  state of a workstation moves only along the table of transitions, apart from the step to
  \<^verbatim>\<open>error\<close> that reconciliation takes without consulting it.
\<close>

subsection \<open>One transition\<close>

definition at_state :: "Workstation \<Rightarrow> State \<Rightarrow> db \<Rightarrow> bool" where
  "at_state ws s d = (integrity d \<and> ws_State ws = State_str s \<and> state_in (ws_ID ws) d = Some (State_str s))"

lemma transition_ok:
  assumes "at_state ws s d" and "CanTransition s t"
  shows "\<exists>ws' d'. transition now ws t m d = (None, ws', d') \<and> at_state ws' t d' \<and>
    ws' = ws\<lparr>ws_State := State_str t, ws_ErrorMessage := m\<rparr>"
proof -
  from assms(1) have ok: "integrity d" "ws_State ws = State_str s" "state_in (ws_ID ws) d = Some (State_str s)"
    by (simp_all add: at_state_def)
  obtain e d' where r: "SetWorkstationState now (ws_ID ws) (State_str s) (State_str t) m d = (e, d')"
    by (cases "SetWorkstationState now (ws_ID ws) (State_str s) (State_str t) m d")
  have e: "e = None" using ws_state.set_when [OF ok(1), of now "ws_ID ws" "State_str s" "State_str t" m] ok(3) r
    by simp
  have "ValidateTransition (State_str s) t = None" using assms(2) ValidateTransition_ok by blast
  with ok(2) r e have "transition now ws t m d =
      (None, ws\<lparr>ws_State := State_str t, ws_ErrorMessage := m\<rparr>, d')"
    by (simp add: transition_def)
  moreover have "at_state (ws\<lparr>ws_State := State_str t, ws_ErrorMessage := m\<rparr>) t d'"
    using ws_state.set_inv [OF ok(1), of now "ws_ID ws" "State_str s" "State_str t" m]
      ws_state.set_same [OF ok(1,3), of now "State_str t" m] r by (simp add: at_state_def)
  ultimately show ?thesis by blast
qed

fun path :: "State \<Rightarrow> State list \<Rightarrow> bool" where
  "path s [] = True"
| "path s (t # ts) = (CanTransition s t \<and> path t ts)"

lemma transition_all_ok:
  assumes "at_state ws s d" and "path s ts"
  shows "\<exists>ws' d'. transition_all now ts ws d = (None, ws', d') \<and> at_state ws' (last (s # ts)) d' \<and>
    ws_ID ws' = ws_ID ws \<and> ws_Apps ws' = ws_Apps ws \<and> ws_VPNRequired ws' = ws_VPNRequired ws"
  using assms
proof (induction ts arbitrary: ws s d)
  case (Cons t ts)
  from transition_ok [OF Cons.prems(1), of t now "[]"] Cons.prems(2) obtain ws1 d1 where
    1: "transition now ws t [] d = (None, ws1, d1)" "at_state ws1 t d1"
      "ws1 = ws\<lparr>ws_State := State_str t, ws_ErrorMessage := []\<rparr>" by auto
  from Cons.IH [OF 1(2)] Cons.prems(2) obtain ws2 d2 where
    "transition_all now ts ws1 d1 = (None, ws2, d2)" "at_state ws2 (last (t # ts)) d2"
    "ws_ID ws2 = ws_ID ws1" "ws_Apps ws2 = ws_Apps ws1" "ws_VPNRequired ws2 = ws_VPNRequired ws1" by auto
  with 1 show ?case by auto
qed simp

subsection \<open>Calls that leave the state alone\<close>

lemma app_writes [simp]:
  "workstations (SetAppStates now i s d) = workstations d"
  "workstations (snd (SetAppVersion now i a v d)) = workstations d"
  by (simp_all add: SetAppStates_def SetAppVersion_def Let_def)

lemma app_writes_integrity:
  "integrity d \<Longrightarrow> integrity (SetAppStates now i s d)"
  "integrity d \<Longrightarrow> integrity (snd (SetAppVersion now i a v d))"
  using integrity_apply_op [of d undefined now "OpSetAppStates i s"]
    integrity_apply_op [of d undefined now "OpSetAppVersion i a v"] by simp_all

lemma state_in_cong: "workstations d = workstations d' \<Longrightarrow> state_in i d = state_in i d'"
  by (simp add: state_in_def)

lemma record_versions_keep:
  "integrity d \<Longrightarrow> integrity (record_versions now apps i as d) \<and>
   workstations (record_versions now apps i as d) = workstations d"
  by (induction as arbitrary: d)
    (auto simp: record_versions_def app_writes_integrity split: option.splits)

lemma at_state_app_writes:
  "at_state ws s d \<Longrightarrow> at_state ws s (SetAppStates now i st (record_versions now' apps j as d))"
  "at_state ws s d \<Longrightarrow> at_state ws s (SetAppStates now i st d)"
  using record_versions_keep [of d now' apps j as]
  by (auto simp: at_state_def app_writes_integrity state_in_def)

subsection \<open>Runs in isolation\<close>

lemma finish_start_ready:
  assumes "at_state ws StatePullingImages (sv_db sv)"
  shows "state_in (ws_ID ws) (sv_db (finish_start now i ws sv)) = Some ''ready''"
proof -
  have "path StatePullingImages (starting_states (ws_VPNRequired ws))"
    by (simp add: starting_states_def CanTransition_def)
  from transition_all_ok [OF assms this, of now] obtain ws' d where
    1: "transition_all now (starting_states (ws_VPNRequired ws)) ws (sv_db sv) = (None, ws', d)"
      "at_state ws' StateStartingApps d" "ws_ID ws' = ws_ID ws"
    by (auto simp: starting_states_def)
  let ?d = "SetAppStates now i ''ready'' (record_versions now (sv_apps sv) i (ws_Apps ws') d)"
  have "at_state ws' StateStartingApps ?d" using 1(2) by (rule at_state_app_writes)
  from transition_ok [OF this, of StateReady now "[]"] obtain ws2 d2 where
    "transition now ws' StateReady [] ?d = (None, ws2, d2)" "at_state ws2 StateReady d2" "ws_ID ws2 = ws_ID ws'"
    by (auto simp: CanTransition_def)
  with 1 show ?thesis by (simp add: finish_start_def at_state_def Let_def)
qed

lemma fail_run_error:
  assumes "at_state ws s (sv_db sv)" and "CanTransition s StateError"
  shows "state_in (ws_ID ws) (sv_db (fail_run now i ws m sv)) = Some ''error''"
proof -
  from transition_ok [OF assms, of now m] obtain ws' d' where
    "transition now ws StateError m (sv_db sv) = (None, ws', d')" "at_state ws' StateError d'" "ws_ID ws' = ws_ID ws"
    by auto
  then show ?thesis using state_in_cong [of "SetAppStates now i ''error'' d'" d']
    by (simp add: fail_run_def at_state_def)
qed

lemma provisionRequest_db [simp]: "sv_db (snd (provisionRequest W ws sv)) = sv_db sv"
  by (auto simp: provisionRequest_def request_profile_def loadVPNConfig_def Let_def
      split: sum.splits prod.splits option.splits)

definition build_succeeds ::
  "world \<Rightarrow> (ProvisionRequest \<Rightarrow> string option) \<Rightarrow> Workstation \<Rightarrow> server \<Rightarrow> bool" where
  "build_succeeds W call ws sv =
     (case fst (provisionRequest W ws sv) of Inl _ \<Rightarrow> False | Inr request \<Rightarrow> call request = None)"

lemma build_outcome:
  assumes "at_state ws StatePullingImages (sv_db sv)"
  shows "state_in (ws_ID ws) (sv_db (build W call now i ws sv)) =
    Some (if build_succeeds W call ws sv then ''ready'' else ''error'')"
proof -
  obtain r sv' where r: "provisionRequest W ws sv = (r, sv')" by (cases "provisionRequest W ws sv")
  have at: "at_state ws StatePullingImages (sv_db sv')" using assms provisionRequest_db [of W ws sv] r by simp
  have "CanTransition StatePullingImages StateError" by (simp add: CanTransition_def)
  from fail_run_error [OF at this] finish_start_ready [OF at] r show ?thesis
    by (auto simp: build_def build_succeeds_def split: sum.splits option.splits)
qed

lemma lookup_at_state:
  assumes "integrity d" and "Workstation_lookup i user d = Inr ws" and "ws_State ws = State_str s"
  shows "at_state ws s d \<and> ws_ID ws = i"
proof -
  from by_id.lookup_Inr [OF assms(1,2)] obtain w where w: "w \<in> set (workstations d)" "r_id w = i"
    "ws = (scanWorkstation w)\<lparr>ws_Apps := workstation_app_list (r_id w) d\<rparr>" by blast
  with assms show ?thesis by (auto simp: at_state_def state_in_iff scanWorkstation_def)
qed

lemma runAction_outcome:
  assumes "integrity (sv_db sv)" and "Workstation_lookup i user (sv_db sv) = Inr ws"
    and "ws_State ws = State_str s" and "CanTransition s StateError"
    and "path s ((if action = ''start'' \<and> ws_VPNRequired ws
      then [StateWaitingForVPN, StateStartingApps] else []) @ [final])"
  shows "state_in i (sv_db (runAction W now i user action final sv)) =
    Some (if w_Action W i action = None then State_str final else ''error'')"
proof -
  from lookup_at_state [OF assms(1-3)] have at: "at_state ws s (sv_db sv)" and i: "ws_ID ws = i" by auto
  show ?thesis
  proof (cases "w_Action W i action")
    case (Some e)
    from transition_ok [OF at assms(4), of now "w_text W (WorkerFailed e)"] Some assms(2) i show ?thesis
      by (auto simp: runAction_def at_state_def)
  next
    case None
    let ?pre = "if action = ''start'' \<and> ws_VPNRequired ws then [StateWaitingForVPN, StateStartingApps] else []"
    have p: "path s ?pre" "CanTransition (last (s # ?pre)) final" using assms(5) by (auto split: if_splits)
    from transition_all_ok [OF at p(1), of now] obtain ws1 d1 where
      1: "transition_all now ?pre ws (sv_db sv) = (None, ws1, d1)" "at_state ws1 (last (s # ?pre)) d1"
        "ws_ID ws1 = ws_ID ws" by blast
    from transition_ok [OF at_state_app_writes(2) [OF 1(2), of now i "action_app_state action"] p(2), of now "[]"]
    obtain ws2 d2 where "transition now ws1 final [] (SetAppStates now i (action_app_state action) d1) =
        (None, ws2, d2)" "at_state ws2 final d2" "ws_ID ws2 = ws_ID ws1" by auto
    with None assms(2) 1 i show ?thesis by (simp add: runAction_def at_state_def)
  qed
qed

lemma runRestart_outcome:
  assumes "integrity (sv_db sv)" and "Workstation_lookup i user (sv_db sv) = Inr ws"
    and "ws_State ws = State_str StateStopping"
  shows "state_in i (sv_db (runRestart W now i user sv)) =
    Some (if w_Action W i ''restart'' = None then ''ready'' else ''error'')"
proof -
  from lookup_at_state [OF assms] have at: "at_state ws StateStopping (sv_db sv)" and i: "ws_ID ws = i" by auto
  show ?thesis
  proof (cases "w_Action W i ''restart''")
    case (Some e)
    from transition_ok [OF at, of StateError now "w_text W (WorkerFailed e)"] Some assms(2) i show ?thesis
      by (auto simp: runRestart_def at_state_def CanTransition_def)
  next
    case None
    let ?pre = "restart_states (ws_VPNRequired ws)"
    have p: "path StateStopping ?pre" "last (StateStopping # ?pre) = StateStartingApps"
      by (auto simp: restart_states_def CanTransition_def)
    from transition_all_ok [OF at p(1), of now] obtain ws1 d1 where
      1: "transition_all now ?pre ws (sv_db sv) = (None, ws1, d1)" "at_state ws1 StateStartingApps d1"
        "ws_ID ws1 = ws_ID ws" unfolding p(2) by blast
    from transition_ok [OF at_state_app_writes(2) [OF 1(2), of now i "''ready''"], of StateReady now "[]"]
    obtain ws2 d2 where "transition now ws1 StateReady [] (SetAppStates now i ''ready'' d1) =
        (None, ws2, d2)" "at_state ws2 StateReady d2" "ws_ID ws2 = ws_ID ws1" by (auto simp: CanTransition_def)
    with None assms(2) 1 i show ?thesis by (simp add: runRestart_def at_state_def)
  qed
qed

lemma transition_lookup:
  assumes "integrity d" and "Workstation_lookup i user d = Inr ws" and "transition now ws t m d = (None, ws', d')"
  shows "integrity d' \<and> (\<exists>ws2. Workstation_lookup i user d' = Inr ws2 \<and> ws_State ws2 = State_str t \<and>
    ws_VPNRequired ws2 = ws_VPNRequired ws \<and> ws_Apps ws2 = ws_Apps ws \<and>
    ws_VPNProfileID ws2 = ws_VPNProfileID ws \<and> ws_EgressMode ws2 = ws_EgressMode ws)"
proof -
  from by_id.lookup_Inr [OF assms(1,2)] obtain w where w: "w \<in> set (workstations d)" "r_id w = i"
    "may_reach user (r_owner_user_id w)" "ws = (scanWorkstation w)\<lparr>ws_Apps := workstation_app_list (r_id w) d\<rparr>"
    by blast
  then have ws: "ws_ID ws = i" "ws_State ws = r_state w" by (simp_all add: scanWorkstation_def)
  from assms(3) ws have set: "SetWorkstationState now i (r_state w) (State_str t) m d = (None, d')"
    by (auto simp: transition_def split: option.splits prod.splits)
  have "state_in i d = Some (r_state w)" using w(1,2) state_in_iff [OF assms(1)] by auto
  note upd = SetWorkstationState_cases(1) [OF assms(1) this, of now "State_str t" m]
  let ?f = "\<lambda>w. w\<lparr>r_state := State_str t, r_error_message := m, r_updated_at := now,
    r_last_started_at := (if State_str t = ''ready'' then Some now else r_last_started_at w)\<rparr>"
  have d': "d' = snd (SetWorkstationState now i (r_state w) (State_str t) m d)" using set by simp
  have rows: "workstations d' = update_where (\<lambda>q. r_id q = i \<and> r_state q = r_state w) ?f (workstations d)"
    and apps: "workstation_apps d' = workstation_apps d" unfolding d' upd by simp_all
  have new: "?f w \<in> set (workstations d')" unfolding rows update_where_def using w(1,2) by force
  have inv: "integrity d'" using ws_state.set_inv [OF assms(1), of now i "r_state w" "State_str t" m] set by simp
  from by_id.lookup_row [OF inv new refl, of user] w inv show ?thesis
    by (simp add: scanWorkstation_def workstation_app_list_def apps)
qed

definition action_goal :: "string \<Rightarrow> State" where
  "action_goal action =
     (if action = ''stop'' then StateStopped else if action = ''delete'' then StateDeleted else StateReady)"

definition action_succeeds :: "world \<Rightarrow> string \<Rightarrow> string \<Rightarrow> Workstation \<Rightarrow> server \<Rightarrow> bool" where
  "action_succeeds W i action ws sv =
     (if action = ''update'' then build_succeeds W (w_Rebuild W) ws sv else w_Action W i action = None)"

lemma beginAction_Inr:
  assumes "beginAction now user i action sv = (Inr g, sv')"
  obtains ws nxt ws' d' where "Workstation_lookup i user (sv_db sv) = Inr ws"
    "action_plan i user action (ws_VPNRequired ws) = Some (nxt, g)"
    "transition now ws nxt [] (sv_db sv) = (None, ws', d')" "sv' = sv\<lparr>sv_db := d'\<rparr>"
  using assms by (auto simp: beginAction_def split: sum.splits option.splits prod.splits)

subsection \<open>Any interleaving\<close>

text \<open>
  The store calls the controller makes for the life cycle: a new workstation starts in
  \<^verbatim>\<open>creating\<close>, and a change of state is one the table permits or the step to
  \<^verbatim>\<open>error\<close> of reconciliation, which only visits workstations that are neither deleted nor
  being deleted.
\<close>

definition lifecycle_call :: "db_op \<Rightarrow> bool" where
  "lifecycle_call op =
     (case op of
        OpSetWorkstationState i f t m \<Rightarrow>
          (case State_of t of None \<Rightarrow> False | Some st \<Rightarrow> ValidateTransition f st = None) \<or>
          t = ''error'' \<and> f \<noteq> ''deleted'' \<and> f \<noteq> ''deleting''
      | OpCreateWorkstation ws as \<Rightarrow> ws_State ws = ''creating''
      | _ \<Rightarrow> True)"

inductive moves :: "State \<Rightarrow> State \<Rightarrow> bool" where
  permitted: "lifecycle_step s t \<Longrightarrow> moves s t"
| reconciled: "s \<noteq> StateDeleted \<Longrightarrow> s \<noteq> StateDeleting \<Longrightarrow> moves s StateError"

inductive_cases moves_from_deleted: "moves StateDeleted t"

lemma deleted_final: "moves\<^sup>*\<^sup>* StateDeleted t \<Longrightarrow> t = StateDeleted"
  by (induction rule: rtranclp_induct)
    (auto elim!: moves_from_deleted simp: lifecycle_step_iff CanTransition_def)

lemma find_append_Some: "find P xs = Some x \<Longrightarrow> find P (xs @ ys) = Some x"
  by simp

lemma state_in_frame:
  assumes "integrity d" and "\<not> is_OpSetWorkstationState op" and "state_in i d = Some s"
  shows "state_in i (apply_op unm now op d) = Some s"
proof (cases "is_OpSetWorkstationAccent op \<or> is_OpCreateWorkstation op")
  case False
  with assms(2) have "workstations (apply_op unm now op d) = workstations d" by (simp add: workstations_frame)
  with assms(3) show ?thesis by (simp add: state_in_def)
next
  case True
  from assms(3) obtain w where w: "find (\<lambda>w. r_id w = i) (workstations d) = Some w" "r_state w = s"
    by (auto simp: state_in_def)
  from True assms(2) show ?thesis
  proof (cases op)
    case (OpSetWorkstationAccent j u c)
    with w show ?thesis by (auto simp: SetWorkstationAccent_def Let_def state_in_def find_update_where)
  next
    case (OpCreateWorkstation ws as)
    with w show ?thesis
      by (auto simp: CreateWorkstation_def state_in_def RecordEvent_def split: sum.splits)
  qed auto
qed

lemma lifecycle_call_step:
  assumes "integrity d" and "lifecycle_call op" and "state_in i d = Some (State_str s)"
  shows "\<exists>t. state_in i (apply_op unm now op d) = Some (State_str t) \<and> (t = s \<or> moves s t)"
proof (cases "is_OpSetWorkstationState op")
  case True
  then obtain j f t m where OpSetWorkstationState: "op = OpSetWorkstationState j f t m" by (cases op) auto
  show ?thesis
  proof (cases "j = i \<and> f = State_str s")
    case True
    from assms(2) OpSetWorkstationState True consider
        st where "State_of t = Some st" "ValidateTransition (State_str s) st = None"
      | "t = ''error''" "State_str s \<noteq> ''deleted''" "State_str s \<noteq> ''deleting''"
      by (auto simp: lifecycle_call_def split: option.splits)
    then have "\<exists>st. t = State_str st \<and> moves s st"
    proof cases
      case (1 st)
      then have "moves s st" by (auto simp: ValidateTransition_ok lifecycle_step_iff intro: moves.permitted)
      with 1(1) show ?thesis by (auto dest: State_of_Some)
    next
      case 2
      then have "moves s StateError" by (intro moves.reconciled) auto
      with 2(1) show ?thesis by (intro exI [of _ StateError]) simp
    qed
    then obtain st where st: "t = State_str st" "moves s st" by blast
    with True assms(1,3) OpSetWorkstationState show ?thesis
      by (auto intro!: exI [of _ st] ws_state.set_same)
  next
    case False
    then have "state_in i (snd (SetWorkstationState now j f t m d)) = state_in i d"
      using assms ws_state.set_other [OF assms(1), of i j now f t m]
        SetWorkstationState_cases(2) [OF assms(1), of j f now t m] by (cases "j = i") auto
    with OpSetWorkstationState assms(3) show ?thesis by auto
  qed
next
  case False
  from state_in_frame [OF assms(1) this assms(3)] show ?thesis by blast
qed

text \<open>\<open>emits d d'\<close>: the store went from \<open>d\<close> to \<open>d'\<close> by such calls.\<close>

definition emits :: "db \<Rightarrow> db \<Rightarrow> bool" where
  "emits d d' = (\<exists>calls. list_all (\<lambda>c. lifecycle_call (snd c)) calls \<and> (\<forall>unm. d' = run unm calls d))"

lemma emits_refl [simp]: "emits d d"
  unfolding emits_def by (intro exI [of _ "[]"]) simp

lemma emits_trans: "emits d e \<Longrightarrow> emits e f \<Longrightarrow> emits d f"
  unfolding emits_def
  by (elim exE, rule_tac x = "calls @ callsa" in exI) (auto simp: run_def)

lemma emits_call: "lifecycle_call op \<Longrightarrow> (\<And>unm. d' = apply_op unm now op d) \<Longrightarrow> emits d d'"
  unfolding emits_def by (intro exI [of _ "[(now, op)]"]) simp

lemma emits_transition: "emits d (snd (snd (transition now ws t m d)))"
proof (cases "ValidateTransition (ws_State ws) t")
  case None
  then have "emits d (snd (SetWorkstationState now (ws_ID ws) (ws_State ws) (State_str t) m d))"
    by (intro emits_call [where now = now and op = "OpSetWorkstationState (ws_ID ws) (ws_State ws) (State_str t) m"])
      (auto simp: lifecycle_call_def)
  with None show ?thesis by (auto simp: transition_def split: prod.splits option.splits)
qed (auto simp: transition_def)

lemma emits_transition_all: "emits d (snd (snd (transition_all now ss ws d)))"
proof (induction ss arbitrary: ws d)
  case (Cons s ss)
  obtain e ws' d' where t: "transition now ws s [] d = (e, ws', d')" by (metis prod_cases3)
  have "emits d d'" using emits_transition [of d now ws s "[]"] t by simp
  with t Cons.IH [of d' ws'] show ?case by (auto split: option.splits intro: emits_trans)
qed simp

lemma emits_SetAppStates: "emits d (SetAppStates now i s d)"
  by (rule emits_call [where now = now and op = "OpSetAppStates i s"]) (simp_all add: lifecycle_call_def)

lemma emits_record_versions: "emits d (record_versions now apps i as d)"
proof (induction as arbitrary: d)
  case (Cons a as)
  let ?d = "case Get apps (wa_AppID a) of None \<Rightarrow> d
    | Some manifest \<Rightarrow> snd (SetAppVersion now i (wa_AppID a) (m_Version manifest) d)"
  have "emits d (snd (SetAppVersion now i (wa_AppID a) v d))" for v
    by (rule emits_call [where now = now and op = "OpSetAppVersion i (wa_AppID a) v"])
      (simp_all add: lifecycle_call_def)
  then have "emits d ?d" by (simp split: option.splits)
  from emits_trans [OF this Cons.IH] show ?case by (simp add: record_versions_def)
qed (simp add: record_versions_def)

lemmas emits_intros = emits_transition emits_transition_all emits_SetAppStates emits_record_versions

lemma emits_finish_start: "emits (sv_db sv) (sv_db (finish_start now i ws sv))"
proof -
  obtain e ws' d where t: "transition_all now (starting_states (ws_VPNRequired ws)) ws (sv_db sv) = (e, ws', d)"
    by (metis prod_cases3)
  have 1: "emits (sv_db sv) d"
    using emits_transition_all [of "sv_db sv" now "starting_states (ws_VPNRequired ws)" ws] t by simp
  have "emits d (snd (snd (transition now ws' StateReady []
      (SetAppStates now i ''ready'' (record_versions now (sv_apps sv) i (ws_Apps ws') d)))))"
    by (intro emits_trans [OF emits_record_versions emits_trans [OF emits_SetAppStates emits_transition]])
  with t 1 show ?thesis
    by (auto simp: finish_start_def Let_def split: option.splits intro: emits_trans)
qed

lemma emits_fail_run: "emits (sv_db sv) (sv_db (fail_run now i ws m sv))"
  unfolding fail_run_def by (simp add: emits_trans [OF emits_transition emits_SetAppStates])

lemma emits_build: "emits (sv_db sv) (sv_db (build W call now i ws sv))"
proof -
  obtain r sv' where r: "provisionRequest W ws sv = (r, sv')" by (cases "provisionRequest W ws sv")
  then have "sv_db sv' = sv_db sv" using provisionRequest_db [of W ws sv] by simp
  with r emits_fail_run [of sv'] emits_finish_start [of sv'] show ?thesis
    by (auto simp: build_def split: sum.splits option.splits)
qed

lemma emits_provision: "emits (sv_db sv) (sv_db (provision W now i user sv))"
proof (cases "Workstation_lookup i user (sv_db sv)")
  case (Inr ws)
  obtain e ws' d where t: "transition now ws StatePullingImages [] (sv_db sv) = (e, ws', d)" by (metis prod_cases3)
  have 1: "emits (sv_db sv) d" using emits_transition [of "sv_db sv" now ws StatePullingImages "[]"] t by simp
  have "emits d (sv_db (build W (w_Provision W) now i ws' (sv\<lparr>sv_db := d\<rparr>)))"
    using emits_build [of "sv\<lparr>sv_db := d\<rparr>"] by simp
  with Inr t 1 show ?thesis by (auto simp: provision_def split: option.splits intro: emits_trans)
qed (simp add: provision_def)

lemma emits_runAction: "emits (sv_db sv) (sv_db (runAction W now i user action final sv))"
proof (cases "Workstation_lookup i user (sv_db sv)")
  case (Inr ws)
  let ?pre = "if action = ''start'' \<and> ws_VPNRequired ws then [StateWaitingForVPN, StateStartingApps] else []"
  obtain e ws' d where t: "transition_all now ?pre ws (sv_db sv) = (e, ws', d)" by (metis prod_cases3)
  have 1: "emits (sv_db sv) d" using emits_transition_all [of "sv_db sv" now ?pre ws] t by simp
  have "emits d (snd (snd (transition now ws' final [] (SetAppStates now i (action_app_state action) d))))"
    by (rule emits_trans [OF emits_SetAppStates emits_transition])
  with Inr t 1 emits_transition show ?thesis
    by (auto simp: runAction_def split: option.splits intro: emits_trans)
qed (simp add: runAction_def)

lemma emits_runRestart: "emits (sv_db sv) (sv_db (runRestart W now i user sv))"
proof (cases "Workstation_lookup i user (sv_db sv)")
  case (Inr ws)
  let ?pre = "restart_states (ws_VPNRequired ws)"
  obtain e ws' d where t: "transition_all now ?pre ws (sv_db sv) = (e, ws', d)" by (metis prod_cases3)
  have 1: "emits (sv_db sv) d" using emits_transition_all [of "sv_db sv" now ?pre ws] t by simp
  have "emits d (snd (snd (transition now ws' StateReady [] (SetAppStates now i ''ready'' d))))"
    by (rule emits_trans [OF emits_SetAppStates emits_transition])
  with Inr t 1 emits_transition show ?thesis
    by (auto simp: runRestart_def split: option.splits intro: emits_trans)
qed (simp add: runRestart_def)

lemma emits_goroutine: "emits (sv_db sv) (sv_db (run_goroutine W now g sv))"
  by (cases g) (auto simp: run_goroutine_def emits_provision emits_runAction emits_runRestart
      runUpdate_def emits_build split: sum.splits)

lemma emits_beginAction: "emits (sv_db sv) (sv_db (snd (beginAction now user i action sv)))"
proof (cases "Workstation_lookup i user (sv_db sv)")
  case (Inr ws)
  show ?thesis
  proof (cases "action_plan i user action (ws_VPNRequired ws)")
    case (Some p)
    obtain nxt g where p: "p = (nxt, g)" by (cases p)
    obtain e ws' d where t: "transition now ws nxt [] (sv_db sv) = (e, ws', d)" by (metis prod_cases3)
    have "emits (sv_db sv) d" using emits_transition [of "sv_db sv" now ws nxt "[]"] t by simp
    with Inr Some p t show ?thesis by (auto simp: beginAction_def split: option.splits)
  qed (simp add: beginAction_def Inr)
qed (simp add: beginAction_def)

lemma emits_CreateWorkstation:
  "ws_State ws = ''creating'' \<Longrightarrow> emits d (snd (CreateWorkstation now ws apps d))"
  by (rule emits_call [where now = now and op = "OpCreateWorkstation ws apps"]) (simp_all add: lifecycle_call_def)

lemma emits_create: "emits (sv_db sv) (sv_db (snd (create now b user input sv)))"
  using emits_CreateWorkstation [of "new_workstation i n user p m v" for i n p m v]
  by (auto simp: create_def Let_def new_workstation_def split: option.splits sum.splits prod.splits)
    (metis snd_conv)+

lemma emits_reconcile_one:
  assumes "ws_State ws \<noteq> ''deleted''" "ws_State ws \<noteq> ''deleting''"
  shows "emits d (reconcile_one now resources ws d)"
proof -
  have "emits d (snd (SetWorkstationState now (ws_ID ws) (ws_State ws) ''error'' m d))" for m
    using assms
    by (intro emits_call [where now = now and op = "OpSetWorkstationState (ws_ID ws) (ws_State ws) ''error'' m"])
      (simp_all add: lifecycle_call_def)
  then show ?thesis by (simp add: reconcile_one_def Let_def)
qed

lemma emits_fold:
  "(\<And>x d. x \<in> set xs \<Longrightarrow> emits d (f x d)) \<Longrightarrow> emits d (fold f xs d)"
  by (induction xs arbitrary: d) (auto intro: emits_trans)

lemma emits_Reconcile: "emits (sv_db sv) (sv_db (snd (Reconcile W now sv)))"
  by (auto simp: Reconcile_def AllActiveWorkstations_def scanWorkstation_def split: sum.splits
      intro!: emits_fold emits_reconcile_one)

subsection \<open>Creation\<close>

lemma create_Inr:
  assumes "create now b user input sv = (Inr ws, sv')"
  obtains preset dbApps profile where
    "Get_template (sv_presets sv) (ci_TemplateID input) = Some preset"
    "Granted (ParseGrants (u_AllowedEgress user)) (Resolve (tp_Egress preset) (tp_VPNRequired preset))
       (u_IsAdmin user)"
    "select_profile preset (ci_VPNProfileID input) user (sv_db sv) = Inr profile"
    "ws = new_workstation (workstationID b) (TrimSpace (ci_Name input)) user preset
       (Resolve (tp_Egress preset) (tp_VPNRequired preset)) profile"
    "CreateWorkstation now ws dbApps (sv_db sv) = (None, sv_db sv')"
  using assms
  by (auto simp: create_def Let_def split: if_splits option.splits sum.splits prod.splits)

lemma CreateWorkstation_row:
  "CreateWorkstation now ws apps d = (None, d') \<Longrightarrow>
   workstations d' = workstations d @ [workstation_insert now ws] \<and> ws_CPULimit ws \<noteq> NaN"
  by (auto simp: CreateWorkstation_def RecordEvent_def split: if_splits sum.splits prod.splits option.splits)

lemma select_profile_Inr:
  "select_profile preset requested user d = Inr profile \<Longrightarrow> tp_VPNRequired preset \<Longrightarrow>
   \<exists>p \<in> set (vpn_profiles d). profile = Some (p_ID p) \<and> p_Enabled p \<and> profile_visible user d p"
  by (auto simp: select_profile_def VPNProfileForUser_def split: option.splits sum.splits if_splits
      dest: find_SomeD)

subsection \<open>A sample server\<close>

definition sample_entry :: Entry where
  "sample_entry = \<lparr>e_Manifest = sample_manifest, e_Path = [], e_SHA256 = [], e_Error = None\<rparr>"

definition sample_preset :: Template where
  "sample_preset = sample_template\<lparr>tp_ID := ''general'', tp_VPNRequired := False, tp_Egress := ''ipv6''\<rparr>"

definition sample_server :: server where
  "sample_server = \<lparr>sv_db = sample_db, sv_apps = [(''browser'', sample_entry)],
     sv_presets = [(''general'', sample_preset)], sv_files = \<lparr>key_file = None, profiles = []\<rparr>,
     sv_vpnStore = sample_store\<rparr>"

definition sample_world :: world where
  "sample_world = \<lparr>w_uni = (\<lambda>s. s), w_crypto = sample_crypto, w_faults = no_faults,
     w_random = sample_random, w_unmarshal = unmarshal_plain, w_Provision = (\<lambda>_. None),
     w_Rebuild = (\<lambda>_. None), w_Action = (\<lambda>_ _. None), w_List = Inr [], w_text = (\<lambda>_. ''failed'')\<rparr>"

definition sample_admin :: User where
  "sample_admin = \<lparr>u_ID = 1, u_Username = ''admin'', u_IsAdmin = True, u_AllowedEgress = initialAdminEgress,
     u_AccentColor = [], u_CreatedAt = zero_time\<rparr>"

definition sample_input :: createInput where
  "sample_input = \<lparr>ci_Name = ''box'', ci_TemplateID = ''general'', ci_Apps = [], ci_VPNProfileID = None\<rparr>"

subsection \<open>Properties\<close>

text \<open>
  C11: creating a workstation is permitted only along the user's grants. If creation succeeds, the
  preset exists, its mode is one an administrator may use or one granted to the user and not
  reserved to administrators; a preset that requires a VPN gets an enabled profile the user can
  see; and the stored workstation belongs to the user and is in state \<^verbatim>\<open>creating\<close>.
\<close>

theorem create_enforces_grants:
  assumes "create now b user input sv = (Inr ws, sv')"
  shows "\<exists>preset. Get_template (sv_presets sv) (ci_TemplateID input) = Some preset \<and>
    (let mode = Resolve (tp_Egress preset) (tp_VPNRequired preset) in
       Valid mode \<and> (u_IsAdmin user \<or> mode \<in> set (ParseGrants (u_AllowedEgress user)) \<and> mode \<noteq> HostGateway)) \<and>
    (tp_VPNRequired preset \<longrightarrow> (\<exists>p \<in> set (vpn_profiles (sv_db sv)).
       ws_VPNProfileID ws = Some (p_ID p) \<and> p_Enabled p \<and> profile_visible user (sv_db sv) p)) \<and>
    (\<exists>w \<in> set (workstations (sv_db sv')). r_id w = ws_ID ws \<and> r_owner_user_id w = u_ID user \<and>
       r_state w = ''creating'' \<and> r_vpn_required w = tp_VPNRequired preset)"
proof -
  from assms obtain preset dbApps profile where c:
    "Get_template (sv_presets sv) (ci_TemplateID input) = Some preset"
    "Granted (ParseGrants (u_AllowedEgress user)) (Resolve (tp_Egress preset) (tp_VPNRequired preset)) (u_IsAdmin user)"
    "select_profile preset (ci_VPNProfileID input) user (sv_db sv) = Inr profile"
    "ws = new_workstation (workstationID b) (TrimSpace (ci_Name input)) user preset
       (Resolve (tp_Egress preset) (tp_VPNRequired preset)) profile"
    "CreateWorkstation now ws dbApps (sv_db sv) = (None, sv_db sv')" by (rule create_Inr)
  have "workstation_insert now ws \<in> set (workstations (sv_db sv'))" using CreateWorkstation_row [OF c(5)] by simp
  moreover have "let mode = Resolve (tp_Egress preset) (tp_VPNRequired preset) in
      Valid mode \<and> (u_IsAdmin user \<or> mode \<in> set (ParseGrants (u_AllowedEgress user)) \<and> mode \<noteq> HostGateway)"
    using c(2) Resolve_Valid by (auto simp: Granted_def AdminOnly_def list_ex_iff Let_def split: if_splits)
  ultimately show ?thesis
    using c(1,4) select_profile_Inr [OF c(3)]
    by (force simp: new_workstation_def workstation_insert_def)
qed

lemma sample_create: "is_ok (fst (create (Time 200 0) ''0123456789'' sample_admin sample_input sample_server))"
  by code_simp

theorem create_enforces_grants_witness:
  "\<exists>w \<in> set (workstations (sv_db (snd (create (Time 200 0) ''0123456789'' sample_admin sample_input sample_server)))).
     r_owner_user_id w = 1 \<and> r_state w = ''creating''"
proof -
  let ?r = "create (Time 200 0) ''0123456789'' sample_admin sample_input sample_server"
  from sample_create obtain ws where "fst ?r = Inr ws" by (rule is_okE)
  then have "?r = (Inr ws, snd ?r)" by (metis prod.collapse)
  from create_enforces_grants [OF this] show ?thesis by (auto simp: sample_admin_def)
qed

text \<open>
  The mode a new workstation is provisioned with. The row that creation stores keeps no mode,
  so provisioning resolves it from \<^verbatim>\<open>vpn_required\<close> alone: WireGuard when the preset requires
  a VPN and a direct connection otherwise, whatever mode the preset names. A workstation that
  requires a VPN is therefore never provisioned with another mode.
\<close>

theorem created_mode_from_vpn_flag:
  assumes "integrity (sv_db sv)" and "create now b user input sv = (Inr ws, sv')"
    and "Workstation_lookup (ws_ID ws) user (sv_db sv') = Inr stored"
    and "provisionRequest W stored sv2 = (Inr request, sv3)"
  shows "pr_EgressMode request = (if ws_VPNRequired ws then WireGuard else Direct)
    \<and> pr_VPNRequired request = ws_VPNRequired ws \<and> ws_EgressMode stored = []
    \<and> (ws_VPNRequired ws \<longrightarrow> pr_VPNProfile request \<noteq> None)"
proof -
  from assms(2) obtain dbApps where c: "CreateWorkstation now ws dbApps (sv_db sv) = (None, sv_db sv')"
    by (rule create_Inr)
  have "integrity (sv_db sv')" using integrity_CreateWorkstation [OF assms(1), of now ws dbApps] c by simp
  moreover have "workstation_insert now ws \<in> set (workstations (sv_db sv'))" using CreateWorkstation_row [OF c] by simp
  moreover have "r_id (workstation_insert now ws) = ws_ID ws" by (simp add: workstation_insert_def)
  ultimately have "stored = (scanWorkstation (workstation_insert now ws))\<lparr>ws_Apps :=
      workstation_app_list (ws_ID ws) (sv_db sv')\<rparr>"
    using by_id.lookup_row [of "sv_db sv'" "workstation_insert now ws" "ws_ID ws" user] assms(3)
    by (simp split: if_splits)
  then have s: "ws_EgressMode stored = []" "ws_VPNRequired stored = ws_VPNRequired ws"
    by (simp_all add: scanWorkstation_def workstation_insert_def)
  from assms(4) have "pr_EgressMode request = Resolve (ws_EgressMode stored) (ws_VPNRequired stored)"
    "pr_VPNRequired request = ws_VPNRequired stored"
    "fst (request_profile W (Resolve (ws_EgressMode stored) (ws_VPNRequired stored)) stored sv2) =
       Inr (pr_VPNProfile request)"
    by (auto simp: provisionRequest_def Let_def split: sum.splits prod.splits)
  with s show ?thesis
    by (auto simp: Resolve_empty RequiresVPNProfile_def request_profile_def
        split: option.splits sum.splits prod.splits if_splits dest: sym)
qed

theorem created_mode_from_vpn_flag_witness:
  "\<exists>stored request. ws_EgressMode stored = [] \<and> pr_EgressMode request = Direct \<and>
     fst (provisionRequest sample_world stored
       (snd (create (Time 200 0) ''0123456789'' sample_admin sample_input sample_server))) = Inr request"
proof -
  let ?r = "create (Time 200 0) ''0123456789'' sample_admin sample_input sample_server"
  let ?ws = "projr (fst ?r)" and ?sv = "snd ?r"
  let ?lookup = "Workstation_lookup (ws_ID ?ws) sample_admin (sv_db ?sv)"
  have ok: "is_ok (fst ?r)" "is_ok ?lookup" "is_ok (fst (provisionRequest sample_world (projr ?lookup) ?sv))"
    "\<not> ws_VPNRequired ?ws" by code_simp+
  have r: "?r = (Inr ?ws, ?sv)" using ok(1) by (metis is_okE prod.collapse sum.sel(2))
  have l: "?lookup = Inr (projr ?lookup)" using ok(2) by (metis is_okE sum.sel(2))
  obtain request where q: "fst (provisionRequest sample_world (projr ?lookup) ?sv) = Inr request"
    using ok(3) by (rule is_okE)
  then have p: "provisionRequest sample_world (projr ?lookup) ?sv =
      (Inr request, snd (provisionRequest sample_world (projr ?lookup) ?sv))" by (metis prod.collapse)
  have i: "integrity (sv_db sample_server)" by (simp add: sample_server_def sample_db_integrity)
  from created_mode_from_vpn_flag [OF i r l p] ok(4) q show ?thesis by auto
qed

text \<open>
  C22: provisioning ends. Run alone on a workstation in state \<^verbatim>\<open>creating\<close>, it leaves the
  workstation \<^verbatim>\<open>ready\<close> when the request could be built and the worker accepted it, and in
  state \<^verbatim>\<open>error\<close> otherwise; it never leaves it half way.
\<close>

theorem provision_outcome:
  assumes "integrity (sv_db sv)" and "Workstation_lookup i user (sv_db sv) = Inr ws"
    and "ws_State ws = State_str StateCreating"
  shows "\<exists>ws' d. transition now ws StatePullingImages [] (sv_db sv) = (None, ws', d) \<and>
    state_in i (sv_db (provision W now i user sv)) =
      Some (if build_succeeds W (w_Provision W) ws' (sv\<lparr>sv_db := d\<rparr>) then ''ready'' else ''error'')"
proof -
  from lookup_at_state [OF assms] have at: "at_state ws StateCreating (sv_db sv)" and i: "ws_ID ws = i" by auto
  from transition_ok [OF at, of StatePullingImages now "[]"] obtain ws' d where
    t: "transition now ws StatePullingImages [] (sv_db sv) = (None, ws', d)" "at_state ws' StatePullingImages d"
      "ws_ID ws' = ws_ID ws" by (auto simp: CanTransition_def)
  from build_outcome [of ws' "sv\<lparr>sv_db := d\<rparr>" W "w_Provision W" now i] t i assms(2) show ?thesis
    by (simp add: provision_def)
qed

theorem provision_outcome_witness:
  "state_in ''ws-abc123'' (sv_db (provision sample_world (Time 200 0) ''ws-abc123'' sample_admin sample_server))
   \<in> {Some ''ready'', Some ''error''}"
proof -
  have "is_ok (Workstation_lookup ''ws-abc123'' sample_admin (sv_db sample_server))"
    "ws_State (projr (Workstation_lookup ''ws-abc123'' sample_admin (sv_db sample_server))) = State_str StateCreating"
    by code_simp+
  then obtain ws where ws: "Workstation_lookup ''ws-abc123'' sample_admin (sv_db sample_server) = Inr ws"
    "ws_State ws = State_str StateCreating" by (metis is_okE sum.sel(2))
  have i: "integrity (sv_db sample_server)" by (simp add: sample_server_def sample_db_integrity)
  from provision_outcome [OF i ws, of "Time 200 0" sample_world] show ?thesis by (auto split: if_splits)
qed



lemma lifecycle_run:
  assumes "integrity d" and "list_all (\<lambda>c. lifecycle_call (snd c)) calls"
    and "state_in i d = Some (State_str s)"
  shows "\<exists>t. state_in i (run unm calls d) = Some (State_str t) \<and> moves\<^sup>*\<^sup>* s t \<and>
    (s = StateDeleted \<longrightarrow> t = StateDeleted)"
proof -
  have "\<exists>t. state_in i (run unm calls d) = Some (State_str t) \<and> moves\<^sup>*\<^sup>* s t"
    using assms
  proof (induction calls arbitrary: d s)
    case (Cons c calls)
    obtain now op where c: "c = (now, op)" by (cases c)
    from lifecycle_call_step [OF Cons.prems(1) _ Cons.prems(3), of op unm now] Cons.prems(2) c obtain u where
      u: "state_in i (apply_op unm now op d) = Some (State_str u)" "moves\<^sup>*\<^sup>* s u" by auto
    from Cons.IH [OF integrity_apply_op [OF Cons.prems(1)] _ u(1)] Cons.prems(2) c obtain t where
      "state_in i (run unm calls (apply_op unm now op d)) = Some (State_str t)" "moves\<^sup>*\<^sup>* u t" by auto
    with u(2) c show ?case by auto
  qed auto
  then show ?thesis using deleted_final by blast
qed

text \<open>
  The life cycle under concurrency. Whatever store calls of this kind are made, in whatever
  order, by handlers, goroutines and reconciliation, the state of a workstation stays one of the
  known states and moves only by transitions of the table or the step of reconciliation to
  \<^verbatim>\<open>error\<close>; a deleted workstation stays deleted.
\<close>

theorem interleaved_lifecycle:
  assumes "integrity d" and "list_all (\<lambda>c. lifecycle_call (snd c)) calls"
    and "state_in i d = Some (State_str s)"
  shows "\<exists>t. state_in i (run unm calls d) = Some (State_str t) \<and> moves\<^sup>*\<^sup>* s t \<and>
    (s = StateDeleted \<longrightarrow> t = StateDeleted)"
  by (rule lifecycle_run [OF assms])

theorem interleaved_lifecycle_witness:
  "\<exists>t. state_in ''ws-abc123'' (run unmarshal_plain
     [(Time 200 0, OpSetWorkstationState ''ws-abc123'' ''creating'' ''deleting'' []),
      (Time 201 0, OpSetWorkstationState ''ws-abc123'' ''creating'' ''pulling-images'' [])] sample_db)
     = Some (State_str t)"
proof -
  let ?calls = "[(Time 200 0, OpSetWorkstationState ''ws-abc123'' ''creating'' ''deleting'' []),
      (Time 201 0, OpSetWorkstationState ''ws-abc123'' ''creating'' ''pulling-images'' [])]"
  have "list_all (\<lambda>c. lifecycle_call (snd c)) ?calls"
    "state_in ''ws-abc123'' sample_db = Some (State_str StateCreating)" by code_simp+
  from interleaved_lifecycle [OF sample_db_integrity this, of unmarshal_plain] show ?thesis by blast
qed

text \<open>
  The controller makes only such calls. Creating a workstation, beginning an action, every
  goroutine and reconciliation change the store by the calls the previous property is about, so
  that the life cycle holds of all their interleavings.
\<close>

theorem controller_keeps_lifecycle:
  "emits (sv_db sv) (sv_db (snd (create now b user input sv)))
   \<and> emits (sv_db sv) (sv_db (snd (beginAction now user i action sv)))
   \<and> emits (sv_db sv) (sv_db (run_goroutine W now g sv))
   \<and> emits (sv_db sv) (sv_db (snd (Reconcile W now sv)))"
  by (simp add: emits_create emits_beginAction emits_goroutine emits_Reconcile)

end
