(* ===== verification/Web_Store.thy ===== *)
theory Web_Store
  imports Web_Authority Controller_Lifecycle
begin

text \<open>
  The store under the server: every request and every goroutine changes it only by the store's own
  calls, so what was proved of all sequences of calls holds of every run of the server.
\<close>

subsection \<open>Calls of the store\<close>

definition makes :: "(string \<Rightarrow> string list option) \<Rightarrow> db \<Rightarrow> db \<Rightarrow> bool" where
  "makes unm d d' = (\<exists>calls. list_all (\<lambda>c. lifecycle_call (snd c)) calls \<and> d' = run unm calls d)"

lemma makes_refl [simp]: "makes unm d d"
  unfolding makes_def by (intro exI [of _ "[]"]) simp

lemma makes_trans: "makes unm d e \<Longrightarrow> makes unm e f \<Longrightarrow> makes unm d f"
  unfolding makes_def by (elim exE, rule_tac x = "calls @ callsa" in exI) (auto simp: run_def)

lemma makes_op: "lifecycle_call op \<Longrightarrow> makes unm d (apply_op unm now op d)"
  unfolding makes_def by (intro exI [of _ "[(now, op)]"]) simp

lemma emits_makes: "emits d d' \<Longrightarrow> makes unm d d'"
  by (auto simp: emits_def makes_def)

lemma makes_calls:
  "makes unm d (snd (CreateInitialAdmin now n h d))" "makes unm d (snd (CreateUser now n h a e d))"
  "makes unm d (snd (SetUserEgress k e d))" "makes unm d (SetUserAccent k c d)"
  "makes unm d (snd (SetWorkstationAccent now i u c d))" "makes unm d (snd (CreateSession now k h t d))"
  "makes unm d (snd (SessionUser now h d))" "makes unm d (RevokeSession now h d)"
  "makes unm d (snd (CreateVPNProfile now p d))" "makes unm d (snd (SetVPNProfileEnabled now k u b d))"
  "makes unm d (snd (CreateShare unm now w k h ps r x m d))" "makes unm d (snd (RedeemShare unm now h d))"
  "makes unm d (snd (RevokeShare now w k d))" "makes unm d (snd (RecordEvent now w y m' d))"
  using makes_op [of "OpCreateInitialAdmin n h" unm d now] makes_op [of "OpCreateUser n h a e" unm d now]
    makes_op [of "OpSetUserEgress k e" unm d now] makes_op [of "OpSetUserAccent k c" unm d now]
    makes_op [of "OpSetWorkstationAccent i u c" unm d now] makes_op [of "OpCreateSession k h t" unm d now]
    makes_op [of "OpSessionUser h" unm d now] makes_op [of "OpRevokeSession h" unm d now]
    makes_op [of "OpCreateVPNProfile p" unm d now] makes_op [of "OpSetVPNProfileEnabled k u b" unm d now]
    makes_op [of "OpCreateShare w k h ps r x m" unm d now] makes_op [of "OpRedeemShare h" unm d now]
    makes_op [of "OpRevokeShare w k" unm d now] makes_op [of "OpRecordEvent w y m'" unm d now]
  by (simp_all add: lifecycle_call_def)

lemma makes_then: "makes unm d d' \<Longrightarrow> d'' = d' \<or> (\<exists>now op. lifecycle_call op \<and> d'' = apply_op unm now op d') \<Longrightarrow> makes unm d d''"
  by (auto intro: makes_trans makes_op)

subsection \<open>The steps of the machine\<close>

lemma startSession_makes: "makes unm (wb_db s) (wb_db (snd (startSession E k s)))"
proof -
  have "snd (startSession E k s) = s \<or> (\<exists>h t. wb_db (snd (startSession E k s)) = snd (CreateSession (en_time E) k h t (wb_db s)))"
    by (auto simp: startSession_def Let_def split: sum.split prod.split option.split) (metis snd_conv)+
  then show ?thesis using makes_calls(6) by (auto simp del: set_db_simps)
qed

lemma new_share_makes:
  "makes (w_unmarshal (en_world E)) (wb_db s) (wb_db (snd (new_share E user ws input s)))"
proof -
  let ?unm = "w_unmarshal (en_world E)"
  obtain ps x m r where input: "input = (ps, x, m, r)" by (cases input)
  show ?thesis
  proof (cases "RandomToken (en_token E)")
    case (Inr t)
    obtain raw hash where t: "t = (raw, hash)" by (cases t)
    obtain q d where c: "CreateShare ?unm (en_time E) (ws_ID ws) (u_ID user) hash ps r x m (wb_db s) = (q, d)"
      by (metis surj_pair)
    have d: "makes ?unm (wb_db s) d"
      using makes_calls(11) [of ?unm "wb_db s" "en_time E" "ws_ID ws" "u_ID user" hash ps r x m] c by simp
    with makes_calls(14) [of ?unm d "en_time E" "ws_ID ws"] Inr input t c show ?thesis
      by (auto simp: new_share_def split: sum.split intro: makes_trans)
  qed (simp add: new_share_def input)
qed

lemma revoke_share_makes: "makes unm (wb_db s) (wb_db (snd (revoke_share E ws k s)))"
proof -
  obtain q d where c: "RevokeShare (en_time E) (ws_ID ws) k (wb_db s) = (q, d)" by (metis surj_pair)
  have d: "makes unm (wb_db s) d"
    using makes_calls(13) [of unm "wb_db s" "en_time E" "ws_ID ws" k] c by simp
  with makes_calls(14) [of unm d "en_time E" "ws_ID ws"] c show ?thesis
    by (auto simp: revoke_share_def split: option.split intro: makes_trans)
qed

lemma store_profile_makes: "makes unm (wb_db s) (wb_db (snd (store_profile E user profile s)))"
proof -
  have "sv_db (snd (storeVPNProfile W now user profile sv)) = sv_db sv \<or>
      (\<exists>p. sv_db (snd (storeVPNProfile W now user profile sv)) = snd (CreateVPNProfile now p (sv_db sv)))" for W now sv
    by (auto simp: storeVPNProfile_def Let_def split: sum.split prod.split) (metis snd_conv)+
  from this [of "en_world E" "en_time E" "wb_server s"] show ?thesis
    using makes_calls(9) by (auto simp: store_profile_def split: prod.splits)
qed

lemma rescan_db [simp]: "wb_db (snd (rescan E s)) = wb_db s"
  by (auto simp: rescan_def split: sum.split)

lemma run_store_db [simp]: "wb_db (snd (run_store op E s)) = wb_db s"
  by (simp add: run_store_def split: prod.split)

lemma store_db [simp]:
  "wb_db (snd (store_sync E s)) = wb_db s" "wb_db (snd (store_install i E s)) = wb_db s"
  "wb_db (snd (store_rollback i E s)) = wb_db s" "wb_db (snd (snd (store_views E s))) = wb_db s"
  by (simp_all add: store_sync_def store_install_def store_rollback_def store_views_def split: prod.split)

lemma public_makes:
  assumes "public_step E s s'"
  shows "makes (w_unmarshal (en_world E)) (wb_db s) (wb_db s')"
  using assms
proof cases
  case (p_setup username hash user d)
  then have "makes (w_unmarshal (en_world E)) (wb_db s) d"
    using makes_calls(1) [of _ "wb_db s" "en_time E" username hash] by simp
  with p_setup startSession_makes [of _ "set_db d s" E "u_ID user"] show ?thesis
    by (auto intro: makes_trans)
next
  case (p_login username password user ip)
  have "wb_db (recordLogin (en_now E) ip True s) = wb_db s" by (simp add: recordLogin_def)
  with p_login startSession_makes [of _ "recordLogin (en_now E) ip True s" E "u_ID user"] show ?thesis by simp
next
  case (p_redeem h share d m)
  then have "makes (w_unmarshal (en_world E)) (wb_db s) d"
    using makes_calls(12) [of "w_unmarshal (en_world E)" "wb_db s" "en_time E" h] by simp
  with p_redeem makes_calls(14) show ?thesis by (auto intro: makes_trans)
next
  case (p_glance hs)
  have "makes unm d (fold (\<lambda>h d. snd (SessionUser (en_time E) h d)) hs d)" for unm d
    by (induction hs arbitrary: d) (auto intro: makes_trans makes_calls)
  with p_glance show ?thesis by simp
qed (simp_all add: recordLogin_def Let_def)

lemma act_db: "wb_db (snd (act_and_start E user i action s)) = sv_db (snd (beginAction (en_time E) user i action (wb_server s)))"
  by (auto simp: act_and_start_def start_job_def split: prod.split sum.split)

lemma create_db: "wb_db (snd (create_and_start E user input s)) = sv_db (snd (create (en_time E) (en_id E) user input (wb_server s)))"
  by (auto simp: create_and_start_def start_job_def split: prod.split sum.split)

lemma user_makes:
  assumes "user_step E user s s'"
  shows "makes (w_unmarshal (en_world E)) (wb_db s) (wb_db s')"
  using assms
proof cases
  case (u_enable k enabled)
  then show ?thesis using makes_calls(10) [of _ "wb_db s" "en_time E" k user enabled]
    by (simp add: enable_profile_def split: prod.splits)
next
  case (u_workstation_accent i accent)
  then show ?thesis using makes_calls(5) [of _ "wb_db s" "en_time E" i user accent]
    by (simp add: accent_of_workstation_def split: prod.splits)
qed (simp_all add: create_db act_db emits_makes emits_create emits_beginAction new_share_makes revoke_share_makes
    store_profile_makes makes_calls)

lemma admin_makes:
  assumes "admin_step E s s'"
  shows "makes (w_unmarshal (en_world E)) (wb_db s) (wb_db s')"
  using assms
proof cases
  case (a_user input)
  have "snd (storeUser E input s) = s \<or> (\<exists>n h e. wb_db (snd (storeUser E input s)) =
      snd (CreateUser (en_time E) n h (ui_IsAdmin input) e (wb_db s)))"
    by (auto simp: storeUser_def Let_def split: sum.split prod.split) (metis snd_conv)+
  with a_user makes_calls(2) show ?thesis by (auto simp del: set_db_simps)
next
  case (a_grants k grants)
  then show ?thesis using makes_calls(3) [of _ "wb_db s" k "FormatGrants grants"]
    by (simp add: set_grants_def split: prod.splits)
qed (simp_all add: emits_makes emits_Reconcile)

lemma share_makes: "share_step E share s s' \<Longrightarrow> makes unm (wb_db s) (wb_db s')"
  by (erule share_step.cases) (simp_all add: act_db emits_makes emits_beginAction)

lemma machine_makes:
  assumes "machine_step E r s s'"
  shows "makes (w_unmarshal (en_world E)) (wb_db s) (wb_db s')"
proof -
  have seen: "makes (w_unmarshal (en_world E)) (wb_db s) d" if "as_user E r s user d" for user d
    using that makes_calls(7) [of _ "wb_db s" "en_time E"] by (auto simp: as_user_def) (metis snd_conv)
  from assms show ?thesis
  proof cases
    case (by_user user d)
    from seen [OF by_user(1)] user_makes [OF by_user(3)] show ?thesis by (auto intro: makes_trans)
  next
    case (by_admin user d)
    from seen [OF by_admin(1)] admin_makes [OF by_admin(4)] show ?thesis by (auto intro: makes_trans)
  qed (auto simp: public_makes share_makes seen)
qed


subsection \<open>Runs of the server\<close>

text \<open>
  What happens to a server: a request is served, or a goroutine that was started runs. Requests and
  goroutines may come in any order; every one has its own surroundings, in which the decoder of the
  stored permissions is the one the store uses throughout.
\<close>

datatype event = Serve web_env web_request | Run_job web_env nat

definition run_job :: "web_env \<Rightarrow> nat \<Rightarrow> web \<Rightarrow> web" where
  "run_job E n s =
     (if n < length (wb_jobs s)
      then s\<lparr>wb_server := run_goroutine (en_world E) (en_time E) (wb_jobs s ! n) (wb_server s),
             wb_jobs := take n (wb_jobs s) @ drop (Suc n) (wb_jobs s)\<rparr>
      else s)"

definition event_env :: "event \<Rightarrow> web_env" where
  "event_env e = (case e of Serve E r \<Rightarrow> E | Run_job E n \<Rightarrow> E)"

definition happen :: "event \<Rightarrow> web \<Rightarrow> web" where
  "happen e s = (case e of Serve E r \<Rightarrow> snd (serve E r s) | Run_job E n \<Rightarrow> run_job E n s)"

definition same_decoder :: "(string \<Rightarrow> string list option) \<Rightarrow> event list \<Rightarrow> bool" where
  "same_decoder unm es = list_all (\<lambda>e. w_unmarshal (en_world (event_env e)) = unm) es"

lemma happen_makes: "makes (w_unmarshal (en_world (event_env e))) (wb_db s) (wb_db (happen e s))"
proof (cases e)
  case (Serve E r)
  from machine_makes [OF server_steps [of E r s]] Serve show ?thesis
    by (simp add: happen_def event_env_def)
next
  case (Run_job E n)
  have "wb_db (run_job E n s) = wb_db s \<or>
      wb_db (run_job E n s) = sv_db (run_goroutine (en_world E) (en_time E) (wb_jobs s ! n) (wb_server s))"
    by (simp add: run_job_def)
  with Run_job emits_makes [OF emits_goroutine] show ?thesis
    by (auto simp: happen_def event_env_def)
qed

lemma run_makes: "same_decoder unm es \<Longrightarrow> makes unm (wb_db s) (wb_db (fold happen es s))"
proof (induction es arbitrary: s)
  case (Cons e es)
  from Cons.prems have e: "w_unmarshal (en_world (event_env e)) = unm" and "same_decoder unm es"
    by (simp_all add: same_decoder_def)
  from Cons.IH [OF this(2), of "happen e s"] happen_makes [of e s] e show ?case
    by (auto intro: makes_trans)
qed simp

text \<open>
  C6: the store is safe with the server. Whatever requests arrive and however the goroutines they
  start run among them, the store keeps its integrity, every workstation moves only along its life
  cycle and a deleted one stays deleted, and a session or a share that was revoked stays revoked.
\<close>

theorem server_keeps_store:
  assumes "integrity (wb_db s)" and "same_decoder unm es"
  shows "integrity (wb_db (fold happen es s))
    \<and> (\<forall>i st. state_in i (wb_db s) = Some (State_str st) \<longrightarrow>
        (\<exists>t. state_in i (wb_db (fold happen es s)) = Some (State_str t) \<and> moves\<^sup>*\<^sup>* st t \<and>
             (st = StateDeleted \<longrightarrow> t = StateDeleted)))
    \<and> (\<forall>k now. session_withdrawn k (wb_db s) \<longrightarrow> \<not> is_ok (fst (SessionUser now k (wb_db (fold happen es s)))))
    \<and> (\<forall>k now. share_withdrawn k (wb_db s) \<longrightarrow> \<not> share_accepted unm now k (wb_db (fold happen es s)))"
proof -
  from run_makes [OF assms(2), of s] obtain calls where
    calls: "list_all (\<lambda>c. lifecycle_call (snd c)) calls" "wb_db (fold happen es s) = run unm calls (wb_db s)"
    by (auto simp: makes_def)
  show ?thesis
    unfolding calls(2)
    using run_integrity [OF assms(1)] lifecycle_run [OF assms(1) calls(1)]
      session_token.never_accepted [of _ "wb_db s"] share_token.never_accepted [of _ "wb_db s"]
    by (auto simp: run_def)
qed

end
