(* ===== verification/Web_Safety.thy ===== *)
theory Web_Safety
  imports Web_Store
begin

text \<open>
  What the machine of authority protects, first: a workstation changes only for those who have
  authority over it.
\<close>

subsection \<open>Workstations\<close>

lemma workstations_kept [simp]:
  "workstations (snd (SessionUser now h d)) = workstations d"
  "workstations (RevokeSession now h d) = workstations d"
  "workstations (snd (CreateSession now k h t d)) = workstations d"
  "workstations (snd (CreateShare unm now w k h ps x y m d)) = workstations d"
  "workstations (snd (RedeemShare unm now h d)) = workstations d"
  "workstations (snd (RevokeShare now w k d)) = workstations d"
  "workstations (snd (CreateVPNProfile now p d)) = workstations d"
  "workstations (snd (SetVPNProfileEnabled now k u b d)) = workstations d"
  "workstations (SetUserAccent k c d) = workstations d"
  "workstations (snd (CreateInitialAdmin now n z d)) = workstations d"
  by (auto simp: SessionUser_def RevokeSession_def CreateSession_def CreateShare_def RedeemShare_def RevokeShare_def
      CreateVPNProfile_def SetVPNProfileEnabled_def SetUserAccent_def CreateInitialAdmin_def insert_user_def Let_def
      split: list.split sum.split)

lemma startSession_workstations [simp]: "workstations (wb_db (snd (startSession E k s))) = workstations (wb_db s)"
proof -
  have "workstations d = workstations (wb_db s)" if "CreateSession now k h t (wb_db s) = (q, d)" for now h t q d
    using that workstations_kept(3) [of now k h t "wb_db s"] by simp
  then show ?thesis by (auto simp: startSession_def Let_def split: sum.split prod.split option.split)
qed

lemma public_workstations:
  assumes "public_step E s s'"
  shows "workstations (wb_db s') = workstations (wb_db s)"
  using assms
proof cases
  case (p_setup username hash user d)
  then show ?thesis using workstations_kept(10) [of "en_time E" username hash "wb_db s"] by simp
next
  case (p_redeem h share d m)
  then show ?thesis
    using workstations_kept(5) [of "w_unmarshal (en_world E)" "en_time E" h "wb_db s"] by simp
next
  case (p_glance hs)
  have "workstations (fold (\<lambda>h d. snd (SessionUser (en_time E) h d)) hs d) = workstations d" for d
    by (induction hs arbitrary: d) simp_all
  with p_glance show ?thesis by simp
qed (simp_all add: recordLogin_def Let_def)

lemma SetWorkstationState_keeps:
  "w \<in> set (workstations d) \<Longrightarrow> r_id w \<noteq> i \<Longrightarrow> w \<in> set (workstations (snd (SetWorkstationState now i a b m d)))"
proof -
  assume w: "w \<in> set (workstations d)" "r_id w \<noteq> i"
  let ?P = "\<lambda>w. r_id w = i \<and> r_state w = a"
  let ?f = "\<lambda>w. w\<lparr>r_state := b, r_error_message := m, r_updated_at := now,
    r_last_started_at := (if b = ''ready'' then Some now else r_last_started_at w)\<rparr>"
  have "w \<in> set (update_where ?P ?f (workstations d))" using w by (force simp: update_where_def)
  moreover have "workstations (snd (SetWorkstationState now i a b m d)) \<in>
      {workstations d, update_where ?P ?f (workstations d)}"
  proof -
    have "workstations e = workstations d'" if "RecordEvent now i t m' d' = (q, e)" for t m' d' q e
      using that RecordEvent_frame(1) [of now i t m' d'] by simp
    from this [of "''workstation.state.'' @ b" _ "d\<lparr>workstations := update_where ?P ?f (workstations d)\<rparr>"]
    show ?thesis by (auto simp: SetWorkstationState_def Let_def split: prod.split option.split)
  qed
  ultimately show ?thesis using w(1) by auto
qed

lemma beginAction_keeps:
  assumes "integrity (sv_db sv)" and "w \<in> set (workstations (sv_db sv))"
    and "w \<notin> set (workstations (sv_db (snd (beginAction now user i action sv))))"
  shows "r_id w = i \<and> may_reach user (r_owner_user_id w)"
proof (cases "Workstation_lookup i user (sv_db sv)")
  case (Inl e)
  with assms show ?thesis by (simp add: beginAction_def)
next
  case (Inr ws)
  from by_id.lookup_Inr [OF assms(1) Inr] obtain q where q: "q \<in> set (workstations (sv_db sv))" "r_id q = i"
    "may_reach user (r_owner_user_id q)" "ws = (scanWorkstation q)\<lparr>ws_Apps := workstation_app_list (r_id q) (sv_db sv)\<rparr>"
    by blast
  then have ws: "ws_ID ws = i" by (simp add: scanWorkstation_def)
  have "r_id w = i"
  proof (rule ccontr)
    assume "r_id w \<noteq> i"
    then have keep: "w \<in> set (workstations (snd (snd (transition now ws t m (sv_db sv)))))" for t m
      using SetWorkstationState_keeps [OF assms(2), of i now "ws_State ws" "State_str t" m] assms(2) ws
      by (auto simp: transition_def split: option.split prod.split)
    have "w \<in> set (workstations (sv_db (snd (beginAction now user i action sv))))"
      using Inr assms(2) keep
      by (auto simp: beginAction_def split: option.split prod.split) (metis snd_conv)+
    with assms(3) show False by simp
  qed
  with q assms(1,2) workstation_unique(1) have "w = q" by (metis distinct_mapD)
  with q \<open>r_id w = i\<close> show ?thesis by simp
qed

lemma user_workstations:
  assumes "user_step E user s s'" and "integrity (wb_db s)"
    and "w \<in> set (workstations (wb_db s))" and "w \<notin> set (workstations (wb_db s'))"
  shows "may_reach user (r_owner_user_id w)"
  using assms(1)
proof cases
  case (u_create input)
  have "\<exists>rows. workstations (sv_db (snd (create now b user input sv))) = workstations (sv_db sv) @ rows" for now b sv
    by (auto simp: create_def Let_def CreateWorkstation_def RecordEvent_def
        split: option.split sum.split prod.splits if_splits)
  then have "w \<in> set (workstations (wb_db s'))" using u_create assms(3) by (simp add: create_db) (metis Un_iff set_append)
  with assms(4) show ?thesis by simp
next
  case (u_act i action)
  with assms beginAction_keeps [of "wb_server s" w "en_time E" user i action] show ?thesis by (simp add: act_db)
next
  case (u_share i ws input)
  have "workstations (wb_db (snd (new_share E user ws input s))) = workstations (wb_db s)"
  proof -
    have "workstations d = workstations (wb_db s)"
      if "CreateShare unm now w k h ps x y m (wb_db s) = (q, d)" for unm now w k h ps x y m q d
      using that workstations_kept(4) [of unm now w k h ps x y m "wb_db s"] by simp
    then show ?thesis by (auto simp: new_share_def split: prod.split sum.split)
  qed
  with u_share assms show ?thesis by simp
next
  case (u_revoke i ws k)
  have "workstations (wb_db (snd (revoke_share E ws k s))) = workstations (wb_db s)"
  proof -
    have "workstations d = workstations (wb_db s)" if "RevokeShare now i k (wb_db s) = (q, d)" for now i q d
      using that workstations_kept(6) [of now i k "wb_db s"] by simp
    then show ?thesis by (auto simp: revoke_share_def split: prod.split option.split)
  qed
  with u_revoke assms show ?thesis by simp
next
  case (u_profile profile)
  have "workstations (sv_db (snd (storeVPNProfile W now user profile sv))) = workstations (sv_db sv)" for W now sv
  proof -
    have "workstations d = workstations (sv_db sv)" if "CreateVPNProfile now p (sv_db sv) = (q, d)" for p q d
      using that workstations_kept(7) [of now p "sv_db sv"] by simp
    then show ?thesis by (auto simp: storeVPNProfile_def Let_def split: sum.split prod.split)
  qed
  with u_profile assms show ?thesis by (simp add: store_profile_def split: prod.splits) (metis snd_conv)
next
  case (u_enable k enabled)
  obtain q d where c: "SetVPNProfileEnabled (en_time E) k user enabled (wb_db s) = (q, d)" by (metis surj_pair)
  with workstations_kept(8) [of "en_time E" k user enabled "wb_db s"] have "workstations d = workstations (wb_db s)"
    by simp
  with c u_enable assms show ?thesis by (simp add: enable_profile_def)
next
  case (u_workstation_accent i accent)
  have "may_reach user (r_owner_user_id w)"
  proof (rule ccontr)
    assume "\<not> may_reach user (r_owner_user_id w)"
    with assms(3) have "w \<in> set (workstations (snd (SetWorkstationAccent (en_time E) i user accent (wb_db s))))"
      by (force simp: SetWorkstationAccent_def Let_def update_where_def)
    with u_workstation_accent assms(4) show False
      by (simp add: accent_of_workstation_def split: prod.splits)
  qed
  then show ?thesis .
qed (use assms in simp_all)

lemma as_user_db: "as_user E r s user d \<Longrightarrow> d = snd (SessionUser (en_time E) (TokenHash (the (request_Cookie r ''wm_session''))) (wb_db s))"
  by (auto simp: as_user_def)

lemma as_user_kept:
  "as_user E r s user d \<Longrightarrow> workstations d = workstations (wb_db s)"
  "as_user E r s user d \<Longrightarrow> integrity (wb_db s) \<Longrightarrow> integrity d"
  using integrity_apply_op [of "wb_db s" undefined "en_time E" "OpSessionUser h" for h]
  by (auto dest: as_user_db)



end
