(* ===== verification/App_Store_Safety.thy ===== *)
theory App_Store_Safety
  imports App_Store
begin

text \<open>
  What installing and rolling back can do to the active apps, whatever the network answers and
  whichever file operations fail: frames of the tasks, confinement of download paths, copying and
  activation, and the safety theorems.
\<close>

subsection \<open>Tasks that keep a path\<close>

definition keeps :: "string list \<Rightarrow> 'a task \<Rightarrow> bool" where
  "keeps q m = (\<forall>d. at_path (dk_tree (snd (m d))) q = at_path (dk_tree d) q)"

lemma keepsD: "keeps q m \<Longrightarrow> m d = (r, d') \<Longrightarrow> at_path (dk_tree d') q = at_path (dk_tree d) q"
  unfolding keeps_def by (metis snd_conv)

lemma keeps_attempt: "keeps q m \<Longrightarrow> (\<And>x. keeps q (k x)) \<Longrightarrow> keeps q (attempt m k)"
  by (auto simp: keeps_def attempt_def split: prod.split sum.split) (metis snd_conv)+

lemma keeps_test: "(c = None \<Longrightarrow> keeps q (k ())) \<Longrightarrow> keeps q (attempt (test c) k)"
  by (cases c) (auto simp: keeps_def attempt_def test_def)

lemma keeps_need:
  "(\<And>d. at_path (dk_tree (snd (op d))) q = at_path (dk_tree d) q) \<Longrightarrow> keeps q (need e op)"
  by (auto simp: keeps_def need_def split: prod.split) (metis snd_conv)

lemma keeps_pure [simp]: "keeps q (pure_result r)"
  by (simp add: keeps_def pure_result_def)

lemma attempt_Inr:
  "attempt m k d = (Inr y, d') \<longleftrightarrow> (\<exists>x d1. m d = (Inr x, d1) \<and> k x d1 = (Inr y, d'))"
  by (auto simp: attempt_def split: prod.splits sum.splits)

lemma test_Inr [simp]: "test c d = (Inr x, d') \<longleftrightarrow> c = None \<and> d' = d"
  by (auto simp: test_def split: option.splits)

lemma need_Inr: "need e op d = (Inr x, d') \<longleftrightarrow> op d = (True, d')"
  by (auto simp: need_def split: prod.splits if_splits)

lemma pure_Inr [simp]: "pure_result r d = (Inr x, d') \<longleftrightarrow> r = Inr x \<and> d' = d"
  by (auto simp: pure_result_def)

text \<open>Tasks that change no file at all.\<close>

definition reads_only :: "'a task \<Rightarrow> bool" where
  "reads_only m = (\<forall>d. dk_tree (snd (m d)) = dk_tree d)"

lemma reads_onlyD: "reads_only m \<Longrightarrow> m d = (r, d') \<Longrightarrow> dk_tree d' = dk_tree d"
  unfolding reads_only_def by (metis snd_conv)

lemma reads_keeps: "reads_only m \<Longrightarrow> keeps q m"
  by (simp add: reads_only_def keeps_def)

lemma reads_attempt: "reads_only m \<Longrightarrow> (\<And>x. reads_only (k x)) \<Longrightarrow> reads_only (attempt m k)"
  by (auto simp: reads_only_def attempt_def split: prod.split sum.split) (metis snd_conv)+

lemma reads_basic [simp]: "reads_only (pure_result r)" "reads_only (test c)"
  by (auto simp: reads_only_def pure_result_def test_def split: option.split)

lemma ReadFile_fst_tree: "os_ReadFile W p d = (r, d') \<Longrightarrow> dk_tree d' = dk_tree d"
  by (metis ReadFile_tree snd_conv)

lemma reads_load [simp]: "reads_only (loadIndex W cfg)" "reads_only (loadState W cfg)"
  by (auto simp: reads_only_def loadIndex_def loadState_def readJSONFile_def
      split: prod.split read_outcome.split option.split json_outcome.split dest: ReadFile_fst_tree)

lemma reads_fetch [simp]: "reads_only (fetchVerified W location record)"
  by (auto simp: reads_only_def fetchVerified_def split: option.split)

lemma reads_inspect [simp]: "reads_only (catalog (inspectPayload W p))"
  by (auto simp: reads_only_def catalog_def inspectPayload_def split: sum.split prod.split)

lemma reads_scan [simp]: "reads_only (scan_package W p i)" "reads_only (approve_manifest W m p)"
  by (auto simp: reads_only_def scan_package_def approve_manifest_def split: option.split)

lemma reads_decode: "reads_only (catalog (\<lambda>d. (r, d)))"
  by (cases r) (simp_all add: reads_only_def catalog_def)

lemma reads_fetch_bundle: "reads_only (fetch_bundle W cfg i)"
  unfolding fetch_bundle_def by (intro reads_attempt reads_basic reads_load reads_fetch reads_decode)

subsection \<open>Paths below a directory\<close>

lemma sub_path_single: "normal_part c \<Longrightarrow> sub_path dir c = dir @ [c]"
  by (simp add: sub_path_def normal_part_def Split_single clean_step_def)

lemma identifier_normal: "identifier_re i \<Longrightarrow> normal_part i"
proof -
  assume i: "identifier_re i"
  then have "is_lower (hd i)" "i \<noteq> []" "CHR ''/'' \<notin> set i"
    using identifier_chars [of i "CHR ''/''"]
    by (auto simp: identifier_re_def id_char_def is_lower_def is_digit_def split: list.splits)
  then show ?thesis by (auto simp: normal_part_def is_lower_def)
qed

lemma version_normal: "version_re v \<Longrightarrow> normal_part v"
proof -
  assume v: "version_re v"
  let ?core = "takeWhile (\<lambda>c. is_digit c \<or> c = CHR ''.'') v"
  obtain a b c where abc: "Split ?core (CHR ''.'') = [a, b, c]" "digits a"
    using v by (auto simp: version_re_def version_core_def Let_def split: list.splits)
  have suffix: "version_suffix (drop (length ?core) v)" using v by (simp add: version_re_def Let_def)
  obtain x a' where a: "a = x # a'" "is_digit x" using abc(2) by (cases a) (auto simp: digits_def)
  have "?core = Join [a, b, c] (CHR ''.'')" by (metis abc(1) Join_Split)
  then have core: "?core = x # a' @ CHR ''.'' # Join [b, c] (CHR ''.'')" by (simp add: a(1))
  have "v = ?core @ dropWhile (\<lambda>c. is_digit c \<or> c = CHR ''.'') v" by simp
  then obtain rest where "v = (x # a' @ CHR ''.'' # Join [b, c] (CHR ''.'')) @ rest" unfolding core by blast
  then have hd: "v \<noteq> []" "is_digit (hd v)" using a(2) by simp_all
  have "CHR ''/'' \<notin> set (drop (length ?core) v)"
    using suffix by (cases "drop (length ?core) v")
      (auto simp: version_suffix_def list_all_iff is_digit_def is_upper_def is_lower_def)
  moreover have "CHR ''/'' \<notin> set ?core" by (auto dest: set_takeWhileD simp: is_digit_def)
  ultimately have "CHR ''/'' \<notin> set (?core @ drop (length ?core) v)" by simp
  then have "CHR ''/'' \<notin> set v" by (simp only: dropWhile_eq_drop [symmetric] takeWhile_dropWhile_id not_False_eq_True)
  with hd show ?thesis by (auto simp: normal_part_def is_digit_def)
qed

text \<open>
  A path that is cleaned without a leading dot-dot stays below every directory it is joined to.
\<close>

lemma clean_relative_tail:
  assumes "foldl (clean_step False) [] ps = out" and "out = [] \<or> hd out \<noteq> ''..''"
  shows "foldl (clean_step True) dir ps = dir @ out \<and> ''..'' \<notin> set out"
  using assms
proof (induction ps arbitrary: out rule: rev_induct)
  case (snoc p ps)
  let ?o = "foldl (clean_step False) [] ps"
  have out: "out = clean_step False ?o p" using snoc.prems(1) by simp
  have "?o = [] \<or> hd ?o \<noteq> ''..''"
  proof (rule ccontr)
    assume "\<not> ?thesis"
    then obtain t where o: "?o = ''..'' # t" by (cases ?o) auto
    then have "out \<noteq> [] \<and> hd out = ''..''" unfolding out by (auto simp: clean_step_def hd_append)
    with snoc.prems(2) show False by blast
  qed
  from snoc.IH [OF refl this] have ih: "foldl (clean_step True) dir ps = dir @ ?o" "''..'' \<notin> set ?o" by auto
  have step1: "foldl (clean_step True) dir (ps @ [p]) = clean_step True (dir @ ?o) p" by (simp only: foldl_append foldl.simps ih(1))
  show ?case
  proof (cases "p = ''..''")
    case True
    show ?thesis
    proof (cases "?o = []")
      case True
      with out \<open>p = ''..''\<close> snoc.prems(2) show ?thesis by (simp add: clean_step_def)
    next
      case False
      then have "last ?o \<noteq> ''..''" using ih(2) by (metis last_in_set)
      with False ih(2) True show ?thesis
        unfolding step1 out by (auto simp: clean_step_def butlast_append dest: in_set_butlastD)
    qed
  next
    case False
    with ih(2) show ?thesis unfolding step1 out by (auto simp: clean_step_def)
  qed
qed simp

lemma Join_head: "xs \<noteq> [] \<Longrightarrow> Join (''..'' # xs) c = ''..'' @ c # Join xs c"
  by (cases xs) auto

lemma sub_path_confined:
  assumes "\<not> HasPrefix p ''/''" and "Clean p \<noteq> ''.''" and "Clean p \<noteq> ''..''" and "\<not> HasPrefix (Clean p) ''../''"
  shows "\<exists>cs. cs \<noteq> [] \<and> (\<forall>dir. sub_path dir p = dir @ cs)"
proof -
  have rel: "\<not> IsAbs p" using assms(1) by (simp add: IsAbs_def)
  let ?out = "foldl (clean_step False) [] (Split p (CHR ''/''))"
  have clean: "Clean p = (if Join ?out (CHR ''/'') = [] then ''.'' else Join ?out (CHR ''/''))"
    using rel by (simp add: Clean_def clean_parts_def Let_def)
  have "?out = [] \<or> hd ?out \<noteq> ''..''"
  proof (rule ccontr)
    assume "\<not> ?thesis"
    then obtain t where o: "?out = ''..'' # t" by (cases ?out) auto
    show False
    proof (cases "t = []")
      case True
      with o clean assms(3) show False by simp
    next
      case False
      from Join_head [OF this] o clean assms(4) show False by simp
    qed
  qed
  from clean_relative_tail [OF refl this] have "\<forall>dir. sub_path dir p = dir @ ?out" by (simp add: sub_path_def)
  moreover have "?out \<noteq> []" using clean assms(2) by auto
  ultimately show ?thesis by blast
qed

lemma download_record_confined:
  "validateDownloadRecord r = None \<Longrightarrow> \<exists>cs. cs \<noteq> [] \<and> (\<forall>dir. sub_path dir (fr_Path r) = dir @ cs)"
  by (rule sub_path_confined) (auto simp: validateDownloadRecord_def Let_def split: if_splits)

subsection \<open>Frames of the tasks\<close>

lemma reads_check: "reads_only (\<lambda>d. test (c d) d)"
  by (simp add: reads_only_def test_def split: option.split)

lemma download_files_keeps: "apart dir q \<Longrightarrow> keeps q (download_files W base dir fs)"
proof (induction fs)
  case (Cons f fs)
  show ?case
    unfolding download_files.simps Let_def
  proof (intro keeps_test keeps_attempt keeps_pure keeps_need reads_fetch [THEN reads_keeps] Cons.IH Cons.prems)
    fix d data
    assume "validateDownloadRecord f = None"
    then obtain cs where cs: "cs \<noteq> []" "sub_path dir (fr_Path f) = dir @ cs"
      using download_record_confined by blast
    show "at_path (dk_tree (snd (os_MkdirAll (sw_disk W) (butlast (sub_path dir (fr_Path f))) d))) q
        = at_path (dk_tree d) q"
      by (rule MkdirAll_apart) (simp add: cs butlast_append apart_extend(1) [OF Cons.prems])
    show "at_path (dk_tree (snd (os_WriteFile (sw_disk W) (sub_path dir (fr_Path f)) data d))) q
        = at_path (dk_tree d) q"
      by (rule WriteFile_apart) (simp add: cs apart_extend(1) [OF Cons.prems])
  qed
qed simp

lemma receive_package_keeps:
  assumes "apart incoming q" and "normal_part i"
  shows "keeps q (receive_package W incoming i bundleURL bundle)"
  unfolding receive_package_def Let_def sub_path_single [OF assms(2)] append_assoc
  by (intro keeps_attempt keeps_pure keeps_need download_files_keeps reads_inspect [THEN reads_keeps]
      reads_scan [THEN reads_keeps] reads_basic [THEN reads_keeps] reads_check [THEN reads_keeps]
      MkdirAll_apart apart_extend(1) [OF assms(1)])

lemma store_version_keeps:
  assumes "apart versionDirectory q" and "apart (butlast versionDirectory) q"
  shows "keeps q (store_version W packageDirectory versionDirectory payload)"
proof -
  have 1: "keeps q (attempt (need FileSystem (os_MkdirAll (sw_disk W) (butlast versionDirectory)))
      (\<lambda>_. need FileSystem (copyDirectory (sw_disk W) packageDirectory versionDirectory)))"
    by (intro keeps_attempt keeps_need MkdirAll_apart copyDirectory_apart assms)
  show ?thesis
    using 1 [unfolded keeps_def, rule_format, of "step _"]
    by (auto simp: keeps_def store_version_def inspectPayload_def split: sum.split prod.split)
qed

lemma atomicWrite_apart:
  assumes tmp: "\<And>s. apart (butlast f @ [''.write-'' @ s]) q" and f: "apart f q"
  shows "at_path (dk_tree (snd (atomicWrite W f data d))) q = at_path (dk_tree d) q"
proof -
  define t where "t = butlast f @ [''.write-'' @ dw_temp W (dk_steps d)]"
  have t: "apart t q" unfolding t_def by (rule tmp)
  obtain ok1 d1 where 1: "set_op W t (Some (File [])) d = (ok1, d1)" by (cases "set_op W t (Some (File [])) d")
  obtain ok2 d2 where 2: "set_op W t (Some (File data)) d1 = (ok2, d2)" by (cases "set_op W t (Some (File data)) d1")
  obtain r d3 where 3: "os_Rename W t f d2 = (r, d3)" by (cases "os_Rename W t f d2")
  have "at_path (dk_tree d1) q = at_path (dk_tree d) q"
    using set_op_apart [OF t, of W "Some (File [])" d] by (simp add: 1)
  moreover have "at_path (dk_tree d2) q = at_path (dk_tree d1) q"
    using set_op_apart [OF t, of W "Some (File data)" d1] by (simp add: 2)
  moreover have "at_path (dk_tree d3) q = at_path (dk_tree d2) q"
    using Rename_apart [OF t f, of W d2] by (simp add: 3)
  ultimately show ?thesis
    using Remove_apart [OF t, of W] unfolding atomicWrite_def Let_def t_def [symmetric]
    by (simp add: 1 2 3 split: bool.split)
qed

lemma writeState_apart:
  "apart (mc_RootDirectory cfg) q \<Longrightarrow>
   at_path (dk_tree (snd (writeState W cfg state d))) q = at_path (dk_tree d) q"
  unfolding writeState_def statePath_def by (rule atomicWrite_apart) (simp_all add: apart_extend)

lemma atomicWrite_written:
  assumes "atomicWrite W f data d = (ok, d')" and "f \<noteq> []" and "\<And>s. last f \<noteq> ''.write-'' @ s"
  shows "at_path (dk_tree d') f = (if ok then Some (File data) else at_path (dk_tree d) f)"
proof -
  define t where "t = butlast f @ [''.write-'' @ dw_temp W (dk_steps d)]"
  have "f = butlast f @ [last f]" using assms(2) by simp
  then have t: "apart t f" "apart f t" "t \<noteq> []"
    unfolding t_def using assms(3) by (metis apart.simps(1) apart_append, metis apart.simps(1) apart_append, simp)
  obtain ok1 d1 where 1: "set_op W t (Some (File [])) d = (ok1, d1)" by (cases "set_op W t (Some (File [])) d")
  obtain ok2 d2 where 2: "set_op W t (Some (File data)) d1 = (ok2, d2)" by (cases "set_op W t (Some (File data)) d1")
  obtain r d3 where 3: "os_Rename W t f d2 = (r, d3)" by (cases "os_Rename W t f d2")
  have k: "at_path (dk_tree d1) f = at_path (dk_tree d) f" "at_path (dk_tree d2) f = at_path (dk_tree d1) f"
    "at_path (dk_tree (snd (os_Remove W t e))) f = at_path (dk_tree e) f" for e
    using set_op_apart [OF t(1), of W "Some (File [])" d] set_op_apart [OF t(1), of W "Some (File data)" d1]
      Remove_apart [OF t(1), of W e] by (simp_all add: 1 2)
  have moved: "r = Renamed \<Longrightarrow> at_path (dk_tree d3) f = at_path (dk_tree d2) t"
    "r \<noteq> Renamed \<Longrightarrow> dk_tree d3 = dk_tree d2"
    using Rename_moved [of W t f d2] Rename_failed [of W t f d2] by (simp_all add: 3)
  have "ok2 \<Longrightarrow> at_path (dk_tree d2) t = Some (File data)"
    using set_op_same [of W t "Some (File data)" d1] by (simp add: 2)
  with k moved assms(1) show ?thesis
    unfolding atomicWrite_def Let_def t_def [symmetric]
    by (auto simp: 1 2 3 split: if_splits bool.splits)
qed

subsection \<open>Activation\<close>

lemma Rename_facts:
  assumes "os_Rename W a b d = (r, d')" and "apart a b" and "a \<noteq> []"
  shows "r = Renamed \<Longrightarrow> at_path (dk_tree d') b = at_path (dk_tree d) a"
    and "at_path (dk_tree d') a = None \<or> at_path (dk_tree d') a = at_path (dk_tree d) a"
    and "r \<noteq> Renamed \<Longrightarrow> dk_tree d' = dk_tree d"
    and "r = NoSource \<Longrightarrow> at_path (dk_tree d) a = None"
    and "apart a q \<Longrightarrow> apart b q \<Longrightarrow> at_path (dk_tree d') q = at_path (dk_tree d) q"
proof -
  show "r = Renamed \<Longrightarrow> at_path (dk_tree d') b = at_path (dk_tree d) a"
    using Rename_moved [of W a b d] assms(1) by simp
  show "r \<noteq> Renamed \<Longrightarrow> dk_tree d' = dk_tree d" using Rename_failed [of W a b d] assms(1) by simp
  show "r = NoSource \<Longrightarrow> at_path (dk_tree d) a = None"
    using assms(1) by (auto simp: os_Rename_def split: option.splits if_splits)
  show "apart a q \<Longrightarrow> apart b q \<Longrightarrow> at_path (dk_tree d') q = at_path (dk_tree d) q"
    using Rename_apart [of a q b W d] assms(1) by simp
  have "apart b a" using assms(2) by (simp add: apart_sym)
  then show "at_path (dk_tree d') a = None \<or> at_path (dk_tree d') a = at_path (dk_tree d) a"
    using assms(1) put_same_cases [OF assms(3), of "dk_tree d" None] set_at_apart [of _ b _ _ a]
    by (auto simp: os_Rename_def split: option.splits if_splits)
qed

lemma MkdirTemp_new:
  "os_MkdirTemp W dir prefix d = (Some p, d') \<Longrightarrow>
   at_path (dk_tree d') p = Some (Dir []) \<and> (\<exists>s. p = dir @ [prefix @ s])"
  using set_op_same [of W "dir @ [prefix @ dw_temp W (dk_steps d)]" "Some (Dir [])" d]
  by (auto simp: os_MkdirTemp_def Let_def split: if_splits prod.splits)

text \<open>
  Activation of a stored version: other apps stay, and the app itself stays, gets exactly the
  version's files, or, when the activation fails, may be missing; only where there was no active
  version can a failed activation leave something else, an older one it found.
\<close>

definition activated :: "string list \<Rightarrow> node \<Rightarrow> (store_error, 'a) result \<Rightarrow> disk \<Rightarrow> disk \<Rightarrow> bool" where
  "activated a n r d d' =
     (if is_ok r then at_path (dk_tree d') a = Some n
      else at_path (dk_tree d') a = at_path (dk_tree d) a \<or> at_path (dk_tree d') a = Some n \<or>
           at_path (dk_tree d') a = None \<or> at_path (dk_tree d) a = None)"

definition visible_name :: "string \<Rightarrow> bool" where
  "visible_name s = (normal_part s \<and> hd s \<noteq> CHR ''.'')"

lemma visible_apart: "visible_name s \<Longrightarrow> apart (dir @ [CHR ''.'' # t]) (dir @ [s])"
  by (cases s) (auto simp: visible_name_def normal_part_def)

lemma activation_staged:
  assumes temp: "os_MkdirTemp W dir (''.activate-'' @ x) d = (Some t, d1)"
    and copy: "copyDirectory W source t (snd (os_Remove W t d1)) = (ok, d3)"
    and src: "at_path (dk_tree d) source = Some (Dir items)" and away: "apart dir source"
  shows "\<exists>y. t = dir @ [''.activate-'' @ y]"
    and "visible_name s \<Longrightarrow> at_path (dk_tree d3) (dir @ [s]) = at_path (dk_tree d) (dir @ [s])"
    and "ok \<Longrightarrow> at_path (dk_tree d3) t = Some (Dir items)"
proof -
  obtain y where t: "at_path (dk_tree d1) t = Some (Dir [])" "t = dir @ [''.activate-'' @ y]"
    using MkdirTemp_new [OF temp] by auto
  then show "\<exists>y. t = dir @ [''.activate-'' @ y]" by blast
  have keep1: "at_path (dk_tree d1) q = at_path (dk_tree d) q" if "\<And>z. apart (dir @ [''.activate-'' @ z]) q" for q
    using MkdirTemp_apart [of dir "''.activate-'' @ x" q W d] that temp by simp
  define d2 where "d2 = snd (os_Remove W t d1)"
  note copy = copy [folded d2_def]
  show "at_path (dk_tree d3) (dir @ [s]) = at_path (dk_tree d) (dir @ [s])" if s: "visible_name s"
  proof -
    have away: "apart (dir @ [''.activate-'' @ z]) (dir @ [s])" for z using visible_apart [OF s, of dir] by simp
    then have "apart t (dir @ [s])" by (simp only: t(2))
    with copyDirectory_apart [of t "dir @ [s]" W source d2] Remove_apart [of t "dir @ [s]" W d1] keep1 [OF away] copy
    show ?thesis by (simp add: d2_def)
  qed
  have ts: "apart t source" using apart_extend(1) [OF away] t(2) by simp
  have s2: "at_path (dk_tree d2) source = Some (Dir items)"
    using Remove_apart [OF ts, of W d1] keep1 [of source] src apart_extend(1) [OF away] by (simp add: d2_def)
  have "t \<noteq> []" by (simp add: t(2))
  with Remove_same [of t W d1] t(1) have t2: "at_path (dk_tree d2) t = None \<or> at_path (dk_tree d2) t = Some (Dir [])"
    by (auto simp: d2_def)
  show "at_path (dk_tree d3) t = Some (Dir items)" if ok
    using copyDirectory_exact [of W source t d2 items] copy that s2 t2 ts \<open>t \<noteq> []\<close> by simp
qed

lemma renames_swap:
  assumes 5: "os_Rename W a p d4 = (r1, d5)" and 6: "os_Rename W t a d5 = (r2, d6)" and 7: "os_Rename W p a d6 = (r3, d7)"
    and ap: "apart a p" "apart p a" "apart t a" "apart a t" "apart p t" "a \<noteq> []" "p \<noteq> []" "t \<noteq> []"
    and t: "at_path (dk_tree d4) t = Some n"
  shows "r1 = NotRenamed \<Longrightarrow> at_path (dk_tree d5) a = at_path (dk_tree d4) a"
    and "r2 = Renamed \<Longrightarrow> at_path (dk_tree d6) a = Some n"
    and "r1 \<noteq> NotRenamed \<Longrightarrow> r2 \<noteq> Renamed \<Longrightarrow>
      at_path (dk_tree d7) a = at_path (dk_tree d4) a \<or> at_path (dk_tree d7) a = None \<or> at_path (dk_tree d4) a = None"
proof -
  note R5 = Rename_facts [OF 5 ap(1,6)] and R6 = Rename_facts [OF 6 ap(3,8)] and R7 = Rename_facts [OF 7 ap(2,7)]
  show "r1 = NotRenamed \<Longrightarrow> at_path (dk_tree d5) a = at_path (dk_tree d4) a" using R5(3) by simp
  have "at_path (dk_tree d5) t = Some n" using R5(5) [of t] t ap(4,5) by simp
  with R6(1) show "r2 = Renamed \<Longrightarrow> at_path (dk_tree d6) a = Some n" by simp
  assume 3: "r1 \<noteq> NotRenamed" "r2 \<noteq> Renamed"
  have same: "dk_tree d6 = dk_tree d5" using R6(3) 3 by simp
  show "at_path (dk_tree d7) a = at_path (dk_tree d4) a \<or> at_path (dk_tree d7) a = None \<or> at_path (dk_tree d4) a = None"
  proof (cases "r3 = Renamed")
    case True
    with R7(1) same have "at_path (dk_tree d7) a = at_path (dk_tree d5) p" by simp
    with R5(1,4) 3(1) show ?thesis by (cases r1) auto
  next
    case False
    with R7(3) same R5(2) show ?thesis by auto
  qed
qed

lemma renames_keep:
  assumes "os_Rename W a p d4 = (r1, d5)" and "os_Rename W t a d5 = (r2, d6)" and "os_Rename W p a d6 = (r3, d7)"
    and "os_RemoveAll W p d6 = (ok, d8)"
    and "apart a p" "apart p a" "apart t a" "a \<noteq> []" "p \<noteq> []" "t \<noteq> []"
    and "apart a q" "apart p q" "apart t q"
  shows "at_path (dk_tree d5) q = at_path (dk_tree d4) q \<and> at_path (dk_tree d7) q = at_path (dk_tree d4) q
    \<and> at_path (dk_tree d8) q = at_path (dk_tree d4) q"
  using Rename_facts(5) [OF assms(1) assms(5,8), of q] Rename_facts(5) [OF assms(2) assms(7,10), of q]
    Rename_facts(5) [OF assms(3) assms(6,9), of q] RemoveAll_apart [OF assms(12), of W d6] assms by simp

lemma activate_effect:
  assumes act: "activate W cfg i source d = (r, d')"
    and i: "visible_name i" and src: "at_path (dk_tree d) source = Some (Dir items)"
    and away: "apart (mc_InstalledAppsDirectory cfg) source"
  shows "activated (mc_InstalledAppsDirectory cfg @ [i]) (Dir items) r d d'
    \<and> (\<forall>s. visible_name s \<and> s \<noteq> i \<longrightarrow> at_path (dk_tree d') (mc_InstalledAppsDirectory cfg @ [s]) =
        at_path (dk_tree d) (mc_InstalledAppsDirectory cfg @ [s]))"
proof -
  let ?W = "sw_disk W" and ?dir = "mc_InstalledAppsDirectory cfg"
  define a where "a = ?dir @ [i]"
  define p where "p = ?dir @ [''.previous-'' @ i]"
  have "normal_part (''.previous-'' @ i)" using i by (simp add: visible_name_def normal_part_def)
  then have subs: "sub_path ?dir i = a" "sub_path ?dir (''.previous-'' @ i) = p"
    unfolding a_def p_def using i by (auto simp only: sub_path_single visible_name_def)
  have names: "apart (?dir @ [''.activate-'' @ z]) (?dir @ [s])" "apart p (?dir @ [s])" if "visible_name s" for s z
    unfolding p_def using that visible_apart [of s ?dir] by simp_all
  obtain temp d1 where 1: "os_MkdirTemp ?W ?dir (''.activate-'' @ i @ ''-'') d = (temp, d1)"
    by (cases "os_MkdirTemp ?W ?dir (''.activate-'' @ i @ ''-'') d")
  show ?thesis
  proof (cases temp)
    case None
    with act 1 have "d' = d1" "r = Inl FileSystem" by (simp_all add: activate_def)
    with MkdirTemp_apart [of ?dir "''.activate-'' @ i @ ''-''" _ ?W d] 1 names(1) i
    show ?thesis by (simp add: activated_def)
  next
    case (Some t)
    obtain ok d3 where 3: "copyDirectory ?W source t (snd (os_Remove ?W t d1)) = (ok, d3)"
      by (cases "copyDirectory ?W source t (snd (os_Remove ?W t d1))")
    note staged = activation_staged [OF 1 [unfolded Some] 3 src away]
    obtain y where t: "t = ?dir @ [''.activate-'' @ y]" using staged(1) by blast
    have ta: "apart t (?dir @ [s])" if "visible_name s" for s using names(1) [OF that] t by simp
    have ap: "apart a p" "apart p a" "apart t a" "apart a t" "apart p t" "a \<noteq> []" "p \<noteq> []" "t \<noteq> []"
      using names(2) ta i apart_sym by (auto simp: a_def p_def t)
    define fin where "fin d = snd (os_RemoveAll ?W t d)" for d
    have fin: "at_path (dk_tree (fin d)) (?dir @ [s]) = at_path (dk_tree d) (?dir @ [s])" if "visible_name s" for s d
      unfolding fin_def by (rule RemoveAll_apart [OF ta [OF that]])
    note body = act [unfolded activate_def 1 Some Let_def prod.case option.case subs 3]
    show ?thesis
    proof (cases ok)
      case False
      with body have "d' = fin d3" "\<not> is_ok r" by (auto simp: fin_def)
      with staged(2) fin i show ?thesis by (simp add: activated_def)
    next
      case True
      define d4 where "d4 = snd (os_RemoveAll ?W p d3)"
      obtain r1 d5 where 5: "os_Rename ?W a p d4 = (r1, d5)" by (cases "os_Rename ?W a p d4")
      obtain r2 d6 where 6: "os_Rename ?W t a d5 = (r2, d6)" by (cases "os_Rename ?W t a d5")
      obtain r3 d7 where 7: "os_Rename ?W p a d6 = (r3, d7)" by (cases "os_Rename ?W p a d6")
      obtain ok8 d8 where 8: "os_RemoveAll ?W p d6 = (ok8, d8)" by (cases "os_RemoveAll ?W p d6")
      have keep4: "at_path (dk_tree d4) q = at_path (dk_tree d3) q" if "apart p q" for q
        using RemoveAll_apart [OF that, of ?W d3] by (simp add: d4_def)
      have d4: "at_path (dk_tree d4) (?dir @ [s]) = at_path (dk_tree d) (?dir @ [s])" if "visible_name s" for s
        using keep4 [OF names(2) [OF that]] staged(2) [OF that] by simp
      have "at_path (dk_tree d4) t = Some (Dir items)" using keep4 [OF ap(5)] staged(3) [OF True] by simp
      note swap = renames_swap [OF 5 6 7 ap this]
      have rest: "at_path (dk_tree x) (?dir @ [s]) = at_path (dk_tree d) (?dir @ [s])"
        if "visible_name s \<and> s \<noteq> i" "x \<in> {d5, d7, d8}" for s x
        using renames_keep [OF 5 6 7 8 ap(1-3,6-8), of "?dir @ [s]"] that d4 names(2) ta by (auto simp: a_def)
      have a8: "at_path (dk_tree d8) a = at_path (dk_tree d6) a" using RemoveAll_apart [OF ap(2), of ?W d6] 8 by simp
      consider "r1 = NotRenamed" | "r1 \<noteq> NotRenamed" "r2 = Renamed" | "r1 \<noteq> NotRenamed" "r2 \<noteq> Renamed"
        by blast
      then show ?thesis
      proof cases
        case 1
        with body True 5 have "d' = fin d5" "\<not> is_ok r" by (auto simp: fin_def d4_def)
        with 1 swap(1) fin rest d4 i show ?thesis by (simp add: activated_def a_def)
      next
        case 2
        with body True 5 6 8 have "d' = fin d8" by (auto simp: fin_def d4_def split: rename_outcome.splits)
        with 2 swap(2) a8 fin rest i show ?thesis by (simp add: activated_def a_def)
      next
        case 3
        with body True 5 6 7 have "d' = fin d7" "\<not> is_ok r" by (auto simp: fin_def d4_def split: rename_outcome.splits)
        with 3 swap(3) fin rest d4 i show ?thesis by (auto simp: activated_def a_def)
      qed
    qed
  qed
qed

subsection \<open>What an installation establishes\<close>

lemma switch_effect:
  assumes sw: "switch_to W cfg i source state record d = (r, d')"
    and i: "visible_name i" and src: "at_path (dk_tree d) source = Some (Dir items)"
    and away: "apart (mc_InstalledAppsDirectory cfg) source"
    and roots: "apart (mc_RootDirectory cfg) (mc_InstalledAppsDirectory cfg)"
  shows "activated (mc_InstalledAppsDirectory cfg @ [i]) (Dir items) r d d'
    \<and> (\<forall>s. visible_name s \<and> s \<noteq> i \<longrightarrow> at_path (dk_tree d') (mc_InstalledAppsDirectory cfg @ [s]) =
        at_path (dk_tree d) (mc_InstalledAppsDirectory cfg @ [s]))
    \<and> (\<forall>x. r = Inr x \<longrightarrow> x = record)"
proof -
  obtain r1 d1 where 1: "activate W cfg i source d = (r1, d1)" by (cases "activate W cfg i source d")
  note eff = activate_effect [OF 1 i src away]
  show ?thesis
  proof (cases r1)
    case (Inl e)
    with sw 1 eff show ?thesis by (auto simp: switch_to_def attempt_def activated_def)
  next
    case (Inr u)
    obtain ok d2 where 2: "writeState W cfg (AList.update i record state) d1 = (ok, d2)"
      by (cases "writeState W cfg (AList.update i record state) d1")
    have "at_path (dk_tree d2) (mc_InstalledAppsDirectory cfg @ [s]) =
        at_path (dk_tree d1) (mc_InstalledAppsDirectory cfg @ [s])" for s
      using writeState_apart [OF apart_extend(2) [OF roots, of "[s]"], of W "AList.update i record state" d1] 2
      by simp
    moreover have "d' = d2" "r = (if ok then Inr record else Inl StateNotWritten)"
      using sw 1 2 Inr by (auto simp: switch_to_def attempt_def need_def pure_result_def split: if_splits)
    ultimately show ?thesis using eff Inr by (auto simp: activated_def)
  qed
qed

lemma payload_of_dir: "payload_of n = Inr p \<Longrightarrow> \<exists>items. n = Some (Dir items)"
  by (auto simp: payload_of_def Let_def split: option.splits node.splits sum.splits if_splits)

lemma store_version_effect:
  assumes "store_version W packageDirectory versionDirectory payload d = (Inr u, d')"
    and "payload_of (at_path (dk_tree d) packageDirectory) = Inr payload"
    and "apart versionDirectory packageDirectory" and "apart (butlast versionDirectory) packageDirectory"
    and "versionDirectory \<noteq> []"
  shows "payload_of (at_path (dk_tree d') versionDirectory) = Inr payload"
proof (cases "stat_path (dk_tree d) versionDirectory = None")
  case False
  with assms(1) show ?thesis
    by (auto simp: store_version_def inspectPayload_def split: if_splits prod.splits)
next
  case True
  obtain items where items: "at_path (dk_tree d) packageDirectory = Some (Dir items)"
    using payload_of_dir [OF assms(2)] by blast
  from assms(1) True obtain d1 where
    1: "os_MkdirAll (sw_disk W) (butlast versionDirectory) (step d) = (True, d1)"
    and 2: "copyDirectory (sw_disk W) packageDirectory versionDirectory d1 = (True, d')"
    by (auto simp: store_version_def attempt_Inr need_Inr split: if_splits)
  have src: "at_path (dk_tree d1) packageDirectory = Some (Dir items)"
    using MkdirAll_apart [OF assms(4), of "sw_disk W" "step d"] 1 items by simp
  show ?thesis
  proof (cases "at_path (dk_tree d1) versionDirectory")
    case None
    from copyDirectory_exact [of "sw_disk W" packageDirectory versionDirectory d1 items] 2 None src assms(3,5)
    show ?thesis using assms(2) items by simp
  next
    case (Some n)
    show ?thesis
    proof (cases "butlast versionDirectory = []")
      case True
      then show ?thesis using assms(4) by (cases packageDirectory) simp_all
    next
      case False
      define v where "v = butlast versionDirectory"
      define c where "c = last versionDirectory"
      have vc: "versionDirectory = v @ [c]" using assms(5) by (simp add: v_def c_def)
      have tree: "dk_tree d1 = mkdirs [] v (dk_tree d)"
        using 1 by (auto simp: os_MkdirAll_def Let_def v_def split: if_splits)
      have old: "at_path (dk_tree d) v \<noteq> None"
      proof
        assume "at_path (dk_tree d) v = None"
        with mkdirs_target [of v "[]" "dk_tree d"] False tree
        have "at_path (dk_tree d1) v = None \<or> at_path (dk_tree d1) v = Some (Dir [])" by (auto simp: v_def)
        with Some show False by (auto simp: vc at_path_append)
      qed
      with mkdirs_target [of v "[]" "dk_tree d"] False tree
      have "at_path (dk_tree d1) v = at_path (dk_tree d) v" by (auto simp: v_def)
      then have "at_path (dk_tree d) versionDirectory = Some n" using Some by (simp add: vc at_path_append)
      with True have "deref n = None" by (simp add: stat_path_def)
      moreover have "stat_path (mkdirs [] versionDirectory (dk_tree d1)) versionDirectory = deref n"
        using mkdirs_target [of versionDirectory "[]" "dk_tree d1"] assms(5) Some by (auto simp: stat_path_def)
      ultimately show ?thesis
        using 2 by (auto simp: copyDirectory_def os_MkdirAll_def is_dir_def Let_def split: if_splits)
    qed
  qed
qed

text \<open>
  What a package directory needs to count as genuine: the catalogue on disk lists the app, the hash
  in the catalogue is that of a bundle whose payload is the directory's, and the worker approved the
  manifest of that payload.
\<close>

definition genuine :: "store_world \<Rightarrow> store_config \<Rightarrow> node \<Rightarrow> string \<Rightarrow> node \<Rightarrow> bool" where
  "genuine W cfg t i n =
     (\<exists>text index entry data bundle m k t' p.
        stat_path t (indexPath cfg) = Some (File text) \<and> DecodeIndex (sw_catalog W) text = Inr index \<and>
        entry \<in> set (ix_Apps index) \<and> ie_ID entry = i \<and> check_entry cfg entry = None \<and>
        hex_encode (Sum256 data) = fr_SHA256 (ie_Bundle entry) \<and>
        DecodeBundle (sw_catalog W) data = Inr bundle \<and> check_metadata entry bundle = None \<and>
        payload_of (Some n) = Inr (bu_Package bundle) \<and>
        sw_approve W k t' m (p @ [''app.yaml'']) = None \<and>
        payload_of (at_path t' p) = Inr (bu_Package bundle) \<and>
        validateBundle (sw_catalog W) t' bundle m i p = None)"

lemma loadIndex_Inr:
  "loadIndex W cfg d = (Inr index, d') \<Longrightarrow>
   \<exists>text. stat_path (dk_tree d) (indexPath cfg) = Some (File text) \<and> DecodeIndex (sw_catalog W) text = Inr index"
  by (auto simp: loadIndex_def os_ReadFile_def split: prod.splits read_outcome.splits sum.splits if_splits
      option.splits node.splits)

lemma fetchVerified_Inr:
  "fetchVerified W location record d = (Inr data, d') \<Longrightarrow>
   hex_encode (Sum256 data) = fr_SHA256 record \<and> int (length data) = fr_SizeBytes record"
  by (auto simp: fetchVerified_def split: option.splits if_splits sum.splits)

lemma catalog_pure: "catalog (\<lambda>d. (r, d)) d = (Inr x, d') \<longleftrightarrow> r = Inr x \<and> d' = d"
  by (auto simp: catalog_def split: sum.splits)

lemma catalog_Inr: "catalog m d = (Inr x, d') \<longleftrightarrow> m d = (Inr x, d')"
  by (auto simp: catalog_def split: prod.splits sum.splits)

lemma fetch_bundle_Inr:
  assumes "fetch_bundle W cfg i d = (Inr (entry, bundleURL, bundle), d')"
  shows "dk_tree d' = dk_tree d \<and> ie_ID entry = i \<and> check_entry cfg entry = None \<and> check_metadata entry bundle = None
    \<and> (\<exists>text index data. stat_path (dk_tree d) (indexPath cfg) = Some (File text)
        \<and> DecodeIndex (sw_catalog W) text = Inr index \<and> entry \<in> set (ix_Apps index)
        \<and> hex_encode (Sum256 data) = fr_SHA256 (ie_Bundle entry) \<and> DecodeBundle (sw_catalog W) data = Inr bundle)"
proof -
  from assms obtain index d1 data d2 where
    1: "loadIndex W cfg d = (Inr index, d1)" "findEntry index i = Some entry" "check_entry cfg entry = None"
      "fetchVerified W bundleURL (ie_Bundle entry) d1 = (Inr data, d2)"
      "DecodeBundle (sw_catalog W) data = Inr bundle" "check_metadata entry bundle = None"
    by (auto simp: fetch_bundle_def attempt_Inr catalog_pure split: option.splits)
  have "ie_ID entry = i" "entry \<in> set (ix_Apps index)"
    using 1(2) find_SomeD by (fastforce simp: findEntry_def)+
  with 1 loadIndex_Inr [OF 1(1)] fetchVerified_Inr [OF 1(4)] reads_onlyD [OF reads_fetch_bundle assms]
  show ?thesis by blast
qed

lemma check_index_apps_ok:
  "check_index_apps seen apps = None \<Longrightarrow> entry \<in> set apps \<Longrightarrow>
   \<exists>seen. check_index_app seen entry = None"
  by (induction apps arbitrary: seen) (auto simp: and_then_None)

lemma index_entry_ok:
  assumes "DecodeIndex C text = Inr index" and "entry \<in> set (ix_Apps index)"
  shows "identifier_re (ie_ID entry) \<and> version_re (ie_Version entry) \<and> hash64 (fr_SHA256 (ie_Bundle entry))"
proof -
  have "check_index_apps [] (ix_Apps index) = None"
    using assms(1) by (auto simp: DecodeIndex_def guard_splits split: if_splits option.splits)
  from check_index_apps_ok [OF this assms(2)] show ?thesis
    by (auto simp: check_index_app_def split: if_splits)
qed

lemma receive_package_Inr:
  assumes "receive_package W incoming i bundleURL bundle d = (Inr payload, d')"
  shows "payload = bu_Package bundle
    \<and> payload_of (at_path (dk_tree d') (sub_path (incoming @ [''apps'']) i)) = Inr payload
    \<and> (\<exists>m k. sw_approve W k (dk_tree d') m (sub_path (incoming @ [''apps'']) i @ [''app.yaml'']) = None
        \<and> validateBundle (sw_catalog W) (dk_tree d') bundle m i (sub_path (incoming @ [''apps'']) i) = None)"
proof -
  let ?p = "sub_path (incoming @ [''apps'']) i"
  from assms obtain d1 d2 d3 m where
    1: "catalog (inspectPayload (sw_disk W) ?p) d1 = (Inr payload, d2)" "payload = bu_Package bundle"
    and 2: "scan_package W (incoming @ [''apps'']) i d2 = (Inr m, d3)"
    and 3: "validateBundle (sw_catalog W) (dk_tree d3) bundle m i ?p = None"
    and 4: "approve_manifest W m (?p @ [''app.yaml'']) d3 = (Inr (), d')"
    by (auto simp: receive_package_def Let_def attempt_Inr split: if_splits)
  have tree: "dk_tree d2 = dk_tree d1" "dk_tree d3 = dk_tree d2" "dk_tree d' = dk_tree d3"
    using reads_onlyD [OF reads_inspect 1(1)] reads_onlyD [OF reads_scan(1) 2] reads_onlyD [OF reads_scan(2) 4] by simp_all
  have "payload_of (at_path (dk_tree d1) ?p) = Inr payload"
    using 1(1) by (auto simp: catalog_Inr inspectPayload_def split: if_splits)
  moreover have "sw_approve W (dk_steps d3) (dk_tree d3) m (?p @ [''app.yaml'']) = None"
    using 4 by (auto simp: approve_manifest_def split: option.splits)
  ultimately show ?thesis using 1(2) 3 tree by metis
qed

lemma MkdirTemp_keeps:
  "os_MkdirTemp W dir prefix d = (x, d') \<Longrightarrow> apart dir q \<Longrightarrow> at_path (dk_tree d') q = at_path (dk_tree d) q"
  using MkdirTemp_apart [of dir prefix q W d] apart_extend(1) by fastforce

lemma identifier_visible: "identifier_re i \<Longrightarrow> visible_name i"
  using identifier_normal [of i] by (auto simp: visible_name_def identifier_re_def is_lower_def split: list.splits)

text \<open>
  What an installation may have made of the app's directory, told from its result and what was there
  before. The part of \<^verbatim>\<open>Install\<close> that follows the download keeps to it.
\<close>

definition installed_well ::
  "store_world \<Rightarrow> store_config \<Rightarrow> node \<Rightarrow> string \<Rightarrow> (store_error, 'a) result \<Rightarrow> node option \<Rightarrow> node option \<Rightarrow> bool" where
  "installed_well W cfg t i r before found =
     (let good = \<exists>n. found = Some n \<and> genuine W cfg t i n
      in if is_ok r then good else good \<or> found = before \<or> found = None \<or> before = None)"

lemma fetch_bundle_names:
  assumes "fetch_bundle W cfg i d = (Inr (entry, bundleURL, bdl), d1)"
  shows "identifier_re i" and "version_re (bu_Version bdl)"
proof -
  note B = fetch_bundle_Inr [OF assms]
  from B index_entry_ok have "identifier_re (ie_ID entry) \<and> version_re (ie_Version entry)" by blast
  with B show "identifier_re i" "version_re (bu_Version bdl)"
    by (auto simp: check_metadata_def split: if_splits)
qed

lemma install_package_effect:
  assumes base: "apart (mc_RootDirectory cfg) (mc_InstalledAppsDirectory cfg)"
    and f: "fetch_bundle W cfg i d = (Inr (entry, bundleURL, bdl), d1)"
    and inc: "incoming = mc_RootDirectory cfg @ [''.incoming-'' @ y]"
    and run: "install_package W cfg i bundleURL bdl incoming d2 = (r, d3)"
  shows "(\<forall>s. visible_name s \<and> s \<noteq> i \<longrightarrow> at_path (dk_tree d3) (mc_InstalledAppsDirectory cfg @ [s]) =
        at_path (dk_tree d2) (mc_InstalledAppsDirectory cfg @ [s]))
    \<and> (visible_name i \<longrightarrow> installed_well W cfg (dk_tree d) i r
        (at_path (dk_tree d2) (mc_InstalledAppsDirectory cfg @ [i]))
        (at_path (dk_tree d3) (mc_InstalledAppsDirectory cfg @ [i])))"
proof -
  let ?dir = "mc_InstalledAppsDirectory cfg" and ?base = "mc_RootDirectory cfg"
  note ids = fetch_bundle_names [OF f] and B = fetch_bundle_Inr [OF f]
  note ni = identifier_normal [OF ids(1)] and nv = version_normal [OF ids(2)]
  define pkg where "pkg = sub_path (incoming @ [''apps'']) i"
  define v where "v = version_path cfg i (bu_Version bdl)"
  have v: "v = ?base @ [''versions'', i, bu_Version bdl]" and pkg: "pkg = incoming @ [''apps'', i]"
    using ni nv by (simp_all add: v_def pkg_def version_path_def sub_path_single)
  have q: "apart ?base (?dir @ [s])" for s using apart_extend(2) [OF base] .
  have qi: "apart incoming (?dir @ [s])" and qv: "apart v (?dir @ [s])" "apart (butlast v) (?dir @ [s])" for s
    using apart_extend(1) [OF q] by (simp_all add: inc v butlast_append)
  have vp: "apart v pkg" "apart (butlast v) pkg" "v \<noteq> []" by (simp_all add: v pkg inc butlast_append)
  have away: "apart ?dir v" using apart_extend(1) [OF base] by (simp add: v apart_sym)
  note unfolds = install_package_def attempt_def Let_def pkg_def v_def installed_well_def
  obtain p d4 where 4: "receive_package W incoming i bundleURL bdl d2 = (p, d4)"
    by (cases "receive_package W incoming i bundleURL bdl d2")
  have k4: "at_path (dk_tree d4) (?dir @ [s]) = at_path (dk_tree d2) (?dir @ [s])" for s
    using keepsD [OF receive_package_keeps [OF qi ni] 4] by simp
  show ?thesis
  proof (cases p)
    case (Inl e)
    with run 4 k4 show ?thesis by (auto simp: unfolds)
  next
    case p: (Inr payload)
    note R = receive_package_Inr [OF 4 [unfolded p], folded pkg_def]
    obtain u d5 where 5: "store_version W pkg v payload d4 = (u, d5)" by (cases "store_version W pkg v payload d4")
    have k5: "at_path (dk_tree d5) (?dir @ [s]) = at_path (dk_tree d2) (?dir @ [s])" for s
      using keepsD [OF store_version_keeps [OF qv] 5] k4 by simp
    show ?thesis
    proof (cases u)
      case (Inl e)
      with run 4 5 p k5 show ?thesis by (auto simp: unfolds)
    next
      case u: (Inr w)
      have pv: "payload_of (at_path (dk_tree d5) v) = Inr payload"
        using store_version_effect [OF 5 [unfolded u] _ vp] R by blast
      then obtain items where items: "at_path (dk_tree d5) v = Some (Dir items)" using payload_of_dir by blast
      have gen: "genuine W cfg (dk_tree d) i (Dir items)"
        unfolding genuine_def using B R pv items by metis
      obtain st d6 where 6: "loadState W cfg d5 = (st, d6)" by (cases "loadState W cfg d5")
      have t6: "dk_tree d6 = dk_tree d5" using reads_onlyD [OF reads_load(2) 6] .
      show ?thesis
      proof (cases st)
        case (Inl e)
        with run 4 5 6 p u k5 t6 show ?thesis by (auto simp: unfolds)
      next
        case (Inr state)
        have sw: "switch_to W cfg i v state (install_record W i (bu_Version bdl) state (dk_steps d6)) d6 = (r, d3)"
          using run 4 5 6 p u Inr by (auto simp: unfolds)
        from switch_effect [OF sw identifier_visible [OF ids(1)] _ away base, of items] items t6 gen k5
        show ?thesis by (auto simp: activated_def installed_well_def Let_def split: if_splits)
      qed
    qed
  qed
qed



subsection \<open>The cached catalogue\<close>

lemma status_keeps_index:
  "at_path (dk_tree (snd (writeSyncStatus W cfg status d))) (indexPath cfg) = at_path (dk_tree d) (indexPath cfg)"
  unfolding writeSyncStatus_def statusPath_def indexPath_def by (rule atomicWrite_apart) (simp_all add: butlast_append)

lemma recordSyncError_keeps:
  "at_path (dk_tree (recordSyncError W cfg text status e d)) (indexPath cfg) = at_path (dk_tree d) (indexPath cfg)"
  by (simp add: recordSyncError_def status_keeps_index)

lemma loadSyncStatus_tree: "loadSyncStatus W cfg d = (s, d') \<Longrightarrow> dk_tree d' = dk_tree d"
  by (auto simp: loadSyncStatus_def readJSONFile_def
      split: prod.splits read_outcome.splits option.splits json_outcome.splits if_splits dest: ReadFile_fst_tree)

lemma stat_cong: "at_path t p = at_path t' p \<Longrightarrow> stat_path t p = stat_path t' p"
  by (simp add: stat_path_def)

definition cached_well :: "store_world \<Rightarrow> store_config \<Rightarrow> disk \<Rightarrow> (store_error, Index) result \<Rightarrow> disk \<Rightarrow> bool" where
  "cached_well W cfg d r d' =
     ((at_path (dk_tree d') (indexPath cfg) = at_path (dk_tree d) (indexPath cfg) \<or>
       (\<exists>data index. at_path (dk_tree d') (indexPath cfg) = Some (File data) \<and>
          DecodeIndex (sw_catalog W) data = Inr index))
     \<and> (case r of Inl _ \<Rightarrow> True
        | Inr index \<Rightarrow> \<exists>data. stat_path (dk_tree d') (indexPath cfg) = Some (File data) \<and>
            DecodeIndex (sw_catalog W) data = Inr index))"

lemma cached_well_refused:
  "at_path (dk_tree d') (indexPath cfg) = at_path (dk_tree d) (indexPath cfg) \<Longrightarrow> cached_well W cfg d (Inl e) d'"
  by (simp add: cached_well_def)

lemma cached_well_status:
  assumes "loadIndex W cfg d1 = (Inr index, d2)" and "dk_tree d1 = dk_tree d"
  shows "cached_well W cfg d (Inr index) (snd (writeSyncStatus W cfg status d2))"
proof -
  have t2: "dk_tree d2 = dk_tree d" using reads_onlyD [OF reads_load(1) assms(1)] assms(2) by simp
  have same: "at_path (dk_tree (snd (writeSyncStatus W cfg status d2))) (indexPath cfg) = at_path (dk_tree d) (indexPath cfg)"
    unfolding status_keeps_index t2 ..
  from loadIndex_Inr [OF assms(1)] assms(2) stat_cong [OF same] same show ?thesis
    by (auto simp: cached_well_def)
qed

lemma cached_well_written:
  assumes "DecodeIndex (sw_catalog W) data = Inr index"
    and "atomicWrite (sw_disk W) (indexPath cfg) data d1 = (True, d2)" and "writeSyncStatus W cfg status d2 = (ok, d3)"
  shows "cached_well W cfg d (Inr index) d3" and "cached_well W cfg d (Inl e) d3"
proof -
  have "at_path (dk_tree d2) (indexPath cfg) = Some (File data)"
    using atomicWrite_written [OF assms(2)] by (simp add: indexPath_def)
  then have "at_path (dk_tree d3) (indexPath cfg) = Some (File data)"
    using status_keeps_index [of W cfg status d2] assms(3) by simp
  with assms(1) show "cached_well W cfg d (Inr index) d3" "cached_well W cfg d (Inl e) d3"
    by (auto simp: cached_well_def stat_path_def)
qed

lemma cached_well_unread:
  "loadIndex W cfg d1 = (Inl x, d') \<Longrightarrow> dk_tree d1 = dk_tree d \<Longrightarrow> cached_well W cfg d (Inl e) d'"
  using reads_onlyD [OF reads_load(1), of W cfg d1 "Inl x" d'] by (simp add: cached_well_refused)

lemma cached_well_unwritten:
  "atomicWrite (sw_disk W) (indexPath cfg) data d1 = (False, d') \<Longrightarrow> dk_tree d1 = dk_tree d \<Longrightarrow>
   cached_well W cfg d (Inl e) d'"
  using atomicWrite_written [of "sw_disk W" "indexPath cfg" data d1 False d']
  by (simp add: indexPath_def cached_well_refused)


text \<open>
  A payload may hold an empty file and pass every check of the catalogue, but the download of a file
  of no bytes is refused for its limit, so such an app can be published and never installed.
\<close>

lemma empty_file_never_downloads:
  "fr_SizeBytes record = 0 \<Longrightarrow> \<not> is_ok (fst (fetchVerified W location record d))"
  by (simp add: fetchVerified_def readBounded_def split: option.split)

lemma empty_file_accepted:
  assumes "hash64 h"
  shows "validateDownloadRecord \<lparr>fr_Path = ''empty'', fr_SHA256 = h, fr_SizeBytes = 0\<rparr> = None
   \<and> file_record (''empty'', []) = Inr \<lparr>fr_Path = ''empty'', fr_SHA256 = hex_encode (Sum256 []), fr_SizeBytes = 0\<rparr>"
proof -
  have "Clean ''empty'' = ''empty''" by code_simp
  with assms show ?thesis by (simp add: validateDownloadRecord_def file_record_def)
qed

end
