(* ===== verification/Web_Administration.thy ===== *)
theory Web_Administration
  imports Web_Safety App_Store_Safety
begin

text \<open>
  Second: the accounts, the apps, the templates, the store and the backups change only for an
  administrator.
\<close>


subsection \<open>Administration\<close>

text \<open>An account without the colour its owner chose.\<close>

definition account :: "user_row \<Rightarrow> user_row" where
  "account u = u\<lparr>u_AccentColor := []\<rparr>"

definition accounts :: "web \<Rightarrow> user_row list" where
  "accounts s = map account (users (wb_db s))"

text \<open>What only administrators change: the accounts, the apps and templates, the store, the backups.\<close>

definition administered ::
  "web \<Rightarrow> user_row list \<times> Registry \<times> template_registry \<times> template_dir \<times> node \<times> store_config \<times> string list" where
  "administered s =
     (accounts s, sv_apps (wb_server s), sv_presets (wb_server s), wb_templates s, dk_tree (wb_disk s), wb_store s,
      wb_backups s)"

lemma users_kept [simp]:
  "users (snd (SessionUser now h d)) = users d" "users (RevokeSession now h d) = users d"
  "users (snd (CreateSession now k h t d)) = users d" "users (snd (CreateShare unm now cw k h ps x y m d)) = users d"
  "users (snd (RedeemShare unm now h d)) = users d" "users (snd (RevokeShare now cw k d)) = users d"
  "users (snd (CreateVPNProfile now p d)) = users d" "users (snd (SetVPNProfileEnabled now k u e d)) = users d"
  "users (snd (SetWorkstationAccent now cw u c d)) = users d" "users (snd (RecordEvent now cw et em d)) = users d"
  "users (snd (CreateWorkstation now ws as d)) = users d" "users (snd (SetWorkstationState now cw st1 st2 em d)) = users d"
  by (auto simp: SessionUser_def RevokeSession_def CreateSession_def CreateShare_def RedeemShare_def RevokeShare_def
      CreateVPNProfile_def SetVPNProfileEnabled_def SetWorkstationAccent_def RecordEvent_def CreateWorkstation_def
      SetWorkstationState_def Let_def split: list.split sum.split option.split prod.split)

lemma kept_by_call: "users (snd p) = u \<Longrightarrow> p = (q, d) \<Longrightarrow> users d = u"
  by simp

lemma account_accent: "map account (update_where P (\<lambda>u. u\<lparr>u_AccentColor := c\<rparr>) us) = map account us"
  by (simp add: update_where_def account_def)

lemma load_manifest_tree: "load_manifest W p d = (m, d') \<Longrightarrow> dk_tree d' = dk_tree d"
  by (auto simp: load_manifest_def Let_def split: prod.splits sum.splits option.splits dest: ReadFile_fst_tree)

lemma view_tree: "dk_tree (snd (view_of W cfg state entry d)) = dk_tree d"
proof (cases "map_of state (ie_ID entry)")
  case None
  obtain m d' where m: "load_manifest W (sub_path (mc_InstalledAppsDirectory cfg) (ie_ID entry)) d = (m, d')"
    by (metis surj_pair)
  with None load_manifest_tree [OF m] show ?thesis
    by (cases m) (simp_all add: view_of_def Let_def split: prod.split)
qed (simp add: view_of_def Let_def split: prod.split)

lemma reads_views: "dk_tree (snd (views_of W cfg state entries d)) = dk_tree d"
proof (induction entries arbitrary: d)
  case (Cons entry entries)
  with view_tree [of W cfg state entry d] show ?case
    by (auto split: prod.split) (metis snd_conv)
qed simp

lemma views_tree: "dk_tree (snd (snd (Views W cfg d))) = dk_tree d"
proof -
  have "dk_tree d' = dk_tree e" if "views_of W cfg state entries e = (v, d')" for state entries e v d'
    using that reads_views [of W cfg state entries e] by simp
  then show ?thesis
    by (auto simp: Views_def split: prod.split sum.split
      dest!: loadSyncStatus_tree reads_onlyD [OF reads_load(1)] reads_onlyD [OF reads_load(2)])
qed

subsection \<open>Steps that administer nothing\<close>

lemma administered_db [simp]:
  "users d = users (wb_db s) \<Longrightarrow> administered (set_db d s) = administered s"
  "administered (s\<lparr>wb_jobs := js\<rparr>) = administered s" "administered (s\<lparr>wb_logins := ls\<rparr>) = administered s"
  by (simp_all add: administered_def accounts_def)

text \<open>What an operation of the controller leaves alone.\<close>

definition same_rules :: "server \<Rightarrow> server \<Rightarrow> bool" where
  "same_rules sv sv' = (users (sv_db sv') = users (sv_db sv) \<and> sv_apps sv' = sv_apps sv \<and> sv_presets sv' = sv_presets sv)"

lemma administered_server: "same_rules (wb_server s) sv \<Longrightarrow> administered (s\<lparr>wb_server := sv\<rparr>) = administered s"
  by (simp add: same_rules_def administered_def accounts_def)

lemma create_rules: "same_rules sv (snd (create now b user input sv))"
proof -
  have "users d = users (sv_db sv)" if "CreateWorkstation now ws apps (sv_db sv) = (e, d)" for ws apps e d
    using that users_kept(11) [of now ws apps "sv_db sv"] by simp
  then show ?thesis
    by (auto simp: same_rules_def create_def Let_def split: option.split sum.split prod.split)
qed

lemma beginAction_rules: "same_rules sv (snd (beginAction now user i action sv))"
proof -
  have set_state: "users d = users (sv_db sv)" if "SetWorkstationState now i a b m (sv_db sv) = (e, d)" for i a b m e d
    using that users_kept(12) [of now i a b m "sv_db sv"] by simp
  then have "users d = users (sv_db sv)" if "transition now ws nxt m (sv_db sv) = (e, ws', d)" for ws nxt m e ws' d
    using that by (auto simp: transition_def split: option.splits prod.splits)
  then show ?thesis
    by (auto simp: same_rules_def beginAction_def split: sum.split option.split prod.split)
qed

lemma storeVPNProfile_rules: "same_rules sv (snd (storeVPNProfile W now user profile sv))"
proof -
  have "users d = users (sv_db sv)" if "CreateVPNProfile now p (sv_db sv) = (q, d)" for p q d
    using that users_kept(7) [of now p "sv_db sv"] by simp
  then show ?thesis
    by (auto simp: same_rules_def storeVPNProfile_def Let_def split: sum.split prod.split)
qed

lemma started_administered [simp]:
  "administered (snd (create_and_start E user input s)) = administered s"
  "administered (snd (act_and_start E user i action s)) = administered s"
  "administered (snd (store_profile E user profile s)) = administered s"
  "administered (snd (startSession E k s)) = administered s"
proof -
  note rules = create_rules [of "wb_server s" "en_time E" "en_id E" user input]
    beginAction_rules [of "wb_server s" "en_time E" user i action]
    storeVPNProfile_rules [of "wb_server s" "en_world E" "en_time E" user profile]
  show "administered (snd (create_and_start E user input s)) = administered s"
    using rules(1) by (auto simp: create_and_start_def start_job_def administered_server split: prod.split sum.split)
  show "administered (snd (act_and_start E user i action s)) = administered s"
    using rules(2) by (auto simp: act_and_start_def start_job_def administered_server split: prod.split sum.split)
  show "administered (snd (store_profile E user profile s)) = administered s"
    using rules(3) by (auto simp: store_profile_def administered_server split: prod.split)
  have "users d = users (wb_db s)" if "CreateSession now k h t (wb_db s) = (q, d)" for now h t q d
    using that users_kept(3) [of now k h t "wb_db s"] by simp
  then show "administered (snd (startSession E k s)) = administered s"
    by (auto simp: startSession_def Let_def split: sum.split prod.split option.split)
qed

lemma user_administered:
  assumes "user_step E user s s'" shows "administered s' = administered s"
  using assms
proof cases
  case u_views
  then show ?thesis using views_tree [of "store_world_of E" "wb_store s" "wb_disk s"]
    by (simp add: store_views_def administered_def accounts_def split: prod.split) auto
next
  case (u_share i ws input)
  have "users d = users (wb_db s)" if "CreateShare unm now w k h ps x y m (wb_db s) = (q, d)" for unm now w k h ps x y m q d
    using that users_kept(4) [of unm now w k h ps x y m "wb_db s"] by simp
  with u_share show ?thesis by (auto simp: new_share_def split: prod.split sum.split)
next
  case (u_revoke i ws k)
  have "users d = users (wb_db s)" if "RevokeShare now i k (wb_db s) = (q, d)" for now i q d
    using that users_kept(6) [of now i k "wb_db s"] by simp
  with u_revoke show ?thesis by (auto simp: revoke_share_def split: prod.split option.split)
next
  case (u_enable k enabled)
  have "users d = users (wb_db s)" if "SetVPNProfileEnabled now k user enabled (wb_db s) = (q, d)" for now q d
    using that users_kept(8) [of now k user enabled "wb_db s"] by simp
  with u_enable show ?thesis by (auto simp: enable_profile_def split: prod.split)
next
  case (u_accent accent)
  then show ?thesis
    by (simp add: administered_def accounts_def SetUserAccent_def account_accent)
next
  case (u_workstation_accent i accent)
  have "users d = users (wb_db s)" if "SetWorkstationAccent now i user accent (wb_db s) = (q, d)" for now q d
    using that users_kept(9) [of now i user accent "wb_db s"] by simp
  with u_workstation_accent show ?thesis by (auto simp: accent_of_workstation_def split: prod.split)
qed simp_all

lemma public_administered:
  assumes "public_step E s s'" and "HasUsers (wb_db s)"
  shows "administered s' = administered s"
  using assms(1)
proof cases
  case (p_setup username hash user d)
  with assms(2) show ?thesis by (simp add: CreateInitialAdmin_def HasUsers_def)
next
  case (p_redeem h share d m)
  have "users d = users (wb_db s)" using p_redeem users_kept(5) [of "w_unmarshal (en_world E)" "en_time E" h "wb_db s"] by simp
  with p_redeem show ?thesis by simp
next
  case (p_glance hs)
  have "users (fold (\<lambda>h d. snd (SessionUser (en_time E) h d)) hs d) = users d" for d
    by (induction hs arbitrary: d) simp_all
  with p_glance show ?thesis by simp
qed (simp_all add: recordLogin_def Let_def)

lemma share_administered: "share_step E share s s' \<Longrightarrow> administered s' = administered s"
  by (erule share_step.cases) simp_all

lemma as_user_users: "as_user E r s user d \<Longrightarrow> users d = users (wb_db s)"
  by (drule as_user_db) simp

text \<open>
  C9: only administrators administer. When there is an account, a request changes the accounts
  (passwords, rank, network grants; all but the colour), the apps on offer, the templates, the
  installed packages, the store's settings or the backups only if it carries a live session of an
  administrator and does not come from another site.
\<close>

theorem administration_needs_admin:
  assumes "HasUsers (wb_db s)" and "administered (snd (serve E r s)) \<noteq> administered s"
  shows "\<exists>user d. as_user E r s user d \<and> u_IsAdmin user \<and> (safe_method r \<or> sameOrigin E r)"
  using server_steps [of E r s]
proof cases
  case by_anyone
  with assms public_administered show ?thesis by metis
next
  case (by_user user d)
  with assms(2) user_administered [OF by_user(3)] as_user_users [OF by_user(1)] show ?thesis by simp
next
  case (by_admin user d)
  then show ?thesis by blast
next
  case (by_holder share)
  with assms(2) share_administered show ?thesis by metis
next
  case (by_foreign user d)
  with assms(2) as_user_users [OF by_foreign(2)] show ?thesis by simp
qed

end
