(* ===== verification/Web_Origin.thy ===== *)
theory Web_Origin
  imports Web_Administration
begin

text \<open>
  Third: what a request changes without the owner's intent. Requests that only read, and requests
  another site makes with the cookies of a user's browser, leave the state alone but for the marks of
  use; and the table of routes gives every request at most one handler.
\<close>

subsection \<open>The lasting part of the state\<close>

text \<open>
  Everything but the marks of use: when a session was last used, how often a share was, the event
  log, and the count of file operations.
\<close>

definition lasting_db :: "db \<Rightarrow> db" where
  "lasting_db d = d\<lparr>sessions := map (\<lambda>s. s\<lparr>s_last_used_at := zero_time\<rparr>) (sessions d),
     share_tokens := map (\<lambda>t. t\<lparr>t_use_count := 0, t_last_used_at := None\<rparr>) (share_tokens d),
     events := [], next_event := 0\<rparr>"

definition lasting :: "web \<Rightarrow> web" where
  "lasting s = set_db (lasting_db (wb_db s)) (s\<lparr>wb_disk := (wb_disk s)\<lparr>dk_steps := 0\<rparr>\<rparr>)"

lemma marked_sessions:
  "map (\<lambda>s. s\<lparr>s_last_used_at := z\<rparr>) (update_where P (\<lambda>s. s\<lparr>s_last_used_at := now\<rparr>) ss) =
     map (\<lambda>s. s\<lparr>s_last_used_at := z\<rparr>) ss"
  by (simp add: update_where_def)

lemma marked_shares:
  "map (\<lambda>t. t\<lparr>t_use_count := 0, t_last_used_at := None\<rparr>)
       (update_where P (\<lambda>t. t\<lparr>t_use_count := t_use_count t + 1, t_last_used_at := Some now\<rparr>) ts) =
     map (\<lambda>t. t\<lparr>t_use_count := 0, t_last_used_at := None\<rparr>) ts"
  by (simp add: update_where_def)

lemma lasting_calls [simp]:
  "lasting_db (snd (SessionUser now h d)) = lasting_db d"
  "lasting_db (snd (RedeemShare unm now h d)) = lasting_db d"
  "lasting_db (snd (RecordEvent now w et em d)) = lasting_db d"
  by (auto simp: lasting_db_def SessionUser_def RedeemShare_def RecordEvent_def Let_def marked_sessions marked_shares
      split: list.split sum.split)

lemma lasting_set_db [simp]: "lasting_db d = lasting_db (wb_db s) \<Longrightarrow> lasting (set_db d s) = lasting s"
  by (simp add: lasting_def set_db_def)

lemma lasting_glances:
  "lasting (set_db (fold (\<lambda>h d. snd (SessionUser now h d)) hs (wb_db s)) s) = lasting s"
proof -
  have "lasting_db (fold (\<lambda>h d. snd (SessionUser now h d)) hs d) = lasting_db d" for d
    by (induction hs arbitrary: d) simp_all
  then show ?thesis by simp
qed

lemma as_user_lasting: "as_user E r s user d \<Longrightarrow> lasting (set_db d s) = lasting s"
  by (drule as_user_db) simp

subsection \<open>Routes that only read\<close>

definition harmless :: "access \<Rightarrow> bool" where
  "harmless a =
     (case a of
        Public h \<Rightarrow> \<forall>E r s. lasting (snd (h E r s)) = lasting s
      | ForUser h \<Rightarrow> \<forall>user E r s. lasting (snd (h user E r s)) = lasting s
      | ForAdmin h \<Rightarrow> \<forall>user E r s. lasting (snd (h user E r s)) = lasting s
      | ForShare h \<Rightarrow> \<forall>share E r s. lasting (snd (h share E r s)) = lasting s)"

definition guarded :: "access \<Rightarrow> bool" where
  "guarded a = (case a of Public h \<Rightarrow> \<forall>E r s. \<not> sameOrigin E r \<longrightarrow> snd (h E r s) = s | _ \<Rightarrow> True)"

lemma harmless_simps [simp]:
  "harmless (Public h) = (\<forall>E r s. lasting (snd (h E r s)) = lasting s)"
  "harmless (ForUser g) = (\<forall>user E r s. lasting (snd (g user E r s)) = lasting s)"
  "harmless (ForAdmin g) = (\<forall>user E r s. lasting (snd (g user E r s)) = lasting s)"
  "harmless (ForShare f) = (\<forall>share E r s. lasting (snd (f share E r s)) = lasting s)"
  "guarded (Public h) = (\<forall>E r s. \<not> sameOrigin E r \<longrightarrow> snd (h E r s) = s)"
  "guarded (ForUser g)" "guarded (ForAdmin g)" "guarded (ForShare f)"
  by (simp_all add: harmless_def guarded_def)

lemma views_lasting: "lasting (snd (snd (store_views E s))) = lasting s"
proof -
  obtain q st d where v: "Views (store_world_of E) (wb_store s) (wb_disk s) = (q, st, d)" by (metis surj_pair)
  have "dk_tree d = dk_tree (wb_disk s)" using views_tree [of "store_world_of E" "wb_store s" "wb_disk s"] v by simp
  then have "d\<lparr>dk_steps := 0\<rparr> = (wb_disk s)\<lparr>dk_steps := 0\<rparr>" by (cases d; cases "wb_disk s") simp
  with v show ?thesis by (simp add: store_views_def lasting_def set_db_def)
qed

lemma reading_routes:
  "lasting (snd (redeemShare E r s)) = lasting s" "lasting (snd (themeStylesheet E r s)) = lasting s"
  "lasting (snd (apiTheme E r s)) = lasting s" "lasting (snd (appStorePage user E r s)) = lasting s"
  "lasting (snd (apiAppStore user E r s)) = lasting s"
proof -
  have redeem: "lasting_db d = lasting_db (wb_db s)" if "RedeemShare unm now h (wb_db s) = (q, d)" for unm now h q d
    using that lasting_calls(2) [of unm now h "wb_db s"] by simp
  show "lasting (snd (redeemShare E r s)) = lasting s"
    by (auto simp: redeemShare_def Let_def redeem split: sum.split prod.split option.split)
  have p: "lasting (snd (request_palette E r s)) = lasting s"
    using palette_state [of E r s] lasting_glances by metis
  then show "lasting (snd (themeStylesheet E r s)) = lasting s" "lasting (snd (apiTheme E r s)) = lasting s"
    by (auto simp: themeStylesheet_def apiTheme_def split: prod.split)
  show "lasting (snd (appStorePage user E r s)) = lasting s" "lasting (snd (apiAppStore user E r s)) = lasting s"
    using views_lasting [of E s] by (auto simp: appStorePage_def apiAppStore_def split: prod.splits sum.split)
qed

lemma posting_routes:
  "\<not> sameOrigin E r \<Longrightarrow> snd (setupPost E r s) = s" "\<not> sameOrigin E r \<Longrightarrow> snd (loginPost E r s) = s"
  by (simp_all add: setupPost_def loginPost_def)

lemma route_methods:
  "map (\<lambda>x. mp_Method (parse_pattern (fst x))) routes =
    [''GET'', ''GET'', ''GET'', ''GET'', ''GET'', ''POST'', ''GET'', ''POST'', ''POST'', ''GET'',
     ''POST'', ''GET'', ''POST'', ''POST'', ''GET'', ''POST'', ''POST'', ''GET'', ''POST'', ''POST'',
     ''GET'', ''POST'', ''POST'', ''GET'', ''POST'', ''POST'', ''POST'', ''GET'', ''GET'', ''POST'',
     ''POST'', ''POST'', [], [], ''GET'', ''GET'', [], ''POST'', ''POST'',
     ''GET'', ''GET'', ''POST'', ''GET'', ''POST'', ''GET'', ''GET'', ''GET'', ''GET'', ''POST'',
     ''POST'', ''GET'', ''POST'', ''POST'', ''GET'', ''GET'', ''GET'', ''GET'', ''POST'', ''POST'',
     ''GET'', ''POST'', ''POST'', ''POST'', ''POST'', ''POST'', ''POST'', ''POST'', ''POST'']"
  unfolding routes_def page_routes_def api_routes_def map_append list.map fst_conv
  by code_simp

lemma routes_harmless:
  "\<forall>x \<in> set routes. if mp_Method (parse_pattern (fst x)) = ''POST'' then guarded (snd x) else harmless (snd x)"
proof -
  have "list_all2 (\<lambda>m x. if m = ''POST'' then guarded (snd x) else harmless (snd x))
      (map (\<lambda>x. mp_Method (parse_pattern (fst x))) routes) routes"
    unfolding route_methods
    by (simp add: routes_def page_routes_def api_routes_def reading_handlers reading_routes posting_routes)
  then show ?thesis
    by (simp add: list_all2_map1 list_all2_same)
qed

subsection \<open>Other sites and reading requests\<close>

lemma post_unsafe: "safe_method r \<Longrightarrow> method_matches ''POST'' (hr_Method r) \<Longrightarrow> False"
  by (auto simp: safe_method_def method_matches_def)

lemma matched_method: "match_pattern p m pth = Some vals \<Longrightarrow> method_matches (mp_Method (parse_pattern p)) m"
  by (simp add: match_pattern_def Let_def split: if_splits)

lemma requireShare_cases:
  "snd (requireShare h E r s) = s \<or>
   (safe_method r \<or> sameOrigin E r) \<and> (\<exists>share. snd (requireShare h E r s) = snd (h share E r s))"
  by (auto simp: requireShare_def Let_def split: option.split sum.split)

lemma requireUser_lasting:
  assumes "safe_method r \<or> sameOrigin E r \<Longrightarrow> (\<And>user s. lasting (snd (h user E r s)) = lasting s)"
  shows "lasting (snd (requireUser h E r s)) = lasting s"
proof (cases rule: requireUser_cases [of h E r s])
  case (foreign v user d)
  then have "as_user E r s user d" by (auto simp: as_user_def)
  with foreign show ?thesis by (simp add: as_user_lasting)
next
  case (served v user d)
  then have "as_user E r s user d" by (auto simp: as_user_def)
  with served assms [of user "set_db d s"] show ?thesis by (simp add: as_user_lasting)
qed simp

lemma run_access_lasting:
  assumes "safe_method r \<longrightarrow> harmless a" and "harmless a \<or> guarded a" and "safe_method r \<or> \<not> sameOrigin E r"
  shows "lasting (snd (run_access a E r s)) = lasting s"
proof (cases a)
  case (Public h)
  with assms show ?thesis by (auto simp: run_access_def)
next
  case (ForUser h)
  with assms show ?thesis by (auto simp: run_access_def intro: requireUser_lasting)
next
  case (ForAdmin h)
  with assms show ?thesis
    by (auto simp: run_access_def requireAdmin_def intro!: requireUser_lasting)
next
  case (ForShare h)
  with assms requireShare_cases [of h E r s] show ?thesis by (auto simp: run_access_def)
qed

text \<open>
  C10: no site acts for its visitors. A request from another site, whatever its method, cookies and
  body, and a request with the method GET, HEAD or OPTIONS from anywhere leave everything as it was
  but the marks of use: accounts, sessions, workstations, profiles, shares, failed logins, templates,
  installed packages, backups and the work under way.
\<close>

theorem cross_site_inert:
  assumes "safe_method r \<or> \<not> sameOrigin E r"
  shows "lasting (snd (serve E r s)) = lasting s"
proof (cases rule: mux_cases [of E r s])
  case other
  then show ?thesis by simp
next
  case (routed p a vals)
  from bspec [OF routes_harmless routed(1)]
  have a: "if mp_Method (parse_pattern p) = ''POST'' then guarded a else harmless a"
    by (simp only: fst_conv snd_conv)
  have "safe_method r \<longrightarrow> mp_Method (parse_pattern p) \<noteq> ''POST''"
    using matched_method [OF routed(2)] post_unsafe by metis
  with a have "safe_method r \<longrightarrow> harmless a" "harmless a \<or> guarded a" by (auto split: if_splits)
  from run_access_lasting [of "r\<lparr>rq_Values := vals\<rparr>" a E s] this assms routed(3)
  show ?thesis by simp
qed

subsection \<open>One handler for every request\<close>

lemma clash_freeD:
  "clash_free ps \<Longrightarrow> i < j \<Longrightarrow> j < length ps \<Longrightarrow> \<not> clash (ps ! i) (ps ! j)"
  by (induction ps arbitrary: i j) (auto simp: nth_Cons list_all_length split: nat.splits)

lemma matches_clash:
  assumes "match_pattern p m pth \<noteq> None" and "match_pattern q m pth \<noteq> None"
    and "get_or_post (parse_pattern p)" and "get_or_post (parse_pattern q)"
  shows "clash (parse_pattern p) (parse_pattern q)"
  using assms both_match [of "mp_Segments (parse_pattern p)" "mp_Subtree (parse_pattern p)" "path_segments pth"
      "mp_Segments (parse_pattern q)" "mp_Subtree (parse_pattern q)"]
  by (auto simp: match_pattern_def Let_def clash_def method_matches_def get_or_post_def split: if_splits)

lemma find_route_at:
  assumes "n < length rs" and "match_pattern (fst (rs ! n)) m pth \<noteq> None"
    and "\<And>l. l < n \<Longrightarrow> match_pattern (fst (rs ! l)) m pth = None"
  shows "find_route rs m pth = Some (snd (rs ! n), the (match_pattern (fst (rs ! n)) m pth))"
  using assms
proof (induction rs arbitrary: n)
  case (Cons x rs)
  obtain p a where x: "x = (p, a)" by (cases x)
  show ?case
  proof (cases n)
    case 0
    with Cons.prems(2) x show ?thesis by auto
  next
    case (Suc k)
    have "match_pattern (fst (rs ! l)) m pth = None" if "l < k" for l
      using Cons.prems(3) [of "Suc l"] Suc that by simp
    with Cons.IH [of k] Cons.prems(1,2) Suc
    have "find_route rs m pth = Some (snd (rs ! k), the (match_pattern (fst (rs ! k)) m pth))" by simp
    moreover have "match_pattern p m pth = None" using Cons.prems(3) [of 0] Suc x by simp
    ultimately show ?thesis using Suc x by simp
  qed
qed simp

lemma route_unique:
  assumes "i < length routes" and "j < length routes"
    and "match_pattern (fst (routes ! i)) m pth \<noteq> None" and "match_pattern (fst (routes ! j)) m pth \<noteq> None"
  shows "i = j"
proof -
  have post: "get_or_post (parse_pattern (fst (routes ! n)))" if "n < length routes" for n
    using routes_clash_free(2) that by (simp add: list_all_length)
  have c: "clash (parse_pattern (fst (routes ! i))) (parse_pattern (fst (routes ! j)))"
    "clash (parse_pattern (fst (routes ! j))) (parse_pattern (fst (routes ! i)))"
    using matches_clash [OF assms(3,4)] matches_clash [OF assms(4,3)] post assms(1,2) by simp_all
  show ?thesis
    using c clash_freeD [OF routes_clash_free(1), of i j] clash_freeD [OF routes_clash_free(1), of j i] assms(1,2)
    by (cases i j rule: linorder_cases) simp_all
qed

lemma route_found:
  assumes "i < length routes" and "match_pattern (fst (routes ! i)) m pth \<noteq> None"
  shows "find_route routes m pth = Some (snd (routes ! i), the (match_pattern (fst (routes ! i)) m pth))"
proof -
  have "match_pattern (fst (routes ! l)) m pth = None" if "l < i" for l
    using route_unique [OF assms(1) _ assms(2), of l] that assms(1)
    by (cases "match_pattern (fst (routes ! l)) m pth") auto
  from find_route_at [OF assms this] show ?thesis .
qed

text \<open>
  C40: the table of routes is unambiguous. No two of its patterns match one request, whatever the
  method and the pth: the order of registration does not matter, and the handler and wrapper a
  request gets are those of the one pattern that matches it.
\<close>

theorem routes_unambiguous:
  assumes "i < length routes" and "j < length routes"
    and "match_pattern (fst (routes ! i)) m pth \<noteq> None" and "match_pattern (fst (routes ! j)) m pth \<noteq> None"
  shows "i = j \<and> find_route routes m pth = Some (snd (routes ! i), the (match_pattern (fst (routes ! i)) m pth))"
  using route_unique [OF assms] route_found [OF assms(1,3)] by blast

end
