(* ===== verification/Web_Guesses.thy ===== *)
theory Web_Guesses
  imports Web_Origin
begin

text \<open>
  Fourth: guessing passwords. What the counting of failed logins amounts to, over any sequence of
  requests of any clients, served one after the other.
\<close>

subsection \<open>Only logins count logins\<close>

lemma logins_kept [simp]:
  "wb_logins (snd (startSession E k s)) = wb_logins s"
  "wb_logins (snd (rescan E s)) = wb_logins s"
  "wb_logins (snd (run_store op E s)) = wb_logins s"
  "wb_logins (snd (create_and_start E user ci s)) = wb_logins s"
  "wb_logins (snd (act_and_start E user i act s)) = wb_logins s"
  "wb_logins (snd (new_share E user ws si s)) = wb_logins s"
  "wb_logins (snd (revoke_share E ws k s)) = wb_logins s"
  "wb_logins (snd (store_profile E user vp s)) = wb_logins s"
  "wb_logins (snd (enable_profile E k user b s)) = wb_logins s"
  "wb_logins (snd (accent_of_workstation E i user ac s)) = wb_logins s"
  "wb_logins (snd (storeUser E ui s)) = wb_logins s"
  "wb_logins (snd (set_grants k gs s)) = wb_logins s"
  by (auto simp: startSession_def rescan_def run_store_def create_and_start_def act_and_start_def start_job_def
      new_share_def revoke_share_def store_profile_def enable_profile_def accent_of_workstation_def storeUser_def
      set_grants_def Let_def split: sum.split prod.split option.split)

lemma store_logins [simp]:
  "wb_logins (snd (store_sync E s)) = wb_logins s" "wb_logins (snd (store_install i E s)) = wb_logins s"
  "wb_logins (snd (store_rollback i E s)) = wb_logins s" "wb_logins (snd (snd (store_views E s))) = wb_logins s"
  by (simp_all add: store_sync_def store_install_def store_rollback_def store_views_def split: prod.split)

lemma step_logins:
  "user_step E user s s' \<Longrightarrow> wb_logins s' = wb_logins s"
  "admin_step E s s' \<Longrightarrow> wb_logins s' = wb_logins s"
  "share_step E share s s' \<Longrightarrow> wb_logins s' = wb_logins s"
  by (auto elim!: user_step.cases admin_step.cases share_step.cases)

definition counts_nothing :: "access \<Rightarrow> bool" where
  "counts_nothing a = (case a of Public h \<Rightarrow> \<forall>E r s. wb_logins (snd (h E r s)) = wb_logins s | _ \<Rightarrow> True)"

lemma counts_nothing_simps [simp]:
  "counts_nothing (Public h) = (\<forall>E r s. wb_logins (snd (h E r s)) = wb_logins s)"
  "counts_nothing (ForUser g)" "counts_nothing (ForAdmin g)" "counts_nothing (ForShare f)"
  by (simp_all add: counts_nothing_def)

lemma public_logins:
  "wb_logins (snd (redeemShare E r s)) = wb_logins s" "wb_logins (snd (themeStylesheet E r s)) = wb_logins s"
  "wb_logins (snd (apiTheme E r s)) = wb_logins s" "wb_logins (snd (setupPost E r s)) = wb_logins s"
proof -
  have l: "wb_logins s' = wb_logins s" if "lasting s' = lasting s" for s'
    using arg_cong [OF that, of wb_logins] by (simp add: lasting_def)
  show "wb_logins (snd (redeemShare E r s)) = wb_logins s" "wb_logins (snd (themeStylesheet E r s)) = wb_logins s"
    "wb_logins (snd (apiTheme E r s)) = wb_logins s"
    by (rule l, rule reading_routes)+
  have "wb_logins s' = wb_logins s''" if "startSession E k s'' = (q, s')" for k s'' q s'
    using that logins_kept(1) [of E k s''] by simp
  then show "wb_logins (snd (setupPost E r s)) = wb_logins s"
    by (auto simp: setupPost_def Let_def split: sum.split prod.split)
qed

lemma routes_logins: "\<forall>x \<in> set routes. fst x = ''POST /login'' \<and> snd x = Public loginPost \<or> counts_nothing (snd x)"
  by (simp add: routes_def page_routes_def api_routes_def reading_handlers public_logins)

lemma requireUser_logins:
  assumes "\<And>user s. wb_logins (snd (h user E r s)) = wb_logins s"
  shows "wb_logins (snd (requireUser h E r s)) = wb_logins s"
  using assms by (cases rule: requireUser_cases [of h E r s]) simp_all

lemma run_access_logins:
  assumes "granted a" and "counts_nothing a"
  shows "wb_logins (snd (run_access a E r s)) = wb_logins s"
proof (cases a)
  case (Public h)
  with assms show ?thesis by (simp add: run_access_def)
next
  case (ForUser h)
  then have "wb_logins (snd (h user E r s)) = wb_logins s" for user s
    using assms(1) step_logins(1) by (metis granted_simps(2))
  with ForUser show ?thesis by (auto simp: run_access_def intro!: requireUser_logins)
next
  case (ForAdmin h)
  then have "wb_logins (snd (h user E r s)) = wb_logins s" for user s
    using assms(1) step_logins(1,2) by (metis granted_simps(3))
  with ForAdmin show ?thesis by (auto simp: run_access_def requireAdmin_def intro!: requireUser_logins)
next
  case (ForShare h)
  then have "wb_logins (snd (h share E r s)) = wb_logins s" for share
    using assms(1) step_logins(3) by (metis granted_simps(4))
  with ForShare requireShare_cases [of h E r s] show ?thesis by (auto simp: run_access_def)
qed

definition login_request :: "web_request \<Rightarrow> bool" where
  "login_request r =
     (match_pattern ''POST /login'' (hr_Method r) (request_path r) \<noteq> None \<and> request_path r = rq_EscapedPath r)"

lemma other_requests: "\<not> login_request r \<Longrightarrow> wb_logins (snd (serve E r s)) = wb_logins s"
proof (cases rule: mux_cases [of E r s])
  case other
  then show ?thesis by simp
next
  case (routed p a vals)
  assume not_login: "\<not> login_request r"
  show ?thesis
  proof (cases "request_path r = rq_EscapedPath r")
    case True
    with not_login routed(2) have "p \<noteq> ''POST /login''" by (auto simp: login_request_def)
    with bspec [OF routes_logins routed(1)] have "counts_nothing a" by (simp only: fst_conv snd_conv simp_thms)
    moreover have "granted a" using routes_granted routed(1) by auto
    ultimately show ?thesis using routed(3) run_access_logins by simp
  next
    case False
    then show ?thesis by (simp add: mux_def Let_def split: option.split)
  qed
qed

subsection \<open>One login\<close>

definition right_password :: "web_request \<Rightarrow> web \<Rightarrow> bool" where
  "right_password r s =
     (check_password (TrimSpace (FormValue r ''username'')) (FormValue r ''password'') (wb_db s) \<noteq> None)"

lemma values_form [simp]: "FormValue (r\<lparr>rq_Values := vals\<rparr>) k = FormValue r k"
  by (cases r) (simp add: FormValue_def)

lemma loginPost_cases:
  obtains (kept) "wb_logins (snd (loginPost E r s)) = wb_logins s" "rp_Status (fst (loginPost E r s)) \<noteq> 401"
  | (failed) "snd (loginPost E r s) = recordLogin (en_now E) (remoteIP r) False s"
      "rp_Status (fst (loginPost E r s)) = 401" "loginBlocked (en_now E) (remoteIP r) s \<le> 0" "\<not> right_password r s"
  | (passed) "wb_logins (snd (loginPost E r s)) = AList.delete (remoteIP r) (wb_logins s)"
      "rp_Status (fst (loginPost E r s)) \<noteq> 401" "right_password r s"
proof -
  let ?c = "check_password (TrimSpace (FormValue r ''username'')) (FormValue r ''password'') (wb_db s)"
  show ?thesis
  proof (cases "\<not> sameOrigin E r \<or> loginBlocked (en_now E) (remoteIP r) s > 0 \<or> rq_Form r = None")
    case True
    then show ?thesis
      by (intro kept) (auto simp: loginPost_def Let_def login_page_def cross_origin_def)
  next
    case False
    show ?thesis
    proof (cases ?c)
      case None
      with False show ?thesis
        by (intro failed) (auto simp: loginPost_def Let_def login_page_def right_password_def)
    next
      case (Some user)
      have "wb_logins s' = AList.delete (remoteIP r) (wb_logins s)"
        if "startSession E (u_ID user) (recordLogin (en_now E) (remoteIP r) True s) = (q, s')" for q s'
        using that logins_kept(1) [of E "u_ID user" "recordLogin (en_now E) (remoteIP r) True s"]
        by (simp add: recordLogin_def)
      with False Some show ?thesis
        by (intro passed) (auto simp: loginPost_def Let_def right_password_def split: prod.split sum.split)
    qed
  qed
qed

lemma login_served:
  assumes "login_request r"
  obtains vals where "mux E r s = loginPost E (r\<lparr>rq_Values := vals\<rparr>) s"
proof -
  have n: "routes ! 7 = (''POST /login'', Public loginPost)" "7 < length routes"
    by (simp_all add: routes_def page_routes_def api_routes_def)
  with assms obtain vals where "find_route routes (hr_Method r) (request_path r) = Some (Public loginPost, vals)"
    using route_found [of 7 "hr_Method r" "request_path r"] by (auto simp: login_request_def)
  with assms have "mux E r s = loginPost E (r\<lparr>rq_Values := vals\<rparr>) s"
    by (simp add: mux_def Let_def login_request_def run_access_def)
  then show ?thesis by (rule that)
qed

definition failed_guess :: "string \<Rightarrow> web_env \<Rightarrow> web_request \<Rightarrow> web \<Rightarrow> bool" where
  "failed_guess ip E r s = (login_request r \<and> remoteIP r = ip \<and> rp_Status (fst (serve E r s)) = 401)"

text \<open>What one request does to the record of an address.\<close>

lemma kept_entry: "map_of xs k = Some a \<Longrightarrow> P a \<Longrightarrow> map_of (filter (\<lambda>(k, a). P a) xs) k = Some a"
  by (induction xs) auto

lemma kept_none: "map_of xs k = None \<Longrightarrow> map_of (filter P xs) k = None"
  by (induction xs) auto

definition fresh :: "int \<Rightarrow> loginAttempt \<Rightarrow> bool" where
  "fresh now a = (now - at_LastSeen a \<le> 24 * 3600 * second)"

lemma recordLogin_entry:
  "wb_logins (recordLogin now ip False s) =
     filter (\<lambda>(k, a). fresh now a) (AList.update ip (failed_attempt now (map_of (wb_logins s) ip)) (wb_logins s))"
  by (simp add: recordLogin_def fresh_def not_less case_prod_unfold)

lemma request_entry:
  assumes "remoteIP r = ip \<longrightarrow> login_request r \<longrightarrow> \<not> right_password r s"
    and "\<forall>a. map_of (wb_logins s) ip = Some a \<longrightarrow> fresh (en_now E) a"
  shows "map_of (wb_logins (snd (serve E r s))) ip =
      (if failed_guess ip E r s then Some (failed_attempt (en_now E) (map_of (wb_logins s) ip))
       else map_of (wb_logins s) ip)
    \<and> (failed_guess ip E r s \<longrightarrow> loginBlocked (en_now E) ip s \<le> 0)"
proof (cases "login_request r")
  case False
  then show ?thesis by (simp add: failed_guess_def other_requests del: serve_body)
next
  case True
  then obtain vals where m: "mux E r s = loginPost E (r\<lparr>rq_Values := vals\<rparr>) s" by (rule login_served)
  have same: "right_password (r\<lparr>rq_Values := vals\<rparr>) s = right_password r s" by (simp add: right_password_def)
  have keep: "map_of (filter (\<lambda>(k, a). fresh (en_now E) a) (AList.update x v (wb_logins s))) ip =
      map_of (wb_logins s) ip" if "x \<noteq> ip" for x v
    using that assms(2) kept_entry [of "AList.update x v (wb_logins s)" ip _ "fresh (en_now E)"]
      kept_none [of "AList.update x v (wb_logins s)" ip]
    by (cases "map_of (wb_logins s) ip") (simp_all add: update_conv')
  show ?thesis
  proof (cases rule: loginPost_cases [of E "r\<lparr>rq_Values := vals\<rparr>" s])
    case kept
    with m show ?thesis by (simp add: failed_guess_def)
  next
    case failed
    have "fresh (en_now E) (failed_attempt (en_now E) x)" for x
      by (simp add: failed_attempt_def fresh_def Let_def)
    with failed m True keep [of "remoteIP r"]
      kept_entry [of "AList.update ip (failed_attempt (en_now E) (map_of (wb_logins s) ip)) (wb_logins s)" ip
        "failed_attempt (en_now E) (map_of (wb_logins s) ip)" "fresh (en_now E)"]
    show ?thesis
      by (auto simp: failed_guess_def recordLogin_entry update_conv')
  next
    case passed
    with assms(1) True same have "remoteIP r \<noteq> ip" by auto
    with passed m show ?thesis by (simp add: failed_guess_def delete_conv')
  qed
qed

subsection \<open>Guesses in a day\<close>

type_synonym request_event = "web_env \<times> web_request"

fun guesses :: "string \<Rightarrow> request_event list \<Rightarrow> web \<Rightarrow> nat" where
  "guesses ip [] s = 0"
| "guesses ip ((E, r) # es) s =
     (if failed_guess ip E r s then 1 else 0) + guesses ip es (snd (serve E r s))"

fun never_right :: "string \<Rightarrow> request_event list \<Rightarrow> web \<Rightarrow> bool" where
  "never_right ip [] s = True"
| "never_right ip ((E, r) # es) s =
     ((remoteIP r = ip \<longrightarrow> login_request r \<longrightarrow> \<not> right_password r s) \<and> never_right ip es (snd (serve E r s)))"

text \<open>After \<open>k\<close> failures from \<open>t0\<close> on, the next is refused until \<open>t0\<close> and this many seconds.\<close>

definition barred_until :: "int \<Rightarrow> int \<Rightarrow> int" where
  "barred_until t0 k = t0 + 15 * (k - 4) * (k - 3) * second"

definition counted :: "string \<Rightarrow> int \<Rightarrow> nat \<Rightarrow> web \<Rightarrow> bool" where
  "counted ip t0 k s =
     (case map_of (wb_logins s) ip of
        None \<Rightarrow> k = 0
      | Some a \<Rightarrow> at_Failures a = int k \<and> t0 \<le> at_LastSeen a \<and>
          (5 \<le> k \<longrightarrow> (case at_Blocked a of None \<Rightarrow> False | Some b \<Rightarrow> barred_until t0 (int k) \<le> b)))"

lemma counted_step:
  assumes "counted ip t0 k s" and "t0 \<le> en_now E" and "en_now E \<le> t0 + 24 * 3600 * second"
    and "remoteIP r = ip \<longrightarrow> login_request r \<longrightarrow> \<not> right_password r s"
  shows "if failed_guess ip E r s
    then counted ip t0 (Suc k) (snd (serve E r s)) \<and> (5 \<le> k \<longrightarrow> barred_until t0 (int k) \<le> en_now E)
    else counted ip t0 k (snd (serve E r s))"
proof -
  let ?now = "en_now E" and ?a = "map_of (wb_logins s) ip"
  have "\<forall>a. ?a = Some a \<longrightarrow> fresh ?now a"
    using assms(1,3) by (auto simp: counted_def fresh_def)
  from request_entry [OF assms(4) this] have
    entry: "map_of (wb_logins (snd (serve E r s))) ip =
      (if failed_guess ip E r s then Some (failed_attempt ?now ?a) else ?a)"
    and free: "failed_guess ip E r s \<Longrightarrow> loginBlocked ?now ip s \<le> 0" by blast+
  show ?thesis
  proof (cases "failed_guess ip E r s")
    case False
    with entry assms(1) show ?thesis by (simp add: counted_def del: serve_body)
  next
    case True
    have waited: "5 \<le> k \<longrightarrow> barred_until t0 (int k) \<le> ?now"
      using free [OF True] assms(1) by (auto simp: counted_def loginBlocked_def split: option.splits)
    have grow: "barred_until t0 (int (Suc k)) \<le> ?now + (int (Suc k) - 4) * 30 * second" if "4 \<le> k"
    proof (cases "k = 4")
      case True
      with assms(2) show ?thesis by (simp add: barred_until_def)
    next
      case False
      with that waited have "barred_until t0 (int k) \<le> ?now" by simp
      then show ?thesis by (simp add: barred_until_def algebra_simps)
    qed
    have "at_Failures (failed_attempt ?now ?a) = int (Suc k)" "at_LastSeen (failed_attempt ?now ?a) = ?now"
      "4 \<le> k \<Longrightarrow> at_Blocked (failed_attempt ?now ?a) = Some (?now + (int (Suc k) - 4) * 30 * second)"
      using assms(1) by (auto simp: counted_def failed_attempt_def Let_def split: option.splits)
    with True entry grow waited assms(2) show ?thesis by (simp add: counted_def del: serve_body)
  qed
qed

lemma guesses_day:
  assumes "counted ip t0 k s" and "never_right ip es s"
    and "\<forall>(E, r) \<in> set es. t0 \<le> en_now E \<and> en_now E \<le> t0 + 24 * 3600 * second" and "k \<le> 80"
  shows "k + guesses ip es s \<le> 80"
  using assms
proof (induction es arbitrary: k s)
  case (Cons x es)
  obtain E r where x: "x = (E, r)" by (cases x)
  have now: "t0 \<le> en_now E" "en_now E \<le> t0 + 24 * 3600 * second"
    using Cons.prems(3) x by simp_all
  from counted_step [OF Cons.prems(1) now, of r] Cons.prems(2) x
  have c: "if failed_guess ip E r s
    then counted ip t0 (Suc k) (snd (serve E r s)) \<and> (5 \<le> k \<longrightarrow> barred_until t0 (int k) \<le> en_now E)
    else counted ip t0 k (snd (serve E r s))" by (simp del: serve_body)
  have more: "k \<noteq> 80" if "failed_guess ip E r s"
    using c that now by (auto simp: barred_until_def)
  show ?case
  proof (cases "failed_guess ip E r s")
    case True
    with c more Cons.prems(4) Cons.IH [of "Suc k" "snd (serve E r s)"] Cons.prems(2,3) x
    show ?thesis by (simp del: serve_body)
  next
    case False
    with c Cons.prems(4) Cons.IH [of k "snd (serve E r s)"] Cons.prems(2,3) x
    show ?thesis by (simp del: serve_body)
  qed
qed simp


end
