(* ===== verification/Web_Login.thy ===== *)
theory Web_Login
  imports Web_Guesses
begin

text \<open>
  Fifth: what a login gives. The cookie a browser gets from a login and sends back is accepted as a
  session of the account that logged in.
\<close>

lemma b64_char_cookie: "n < 64 \<Longrightarrow> cookie_byte (b64_char True n) \<and> b64_char True n \<noteq> CHR '' '' \<and> b64_char True n \<noteq> CHR '',''"
proof -
  have "list_all (\<lambda>n. cookie_byte (b64_char True n) \<and> b64_char True n \<noteq> CHR '' '' \<and> b64_char True n \<noteq> CHR '','')
      [0..<64]" by code_simp
  then show "n < 64 \<Longrightarrow> ?thesis" by (simp add: list_all_iff)
qed

lemma token_chars: "c \<in> set (b64_encode True False v) \<Longrightarrow> cookie_byte c \<and> c \<noteq> CHR '' '' \<and> c \<noteq> CHR '',''"
  by (induction True False v rule: b64_encode.induct)
    (auto simp: Let_def byte_div sextets b64_char_cookie)

lemma token_sanitized: "sanitize_value (b64_encode True False v) = b64_encode True False v"
proof -
  have "filter cookie_byte (b64_encode True False v) = b64_encode True False v"
    using token_chars [of _ v] by (simp add: filter_id_conv)
  with token_chars [of _ v] show ?thesis by (auto simp: sanitize_value_def Let_def)
qed

lemma readCookies_values: "header_Values h ''Cookie'' = header_Values h' ''Cookie'' \<Longrightarrow> readCookies h = readCookies h'"
  by (simp add: readCookies_def)

lemma returned_cookie:
  assumes "header_Values (hr_Headers r) ''Cookie'' = [''wm_session='' @ b64_encode True False v]" and "v \<noteq> []"
  shows "request_Cookie r ''wm_session'' = Some (b64_encode True False v)"
proof -
  let ?c = "b64_encode True False v"
  have ne: "?c \<noteq> []" using assms(2) length_b64_raw [of True v] by (cases v) auto
  have "is_token ''wm_session''" by code_simp
  moreover have "list_all (\<lambda>c. cookie_byte c \<and> c \<noteq> CHR '' '') ?c"
    using token_chars [of _ v] by (simp add: list_all_iff)
  ultimately have "readCookies [(''Cookie'', ''wm_session'' @ CHR ''='' # ?c)] = [(''wm_session'', ?c)]"
    using ne by (intro sent_cookie)
  moreover have "header_Values [(''Cookie'', ''wm_session'' @ CHR ''='' # ?c)] ''Cookie'' = [''wm_session='' @ ?c]"
    by (simp add: header_Values_def)
  ultimately show ?thesis
    using readCookies_values [of "hr_Headers r" "[(''Cookie'', ''wm_session'' @ CHR ''='' # ?c)]"] assms(1)
    by (simp add: request_Cookie_def)
qed

lemma startSession_Inr:
  assumes "startSession E k s = (Inr c, s')"
  shows "\<exists>v raw. en_token E = Some v \<and> raw = b64_encode True False v
    \<and> c = session_cookie E raw (time_of (en_now E + cc_SessionLifetime (en_config E)))
        (whole_seconds (cc_SessionLifetime (en_config E)))
    \<and> (\<exists>d. CreateSession (en_time E) k (TokenHash raw) (time_of (en_now E + cc_SessionLifetime (en_config E)))
        (wb_db s) = (None, d) \<and> s' = set_db d s)"
  using assms
  by (auto simp: startSession_def RandomToken_def TokenHash_def Let_def split: option.splits prod.splits)

lemma loginPost_cookie:
  assumes "c \<in> set (rp_Cookies (fst (loginPost E r s)))"
  shows "\<exists>user c'. check_password (TrimSpace (FormValue r ''username'')) (FormValue r ''password'') (wb_db s) = Some user
    \<and> startSession E (u_ID user) (recordLogin (en_now E) (remoteIP r) True s) = (Inr c', snd (loginPost E r s))
    \<and> c \<in> set (SetCookie c')"
  using assms
  by (auto simp: loginPost_def Let_def login_page_def cross_origin_def split: if_splits option.splits prod.splits sum.splits)

text \<open>A name and a password belong to a row of the table of users.\<close>

lemma check_password_row:
  "check_password n p d = Some user \<Longrightarrow> \<exists>u \<in> set (users d). user = (User.truncate u)\<lparr>u_CreatedAt := zero_time\<rparr>"
  by (auto simp: check_password_def Authenticate_def find_Some_iff split: option.splits sum.splits if_splits)

lemma new_session_accepted:
  assumes "integrity d" and "CreateSession now k h e d = (None, d')" and "u \<in> set (users d)" and "u_ID u = k"
    and "unix_sec t < unix_sec e"
  shows "fst (SessionUser t h d') = Inr ((User.truncate u)\<lparr>u_CreatedAt := zero_time\<rparr>)"
proof -
  let ?row = "\<lparr>s_token_hash = h, s_user_id = k, s_expires_at = e, s_created_at = now, s_last_used_at = now,
    s_revoked_at = None\<rparr>"
  have d': "d' = d\<lparr>sessions := sessions d @ [?row]\<rparr>"
    using assms(2) by (auto simp: CreateSession_def split: if_splits)
  have i: "integrity d'" using integrity_CreateSession [OF assms(1), of now k h e] assms(2) by simp
  have "live_session t h ?row" using assms(5) by (simp add: live_session_def later_if_sec)
  from session_rows_unique [OF i _ _ this, of u] assms(3,4) d'
  show ?thesis by (auto simp: SessionUser_def)
qed

text \<open>
  C20: a login opens a session. When the answer to a login sets a cookie, the name and password sent
  were those of an account; and any later request that brings the cookie's value back before the
  second in which the session expires, from whatever address, is served as that account.
\<close>

theorem login_roundtrip:
  assumes "integrity (wb_db s)" and "login_request r" and "c \<in> set (rp_Cookies (fst (serve E r s)))"
    and "en_token E \<noteq> Some []"
    and "header_Values (hr_Headers r2) ''Cookie'' = [ck_Name c @ ''='' @ ck_Value c]"
    and "en_now E2 div second < (en_now E + cc_SessionLifetime (en_config E)) div second"
  shows "\<exists>user d. check_password (TrimSpace (FormValue r ''username'')) (FormValue r ''password'') (wb_db s) = Some user
    \<and> ck_Name c = ''wm_session'' \<and> as_user E2 r2 (snd (serve E r s)) user d"
proof -
  from login_served [OF assms(2), of E s] obtain vals where m: "mux E r s = loginPost E (r\<lparr>rq_Values := vals\<rparr>) s" .
  let ?r = "r\<lparr>rq_Values := vals\<rparr>" and ?s' = "snd (serve E r s)"
  from loginPost_cookie [of c E ?r s] assms(3) m obtain user c' where
    user: "check_password (TrimSpace (FormValue r ''username'')) (FormValue r ''password'') (wb_db s) = Some user"
    and start: "startSession E (u_ID user) (recordLogin (en_now E) (remoteIP ?r) True s) = (Inr c', ?s')"
    and c: "c \<in> set (SetCookie c')" by auto
  let ?e = "time_of (en_now E + cc_SessionLifetime (en_config E))"
  from startSession_Inr [OF start] obtain v d where v: "en_token E = Some v"
    and c': "c' = session_cookie E (b64_encode True False v) ?e (whole_seconds (cc_SessionLifetime (en_config E)))"
    and d: "CreateSession (en_time E) (u_ID user) (TokenHash (b64_encode True False v)) ?e (wb_db s) = (None, d)"
      "wb_db ?s' = d" by (auto simp: recordLogin_def)
  have cookie: "ck_Name c = ''wm_session''" "ck_Value c = b64_encode True False v"
    using c c' by (simp_all add: SetCookie_def session_cookie_def token_sanitized split: if_splits)
  from check_password_row [OF user] obtain u where
    u: "u \<in> set (users (wb_db s))" "user = (User.truncate u)\<lparr>u_CreatedAt := zero_time\<rparr>" by blast
  have "u_ID u = u_ID user" using u(2) by (simp add: User.truncate_def)
  from new_session_accepted [OF assms(1) d(1) u(1) this, of "en_time E2"] assms(6)
  have "fst (SessionUser (en_time E2) (TokenHash (b64_encode True False v)) (wb_db ?s')) = Inr user"
    by (simp add: u(2) d(2) time_of_def del: serve_body)
  moreover have "request_Cookie r2 ''wm_session'' = Some (b64_encode True False v)"
    using returned_cookie [of r2 v] assms(4,5) v cookie by simp
  ultimately have "as_user E2 r2 ?s' user (snd (SessionUser (en_time E2) (TokenHash (b64_encode True False v)) (wb_db ?s')))"
    by (auto simp: as_user_def prod_eq_iff)
  with user cookie show ?thesis by blast
qed

end
