(* ===== verification/Web_Forward.thy ===== *)
theory Web_Forward
  imports Web_Safety
begin

text \<open>
  Traffic to the apps: which requests the controller forwards to a workstation, with which headers,
  and what the workstation's gateway makes of them.
\<close>

subsection \<open>Replies that forward nothing\<close>

definition kept_here :: "web_reply \<Rightarrow> bool" where
  "kept_here q = (case rp_Body q of Forwarded _ _ _ \<Rightarrow> False | _ \<Rightarrow> True)"

lemma kept_here_simps [simp]:
  "kept_here (http_Error m n)" "kept_here NotFound" "kept_here (writeJSON n v)" "kept_here (json_error n e)"
  "kept_here (renderStatus t n p)" "kept_here (render t p)" "kept_here (renderError u n we)"
  "kept_here (Redirect E r l n)" "kept_here (with_cookie c q) = kept_here q" "kept_here cross_origin"
  "kept_here (redirectLogin E r)" "kept_here (login_page n m a)" "kept_here (setup_error we)"
  "kept_here (no_workstation user)" "kept_here (launcher_page s user ws b)"
  "kept_here (answer n (Css x))" "kept_here (answer n (Asset x))" "kept_here (answer n (Redirected x))"
  by (simp_all add: kept_here_def NotFound_def cross_origin_def redirectLogin_def login_page_def setup_error_def
      no_workstation_def launcher_page_def renderError_def)

lemma kept_here_headers [simp]: "kept_here (q\<lparr>rp_Headers := h\<rparr>) = kept_here q"
  by (simp add: kept_here_def)

text \<open>The handlers of a route that answer themselves, and those of the proxy.\<close>

definition answers :: "access \<Rightarrow> bool" where
  "answers a =
     (case a of
        Public h \<Rightarrow> \<forall>E r s. kept_here (fst (h E r s))
      | ForUser h \<Rightarrow> \<forall>user E r s. kept_here (fst (h user E r s))
      | ForAdmin h \<Rightarrow> \<forall>user E r s. kept_here (fst (h user E r s))
      | ForShare h \<Rightarrow> \<forall>share E r s. kept_here (fst (h share E r s)))"

lemma answers_simps [simp]:
  "answers (Public h) = (\<forall>E r s. kept_here (fst (h E r s)))"
  "answers (ForUser g) = (\<forall>user E r s. kept_here (fst (g user E r s)))"
  "answers (ForAdmin g) = (\<forall>user E r s. kept_here (fst (g user E r s)))"
  "answers (ForShare f) = (\<forall>share E r s. kept_here (fst (f share E r s)))"
  by (simp_all add: answers_def)

lemmas reply_splits = sum.split prod.split option.split bool.split

lemma page_answers:
  "kept_here (fst (static_files E r s))" "kept_here (fst (web_health E r s))" "kept_here (fst (web_ready E r s))"
  "kept_here (fst (themeStylesheet E r s))" "kept_here (fst (apiTheme E r s))"
  "kept_here (fst (setupGet E r s))" "kept_here (fst (setupPost E r s))"
  "kept_here (fst (loginGet E r s))" "kept_here (fst (loginPost E r s))" "kept_here (fst (logout E r s))"
  "kept_here (fst (redeemShare E r s))"
  by (auto simp: static_files_def web_health_def web_ready_def themeStylesheet_def apiTheme_def setupGet_def
      setupPost_def loginGet_def loginPost_def logout_def redeemShare_def Let_def split: reply_splits)

lemma user_answers:
  "kept_here (fst (web_root user E r s))" "kept_here (fst (createWorkstation user E r s))"
  "kept_here (fst (templatesPage user E r s))" "kept_here (fst (appearancePage user E r s))"
  "kept_here (fst (setUserAccent_form user E r s))" "kept_here (fst (setWorkstationAccent_form user E r s))"
  "kept_here (fst (vpnProfilesPage user E r s))" "kept_here (fst (createVPNProfile user E r s))"
  "kept_here (fst (setVPNProfileEnabled_form user E r s))" "kept_here (fst (appStorePage user E r s))"
  "kept_here (fst (workstationPage user E r s))" "kept_here (fst (desktopPage user E r s))"
  "kept_here (fst (workstationAction user E r s))" "kept_here (fst (createShare user E r s))"
  "kept_here (fst (revokeShare user E r s))"
  by (auto simp: web_root_def createWorkstation_def templatesPage_def appearancePage_def setUserAccent_form_def
      setWorkstationAccent_form_def vpnProfilesPage_def createVPNProfile_def setVPNProfileEnabled_form_def
      appStorePage_def workstationPage_def desktopPage_def workstationAction_def createShare_def revokeShare_def
      renderWorkstation_def Let_def split: reply_splits)


lemma admin_answers:
  "kept_here (fst (createCustomTemplate user E r s))" "kept_here (fst (deleteCustomTemplate user E r s))"
  "kept_here (fst (usersPage user E r s))" "kept_here (fst (createUser user E r s))"
  "kept_here (fst (setUserEgress user E r s))" "kept_here (fst (appStoreSync user E r s))"
  "kept_here (fst (appStoreInstall user E r s))" "kept_here (fst (appStoreRollback user E r s))"
  by (auto simp: createCustomTemplate_def deleteCustomTemplate_def usersPage_def createUser_def setUserEgress_def
      appStoreSync_def appStoreInstall_def appStoreRollback_def rescan_then_def Let_def split: reply_splits)

lemma share_answers:
  "kept_here (fst (sharedLauncher share E r s))" "kept_here (fst (sharedAction share E r s))"
  "kept_here (fst (sharedLogout share E r s))"
  by (auto simp: sharedLauncher_def sharedAction_def sharedLogout_def Let_def split: reply_splits)

lemma with_json_answers: "(\<And>v. kept_here (fst (f v))) \<Longrightarrow> kept_here (fst (with_json dec r s f))"
  by (auto simp: with_json_def split: sum.split)

lemma with_workstation_answers: "(\<And>ws. kept_here (fst (f ws))) \<Longrightarrow> kept_here (fst (with_workstation user r s f))"
  by (auto simp: with_workstation_def split: sum.split)

lemma api_answers:
  "kept_here (fst (apiStatus user E r s))" "kept_here (fst (apiWorkstations user E r s))"
  "kept_here (fst (apiCreateWorkstation user E r s))" "kept_here (fst (apiWorkstation user E r s))"
  "kept_here (fst (apiWorkstationAction user E r s))" "kept_here (fst (apiUsage user E r s))"
  "kept_here (fst (apiEgress user E r s))" "kept_here (fst (apiLogs user E r s))"
  "kept_here (fst (apiShares user E r s))" "kept_here (fst (apiCreateShare user E r s))"
  "kept_here (fst (apiRevokeShare user E r s))" "kept_here (fst (apiSetUserAccent user E r s))"
  "kept_here (fst (apiSetWorkstationAccent user E r s))" "kept_here (fst (apiApps user E r s))"
  "kept_here (fst (apiAppStore user E r s))" "kept_here (fst (apiTemplates user E r s))"
  by (auto simp: apiStatus_def apiWorkstations_def apiCreateWorkstation_def apiWorkstation_def apiWorkstationAction_def
      apiUsage_def apiEgress_def apiLogs_def apiShares_def apiCreateShare_def apiRevokeShare_def apiSetUserAccent_def
      apiSetWorkstationAccent_def apiApps_def apiAppStore_def apiTemplates_def Let_def
      intro!: with_json_answers with_workstation_answers split: reply_splits)

lemma api_admin_answers:
  "kept_here (fst (apiVPNProfiles user E r s))" "kept_here (fst (apiCreateVPNProfile user E r s))"
  "kept_here (fst (apiSetVPNProfileEnabled user E r s))" "kept_here (fst (apiUsers user E r s))"
  "kept_here (fst (apiCreateUser user E r s))" "kept_here (fst (apiSetUserEgress user E r s))"
  "kept_here (fst (apiRescan user E r s))" "kept_here (fst (apiAppStoreSync user E r s))"
  "kept_here (fst (apiAppStoreInstall user E r s))" "kept_here (fst (apiAppStoreRollback user E r s))"
  "kept_here (fst (apiReconcile user E r s))" "kept_here (fst (apiBackup user E r s))"
  by (auto simp: apiVPNProfiles_def apiCreateVPNProfile_def apiSetVPNProfileEnabled_def apiUsers_def apiCreateUser_def
      apiSetUserEgress_def apiRescan_def apiAppStoreSync_def apiAppStoreInstall_def apiAppStoreRollback_def
      apiReconcile_def apiBackup_def rescan_json_def Let_def intro!: with_json_answers with_workstation_answers split: reply_splits)

definition forwarding :: "access list" where
  "forwarding = [ForUser proxyExplicit, ForUser proxyHostname, ForShare proxyShared]"

lemma routes_answer: "\<forall>x \<in> set routes. snd x \<in> set forwarding \<or> answers (snd x)"
  by (simp add: routes_def page_routes_def api_routes_def forwarding_def page_answers user_answers admin_answers
      share_answers api_answers api_admin_answers)

lemma requireUser_answers:
  assumes "\<And>user s. kept_here (fst (h user E r s))"
  shows "kept_here (fst (requireUser h E r s))"
  using assms by (auto simp: requireUser_def split: option.split prod.split sum.split)

lemma run_access_answers: "answers a \<Longrightarrow> kept_here (fst (run_access a E r s))"
  by (cases a)
    (auto simp: run_access_def requireAdmin_def requireShare_def Let_def intro!: requireUser_answers
      split: option.split sum.split)


subsection \<open>Headers of a forwarded request\<close>

text \<open>No other spelling of a header stands in the list.\<close>

definition exact :: "string \<Rightarrow> headers \<Rightarrow> bool" where
  "exact j h = (\<forall>(k, v) \<in> set h. same_key k j \<longrightarrow> k = j)"

lemma exact_lookup: "exact j h \<Longrightarrow> (case map_of h j of Some v \<Rightarrow> v | None \<Rightarrow> []) = header_Get h j"
  by (induction h) (auto simp: exact_def header_Get_def)

lemma exact_header: "exact j (hr_Headers q) \<Longrightarrow> header q j = header_Get (hr_Headers q) j"
  using exact_lookup [of j "hr_Headers q"] by (simp add: header_def)

lemma exact_changes:
  "exact j (header_Set h j v)" "exact j h \<Longrightarrow> \<not> same_key k j \<Longrightarrow> exact j (header_Set h k v)"
  "exact j h \<Longrightarrow> exact j (header_Del h k)"
  by (auto simp: exact_def header_Set_def header_Del_def)

lemma exact_fold: "exact j h \<Longrightarrow> exact j (fold (\<lambda>k h. header_Del h k) ks h)"
  by (induction ks arbitrary: h) (auto intro: exact_changes(3))

lemma exact_proxied:
  assumes "exact j h" and "\<not> same_key ''Connection'' j" and "\<not> same_key ''Upgrade'' j"
    and "\<not> same_key ''X-Forwarded-For'' j"
  shows "exact j (proxied_headers remote h)"
  using assms
  by (auto simp: proxied_headers_def removeHopByHopHeaders_def Let_def
      intro!: exact_changes(2) exact_fold split: option.split)

lemma other_keys:
  "\<not> same_key ''Connection'' tokenHeader" "\<not> same_key ''Upgrade'' tokenHeader"
  "\<not> same_key ''X-Forwarded-For'' tokenHeader" "\<not> same_key appHeader tokenHeader"
  "\<not> same_key ''Connection'' appHeader" "\<not> same_key ''Upgrade'' appHeader"
  "\<not> same_key ''X-Forwarded-For'' appHeader" "\<not> same_key ''X-Workstation-ID'' ''Connection''"
  "\<not> same_key tokenHeader ''Connection''" "\<not> same_key appHeader ''Connection''"
  "\<not> (\<exists>f \<in> set hop_headers. same_key tokenHeader f)" "\<not> (\<exists>f \<in> set hop_headers. same_key appHeader f)"
  "\<not> same_key tokenHeader appHeader" "\<not> same_key tokenHeader ''X-Forwarded-For''" "\<not> same_key appHeader ''X-Forwarded-For''"
  by code_simp+

lemma Values_Set_other: "\<not> same_key k j \<Longrightarrow> header_Values (header_Set h k v) j = header_Values h j"
proof -
  assume o: "\<not> same_key k j"
  have "filter (\<lambda>(q, _). same_key q j) (filter (\<lambda>(q, _). \<not> same_key q k) h) = filter (\<lambda>(q, _). same_key q j) h"
    using o by (induction h) (auto simp: same_key_def)
  with o show ?thesis by (simp add: header_Values_def header_Set_def header_Del_def)
qed

definition names_ours :: "headers \<Rightarrow> bool" where
  "names_ours h = list_ex (\<lambda>f. same_key tokenHeader f \<or> same_key appHeader f) (connection_named h)"

lemma forwarded_headers:
  assumes "\<not> names_ours (hr_Headers r)"
  shows "header ((Director E ws appID strip prefix r)\<lparr>hr_Headers :=
      proxied_headers remote (hr_Headers (Director E ws appID strip prefix r))\<rparr>) tokenHeader = cc_WorkerToken (en_config E)"
    "header ((Director E ws appID strip prefix r)\<lparr>hr_Headers :=
      proxied_headers remote (hr_Headers (Director E ws appID strip prefix r))\<rparr>) appHeader = appID"
proof -
  let ?h = "hr_Headers (Director E ws appID strip prefix r)"
  have "connection_named ?h = connection_named (hr_Headers r)"
    by (simp add: connection_named_def Director_def Values_Set_other other_keys)
  with assms have named: "\<not> (\<exists>f \<in> set (connection_named ?h). same_key tokenHeader f)"
    "\<not> (\<exists>f \<in> set (connection_named ?h). same_key appHeader f)"
    by (auto simp: names_ours_def list_ex_iff)
  have e: "exact tokenHeader ?h" "exact appHeader ?h"
    by (auto simp: Director_def other_keys intro: exact_changes)
  have "header_Get ?h tokenHeader = cc_WorkerToken (en_config E)" "header_Get ?h appHeader = appID"
    by (simp_all add: Director_def Get_Set_other other_keys)
  with proxied_keeps [OF named(1)] proxied_keeps [OF named(2)] exact_proxied [OF e(1)] exact_proxied [OF e(2)]
  show "header ((Director E ws appID strip prefix r)\<lparr>hr_Headers := proxied_headers remote ?h\<rparr>) tokenHeader = cc_WorkerToken (en_config E)"
    "header ((Director E ws appID strip prefix r)\<lparr>hr_Headers := proxied_headers remote ?h\<rparr>) appHeader = appID"
    by (simp_all add: exact_header other_keys)
qed

text \<open>
  A client that names the header of the app in \<^verbatim>\<open>Connection\<close> has the reverse proxy drop it after
  the director has set it.
\<close>

lemma connection_strips_app:
  "header_Get (proxied_headers ''10.0.0.9:4711'' [(''Connection'', appHeader), (appHeader, ''files'')]) appHeader = []"
  by code_simp


subsection \<open>Who reaches an app\<close>

text \<open>A workstation as the store gives it out, and an app in it that can be reached.\<close>

definition app_open :: "web \<Rightarrow> workstation_row \<Rightarrow> string \<Rightarrow> bool" where
  "app_open s w app =
     (w \<in> set (workstations (wb_db s)) \<and> r_state w = ''ready'' \<and>
      app \<in> wa_AppID ` set (workstation_app_list (r_id w) (wb_db s)) \<and>
      (case Get (sv_apps (wb_server s)) app of None \<Rightarrow> False | Some m \<Rightarrow> rt_Type (m_Runtime m) = ''container-service''))"

text \<open>The request the gateway of a workstation gets for an app.\<close>

definition forwarded_for :: "web_env \<Rightarrow> web_request \<Rightarrow> workstation_row \<Rightarrow> string \<Rightarrow> string \<Rightarrow> http_request \<Rightarrow> bool" where
  "forwarded_for E r w app host q =
     (host = ''http://wm-'' @ r_id w @ ''-wslan:9000'' \<and> hr_Method q = hr_Method r \<and>
      (\<not> names_ours (hr_Headers r) \<longrightarrow>
         header q tokenHeader = cc_WorkerToken (en_config E) \<and> header q appHeader = app))"

lemma proxyApp_forwards:
  assumes "rp_Body (proxyApp E r s ws appID explicit) = Forwarded host q prefix"
    and "w \<in> set (workstations (wb_db s))" and "ws = (scanWorkstation w)\<lparr>ws_Apps := workstation_app_list (r_id w) (wb_db s)\<rparr>"
  shows "app_open s w appID \<and> forwarded_for E r w appID host q"
proof -
  have ws: "ws_State ws = r_state w" "ws_ID ws = r_id w" "ws_Apps ws = workstation_app_list (r_id w) (wb_db s)"
    by (simp_all add: assms(3) scanWorkstation_def)
  obtain m where "r_state w = ''ready''" "list_ex (\<lambda>a. wa_AppID a = appID) (ws_Apps ws)"
    "Get (sv_apps (wb_server s)) appID = Some m" "rt_Type (m_Runtime m) = ''container-service''"
    and q: "host = gateway_host ws" "q = (Director E ws appID (ro_StripPrefix (m_Routing m)) explicit r)\<lparr>hr_Headers :=
        proxied_headers (rq_RemoteAddr r) (hr_Headers (Director E ws appID (ro_StripPrefix (m_Routing m)) explicit r))\<rparr>"
    using assms(1) ws(1) by (auto simp: proxyApp_def Let_def NotFound_def split: if_splits option.splits)
  moreover have "hr_Method q = hr_Method r" unfolding q by (simp add: Director_def)
  ultimately show ?thesis
    using assms(2) forwarded_headers [where r = r and E = E and ws = ws and appID = appID and prefix = explicit] ws
    by (auto simp: app_open_def forwarded_for_def gateway_host_def list_ex_iff)
qed

lemma lookup_row:
  assumes "Workstation_lookup i user d = Inr ws"
  shows "\<exists>w \<in> set (workstations d). r_id w = i \<and> may_reach user (r_owner_user_id w) \<and>
    ws = (scanWorkstation w)\<lparr>ws_Apps := workstation_app_list (r_id w) d\<rparr>"
  using assms by (auto simp: Workstation_lookup_def split: option.splits dest!: find_SomeD)

lemma hostname_row:
  assumes "WorkstationByHostname k user d = Inr ws"
  shows "\<exists>w \<in> set (workstations d). may_reach user (r_owner_user_id w) \<and>
    ws = (scanWorkstation w)\<lparr>ws_Apps := workstation_app_list (r_id w) d\<rparr>"
  using assms lookup_row by (fastforce simp: WorkstationByHostname_def split: option.splits)

lemma explicit_forwards:
  assumes "rp_Body (fst (proxyExplicit user E r s)) = Forwarded host q prefix"
  shows "\<exists>w app. may_reach user (r_owner_user_id w) \<and> app_open s w app \<and> forwarded_for E r w app host q"
proof -
  obtain ws where ws: "Workstation_lookup (PathValue r ''id'') user (wb_db s) = Inr ws"
    and "rp_Body (proxyApp E r s ws (PathValue r ''app'') (''/workstations/'' @ ws_ID ws)) = Forwarded host q prefix"
    using assms by (auto simp: proxyExplicit_def Let_def NotFound_def split: sum.splits option.splits if_splits)
  with lookup_row [OF ws] proxyApp_forwards show ?thesis by blast
qed

lemma hostname_forwards:
  assumes "rp_Body (fst (proxyHostname user E r s)) = Forwarded host q prefix"
  shows "\<exists>w app. may_reach user (r_owner_user_id w) \<and> app_open s w app \<and> forwarded_for E r w app host q"
proof -
  obtain k ws where ws: "WorkstationByHostname k user (wb_db s) = Inr ws"
    and "rp_Body (proxyApp E r s ws (PathValue r ''app'') []) = Forwarded host q prefix"
    using assms by (auto simp: proxyHostname_def Let_def NotFound_def split: sum.splits if_splits)
  with hostname_row [OF ws] proxyApp_forwards show ?thesis by blast
qed

lemma shared_forwards:
  assumes "rp_Body (fst (proxyShared share E r s)) = Forwarded host q prefix"
  shows "\<exists>w app. r_id w = sh_WorkstationID share \<and> shareCanOpenApp (sv_apps (wb_server s)) share app (hr_Method r) \<and>
    app_open s w app \<and> forwarded_for E r w app host q"
proof -
  obtain ws where ws: "Workstation_lookup (sh_WorkstationID share) internal_user (wb_db s) = Inr ws"
    and "rp_Body (proxyApp E r s ws (PathValue r ''app'') (''/shared/'' @ ws_ID ws)) = Forwarded host q prefix"
    and "shareCanOpenApp (sv_apps (wb_server s)) share (PathValue r ''app'') (hr_Method r)"
    using assms by (auto simp: proxyShared_def Let_def NotFound_def split: sum.splits if_splits)
  with lookup_row [OF ws] proxyApp_forwards show ?thesis by blast
qed

lemma open_values [simp]:
  "forwarded_for E (r\<lparr>rq_Values := vals\<rparr>) w app host q = forwarded_for E r w app host q"
  by (simp add: forwarded_for_def values_fields)

lemma app_open_marked: "as_user E r s user d \<Longrightarrow> app_open (set_db d s) w app = app_open s w app"
proof -
  assume u: "as_user E r s user d"
  have "workstation_apps (snd (SessionUser now h d)) = workstation_apps d" for now h d
    by (auto simp: SessionUser_def split: list.split)
  with as_user_db [OF u] have "workstation_apps d = workstation_apps (wb_db s)" by simp
  with as_user_kept(1) [OF u] show ?thesis by (simp add: app_open_def workstation_app_list_def)
qed

lemma requireUser_forwards:
  assumes "rp_Body (fst (requireUser h E r s)) = Forwarded host q prefix"
  shows "\<exists>user d. as_user E r s user d \<and> (safe_method r \<or> sameOrigin E r) \<and>
    rp_Body (fst (h user E r (set_db d s))) = Forwarded host q prefix"
  using assms
  by (cases rule: requireUser_cases [of h E r s]) (auto simp: as_user_def cross_origin_def)

lemma requireShare_forwards:
  assumes "rp_Body (fst (requireShare h E r s)) = Forwarded host q prefix"
  shows "\<exists>share. as_holder E r s share \<and> (safe_method r \<or> sameOrigin E r) \<and>
    rp_Body (fst (h share E r s)) = Forwarded host q prefix"
  using assms
  by (auto simp: requireShare_def as_holder_def Let_def cross_origin_def renderError_def split: option.splits sum.splits if_splits)

lemma forwarded_row:
  assumes "rp_Body (fst (serve E r s)) = Forwarded host q prefix"
  shows "\<exists>w app. app_open s w app \<and> forwarded_for E r w app host q \<and> (safe_method r \<or> sameOrigin E r) \<and>
    ((\<exists>user d. as_user E r s user d \<and> may_reach user (r_owner_user_id w)) \<or>
     (\<exists>share. as_holder E r s share \<and> sh_WorkstationID share = r_id w \<and>
        shareCanOpenApp (sv_apps (wb_server s)) share app (hr_Method r)))"
proof (cases rule: mux_cases [of E r s])
  case other
  with assms show ?thesis by simp
next
  case (routed p a vals)
  let ?r = "r\<lparr>rq_Values := vals\<rparr>"
  have fwd: "rp_Body (fst (run_access a E ?r s)) = Forwarded host q prefix" using assms routed(3) by simp
  then have "\<not> kept_here (fst (run_access a E ?r s))" by (simp add: kept_here_def)
  with run_access_answers bspec [OF routes_answer routed(1)] have "a \<in> set forwarding" by (metis snd_conv)
  then consider (user) h where "a = ForUser h" "h = proxyExplicit \<or> h = proxyHostname" | (share) "a = ForShare proxyShared"
    by (auto simp: forwarding_def)
  then show ?thesis
  proof cases
    case user
    with fwd requireUser_forwards [of h E ?r s] obtain u d where u: "as_user E r s u d" "safe_method r \<or> sameOrigin E r"
      "rp_Body (fst (h u E ?r (set_db d s))) = Forwarded host q prefix"
      by (auto simp: run_access_def)
    with user(2) explicit_forwards [of u E ?r "set_db d s"] hostname_forwards [of u E ?r "set_db d s"]
    show ?thesis by (metis app_open_marked open_values)
  next
    case share
    with fwd requireShare_forwards [of proxyShared E ?r s] obtain sh where "as_holder E r s sh"
      "safe_method r \<or> sameOrigin E r" "rp_Body (fst (proxyShared sh E ?r s)) = Forwarded host q prefix"
      by (auto simp: run_access_def)
    with shared_forwards [of sh E ?r s] show ?thesis by (metis open_values values_fields(2))
  qed
qed

text \<open>
  C8: traffic to apps is authorized. When the server forwards a request, it forwards it to the gateway
  of a stored workstation that is ready, for an app installed in it that is registered as a service.
  The request comes from no other site, and it carries a live session of the owner or an
  administrator, or a live share of this very workstation that permits opening the app with this
  method. Unless the client's \<^verbatim>\<open>Connection\<close> header names them, the gateway gets the worker's
  token and the name of exactly this app, whatever headers of these names the client sent.
\<close>

theorem forwarded_authorized:
  assumes "rp_Body (fst (serve E r s)) = Forwarded host q prefix"
  shows "\<exists>w app. app_open s w app \<and> forwarded_for E r w app host q \<and> (safe_method r \<or> sameOrigin E r) \<and>
    ((\<exists>user d. as_user E r s user d \<and> may_reach user (r_owner_user_id w)) \<or>
     (\<exists>share. as_holder E r s share \<and> sh_WorkstationID share = r_id w \<and>
        shareCanOpenApp (sv_apps (wb_server s)) share app (hr_Method r)))"
  by (rule forwarded_row [OF assms])

subsection \<open>What the gateway does with it\<close>


end
