(* ===== verification/App_Store_Sample.thy ===== *)
theory App_Store_Sample
  imports App_Store_Safety
begin

text \<open>
  A store with one app, installed from beginning to end: the sample inputs on which the theorems
  about installing and synchronizing are exercised.
\<close>

definition sample_package_manifest :: Manifest where
  "sample_package_manifest = sample_manifest\<lparr>m_Desktop := (m_Desktop sample_manifest)\<lparr>d_Icon := ''app.yaml''\<rparr>,
     m_Version := ''1.0.0''\<rparr>"

definition sample_yaml :: string where "sample_yaml = ''id: browser''"

definition sample_record :: FileRecord where "sample_record = \<lparr>fr_Path = ''app.yaml'', fr_SHA256 = hex_encode (Sum256 sample_yaml), fr_SizeBytes = 11\<rparr>"

definition sample_payload :: Package where "sample_payload = \<lparr>pk_PayloadSHA256 = hex_encode (Sum256 (payload_line sample_record)), pk_PayloadSizeBytes = 11, pk_Files = [sample_record]\<rparr>"

definition sample_bundle :: Bundle where
 "sample_bundle = \<lparr>bu_SchemaVersion = 1, bu_ID = ''browser'', bu_Name = m_Name sample_package_manifest, bu_Version = ''1.0.0'',
   bu_Summary = ''A browser'', bu_Description = ''A browser in a container'', bu_Categories = [''web''],
   bu_Authors = [\<lparr>au_Name = ''a'', au_URL = []\<rparr>], bu_LicenseCatalog = ''MIT'', bu_LicenseUpstream = ''MIT'',
   bu_Homepage = ''https://h'', bu_Source = ''https://h'', bu_Support = ''https://h'',
   bu_Compatibility = \<lparr>co_MinimumControllerVersion = ''0.1.0'', co_Platforms = [''linux/amd64'']\<rparr>,
   bu_Icon = ''app.yaml'', bu_Screenshots = [], bu_Package = sample_payload\<rparr>"

definition sample_entry :: IndexEntry where
 "sample_entry = \<lparr>ie_ID = ''browser'', ie_Name = m_Name sample_package_manifest, ie_Version = ''1.0.0'', ie_Summary = ''A browser'',
   ie_Categories = [''web''], ie_Icon = ''apps/browser/app.yaml'', ie_Image = [], ie_Compatibility = bu_Compatibility sample_bundle,
   ie_Permissions = \<lparr>pb_Network = [], pb_Storage = [], pb_Capabilities = []\<rparr>,
   ie_Bundle = \<lparr>fr_Path = ''apps/browser/bundle.json'', fr_SHA256 = hex_encode (Sum256 ''{}''), fr_SizeBytes = 2\<rparr>\<rparr>"

definition sample_url :: "string \<Rightarrow> URL" where "sample_url p = \<lparr>url_Scheme = ''https'', url_User = False, url_Host = ''h'', url_Path = p, url_RawQuery = [], url_Fragment = []\<rparr>"

definition sample_catalog :: catalog_world where
 "sample_catalog = \<lparr>cw_bundle = (\<lambda>_. Some (sample_bundle, [])), cw_index = (\<lambda>_. Some (\<lparr>ix_SchemaVersion = 1, ix_Apps = [sample_entry]\<rparr>, [])),
   cw_marshal_bundle = (\<lambda>_. []), cw_marshal_index = (\<lambda>_. []), cw_yaml = (\<lambda>_. (None, sample_package_manifest)),
   cw_url = (\<lambda>s. Some (sample_url s))\<rparr>"

definition sample_store_world :: store_world where
 "sample_store_world = \<lparr>sw_catalog = sample_catalog,
   sw_disk = \<lparr>dw_fails = (\<lambda>_. False), dw_left = (\<lambda>_. None), dw_temp = (\<lambda>_. ''1'')\<rparr>,
   sw_http = (\<lambda>_ u _. Some \<lparr>ha_Status = 200, ha_ETag = [], ha_Body = (if u = ''app.yaml'' then sample_yaml else ''{}'')\<rparr>),
   sw_approve = (\<lambda>_ _ _ _. None), sw_reference = (\<lambda>u p. Some (u\<lparr>url_Path := p\<rparr>)), sw_url_text = url_Path,
   sw_state = (\<lambda>_. ([], Some [])), sw_marshal_state = (\<lambda>_. ''{}''), sw_status = (\<lambda>_. (no_status, None)), sw_marshal_status = (\<lambda>_. ''{}''),
   sw_now = (\<lambda>_. zero_time)\<rparr>"

definition sample_store_config :: store_config where
 "sample_store_config = \<lparr>mc_RootDirectory = [''store''], mc_InstalledAppsDirectory = [''apps''], mc_IndexURL = ''https://h/index.json'',
   mc_ControllerVersion = ''0.4.1'', mc_ReservedIDs = [''launcher''], mc_Platform = ''linux/amd64''\<rparr>"

definition sample_disk :: disk where
 "sample_disk = \<lparr>dk_tree = Dir [(''store'', Dir [(''catalog'', Dir [(''index.json'', File ''{}'')]), (''versions'', Dir []),
     (''state.json'', File ''{}'')]), (''apps'', Dir [(''editor'', Dir [])])], dk_steps = 0\<rparr>"

lemma hash64_digest: "hash64 (hex_encode (Sum256 s))"
  using set_hex_encode[of _ "Sum256 s"] by (auto simp: hash64_def list_all_iff)

lemma sample_version_order: "compareVersions ''0.4.1'' ''0.1.0'' = 1" by code_simp

lemma sample_entry_compatible: "check_entry sample_store_config sample_entry = None"
  by (simp add: check_entry_def sample_store_config_def sample_entry_def sample_bundle_def compatible_version_def compatible_platform_def sample_version_order)

lemma sample_metadata_agrees: "check_metadata sample_entry sample_bundle = None"
  by (simp add: check_metadata_def sample_entry_def sample_bundle_def sample_payload_def hash64_digest Base_def)

lemma sample_texts: "identifier_re ''browser''" "version_re ''1.0.0''" "TrimSpace (m_Name sample_package_manifest) \<noteq> []" "8 \<le> length (TrimSpace ''A browser'')"
  "path_join3 ''apps'' ''browser'' ''bundle.json'' = ''apps/browser/bundle.json''" "path_join3 ''apps'' ''browser'' (Base ''apps/browser/app.yaml'') = ''apps/browser/app.yaml''"
  by code_simp+

lemma sample_index_app: "check_index_app [] sample_entry = None"
  using sample_texts by (simp add: check_index_app_def sample_entry_def hash64_digest)

lemma sample_entry_simps: "ie_ID sample_entry = ''browser''" "fr_Path (ie_Bundle sample_entry) = ''apps/browser/bundle.json''"
  "fr_SizeBytes (ie_Bundle sample_entry) = 2" "fr_SHA256 (ie_Bundle sample_entry) = hex_encode (Sum256 ''{}'')"
  "bu_Package sample_bundle = sample_payload" "bu_Version sample_bundle = ''1.0.0''"
  by (simp_all add: sample_entry_def sample_bundle_def)

lemma sample_world_simps: "sw_catalog sample_store_world = sample_catalog" "dw_fails (sw_disk sample_store_world) = (\<lambda>_. False)"
  "dw_temp (sw_disk sample_store_world) = (\<lambda>_. ''1'')"
  "sw_http sample_store_world k u e = Some \<lparr>ha_Status = 200, ha_ETag = [], ha_Body = (if u = ''app.yaml'' then sample_yaml else ''{}'')\<rparr>"
  "sw_approve sample_store_world k t m p = None" "sw_reference sample_store_world b x = Some (b\<lparr>url_Path := x\<rparr>)"
  "sw_url_text sample_store_world = url_Path" "sw_state sample_store_world x = ([], Some [])" "sw_marshal_state sample_store_world y = ''{}''"
  "cw_url sample_catalog x = Some (sample_url x)" "cw_bundle sample_catalog x = Some (sample_bundle, [])"
  "cw_index sample_catalog x = Some (\<lparr>ix_SchemaVersion = 1, ix_Apps = [sample_entry]\<rparr>, [])" "cw_yaml sample_catalog x = (None, sample_package_manifest)"
  "mc_RootDirectory sample_store_config = [''store'']" "mc_InstalledAppsDirectory sample_store_config = [''apps'']"
  "mc_IndexURL sample_store_config = ''https://h/index.json''"
  "sw_now sample_store_world n = zero_time"
  "url_Path (sample_url x) = x"
  by (simp_all add: sample_store_world_def sample_catalog_def sample_store_config_def sample_url_def)

lemma sample_fetch_bundle: "fetch_bundle sample_store_world sample_store_config ''browser'' sample_disk = (Inr (sample_entry, ''apps/browser/bundle.json'', sample_bundle), sample_disk\<lparr>dk_steps := 2\<rparr>)"
  by (simp add: fetch_bundle_def attempt_def loadIndex_def os_ReadFile_def failing_def  sample_disk_def indexPath_def 
   stat_path_def step_def DecodeIndex_def ensureJSONEnd_def guard_def sample_index_app pure_result_def findEntry_def test_def sample_entry_compatible 
   resolveStorePath_def fetchVerified_def readBounded_def catalog_def DecodeBundle_def sample_metadata_agrees sample_entry_simps sample_world_simps)
   (simp add: sample_url_def)

lemmas task_ops = attempt_def os_ReadFile_def failing_def stat_path_def step_def pure_result_def test_def need_def os_MkdirAll_def os_MkdirTemp_def
  set_op_def set_at_def os_WriteFile_def os_RemoveAll_def os_Remove_def os_Rename_def may_replace_def Let_def is_dir_def catalog_def sample_world_simps

definition sample_incoming_disk :: disk where "sample_incoming_disk = \<lparr>dk_tree = Dir [(''store'', Dir [(''catalog'', Dir [(''index.json'', File ''{}'')]), (''versions'', Dir []),
     (''state.json'', File ''{}''), (''.incoming-1'', Dir [])]), (''apps'', Dir [(''editor'', Dir [])])], dk_steps = 3\<rparr>"

lemma sample_incoming: "os_MkdirTemp (sw_disk sample_store_world) [''store''] ''.incoming-'' (sample_disk\<lparr>dk_steps := 2\<rparr>) = (Some [''store'', ''.incoming-1''], sample_incoming_disk)"
  by (simp add: task_ops sample_disk_def sample_incoming_disk_def)

definition sample_tree :: "bool \<Rightarrow> (string \<times> node) list \<Rightarrow> (string \<times> node) list \<Rightarrow> node" where "sample_tree x v a = Dir [(''store'', Dir ([(''catalog'', Dir [(''index.json'', File ''{}'')]), (''versions'', Dir v),
     (''state.json'', File ''{}'')] @ (if x then [(''.incoming-1'', Dir [(''apps'', Dir [(''browser'', Dir [(''app.yaml'', File sample_yaml)])])])] else []))), 
     (''apps'', Dir a)]"

lemma sample_yaml_length: "length sample_yaml = 11" by (simp add: sample_yaml_def)

lemma sample_record_valid: "validateDownloadRecord sample_record = None"
proof -
  have "Clean ''app.yaml'' = ''app.yaml''" by code_simp
  thus ?thesis by (simp add: validateDownloadRecord_def sample_record_def hash64_digest Let_def)
qed

lemma sample_url_eq: "sample_url x = \<lparr>url_Scheme = ''https'', url_User = False, url_Host = ''h'', url_Path = x, url_RawQuery = [], url_Fragment = []\<rparr>"
  by (simp add: sample_url_def)

lemma sample_resolve: "resolveStorePath sample_store_world base x = Inr x"
  by (simp add: resolveStorePath_def sample_world_simps) (simp add: sample_url_eq)

lemma sample_fetch: "fetchVerified sample_store_world ''app.yaml'' sample_record d = (Inr sample_yaml, d\<lparr>dk_steps := Suc (dk_steps d)\<rparr>)"
  by (simp add: fetchVerified_def task_ops readBounded_def sample_yaml_length sample_record_def)

lemma sample_base: "bundle_base sample_store_world x = Inr (Dir_of x @ [CHR 0x2F])"
  by (simp add: bundle_base_def sample_world_simps)

lemma sample_package_path: "sub_path [''store'', ''.incoming-1'', ''apps''] ''browser'' = [''store'', ''.incoming-1'', ''apps'', ''browser'']"
  by (simp add: sub_path_single identifier_normal sample_texts)

lemma sample_file_path: "sub_path [''store'', ''.incoming-1'', ''apps'', ''browser''] ''app.yaml'' = [''store'', ''.incoming-1'', ''apps'', ''browser'', ''app.yaml'']"
  by (simp add: sub_path_def clean_step_def)

lemma sample_record_path: "fr_Path sample_record = ''app.yaml''" by (simp add: sample_record_def)

lemma sample_download: "download_files sample_store_world b [''store'', ''.incoming-1'', ''apps'', ''browser''] [sample_record] 
   \<lparr>dk_tree =
                       Dir [(''store'',
                             Dir [(''catalog'',
                                   Dir [(''index.json'', File ''{}'')]),
                                  (''versions'', Dir []),
                                  (''state.json'', File ''{}''),
                                  (''.incoming-1'',
                                   Dir [(''apps'',
   Dir [(''browser'', Dir [])])])]),
                            (''apps'', Dir [(''editor'', Dir [])])], dk_steps = 4\<rparr> = (Inr (), \<lparr>dk_tree = sample_tree True [] [(''editor'', Dir [])], dk_steps = 7\<rparr>)"
  by (simp add: task_ops sample_record_valid sample_resolve sample_fetch sample_record_path sample_file_path sample_tree_def)

lemma sample_payload_of: "payload_of (Some (Dir [(''app.yaml'', File sample_yaml)])) = Inr sample_payload"
  by (simp add: payload_of_def file_record_def sample_yaml_length sample_record_def sample_payload_def payload_line_def)

lemma sample_inspect: "inspectPayload (sw_disk sample_store_world) [''store'', ''.incoming-1'', ''apps'', ''browser''] 
   \<lparr>dk_tree = sample_tree True [] [(''editor'', Dir [])], dk_steps = 7\<rparr> = (Inr sample_payload, \<lparr>dk_tree = sample_tree True [] [(''editor'', Dir [])], dk_steps = 8\<rparr>)"
  by (simp add: inspectPayload_def task_ops sample_tree_def sample_payload_of)

lemma sample_manifest_simps: "d_Icon (m_Desktop sample_package_manifest) = ''app.yaml''" "m_ID sample_package_manifest = ''browser''"
   "m_Name sample_package_manifest = ''Browser''" "m_Version sample_package_manifest = ''1.0.0''" "rt_Type (m_Runtime sample_package_manifest) = ''container-service''"
  by (simp_all add: sample_package_manifest_def sample_manifest_def)

lemma sample_clean: "Clean ''app.yaml'' = ''app.yaml''" "clean_parts (path_join (path_join ''/store/.incoming-1/apps'' ''browser'') ''app.yaml'') = [''store'', ''.incoming-1'', ''apps'', ''browser'', ''app.yaml'']"
   "\<not> Contains ''app.yaml'' ''..''" "\<not> IsAbs ''app.yaml''" by code_simp+

lemma sample_manifest_valid: "Manifests.Validate (\<lambda>_. True) sample_package_manifest ''/store'' = None" by code_simp

lemma sample_manifest_validates: "stat (path_join dir ''app.yaml'') \<Longrightarrow> Manifests.Validate stat sample_package_manifest dir = None"
  proof -
  assume a: "stat (path_join dir ''app.yaml'')"
  have "check_icon stat sample_package_manifest dir = check_icon (\<lambda>_. True) sample_package_manifest ''/store''"
    using a by (simp add: check_icon_def sample_manifest_simps sample_clean)
  with sample_manifest_valid show ?thesis unfolding Manifests.Validate_def by (simp only:)
qed

lemma sample_scan_package: "scan_package sample_store_world [''store'', ''.incoming-1'', ''apps''] ''browser'' \<lparr>dk_tree = sample_tree True [] [(''editor'', Dir [])], dk_steps = 8\<rparr> =
  (Inr sample_package_manifest, \<lparr>dk_tree = sample_tree True [] [(''editor'', Dir [])], dk_steps = 9\<rparr>)"
  by (simp add: scan_package_def scan_tree_def task_ops app_items_def sample_tree_def app_item_def Scan_def scan_item_def scan_environment_def Get_def Registry_Entry_def sample_manifest_simps
     path_string_def sample_manifest_validates sample_clean)

lemma sample_bundle_valid: "validateBundle sample_catalog (sample_tree True [] [(''editor'', Dir [])]) sample_bundle sample_package_manifest ''browser'' [''store'', ''.incoming-1'', ''apps'', ''browser''] = None"
proof -
  have x: "version_re ''0.1.0''" "identifier_re ''web''" "TrimSpace ''a'' \<noteq> []" "\<not> length (TrimSpace ''A browser in a container'') < 20" "\<not> length (TrimSpace ''A browser'') < 8" by code_simp+
  show ?thesis
  by (simp add: validateBundle_def sample_bundle_def sample_manifest_simps sample_texts x check_author_def validHTTPSURL_def sample_world_simps sample_url_eq validateRelativeFile_def sample_clean sample_file_path)
    (simp add: sample_tree_def)
qed

lemma sample_receive: "receive_package sample_store_world [''store'', ''.incoming-1''] ''browser'' ''apps/browser/bundle.json'' sample_bundle sample_incoming_disk =
   (Inr sample_payload, \<lparr>dk_tree = sample_tree True [] [(''editor'', Dir [])], dk_steps = 10\<rparr>)"
proof -
  have "pk_Files sample_payload = [sample_record]" by (simp add: sample_payload_def)
  thus ?thesis
  by (simp del: download_files.simps add: receive_package_def sample_base sample_incoming_disk_def sample_package_path 
    sample_entry_simps task_ops sample_download sample_inspect sample_scan_package sample_bundle_valid approve_manifest_def)
qed

lemma sample_version_path: "version_path sample_store_config ''browser'' (bu_Version sample_bundle) = [''store'', ''versions'', ''browser'', ''1.0.0'']"
  by (simp add: version_path_def sub_path_single identifier_normal version_normal sample_texts sample_world_simps sample_entry_simps)

definition sample_package :: node where "sample_package = Dir [(''app.yaml'', File sample_yaml)]"

lemma sample_store_version: "store_version sample_store_world [''store'', ''.incoming-1'', ''apps'', ''browser''] [''store'', ''versions'', ''browser'', ''1.0.0''] sample_payload
   \<lparr>dk_tree = sample_tree True [] [(''editor'', Dir [])], dk_steps = 10\<rparr> = (Inr (), \<lparr>dk_tree = sample_tree True [(''browser'', Dir [(''1.0.0'', sample_package)])] [(''editor'', Dir [])], dk_steps = 14\<rparr>)"
  by (simp add: store_version_def task_ops sample_tree_def copyDirectory_def sample_package_def)

lemma sample_state: "loadState sample_store_world sample_store_config \<lparr>dk_tree = sample_tree True [(''browser'', Dir [(''1.0.0'', sample_package)])] [(''editor'', Dir [])], dk_steps = 14\<rparr> =
  (Inr [], \<lparr>dk_tree = sample_tree True [(''browser'', Dir [(''1.0.0'', sample_package)])] [(''editor'', Dir [])], dk_steps = 15\<rparr>)"
  by (simp add: loadState_def readJSONFile_def task_ops sample_tree_def statePath_def ensureJSONEnd_def)

lemma sample_active_path: "sub_path [''apps''] ''browser'' = [''apps'', ''browser'']" "sub_path [''apps''] ''.previous-browser'' = [''apps'', ''.previous-browser'']"
  using sample_texts by (simp_all add: sub_path_single identifier_normal normal_part_def sub_path_def clean_step_def)

lemma sample_activate: "activate sample_store_world sample_store_config ''browser'' [''store'', ''versions'', ''browser'', ''1.0.0''] 
   \<lparr>dk_tree = sample_tree True [(''browser'', Dir [(''1.0.0'', sample_package)])] [(''editor'', Dir [])], dk_steps = 15\<rparr> = 
    (Inr (), \<lparr>dk_tree = sample_tree True [(''browser'', Dir [(''1.0.0'', sample_package)])] [(''editor'', Dir []), (''browser'', sample_package)], dk_steps = 24\<rparr>)"
  by (simp add: activate_def task_ops sample_tree_def copyDirectory_def sample_package_def sample_active_path)

lemma sample_write_state: "fst (writeState sample_store_world sample_store_config y 
   \<lparr>dk_tree = sample_tree True [(''browser'', Dir [(''1.0.0'', sample_package)])] [(''editor'', Dir []), (''browser'', sample_package)], dk_steps = 24\<rparr>)"
  by (simp add: writeState_def task_ops sample_tree_def atomicWrite_def sample_package_def statePath_def)

lemma sample_install_succeeds: "is_ok (fst (Install sample_store_world sample_store_config ''browser'' sample_disk))"
proof -
  obtain r where w: "writeState sample_store_world sample_store_config y 
   \<lparr>dk_tree = sample_tree True [(''browser'', Dir [(''1.0.0'', sample_package)])] [(''editor'', Dir []), (''browser'', sample_package)], dk_steps = 24\<rparr> = (True, r y)" for y
  proof (rule that)
    show "writeState sample_store_world sample_store_config y 
   \<lparr>dk_tree = sample_tree True [(''browser'', Dir [(''1.0.0'', sample_package)])] [(''editor'', Dir []), (''browser'', sample_package)], dk_steps = 24\<rparr> = (True, snd (writeState sample_store_world sample_store_config y 
   \<lparr>dk_tree = sample_tree True [(''browser'', Dir [(''1.0.0'', sample_package)])] [(''editor'', Dir []), (''browser'', sample_package)], dk_steps = 24\<rparr>))" for y
     using sample_write_state [of y] by (cases "writeState sample_store_world sample_store_config y 
   \<lparr>dk_tree = sample_tree True [(''browser'', Dir [(''1.0.0'', sample_package)])] [(''editor'', Dir []), (''browser'', sample_package)], dk_steps = 24\<rparr>") simp
  qed
  show ?thesis
   by (simp add: Install_def attempt_def sample_fetch_bundle sample_incoming install_package_def Let_def sample_receive sample_store_version sample_state sample_activate switch_to_def w sample_version_path sample_world_simps(14) sample_package_path need_def pure_result_def)
qed

lemma sample_sync_succeeds: "is_ok (fst (Sync sample_store_world (\<lambda>_. ''down'') sample_store_config sample_disk))"
  by (simp add: Sync_def loadSyncStatus_def readJSONFile_def task_ops sample_disk_def statusPath_def indexPath_def sample_index_app no_status_def
   DecodeIndex_def ensureJSONEnd_def guard_def readBounded_def atomicWrite_def writeSyncStatus_def)

lemma sample_names: "visible_name ''browser''" "visible_name ''editor''" "''editor'' \<noteq> ''browser''"
  by code_simp+

lemma sample_installed_apps: "mc_InstalledAppsDirectory sample_store_config @ [c] = [''apps'', c]"
  by (simp add: sample_store_config_def)



end
