(* ===== verification/Web_Sample.thy ===== *)
theory Web_Sample
  imports Web_Login Web_Forward App_Store_Sample
begin

text \<open>
  A running server with two accounts, a workstation and a session: the sample inputs on which the
  theorems about the server are exercised.
\<close>

subsection \<open>The server and its surroundings\<close>

definition web_rows :: "string \<Rightarrow> db" where
  "web_rows h = run unmarshal_plain
     [(Time 100 0, OpCreateInitialAdmin ''admin'' h),
      (Time 101 0, OpCreateUser ''guest'' ''hash'' False ''direct''),
      (Time 120 0, OpCreateWorkstation sample_workstation [])] empty_db"

definition web_db :: "string \<Rightarrow> string \<Rightarrow> db" where
  "web_db h k = snd (CreateSession (Time 110 0) 1 k (Time 500 0) (web_rows h))"

definition web_sample :: "string \<Rightarrow> string \<Rightarrow> web" where
  "web_sample h k = \<lparr>wb_server = sample_server\<lparr>sv_db := web_db h k\<rparr>, wb_logins = [], wb_store = sample_store_config,
     wb_disk = sample_disk, wb_templates = sample_templates, wb_jobs = [], wb_backups = []\<rparr>"

definition web_settings :: Controller_settings where
  "web_settings = \<lparr>cc_Listen = '':8080'', cc_DatabasePath = ''/data/c.db'', cc_AppsDirectory = ''/core'',
     cc_InstalledAppsDirectory = ''/apps'', cc_AppStoreDirectory = ''/store'', cc_AppStoreIndexURL = ''https://h/index.json'',
     cc_ControllerVersion = ''0.4.1'', cc_TemplatesDirectory = ''/templates'', cc_DefaultWorkspaceImage = ''img'',
     cc_VPNProfilesDirectory = ''/vpn'', cc_VPNEncryptionKeyFile = [], cc_VPNEncryptionKey = [],
     cc_WorkerURL = ''http://worker:8090'', cc_WorkerToken = ''secret'', cc_PublicBaseDomain = [], cc_SecureCookies = True,
     cc_SessionLifetime = 3600 * second, cc_DefaultCPU = Fin 2, cc_DefaultMemoryMB = 2048, cc_DefaultPIDLimit = 256,
     cc_ReconcileOnStartup = False\<rparr>"

definition web_decoders :: json_decoders where
  "web_decoders = \<lparr>js_create = (\<lambda>_. None), js_share = (\<lambda>_. None), js_profile = (\<lambda>_. None), js_enabled = (\<lambda>_. None),
     js_user = (\<lambda>_. None), js_egress = (\<lambda>_. None), js_path = (\<lambda>b. Some (b, [])), js_accent = (\<lambda>_. None)\<rparr>"

text \<open>The time is a number of seconds.\<close>

definition web_sample_env :: "int \<Rightarrow> web_env" where
  "web_sample_env t = \<lparr>en_config = web_settings, en_world = sample_world, en_now = t * second,
     en_salt = Some (replicate 16 (CHR ''s'')), en_token = Some (replicate 32 (CHR ''t'')), en_id = ''0123456789'',
     en_url = (\<lambda>s. Some ((sample_url s)\<lparr>url_Host := drop 8 s\<rparr>)), en_fold = (\<lambda>s. s), en_pow = (\<lambda>x y. 1),
     en_ParseFloat = (\<lambda>_. None), en_json = web_decoders, en_Health = None, en_Usage = (\<lambda>_. Inr []),
     en_Egress = (\<lambda>_. Inl []), en_Logs = (\<lambda>_ _ _. Inr []), en_ApproveApp = (\<lambda>_ _. None), en_store = sample_store_world,
     en_store_text = (\<lambda>_. ''failed''), en_template_decode = sample_decode, en_template_encode = (\<lambda>_. []),
     en_template_fails = False, en_integrity = None, en_backup = (\<lambda>_. None), en_date = ''20260101''\<rparr>"

definition web_sample_request :: "string \<Rightarrow> string \<Rightarrow> web_request" where
  "web_sample_request p v = \<lparr>hr_Method = ''POST'', hr_Path = p,
     hr_Headers = [(''Origin'', ''https://box''), (''Cookie'', ''wm_session='' @ v)],
     rq_Host = ''box'', rq_RemoteAddr = ''10.0.0.9:4711'', rq_URI = p, rq_EscapedPath = p, rq_RawQuery = [],
     rq_Query = [], rq_Form = Some [], rq_Body = [], rq_Values = []\<rparr>"

lemma web_rows_integrity: "integrity (web_rows h)"
  unfolding web_rows_def by (rule run_integrity) (simp add: reachable_integrity reachable_db.start)

lemma web_db_integrity: "integrity (web_db h k)"
  unfolding web_db_def by (rule integrity_CreateSession) (rule web_rows_integrity)


lemma web_rows_users:
  "users (web_rows h) = [\<lparr>u_ID = 1, u_Username = ''admin'', u_IsAdmin = True, u_AllowedEgress = initialAdminEgress,
     u_AccentColor = [], u_CreatedAt = Time 100 0, u_password_hash = h\<rparr>,
    \<lparr>u_ID = 2, u_Username = ''guest'', u_IsAdmin = False, u_AllowedEgress = ''direct'', u_AccentColor = [],
     u_CreatedAt = Time 101 0, u_password_hash = ''hash''\<rparr>]"
  by code_simp

lemma web_rows_sessions: "sessions (web_rows h) = []"
  by code_simp

definition web_session :: "string \<Rightarrow> time \<Rightarrow> session_row" where
  "web_session k used = \<lparr>s_token_hash = k, s_user_id = 1, s_expires_at = Time 500 0, s_created_at = Time 110 0,
     s_last_used_at = used, s_revoked_at = None\<rparr>"

lemma web_db_rows: "web_db h k = (web_rows h)\<lparr>sessions := [web_session k (Time 110 0)]\<rparr>"
  by (simp add: web_db_def CreateSession_def web_rows_users web_rows_sessions web_session_def)

lemma web_session_of:
  "users d = users (web_rows h) \<Longrightarrow> SessionUser (Time 150 0) k (d\<lparr>sessions := [web_session k (Time 110 0)]\<rparr>) =
     (Inr sample_admin, d\<lparr>sessions := [web_session k (Time 150 0)]\<rparr>)"
  by (simp add: SessionUser_def web_session_def web_rows_users live_session_def sample_admin_def
      User.truncate_def update_where_def session_rows_def later_if_sec)

lemma web_session_user:
  "SessionUser (Time 150 0) k (web_db h k) = (Inr sample_admin, (web_rows h)\<lparr>sessions := [web_session k (Time 150 0)]\<rparr>)"
  by (simp add: web_db_rows web_session_of)

lemma web_sample_time: "en_time (web_sample_env 150) = Time 150 0"
  by (simp add: web_sample_env_def time_of_def)

lemma web_sample_cookie: "request_Cookie (web_sample_request p ''token'') ''wm_session'' = Some ''token''"
  unfolding request_Cookie_def web_sample_request_def http_request.simps by code_simp

lemma web_sample_origin: "sameOrigin (web_sample_env t) (web_sample_request p v)"
    "sameOrigin (web_sample_env t) (web_sample_request p v\<lparr>rq_Values := vals\<rparr>)"
    "sameOrigin (web_sample_env t) (web_sample_request p v\<lparr>rq_Body := b, rq_Values := vals\<rparr>)"
  by (simp_all add: sameOrigin_def Let_def web_sample_env_def web_sample_request_def header_Get_def header_Values_def EqualFold_def)


lemma web_sample_mux:
  assumes "hr_Method r \<noteq> ''CONNECT''" and "rq_EscapedPath r = p" and "cleanPath p = p"
    and "i < length routes" and "match_pattern (fst (routes ! i)) (hr_Method r) p = Some vals"
  shows "mux E r s = run_access (snd (routes ! i)) E (r\<lparr>rq_Values := vals\<rparr>) s"
  using route_found [OF assms(4), of "hr_Method r" p] assms by (simp add: mux_def request_path_def Let_def)

abbreviation web_token :: string where
  "web_token \<equiv> TokenHash ''token''"

definition web_seen :: "string \<Rightarrow> web" where
  "web_seen h = set_db ((web_rows h)\<lparr>sessions := [web_session web_token (Time 150 0)]\<rparr>) (web_sample h web_token)"

lemma web_sample_user:
  "requireUser g (web_sample_env 150) (web_sample_request p ''token''\<lparr>rq_Body := b, rq_Values := vals\<rparr>) (web_sample h web_token) =
    g sample_admin (web_sample_env 150) (web_sample_request p ''token''\<lparr>rq_Body := b, rq_Values := vals\<rparr>) (web_seen h)"
proof -
  let ?r = "web_sample_request p ''token''\<lparr>rq_Body := b, rq_Values := vals\<rparr>"
  have "request_Cookie ?r ''wm_session'' = Some ''token''"
    using web_sample_cookie [of p] by (simp add: request_Cookie_def)
  moreover have "sameOrigin (web_sample_env 150) ?r"
    by (rule web_sample_origin)
  moreover have "wb_db (web_sample h web_token) = web_db h web_token" by (simp add: web_sample_def)
  ultimately show ?thesis
    by (simp add: requireUser_def web_sample_time web_session_user web_seen_def)
qed

subsection \<open>Witnesses\<close>

lemma web_sample_deletes:
  "map r_state (workstations (sv_db (snd (beginAction (Time 150 0) sample_admin ''ws-abc123'' ''delete''
      (sample_server\<lparr>sv_db := (web_rows ''hash'')\<lparr>sessions := ss\<rparr>\<rparr>))))) = [''deleting'']"
  by code_simp

lemma web_sample_stored: "map (\<lambda>w. (r_state w, r_owner_user_id w)) (workstations (web_rows ''hash'')) = [(''creating'', 1)]"
  by code_simp


lemma web_states: "''creating'' \<noteq> ''deleting''"
  by simp

abbreviation web_delete :: web_request where
  "web_delete \<equiv> web_sample_request ''/workstations/ws-abc123/actions/delete'' ''token''"

lemma web_delete_values:
  "PathValue (r\<lparr>rq_Values := [(''id'', x), (''action'', y)]\<rparr>) ''id'' = x"
  "PathValue (r\<lparr>rq_Values := [(''id'', x), (''action'', y)]\<rparr>) ''action'' = y"
  by (simp_all add: PathValue_def)

lemma workstationAction_state:
  "sameOrigin E r \<Longrightarrow> snd (workstationAction user E r s) =
     snd (act_and_start E user (PathValue r ''id'') (PathValue r ''action'') s)"
  by (simp add: workstationAction_def snd_case_check)

lemma web_delete_served:
  "mux (web_sample_env 150) web_delete (web_sample h web_token) =
    workstationAction sample_admin (web_sample_env 150)
      (web_delete\<lparr>rq_Values := [(''id'', ''ws-abc123''), (''action'', ''delete'')]\<rparr>) (web_seen h)"
proof -
  have n: "routes ! 29 = (''POST /workstations/{id}/actions/{action}'', ForUser workstationAction)" "29 < length routes"
    by (simp_all add: routes_def page_routes_def api_routes_def)
  have "cleanPath ''/workstations/ws-abc123/actions/delete'' = ''/workstations/ws-abc123/actions/delete''"
    "match_pattern ''POST /workstations/{id}/actions/{action}'' ''POST'' ''/workstations/ws-abc123/actions/delete'' =
      Some [(''id'', ''ws-abc123''), (''action'', ''delete'')]" by code_simp+
  with web_sample_mux [where r = web_delete and i = 29] n
    web_sample_user [where g = workstationAction and p = "''/workstations/ws-abc123/actions/delete''" and b = "[]"]
  show ?thesis by (simp add: run_access_def web_sample_request_def)
qed



theorem server_keeps_store_witness:
  "integrity (wb_db (fold happen [Serve (web_sample_env 150) web_delete] (web_sample ''hash'' web_token)))"
proof -
  have "integrity (wb_db (web_sample ''hash'' web_token))" by (simp add: web_sample_def web_db_integrity)
  moreover have "same_decoder unmarshal_plain [Serve (web_sample_env 150) web_delete]"
    by (simp add: same_decoder_def event_env_def web_sample_env_def sample_world_def)
  ultimately show ?thesis using server_keeps_store by blast
qed

abbreviation web_backup :: web_request where
  "web_backup \<equiv> web_sample_request ''/api/v1/admin/backup'' ''token''\<lparr>rq_Body := ''/data/backups/x.db''\<rparr>"

lemma web_backup_served:
  "mux (web_sample_env 150) web_backup (web_sample h web_token) =
    apiBackup sample_admin (web_sample_env 150) web_backup (web_seen h)"
proof -
  have n: "routes ! 67 = (''POST /api/v1/admin/backup'', ForAdmin apiBackup)" "67 < length routes"
    by (simp_all add: routes_def page_routes_def api_routes_def)
  have same: "web_backup\<lparr>rq_Values := []\<rparr> = web_backup"
    by (simp add: web_sample_request_def)
  have "cleanPath ''/api/v1/admin/backup'' = ''/api/v1/admin/backup''"
    "match_pattern ''POST /api/v1/admin/backup'' ''POST'' ''/api/v1/admin/backup'' = Some []" by code_simp+
  with web_sample_mux [where r = web_backup and i = 67] n
  have "mux (web_sample_env 150) web_backup (web_sample h web_token) =
      requireAdmin apiBackup (web_sample_env 150) (web_backup\<lparr>rq_Values := []\<rparr>) (web_sample h web_token)"
    by (simp add: run_access_def web_sample_request_def)
  also have "\<dots> = apiBackup sample_admin (web_sample_env 150) (web_backup\<lparr>rq_Values := []\<rparr>) (web_seen h)"
    unfolding requireAdmin_def web_sample_user by (simp add: sample_admin_def)
  finally show ?thesis unfolding same by simp
qed

theorem administration_needs_admin_witness:
  "\<exists>user d. as_user (web_sample_env 150) web_backup (web_sample ''hash'' web_token) user d \<and> u_IsAdmin user"
proof -
  let ?E = "web_sample_env 150" and ?s = "web_sample ''hash'' web_token"
  have clean: "Clean ''/data/backups/x.db'' = ''/data/backups/x.db''"
    "backup_path_refused ''/data/backups/x.db'' = False" by code_simp+
  have "wb_backups (snd (serve ?E web_backup ?s)) = wb_backups (web_seen ''hash'') @ [''/data/backups/x.db'']"
    unfolding serve_body(4) web_backup_served
    by (simp add: apiBackup_def with_json_def decodeAPIJSON_def ensureJSONEnd_def maxBody_def web_sample_request_def web_sample_env_def web_decoders_def
        clean Let_def del: append_eq_append_conv)
  then have "administered (snd (serve ?E web_backup ?s)) \<noteq> administered ?s"
    by (simp add: administered_def web_seen_def web_sample_def del: serve_body)
  moreover have "HasUsers (wb_db ?s)" by (simp add: HasUsers_def web_sample_def web_db_rows web_rows_users)
  ultimately show ?thesis using administration_needs_admin by blast
qed

lemma web_evil: "ToLower (\<lambda>s. s) ''evil'' \<noteq> ToLower (\<lambda>s. s) ''box''"
  by code_simp

theorem cross_site_inert_witness:
  "lasting (snd (serve (web_sample_env 150) (web_delete\<lparr>hr_Headers := [(''Origin'', ''https://evil''), (''Cookie'', ''wm_session=token'')]\<rparr>)
     (web_sample ''hash'' web_token))) = lasting (web_sample ''hash'' web_token)"
proof -
  have "\<not> sameOrigin (web_sample_env 150) (web_delete\<lparr>hr_Headers := [(''Origin'', ''https://evil''), (''Cookie'', ''wm_session=token'')]\<rparr>)"
    by (simp add: sameOrigin_def Let_def web_sample_env_def web_sample_request_def header_Get_def header_Values_def EqualFold_def
        web_evil)
  then show ?thesis using cross_site_inert by blast
qed

theorem routes_unambiguous_witness:
  "find_route routes ''POST'' ''/login'' = Some (Public loginPost, [])"
proof -
  have n: "routes ! 7 = (''POST /login'', Public loginPost)" "7 < length routes"
    by (simp_all add: routes_def page_routes_def api_routes_def)
  have m: "match_pattern ''POST /login'' ''POST'' ''/login'' = Some []" by code_simp
  from routes_unambiguous [of 7 7 "''POST''" "''/login''"] n m show ?thesis by simp
qed

definition web_login :: "string \<Rightarrow> web_request" where
  "web_login password = web_sample_request ''/login'' []\<lparr>rq_Form := Some [(''username'', [''admin'']), (''password'', [password])]\<rparr>"

lemma bad_hash: "length (Split encoded (CHR ''$'')) \<noteq> 4 \<Longrightarrow> \<not> VerifyPassword encoded p"
  by (simp add: VerifyPassword_def)

lemma web_sample_wrong:
  assumes "wb_db s = web_db ''hash'' k"
  shows "check_password ''admin'' p (wb_db s) = None"
proof -
  have "length (Split ''hash'' (CHR ''$'')) \<noteq> 4" by code_simp
  moreover have "Authenticate ''admin'' (wb_db s) = Inr (sample_admin, ''hash'')"
    unfolding assms by (simp add: web_db_rows Authenticate_def web_rows_users sample_admin_def User.truncate_def)
  ultimately show ?thesis by (simp add: check_password_def bad_hash)
qed

lemma web_login_name: "TrimSpace (FormValue (web_login p) ''username'') = ''admin''" "FormValue (web_login p) ''password'' = p"
proof -
  have "TrimSpace ''admin'' = ''admin''" by code_simp
  then show "TrimSpace (FormValue (web_login p) ''username'') = ''admin''" "FormValue (web_login p) ''password'' = p"
    by (simp_all add: web_login_def web_sample_request_def FormValue_def first_value_def)
qed

lemma web_login_request: "login_request (web_login p)"
proof -
  have "match_pattern ''POST /login'' ''POST'' ''/login'' = Some []" "cleanPath ''/login'' = ''/login''" by code_simp+
  then show ?thesis by (simp add: login_request_def web_login_def web_sample_request_def request_path_def)
qed



subsection \<open>A login\<close>

abbreviation web_hash :: string where
  "web_hash \<equiv> projr (HashPassword (Some (replicate 16 (CHR ''s''))) ''correct horse'')"

lemma web_hash_verifies: "VerifyPassword web_hash ''correct horse''"
proof -
  let ?r = "HashPassword (Some (replicate 16 (CHR ''s''))) ''correct horse''"
  have "?r = Inr (projr ?r)" by (simp add: HashPassword_def Let_def)
  from hashed_password [OF this, of "[]"] show ?thesis by (simp add: saltBytes_def)
qed

definition web_empty :: web where
  "web_empty = set_db (web_rows web_hash) (web_sample [] [])"

abbreviation web_raw :: string where
  "web_raw \<equiv> b64_encode True False (replicate 32 (CHR ''t''))"

definition web_cookie :: cookie where
  "web_cookie = session_cookie (web_sample_env 150) web_raw (Time 3750 0) (whole_seconds (3600 * second))"

lemma web_check_password: "check_password ''admin'' ''correct horse'' (web_rows web_hash) = Some sample_admin"
  by (simp add: check_password_def Authenticate_def web_rows_users sample_admin_def User.truncate_def web_hash_verifies)

lemma web_start_session:
  assumes "wb_db s = web_rows h"
  shows "fst (startSession (web_sample_env 150) 1 s) = Inr web_cookie"
  by (simp add: startSession_def RandomToken_def CreateSession_def assms web_rows_users web_rows_sessions web_sample_env_def
      Let_def time_of_def web_settings_def web_cookie_def session_cookie_def)


lemma web_admin_id: "u_ID sample_admin = 1"
  by (simp add: sample_admin_def)

lemma web_keys: "\<not> same_key ''Origin'' ''Cookie''" "same_key ''Cookie'' ''Cookie''"
  by code_simp+

lemma web_cookie_sent: "SetCookie web_cookie = [web_cookie]"
proof -
  have "is_token ''wm_session''" "sanitize_path ''/'' = ''/''" by code_simp+
  then show ?thesis by (simp add: SetCookie_def web_cookie_def session_cookie_def token_sanitized)
qed

theorem login_roundtrip_witness:
  "\<exists>user d. as_user (web_sample_env 200) (web_sample_request ''/'' web_raw)
     (snd (serve (web_sample_env 150) (web_login ''correct horse'') web_empty)) user d"
proof -
  let ?E = "web_sample_env 150" and ?r = "web_login ''correct horse''"
  obtain vals where m: "mux ?E ?r web_empty = loginPost ?E (?r\<lparr>rq_Values := vals\<rparr>) web_empty"
    using login_served [OF web_login_request] by metis
  have open_door: "loginBlocked now ip web_empty = 0" "wb_db web_empty = web_rows web_hash"
    "wb_db (recordLogin now ip True web_empty) = web_rows web_hash" for now ip
    by (simp_all add: loginBlocked_def recordLogin_def web_empty_def web_sample_def set_db_def)
  have form: "rq_Form ?r \<noteq> None" "sameOrigin ?E ?r"
    by (simp_all add: web_login_def web_sample_request_def sameOrigin_def Let_def web_sample_env_def header_Get_def
        header_Values_def EqualFold_def)
  obtain s' where start: "startSession ?E 1 (recordLogin (en_now ?E) (remoteIP ?r) True web_empty) = (Inr web_cookie, s')"
    using web_start_session [OF open_door(3)] by (metis prod.collapse)
  have sent: "rp_Cookies (fst (loginPost ?E (?r\<lparr>rq_Values := vals\<rparr>) web_empty)) = [web_cookie]"
    using form(1) by (auto simp: loginPost_def Let_def form(2) open_door web_login_name web_check_password 
        web_admin_id start web_cookie_sent)
  have "web_cookie \<in> set (rp_Cookies (fst (serve ?E ?r web_empty)))"
    unfolding serve_body(3) m sent by simp
  moreover have "integrity (wb_db web_empty)" by (simp only: open_door web_rows_integrity)
  moreover have "header_Values (hr_Headers (web_sample_request ''/'' web_raw)) ''Cookie'' = [ck_Name web_cookie @ ''='' @ ck_Value web_cookie]"
    by (simp add: web_sample_request_def header_Values_def web_cookie_def session_cookie_def web_keys)
  moreover have "en_token ?E \<noteq> Some []" "en_now (web_sample_env 200) div second < (en_now ?E + cc_SessionLifetime (en_config ?E)) div second"
    by (simp_all add: web_sample_env_def web_settings_def)
  ultimately show ?thesis using login_roundtrip [OF _ web_login_request] by blast
qed


subsection \<open>A visit to an app\<close>

definition ready_rows :: db where
  "ready_rows = run unmarshal_plain
     [(Time 100 0, OpCreateInitialAdmin ''admin'' ''hash''),
      (Time 101 0, OpCreateUser ''guest'' ''hash'' False ''direct''),
      (Time 120 0, OpCreateWorkstation sample_workstation
         [\<lparr>wa_AppID = ''browser'', wa_AppVersion = ''1'', wa_State = [], wa_ContainerName = [], wa_InternalPort = 3000\<rparr>]),
      (Time 121 0, OpSetWorkstationState ''ws-abc123'' ''creating'' ''ready'' [])] empty_db"

definition web_ready_sample :: web where
  "web_ready_sample = set_db (ready_rows\<lparr>sessions := [web_session web_token (Time 110 0)]\<rparr>) (web_sample [] [])"

definition web_visit :: web_request where
  "web_visit = web_sample_request ''/workstations/ws-abc123/apps/browser/'' ''token''\<lparr>hr_Method := ''GET''\<rparr>"

lemma ready_rows_users: "users ready_rows = users (web_rows ''hash'')"
  by code_simp

lemma ready_lookup:
  "case Workstation_lookup ''ws-abc123'' sample_admin (ready_rows\<lparr>sessions := ss\<rparr>) of Inl _ \<Rightarrow> False
   | Inr ws \<Rightarrow> ws_State ws = State_str StateReady \<and> list_ex (\<lambda>a. wa_AppID a = ''browser'') (ws_Apps ws)"
  by code_simp

lemma ready_app: "Get (sv_apps sample_server) ''browser'' = Some sample_manifest"
  "ro_StripPrefix (m_Routing sample_manifest)" "rt_Type (m_Runtime sample_manifest) = ''container-service''"
  by code_simp+

lemma web_visit_served:
  "mux E web_visit s = requireUser proxyExplicit E (web_visit\<lparr>rq_Values := [(''id'', ''ws-abc123''), (''app'', ''browser'')]\<rparr>) s"
proof -
  have n: "routes ! 32 = (''/workstations/{id}/apps/{app}/'', ForUser proxyExplicit)" "32 < length routes"
    by (simp_all add: routes_def page_routes_def api_routes_def)
  have "cleanPath ''/workstations/ws-abc123/apps/browser/'' = ''/workstations/ws-abc123/apps/browser/''"
    "match_pattern ''/workstations/{id}/apps/{app}/'' ''GET'' ''/workstations/ws-abc123/apps/browser/'' =
      Some [(''id'', ''ws-abc123''), (''app'', ''browser'')]" by code_simp+
  with web_sample_mux [where r = web_visit and i = 32] n
  show ?thesis by (simp add: run_access_def web_visit_def web_sample_request_def)
qed

lemma web_visit_user:
  "requireUser g (web_sample_env 150) (web_visit\<lparr>rq_Values := vals\<rparr>) web_ready_sample =
    g sample_admin (web_sample_env 150) (web_visit\<lparr>rq_Values := vals\<rparr>)
      (set_db (ready_rows\<lparr>sessions := [web_session web_token (Time 150 0)]\<rparr>) (web_sample [] []))"
proof -
  have "request_Cookie web_visit ''wm_session'' = Some ''token''"
    using web_sample_cookie by (simp add: request_Cookie_def web_visit_def)
  moreover have "safe_method web_visit" by (simp add: safe_method_def web_visit_def)
  ultimately show ?thesis
    by (simp add: requireUser_def web_sample_time web_ready_sample_def web_session_of [OF ready_rows_users])
qed

lemma web_visit_forwarded:
  "\<exists>host q prefix. rp_Body (fst (serve (web_sample_env 150) web_visit web_ready_sample)) = Forwarded host q prefix"
proof -
  let ?d = "ready_rows\<lparr>sessions := [web_session web_token (Time 150 0)]\<rparr>"
  obtain ws where "Workstation_lookup ''ws-abc123'' sample_admin ?d = Inr ws" "ws_State ws = State_str StateReady"
    "list_ex (\<lambda>a. wa_AppID a = ''browser'') (ws_Apps ws)"
    using ready_lookup [of "[web_session web_token (Time 150 0)]"]
    by (cases "Workstation_lookup ''ws-abc123'' sample_admin ?d") simp_all
  moreover have "sv_apps (wb_server (web_sample [] [])) = sv_apps sample_server" by (simp add: web_sample_def)
  ultimately show ?thesis
    unfolding serve_body(1) web_visit_served web_visit_user
    by (simp add: proxyExplicit_def PathValue_def proxyApp_def ready_app Let_def)
qed

theorem forwarded_authorized_witness:
  "(\<exists>w app user d. app_open web_ready_sample w app \<and> as_user (web_sample_env 150) web_visit web_ready_sample user d \<and>
     may_reach user (r_owner_user_id w)) \<or>
   (\<exists>share. as_holder (web_sample_env 150) web_visit web_ready_sample share)"
proof -
  from web_visit_forwarded obtain host q prefix where
    "rp_Body (fst (serve (web_sample_env 150) web_visit web_ready_sample)) = Forwarded host q prefix" by blast
  from forwarded_authorized [OF this] show ?thesis by blast
qed


definition web_gateway :: gateway where
  "web_gateway = \<lparr>gt_token = ''secret'', gt_mode = ''direct'', gt_apps = [(''browser'', 3000)]\<rparr>"

lemma ready_apps:
  "list_all (\<lambda>w. map wa_AppID (workstation_app_list (r_id w) (ready_rows\<lparr>sessions := ss\<rparr>)) = [''browser''])
     (workstations (ready_rows\<lparr>sessions := ss\<rparr>))"
  by code_simp

lemma ready_open: "app_open web_ready_sample w app \<Longrightarrow> app = ''browser''"
proof -
  assume o: "app_open web_ready_sample w app"
  let ?d = "ready_rows\<lparr>sessions := [web_session web_token (Time 110 0)]\<rparr>"
  have "wb_db web_ready_sample = ?d" by (simp add: web_ready_sample_def)
  then have w: "w \<in> set (workstations ?d)" "app \<in> wa_AppID ` set (workstation_app_list (r_id w) ?d)"
    using o unfolding app_open_def by metis+
  have "map wa_AppID (workstation_app_list (r_id w) ?d) = [''browser'']"
    using ready_apps w(1) unfolding list_all_iff by (rule bspec)
  then have "wa_AppID ` set (workstation_app_list (r_id w) ?d) = {''browser''}"
    by (metis list.set_map list.set(1,2))
  with w(2) show ?thesis by blast
qed


end
