(* ===== verification/Files_App.thy ===== *)
theory Files_App
  imports Web_Server
begin

text \<open>
  The file browser that runs inside a workstation, \<^verbatim>\<open>cmd/files/main.go\<close> and
  \<^verbatim>\<open>cmd/files/browse.go\<close>. The workspace is reached through Go's \<^verbatim>\<open>os.Root\<close>
  only: a handler is a function from the calls made to it so far to the reply and the calls made then,
  and every answer of \<^verbatim>\<open>os.Root\<close> is an argument, a function of the calls before. So are
  the parts of a multipart body and \<^verbatim>\<open>mime.TypeByExtension\<close>.
\<close>

subsection \<open>Configuration\<close>

record files_config =
  fc_listen :: string
  fc_root :: string
  fc_basePath :: string
  fc_maxUploadBytes :: int

datatype files_failure = BadUploadLimit string | BadBasePath string | NoWorkspace | WorkspaceNotDirectory

text \<open>
  \<open>look\<close> is \<^verbatim>\<open>os.LookupEnv\<close>, and \<open>stat\<close> tells of a path whether it is a directory.
\<close>

definition loadConfig ::
  "environ \<Rightarrow> (string \<Rightarrow> string option) \<Rightarrow> (string \<Rightarrow> bool option) \<Rightarrow> (files_failure, files_config) result" where
  "loadConfig getenv look stat =
     (let base = (case look ''FILES_BASE_PATH'' of Some v \<Rightarrow> TrimSpace v | None \<Rightarrow> ''/apps/files'');
          base = TrimSuffix base ''/'';
          raw = env getenv ''FILES_MAX_UPLOAD_BYTES'' ''5368709120'';
          rt = env getenv ''FILES_ROOT'' ''/workspace'' in
      case ParseInt64 raw of
        None \<Rightarrow> Inl (BadUploadLimit raw)
      | Some limit \<Rightarrow>
          if limit \<le> 0 then Inl (BadUploadLimit raw)
          else if base \<noteq> [] \<and> \<not> HasPrefix base ''/'' then Inl (BadBasePath base)
          else (case stat rt of
              None \<Rightarrow> Inl NoWorkspace
            | Some is_directory \<Rightarrow>
                if \<not> is_directory then Inl WorkspaceNotDirectory
                else Inr \<lparr>fc_listen = env getenv ''FILES_LISTEN'' ''0.0.0.0:7080'', fc_root = rt,
                  fc_basePath = base, fc_maxUploadBytes = limit\<rparr>))"

subsection \<open>The workspace\<close>

text \<open>The classes of errors \<^verbatim>\<open>statusFor\<close> tells apart.\<close>

datatype fs_error = ErrNotExist | ErrPermission | ErrExist | OtherFault

record directory_item =
  di_Name :: string
  di_IsDir :: bool
  di_Info :: "(int \<times> time) option"

text \<open>An opened file: whether it is a directory and when it was modified, its items, its content.\<close>

record opened =
  of_Stat :: "(fs_error, bool \<times> time) result"
  of_ReadDir :: "(fs_error, directory_item list) result"
  of_Content :: string

datatype root_call =
    R_Stat string
  | R_Open string
  | R_Create string
  | R_Write string string
  | R_Mkdir string
  | R_Remove string

record root_world =
  rw_Stat :: "root_call list \<Rightarrow> fs_error option"
  rw_Open :: "root_call list \<Rightarrow> string \<Rightarrow> (fs_error, opened) result"
  rw_Create :: "root_call list \<Rightarrow> string \<Rightarrow> fs_error option"
  rw_Write :: "root_call list \<Rightarrow> string \<Rightarrow> string \<Rightarrow> fs_error option"
  rw_Mkdir :: "root_call list \<Rightarrow> string \<Rightarrow> fs_error option"
  rw_Remove :: "root_call list \<Rightarrow> string \<Rightarrow> fs_error option"

text \<open>
  A part of an upload: its field, its file name, what could be read of it, and whether reading broke
  off. A body that is no multipart body is \<open>None\<close>; the flag says that the sequence of parts broke off.
\<close>

record upload_part =
  up_FormName :: string
  up_FileName :: string
  up_Data :: string
  up_Broken :: bool

record files_env =
  fe_config :: files_config
  fe_root :: root_world
  fe_uni :: "string \<Rightarrow> string"
  fe_mime :: "string \<Rightarrow> string"
  fe_multipart :: "web_request \<Rightarrow> int \<Rightarrow> (upload_part list \<times> bool) option"

subsection \<open>Replies\<close>

record file_entry =
  fi_Name :: string
  fi_Size :: int
  fi_Modified :: time
  fi_Dir :: bool
  fi_Kind :: string

record listing =
  li_Path :: string
  li_Parent :: string
  li_Entries :: "file_entry list"

datatype files_body =
    F_Message string
  | F_Error fs_error
  | F_Healthy
  | F_Unhealthy fs_error
  | F_List listing
  | F_Content string time string
  | F_Uploaded "string list"
  | F_Created string
  | F_Removed string
  | F_Asset string
  | F_Text string
  | F_Moved string

record files_reply =
  fy_Status :: int
  fy_Headers :: headers
  fy_Body :: files_body

type_synonym files_handler = "files_env \<Rightarrow> web_request \<Rightarrow> root_call list \<Rightarrow> files_reply \<times> root_call list"

definition files_json :: "int \<Rightarrow> files_body \<Rightarrow> files_reply" where
  "files_json code v = \<lparr>fy_Status = code, fy_Headers = [(''Content-Type'', ''application/json'')], fy_Body = v\<rparr>"

definition statusFor :: "fs_error \<Rightarrow> int" where
  "statusFor e = (case e of ErrNotExist \<Rightarrow> 404 | ErrPermission \<Rightarrow> 403 | ErrExist \<Rightarrow> 409 | OtherFault \<Rightarrow> 400)"

definition bad_request :: "string \<Rightarrow> files_reply" where
  "bad_request message = files_json 400 (F_Message message)"

subsection \<open>Paths, kinds and names\<close>

definition slashes :: "string \<Rightarrow> string" where
  "slashes = map (\<lambda>c. if c = CHR 0x5C then CHR ''/'' else c)"

definition cleanPath_file :: "string \<Rightarrow> (string, string) result" where
  "cleanPath_file raw =
     (if raw = [] \<or> raw = ''/'' then Inr ''.''
      else if CHR 0x00 \<in> set raw then Inl ''path contains a null byte''
      else
        (let cleaned = TrimPrefix (Clean (''/'' @ slashes raw)) ''/'' in
         if cleaned = [] then Inr ''.''
         else if cleaned = ''..'' \<or> HasPrefix cleaned ''../'' then Inl ''path escapes the workspace''
         else Inr cleaned))"

text \<open>\<^verbatim>\<open>path.Ext\<close>\<close>

definition Ext :: "string \<Rightarrow> string" where
  "Ext p = (case LastIndex (last (Split p (CHR ''/''))) ''.'' of
     None \<Rightarrow> [] | Some i \<Rightarrow> drop i (last (Split p (CHR ''/''))))"

definition kindOf :: "(string \<Rightarrow> string) \<Rightarrow> string \<Rightarrow> string" where
  "kindOf uni n =
     (let ext = ToLower uni (Ext n) in
      if ext \<in> {''.png'', ''.jpg'', ''.jpeg'', ''.gif'', ''.webp'', ''.bmp'', ''.avif''} then ''image''
      else if ext \<in> {''.mp4'', ''.webm'', ''.mkv'', ''.mov'', ''.m4v''} then ''video''
      else if ext \<in> {''.mp3'', ''.ogg'', ''.wav'', ''.flac'', ''.m4a''} then ''audio''
      else if ext \<in> {''.txt'', ''.md'', ''.log'', ''.json'', ''.yaml'', ''.yml'', ''.csv'', ''.ini'', ''.conf''}
      then ''text'' else ''other'')"

definition previewable :: "string \<Rightarrow> bool" where
  "previewable kind = (kind \<in> {''image'', ''video'', ''audio'', ''text''})"

definition contentType :: "files_env \<Rightarrow> string \<Rightarrow> string \<Rightarrow> string" where
  "contentType F n kind =
     (if kind = ''text'' then ''text/plain; charset=utf-8''
      else (let guessed = fe_mime F (ToLower (fe_uni F) (Ext n)) in
        if guessed \<noteq> [] then guessed else ''application/octet-stream''))"

definition displayPath :: "string \<Rightarrow> string" where
  "displayPath target = (if target = ''.'' then ''/'' else ''/'' @ target)"

definition parentOf :: "string \<Rightarrow> string" where
  "parentOf target =
     (if target = ''.'' then []
      else (let parent = Dir_of target in if parent = ''.'' then ''/'' else ''/'' @ parent))"

definition urlEncode :: "string \<Rightarrow> string" where
  "urlEncode n = concat (map (\<lambda>b.
     if is_lower b \<or> is_upper b \<or> is_digit b \<or> b \<in> {CHR ''-'', CHR ''.'', CHR ''_'', CHR ''~''} then [b]
     else [CHR ''%'', upper_hex (of_char b div 16), upper_hex (of_char b mod 16)]) n)"

subsection \<open>Handlers\<close>

definition path_param :: "web_request \<Rightarrow> (string, string) result" where
  "path_param r = cleanPath_file (first_value (rq_Query r) ''path'')"

definition files_health :: files_handler where
  "files_health F r cs =
     (case rw_Stat (fe_root F) cs of
        Some e \<Rightarrow> (files_json 503 (F_Unhealthy e), cs @ [R_Stat ''.''])
      | None \<Rightarrow> (files_json 200 F_Healthy, cs @ [R_Stat ''.'']))"

definition entry_of :: "(string \<Rightarrow> string) \<Rightarrow> directory_item \<Rightarrow> file_entry" where
  "entry_of uni item =
     (let (size_bytes, modified) = (case di_Info item of Some d \<Rightarrow> d | None \<Rightarrow> (0, zero_time)) in
      \<lparr>fi_Name = di_Name item, fi_Size = size_bytes, fi_Modified = modified, fi_Dir = di_IsDir item,
       fi_Kind = (if di_IsDir item then ''dir'' else kindOf uni (di_Name item))\<rparr>)"

text \<open>
  Directories first, then by name in lower case; Go leaves the order of names that only differ in case
  open, here they stay as the directory has them.
\<close>

definition listed :: "(string \<Rightarrow> string) \<Rightarrow> file_entry list \<Rightarrow> file_entry list" where
  "listed uni = sort_key (\<lambda>entry. (\<not> fi_Dir entry, ToLower uni (fi_Name entry)))"

definition files_list :: files_handler where
  "files_list F r cs =
     (case path_param r of
        Inl message \<Rightarrow> (bad_request message, cs)
      | Inr target \<Rightarrow>
          (case rw_Open (fe_root F) cs target of
             Inl e \<Rightarrow> files_json (statusFor e) (F_Error e)
           | Inr file \<Rightarrow>
               (case of_Stat file of
                  Inl e \<Rightarrow> files_json 500 (F_Error e)
                | Inr (is_directory, _) \<Rightarrow>
                    if \<not> is_directory then bad_request ''not a directory''
                    else (case of_ReadDir file of
                        Inl e \<Rightarrow> files_json 500 (F_Error e)
                      | Inr items \<Rightarrow>
                          files_json 200 (F_List \<lparr>li_Path = displayPath target, li_Parent = parentOf target,
                            li_Entries = listed (fe_uni F) (map (entry_of (fe_uni F)) items)\<rparr>))),
           cs @ [R_Open target]))"

definition content_headers :: "files_env \<Rightarrow> web_request \<Rightarrow> string \<Rightarrow> headers" where
  "content_headers F r n =
     (let kind = kindOf (fe_uni F) n;
          inline = (first_value (rq_Query r) ''disposition'' \<noteq> ''attachment'' \<and> previewable kind)
      in if inline
         then [(''Content-Type'', contentType F n kind),
               (''Content-Disposition'', ''inline; filename*=UTF-8'' @ [CHR 0x27, CHR 0x27] @ urlEncode n)]
         else [(''Content-Type'', ''application/octet-stream''),
               (''Content-Disposition'', ''attachment; filename*=UTF-8'' @ [CHR 0x27, CHR 0x27] @ urlEncode n)])"

definition files_download :: files_handler where
  "files_download F r cs =
     (case path_param r of
        Inl message \<Rightarrow> (bad_request message, cs)
      | Inr target \<Rightarrow>
          if target = ''.'' then (bad_request ''path is required'', cs)
          else (case rw_Open (fe_root F) cs target of
              Inl e \<Rightarrow> files_json (statusFor e) (F_Error e)
            | Inr file \<Rightarrow>
                (case of_Stat file of
                   Inl e \<Rightarrow> files_json 500 (F_Error e)
                 | Inr (is_directory, modified) \<Rightarrow>
                     if is_directory then bad_request ''path is a directory''
                     else \<lparr>fy_Status = 200, fy_Headers = content_headers F r (Base target),
                       fy_Body = F_Content (Base target) modified (of_Content file)\<rparr>),
            cs @ [R_Open target]))"

definition writeFile :: "root_world \<Rightarrow> string \<Rightarrow> upload_part \<Rightarrow> root_call list \<Rightarrow> fs_error option \<times> root_call list" where
  "writeFile R destination part cs =
     (case rw_Create R cs destination of
        Some e \<Rightarrow> (Some e, cs @ [R_Create destination])
      | None \<Rightarrow>
          (let cs = cs @ [R_Create destination] in
           (case rw_Write R cs destination (up_Data part) of
              Some e \<Rightarrow> Some e
            | None \<Rightarrow> if up_Broken part then Some OtherFault else None,
            cs @ [R_Write destination (up_Data part)])))"

fun upload_parts ::
  "root_world \<Rightarrow> string \<Rightarrow> upload_part list \<Rightarrow> bool \<Rightarrow> string list \<Rightarrow> root_call list \<Rightarrow> files_reply \<times> root_call list" where
  "upload_parts R target [] broken written cs =
     (if broken then bad_request ''reading the parts failed''
      else if written = [] then bad_request ''no files were uploaded''
      else files_json 201 (F_Uploaded written), cs)"
| "upload_parts R target (part # parts) broken written cs =
     (if up_FormName part \<noteq> ''file'' \<or> up_FileName part = [] then upload_parts R target parts broken written cs
      else
        (let n = Base (up_FileName part) in
         if n = ''.'' \<or> n = ''/'' \<or> n = ''..'' then (bad_request ''invalid upload file name'', cs)
         else (case writeFile R (if target \<noteq> ''.'' then target @ ''/'' @ n else n) part cs of
             (Some e, cs) \<Rightarrow> (files_json (statusFor e) (F_Error e), cs)
           | (None, cs) \<Rightarrow> upload_parts R target parts broken (written @ [n]) cs)))"

definition files_upload :: files_handler where
  "files_upload F r cs =
     (case path_param r of
        Inl message \<Rightarrow> (bad_request message, cs)
      | Inr target \<Rightarrow>
          (case fe_multipart F r (fc_maxUploadBytes (fe_config F)) of
             None \<Rightarrow> (bad_request ''request is not multipart'', cs)
           | Some (parts, broken) \<Rightarrow> upload_parts (fe_root F) target parts broken [] cs))"

definition files_mkdir :: files_handler where
  "files_mkdir F r cs =
     (case path_param r of
        Inl _ \<Rightarrow> (bad_request ''a folder path is required'', cs)
      | Inr target \<Rightarrow>
          if target = ''.'' then (bad_request ''a folder path is required'', cs)
          else
            (case rw_Mkdir (fe_root F) cs target of
               Some e \<Rightarrow> files_json (statusFor e) (F_Error e)
             | None \<Rightarrow> files_json 201 (F_Created (displayPath target)),
             cs @ [R_Mkdir target]))"

definition files_remove :: files_handler where
  "files_remove F r cs =
     (case path_param r of
        Inl _ \<Rightarrow> (bad_request ''a path is required'', cs)
      | Inr target \<Rightarrow>
          if target = ''.'' then (bad_request ''a path is required'', cs)
          else
            (case rw_Remove (fe_root F) cs target of
               Some e \<Rightarrow> files_json (statusFor e) (F_Error e)
             | None \<Rightarrow> files_json 200 (F_Removed (displayPath target)),
             cs @ [R_Remove target]))"

text \<open>The embedded user interface.\<close>

definition files_assets :: files_handler where
  "files_assets F r cs = (\<lparr>fy_Status = 200, fy_Headers = [], fy_Body = F_Asset (hr_Path r)\<rparr>, cs)"

subsection \<open>Routing\<close>

text \<open>The pattern for everything comes last: a multiplexer prefers the more specific pattern.\<close>

definition files_routes :: "(string \<times> files_handler) list" where
  "files_routes =
     [(''GET /healthz'', files_health),
      (''GET /api/list'', files_list),
      (''GET /api/file'', files_download),
      (''POST /api/upload'', files_upload),
      (''POST /api/mkdir'', files_mkdir),
      (''POST /api/delete'', files_remove),
      (''GET /'', files_assets)]"

definition files_text :: "int \<Rightarrow> files_body \<Rightarrow> files_reply" where
  "files_text code v = \<lparr>fy_Status = code, fy_Headers = [], fy_Body = v\<rparr>"

definition files_mux :: files_handler where
  "files_mux F r cs =
     (let pth = request_path r in
      if pth \<noteq> rq_EscapedPath r
      then (files_text 301 (F_Moved (pth @ (if rq_RawQuery r = [] then [] else ''?'' @ rq_RawQuery r))), cs)
      else (case find_route files_routes (hr_Method r) pth of
          Some (h, _) \<Rightarrow> h F r cs
        | None \<Rightarrow> (files_text 405 (F_Text ''Method Not Allowed''), cs)))"

text \<open>\<^verbatim>\<open>http.StripPrefix\<close>, for a prefix of plain characters.\<close>

definition strip_base :: "string \<Rightarrow> files_handler \<Rightarrow> files_handler" where
  "strip_base base h F r cs =
     (if base = [] then h F r cs
      else if HasPrefix (hr_Path r) base \<and> HasPrefix (rq_EscapedPath r) base
      then h F (r\<lparr>hr_Path := TrimPrefix (hr_Path r) base, rq_EscapedPath := TrimPrefix (rq_EscapedPath r) base\<rparr>) cs
      else (files_text 404 (F_Text ''404 page not found''), cs))"

definition files_security :: "web_request \<Rightarrow> headers" where
  "files_security r =
     [(''X-Content-Type-Options'', ''nosniff''), (''Referrer-Policy'', ''no-referrer''),
      (''Content-Security-Policy'',
       if HasSuffix (hr_Path r) ''/api/file'' then ''default-src 'none'; sandbox''
       else ''default-src 'self'; img-src 'self' blob:; media-src 'self' blob:; style-src 'self'; script-src 'self'; connect-src 'self'' @ [CHR 0x27])]"

definition files_serve :: files_handler where
  "files_serve F r cs =
     (case strip_base (fc_basePath (fe_config F)) files_mux F r cs of
        (q, cs) \<Rightarrow> (q\<lparr>fy_Headers := files_security r @ fy_Headers q\<rparr>, cs))"

end
