(* ===== verification/Files_Safety.thy ===== *)
theory Files_Safety
  imports Files_App Web_Authority
begin

text \<open>
  What the file browser guarantees: it stays in its workspace, and nothing it serves from there can
  act in the browser on the controller's origin.
\<close>

subsection \<open>Paths stay in the workspace\<close>

fun call_path :: "root_call \<Rightarrow> string" where
  "call_path (R_Stat p) = p"
| "call_path (R_Open p) = p"
| "call_path (R_Create p) = p"
| "call_path (R_Write p x) = p"
| "call_path (R_Mkdir p) = p"
| "call_path (R_Remove p) = p"

fun changing :: "root_call \<Rightarrow> bool" where
  "changing (R_Stat p) = False"
| "changing (R_Open p) = False"
| "changing _ = True"

text \<open>A path below the workspace: slash-separated parts that are neither empty nor dots.\<close>

definition below :: "string \<Rightarrow> bool" where
  "below p = list_all normal_part (Split p (CHR ''/''))"

lemma below_Join: "ps \<noteq> [] \<Longrightarrow> list_all normal_part ps \<Longrightarrow> below (Join ps (CHR ''/''))"
  by (simp add: below_def Split_Join list_all_iff normal_part_def)

lemma rooted_target: "TrimPrefix (Clean (''/'' @ p)) ''/'' = Join (clean_parts (''/'' @ p)) (CHR ''/'')"
  by (simp add: Clean_def IsAbs_def HasPrefix_def TrimPrefix_def Let_def)

lemma below_not_dots: "below p \<Longrightarrow> p \<noteq> ''.'' \<and> p \<noteq> ''..'' \<and> \<not> HasPrefix p ''../''"
proof -
  assume b: "below p"
  have "\<not> HasPrefix p ''../''"
  proof
    assume "HasPrefix p ''../''"
    then obtain q where "p = ''..'' @ CHR ''/'' # q" by (auto simp: HasPrefix_iff)
    then have "Split p (CHR ''/'') = ''..'' # Split q (CHR ''/'')" by (simp only: Split_append_sep) simp
    with b show False by (simp add: below_def normal_part_def)
  qed
  moreover from b have "p \<noteq> ''.''" "p \<noteq> ''..''" by (auto simp: below_def normal_part_def)
  ultimately show ?thesis by blast
qed

text \<open>
  What a query may name; the check for an escape never fires, as the comment in the code says.
\<close>

lemma cleaned_target:
  "cleanPath_file raw =
     (if CHR 0x00 \<in> set raw then Inl ''path contains a null byte''
      else let parts = clean_parts (''/'' @ slashes raw) in Inr (if parts = [] then ''.'' else Join parts (CHR ''/'')))"
proof -
  let ?ps = "clean_parts (''/'' @ slashes raw)"
  have normal: "list_all normal_part ?ps" by (rule clean_parts_rooted) (simp add: IsAbs_def HasPrefix_def)
  have empty: "Join ?ps (CHR ''/'') = [] \<longleftrightarrow> ?ps = []"
    using normal by (cases ?ps; cases "tl ?ps") (auto simp: normal_part_def)
  have dots: "Join ?ps (CHR ''/'') \<noteq> ''..'' \<and> \<not> HasPrefix (Join ?ps (CHR ''/'')) ''../''" if "?ps \<noteq> []"
    using below_not_dots [OF below_Join [OF that normal]] by blast
  have "clean_parts ''/'' = []" "clean_parts ''//'' = []" by code_simp+
  then have root: "?ps = []" if "raw = [] \<or> raw = ''/''" using that by (auto simp: slashes_def)
  show ?thesis
  proof (cases "?ps = []")
    case True
    then show ?thesis unfolding cleanPath_file_def rooted_target by (auto simp: Let_def)
  next
    case False
    with empty dots root show ?thesis unfolding cleanPath_file_def rooted_target by (auto simp: Let_def)
  qed
qed

lemma target_below: "cleanPath_file raw = Inr target \<Longrightarrow> target = ''.'' \<or> below target"
  using below_Join [OF _ clean_parts_rooted [of "''/'' @ slashes raw"]]
  by (auto simp: cleaned_target IsAbs_def HasPrefix_def Let_def split: if_splits)

lemma last_part: "last (Split q c) = [] \<Longrightarrow> q = [] \<or> last q = c"
  by (induction q c rule: Split.induct) (auto simp: Let_def split: if_splits list.splits)

lemma Base_part: "Base p = ''.'' \<or> Base p = ''/'' \<or> Base p \<noteq> [] \<and> CHR ''/'' \<notin> set (Base p)"
proof -
  let ?q = "rev (dropWhile (\<lambda>c. c = CHR ''/'') (rev p))"
  have "CHR ''/'' \<notin> set (last (Split ?q (CHR ''/'')))"
    by (rule Split_no_sep) (rule last_in_set, simp)
  moreover have "last (Split ?q (CHR ''/'')) \<noteq> []" if "?q \<noteq> []"
    using that last_part [of ?q "CHR ''/''"] hd_dropWhile [of "\<lambda>c. c = CHR ''/''" "rev p"]
    by (metis last_rev rev_is_Nil_conv)
  moreover have "Base p = (if p = [] then ''.'' else if ?q = [] then ''/'' else last (Split ?q (CHR ''/'')))"
    by (simp only: Base_def Let_def)
  ultimately show ?thesis by presburger
qed

lemma Join_snoc: "ws \<noteq> [] \<Longrightarrow> Join (ws @ [w]) c = Join ws c @ c # w"
  by (induction ws c rule: Join.induct) auto

lemma upload_below:
  assumes "target = ''.'' \<or> below target" and "n = Base p" and "\<not> (n = ''.'' \<or> n = ''/'' \<or> n = ''..'')"
  shows "below (if target \<noteq> ''.'' then target @ ''/'' @ n else n)"
proof -
  have n: "normal_part n" using assms(2,3) Base_part [of p] by (auto simp: normal_part_def)
  have "below (target @ CHR ''/'' # n)" if "below target"
  proof -
    have "target @ CHR ''/'' # n = Join (Split target (CHR ''/'') @ [n]) (CHR ''/'')"
      using Join_Split [of target "CHR ''/''"] by (simp add: Join_snoc)
    with that n show ?thesis using below_Join [of "Split target (CHR ''/'') @ [n]"] by (simp add: below_def)
  qed
  with n assms(1) show ?thesis by (auto simp: below_def Split_single normal_part_def)
qed

text \<open>The calls a handler adds: each names the workspace itself, unchanged, or a path below it.\<close>

definition proper_call :: "root_call \<Rightarrow> bool" where
  "proper_call c = (below (call_path c) \<or> \<not> changing c \<and> call_path c = ''.'')"

definition adds :: "(root_call \<Rightarrow> bool) \<Rightarrow> root_call list \<Rightarrow> root_call list \<Rightarrow> bool" where
  "adds P cs cs' = (\<exists>new. cs' = cs @ new \<and> list_all P new)"

lemma adds_refl [simp]: "adds P cs cs"
  by (simp add: adds_def)

lemma adds_snoc [simp]: "adds P cs (cs @ [c]) = P c"
  by (simp add: adds_def)

lemma adds_trans: "adds P cs cs' \<Longrightarrow> adds P cs' cs'' \<Longrightarrow> adds P cs cs''"
  by (auto simp: adds_def)

lemma reading_calls:
  "adds (\<lambda>c. proper_call c \<and> \<not> changing c) cs (snd (files_health F r cs))"
  "adds (\<lambda>c. proper_call c \<and> \<not> changing c) cs (snd (files_list F r cs))"
  "adds (\<lambda>c. proper_call c \<and> \<not> changing c) cs (snd (files_download F r cs))"
  "adds (\<lambda>c. proper_call c \<and> \<not> changing c) cs (snd (files_assets F r cs))"
  using target_below
  by (auto simp: files_health_def files_list_def files_download_def files_assets_def path_param_def proper_call_def
      split: option.split sum.split)

lemma writeFile_calls: "below p \<Longrightarrow> adds proper_call cs (snd (writeFile R p part cs))"
  by (auto simp: writeFile_def adds_def proper_call_def Let_def split: option.split)

lemma upload_calls:
  "target = ''.'' \<or> below target \<Longrightarrow> adds proper_call cs (snd (upload_parts R target parts broken written cs))"
proof (induction R target parts broken written cs rule: upload_parts.induct)
  case (2 R target part parts broken written cs)
  let ?n = "Base (up_FileName part)"
  let ?d = "if target \<noteq> ''.'' then target @ ''/'' @ ?n else ?n"
  show ?case
  proof (cases "up_FormName part \<noteq> ''file'' \<or> up_FileName part = []")
    case True
    with 2 show ?thesis by simp
  next
    case False
    show ?thesis
    proof (cases "?n = ''.'' \<or> ?n = ''/'' \<or> ?n = ''..''")
      case True
      with False show ?thesis by simp
    next
      case good: False
      obtain e cs1 where w: "writeFile R ?d part cs = (e, cs1)" by (metis surj_pair)
      with writeFile_calls [OF upload_below [OF 2(3) refl good]] have step: "adds proper_call cs cs1" by (metis snd_conv)
      show ?thesis
      proof (cases e)
        case None
        with 2(2) [OF False refl good w [symmetric]] 2(3) step False good w show ?thesis
          by (auto simp: Let_def intro: adds_trans)
      qed (use step False good w in \<open>auto simp: Let_def\<close>)
    qed
  qed
qed simp

lemma changing_calls:
  "adds proper_call cs (snd (files_upload F r cs))" "adds proper_call cs (snd (files_mkdir F r cs))"
  "adds proper_call cs (snd (files_remove F r cs))"
  using target_below upload_calls
  by (auto simp: files_upload_def files_mkdir_def files_remove_def path_param_def proper_call_def
      split: option.split sum.split)


subsection \<open>What a request reaches\<close>

definition local_request :: "files_env \<Rightarrow> web_request \<Rightarrow> web_request" where
  "local_request F r =
     (let base = fc_basePath (fe_config F) in
      r\<lparr>hr_Path := TrimPrefix (hr_Path r) base, rq_EscapedPath := TrimPrefix (rq_EscapedPath r) base\<rparr>)"

lemma local_fields [simp]: "hr_Method (local_request F r) = hr_Method r" "rq_Query (local_request F r) = rq_Query r"
  by (simp_all add: local_request_def Let_def)

lemma files_cases:
  obtains (other) "snd (files_serve F r cs) = cs" "\<forall>n m x. fy_Body (fst (files_serve F r cs)) \<noteq> F_Content n m x"
  | (routed) p h vals where "(p, h) \<in> set files_routes"
      "match_pattern p (hr_Method r) (request_path (local_request F r)) = Some vals"
      "request_path (local_request F r) = rq_EscapedPath (local_request F r)"
      "HasPrefix (rq_EscapedPath r) (fc_basePath (fe_config F))"
      "fst (files_serve F r cs) = (fst (h F (local_request F r) cs))\<lparr>fy_Headers :=
         files_security r @ fy_Headers (fst (h F (local_request F r) cs))\<rparr>"
      "snd (files_serve F r cs) = snd (h F (local_request F r) cs)"
proof -
  let ?base = "fc_basePath (fe_config F)" and ?r = "local_request F r"
  have none: "local_request F r = r" if "?base = []"
    using that by (simp add: local_request_def TrimPrefix_def)
  have strip: "strip_base ?base files_mux F r cs = (if ?base = [] \<or> HasPrefix (hr_Path r) ?base \<and> HasPrefix (rq_EscapedPath r) ?base
      then files_mux F ?r cs else (files_text 404 (F_Text ''404 page not found''), cs))"
    using none by (auto simp: strip_base_def local_request_def Let_def)
  show ?thesis
  proof (cases "(?base = [] \<or> HasPrefix (hr_Path r) ?base \<and> HasPrefix (rq_EscapedPath r) ?base)
      \<and> request_path ?r = rq_EscapedPath ?r \<and> find_route files_routes (hr_Method ?r) (request_path ?r) \<noteq> None")
    case True
    then obtain h vals where f: "find_route files_routes (hr_Method ?r) (request_path ?r) = Some (h, vals)" by auto
    from find_route_in [OF f] obtain p where "(p, h) \<in> set files_routes"
      "match_pattern p (hr_Method r) (request_path ?r) = Some vals" by auto
    moreover have "files_serve F r cs = (case h F ?r cs of (q, cs) \<Rightarrow> (q\<lparr>fy_Headers := files_security r @ fy_Headers q\<rparr>, cs))"
      using True f by (simp add: files_serve_def strip files_mux_def Let_def)
    moreover have "HasPrefix (rq_EscapedPath r) ?base" using True by (auto simp: HasPrefix_def)
    ultimately show ?thesis using True by (intro routed [of p h vals]) (auto split: prod.split)
  next
    case False
    then show ?thesis
      by (intro other) (auto simp: files_serve_def strip files_mux_def files_text_def Let_def split: option.split)
  qed
qed

lemma adds_imp: "adds P cs cs' \<Longrightarrow> (\<And>c. P c \<Longrightarrow> Q c) \<Longrightarrow> adds Q cs cs'"
  by (auto simp: adds_def list_all_iff)

lemma route_calls:
  assumes "(p, h) \<in> set files_routes"
  shows "mp_Method (parse_pattern p) = ''GET'' \<and> (\<forall>F r cs. adds (\<lambda>c. proper_call c \<and> \<not> changing c) cs (snd (h F r cs)))
    \<or> mp_Method (parse_pattern p) = ''POST'' \<and> (\<forall>F r cs. adds proper_call cs (snd (h F r cs)))"
proof -
  have "map (\<lambda>x. mp_Method (parse_pattern (fst x))) files_routes = [''GET'', ''GET'', ''GET'', ''POST'', ''POST'', ''POST'', ''GET'']"
    unfolding files_routes_def list.map fst_conv by code_simp
  then show ?thesis
    using assms reading_calls changing_calls by (auto simp: files_routes_def)
qed

text \<open>
  C34: the file browser stays in its workspace. Whatever a request names, in its query or in the
  file names of an upload, every path handed to the root is the workspace itself, which is never
  changed, or a path of proper names below it, without empty parts and dots; and nothing is created,
  written or removed but by a POST.
\<close>

theorem root_paths_confined:
  "\<exists>new. snd (files_serve F r cs) = cs @ new \<and> list_all proper_call new \<and>
     (filter changing new = [] \<or> hr_Method r = ''POST'')"
proof (cases rule: files_cases [of F r cs])
  case other
  then show ?thesis by simp
next
  case (routed p h vals)
  from route_calls [OF routed(1)] show ?thesis
  proof
    assume "mp_Method (parse_pattern p) = ''GET'' \<and> (\<forall>F r cs. adds (\<lambda>c. proper_call c \<and> \<not> changing c) cs (snd (h F r cs)))"
    then have "adds (\<lambda>c. proper_call c \<and> \<not> changing c) cs (snd (h F (local_request F r) cs))" by blast
    then obtain new where "snd (h F (local_request F r) cs) = cs @ new" "list_all (\<lambda>c. proper_call c \<and> \<not> changing c) new"
      by (auto simp: adds_def)
    with routed(6) show ?thesis by (intro exI [of _ new]) (auto simp: list_all_iff filter_empty_conv)
  next
    assume post: "mp_Method (parse_pattern p) = ''POST'' \<and> (\<forall>F r cs. adds proper_call cs (snd (h F r cs)))"
    then have "hr_Method r = ''POST''"
      using routed(2) by (auto simp: match_pattern_def method_matches_def Let_def split: if_splits)
    with post routed(6) show ?thesis by (auto simp: adds_def)
  qed
qed

subsection \<open>What leaves the workspace\<close>

lemma unescape_append:
  "path_unescape a = Some a' \<Longrightarrow> path_unescape (a @ b) = map_option ((@) a') (path_unescape b)"
proof (induction a arbitrary: a' rule: path_unescape.induct)
  case 1
  then show ?case by (cases "path_unescape b") simp_all
next
  case (2 c s)
  show ?case
  proof (cases "c = CHR ''%''")
    case False
    with 2(3) obtain t where "path_unescape s = Some t" "a' = c # t" by auto
    with 2(1) [OF False] False show ?thesis by (cases "path_unescape b") simp_all
  next
    case True
    with 2(3) obtain x y t where s: "s = x # y # t" by (auto split: list.splits)
    with 2(3) True obtain m n q where "hex_val x = Some m" "hex_val y = Some n" "path_unescape t = Some q"
      "a' = char_of (16 * m + n) # q" by (auto split: option.splits)
    with 2(2) [of x "y # t" y t "Some m" "Some n" m n] True s show ?thesis by (cases "path_unescape b") simp_all
  qed
qed

lemma unescape_suffix:
  "path_unescape (a @ CHR ''/'' # b) = Some p \<Longrightarrow> path_unescape b = Some b' \<Longrightarrow> HasSuffix p (CHR ''/'' # b')"
proof (induction a arbitrary: p rule: path_unescape.induct)
  case 1
  then show ?case by (auto simp: HasSuffix_iff)
next
  case (2 c s)
  have slash: "hex_val (CHR ''/'') = None" by code_simp
  show ?case
  proof (cases "c = CHR ''%''")
    case False
    with 2 show ?thesis by (fastforce simp: HasSuffix_iff)
  next
    case True
    show ?thesis
    proof (cases s)
      case Nil
      with 2(3) True slash show ?thesis by (auto split: list.splits option.splits)
    next
      case (Cons x t)
      show ?thesis
      proof (cases t)
        case Nil
        with 2(3) True Cons slash show ?thesis by (auto split: option.splits)
      next
        case (Cons y u)
        with 2(2) [of x t y u] 2(3,4) True \<open>s = x # t\<close> show ?thesis
          by (fastforce simp: HasSuffix_iff split: option.splits)
      qed
    qed
  qed
qed

lemma cleanPath_slash: "HasPrefix (cleanPath p) ''/''"
  by (simp add: cleanPath_def Clean_def IsAbs_def Let_def HasPrefix_def)


lemma segment_unescape:
  "(case path_unescape x of Some t \<Rightarrow> t | None \<Rightarrow> x) = k \<Longrightarrow> path_unescape k = Some k \<Longrightarrow> path_unescape x = Some k"
  by (auto split: option.splits)

lemma file_route_path:
  assumes "match_pattern ''GET /api/file'' (hr_Method q) (request_path q) = Some vals" and "request_path q = rq_EscapedPath q"
  shows "\<exists>b. rq_EscapedPath q = CHR ''/'' # b \<and> path_unescape b = Some ''api/file''"
proof -
  have pat: "parse_pattern ''GET /api/file'' = \<lparr>mp_Method = ''GET'', mp_Segments = [Lit ''api'', Lit ''file''], mp_Subtree = False\<rparr>"
    by code_simp
  have m: "method_matches ''GET'' (hr_Method q)" "match_segments [Lit ''api'', Lit ''file''] False (path_segments (request_path q)) \<noteq> None"
    using assms(1) pat by (auto simp: match_pattern_def Let_def split: if_splits)
  then have segs: "path_segments (rq_EscapedPath q) = [''api'', ''file'']"
    unfolding assms(2) by (cases "path_segments (rq_EscapedPath q)"; cases "tl (path_segments (rq_EscapedPath q))")
      (auto split: if_splits)
  have "path_unescape ''api'' = Some ''api''" "path_unescape ''file'' = Some ''file''" by code_simp+
  with segs obtain x y where xy: "Split (drop 1 (rq_EscapedPath q)) (CHR ''/'') = [x, y]"
    "path_unescape x = Some ''api''" "path_unescape y = Some ''file''"
    by (auto simp: path_segments_def map_eq_Cons_conv dest!: segment_unescape)
  have "drop 1 (rq_EscapedPath q) = x @ CHR ''/'' # y"
    using Join_Split [of "drop 1 (rq_EscapedPath q)" "CHR ''/''"] xy(1) by simp
  with unescape_append [OF xy(2), of "CHR ''/'' # y"] xy(3)
  have b: "path_unescape (drop 1 (rq_EscapedPath q)) = Some ''api/file''" by simp
  have "hr_Method q \<noteq> ''CONNECT''" using m(1) by (auto simp: method_matches_def)
  then have "HasPrefix (rq_EscapedPath q) ''/''" using assms(2) cleanPath_slash by (metis request_path_def)
  then obtain t where "rq_EscapedPath q = CHR ''/'' # t" by (auto simp: HasPrefix_iff)
  with b show ?thesis by simp
qed

definition media_types :: "string list" where
  "media_types = [''.png'', ''.jpg'', ''.jpeg'', ''.gif'', ''.webp'', ''.bmp'', ''.avif'', ''.mp4'', ''.webm'', ''.mkv'', ''.mov'',
     ''.m4v'', ''.mp3'', ''.ogg'', ''.wav'', ''.flac'', ''.m4a'']"

definition inert_type :: "files_env \<Rightarrow> headers \<Rightarrow> bool" where
  "inert_type F h =
     (header_Get h ''Content-Type'' = ''application/octet-stream'' \<and> HasPrefix (header_Get h ''Content-Disposition'') ''attachment'' \<or>
      header_Get h ''Content-Type'' \<in> {''text/plain; charset=utf-8'', ''application/octet-stream''} \<or>
      header_Get h ''Content-Type'' \<in> fe_mime F ` set media_types)"

lemma file_keys:
  "\<not> same_key ''X-Content-Type-Options'' ''Content-Type''" "\<not> same_key ''Referrer-Policy'' ''Content-Type''"
  "\<not> same_key ''Content-Security-Policy'' ''Content-Type''" "\<not> same_key ''Content-Type'' ''Content-Disposition''"
  "\<not> same_key ''X-Content-Type-Options'' ''Content-Disposition''" "\<not> same_key ''Referrer-Policy'' ''Content-Disposition''"
  "\<not> same_key ''Content-Security-Policy'' ''Content-Disposition''"
  "\<not> same_key ''X-Content-Type-Options'' ''Content-Security-Policy''" "\<not> same_key ''Referrer-Policy'' ''Content-Security-Policy''"
  by code_simp+

lemma media_kind: "kindOf uni n \<notin> {''text'', ''other''} \<Longrightarrow> ToLower uni (Ext n) \<in> set media_types"
  by (auto simp: kindOf_def media_types_def Let_def split: if_splits)

lemma content_inert: "inert_type F (files_security r @ content_headers F q n)"
proof -
  have "previewable (kindOf (fe_uni F) n) \<Longrightarrow> kindOf (fe_uni F) n \<noteq> ''text'' \<Longrightarrow> kindOf (fe_uni F) n \<notin> {''text'', ''other''}"
    by (auto simp: previewable_def)
  with media_kind [of "fe_uni F" n] show ?thesis
    by (auto simp: inert_type_def content_headers_def contentType_def files_security_def header_Get_def file_keys
        HasPrefix_iff Let_def)
qed


lemma content_only_downloads:
  assumes "(p, h) \<in> set files_routes" and "fy_Body (fst (h F q cs)) = F_Content n m x"
  shows "p = ''GET /api/file'' \<and> fy_Headers (fst (h F q cs)) = content_headers F q n"
proof -
  have upload: "fy_Body (fst (upload_parts R t ps broken written cs)) \<noteq> F_Content n m x" for R t ps broken written cs
    by (induction ps arbitrary: written cs)
      (auto simp: bad_request_def files_json_def Let_def split: prod.split option.split)
  from assms show ?thesis
    by (auto simp: files_routes_def files_health_def files_list_def files_download_def files_upload_def files_mkdir_def
        files_remove_def files_assets_def files_json_def bad_request_def upload
        split: option.splits sum.splits prod.splits if_splits)
qed

text \<open>
  C35: nothing from the workspace runs in the browser. When the file browser answers with the content
  of a file, whatever the file and its name, the answer forbids sniffing, carries the policy that denies
  a document everything and sandboxes it, and its type is opaque, plain text, or the type of one of the
  listed extensions of images, videos and sounds. (The path of a request is its escaped path unescaped,
  as \<^verbatim>\<open>net/url\<close> has it.)
\<close>

theorem served_content_inert:
  assumes "fy_Body (fst (files_serve F r cs)) = F_Content n m x" and "path_unescape (rq_EscapedPath r) = Some (hr_Path r)"
  shows "inert_type F (fy_Headers (fst (files_serve F r cs)))
    \<and> header_Get (fy_Headers (fst (files_serve F r cs))) ''X-Content-Type-Options'' = ''nosniff''
    \<and> header_Get (fy_Headers (fst (files_serve F r cs))) ''Content-Security-Policy'' = ''default-src 'none'; sandbox''"
proof (cases rule: files_cases [of F r cs])
  case other
  with assms show ?thesis by simp
next
  case (routed p h vals)
  let ?q = "local_request F r" and ?base = "fc_basePath (fe_config F)"
  from content_only_downloads [OF routed(1), of F ?q cs n m x] assms(1) routed(5)
  have p: "p = ''GET /api/file''" and h: "fy_Headers (fst (files_serve F r cs)) = files_security r @ content_headers F ?q n"
    by simp_all
  from file_route_path [of ?q vals] routed(2,3) p obtain b where
    "rq_EscapedPath ?q = CHR ''/'' # b" "path_unescape b = Some ''api/file''" by auto
  moreover have "rq_EscapedPath r = ?base @ rq_EscapedPath ?q"
    using routed(4) by (auto simp: local_request_def TrimPrefix_def HasPrefix_iff Let_def)
  ultimately have "HasSuffix (hr_Path r) ''/api/file''"
    using unescape_suffix [of ?base b "hr_Path r" "''api/file''"] assms(2) by simp
  then have "header_Get (files_security r @ content_headers F ?q n) ''Content-Security-Policy'' = ''default-src 'none'; sandbox''"
    by (simp add: files_security_def header_Get_def file_keys)
  moreover have "header_Get (files_security r @ content_headers F ?q n) ''X-Content-Type-Options'' = ''nosniff''"
    by (simp add: files_security_def header_Get_def)
  ultimately show ?thesis using content_inert h by simp
qed

subsection \<open>A sample request\<close>

definition sample_files :: files_env where
  "sample_files = \<lparr>fe_config = \<lparr>fc_listen = ''0.0.0.0:7080'', fc_root = ''/workspace'', fc_basePath = ''/apps/files'',
     fc_maxUploadBytes = 1000\<rparr>,
     fe_root = \<lparr>rw_Stat = (\<lambda>_. None),
       rw_Open = (\<lambda>_ _. Inr \<lparr>of_Stat = Inr (False, zero_time), of_ReadDir = Inr [], of_Content = ''<script>''\<rparr>),
       rw_Create = (\<lambda>_ _. None), rw_Write = (\<lambda>_ _ _. None), rw_Mkdir = (\<lambda>_ _. None), rw_Remove = (\<lambda>_ _. None)\<rparr>,
     fe_uni = (\<lambda>s. s), fe_mime = (\<lambda>_. []), fe_multipart = (\<lambda>_ _. None)\<rparr>"

definition sample_download :: web_request where
  "sample_download = \<lparr>hr_Method = ''GET'', hr_Path = ''/apps/files/api/file'', hr_Headers = [], rq_Host = ''box'',
     rq_RemoteAddr = ''10.0.0.9:4711'', rq_URI = [], rq_EscapedPath = ''/apps/files/api/file'',
     rq_RawQuery = ''path=a/../x.html'', rq_Query = [(''path'', [''a/../x.html''])], rq_Form = None, rq_Body = [], rq_Values = []\<rparr>"

lemma sample_content:
  "fy_Body (fst (files_serve sample_files sample_download [])) = F_Content ''x.html'' zero_time ''<script>''"
  "path_unescape (rq_EscapedPath sample_download) = Some (hr_Path sample_download)"
  by code_simp+

theorem served_content_inert_witness:
  "inert_type sample_files (fy_Headers (fst (files_serve sample_files sample_download [])))"
  using served_content_inert [OF sample_content] by simp

subsection \<open>Names and listings\<close>

lemma hex_digits: "d < 16 \<Longrightarrow> hex_val (upper_hex d) = Some d"
proof -
  have "list_all (\<lambda>d. hex_val (upper_hex d) = Some d) [0..<16]" by code_simp
  then show "d < 16 \<Longrightarrow> ?thesis" by (simp add: list_all_iff)
qed

text \<open>The name in \<^verbatim>\<open>Content-Disposition\<close> decodes to the name of the file.\<close>

lemma urlEncode_roundtrip: "path_unescape (urlEncode n) = Some n"
proof (induction n)
  case (Cons c n)
  have "(of_char c :: nat) < 256" by simp
  then have "(of_char c :: nat) div 16 < 16" "(of_char c :: nat) mod 16 < 16" by auto
  moreover have "char_of (16 * (of_char c div 16) + of_char c mod 16 :: nat) = c" by simp
  ultimately show ?case using Cons
    by (auto simp: urlEncode_def hex_digits is_lower_def is_upper_def is_digit_def)
qed (simp add: urlEncode_def)

text \<open>A listing has the items of the directory, directories first.\<close>

lemma listed_items: "mset (listed uni es) = mset es"
  by (simp add: listed_def)

lemma listed_sorted: "sorted (map (\<lambda>entry. (\<not> fi_Dir entry, ToLower uni (fi_Name entry))) (listed uni es))"
  by (simp add: listed_def)

end
