(* ===== verification/Spec2Isabelle.thy ===== *)
theory Spec2Isabelle
  imports Worker_Client Key_Tool Web_Sample Files_Safety
begin

text \<open>
  \<^bold>\<open>Contain Yourself\<close> runs isolated workstations made of containers. This library models its
  Go code and proves what makes it correct.

  \<^bold>\<open>The program.\<close> A \<^emph>\<open>controller\<close> (\<^verbatim>\<open>src/cmd/controller\<close>,
  \<^verbatim>\<open>src/internal/httpapi\<close>) serves users: it keeps users, sessions, workstations, shares and
  VPN profiles in SQLite, reads app manifests and workstation templates from disk, and installs apps
  from an app store. It asks a \<^emph>\<open>worker\<close> (\<^verbatim>\<open>src/cmd/worker\<close>,
  \<^verbatim>\<open>src/internal/dockerworker\<close>) to build workstations; only the worker talks to the Docker
  daemon. Every workstation has a \<^emph>\<open>gateway\<close> container
  (\<^verbatim>\<open>src/cmd/wslan\<close>) through which its apps reach the network and users reach its apps.

  \<^bold>\<open>Conventions.\<close> A Go string or byte slice is a list of bytes; a Go \<^verbatim>\<open>error\<close> is an
  option or the left side of a sum; a struct is a record with the struct's fields under a prefix; a
  handler is a function from the state and the request to the reply and the new state. Time, random
  bytes, the answers of other machines and of the file system are arguments. Definitions carry the
  names of the source, with a suffix where the name is taken.

  \<^bold>\<open>The theories\<close>, in order of dependence:

  \<^item> \<open>Prelude\<close>: results, first-error loops, tables with filtered updates, \<^verbatim>\<open>float64\<close>
    comparisons. \<open>Go_Strings\<close>, \<open>Go_Std\<close>, \<open>Go_Net\<close>, \<open>Go_Crypto\<close>: the parts of Go's
    standard library the program calls (strings, numbers, paths, base64, addresses, SHA-256 and HMAC).
  \<^item> \<open>Workstation_State\<close> (\<^verbatim>\<open>workstations/state.go\<close>): states and the transition table.
    \<open>Sharing\<close> (\<^verbatim>\<open>sharing/permissions.go\<close>) and \<open>Egress\<close>
    (\<^verbatim>\<open>egress/egress.go\<close>): permission and egress vocabularies, both interpretations of the
    locale \<open>validated_vocabulary\<close>.
  \<^item> \<open>WireGuard_Profile\<close> and \<open>VPN_Store\<close> (\<^verbatim>\<open>vpnprofiles\<close>): the profile parser and the
    encrypted store with key rotation over a failing file system.
  \<^item> \<open>Database\<close>, \<open>Database_Integrity\<close>, \<open>Database_Credentials\<close>, \<open>Database_Workstations\<close>
    (\<^verbatim>\<open>database/database.go\<close>): the store's tables and methods, the integrity invariant over
    every sequence of calls, and the contracts of tokens (locale \<open>credential\<close>), look-ups and state
    changes.
  \<^item> \<open>Manifests\<close> and \<open>Templates\<close> (\<^verbatim>\<open>manifests\<close>, \<^verbatim>\<open>templates\<close>):
    validation, scanning, saving, the registries.
  \<^item> \<open>Controller\<close> and \<open>Controller_Lifecycle\<close> (\<^verbatim>\<open>httpapi/workstations.go\<close> and parts
    of \<^verbatim>\<open>server.go\<close>, \<^verbatim>\<open>settings.go\<close>): creation, provisioning, actions, background
    runs, reconciliation; outcomes in isolation and the life cycle under any interleaving.
  \<^item> \<open>Worker_API\<close> (\<^verbatim>\<open>pkg/workerapi\<close>): the messages between controller and worker.
  \<^item> \<open>Docker_Engine\<close> and \<open>Docker_Streams\<close> (\<^verbatim>\<open>dockerworker/engine.go\<close>): the Docker
    client over an arbitrary daemon, a function from the calls made so far to the next answer; log and
    usage streams.
  \<^item> \<open>Worker_Config\<close>, \<open>Worker_Logs\<close>, \<open>Worker_Approvals\<close>, \<open>Worker_Admission\<close>,
    \<open>Worker_Provision\<close>, \<open>Worker_Confinement\<close>, \<open>Worker_Service\<close>
    (\<^verbatim>\<open>config/config.go\<close>, \<^verbatim>\<open>dockerworker/logs.go\<close>,
    \<^verbatim>\<open>approvals.go\<close>, \<^verbatim>\<open>service.go\<close>): settings, log capture, approved apps,
    request validation, provisioning as a sequence of Docker calls and its confinement, the handlers.
  \<^item> \<open>Wslan\<close> (\<^verbatim>\<open>cmd/wslan/main.go\<close>): the gateway.
  \<^item> \<open>Worker_Client\<close> (\<^verbatim>\<open>workerclient/client.go\<close> and the routes of
    \<^verbatim>\<open>dockerworker/service.go\<close>): the calls of the controller and what they reach.
    \<open>Key_Tool\<close> (\<^verbatim>\<open>cmd/vpnkeyctl\<close>): the commands that manage the profile key.
  \<^item> \<open>Passwords\<close> (\<^verbatim>\<open>auth/password.go\<close>) and \<open>Theme\<close>
    (\<^verbatim>\<open>theme/theme.go\<close>): PBKDF2 against RFC 8018, tokens; colours in \<^verbatim>\<open>float64\<close>
    and the stylesheet.
  \<^item> \<open>File_Tree\<close>, \<open>App_Catalog\<close>, \<open>App_Store\<close>, \<open>App_Store_Safety\<close>,
    \<open>App_Store_Sample\<close> (\<^verbatim>\<open>appstore/catalog.go\<close>, \<^verbatim>\<open>appstore/manager.go\<close>):
    a file system whose operations may each fail, the index and the bundles, and synchronizing,
    installing, activating and rolling back as tasks over it; what a failure can leave behind.
  \<^item> \<open>Go_Http\<close>: headers, cookies, redirects, patterns and the reverse proxy's header rules.
    \<open>Controller_Config\<close> (\<^verbatim>\<open>config/config.go\<close>): the controller's settings.
  \<^item> \<open>Web_Base\<close>, \<open>Web_Auth\<close>, \<open>Web_Workstations\<close>, \<open>Web_Proxy\<close>,
    \<open>Web_Sharing\<close>, \<open>Web_Settings\<close>, \<open>Web_API\<close>, \<open>Web_Server\<close>
    (\<^verbatim>\<open>httpapi\<close>, \<^verbatim>\<open>proxy/hostname.go\<close>): every handler of the controller,
    page by page and call by call, and \<open>serve\<close>, the multiplexer over the table of its 68 routes.
  \<^item> \<open>Web_Authority\<close>: the abstract machine of who may change what, refined by \<open>serve\<close>. On it
    rest \<open>Web_Store\<close> (runs of requests and goroutines over the store), \<open>Web_Safety\<close>
    (workstations), \<open>Web_Administration\<close>, \<open>Web_Origin\<close> (other sites, reading requests, one
    handler per request), \<open>Web_Guesses\<close> (guessing passwords), \<open>Web_Login\<close> and
    \<open>Web_Forward\<close> (traffic to apps, up to the gateway); \<open>Web_Sample\<close> is a running server on
    which these theorems are exercised.
  \<^item> \<open>Files_App\<close> and \<open>Files_Safety\<close> (\<^verbatim>\<open>cmd/files\<close>): the file browser inside a
    workstation, over any answers of \<^verbatim>\<open>os.Root\<close>.
  \<^item> This theory: properties that span controller, worker and gateway.

  \<^bold>\<open>What the lemmas show.\<close> Each component has the invariant its operations keep (store
  integrity, valid presets, bounded logs, confined requests), its behaviour on every branch, round
  trips where it writes what it later reads (permissions, grants, profiles, passwords, templates, cookies,
  log frames), and the safety statements a reader of the code would want: who may reach what, what an
  accepted input may ask for, in which order containers are touched. The properties numbered C in the
  text are the ones to read first.

  \<^bold>\<open>Bounds and fuel.\<close> Loops over data are structural or have a measure. The waits of the worker poll
  under a deadline: \<open>poll_http\<close> and \<open>poll_healthy\<close> take the number of polls that fit before
  the deadline, so they always end; the theorems hold for every number. Integers the code keeps in
  64 bits are bounded where a value could leave the range (parsed numbers, tunnel counters, stream
  lengths); other counters cannot reach it.

  \<^bold>\<open>Requests.\<close> A request of the controller or the file browser carries its path, escaped path,
  parsed query and form as separate fields, and the reply carries the template with its data, or the
  JSON value; a request is served as a whole, and goroutines run as a whole between requests. Time is
  read once per request.

  \<^bold>\<open>Not modelled.\<close> The layout of HTML pages and the functions of their templates, static assets,
  the re-escaping of paths in the redirects of the multiplexer, the request logs; the process entry
  points and the command line tools \<^verbatim>\<open>workstationctl\<close> and \<^verbatim>\<open>storectl\<close>, which wire
  the modelled functions to sockets and flags; SQLite itself (opening, migrations, backup); the YAML,
  JSON, URL, duration and multipart parsers, \<^verbatim>\<open>os.Root\<close> and AES-GCM, which are arguments
  with their documented behaviour as named hypotheses where a theorem needs it; the timers that pace
  retries; goroutine scheduling inside one function, except where a theorem quantifies over
  interleavings. A request that the code would end by dereferencing a nil URL (a bundle path that is no
  URL, which the index check excludes) is an error value in \<open>App_Store\<close>.
\<close>

subsection \<open>The gateway reads what the worker writes\<close>

lemma sort_map_sort_key: "sort (map f xs) = map f (sort_key f xs)"
  by (rule properties_for_sort) simp_all

lemma gateway_environment:
  "label (cc_Environment (gateway_config cfg req subnet)) ''WSLAN_TOKEN'' = wk_Token cfg"
  "label (cc_Environment (gateway_config cfg req subnet)) ''WSLAN_MODE'' =
     Resolve (pr_EgressMode req) (pr_VPNRequired req)"
  "label (cc_Environment (gateway_config cfg req subnet)) ''WSLAN_APPS'' =
     Join (sort (map (\<lambda>app. as_ID app @ ''='' @ Itoa (as_InternalPort app)) (pr_Apps req))) (CHR '','')"
  by (simp_all add: gateway_config_def Let_def label_def)

lemma mode_lower: "Valid m \<Longrightarrow> ToLower uni m = m"
  by (erule Valid_cases) (simp_all add: ToLower_def lower_byte_def Let_def)

definition app_mapping :: "AppSpec \<Rightarrow> string \<times> int" where
  "app_mapping app = (as_ID app, as_InternalPort app)"

lemma gateway_apps:
  assumes "\<forall>app \<in> set apps. identifier_re (as_ID app) \<and> 1024 \<le> as_InternalPort app \<and> as_InternalPort app \<le> 65535"
    and "distinct (map as_ID apps)"
  shows "\<exists>table. parseApps (Join (sort (map (\<lambda>app. as_ID app @ ''='' @ Itoa (as_InternalPort app)) apps)) (CHR '',''))
      = Inr table \<and> map_of table = map_of (map app_mapping apps)"
proof -
  let ?f = "\<lambda>app. as_ID app @ ''='' @ Itoa (as_InternalPort app)"
  let ?sorted = "sort_key ?f apps"
  have items: "sort (map ?f apps) = map mapping_item (map app_mapping ?sorted)"
    unfolding sort_map_sort_key by (simp add: mapping_item_def app_mapping_def)
  have ok: "list_all mapping_ok (map app_mapping ?sorted)"
    using assms(1) by (auto simp: list_all_iff mapping_ok_def app_mapping_def)
  have keys: "map fst (map app_mapping xs) = map as_ID xs" for xs by (simp add: app_mapping_def)
  have m: "mset (map as_ID ?sorted) = mset (map as_ID apps)" by simp
  have d: "distinct (map fst (map app_mapping ?sorted))"
    unfolding keys using assms(2) m by (metis mset_eq_imp_distinct_iff)
  have same: "map_of (map app_mapping ?sorted) = map_of (map app_mapping apps)"
    using d assms(2) by (subst map_of_inject_set) (simp_all add: keys [unfolded map_map])
  from parseApps_Join [OF ok d] show ?thesis unfolding items same .
qed

text \<open>
  C12: the worker and the gateway agree. For a worker configuration that loads and a provisioning
  request that passes validation, the gateway process started with the environment the worker gives
  its container starts, with the worker's token, the resolved egress mode and a table of exactly the
  request's apps and ports; a request with the token and an app's id is forwarded to the port of that
  app under the network alias the worker gave the app's sandbox.
\<close>

theorem gateway_accepts_worker_config:
  assumes "validateProvision uni C cfg s req = None" and "LoadWorker getenv = Inr cfg"
  shows "\<exists>g. load_gateway uni' (label (cc_Environment (gateway_config cfg req subnet))) = Inr g
    \<and> gt_token g = wk_Token cfg
    \<and> gt_mode g = Resolve (pr_EgressMode req) (pr_VPNRequired req)
    \<and> map_of (gt_apps g) = map_of (map app_mapping (pr_Apps req))
    \<and> (\<forall>app \<in> set (pr_Apps req). \<forall>r. header r tokenHeader = wk_Token cfg \<and> header r appHeader = as_ID app \<longrightarrow>
        (\<exists>r'. route g sys r = G_Forward (''http://'' @
           hd (cc_NetworkAliases (sandbox_config cfg (pr_WorkstationID req) address app)) @ '':'' @
           Itoa (as_InternalPort app)) r'))"
proof -
  note v = assms(1) [unfolded validateProvision_None]
  have ids: "\<forall>app \<in> set (pr_Apps req). identifier_re (as_ID app) \<and> 1024 \<le> as_InternalPort app \<and> as_InternalPort app \<le> 65535"
    and dist: "distinct (map as_ID (pr_Apps req))"
    using v by (auto simp: app_confined_def)
  from gateway_apps [OF ids dist] obtain table where
    table: "parseApps (label (cc_Environment (gateway_config cfg req subnet)) ''WSLAN_APPS'') = Inr table"
    "map_of table = map_of (map app_mapping (pr_Apps req))"
    unfolding gateway_environment by blast
  let ?mode = "Resolve (pr_EgressMode req) (pr_VPNRequired req)"
  define g where "g = \<lparr>gt_token = wk_Token cfg, gt_mode = ?mode, gt_apps = table\<rparr>"
  have long: "24 \<le> length (wk_Token cfg)"
    using assms(2) by (auto simp: LoadWorker_def Let_def split: if_splits)
  have mode: "ToLower uni' (TrimSpace ?mode) = ?mode" "supportedMode ?mode"
    by (simp_all add: Valid_trimmed mode_lower supportedMode_Valid)
  have load: "load_gateway uni' (label (cc_Environment (gateway_config cfg req subnet))) = Inr g"
    using table(1) long mode unfolding load_gateway_def gateway_environment(1,2)
    by (simp add: g_def Let_def)
  have "\<exists>r'. route g sys r = G_Forward (''http://'' @
      hd (cc_NetworkAliases (sandbox_config cfg (pr_WorkstationID req) address app)) @ '':'' @
      Itoa (as_InternalPort app)) r'"
    if app: "app \<in> set (pr_Apps req)" and r: "header r tokenHeader = wk_Token cfg" "header r appHeader = as_ID app"
    for app r
  proof -
    have "map_of (map app_mapping (pr_Apps req)) (as_ID app) = Some (as_InternalPort app)"
      using app dist by (intro map_of_is_SomeI) (auto simp: app_mapping_def comp_def)
    moreover have "as_ID app \<noteq> []" using ids app identifier_ne by blast
    ultimately show ?thesis
      using r table(2)
      by (simp add: route_def proxy_def authorized_def g_def Let_def sandbox_config_def)
  qed
  with load table(2) show ?thesis by (auto simp: g_def)
qed

definition worker_environ :: environ where
  "worker_environ k =
     (if k = ''WORKER_TOKEN'' then replicate 24 (CHR ''t'')
      else if k = ''WORKER_ALLOWED_IMAGES'' then ''seed:1, other:2'' else [])"

theorem gateway_accepts_worker_config_witness:
  "\<exists>g. load_gateway (\<lambda>s. s)
      (label (cc_Environment (gateway_config (projr (LoadWorker worker_environ)) sample_request ''10.0.0.0/24''))) = Inr g
    \<and> gt_mode g = WireGuard \<and> map_of (gt_apps g) ''files'' = Some 8080"
proof -
  let ?cfg = "projr (LoadWorker worker_environ)"
  have "is_ok (LoadWorker worker_environ)" by code_simp
  then have 1: "LoadWorker worker_environ = Inr ?cfg" by (auto simp: is_ok_def split: sum.splits)
  have 2: "validateProvision (\<lambda>s. s) sample_codec ?cfg sample_approvals sample_request = None" by code_simp
  have 3: "Resolve (pr_EgressMode sample_request) (pr_VPNRequired sample_request) = WireGuard" by code_simp
  have 4: "map_of (map app_mapping (pr_Apps sample_request)) ''files'' = Some 8080" by code_simp
  from gateway_accepts_worker_config [OF 2 1, of "\<lambda>s. s" "''10.0.0.0/24''"] 3 4 show ?thesis by metis
qed

subsection \<open>The worker runs what the controller accepted\<close>

text \<open>
  C13: the checks of the controller and of the worker agree on apps. For a service manifest the
  controller accepted, the specification it sends passes the worker's validation, provided that the
  manifest's default resources are positive and within the workstation's, that its shared memory is
  no larger than its memory, and that its health path is absolute and does not climb: these are the
  checks the worker makes and the controller does not.
\<close>

theorem accepted_manifest_admitted:
  assumes "Manifests.Validate stat m dir = None" and "rt_Type (m_Runtime m) = ''container-service''"
    and "64 \<le> rs_DefaultMemoryMB (m_Resources m)" and "rs_DefaultMemoryMB (m_Resources m) \<le> memory"
    and "rs_ShmSizeMB (m_Resources m) \<le> rs_DefaultMemoryMB (m_Resources m)"
    and "\<not> float_le (rs_DefaultCPU (m_Resources m)) float0" and "\<not> float_lt cpu (rs_DefaultCPU (m_Resources m))"
    and "h_Path (m_Health m) = [] \<or> HasPrefix (h_Path (m_Health m)) ''/'' \<and> \<not> Contains (h_Path (m_Health m)) ''..''"
  shows "validateApp (manifestAppSpec m sha) cpu memory = None"
proof -
  have v: "identifier_re (m_ID m)" "check_runtime m = None" "check_service m = None"
    "check_storage [] (m_Storage m) = None" "check_capabilities (m_Capabilities m) = None"
    "check_resources m = None"
    using assms(1) by (simp_all add: Manifests.Validate_None)
  have rt: "pinnedImage (rt_Image (m_Runtime m))" "1024 \<le> rt_InternalPort (m_Runtime m)"
      "rt_InternalPort (m_Runtime m) \<le> 65535"
    using v(2) assms(2) by (auto simp: check_runtime_def Let_def split: if_splits)
  have envs: "\<forall>kv \<in> set (rt_Environment (m_Runtime m)). check_env kv = None"
    using v(3) assms(2) by (auto simp: check_service_def Let_def split: if_splits)
  have env: "\<forall>(k, v) \<in> set (rt_Environment (m_Runtime m)). k \<in> set worker_environment \<and> length v \<le> 512
      \<and> \<not> ContainsAny v [CHR 0x0D, CHR 0x0A, CHR 0x00]"
    using envs by (fastforce simp: check_env_def worker_environment_def allowedEnvironment_def split: if_splits)
  have st: "\<forall>s \<in> set (m_Storage m). validate_storage \<lparr>ss_Type = st_Type s, ss_Target = st_Target s,
      ss_OwnerUID = st_OwnerUID s, ss_OwnerGID = st_OwnerGID s\<rparr> = None"
    using v(4) by (auto simp: check_storage_None list_all_iff storage_ok_def validate_storage_def)
  have rs: "0 \<le> rs_ShmSizeMB (m_Resources m)" "rs_ShmSizeMB (m_Resources m) \<le> 2048"
    using v(6) by (auto simp: check_resources_def Let_def split: if_splits)
  show ?thesis
    unfolding validateApp_None app_confined_def manifestAppSpec_def
    using v(1,5) rt env st rs assms(3-8) by (simp add: check_capabilities_None)
qed

definition admitted_manifest :: Manifest where
  "admitted_manifest = sample_manifest\<lparr>m_Resources := \<lparr>rs_DefaultMemoryMB = 512, rs_DefaultCPU = Fin (1 / 2),
     rs_ShmSizeMB = 64\<rparr>\<rparr>"

theorem accepted_manifest_admitted_witness:
  "validateApp (manifestAppSpec admitted_manifest (replicate 64 (CHR ''a''))) (Fin 2) 1024 = None"
proof -
  have "Manifests.Validate (\<lambda>_. True) admitted_manifest ''d'' = None"
    "rt_Type (m_Runtime admitted_manifest) = ''container-service''" by code_simp+
  from accepted_manifest_admitted [OF this, of 1024 "Fin 2"] show ?thesis
    by (simp add: admitted_manifest_def sample_manifest_def zero_manifest_def)
qed

end
